(* ===== verification/Prelude.thy ===== *)
theory Prelude
  imports Complex_Main "HOL-Library.AList"
begin

text \<open>
  Shared vocabulary of the development.

  \<^item> Python values, exceptions and result types: \<open>pyval\<close>, \<open>py_exc\<close>, \<open>'a result\<close>.
  \<^item> Python's \<open>dict\<close> keeps insertion order, so a dictionary is an association list with
    distinct keys; assignment updates in place or appends (\<open>AList.update\<close>), \<open>pop\<close> and
    \<open>del\<close> filter (\<open>AList.delete\<close>).  The locale \<open>dictionary\<close> states the interface the
    components rely on and is interpreted on these operations.
  \<^item> \<open>Decimal\<close> and \<open>float\<close> quantities are exact rationals (\<open>rat\<close>): prices, quantities,
    fees, balances and time stamps.  The rounding of Python's decimal context (28 significant
    digits) and of binary floating point is not modelled.
  \<^item> The locales \<open>stepper\<close>, \<open>versioned\<close>, \<open>event_sourced\<close> and \<open>append_only\<close> hold the induction over sequences of operations
    that every stateful component needs once its single steps are known to be safe.
\<close>

section \<open>Simplification and introduction collections\<close>

named_theorems dict_simps \<open>facts about dictionary lookup and update\<close>
named_theorems policy_defs \<open>unfoldings of the pure decision functions\<close>

section \<open>Values, exceptions and results\<close>

type_synonym decimal = rat
type_synonym timestamp = rat

datatype pyval =
    PNone
  | PBool bool
  | PInt int
  | PNum rat
  | PStr string
  | PList "pyval list"
  | PDict "(string \<times> pyval) list"

datatype py_exc =
    ValueError
  | KeyError
  | IndexError
  | TypeError
  | RuntimeError
  | ZeroDivisionError
  | AttributeError
  | OverflowError
  | InterruptedError
  | NotImplementedError
  | RuntimeWarning

type_synonym 'a result = "py_exc + 'a"

definition res_bind :: "'a result \<Rightarrow> ('a \<Rightarrow> 'b result) \<Rightarrow> 'b result" where
  "res_bind r f = (case r of Inl e \<Rightarrow> Inl e | Inr x \<Rightarrow> f x)"

lemma res_bind_simps [simp]:
  "res_bind (Inl e) f = Inl e"
  "res_bind (Inr x) f = f x"
  by (simp_all add: res_bind_def)

lemma res_bind_InrE:
  assumes "res_bind r f = Inr y"
  obtains x where "r = Inr x" "f x = Inr y"
  using assms by (cases r) auto

lemma res_bind_eq_Inr:
  "res_bind r f = Inr y \<longleftrightarrow> (\<exists>x. r = Inr x \<and> f x = Inr y)"
  by (cases r) simp_all

section \<open>Strings\<close>

text \<open>\<open>str.upper()\<close> on ASCII text, \<open>str.split("_")[-1]\<close>, and the truth value of a string.\<close>

definition upper_char :: "char \<Rightarrow> char" where
  "upper_char c = (if 97 \<le> (of_char c :: nat) \<and> (of_char c :: nat) \<le> 122
                   then char_of ((of_char c :: nat) - 32) else c)"

definition upper :: "string \<Rightarrow> string" where
  "upper s = map upper_char s"

lemma upper_char_idem [simp]: "upper_char (upper_char c) = upper_char c"
proof -
  have "(of_char c :: nat) < 256" by simp
  then show ?thesis by (auto simp: upper_char_def)
qed

lemma upper_idem [simp]: "upper (upper s) = upper s"
  by (simp add: upper_def)

lemma upper_Nil_iff [simp]: "upper s = [] \<longleftrightarrow> s = []"
  by (simp add: upper_def)

definition last_segment :: "char \<Rightarrow> string \<Rightarrow> string" where
  "last_segment c s = rev (takeWhile (\<lambda>x. x \<noteq> c) (rev s))"

lemma last_segment_no_sep [simp]: "c \<notin> set (last_segment c s)"
  by (auto simp: last_segment_def dest: set_takeWhileD)

text \<open>
  Python's \<open>a or b\<close> on an optional string, list or dict: \<open>None\<close> and the empty value are
  false.
\<close>

definition py_or :: "'a list option \<Rightarrow> 'a list option \<Rightarrow> 'a list option" where
  "py_or a b = (case a of None \<Rightarrow> b | Some s \<Rightarrow> if s = [] then b else a)"

lemma py_or_simps [simp]:
  "py_or None b = b" "py_or (Some []) b = b" "py_or (Some (x # xs)) b = Some (x # xs)"
  by (simp_all add: py_or_def)

definition truthy :: "'a list option \<Rightarrow> bool" where
  "truthy a \<longleftrightarrow> (case a of None \<Rightarrow> False | Some s \<Rightarrow> s \<noteq> [])"

section \<open>Dictionaries\<close>

type_synonym ('k, 'v) dict = "('k \<times> 'v) list"

abbreviation dict_get :: "('k, 'v) dict \<Rightarrow> 'k \<Rightarrow> 'v option" where
  "dict_get d k \<equiv> map_of d k"

abbreviation dict_set :: "'k \<Rightarrow> 'v \<Rightarrow> ('k, 'v) dict \<Rightarrow> ('k, 'v) dict" where
  "dict_set k v d \<equiv> AList.update k v d"

abbreviation dict_del :: "'k \<Rightarrow> ('k, 'v) dict \<Rightarrow> ('k, 'v) dict" where
  "dict_del k d \<equiv> AList.delete k d"

abbreviation dict_keys :: "('k, 'v) dict \<Rightarrow> 'k list" where
  "dict_keys d \<equiv> map fst d"

abbreviation dict_values :: "('k, 'v) dict \<Rightarrow> 'v list" where
  "dict_values d \<equiv> map snd d"

definition dict_wf :: "('k, 'v) dict \<Rightarrow> bool" where
  "dict_wf d \<longleftrightarrow> distinct (dict_keys d)"

lemma dict_wf_Nil [simp]: "dict_wf []"
  by (simp add: dict_wf_def)

lemma dict_wf_set [simp]: "dict_wf d \<Longrightarrow> dict_wf (dict_set k v d)"
  by (simp add: dict_wf_def distinct_update)

lemma dict_wf_del [simp]: "dict_wf d \<Longrightarrow> dict_wf (dict_del k d)"
  by (simp add: dict_wf_def distinct_delete)

lemma dict_get_set [simp, dict_simps]:
  "dict_get (dict_set k v d) k' = (if k' = k then Some v else dict_get d k')"
  by (simp add: update_conv')

lemma dict_get_del [simp, dict_simps]:
  "dict_get (dict_del k d) k' = (if k' = k then None else dict_get d k')"
  by (simp add: delete_conv')

lemma dom_dict_set [simp, dict_simps]: "dom (map_of (dict_set k v d)) = insert k (dom (map_of d))"
  by (auto split: if_splits)

lemma dom_dict_del [simp, dict_simps]: "dom (map_of (dict_del k d)) = dom (map_of d) - {k}"
  by (auto split: if_splits)

lemma dict_wf_get_iff: "dict_wf d \<Longrightarrow> dict_get d k = Some v \<longleftrightarrow> (k, v) \<in> set d"
  by (simp add: dict_wf_def)

lemma dict_values_iff:
  "dict_wf d \<Longrightarrow> v \<in> set (dict_values d) \<longleftrightarrow> (\<exists>k. dict_get d k = Some v)"
  by (force simp: dict_wf_get_iff)

lemma dict_set_keys:
  "dict_keys (dict_set k v d) = (if k \<in> set (dict_keys d) then dict_keys d else dict_keys d @ [k])"
  by (simp add: update_keys)

lemma dict_values_set_subset: "set (dict_values (dict_set k v d)) \<subseteq> insert v (set (dict_values d))"
  by (induction d) auto

lemma dict_set_fresh: "dict_get d k = None \<Longrightarrow> dict_set k v d = d @ [(k, v)]"
  by (induction d) (auto split: if_splits)

lemma sum_dict_del:
  fixes d :: "('k, 'a::ab_group_add) dict"
  shows "dict_wf d \<Longrightarrow> dict_get d k = Some v \<Longrightarrow>
    sum_list (dict_values (dict_del k d)) = sum_list (dict_values d) - v"
proof (induction d)
  case (Cons kv d)
  show ?case
  proof (cases "fst kv = k")
    case True
    with Cons.prems have "k \<notin> fst ` set d" by (auto simp: dict_wf_def)
    with True Cons.prems show ?thesis by (cases kv) simp
  next
    case False
    with Cons show ?thesis by (cases kv) (simp add: dict_wf_def algebra_simps)
  qed
qed simp

lemma set_dict_del: "set (dict_del k d) \<subseteq> set d"
  by (induction d) auto

text \<open>Every stored value satisfies a predicate (also for a dictionary traversed in place).\<close>

definition dict_all :: "('v \<Rightarrow> bool) \<Rightarrow> ('k, 'v) dict \<Rightarrow> bool" where
  "dict_all P d \<longleftrightarrow> list_all (\<lambda>kv. P (snd kv)) d"

lemma dict_all_simps [simp]:
  "dict_all P []"
  "dict_all P (kv # d) \<longleftrightarrow> P (snd kv) \<and> dict_all P d"
  "dict_all P (d @ d') \<longleftrightarrow> dict_all P d \<and> dict_all P d'"
  by (simp_all add: dict_all_def)

lemma dict_all_set: "dict_all P d \<Longrightarrow> P v \<Longrightarrow> dict_all P (dict_set k v d)"
  by (induction d) auto

lemma dict_all_get: "dict_all P d \<Longrightarrow> dict_get d k = Some v \<Longrightarrow> P v"
  by (induction d) (auto split: if_splits)

lemma dict_all_map: "dict_all P d \<Longrightarrow> (\<And>k v. P v \<Longrightarrow> P (f k v)) \<Longrightarrow> dict_all P (map (\<lambda>(k, v). (k, f k v)) d)"
  by (induction d) auto

text \<open>The interface of a dictionary and what its clients derive from it.\<close>

locale dictionary =
  fixes empty :: 'd
    and get :: "'d \<Rightarrow> 'k \<Rightarrow> 'v option"
    and put :: "'k \<Rightarrow> 'v \<Rightarrow> 'd \<Rightarrow> 'd"
    and del :: "'k \<Rightarrow> 'd \<Rightarrow> 'd"
    and ok :: "'d \<Rightarrow> bool"
  assumes ok_empty: "ok empty"
    and ok_put: "ok d \<Longrightarrow> ok (put k v d)"
    and ok_del: "ok d \<Longrightarrow> ok (del k d)"
    and get_empty: "get empty k = None"
    and get_put: "get (put k v d) k' = (if k' = k then Some v else get d k')"
    and get_del: "get (del k d) k' = (if k' = k then None else get d k')"
begin

definition put_all :: "('k \<times> 'v) list \<Rightarrow> 'd \<Rightarrow> 'd" where
  "put_all kvs d = foldl (\<lambda>acc kv. put (fst kv) (snd kv) acc) d kvs"

lemma ok_put_all: "ok d \<Longrightarrow> ok (put_all kvs d)"
  unfolding put_all_def by (induction kvs arbitrary: d) (auto intro: ok_put)

text \<open>Writing a batch of entries: the last write of a key wins, other keys keep their value.\<close>

lemma get_put_all:
  "get (put_all kvs d) k = (case map_of (rev kvs) k of Some v \<Rightarrow> Some v | None \<Rightarrow> get d k)"
  unfolding put_all_def
  by (induction kvs arbitrary: d)
    (auto simp: get_put map_add_def split: option.splits)

lemma get_put_all_absent: "k \<notin> fst ` set kvs \<Longrightarrow> get (put_all kvs d) k = get d k"
  using map_of_eq_None_iff [of "rev kvs" k] by (simp add: get_put_all)

text \<open>An invariant of the stored values is kept by \<open>put\<close> of a good value and by \<open>del\<close>.\<close>

definition all_values :: "('k \<Rightarrow> 'v \<Rightarrow> bool) \<Rightarrow> 'd \<Rightarrow> bool" where
  "all_values P d \<longleftrightarrow> (\<forall>k v. get d k = Some v \<longrightarrow> P k v)"

lemma all_values_empty: "all_values P empty"
  by (simp add: all_values_def get_empty)

lemma all_values_put: "all_values P d \<Longrightarrow> P k v \<Longrightarrow> all_values P (put k v d)"
  by (auto simp: all_values_def get_put)

lemma all_values_del: "all_values P d \<Longrightarrow> all_values P (del k d)"
  by (auto simp: all_values_def get_del)

lemma all_valuesD: "all_values P d \<Longrightarrow> get d k = Some v \<Longrightarrow> P k v"
  by (auto simp: all_values_def)

end

interpretation pd: dictionary "[]" map_of AList.update AList.delete dict_wf
  by unfold_locales (auto simp: update_conv' delete_conv')

section \<open>Sequences of operations\<close>

text \<open>
  A component with an operation per event; \<open>run\<close> applies a sequence of events.  An invariant
  of the single operation is an invariant of every run.
\<close>

locale stepper =
  fixes step :: "'s \<Rightarrow> 'e \<Rightarrow> 's"
    and inv :: "'s \<Rightarrow> bool"
  assumes inv_step: "inv s \<Longrightarrow> inv (step s e)"
begin

lemma inv_run: "inv s \<Longrightarrow> inv (foldl step s es)"
  by (induction es arbitrary: s) (auto intro: inv_step)

lemma run_induct:
  assumes "inv s" and "P s"
    and "\<And>s e. inv s \<Longrightarrow> P s \<Longrightarrow> P (step s e)"
  shows "P (foldl step s es)"
  using assms(1,2)
  by (induction es arbitrary: s) (auto intro: assms(3) inv_step)

end

text \<open>A component whose version number never decreases under its invariant.\<close>

locale versioned = stepper +
  fixes version :: "'s \<Rightarrow> nat"
  assumes version_step: "inv s \<Longrightarrow> version s \<le> version (step s e)"
begin

lemma version_run: "inv s \<Longrightarrow> version s \<le> version (foldl step s es)"
proof (induction es arbitrary: s)
  case (Cons e es)
  then have "version s \<le> version (step s e)" by (simp add: version_step)
  also have "\<dots> \<le> version (foldl step (step s e) es)"
    using Cons by (simp add: inv_step)
  finally show ?case by simp
qed simp

lemma version_prefix: "inv s \<Longrightarrow> version (foldl step s es) \<le> version (foldl step s (es @ es'))"
  by (simp add: version_run inv_run)

end

text \<open>
  A component that announces its changes: a subscriber that applies the events of every operation
  to its own copy of the view ends up with the component's view.
\<close>

fun run_events :: "('s \<Rightarrow> 'o \<Rightarrow> 's \<times> 'e list) \<Rightarrow> 's \<Rightarrow> 'o list \<Rightarrow> 's \<times> 'e list" where
  "run_events step s [] = (s, [])"
| "run_events step s (op # ops) =
     (let (s', es) = step s op; (s'', es') = run_events step s' ops in (s'', es @ es'))"

lemma run_events_fst: "fst (run_events step s ops) = foldl (\<lambda>s op. fst (step s op)) s ops"
  by (induction ops arbitrary: s) (simp_all add: Let_def split_beta)

lemma run_events_invariant:
  assumes "P s" and "\<And>s op. op \<in> set ops \<Longrightarrow> P s \<Longrightarrow> P (fst (step s op))"
  shows "P (fst (run_events step s ops))"
  using assms by (induction ops arbitrary: s) (auto simp: Let_def split_beta)

lemma run_events_snd_all:
  assumes "\<And>s op. list_all P (snd (step s op))"
  shows "list_all P (snd (run_events step s ops))"
  using assms by (induction ops arbitrary: s) (auto simp: split_beta Let_def)

locale event_sourced =
  fixes step :: "'s \<Rightarrow> 'o \<Rightarrow> 's \<times> 'e list"
    and inv :: "'s \<Rightarrow> bool"
    and view :: "'s \<Rightarrow> 'v"
    and observe :: "'v \<Rightarrow> 'e \<Rightarrow> 'v"
  assumes inv_step: "inv s \<Longrightarrow> inv (fst (step s op))"
    and announced: "inv s \<Longrightarrow> foldl observe (view s) (snd (step s op)) = view (fst (step s op))"
begin

lemma inv_run: "inv s \<Longrightarrow> inv (fst (run_events step s ops))"
  by (induction ops arbitrary: s) (auto simp: Let_def split_beta inv_step)

lemma replay: "inv s \<Longrightarrow> foldl observe (view s) (snd (run_events step s ops)) = view (fst (run_events step s ops))"
  by (induction ops arbitrary: s) (auto simp: Let_def split_beta inv_step announced)

end

text \<open>
  A component whose recorded history only grows: admissible operations keep the invariant, and
  every operation leads to a state that extends the one before.
\<close>

locale append_only =
  fixes step :: "'s \<Rightarrow> 'o \<Rightarrow> 's"
    and admissible :: "'o \<Rightarrow> bool"
    and inv :: "'s \<Rightarrow> bool"
    and extends :: "'s \<Rightarrow> 's \<Rightarrow> bool"
  assumes inv_step: "inv s \<Longrightarrow> admissible op \<Longrightarrow> inv (step s op)"
    and extends_refl: "extends s s"
    and extends_trans: "extends s t \<Longrightarrow> extends t u \<Longrightarrow> extends s u"
    and extends_step: "extends s (step s op)"
begin

lemma inv_run: "inv s \<Longrightarrow> list_all admissible ops \<Longrightarrow> inv (foldl step s ops)"
  by (induction ops arbitrary: s) (simp_all add: inv_step)

lemma extends_run: "extends s (foldl step s ops)"
proof (induction ops arbitrary: s)
  case (Cons op ops)
  show ?case by (simp, rule extends_trans [OF extends_step Cons])
qed (simp add: extends_refl)

lemma extends_later: "extends (foldl step s ops) (foldl step s (ops @ ops'))"
  by (simp add: extends_run)

end

text \<open>
  A component of which one value summarises all the input it received so far: \<open>inputs_of\<close> collects
  what the operations of a run received, and the value after the run is the summary of it.
\<close>

fun inputs_of :: "('s \<Rightarrow> 'o \<Rightarrow> 's) \<Rightarrow> ('s \<Rightarrow> 'o \<Rightarrow> 'a list) \<Rightarrow> 's \<Rightarrow> 'o list \<Rightarrow> 'a list" where
  "inputs_of step received s [] = []"
| "inputs_of step received s (op # ops) = received s op @ inputs_of step received (step s op) ops"

locale summarised =
  fixes step :: "'s \<Rightarrow> 'o \<Rightarrow> 's"
    and received :: "'s \<Rightarrow> 'o \<Rightarrow> 'a list"
    and value_of :: "'s \<Rightarrow> 'v"
    and summary :: "'a list \<Rightarrow> 'v"
  assumes step_summary: "value_of s = summary xs \<Longrightarrow> value_of (step s op) = summary (xs @ received s op)"
begin

lemma run_summary:
  "value_of s = summary xs \<Longrightarrow> value_of (foldl step s ops) = summary (xs @ inputs_of step received s ops)"
proof (induction ops arbitrary: s xs)
  case (Cons op ops)
  show ?case using Cons.IH [OF step_summary [OF Cons.prems]] by simp
qed simp

lemma run_summary_initial:
  "value_of s = summary [] \<Longrightarrow> value_of (foldl step s ops) = summary (inputs_of step received s ops)"
  using run_summary [of s "[]" ops] by simp

end

section \<open>List and option helpers\<close>

lemma foldl_invariant:
  assumes "P a" and "\<And>a x. x \<in> set xs \<Longrightarrow> P a \<Longrightarrow> P (f a x)"
  shows "P (foldl f a xs)"
  using assms by (induction xs arbitrary: a) auto

lemma foldl_add_sum_list: "foldl (\<lambda>a x. a + f x) (b::'a::comm_monoid_add) xs = b + sum_list (map f xs)"
  by (induction xs arbitrary: b) (simp_all add: add.assoc)

lemma find_Some_mem: "find P xs = Some x \<Longrightarrow> x \<in> set xs \<and> P x"
  by (auto simp: find_Some_iff)

definition opt_or :: "'a option \<Rightarrow> 'a \<Rightarrow> 'a" where
  "opt_or o1 d = (case o1 of None \<Rightarrow> d | Some x \<Rightarrow> x)"

lemma opt_or_simps [simp]: "opt_or None d = d" "opt_or (Some x) d = x"
  by (simp_all add: opt_or_def)

end
