(* ===== verification/Health.thy ===== *)
theory Health
  imports Prelude
begin

text \<open>
  The trading-health subsystem (\<open>src/src/trading/health/\<close>, \<open>src/src/core/severity.py\<close>):
  observations about exchanges, market data, balances and risk limits are recorded as active
  conditions, a state machine moves between the nine health states, and a permission policy
  derives from state and conditions what the trading engine may do.  Locks are left out: every
  public method runs under a lock, so a method is one atomic step.  The event bus is the list of
  published events \<open>hm_outbox\<close>; \<open>datetime\<close> values are time stamps, and the clock
  reading of a method that calls \<open>datetime.now\<close> is an argument.  \<open>metadata\<close> dictionaries
  are only copied and compared, so they are maps (equality of Python dicts ignores order).
\<close>

section \<open>Enumerations and data\<close>

datatype health_state =
    STARTING | SYNCING | READY | TRADING | DEGRADED | PAUSED | RECOVERING | STOPPING | STOPPED

datatype health_condition =
    EXCHANGE_UNAVAILABLE
  | MARKET_DATA_STALE
  | BALANCE_MISMATCH
  | ORDER_RECONCILIATION_FAILED
  | DATABASE_UNAVAILABLE
  | RISK_LIMIT_BREACHED
  | CONFIG_INVALID

datatype scope_type = GLOBAL | EXCHANGE | QUOTE_PORTFOLIO | ASSET

datatype trading_permission =
    NEW_ORDERS | MODIFY_ORDERS | CANCEL_ORDERS | REDUCE_POSITIONS | CLOSE_POSITIONS

datatype severity = DEBUG | INFO | WARNING | ERROR | CRITICAL | FATAL

definition is_critical_or_higher :: "severity \<Rightarrow> bool" where
  "is_critical_or_higher s \<longleftrightarrow> s \<in> {CRITICAL, FATAL}"

record health_scope =
  sc_type :: scope_type
  sc_identifier :: string

definition global_scope :: health_scope where
  "global_scope = \<lparr>sc_type = GLOBAL, sc_identifier = ''GLOBAL''\<rparr>"

definition exchange_scope :: "string \<Rightarrow> health_scope" where
  "exchange_scope n = \<lparr>sc_type = EXCHANGE, sc_identifier = n\<rparr>"

definition quote_portfolio_scope :: "string \<Rightarrow> health_scope" where
  "quote_portfolio_scope k = \<lparr>sc_type = QUOTE_PORTFOLIO, sc_identifier = k\<rparr>"

definition asset_scope :: "string \<Rightarrow> health_scope" where
  "asset_scope t = \<lparr>sc_type = ASSET, sc_identifier = t\<rparr>"

definition matches_target ::
  "health_scope \<Rightarrow> health_scope \<Rightarrow> string option \<Rightarrow> string option \<Rightarrow> bool" where
  "matches_target self target exchange_name quote_portfolio_key =
     (case sc_type self of
        GLOBAL \<Rightarrow> True
      | EXCHANGE \<Rightarrow>
          (if sc_type target = EXCHANGE then sc_identifier self = sc_identifier target
           else (case exchange_name of
                   Some n \<Rightarrow> sc_identifier self = n
                 | None \<Rightarrow> False))
      | QUOTE_PORTFOLIO \<Rightarrow>
          (if sc_type target = QUOTE_PORTFOLIO then sc_identifier self = sc_identifier target
           else (case quote_portfolio_key of
                   Some k \<Rightarrow> sc_identifier self = k
                 | None \<Rightarrow> False))
      | ASSET \<Rightarrow> sc_type target = ASSET \<and> sc_identifier self = sc_identifier target)"

record health_observation =
  ob_source :: string
  ob_condition :: health_condition
  ob_scope :: health_scope
  ob_healthy :: bool
  ob_observed_at :: timestamp
  ob_severity :: severity
  ob_measured_value :: pyval
  ob_threshold :: pyval
  ob_metadata :: "string \<rightharpoonup> pyval"

record active_condition =
  ac_condition :: health_condition
  ac_scope :: health_scope
  ac_severity :: severity
  ac_first_detected_at :: timestamp
  ac_last_observed_at :: timestamp
  ac_measured_value :: pyval
  ac_threshold :: pyval
  ac_consecutive_healthy_checks :: nat
  ac_metadata :: "string \<rightharpoonup> pyval"

section \<open>Recovery policy\<close>

record recovery_config =
  rc_automatic :: bool
  rc_stable_period_seconds :: rat
  rc_required_successful_checks :: int

definition default_recovery_config :: recovery_config where
  "default_recovery_config =
     \<lparr>rc_automatic = True, rc_stable_period_seconds = 10, rc_required_successful_checks = 3\<rparr>"

definition can_resolve :: "recovery_config \<Rightarrow> active_condition \<Rightarrow> timestamp \<Rightarrow> bool" where
  "can_resolve cfg c current_time =
     (if ac_severity c = FATAL then False
      else if \<not> rc_automatic cfg then False
      else if int (ac_consecutive_healthy_checks c) < rc_required_successful_checks cfg then False
      else current_time - ac_last_observed_at c \<ge> 0)"

section \<open>Condition registry\<close>

type_synonym condition_key = "health_condition \<times> scope_type \<times> string"

record condition_registry =
  cr_recovery_policy :: recovery_config
  cr_active_conditions :: "(condition_key, active_condition) dict"

definition make_key :: "health_condition \<Rightarrow> health_scope \<Rightarrow> condition_key" where
  "make_key c s = (c, sc_type s, sc_identifier s)"

definition new_condition :: "health_observation \<Rightarrow> active_condition" where
  "new_condition ob =
     \<lparr>ac_condition = ob_condition ob, ac_scope = ob_scope ob, ac_severity = ob_severity ob,
      ac_first_detected_at = ob_observed_at ob, ac_last_observed_at = ob_observed_at ob,
      ac_measured_value = ob_measured_value ob, ac_threshold = ob_threshold ob,
      ac_consecutive_healthy_checks = 0, ac_metadata = ob_metadata ob\<rparr>"

definition reobserved_condition :: "active_condition \<Rightarrow> health_observation \<Rightarrow> active_condition" where
  "reobserved_condition existing ob =
     \<lparr>ac_condition = ac_condition existing, ac_scope = ac_scope existing,
      ac_severity = ob_severity ob,
      ac_first_detected_at = ac_first_detected_at existing,
      ac_last_observed_at = ob_observed_at ob,
      ac_measured_value = ob_measured_value ob, ac_threshold = ob_threshold ob,
      ac_consecutive_healthy_checks = 0, ac_metadata = ob_metadata ob\<rparr>"

definition healthier_condition :: "active_condition \<Rightarrow> health_observation \<Rightarrow> active_condition" where
  "healthier_condition existing ob =
     \<lparr>ac_condition = ac_condition existing, ac_scope = ac_scope existing,
      ac_severity = ac_severity existing,
      ac_first_detected_at = ac_first_detected_at existing,
      ac_last_observed_at = ob_observed_at ob,
      ac_measured_value = ob_measured_value ob, ac_threshold = ob_threshold ob,
      ac_consecutive_healthy_checks = ac_consecutive_healthy_checks existing + 1,
      ac_metadata = ac_metadata existing\<rparr>"

text \<open>The result is the new registry and \<open>(changed, detected_condition, resolved_condition)\<close>.\<close>

definition record_observation ::
  "condition_registry \<Rightarrow> health_observation \<Rightarrow>
     condition_registry \<times> bool \<times> active_condition option \<times> active_condition option" where
  "record_observation reg ob =
     (let key = make_key (ob_condition ob) (ob_scope ob);
          conds = cr_active_conditions reg;
          store = (\<lambda>c. reg\<lparr>cr_active_conditions := dict_set key c conds\<rparr>)
      in case dict_get conds key of
           None \<Rightarrow>
             (if \<not> ob_healthy ob
              then (store (new_condition ob), True, Some (new_condition ob), None)
              else (reg, False, None, None))
         | Some existing \<Rightarrow>
             (if \<not> ob_healthy ob
              then (store (reobserved_condition existing ob), False, None, None)
              else let updated = healthier_condition existing ob
                   in if can_resolve (cr_recovery_policy reg) updated (ob_observed_at ob)
                      then (reg\<lparr>cr_active_conditions := dict_del key conds\<rparr>, True, None, Some updated)
                      else (store updated, False, None, None)))"

definition resolve_manually ::
  "condition_registry \<Rightarrow> health_condition \<Rightarrow> health_scope \<Rightarrow>
     condition_registry \<times> active_condition option" where
  "resolve_manually reg c s =
     (let key = make_key c s
      in case dict_get (cr_active_conditions reg) key of
           Some ac \<Rightarrow> (reg\<lparr>cr_active_conditions := dict_del key (cr_active_conditions reg)\<rparr>, Some ac)
         | None \<Rightarrow> (reg, None))"

definition get_active_conditions :: "condition_registry \<Rightarrow> active_condition list" where
  "get_active_conditions reg = dict_values (cr_active_conditions reg)"

definition registry_clear :: "condition_registry \<Rightarrow> condition_registry" where
  "registry_clear reg = reg\<lparr>cr_active_conditions := []\<rparr>"

section \<open>Transition policy\<close>

definition has_critical_global :: "active_condition list \<Rightarrow> bool" where
  "has_critical_global cs \<longleftrightarrow>
     list_ex (\<lambda>c. is_critical_or_higher (ac_severity c) \<and> sc_type (ac_scope c) = GLOBAL) cs"

definition has_any_critical :: "active_condition list \<Rightarrow> bool" where
  "has_any_critical cs \<longleftrightarrow> list_ex (\<lambda>c. is_critical_or_higher (ac_severity c)) cs"

definition validate_manual_transition ::
  "health_state \<Rightarrow> health_state \<Rightarrow> active_condition list \<Rightarrow> health_state" where
  "validate_manual_transition current requested cs =
     (case requested of
        PAUSED \<Rightarrow> PAUSED
      | STOPPING \<Rightarrow> STOPPING
      | STOPPED \<Rightarrow> STOPPED
      | SYNCING \<Rightarrow> if current = STARTING then SYNCING else current
      | READY \<Rightarrow> if current \<in> {STARTING, SYNCING} then READY else current
      | TRADING \<Rightarrow>
          if has_any_critical cs then PAUSED
          else if length cs > 0 then DEGRADED
          else TRADING
      | RECOVERING \<Rightarrow> RECOVERING
      | _ \<Rightarrow> current)"

definition evaluate_transition ::
  "health_state \<Rightarrow> active_condition list \<Rightarrow> health_state option \<Rightarrow> health_state" where
  "evaluate_transition current cs manual_override =
     (case manual_override of
        Some requested \<Rightarrow> validate_manual_transition current requested cs
      | None \<Rightarrow>
          (if current \<in> {STARTING, STOPPING, STOPPED} then current
           else case current of
             TRADING \<Rightarrow>
               if has_critical_global cs then PAUSED
               else if length cs > 0 then DEGRADED
               else TRADING
           | DEGRADED \<Rightarrow>
               if has_critical_global cs then PAUSED
               else if \<not> length cs > 0 then TRADING
               else DEGRADED
           | PAUSED \<Rightarrow>
               if \<not> has_critical_global cs \<and> \<not> has_any_critical cs then RECOVERING
               else PAUSED
           | RECOVERING \<Rightarrow>
               if has_critical_global cs then PAUSED
               else if \<not> length cs > 0 then TRADING
               else if \<not> has_any_critical cs then DEGRADED
               else RECOVERING
           | READY \<Rightarrow>
               if has_critical_global cs then PAUSED
               else if length cs > 0 then DEGRADED
               else READY
           | SYNCING \<Rightarrow>
               if has_critical_global cs then PAUSED
               else SYNCING
           | _ \<Rightarrow> current))"

section \<open>Permission policy\<close>

definition ALL_PERMISSIONS :: "trading_permission set" where
  "ALL_PERMISSIONS = {NEW_ORDERS, MODIFY_ORDERS, CANCEL_ORDERS, REDUCE_POSITIONS, CLOSE_POSITIONS}"

definition SAFE_SHUTDOWN_PERMISSIONS :: "trading_permission set" where
  "SAFE_SHUTDOWN_PERMISSIONS = {CANCEL_ORDERS, REDUCE_POSITIONS, CLOSE_POSITIONS}"

definition RECOVERY_PERMISSIONS :: "trading_permission set" where
  "RECOVERY_PERMISSIONS = {CANCEL_ORDERS, REDUCE_POSITIONS}"

definition discard_for :: "trading_permission set \<Rightarrow> active_condition \<Rightarrow> trading_permission set" where
  "discard_for ps c =
     (case ac_condition c of
        MARKET_DATA_STALE \<Rightarrow> ps - {NEW_ORDERS, MODIFY_ORDERS, CLOSE_POSITIONS}
      | BALANCE_MISMATCH \<Rightarrow> ps - {NEW_ORDERS, MODIFY_ORDERS}
      | ORDER_RECONCILIATION_FAILED \<Rightarrow> ps - {NEW_ORDERS, MODIFY_ORDERS}
      | DATABASE_UNAVAILABLE \<Rightarrow> ps - {NEW_ORDERS, MODIFY_ORDERS}
      | CONFIG_INVALID \<Rightarrow> ps - {NEW_ORDERS, MODIFY_ORDERS}
      | RISK_LIMIT_BREACHED \<Rightarrow> ps - {NEW_ORDERS, MODIFY_ORDERS}
      | EXCHANGE_UNAVAILABLE \<Rightarrow> ps)"

definition evaluate_permissions ::
  "health_state \<Rightarrow> active_condition list \<Rightarrow> health_scope option \<Rightarrow> string option \<Rightarrow>
     string option \<Rightarrow> trading_permission set" where
  "evaluate_permissions st cs target_scope exchange_name quote_portfolio_key =
     (if st \<in> {STARTING, SYNCING, READY, STOPPED} then {}
      else
        let eval_scope = opt_or target_scope global_scope;
            matches = (\<lambda>c. matches_target (ac_scope c) eval_scope exchange_name quote_portfolio_key);
            is_exchange_down = list_ex (\<lambda>c. ac_condition c = EXCHANGE_UNAVAILABLE \<and> matches c) cs
        in if st = STOPPING then (if is_exchange_down then {} else SAFE_SHUTDOWN_PERMISSIONS)
           else if st = PAUSED then (if is_exchange_down then {} else RECOVERY_PERMISSIONS)
           else if st = RECOVERING then (if is_exchange_down then {} else RECOVERY_PERMISSIONS)
           else
             let matching = filter matches cs
             in if matching = [] then ALL_PERMISSIONS
                else if is_exchange_down then {}
                else foldl discard_for ALL_PERMISSIONS matching)"

section \<open>State machine\<close>

record health_snapshot =
  hs_state :: health_state
  hs_active_conditions :: "active_condition list"
  hs_effective_permissions :: "trading_permission set"
  hs_version :: nat
  hs_updated_at :: timestamp

record health_state_machine =
  sm_state :: health_state
  sm_version :: nat
  sm_snapshot :: health_snapshot

definition build_snapshot ::
  "health_state \<Rightarrow> active_condition list \<Rightarrow> nat \<Rightarrow> timestamp \<Rightarrow> health_snapshot" where
  "build_snapshot st cs v now =
     \<lparr>hs_state = st, hs_active_conditions = cs,
      hs_effective_permissions = evaluate_permissions st cs (Some global_scope) None None,
      hs_version = v, hs_updated_at = now\<rparr>"

definition init_state_machine :: "health_state \<Rightarrow> timestamp \<Rightarrow> health_state_machine" where
  "init_state_machine st now =
     \<lparr>sm_state = st, sm_version = 1, sm_snapshot = build_snapshot st [] 1 now\<rparr>"

definition sm_update ::
  "health_state_machine \<Rightarrow> active_condition list \<Rightarrow> health_state option \<Rightarrow> timestamp \<Rightarrow>
     health_state_machine \<times> bool" where
  "sm_update sm cs manual_override now =
     (let next_state = evaluate_transition (sm_state sm) cs manual_override;
          state_changed = (next_state \<noteq> sm_state sm);
          conditions_changed = (cs \<noteq> hs_active_conditions (sm_snapshot sm))
      in if state_changed \<or> conditions_changed
         then (\<lparr>sm_state = next_state, sm_version = sm_version sm + 1,
                sm_snapshot = build_snapshot next_state cs (sm_version sm + 1) now\<rparr>, True)
         else (sm, False))"

definition evaluate_scope_permissions ::
  "health_state_machine \<Rightarrow> health_scope \<Rightarrow> string option \<Rightarrow> string option \<Rightarrow>
     trading_permission set" where
  "evaluate_scope_permissions sm scope exchange_name quote_portfolio_key =
     evaluate_permissions (sm_state sm) (hs_active_conditions (sm_snapshot sm)) (Some scope)
       exchange_name quote_portfolio_key"

section \<open>Health monitor\<close>

datatype health_event =
    ConditionDetected health_condition scope_type string severity pyval pyval timestamp
  | ConditionResolved health_condition scope_type string nat timestamp
  | StateChanged health_state health_state nat nat timestamp
  | PermissionsChanged health_state "trading_permission set" nat timestamp

record health_monitor =
  hm_registry :: condition_registry
  hm_machine :: health_state_machine
  hm_outbox :: "health_event list"

definition create_monitor :: "recovery_config \<Rightarrow> health_state \<Rightarrow> timestamp \<Rightarrow> health_monitor" where
  "create_monitor cfg st now =
     \<lparr>hm_registry = \<lparr>cr_recovery_policy = cfg, cr_active_conditions = []\<rparr>,
      hm_machine = init_state_machine st now, hm_outbox = []\<rparr>"

definition detected_event :: "active_condition \<Rightarrow> timestamp \<Rightarrow> health_event" where
  "detected_event c ts =
     ConditionDetected (ac_condition c) (sc_type (ac_scope c)) (sc_identifier (ac_scope c))
       (ac_severity c) (ac_measured_value c) (ac_threshold c) ts"

definition resolved_event :: "active_condition \<Rightarrow> timestamp \<Rightarrow> health_event" where
  "resolved_event c ts =
     ConditionResolved (ac_condition c) (sc_type (ac_scope c)) (sc_identifier (ac_scope c))
       (ac_consecutive_healthy_checks c) ts"

definition snapshot_change_events ::
  "health_snapshot \<Rightarrow> health_snapshot \<Rightarrow> timestamp \<Rightarrow> health_event list" where
  "snapshot_change_events prev new ts =
     (if hs_state prev \<noteq> hs_state new
      then [StateChanged (hs_state prev) (hs_state new) (hs_version new)
              (length (hs_active_conditions new)) ts] else [])
     @ (if hs_effective_permissions prev \<noteq> hs_effective_permissions new
        then [PermissionsChanged (hs_state new) (hs_effective_permissions new) (hs_version new) ts]
        else [])"

text \<open>
  The tail shared by \<open>report_observation\<close>, \<open>set_state\<close> and \<open>resolve_condition\<close>: the
  machine is updated from the registry's conditions and a change is published.
\<close>

definition refresh_machine ::
  "health_monitor \<Rightarrow> health_state option \<Rightarrow> timestamp \<Rightarrow> timestamp \<Rightarrow> health_monitor" where
  "refresh_machine hm manual_override ts now =
     (let prev_snapshot = sm_snapshot (hm_machine hm);
          (sm', has_changed) =
            sm_update (hm_machine hm) (get_active_conditions (hm_registry hm)) manual_override now
      in hm\<lparr>hm_machine := sm',
            hm_outbox := hm_outbox hm
              @ (if has_changed then snapshot_change_events prev_snapshot (sm_snapshot sm') ts
                 else [])\<rparr>)"

definition report_observation ::
  "health_monitor \<Rightarrow> health_observation \<Rightarrow> timestamp \<Rightarrow> health_monitor" where
  "report_observation hm ob now =
     (let (reg', _, detected, resolved) = record_observation (hm_registry hm) ob;
          now_ts = ob_observed_at ob;
          events = (case detected of Some c \<Rightarrow> [detected_event c now_ts] | None \<Rightarrow> [])
                 @ (case resolved of Some c \<Rightarrow> [resolved_event c now_ts] | None \<Rightarrow> [])
      in refresh_machine (hm\<lparr>hm_registry := reg', hm_outbox := hm_outbox hm @ events\<rparr>)
           None now_ts now)"

definition set_state ::
  "health_monitor \<Rightarrow> health_state \<Rightarrow> timestamp option \<Rightarrow> timestamp \<Rightarrow> health_monitor" where
  "set_state hm target_state current_time now =
     refresh_machine hm (Some target_state) (opt_or current_time now) now"

definition resolve_condition ::
  "health_monitor \<Rightarrow> health_condition \<Rightarrow> health_scope \<Rightarrow> timestamp option \<Rightarrow> timestamp \<Rightarrow>
     health_monitor" where
  "resolve_condition hm c s current_time now =
     (let now_ts = opt_or current_time now;
          (reg', resolved) = resolve_manually (hm_registry hm) c s;
          events = (case resolved of Some ac \<Rightarrow> [resolved_event ac now_ts] | None \<Rightarrow> [])
      in refresh_machine (hm\<lparr>hm_registry := reg', hm_outbox := hm_outbox hm @ events\<rparr>)
           None now_ts now)"

definition has_permission ::
  "health_monitor \<Rightarrow> health_scope \<Rightarrow> trading_permission \<Rightarrow> string option \<Rightarrow> string option \<Rightarrow> bool"
where
  "has_permission hm scope permission exchange_name quote_portfolio_key \<longleftrightarrow>
     permission \<in> evaluate_scope_permissions (hm_machine hm) scope exchange_name quote_portfolio_key"


section \<open>Steps of the monitor\<close>

text \<open>
  Every public method that changes the monitor is one step; \<open>monitor_reach\<close> are the monitors
  a process can hold after \<open>HealthMonitor.create\<close> and any sequence of calls.
\<close>

datatype monitor_op =
    ReportObservation health_observation timestamp
  | SetState health_state "timestamp option" timestamp
  | ResolveCondition health_condition health_scope "timestamp option" timestamp

fun monitor_step :: "health_monitor \<Rightarrow> monitor_op \<Rightarrow> health_monitor" where
  "monitor_step hm (ReportObservation ob now) = report_observation hm ob now"
| "monitor_step hm (SetState st ct now) = set_state hm st ct now"
| "monitor_step hm (ResolveCondition c s ct now) = resolve_condition hm c s ct now"

inductive monitor_reach :: "health_state \<Rightarrow> health_monitor \<Rightarrow> bool" for st0 where
  created: "monitor_reach st0 (create_monitor cfg st0 now)"
| stepped: "monitor_reach st0 hm \<Longrightarrow> monitor_reach st0 (monitor_step hm op)"

section \<open>The registry\<close>

definition registry_inv :: "condition_registry \<Rightarrow> bool" where
  "registry_inv reg \<longleftrightarrow>
     dict_wf (cr_active_conditions reg) \<and>
     pd.all_values (\<lambda>k c. k = make_key (ac_condition c) (ac_scope c)) (cr_active_conditions reg)"

lemma observed_condition_fields [simp]:
  "ac_condition (new_condition ob) = ob_condition ob"
  "ac_scope (new_condition ob) = ob_scope ob"
  "ac_severity (new_condition ob) = ob_severity ob"
  "ac_consecutive_healthy_checks (new_condition ob) = 0"
  "ac_condition (reobserved_condition c ob) = ac_condition c"
  "ac_scope (reobserved_condition c ob) = ac_scope c"
  "ac_condition (healthier_condition c ob) = ac_condition c"
  "ac_scope (healthier_condition c ob) = ac_scope c"
  "ac_severity (healthier_condition c ob) = ac_severity c"
  "ac_consecutive_healthy_checks (healthier_condition c ob) = ac_consecutive_healthy_checks c + 1"
  "ac_last_observed_at (healthier_condition c ob) = ob_observed_at ob"
  by (simp_all add: new_condition_def reobserved_condition_def healthier_condition_def)

lemma record_observation_policy [simp]:
  "cr_recovery_policy (fst (record_observation reg ob)) = cr_recovery_policy reg"
  by (simp add: record_observation_def Let_def split: option.split)

lemma resolve_manually_policy [simp]:
  "cr_recovery_policy (fst (resolve_manually reg c s)) = cr_recovery_policy reg"
  by (simp add: resolve_manually_def Let_def split: option.split)

lemma registry_inv_record: "registry_inv reg \<Longrightarrow> registry_inv (fst (record_observation reg ob))"
  by (auto simp: registry_inv_def record_observation_def Let_def
      intro!: pd.all_values_put pd.all_values_del dest: pd.all_valuesD split: option.split)

lemma registry_inv_resolve: "registry_inv reg \<Longrightarrow> registry_inv (fst (resolve_manually reg c s))"
  by (auto simp: registry_inv_def resolve_manually_def Let_def
      intro!: pd.all_values_del split: option.split)

lemma registry_inv_key:
  "registry_inv reg \<Longrightarrow> dict_get (cr_active_conditions reg) k = Some c \<Longrightarrow>
   make_key (ac_condition c) (ac_scope c) = k"
  using pd.all_valuesD [of "\<lambda>k c. k = make_key (ac_condition c) (ac_scope c)"
      "cr_active_conditions reg" k c]
  by (simp add: registry_inv_def)

lemma get_active_conditions_iff:
  "registry_inv reg \<Longrightarrow>
   c \<in> set (get_active_conditions reg) \<longleftrightarrow>
   dict_get (cr_active_conditions reg) (make_key (ac_condition c) (ac_scope c)) = Some c"
  unfolding get_active_conditions_def registry_inv_def pd.all_values_def
  by (subst dict_values_iff) blast+

text \<open>Because the registry stamps the condition with the observation's own time, the stable
  period of the recovery configuration plays no role in the decision.\<close>

lemma can_resolve_healthier:
  "can_resolve cfg (healthier_condition c ob) (ob_observed_at ob) \<longleftrightarrow>
     ac_severity c \<noteq> FATAL \<and> rc_automatic cfg \<and>
     rc_required_successful_checks cfg \<le> int (ac_consecutive_healthy_checks c) + 1"
  by (auto simp: can_resolve_def)

definition observe_all :: "condition_registry \<Rightarrow> health_observation list \<Rightarrow> condition_registry" where
  "observe_all reg obs = foldl (\<lambda>r ob. fst (record_observation r ob)) reg obs"

lemma observe_all_Nil [simp]: "observe_all reg [] = reg"
  by (simp add: observe_all_def)

lemma observe_all_Cons [simp]:
  "observe_all reg (ob # obs) = observe_all (fst (record_observation reg ob)) obs"
  by (simp add: observe_all_def)

definition healthy_for :: "condition_key \<Rightarrow> health_observation \<Rightarrow> bool" where
  "healthy_for key ob \<longleftrightarrow> ob_healthy ob \<and> make_key (ob_condition ob) (ob_scope ob) = key"

lemma record_healthy_absent:
  assumes "healthy_for key ob" and "dict_get (cr_active_conditions reg) key = None"
  shows "fst (record_observation reg ob) = reg"
  using assms by (simp add: record_observation_def healthy_for_def Let_def)

lemma observe_healthy_absent:
  "\<forall>ob\<in>set obs. healthy_for key ob \<Longrightarrow> dict_get (cr_active_conditions reg) key = None \<Longrightarrow>
   observe_all reg obs = reg"
  by (induction obs) (simp_all add: record_healthy_absent [of key])

lemma record_healthy_present:
  assumes "healthy_for key ob" and "dict_get (cr_active_conditions reg) key = Some c"
  shows "dict_get (cr_active_conditions (fst (record_observation reg ob))) key =
    (if ac_severity c \<noteq> FATAL \<and> rc_automatic (cr_recovery_policy reg) \<and>
        rc_required_successful_checks (cr_recovery_policy reg)
          \<le> int (ac_consecutive_healthy_checks c) + 1
     then None else Some (healthier_condition c ob))"
  using assms
  by (auto simp: record_observation_def healthy_for_def Let_def can_resolve_healthier)

lemma observe_healthy_iff:
  assumes "\<forall>ob\<in>set obs. healthy_for key ob"
    and "dict_get (cr_active_conditions reg) key = Some c"
  shows "dict_get (cr_active_conditions (observe_all reg obs)) key = None \<longleftrightarrow>
    ac_severity c \<noteq> FATAL \<and> rc_automatic (cr_recovery_policy reg) \<and> obs \<noteq> [] \<and>
    rc_required_successful_checks (cr_recovery_policy reg)
      \<le> int (ac_consecutive_healthy_checks c) + int (length obs)"
  using assms
proof (induction obs arbitrary: reg c)
  case Nil
  then show ?case by simp
next
  case (Cons ob obs)
  let ?reg = "fst (record_observation reg ob)"
  have here: "healthy_for key ob" and rest: "\<forall>ob\<in>set obs. healthy_for key ob"
    using Cons.prems by auto
  note after = record_healthy_present [OF here Cons.prems(2)]
  show ?case
  proof (cases "dict_get (cr_active_conditions ?reg) key")
    case None
    with after observe_healthy_absent [OF rest None] show ?thesis
      by (auto split: if_splits)
  next
    case (Some d)
    with after have d: "d = healthier_condition c ob" by (auto split: if_splits)
    show ?thesis
      using after Some Cons.IH [OF rest Some] by (cases obs) (auto simp: d split: if_splits)
  qed
qed

section \<open>Transitions and permissions\<close>

lemma automatic_TRADING: "evaluate_transition st cs None = TRADING \<Longrightarrow> cs = []"
  by (cases st) (auto simp: evaluate_transition_def split: if_splits)

lemma automatic_not_critical:
  "evaluate_transition st cs None \<in> {TRADING, DEGRADED} \<Longrightarrow> \<not> has_critical_global cs"
  by (cases st) (auto simp: evaluate_transition_def has_critical_global_def split: if_splits)

lemma critical_global_any: "has_critical_global cs \<Longrightarrow> has_any_critical cs"
  by (auto simp: has_critical_global_def has_any_critical_def list_ex_iff)

lemma manual_TRADING:
  "evaluate_transition st cs (Some req) = TRADING \<Longrightarrow> cs = [] \<or> st = TRADING"
  by (cases req) (auto simp: evaluate_transition_def validate_manual_transition_def split: if_splits)

lemma manual_not_critical:
  "evaluate_transition st cs (Some req) \<in> {TRADING, DEGRADED} \<Longrightarrow>
   \<not> has_any_critical cs \<or> st \<in> {TRADING, DEGRADED}"
  by (cases req) (auto simp: evaluate_transition_def validate_manual_transition_def split: if_splits)

lemma discard_for_subset: "discard_for ps c \<subseteq> ps"
  by (auto simp: discard_for_def split: health_condition.split)

lemma foldl_discard_subset: "foldl discard_for ps cs \<subseteq> ps"
  by (induction cs arbitrary: ps) (use discard_for_subset in fastforce)+

lemma discard_NEW_ORDERS:
  "ac_condition c \<noteq> EXCHANGE_UNAVAILABLE \<Longrightarrow> NEW_ORDERS \<notin> discard_for ps c"
  by (auto simp: discard_for_def split: health_condition.split)

lemma foldl_discard_NEW_ORDERS:
  assumes "cs \<noteq> []" and "\<forall>c\<in>set cs. ac_condition c \<noteq> EXCHANGE_UNAVAILABLE"
  shows "NEW_ORDERS \<notin> foldl discard_for ps cs"
  using assms discard_NEW_ORDERS foldl_discard_subset by (cases cs) fastforce+

lemma filter_discard_NEW_ORDERS:
  assumes "x \<in> set cs" and "P x" and "\<forall>c\<in>set cs. ac_condition c = EXCHANGE_UNAVAILABLE \<longrightarrow> \<not> P c"
  shows "NEW_ORDERS \<notin> foldl discard_for ps (filter P cs)"
  using assms by (intro foldl_discard_NEW_ORDERS) (auto simp: filter_empty_conv)

text \<open>\<open>NEW_ORDERS\<close> needs one of the two trading states and a scope no condition covers.\<close>

lemma new_orders_iff:
  "NEW_ORDERS \<in> evaluate_permissions st cs (Some scope) ex qp \<longleftrightarrow>
     st \<in> {TRADING, DEGRADED} \<and> (\<forall>c\<in>set cs. \<not> matches_target (ac_scope c) scope ex qp)"
proof (cases "st \<in> {TRADING, DEGRADED}")
  case False
  then show ?thesis
    by (cases st) (simp_all add: evaluate_permissions_def Let_def SAFE_SHUTDOWN_PERMISSIONS_def
        RECOVERY_PERMISSIONS_def)
next
  case True
  let ?m = "\<lambda>c. matches_target (ac_scope c) scope ex qp"
  let ?down = "list_ex (\<lambda>c. ac_condition c = EXCHANGE_UNAVAILABLE \<and> ?m c) cs"
  have eq: "evaluate_permissions st cs (Some scope) ex qp =
      (if filter ?m cs = [] then ALL_PERMISSIONS
       else if ?down then {} else foldl discard_for ALL_PERMISSIONS (filter ?m cs))"
    using True by (auto simp: evaluate_permissions_def Let_def)
  show ?thesis
  proof (cases "filter ?m cs = []")
    case True
    with \<open>st \<in> _\<close> show ?thesis
      by (simp add: eq ALL_PERMISSIONS_def) (auto simp: filter_empty_conv)
  next
    case False
    then obtain x where x: "x \<in> set cs" "?m x" by (auto simp: filter_empty_conv)
    have "NEW_ORDERS \<notin> foldl discard_for ALL_PERMISSIONS (filter ?m cs)" if "\<not> ?down"
      using x that by (intro filter_discard_NEW_ORDERS [of x]) (auto simp: list_ex_iff)
    with False x show ?thesis by (auto simp: eq)
  qed
qed

section \<open>Invariant of the monitor\<close>

text \<open>
  A subscriber of the event bus that starts from the initial state and folds the published
  events: the keys of the active conditions, the health state, the global permissions.
\<close>

type_synonym health_view = "condition_key set \<times> health_state \<times> trading_permission set"

fun view_event :: "health_view \<Rightarrow> health_event \<Rightarrow> health_view" where
  "view_event (ks, st, ps) (ConditionDetected c t i _ _ _ _) = (insert (c, t, i) ks, st, ps)"
| "view_event (ks, st, ps) (ConditionResolved c t i _ _) = (ks - {(c, t, i)}, st, ps)"
| "view_event (ks, st, ps) (StateChanged _ new _ _ _) = (ks, new, ps)"
| "view_event (ks, st, ps) (PermissionsChanged _ new _ _) = (ks, st, new)"

definition initial_view :: "health_state \<Rightarrow> health_view" where
  "initial_view st = ({}, st, evaluate_permissions st [] (Some global_scope) None None)"

definition monitor_view :: "health_monitor \<Rightarrow> health_view" where
  "monitor_view hm =
     (dom (map_of (cr_active_conditions (hm_registry hm))), sm_state (hm_machine hm),
      hs_effective_permissions (sm_snapshot (hm_machine hm)))"

definition snapshot_coherent :: "health_state_machine \<Rightarrow> bool" where
  "snapshot_coherent sm \<longleftrightarrow>
     hs_state (sm_snapshot sm) = sm_state sm \<and> hs_version (sm_snapshot sm) = sm_version sm \<and>
     hs_effective_permissions (sm_snapshot sm) =
       evaluate_permissions (sm_state sm) (hs_active_conditions (sm_snapshot sm))
         (Some global_scope) None None"

definition monitor_inv :: "health_state \<Rightarrow> health_monitor \<Rightarrow> bool" where
  "monitor_inv st0 hm \<longleftrightarrow>
     registry_inv (hm_registry hm) \<and>
     snapshot_coherent (hm_machine hm) \<and>
     hs_active_conditions (sm_snapshot (hm_machine hm)) = get_active_conditions (hm_registry hm) \<and>
     (sm_state (hm_machine hm) = TRADING \<longrightarrow> get_active_conditions (hm_registry hm) = []) \<and>
     (sm_state (hm_machine hm) \<in> {TRADING, DEGRADED} \<longrightarrow>
        \<not> has_critical_global (get_active_conditions (hm_registry hm))) \<and>
     foldl view_event (initial_view st0) (hm_outbox hm) = monitor_view hm"

lemma snapshot_coherent_init: "snapshot_coherent (init_state_machine st now)"
  by (simp add: snapshot_coherent_def init_state_machine_def build_snapshot_def)

lemma snapshot_coherent_update:
  "snapshot_coherent sm \<Longrightarrow> snapshot_coherent (fst (sm_update sm cs ovr now))"
  by (simp add: snapshot_coherent_def sm_update_def build_snapshot_def Let_def)

lemma sm_update_state [simp]:
  "sm_state (fst (sm_update sm cs ovr now)) = evaluate_transition (sm_state sm) cs ovr"
  by (auto simp: sm_update_def Let_def)

lemma sm_update_conditions [simp]:
  "hs_active_conditions (sm_snapshot (fst (sm_update sm cs ovr now))) = cs"
  by (auto simp: sm_update_def build_snapshot_def Let_def)

lemma sm_update_version:
  "sm_version (fst (sm_update sm cs ovr now)) =
     sm_version sm + (if evaluate_transition (sm_state sm) cs ovr \<noteq> sm_state sm \<or>
                         cs \<noteq> hs_active_conditions (sm_snapshot sm) then 1 else 0)"
  by (auto simp: sm_update_def Let_def)

lemma refresh_machine_fields [simp]:
  "hm_registry (refresh_machine hm ovr ts now) = hm_registry hm"
  "hm_machine (refresh_machine hm ovr ts now) =
     fst (sm_update (hm_machine hm) (get_active_conditions (hm_registry hm)) ovr now)"
  by (simp_all add: refresh_machine_def Let_def split_beta)

lemma view_snapshot_changes:
  "foldl view_event (ks, hs_state prev, hs_effective_permissions prev)
     (snapshot_change_events prev new ts) = (ks, hs_state new, hs_effective_permissions new)"
  by (simp add: snapshot_change_events_def)

lemma view_refresh:
  assumes "snapshot_coherent (hm_machine hm)"
    and "foldl view_event v0 (hm_outbox hm) = monitor_view hm"
  shows "foldl view_event v0 (hm_outbox (refresh_machine hm ovr ts now)) =
    monitor_view (refresh_machine hm ovr ts now)"
proof -
  let ?sm = "hm_machine hm" and ?cs = "get_active_conditions (hm_registry hm)"
  let ?sm' = "fst (sm_update ?sm ?cs ovr now)"
  have start: "foldl view_event v0 (hm_outbox hm) =
      (dom (map_of (cr_active_conditions (hm_registry hm))), hs_state (sm_snapshot ?sm),
       hs_effective_permissions (sm_snapshot ?sm))"
    using assms by (simp add: monitor_view_def snapshot_coherent_def)
  have "snapshot_coherent ?sm'"
    by (rule snapshot_coherent_update [OF assms(1)])
  then have state': "hs_state (sm_snapshot ?sm') = sm_state ?sm'"
    by (simp add: snapshot_coherent_def)
  show ?thesis
  proof (cases "snd (sm_update ?sm ?cs ovr now)")
    case True
    then have "hm_outbox (refresh_machine hm ovr ts now) =
        hm_outbox hm @ snapshot_change_events (sm_snapshot ?sm) (sm_snapshot ?sm') ts"
      by (simp add: refresh_machine_def Let_def split_beta)
    then show ?thesis
      using state' by (simp add: start view_snapshot_changes monitor_view_def)
  next
    case False
    then have "?sm' = ?sm" by (auto simp: sm_update_def Let_def split: if_splits)
    with False assms(2) show ?thesis
      by (simp add: refresh_machine_def Let_def split_beta monitor_view_def)
  qed
qed

lemma view_detect:
  "foldl view_event (ks, st, ps) (case d of Some c \<Rightarrow> [detected_event c ts] | None \<Rightarrow> []) =
     ((case d of Some c \<Rightarrow> insert (make_key (ac_condition c) (ac_scope c)) ks | None \<Rightarrow> ks), st, ps)"
  by (simp add: detected_event_def make_key_def split: option.split)

lemma view_resolve:
  "foldl view_event (ks, st, ps) (case d of Some c \<Rightarrow> [resolved_event c ts] | None \<Rightarrow> []) =
     ((case d of Some c \<Rightarrow> ks - {make_key (ac_condition c) (ac_scope c)} | None \<Rightarrow> ks), st, ps)"
  by (simp add: resolved_event_def make_key_def split: option.split)

lemma record_observation_dom:
  assumes "registry_inv reg" and "record_observation reg ob = (reg', ch, d, r)"
  shows "dom (map_of (cr_active_conditions reg')) =
    (case r of None \<Rightarrow> (\<lambda>ks. ks) | Some c \<Rightarrow> (\<lambda>ks. ks - {make_key (ac_condition c) (ac_scope c)}))
    (case d of None \<Rightarrow> dom (map_of (cr_active_conditions reg))
     | Some c \<Rightarrow> insert (make_key (ac_condition c) (ac_scope c))
                   (dom (map_of (cr_active_conditions reg))))"
  using assms(2) registry_inv_key [OF assms(1), of "make_key (ob_condition ob) (ob_scope ob)"]
  by (clarsimp simp: record_observation_def Let_def insert_absorb domI
      simp del: dict_get_set dict_get_del split: option.splits if_splits)

lemma resolve_manually_dom:
  assumes "registry_inv reg" and "resolve_manually reg c s = (reg', r)"
  shows "dom (map_of (cr_active_conditions reg')) =
    (case r of None \<Rightarrow> dom (map_of (cr_active_conditions reg))
     | Some c \<Rightarrow> dom (map_of (cr_active_conditions reg)) - {make_key (ac_condition c) (ac_scope c)})"
proof (cases "dict_get (cr_active_conditions reg) (make_key c s)")
  case None
  with assms(2) show ?thesis by (simp add: resolve_manually_def Let_def)
next
  case (Some a)
  with assms(2) have "reg' = reg\<lparr>cr_active_conditions := dict_del (make_key c s) (cr_active_conditions reg)\<rparr>"
    and "r = Some a"
    by (simp_all add: resolve_manually_def Let_def)
  with registry_inv_key [OF assms(1) Some] show ?thesis
    by (simp del: dict_get_del)
qed

lemma monitor_inv_create: "monitor_inv st (create_monitor cfg st now)"
  by (simp add: monitor_inv_def create_monitor_def registry_inv_def pd.all_values_empty
      snapshot_coherent_init get_active_conditions_def monitor_view_def initial_view_def)
    (simp add: init_state_machine_def build_snapshot_def has_critical_global_def)

text \<open>An automatic refresh establishes the state clauses whatever the registry holds.\<close>

lemma monitor_inv_refresh_auto:
  assumes "registry_inv (hm_registry hm)" and "snapshot_coherent (hm_machine hm)"
    and "foldl view_event (initial_view st0) (hm_outbox hm) = monitor_view hm"
  shows "monitor_inv st0 (refresh_machine hm None ts now)"
  using assms view_refresh [OF assms(2,3)] automatic_TRADING automatic_not_critical
  by (simp add: monitor_inv_def snapshot_coherent_update)

lemma monitor_inv_set_state:
  assumes "monitor_inv st0 hm"
  shows "monitor_inv st0 (set_state hm st ct now)"
proof -
  have coh: "snapshot_coherent (hm_machine hm)"
    and view: "foldl view_event (initial_view st0) (hm_outbox hm) = monitor_view hm"
    using assms by (simp_all add: monitor_inv_def)
  let ?cs = "get_active_conditions (hm_registry hm)"
  let ?st' = "evaluate_transition (sm_state (hm_machine hm)) ?cs (Some st)"
  have "?st' = TRADING \<longrightarrow> ?cs = []"
    using assms manual_TRADING by (auto simp: monitor_inv_def)
  moreover have "?st' \<in> {TRADING, DEGRADED} \<longrightarrow> \<not> has_critical_global ?cs"
    using assms manual_not_critical critical_global_any unfolding monitor_inv_def by blast
  ultimately show ?thesis
    using assms view_refresh [OF coh view]
    by (simp add: monitor_inv_def set_state_def snapshot_coherent_update)
qed

lemma monitor_inv_report:
  assumes "monitor_inv st0 hm"
  shows "monitor_inv st0 (report_observation hm ob now)"
proof -
  obtain reg' ch d r where rec: "record_observation (hm_registry hm) ob = (reg', ch, d, r)"
    by (cases "record_observation (hm_registry hm) ob")
  have reg: "registry_inv (hm_registry hm)" and coh: "snapshot_coherent (hm_machine hm)"
    and view: "foldl view_event (initial_view st0) (hm_outbox hm) = monitor_view hm"
    using assms by (simp_all add: monitor_inv_def)
  show ?thesis
    unfolding report_observation_def rec Let_def prod.case
    using registry_inv_record [OF reg, of ob] record_observation_dom [OF reg rec] coh
    by (intro monitor_inv_refresh_auto)
      (simp_all add: rec view monitor_view_def view_detect view_resolve split: option.split)
qed

lemma monitor_inv_resolve:
  assumes "monitor_inv st0 hm"
  shows "monitor_inv st0 (resolve_condition hm c s ct now)"
proof -
  obtain reg' r where res: "resolve_manually (hm_registry hm) c s = (reg', r)"
    by (cases "resolve_manually (hm_registry hm) c s")
  have reg: "registry_inv (hm_registry hm)" and coh: "snapshot_coherent (hm_machine hm)"
    and view: "foldl view_event (initial_view st0) (hm_outbox hm) = monitor_view hm"
    using assms by (simp_all add: monitor_inv_def)
  show ?thesis
    unfolding resolve_condition_def res Let_def prod.case
    using registry_inv_resolve [OF reg, of c s] resolve_manually_dom [OF reg res] coh
    by (intro monitor_inv_refresh_auto)
      (simp_all add: res view monitor_view_def view_resolve split: option.split)
qed

lemma monitor_version_refresh:
  "sm_version (hm_machine hm) \<le> sm_version (hm_machine (refresh_machine hm ovr ts now))"
  by (simp add: sm_update_version)

lemma monitor_step_version:
  "sm_version (hm_machine hm) \<le> sm_version (hm_machine (monitor_step hm op))"
  by (cases op)
    (simp_all add: report_observation_def set_state_def resolve_condition_def Let_def split_beta
      sm_update_version)

lemma monitor_inv_step: "monitor_inv st0 hm \<Longrightarrow> monitor_inv st0 (monitor_step hm op)"
  by (cases op) (simp_all add: monitor_inv_report monitor_inv_set_state monitor_inv_resolve)

interpretation monitor: versioned monitor_step "monitor_inv st0"
  "\<lambda>hm. sm_version (hm_machine hm)" for st0
  by unfold_locales (auto intro: monitor_inv_step monitor_step_version)

lemma monitor_reach_inv: "monitor_reach st0 hm \<Longrightarrow> monitor_inv st0 hm"
  by (induction rule: monitor_reach.induct) (auto intro: monitor_inv_create monitor_inv_step)


lemma sm_update_same_version:
  "sm_version (fst (sm_update sm cs ovr now)) = sm_version sm \<Longrightarrow> fst (sm_update sm cs ovr now) = sm"
  by (auto simp: sm_update_def Let_def split: if_splits)

lemma monitor_step_same_version:
  "sm_version (hm_machine (monitor_step hm op)) = sm_version (hm_machine hm) \<Longrightarrow>
   hm_machine (monitor_step hm op) = hm_machine hm"
  by (cases op)
    (auto simp: report_observation_def set_state_def resolve_condition_def Let_def split_beta
      dest: sm_update_same_version)

lemma monitor_run_same_version:
  assumes "monitor_inv st0 hm"
    and "sm_version (hm_machine (foldl monitor_step hm ops)) = sm_version (hm_machine hm)"
  shows "hm_machine (foldl monitor_step hm ops) = hm_machine hm"
  using assms
proof (induction ops arbitrary: hm)
  case (Cons op ops)
  let ?hm = "monitor_step hm op"
  have inv: "monitor_inv st0 ?hm" using Cons.prems(1) by (rule monitor_inv_step)
  have "sm_version (hm_machine ?hm) = sm_version (hm_machine hm)"
    using monitor_step_version [of hm op] monitor.version_run [OF inv, of ops] Cons.prems(2)
    by simp
  with Cons.IH [OF inv] monitor_step_same_version [of hm op] Cons.prems(2)
  show ?case by simp
qed simp

fun is_set_state :: "monitor_op \<Rightarrow> bool" where
  "is_set_state (SetState _ _ _) = True"
| "is_set_state _ = False"

lemma automatic_step_state:
  assumes "\<not> is_set_state op" and "sm_state (hm_machine hm) \<in> {STARTING, STOPPING, STOPPED}"
  shows "sm_state (hm_machine (monitor_step hm op)) = sm_state (hm_machine hm)"
  using assms
  by (cases op)
    (simp_all add: report_observation_def resolve_condition_def Let_def split_beta
      evaluate_transition_def)

lemma automatic_run_state:
  "\<forall>op\<in>set ops. \<not> is_set_state op \<Longrightarrow>
   sm_state (hm_machine hm) \<in> {STARTING, STOPPING, STOPPED} \<Longrightarrow>
   sm_state (hm_machine (foldl monitor_step hm ops)) = sm_state (hm_machine hm)"
  by (induction ops arbitrary: hm) (simp_all add: automatic_step_state)

section \<open>Properties\<close>

definition demo_observation :: "bool \<Rightarrow> timestamp \<Rightarrow> health_observation" where
  "demo_observation ok t =
     \<lparr>ob_source = ''feed'', ob_condition = MARKET_DATA_STALE, ob_scope = asset_scope ''BTC_USD'',
      ob_healthy = ok, ob_observed_at = t, ob_severity = WARNING, ob_measured_value = PInt 120,
      ob_threshold = PInt 60, ob_metadata = Map.empty\<rparr>"

definition demo_monitor :: health_monitor where
  "demo_monitor =
     monitor_step (create_monitor default_recovery_config TRADING 0)
       (ReportObservation (demo_observation False 1) 1)"

lemma demo_monitor_reach: "monitor_reach TRADING demo_monitor"
  unfolding demo_monitor_def by (intro monitor_reach.intros)

lemmas demo_monitor_defs = demo_monitor_def demo_observation_def create_monitor_def
  init_state_machine_def build_snapshot_def report_observation_def record_observation_def
  refresh_machine_def sm_update_def evaluate_transition_def get_active_conditions_def
  new_condition_def make_key_def asset_scope_def has_critical_global_def
  is_critical_or_higher_def

lemma demo_monitor_eval:
  "sm_state (hm_machine demo_monitor) = DEGRADED"
  "get_active_conditions (hm_registry demo_monitor) = [new_condition (demo_observation False 1)]"
  by (simp_all add: demo_monitor_defs)

text \<open>C3.  In every monitor a process can reach, new orders are permitted for a scope exactly
  when the health state is TRADING or DEGRADED and no active condition of the registry covers
  that scope: a condition recorded for the asset, its exchange, its quote portfolio or globally
  stops new orders there, whatever its kind and severity.\<close>

theorem new_orders_permission:
  assumes "monitor_reach st0 hm"
  shows "has_permission hm scope NEW_ORDERS ex qp \<longleftrightarrow>
    sm_state (hm_machine hm) \<in> {TRADING, DEGRADED} \<and>
    (\<forall>c\<in>set (get_active_conditions (hm_registry hm)). \<not> matches_target (ac_scope c) scope ex qp)"
  using monitor_reach_inv [OF assms]
  by (simp add: has_permission_def evaluate_scope_permissions_def new_orders_iff monitor_inv_def)

theorem new_orders_permission_witness:
  "has_permission demo_monitor (asset_scope ''ETH_USD'') NEW_ORDERS None None \<and>
   \<not> has_permission demo_monitor (asset_scope ''BTC_USD'') NEW_ORDERS None None"
  by (simp add: new_orders_permission [OF demo_monitor_reach] demo_monitor_eval)
    (simp add: demo_observation_def matches_target_def asset_scope_def)

text \<open>C9.  While a critical or fatal condition is active globally, no reachable monitor grants
  more than cancelling orders and reducing or closing positions, in any scope: new orders and
  modifications are impossible.\<close>

theorem critical_global_restricts:
  assumes "monitor_reach st0 hm"
    and "has_critical_global (get_active_conditions (hm_registry hm))"
  shows "evaluate_scope_permissions (hm_machine hm) scope ex qp \<subseteq> SAFE_SHUTDOWN_PERMISSIONS"
  using monitor_reach_inv [OF assms(1)] assms(2)
  by (cases "sm_state (hm_machine hm)")
    (auto simp: monitor_inv_def evaluate_scope_permissions_def evaluate_permissions_def Let_def
      RECOVERY_PERMISSIONS_def SAFE_SHUTDOWN_PERMISSIONS_def)

definition demo_critical :: health_monitor where
  "demo_critical =
     monitor_step (create_monitor default_recovery_config TRADING 0)
       (ReportObservation ((demo_observation False 1)
          \<lparr>ob_scope := global_scope, ob_severity := CRITICAL\<rparr>) 1)"

theorem critical_global_restricts_witness:
  "evaluate_scope_permissions (hm_machine demo_critical) (asset_scope ''BTC_USD'') None None
     \<subseteq> SAFE_SHUTDOWN_PERMISSIONS"
proof -
  have "monitor_reach TRADING demo_critical"
    unfolding demo_critical_def by (intro monitor_reach.intros)
  moreover have "has_critical_global (get_active_conditions (hm_registry demo_critical))"
    by (simp add: demo_critical_def demo_monitor_defs global_scope_def)
  ultimately show ?thesis by (rule critical_global_restricts)
qed

text \<open>Automatic recovery is exact: from a registry where a condition is active, a sequence
  of healthy observations of it clears it precisely when the condition is not FATAL, recovery is
  automatic, and the consecutive healthy checks reach the configured number.  (The configured
  stable period does not enter.)\<close>

theorem automatic_recovery_exact:
  assumes "\<forall>ob\<in>set obs. healthy_for key ob"
    and "dict_get (cr_active_conditions reg) key = Some c"
  shows "dict_get (cr_active_conditions (observe_all reg obs)) key = None \<longleftrightarrow>
    ac_severity c \<noteq> FATAL \<and> rc_automatic (cr_recovery_policy reg) \<and> obs \<noteq> [] \<and>
    rc_required_successful_checks (cr_recovery_policy reg)
      \<le> int (ac_consecutive_healthy_checks c) + int (length obs)"
  using assms by (rule observe_healthy_iff)

theorem automatic_recovery_exact_witness:
  "dict_get (cr_active_conditions (observe_all (hm_registry demo_monitor)
       (map (demo_observation True) [2, 3, 4]))) (MARKET_DATA_STALE, ASSET, ''BTC_USD'') = None \<and>
   dict_get (cr_active_conditions (observe_all (hm_registry demo_monitor)
       (map (demo_observation True) [2, 3]))) (MARKET_DATA_STALE, ASSET, ''BTC_USD'') \<noteq> None"
proof -
  let ?k = "(MARKET_DATA_STALE, ASSET, ''BTC_USD'')"
  have active: "dict_get (cr_active_conditions (hm_registry demo_monitor)) ?k =
      Some (new_condition (demo_observation False 1))"
    by (simp add: demo_monitor_defs)
  have healthy: "\<forall>ob\<in>set (map (demo_observation True) ts). healthy_for ?k ob" for ts
    by (simp add: healthy_for_def demo_observation_def make_key_def asset_scope_def)
  have policy: "cr_recovery_policy (hm_registry demo_monitor) = default_recovery_config"
    by (simp add: demo_monitor_defs)
  show ?thesis
    using automatic_recovery_exact [OF healthy active, of "[2, 3, 4]"]
      automatic_recovery_exact [OF healthy active, of "[2, 3]"]
    by (simp add: policy default_recovery_config_def)
      (simp add: demo_observation_def)
qed

text \<open>The event stream is complete: a subscriber that starts from the initial state and
  folds the published events (conditions detected and resolved, state changed, permissions
  changed) knows the exact set of active conditions, the health state and the global
  permissions of the monitor.\<close>

theorem event_stream_complete:
  assumes "monitor_reach st0 hm"
  shows "foldl view_event (initial_view st0) (hm_outbox hm) = monitor_view hm"
  using monitor_reach_inv [OF assms] by (simp add: monitor_inv_def)

theorem event_stream_complete_witness:
  "foldl view_event (initial_view TRADING) (hm_outbox demo_monitor) = monitor_view demo_monitor"
  using event_stream_complete [OF demo_monitor_reach] .

text \<open>The version number identifies the snapshot: after any sequence of calls it is no
  smaller, and if it is the same then state, conditions and permissions are unchanged; the
  published snapshot always agrees with the machine.\<close>

theorem version_identifies_snapshot:
  assumes "monitor_reach st0 hm" and "hm' = foldl monitor_step hm ops"
  shows "sm_version (hm_machine hm) \<le> sm_version (hm_machine hm') \<and>
    (sm_version (hm_machine hm') = sm_version (hm_machine hm) \<longrightarrow>
       sm_snapshot (hm_machine hm') = sm_snapshot (hm_machine hm)) \<and>
    snapshot_coherent (hm_machine hm')"
proof -
  have inv: "monitor_inv st0 hm" by (rule monitor_reach_inv [OF assms(1)])
  then have "snapshot_coherent (hm_machine hm')"
    using monitor.inv_run [OF inv, of ops] by (simp add: assms(2) monitor_inv_def)
  then show ?thesis
    using monitor.version_run [OF inv, of ops] monitor_run_same_version [OF inv, of ops]
    by (auto simp: assms(2))
qed

theorem version_identifies_snapshot_witness:
  "sm_version (hm_machine demo_monitor) \<le>
   sm_version (hm_machine (foldl monitor_step demo_monitor [SetState PAUSED None 5]))"
  using version_identifies_snapshot [OF demo_monitor_reach refl, of "[SetState PAUSED None 5]"] by simp

text \<open>Only an explicit \<open>set_state\<close> leaves the life-cycle states: no sequence of
  observations and condition resolutions moves a starting, stopping or stopped engine.\<close>

theorem lifecycle_states_manual:
  assumes "\<forall>op\<in>set ops. \<not> is_set_state op"
    and "sm_state (hm_machine hm) \<in> {STARTING, STOPPING, STOPPED}"
  shows "sm_state (hm_machine (foldl monitor_step hm ops)) = sm_state (hm_machine hm)"
  using assms by (rule automatic_run_state)

theorem lifecycle_states_manual_witness:
  "sm_state (hm_machine (foldl monitor_step (create_monitor default_recovery_config STOPPED 0)
     [ReportObservation (demo_observation False 1) 1])) = STOPPED"
  using lifecycle_states_manual [of "[ReportObservation (demo_observation False 1) 1]"
      "create_monitor default_recovery_config STOPPED 0"]
  by (simp add: create_monitor_def init_state_machine_def)

end
