(* ===== verification/Domain.thy ===== *)
theory Domain
  imports Prelude
begin

text \<open>
  The shared data of the trading engine, from \<open>src/api/interfaces/\<close>: orders, position lots,
  closed trades, the per-asset trading context and the trading session.  Field names carry a
  short prefix of their class.  Random identifiers (\<open>uuid4\<close>) and clock readings are arguments
  of the operations that draw them.  \<open>Decimal('inf')\<close> and \<open>Decimal('-inf')\<close>, the initial
  extremes of a context, are \<open>None\<close>.  The quantity of an order is the decimal its text denotes.
\<close>

datatype trade_action = BUY | SELL

datatype order_status =
    PENDING | PROCESSING | COMPLETED | CANCELLED | REJECTED | UNKNOWN | RECONCILIATION_REQUIRED

type_synonym votes = "(string, string) dict"
type_synonym attributions = "(string, rat) dict"

record order =
  o_uuid :: string
  o_provider_name :: string
  o_ticker_symbol :: string
  o_price :: decimal
  o_quantity :: decimal
  o_trade_action :: trade_action
  o_created_time :: timestamp
  o_commit_hash :: "string option"
  o_executed_time :: "timestamp option"
  o_status :: "order_status option"
  o_fees :: "decimal option"
  o_fill_price :: "decimal option"
  o_winning_strategy :: "string option"
  o_strategy_votes :: "votes option"
  o_strategy_attributions :: "attributions option"
  o_slippage :: "decimal option"
  o_decision_id :: "string option"
  o_regime :: "string option"

record position_lot =
  pl_lot_id :: string
  pl_order_uuid :: string
  pl_ticker_symbol :: string
  pl_price :: decimal
  pl_quantity :: decimal
  pl_remaining_quantity :: decimal
  pl_fee_per_unit :: decimal
  pl_timestamp :: timestamp
  pl_slippage_per_unit :: decimal
  pl_winning_strategy :: "string option"
  pl_strategy_votes :: "votes option"
  pl_strategy_attributions :: "attributions option"
  pl_regime :: "string option"

definition per_unit :: "decimal \<Rightarrow> decimal \<Rightarrow> decimal" where
  "per_unit amount quantity = (if quantity > 0 then amount / quantity else 0)"

text \<open>\<open>PositionLot.create\<close>; callers never pass \<open>lot_id\<close> or \<open>slippage_per_unit\<close>, so the
  identifier is the fresh one and the slippage per unit is computed.\<close>

definition create_lot ::
  "string \<Rightarrow> string \<Rightarrow> string \<Rightarrow> decimal \<Rightarrow> decimal \<Rightarrow> decimal \<Rightarrow> timestamp \<Rightarrow> string option \<Rightarrow>
     votes option \<Rightarrow> attributions option \<Rightarrow> decimal \<Rightarrow> string option \<Rightarrow> position_lot" where
  "create_lot lot_id order_uuid ticker price quantity fee ts winning votes attrs slippage regime =
     \<lparr>pl_lot_id = lot_id, pl_order_uuid = order_uuid, pl_ticker_symbol = ticker, pl_price = price,
      pl_quantity = quantity, pl_remaining_quantity = quantity,
      pl_fee_per_unit = per_unit fee quantity, pl_timestamp = ts,
      pl_slippage_per_unit = per_unit slippage quantity,
      pl_winning_strategy = winning, pl_strategy_votes = votes,
      pl_strategy_attributions = attrs, pl_regime = regime\<rparr>"

record trade =
  tr_trade_id :: string
  tr_ticker_symbol :: string
  tr_entry_order_uuid :: string
  tr_exit_order_uuid :: string
  tr_entry_price :: decimal
  tr_exit_price :: decimal
  tr_quantity :: decimal
  tr_gross_pnl :: decimal
  tr_fees :: decimal
  tr_net_pnl :: decimal
  tr_return_pct :: decimal
  tr_duration_seconds :: rat
  tr_entry_timestamp :: timestamp
  tr_exit_timestamp :: timestamp
  tr_slippage :: decimal
  tr_commit_hash :: "string option"
  tr_winning_strategy :: "string option"
  tr_strategy_votes :: "votes option"
  tr_entry_strategy_attributions :: "attributions option"
  tr_exit_strategy_attributions :: "attributions option"
  tr_exit_winning_strategy :: "string option"
  tr_exit_strategy_votes :: "votes option"
  tr_entry_regime :: "string option"
  tr_exit_regime :: "string option"

text \<open>The arguments of \<open>Trade.create\<close> that the matcher fills from the exit order.\<close>

record exit_args =
  ex_ticker_symbol :: string
  ex_order_uuid :: string
  ex_price :: decimal
  ex_quantity :: decimal
  ex_fee :: decimal
  ex_timestamp :: timestamp
  ex_commit_hash :: "string option"
  ex_winning_strategy :: "string option"
  ex_strategy_votes :: "votes option"
  ex_strategy_attributions :: "attributions option"
  ex_slippage :: decimal
  ex_regime :: "string option"

definition create_trade ::
  "string \<Rightarrow> exit_args \<Rightarrow> position_lot \<Rightarrow> decimal \<Rightarrow> decimal \<Rightarrow> decimal \<Rightarrow> decimal \<Rightarrow> trade" where
  "create_trade trade_id ex lot quantity entry_fee exit_fee slippage =
     (let gross_pnl = (ex_price ex - pl_price lot) * quantity;
          total_fees = entry_fee + exit_fee;
          net_pnl = gross_pnl - total_fees - slippage;
          cost_basis = pl_price lot * quantity + entry_fee
      in \<lparr>tr_trade_id = trade_id, tr_ticker_symbol = ex_ticker_symbol ex,
          tr_entry_order_uuid = pl_order_uuid lot, tr_exit_order_uuid = ex_order_uuid ex,
          tr_entry_price = pl_price lot, tr_exit_price = ex_price ex, tr_quantity = quantity,
          tr_gross_pnl = gross_pnl, tr_fees = total_fees, tr_net_pnl = net_pnl,
          tr_return_pct = (if cost_basis > 0 then net_pnl / cost_basis * 100 else 0),
          tr_duration_seconds = max 0 (ex_timestamp ex - pl_timestamp lot),
          tr_entry_timestamp = pl_timestamp lot, tr_exit_timestamp = ex_timestamp ex,
          tr_slippage = slippage, tr_commit_hash = ex_commit_hash ex,
          tr_winning_strategy = py_or (pl_winning_strategy lot) (ex_winning_strategy ex),
          tr_strategy_votes = py_or (pl_strategy_votes lot) (ex_strategy_votes ex),
          tr_entry_strategy_attributions = pl_strategy_attributions lot,
          tr_exit_strategy_attributions = ex_strategy_attributions ex,
          tr_exit_winning_strategy = ex_winning_strategy ex,
          tr_exit_strategy_votes = ex_strategy_votes ex,
          tr_entry_regime = pl_regime lot, tr_exit_regime = ex_regime ex\<rparr>)"

record position_entry =
  pe_price :: decimal
  pe_quantity :: decimal
  pe_timestamp :: timestamp

record trading_context =
  tc_ticker_symbol :: string
  tc_exchange :: string
  tc_starting_balance :: decimal
  tc_available_balance :: decimal
  tc_closing_balance :: decimal
  tc_lowest_buy :: "decimal option"
  tc_highest_buy :: "decimal option"
  tc_lowest_sell :: "decimal option"
  tc_highest_sell :: "decimal option"
  tc_open_positions :: "position_entry list"
  tc_close_positions :: "position_entry list"
  tc_position_lots :: "position_lot list"
  tc_trades :: "trade list"
  tc_position_qty :: decimal
  tc_avg_entry_price :: decimal
  tc_exit_qty :: decimal
  tc_avg_exit_price :: decimal
  tc_realized_pnl :: decimal
  tc_last_market_activity_time :: "timestamp option"
  tc_commit_hash :: "string option"
  tc_regime :: "string option"
  tc_regime_volatility :: "rat option"
  tc_regime_trend_strength :: "rat option"
  tc_regime_liquidity :: "rat option"
  tc_regime_spread :: "rat option"
  tc_portfolio_total_exposure :: "rat option"
  tc_portfolio_drawdown :: "rat option"
  tc_portfolio_cash :: "rat option"
  tc_portfolio_equity :: "rat option"

definition new_context ::
  "string \<Rightarrow> string \<Rightarrow> decimal \<Rightarrow> string option \<Rightarrow> trading_context" where
  "new_context ticker exchange starting_balance commit_hash =
     \<lparr>tc_ticker_symbol = ticker, tc_exchange = exchange, tc_starting_balance = starting_balance,
      tc_available_balance = starting_balance, tc_closing_balance = 0,
      tc_lowest_buy = None, tc_highest_buy = None, tc_lowest_sell = None, tc_highest_sell = None,
      tc_open_positions = [], tc_close_positions = [], tc_position_lots = [], tc_trades = [],
      tc_position_qty = 0, tc_avg_entry_price = 0, tc_exit_qty = 0, tc_avg_exit_price = 0,
      tc_realized_pnl = 0, tc_last_market_activity_time = None, tc_commit_hash = commit_hash,
      tc_regime = None, tc_regime_volatility = None, tc_regime_trend_strength = None,
      tc_regime_liquidity = None, tc_regime_spread = None, tc_portfolio_total_exposure = None,
      tc_portfolio_drawdown = None, tc_portfolio_cash = None, tc_portfolio_equity = None\<rparr>"

definition buy_count :: "trading_context \<Rightarrow> nat" where
  "buy_count ctx = length (tc_open_positions ctx)"

definition total_positions :: "trading_context \<Rightarrow> nat" where
  "total_positions ctx = length (tc_open_positions ctx) + length (tc_close_positions ctx)"

text \<open>\<open>min(lowest, price)\<close> and \<open>max(highest, price)\<close> with the infinite start values.\<close>

definition inf_min :: "decimal option \<Rightarrow> decimal \<Rightarrow> decimal option" where
  "inf_min low p = Some (case low of None \<Rightarrow> p | Some l \<Rightarrow> min l p)"

definition inf_max :: "decimal option \<Rightarrow> decimal \<Rightarrow> decimal option" where
  "inf_max high p = Some (case high of None \<Rightarrow> p | Some h \<Rightarrow> max h p)"

record session_time =
  st_start_time :: timestamp
  st_end_time :: timestamp

text \<open>
  \<open>SessionTime()\<close>: both defaults are the clock reading taken when the class body was executed
  (\<open>import_time\<close>), not when the object is created.
\<close>

definition new_session_time :: "timestamp \<Rightarrow> session_time" where
  "new_session_time import_time = \<lparr>st_start_time = import_time, st_end_time = import_time\<rparr>"

definition session_duration :: "session_time \<Rightarrow> timestamp \<Rightarrow> rat" where
  "session_duration st now =
     (if st_end_time st \<noteq> 0 then st_end_time st else now) - st_start_time st"

record trading_session =
  ts_session_id :: string
  ts_session_time :: session_time
  ts_trading_contexts :: "(int, trading_context) dict"
  ts_commit_hash :: "string option"

record market_data =
  md_volume :: decimal
  md_high_price :: decimal
  md_low_price :: decimal
  md_close_price :: decimal
  md_timestamp :: timestamp
  md_bid_price :: "decimal option"
  md_ask_price :: "decimal option"

record candle =
  cd_open :: decimal
  cd_low :: decimal
  cd_high :: decimal
  cd_close :: decimal
  cd_start_time :: timestamp
  cd_volume :: decimal

record asset =
  a_base_ticker_symbol :: string
  a_quote_ticker_symbol :: string
  a_exchange :: string
  a_separator :: "string option"
  a_enabled :: bool

definition ticker_symbol :: "'x asset_scheme \<Rightarrow> string" where
  "ticker_symbol a = a_base_ticker_symbol a @ (opt_or (a_separator a) ''_'') @ a_quote_ticker_symbol a"

text \<open>Python's randomised \<open>hash\<close> of a string is a parameter.\<close>

definition asset_key :: "(string \<Rightarrow> int) \<Rightarrow> 'x asset_scheme \<Rightarrow> int" where
  "asset_key py_hash a = py_hash (ticker_symbol a @ ''-'' @ a_exchange a)"

record account_balance =
  ab_currency :: string
  ab_available_balance :: decimal

end
