(* ===== verification/Session.thy ===== *)
theory Session
  imports Domain
begin

text \<open>
  The trading session: FIFO matching of exits against position lots
  (\<open>src/src/trading/session/fifo_trade_matcher.py\<close>) and the session manager
  (\<open>src/src/trading/session/session_manager.py\<close>).  The manager's lock makes each method one
  atomic step; a context object found in the session and mutated is the context written back at
  its place in the dictionary.  \<open>fresh i\<close> is the identifier \<open>uuid4\<close> gives the \<open>i\<close>-th trade of a
  match.  The configuration store's head commit is the argument \<open>head\<close> (\<open>None\<close> when there is no
  store or the call raises, as \<open>_fetch_head_commit_hash\<close> returns then).
\<close>

section \<open>FIFO matching\<close>

definition matched_trade ::
  "exit_args \<Rightarrow> decimal \<Rightarrow> decimal \<Rightarrow> string \<Rightarrow> position_lot \<Rightarrow> decimal \<Rightarrow> trade" where
  "matched_trade ex sell_fee_per_unit exit_slippage_per_unit trade_id lot matched_qty =
     create_trade trade_id ex lot matched_qty
       (pl_fee_per_unit lot * matched_qty)
       (sell_fee_per_unit * matched_qty)
       (pl_slippage_per_unit lot * matched_qty + exit_slippage_per_unit * matched_qty)"

function match_loop ::
  "exit_args \<Rightarrow> decimal \<Rightarrow> decimal \<Rightarrow> (nat \<Rightarrow> string) \<Rightarrow> position_lot list \<Rightarrow> decimal \<Rightarrow> trade list \<Rightarrow>
     trade list \<times> position_lot list \<times> decimal" where
  "match_loop ex fpu spu fresh lots sell_remaining completed =
     (if sell_remaining > 0
      then case lots of
             [] \<Rightarrow> (completed, lots, sell_remaining)
           | lot # rest \<Rightarrow>
               let matched_qty = min sell_remaining (pl_remaining_quantity lot);
                   trade = matched_trade ex fpu spu (fresh (length completed)) lot matched_qty;
                   lot' = lot\<lparr>pl_remaining_quantity := pl_remaining_quantity lot - matched_qty\<rparr>
               in match_loop ex fpu spu fresh
                    (if pl_remaining_quantity lot' \<le> 0 then rest else lot' # rest)
                    (sell_remaining - matched_qty) (completed @ [trade])
      else (completed, lots, sell_remaining))"
  by pat_completeness auto
termination
  by (relation "measures [\<lambda>(_, _, _, _, lots, _, _). length lots,
                          \<lambda>(_, _, _, _, _, rem, _). if rem > 0 then 1 else 0]")
    (auto simp: min_def split: if_splits)

declare match_loop.simps [simp del]

text \<open>The result is the completed trades, the mutated lots and the unmatched quantity.\<close>

definition match_lots ::
  "(nat \<Rightarrow> string) \<Rightarrow> position_lot list \<Rightarrow> exit_args \<Rightarrow> trade list \<times> position_lot list \<times> decimal" where
  "match_lots fresh lots ex =
     match_loop ex (per_unit (ex_fee ex) (ex_quantity ex)) (per_unit (ex_slippage ex) (ex_quantity ex))
       fresh lots (ex_quantity ex) []"

section \<open>Session manager\<close>

record session_manager =
  sn_current_session :: "trading_session option"
  sn_is_running :: bool

definition init_session_manager :: session_manager where
  "init_session_manager = \<lparr>sn_current_session = None, sn_is_running = False\<rparr>"

definition create_session ::
  "session_manager \<Rightarrow> timestamp \<Rightarrow> string \<Rightarrow> string option \<Rightarrow> string option \<Rightarrow>
     session_manager result" where
  "create_session sm import_time session_id commit_hash head =
     (if sn_is_running sm then Inl ValueError
      else Inr (sm\<lparr>sn_current_session := Some
             \<lparr>ts_session_id = session_id, ts_session_time = new_session_time import_time,
              ts_trading_contexts = [],
              ts_commit_hash = (case commit_hash of None \<Rightarrow> head | Some _ \<Rightarrow> commit_hash)\<rparr>\<rparr>))"

definition get_current_commit_hash :: "session_manager \<Rightarrow> string option \<Rightarrow> string" where
  "get_current_commit_hash sm head =
     (case sn_current_session sm of
        Some s \<Rightarrow>
          (case ts_commit_hash s of
             Some h \<Rightarrow> if h \<noteq> [] then h else opt_or (py_or head None) ''HEAD''
           | None \<Rightarrow> opt_or (py_or head None) ''HEAD'')
      | None \<Rightarrow> opt_or (py_or head None) ''HEAD'')"

definition map_session ::
  "(trading_session \<Rightarrow> trading_session) \<Rightarrow> session_manager \<Rightarrow> session_manager" where
  "map_session f sm = sm\<lparr>sn_current_session := map_option f (sn_current_session sm)\<rparr>"

definition update_commit_hash :: "session_manager \<Rightarrow> string \<Rightarrow> session_manager" where
  "update_commit_hash sm h = map_session (\<lambda>s. s\<lparr>ts_commit_hash := Some h\<rparr>) sm"

definition start_session :: "session_manager \<Rightarrow> timestamp \<Rightarrow> session_manager result" where
  "start_session sm now =
     (case sn_current_session sm of
        None \<Rightarrow> Inl ValueError
      | Some s \<Rightarrow> Inr (sm\<lparr>sn_current_session := Some (s\<lparr>ts_session_time :=
                            (ts_session_time s)\<lparr>st_start_time := now\<rparr>\<rparr>),
                        sn_is_running := True\<rparr>))"

definition bootstrap_context ::
  "trading_context \<Rightarrow> string \<Rightarrow> decimal \<Rightarrow> decimal \<Rightarrow> timestamp \<Rightarrow> string \<Rightarrow> trading_context" where
  "bootstrap_context ctx ticker qty entry_price ts lot_id =
     ctx\<lparr>tc_position_qty := qty, tc_avg_entry_price := entry_price,
         tc_position_lots := tc_position_lots ctx @
           [create_lot lot_id (''BOOTSTRAP_'' @ ticker) ticker entry_price qty 0 ts
              (Some ''BOOTSTRAP'') None None 0 None],
         tc_open_positions := tc_open_positions ctx @
           [\<lparr>pe_price = entry_price, pe_quantity = qty, pe_timestamp = ts\<rparr>]\<rparr>"

definition init_asset_balance ::
  "(string \<Rightarrow> int) \<Rightarrow> session_manager \<Rightarrow> asset \<Rightarrow> decimal \<Rightarrow> decimal \<Rightarrow> decimal \<Rightarrow> timestamp option \<Rightarrow>
     timestamp \<Rightarrow> string \<Rightarrow> session_manager result" where
  "init_asset_balance py_hash sm a starting_balance qty entry_price ts now lot_id =
     (case sn_current_session sm of
        None \<Rightarrow> Inl ValueError
      | Some s \<Rightarrow>
          (case dict_get (ts_trading_contexts s) (asset_key py_hash a) of
             Some _ \<Rightarrow> Inr sm
           | None \<Rightarrow>
               let ctx = new_context (ticker_symbol a) (a_exchange a) starting_balance (ts_commit_hash s);
                   ctx' = (if qty > 0
                           then bootstrap_context ctx (ticker_symbol a) qty entry_price (opt_or ts now) lot_id
                           else ctx)
               in Inr (sm\<lparr>sn_current_session := Some (s\<lparr>ts_trading_contexts :=
                     dict_set (asset_key py_hash a) ctx' (ts_trading_contexts s)\<rparr>)\<rparr>)))"

definition get_trading_context :: "session_manager \<Rightarrow> int \<Rightarrow> trading_context option" where
  "get_trading_context sm key =
     (case sn_current_session sm of
        None \<Rightarrow> None
      | Some s \<Rightarrow> dict_get (ts_trading_contexts s) key)"

definition find_context :: "session_manager \<Rightarrow> string \<Rightarrow> trading_context option" where
  "find_context sm ticker =
     (case sn_current_session sm of
        None \<Rightarrow> None
      | Some s \<Rightarrow> find (\<lambda>ctx. tc_ticker_symbol ctx = ticker) (dict_values (ts_trading_contexts s)))"

text \<open>Mutating the context that \<open>_find_context\<close> returned: the first one with the symbol.\<close>

fun update_first ::
  "(trading_context \<Rightarrow> bool) \<Rightarrow> (trading_context \<Rightarrow> trading_context) \<Rightarrow>
     (int, trading_context) dict \<Rightarrow> (int, trading_context) dict" where
  "update_first P f [] = []"
| "update_first P f ((k, c) # d) = (if P c then (k, f c) # d else (k, c) # update_first P f d)"

definition modify_context_by_symbol ::
  "string \<Rightarrow> (trading_context \<Rightarrow> trading_context) \<Rightarrow> session_manager \<Rightarrow> session_manager" where
  "modify_context_by_symbol ticker f =
     map_session (\<lambda>s. s\<lparr>ts_trading_contexts :=
       update_first (\<lambda>ctx. tc_ticker_symbol ctx = ticker) f (ts_trading_contexts s)\<rparr>)"

definition modify_context ::
  "int \<Rightarrow> (trading_context \<Rightarrow> trading_context) \<Rightarrow> session_manager \<Rightarrow> session_manager" where
  "modify_context key f =
     map_session (\<lambda>s. s\<lparr>ts_trading_contexts :=
       (case dict_get (ts_trading_contexts s) key of
          None \<Rightarrow> ts_trading_contexts s
        | Some ctx \<Rightarrow> dict_set key (f ctx) (ts_trading_contexts s))\<rparr>)"

definition balance_event_matches :: "string \<Rightarrow> string \<Rightarrow> trading_context \<Rightarrow> bool" where
  "balance_event_matches exchange currency ctx \<longleftrightarrow>
     \<not> (exchange \<noteq> [] \<and> tc_exchange ctx \<noteq> [] \<and> upper exchange \<noteq> upper (tc_exchange ctx)) \<and>
     CHR ''_'' \<in> set (tc_ticker_symbol ctx) \<and>
     last_segment (CHR ''_'') (tc_ticker_symbol ctx) \<noteq> [] \<and>
     upper (last_segment (CHR ''_'') (tc_ticker_symbol ctx)) = upper currency"

definition on_balance_changed ::
  "session_manager \<Rightarrow> string \<Rightarrow> string \<Rightarrow> decimal \<Rightarrow> session_manager" where
  "on_balance_changed sm exchange currency available =
     map_session (\<lambda>s. s\<lparr>ts_trading_contexts :=
       map (\<lambda>(k, ctx). (k, if balance_event_matches exchange currency ctx
                             then ctx\<lparr>tc_available_balance := available\<rparr> else ctx))
         (ts_trading_contexts s)\<rparr>) sm"

definition update_available_balance :: "session_manager \<Rightarrow> int \<Rightarrow> decimal \<Rightarrow> session_manager" where
  "update_available_balance sm key b = modify_context key (\<lambda>ctx. ctx\<lparr>tc_available_balance := b\<rparr>) sm"

definition close_asset_balance :: "session_manager \<Rightarrow> int \<Rightarrow> decimal \<Rightarrow> session_manager" where
  "close_asset_balance sm key b = modify_context key (\<lambda>ctx. ctx\<lparr>tc_closing_balance := b\<rparr>) sm"

subsection \<open>Order fills\<close>

definition fill_price_of :: "order \<Rightarrow> decimal" where
  "fill_price_of ord =
     (case o_fill_price ord of
        Some p \<Rightarrow> if p > 0 then p else o_price ord
      | None \<Rightarrow> o_price ord)"

definition fill_timestamp :: "order \<Rightarrow> timestamp" where
  "fill_timestamp ord = (case o_executed_time ord of Some t \<Rightarrow> t | None \<Rightarrow> o_created_time ord)"

definition record_buy_fill ::
  "string \<Rightarrow> trading_context \<Rightarrow> order \<Rightarrow> decimal \<Rightarrow> decimal \<Rightarrow> decimal \<Rightarrow> decimal \<Rightarrow> timestamp \<Rightarrow>
     trading_context" where
  "record_buy_fill lot_id ctx ord fill_price quantity fee slippage ts =
     (let ctx1 = ctx\<lparr>tc_lowest_buy := inf_min (tc_lowest_buy ctx) fill_price,
                     tc_highest_buy := inf_max (tc_highest_buy ctx) fill_price,
                     tc_open_positions := tc_open_positions ctx @
                       [\<lparr>pe_price = fill_price, pe_quantity = quantity, pe_timestamp = ts\<rparr>],
                     tc_position_lots := tc_position_lots ctx @
                       [create_lot lot_id (o_uuid ord) (o_ticker_symbol ord) fill_price quantity fee ts
                          (o_winning_strategy ord) (o_strategy_votes ord)
                          (o_strategy_attributions ord) slippage (py_or (o_regime ord) (tc_regime ctx))]\<rparr>
      in if quantity > 0
         then let total_cost = tc_position_qty ctx1 * tc_avg_entry_price ctx1 + quantity * fill_price
              in ctx1\<lparr>tc_position_qty := tc_position_qty ctx1 + quantity,
                      tc_avg_entry_price := total_cost / (tc_position_qty ctx1 + quantity)\<rparr>
         else ctx1)"

definition exit_args_of ::
  "trading_context \<Rightarrow> order \<Rightarrow> decimal \<Rightarrow> decimal \<Rightarrow> decimal \<Rightarrow> decimal \<Rightarrow> timestamp \<Rightarrow> exit_args" where
  "exit_args_of ctx ord fill_price quantity fee slippage ts =
     \<lparr>ex_ticker_symbol = o_ticker_symbol ord, ex_order_uuid = o_uuid ord, ex_price = fill_price,
      ex_quantity = quantity, ex_fee = fee, ex_timestamp = ts,
      ex_commit_hash = py_or (o_commit_hash ord) (tc_commit_hash ctx),
      ex_winning_strategy = o_winning_strategy ord, ex_strategy_votes = o_strategy_votes ord,
      ex_strategy_attributions = o_strategy_attributions ord, ex_slippage = slippage,
      ex_regime = py_or (o_regime ord) (tc_regime ctx)\<rparr>"

definition match_fifo_lots ::
  "(nat \<Rightarrow> string) \<Rightarrow> trading_context \<Rightarrow> order \<Rightarrow> decimal \<Rightarrow> decimal \<Rightarrow> decimal \<Rightarrow> decimal \<Rightarrow> timestamp \<Rightarrow>
     trading_context \<times> trade list" where
  "match_fifo_lots fresh ctx ord fill_price quantity fee slippage ts =
     (let (completed_trades, lots', sell_remaining) =
            match_lots fresh (tc_position_lots ctx)
              (exit_args_of ctx ord fill_price quantity fee slippage ts);
          ctx1 = ctx\<lparr>tc_position_lots := lots', tc_trades := tc_trades ctx @ completed_trades,
                     tc_realized_pnl := foldl (\<lambda>pnl t. pnl + tr_net_pnl t) (tc_realized_pnl ctx)
                                          completed_trades\<rparr>;
          ctx2 = (if sell_remaining > 0
                  then let fallback_gross = (fill_price - tc_avg_entry_price ctx1) * sell_remaining;
                           fallback_exit_fee = per_unit fee quantity * sell_remaining;
                           fallback_slippage = per_unit slippage quantity * sell_remaining
                       in ctx1\<lparr>tc_realized_pnl := tc_realized_pnl ctx1
                                 + (fallback_gross - fallback_exit_fee - fallback_slippage)\<rparr>
                  else ctx1)
      in (ctx2, completed_trades))"

definition record_sell_fill ::
  "(nat \<Rightarrow> string) \<Rightarrow> trading_context \<Rightarrow> order \<Rightarrow> decimal \<Rightarrow> decimal \<Rightarrow> decimal \<Rightarrow> decimal \<Rightarrow> timestamp \<Rightarrow>
     trading_context \<times> trade list" where
  "record_sell_fill fresh ctx ord fill_price quantity fee slippage ts =
     (let ctx1 = ctx\<lparr>tc_lowest_sell := inf_min (tc_lowest_sell ctx) fill_price,
                     tc_highest_sell := inf_max (tc_highest_sell ctx) fill_price,
                     tc_close_positions := tc_close_positions ctx @
                       [\<lparr>pe_price = fill_price, pe_quantity = quantity, pe_timestamp = ts\<rparr>]\<rparr>;
          ctx2 = (if quantity > 0
                  then let total_exit_value =
                             tc_exit_qty ctx1 * tc_avg_exit_price ctx1 + quantity * fill_price
                       in ctx1\<lparr>tc_exit_qty := tc_exit_qty ctx1 + quantity,
                               tc_avg_exit_price := total_exit_value / (tc_exit_qty ctx1 + quantity)\<rparr>
                  else ctx1);
          (ctx3, completed_trades) = match_fifo_lots fresh ctx2 ord fill_price quantity fee slippage ts;
          ctx4 = ctx3\<lparr>tc_position_qty := max 0 (tc_position_qty ctx3 - quantity)\<rparr>;
          ctx5 = (if tc_position_qty ctx4 = 0 then ctx4\<lparr>tc_avg_entry_price := 0\<rparr> else ctx4)
      in (ctx5, completed_trades))"

definition apply_fill ::
  "string \<Rightarrow> (nat \<Rightarrow> string) \<Rightarrow> trading_context \<Rightarrow> order \<Rightarrow> trading_context \<times> trade list" where
  "apply_fill lot_id fresh ctx ord =
     (let fill_price = fill_price_of ord;
          quantity = o_quantity ord;
          fee = opt_or (o_fees ord) 0;
          slippage = opt_or (o_slippage ord) 0;
          ts = fill_timestamp ord;
          ctx' = ctx\<lparr>tc_last_market_activity_time := Some ts\<rparr>
      in case o_trade_action ord of
           BUY \<Rightarrow> (record_buy_fill lot_id ctx' ord fill_price quantity fee slippage ts, [])
         | SELL \<Rightarrow> record_sell_fill fresh ctx' ord fill_price quantity fee slippage ts)"

text \<open>The order object is mutated too: its commit hash is filled in.\<close>

definition record_order_fill ::
  "string \<Rightarrow> (nat \<Rightarrow> string) \<Rightarrow> string option \<Rightarrow> session_manager \<Rightarrow> order \<Rightarrow>
     session_manager \<times> order \<times> trade list" where
  "record_order_fill lot_id fresh head sm ord =
     (case find_context sm (o_ticker_symbol ord) of
        None \<Rightarrow> (sm, ord, [])
      | Some ctx \<Rightarrow>
          let ord' = ord\<lparr>o_commit_hash :=
                py_or (o_commit_hash ord)
                  (py_or (tc_commit_hash ctx) (Some (get_current_commit_hash sm head)))\<rparr>
          in (modify_context_by_symbol (o_ticker_symbol ord)
                (\<lambda>c. fst (apply_fill lot_id fresh c ord')) sm,
              ord', snd (apply_fill lot_id fresh ctx ord')))"

text \<open>
  \<open>record_position\<close> reads \<open>lowest_price\<close> and \<open>highest_price\<close>, which \<open>MarketData\<close> does not
  have, on both branches; only the activity time is written before.
\<close>

definition record_position ::
  "session_manager \<Rightarrow> int \<Rightarrow> market_data \<Rightarrow> trade_action \<Rightarrow> session_manager \<times> unit result" where
  "record_position sm key md act =
     (case sn_current_session sm of
        None \<Rightarrow> (sm, Inl ValueError)
      | Some s \<Rightarrow>
          (case dict_get (ts_trading_contexts s) key of
             None \<Rightarrow> (sm, Inl ValueError)
           | Some _ \<Rightarrow> (modify_context key (\<lambda>ctx. ctx\<lparr>tc_last_market_activity_time :=
                            Some (md_timestamp md)\<rparr>) sm, Inl AttributeError)))"

text \<open>\<open>calculate_total_balance\<close> (and its siblings \<open>get_unrealized_pnl\<close>, \<open>get_total_pnl\<close>,
  \<open>get_win_loss_count\<close>, \<open>get_profit_factor\<close>) call a member that \<open>TradingContext\<close> lacks.\<close>

definition calculate_total_balance :: "session_manager \<Rightarrow> int \<Rightarrow> decimal result" where
  "calculate_total_balance sm key =
     (case get_trading_context sm key of None \<Rightarrow> Inr 0 | Some _ \<Rightarrow> Inl AttributeError)"

definition get_unrealized_pnl :: "session_manager \<Rightarrow> int \<Rightarrow> decimal result" where
  "get_unrealized_pnl sm key =
     (case get_trading_context sm key of None \<Rightarrow> Inr 0 | Some _ \<Rightarrow> Inl AttributeError)"

definition get_win_loss_count :: "session_manager \<Rightarrow> int \<Rightarrow> (int \<times> int) result" where
  "get_win_loss_count sm key =
     (case get_trading_context sm key of None \<Rightarrow> Inr (0, 0) | Some _ \<Rightarrow> Inl AttributeError)"

definition get_realized_pnl :: "session_manager \<Rightarrow> int \<Rightarrow> decimal" where
  "get_realized_pnl sm key =
     (case get_trading_context sm key of None \<Rightarrow> 0 | Some ctx \<Rightarrow> tc_realized_pnl ctx)"

definition end_session ::
  "session_manager \<Rightarrow> timestamp \<Rightarrow> session_manager \<times> trading_session option" where
  "end_session sm now =
     (case sn_current_session sm of
        None \<Rightarrow> (sm, None)
      | Some s \<Rightarrow>
          (if \<not> sn_is_running sm then (sm, None)
           else (\<lparr>sn_current_session = None, sn_is_running = False\<rparr>,
                 Some (s\<lparr>ts_session_time := (ts_session_time s)\<lparr>st_end_time := now\<rparr>\<rparr>))))"

definition reset_session :: "session_manager \<Rightarrow> session_manager" where
  "reset_session sm = \<lparr>sn_current_session = None, sn_is_running = False\<rparr>"


section \<open>What FIFO consumption is\<close>

text \<open>
  The reference: consuming \<open>q\<close> units from the front of the lots, and the total of a per-unit
  weight (1, price, fee, slippage) over the units consumed.
\<close>

definition lots_ok :: "position_lot list \<Rightarrow> bool" where
  "lots_ok lots \<longleftrightarrow> (\<forall>l\<in>set lots. 0 \<le> pl_remaining_quantity l)"

definition inventory :: "position_lot list \<Rightarrow> decimal" where
  "inventory lots = sum_list (map pl_remaining_quantity lots)"

fun consume :: "position_lot list \<Rightarrow> decimal \<Rightarrow> position_lot list" where
  "consume [] q = []"
| "consume (l # ls) q =
     (if q \<le> 0 then l # ls
      else if pl_remaining_quantity l \<le> q then consume ls (q - pl_remaining_quantity l)
      else l\<lparr>pl_remaining_quantity := pl_remaining_quantity l - q\<rparr> # ls)"

fun fifo_sum :: "(position_lot \<Rightarrow> decimal) \<Rightarrow> position_lot list \<Rightarrow> decimal \<Rightarrow> decimal" where
  "fifo_sum w [] q = 0"
| "fifo_sum w (l # ls) q =
     (if q \<le> 0 then 0
      else if pl_remaining_quantity l \<le> q
      then w l * pl_remaining_quantity l + fifo_sum w ls (q - pl_remaining_quantity l)
      else w l * q)"

abbreviation fifo_matched :: "position_lot list \<Rightarrow> decimal \<Rightarrow> decimal" where
  "fifo_matched \<equiv> fifo_sum (\<lambda>_. 1)"

lemma lots_ok_simps [simp]:
  "lots_ok []"
  "lots_ok (l # ls) \<longleftrightarrow> 0 \<le> pl_remaining_quantity l \<and> lots_ok ls"
  "lots_ok (xs @ ys) \<longleftrightarrow> lots_ok xs \<and> lots_ok ys"
  by (auto simp: lots_ok_def)

lemma inventory_simps [simp]:
  "inventory [] = 0"
  "inventory (l # ls) = pl_remaining_quantity l + inventory ls"
  "inventory (xs @ ys) = inventory xs + inventory ys"
  by (simp_all add: inventory_def)

lemma inventory_nonneg: "lots_ok lots \<Longrightarrow> 0 \<le> inventory lots"
  by (induction lots) auto

lemma consume_nonpos [simp]: "q \<le> 0 \<Longrightarrow> consume lots q = lots"
  by (cases lots) auto

lemma fifo_sum_nonpos [simp]: "q \<le> 0 \<Longrightarrow> fifo_sum w lots q = 0"
  by (cases lots) auto

lemma consume_ok: "lots_ok lots \<Longrightarrow> lots_ok (consume lots q)"
  by (induction lots q rule: consume.induct) auto

lemma fifo_matched_eq: "lots_ok lots \<Longrightarrow> 0 \<le> q \<Longrightarrow> fifo_matched lots q = min q (inventory lots)"
proof (induction lots arbitrary: q)
  case (Cons l ls)
  then show ?case using inventory_nonneg [of ls] by (auto simp: min_def)
qed simp

lemma inventory_consume:
  "lots_ok lots \<Longrightarrow> 0 \<le> q \<Longrightarrow> inventory (consume lots q) = inventory lots - fifo_matched lots q"
  by (induction lots arbitrary: q) auto

lemma consume_twice:
  "lots_ok lots \<Longrightarrow> 0 \<le> p \<Longrightarrow> 0 \<le> q \<Longrightarrow> consume (consume lots p) q = consume lots (p + q)"
  by (induction lots arbitrary: p) (auto simp: algebra_simps)

text \<open>Selling in two parts takes the same units as selling at once.\<close>

lemma fifo_sum_split:
  assumes "lots_ok lots" and "0 \<le> p" and "0 \<le> q"
    and w: "\<And>l r. w (l\<lparr>pl_remaining_quantity := r\<rparr>) = w l"
  shows "fifo_sum w lots (p + q) = fifo_sum w lots p + fifo_sum w (consume lots p) q"
  using assms(1-3)
proof (induction lots arbitrary: p)
  case (Cons l ls)
  let ?r = "pl_remaining_quantity l"
  consider "p \<le> 0" | "0 < p" "?r \<le> p" | "0 < p" "p < ?r" by linarith
  then show ?case
  proof cases
    case 1
    with Cons.prems show ?thesis by simp
  next
    case 2
    with Cons.prems Cons.IH [of "p - ?r"] show ?thesis
      by (auto simp: algebra_simps)
  next
    case 3
    with Cons.prems show ?thesis
      by (auto simp: algebra_simps w)
  qed
qed simp

section \<open>The matcher implements it\<close>

lemma matched_trade_fields [simp]:
  "tr_quantity (matched_trade ex f s i l q) = q"
  "tr_gross_pnl (matched_trade ex f s i l q) = (ex_price ex - pl_price l) * q"
  "tr_fees (matched_trade ex f s i l q) = pl_fee_per_unit l * q + f * q"
  "tr_slippage (matched_trade ex f s i l q) = pl_slippage_per_unit l * q + s * q"
  "tr_net_pnl (matched_trade ex f s i l q) =
     (ex_price ex - pl_price l) * q - (pl_fee_per_unit l * q + f * q)
     - (pl_slippage_per_unit l * q + s * q)"
  "tr_entry_order_uuid (matched_trade ex f s i l q) = pl_order_uuid l"
  by (simp_all add: matched_trade_def create_trade_def Let_def)

lemma match_loop_stop [simp]: "rem \<le> 0 \<Longrightarrow> match_loop ex f s fresh lots rem acc = (acc, lots, rem)"
  by (subst match_loop.simps) simp

lemma match_loop_Nil [simp]: "match_loop ex f s fresh [] rem acc = (acc, [], rem)"
  by (subst match_loop.simps) simp

lemma match_loop_whole:
  assumes "0 < rem" and "pl_remaining_quantity l \<le> rem"
  shows "match_loop ex f s fresh (l # ls) rem acc =
    match_loop ex f s fresh ls (rem - pl_remaining_quantity l)
      (acc @ [matched_trade ex f s (fresh (length acc)) l (pl_remaining_quantity l)])"
  using assms by (subst match_loop.simps) (simp add: Let_def min_def)

lemma match_loop_part:
  assumes "0 < rem" and "rem < pl_remaining_quantity l"
  shows "match_loop ex f s fresh (l # ls) rem acc =
    (acc @ [matched_trade ex f s (fresh (length acc)) l rem],
     l\<lparr>pl_remaining_quantity := pl_remaining_quantity l - rem\<rparr> # ls, 0)"
  using assms by (subst match_loop.simps) (simp add: Let_def min_def)

lemma match_loop_lots:
  assumes "lots_ok lots" and "0 \<le> rem"
  shows "snd (match_loop ex f s fresh lots rem acc) = (consume lots rem, rem - fifo_matched lots rem)"
  using assms
proof (induction lots arbitrary: rem acc)
  case (Cons l ls)
  consider "rem \<le> 0" | "0 < rem" "pl_remaining_quantity l \<le> rem" | "0 < rem" "rem < pl_remaining_quantity l"
    by linarith
  then show ?case
    by cases (use Cons in \<open>simp_all add: match_loop_whole match_loop_part\<close>)
qed simp

text \<open>Any per-trade amount that is a per-unit weight times the quantity adds up to the FIFO sum.\<close>

lemma match_loop_sums:
  assumes "lots_ok lots" and "0 \<le> rem"
    and v: "\<And>i l q. v (matched_trade ex f s i l q) = w l * q"
  shows "sum_list (map v (fst (match_loop ex f s fresh lots rem acc))) =
    sum_list (map v acc) + fifo_sum w lots rem"
  using assms(1,2)
proof (induction lots arbitrary: rem acc)
  case (Cons l ls)
  consider "rem \<le> 0" | "0 < rem" "pl_remaining_quantity l \<le> rem" | "0 < rem" "rem < pl_remaining_quantity l"
    by linarith
  then show ?case
    by cases (use Cons in \<open>simp_all add: match_loop_whole match_loop_part v algebra_simps\<close>)
qed simp

lemma match_loop_prefix:
  assumes "lots_ok lots" and "0 \<le> rem"
  shows "\<exists>ts. fst (match_loop ex f s fresh lots rem acc) = acc @ ts \<and>
    map tr_entry_order_uuid ts = map pl_order_uuid (take (length ts) lots)"
  using assms
proof (induction lots arbitrary: rem acc)
  case (Cons l ls)
  consider "rem \<le> 0" | "0 < rem" "pl_remaining_quantity l \<le> rem" | "0 < rem" "rem < pl_remaining_quantity l"
    by linarith
  then show ?case
  proof cases
    case 2
    let ?t = "matched_trade ex f s (fresh (length acc)) l (pl_remaining_quantity l)"
    obtain ts where "fst (match_loop ex f s fresh (l # ls) rem acc) = (acc @ [?t]) @ ts"
      "map tr_entry_order_uuid ts = map pl_order_uuid (take (length ts) ls)"
      using 2 Cons.IH [of "rem - pl_remaining_quantity l" "acc @ [?t]"] Cons.prems
      by (auto simp: match_loop_whole)
    then show ?thesis by (intro exI [of _ "?t # ts"]) simp
  qed (simp_all add: match_loop_part)
qed simp

section \<open>The contract between matcher and session\<close>

text \<open>
  What the session relies on when it asks for a quantity to be matched against its stock: the
  stock loses exactly what the trades carry, the trades and the unmatched rest add up to the
  demand, and something is left unmatched only when the stock is exhausted.
\<close>

locale lot_matcher =
  fixes match :: "'l \<Rightarrow> 'x \<Rightarrow> 't list \<times> 'l \<times> rat"
    and stock :: "'l \<Rightarrow> rat"
    and wanted :: "'x \<Rightarrow> rat"
    and qty :: "'t \<Rightarrow> rat"
    and ok :: "'l \<Rightarrow> bool"
  assumes stock_nonneg: "ok lots \<Longrightarrow> 0 \<le> stock lots"
    and ok_match: "ok lots \<Longrightarrow> 0 \<le> wanted x \<Longrightarrow> match lots x = (ts, lots', r) \<Longrightarrow> ok lots'"
    and conserve: "ok lots \<Longrightarrow> 0 \<le> wanted x \<Longrightarrow> match lots x = (ts, lots', r) \<Longrightarrow>
      stock lots = stock lots' + sum_list (map qty ts)"
    and demand: "ok lots \<Longrightarrow> 0 \<le> wanted x \<Longrightarrow> match lots x = (ts, lots', r) \<Longrightarrow>
      wanted x = sum_list (map qty ts) + r"
    and exhaust: "ok lots \<Longrightarrow> 0 \<le> wanted x \<Longrightarrow> match lots x = (ts, lots', r) \<Longrightarrow>
      0 \<le> r \<and> (0 < r \<longrightarrow> stock lots' = 0)"
begin

lemma stock_after:
  assumes "ok lots" "0 \<le> wanted x" "match lots x = (ts, lots', r)"
  shows "stock lots' = max 0 (stock lots - wanted x)"
  using conserve [OF assms] demand [OF assms] exhaust [OF assms]
    stock_nonneg [OF ok_match [OF assms]] by auto

lemma matched_total:
  assumes "ok lots" "0 \<le> wanted x" "match lots x = (ts, lots', r)"
  shows "sum_list (map qty ts) = min (wanted x) (stock lots)"
  using conserve [OF assms] demand [OF assms] exhaust [OF assms]
    stock_nonneg [OF ok_match [OF assms]] by (auto simp: min_def)

lemma fully_matched_iff:
  assumes "ok lots" "0 \<le> wanted x" "match lots x = (ts, lots', r)"
  shows "r = 0 \<longleftrightarrow> wanted x \<le> stock lots"
  using conserve [OF assms] demand [OF assms] exhaust [OF assms]
    stock_nonneg [OF ok_match [OF assms]] by auto

end

lemma match_lots_eq:
  assumes "lots_ok lots" and "0 \<le> ex_quantity ex" and "match_lots fresh lots ex = (ts, lots', r)"
  shows "lots' = consume lots (ex_quantity ex)"
    and "r = ex_quantity ex - fifo_matched lots (ex_quantity ex)"
    and "sum_list (map tr_quantity ts) = fifo_matched lots (ex_quantity ex)"
  using match_loop_lots [OF assms(1,2), of ex "per_unit (ex_fee ex) (ex_quantity ex)"
      "per_unit (ex_slippage ex) (ex_quantity ex)" fresh "[]"]
    match_loop_sums [OF assms(1,2), of tr_quantity ex "per_unit (ex_fee ex) (ex_quantity ex)"
      "per_unit (ex_slippage ex) (ex_quantity ex)" "\<lambda>_. 1" fresh "[]"] assms(3)
  by (simp_all add: match_lots_def)

interpretation fifo: lot_matcher "match_lots fresh" inventory ex_quantity tr_quantity lots_ok for fresh
proof unfold_locales
  fix lots x ts lots' r
  assume *: "lots_ok lots" "0 \<le> ex_quantity x" "match_lots fresh lots x = (ts, lots', r)"
  note eqs = match_lots_eq [OF *]
  show "lots_ok lots'" using *(1) by (simp add: eqs consume_ok)
  show "inventory lots = inventory lots' + sum_list (map tr_quantity ts)"
    using *(1,2) by (simp add: eqs inventory_consume)
  show "ex_quantity x = sum_list (map tr_quantity ts) + r"
    by (simp add: eqs)
  show "0 \<le> r \<and> (0 < r \<longrightarrow> inventory lots' = 0)"
    using *(1,2) by (auto simp: eqs fifo_matched_eq inventory_consume)
qed (rule inventory_nonneg)

section \<open>Invariant of a trading context\<close>

definition context_inv :: "trading_context \<Rightarrow> bool" where
  "context_inv ctx \<longleftrightarrow>
     lots_ok (tc_position_lots ctx) \<and>
     tc_position_qty ctx = inventory (tc_position_lots ctx) \<and>
     (tc_position_qty ctx = 0 \<longrightarrow> tc_avg_entry_price ctx = 0) \<and>
     0 \<le> tc_exit_qty ctx"

lemma context_inv_new: "context_inv (new_context t e b h)"
  by (simp add: context_inv_def new_context_def)

lemma create_lot_fields [simp]:
  "pl_remaining_quantity (create_lot i u t p q f ts w v a s r) = q"
  "pl_quantity (create_lot i u t p q f ts w v a s r) = q"
  "pl_price (create_lot i u t p q f ts w v a s r) = p"
  by (simp_all add: create_lot_def)

lemma context_inv_bootstrap:
  "0 < qty \<Longrightarrow> context_inv (bootstrap_context (new_context t e b h) t qty p ts i)"
  by (simp add: context_inv_def new_context_def bootstrap_context_def)

lemma context_inv_buy:
  assumes "context_inv ctx" and "0 \<le> q"
  shows "context_inv (record_buy_fill i ctx ord p q fee slip ts)"
  using assms inventory_nonneg [of "tc_position_lots ctx"]
  by (auto simp: context_inv_def record_buy_fill_def Let_def)

lemma exit_args_of_quantity [simp]: "ex_quantity (exit_args_of ctx ord p q fee slip ts) = q"
  by (simp add: exit_args_of_def)

lemma match_fifo_lots_frame [simp]:
  "tc_position_qty (fst (match_fifo_lots fresh ctx ord p q fee slip ts)) = tc_position_qty ctx"
  "tc_avg_entry_price (fst (match_fifo_lots fresh ctx ord p q fee slip ts)) = tc_avg_entry_price ctx"
  "tc_exit_qty (fst (match_fifo_lots fresh ctx ord p q fee slip ts)) = tc_exit_qty ctx"
  "tc_position_lots (fst (match_fifo_lots fresh ctx ord p q fee slip ts)) =
     fst (snd (match_lots fresh (tc_position_lots ctx) (exit_args_of ctx ord p q fee slip ts)))"
  by (simp_all add: match_fifo_lots_def Let_def split_beta)

lemma context_inv_sell:
  assumes "context_inv ctx" and "0 \<le> q"
  shows "context_inv (fst (record_sell_fill fresh ctx ord p q fee slip ts))"
proof -
  have ok: "lots_ok (tc_position_lots ctx)" and qty: "tc_position_qty ctx = inventory (tc_position_lots ctx)"
    and ex: "0 \<le> tc_exit_qty ctx"
    using assms(1) by (simp_all add: context_inv_def)
  have stock: "lots_ok (fst (snd (match_lots fresh (tc_position_lots ctx) a))) \<and>
      inventory (fst (snd (match_lots fresh (tc_position_lots ctx) a))) =
      max 0 (inventory (tc_position_lots ctx) - q)" if "ex_quantity a = q" for a
    using fifo.stock_after [OF ok, of a] fifo.ok_match [OF ok, of a] that assms(2)
    by (cases "match_lots fresh (tc_position_lots ctx) a") auto
  show ?thesis
    using ex assms(2)
    by (auto simp: context_inv_def record_sell_fill_def Let_def split_beta stock qty)
qed

lemma context_inv_frame [simp]:
  "context_inv (ctx\<lparr>tc_last_market_activity_time := t\<rparr>) = context_inv ctx"
  "context_inv (ctx\<lparr>tc_available_balance := b\<rparr>) = context_inv ctx"
  "context_inv (ctx\<lparr>tc_closing_balance := b\<rparr>) = context_inv ctx"
  by (simp_all add: context_inv_def)

lemma context_inv_apply_fill:
  "context_inv ctx \<Longrightarrow> 0 \<le> o_quantity ord \<Longrightarrow> context_inv (fst (apply_fill i fresh ctx ord))"
  by (simp add: apply_fill_def Let_def context_inv_buy context_inv_sell split: trade_action.split)

section \<open>Reachable sessions\<close>

inductive session_reach :: "session_manager \<Rightarrow> bool" where
  initial: "session_reach init_session_manager"
| created: "session_reach sm \<Longrightarrow> create_session sm t sid h head = Inr sm' \<Longrightarrow> session_reach sm'"
| started: "session_reach sm \<Longrightarrow> start_session sm now = Inr sm' \<Longrightarrow> session_reach sm'"
| rehashed: "session_reach sm \<Longrightarrow> session_reach (update_commit_hash sm h)"
| asset_initialised: "session_reach sm \<Longrightarrow>
    init_asset_balance py_hash sm a b q p ts now i = Inr sm' \<Longrightarrow> session_reach sm'"
| balance_changed: "session_reach sm \<Longrightarrow> session_reach (on_balance_changed sm e c b)"
| balance_updated: "session_reach sm \<Longrightarrow> session_reach (update_available_balance sm k b)"
| balance_closed: "session_reach sm \<Longrightarrow> session_reach (close_asset_balance sm k b)"
| filled: "session_reach sm \<Longrightarrow> 0 \<le> o_quantity ord \<Longrightarrow>
    session_reach (fst (record_order_fill i fresh head sm ord))"
| position_recorded: "session_reach sm \<Longrightarrow> session_reach (fst (record_position sm k md act))"
| ended: "session_reach sm \<Longrightarrow> session_reach (fst (end_session sm now))"
| reset: "session_reach sm \<Longrightarrow> session_reach (reset_session sm)"

definition contexts_inv :: "(int, trading_context) dict \<Rightarrow> bool" where
  "contexts_inv d \<longleftrightarrow> dict_wf d \<and> (\<forall>c\<in>set (dict_values d). context_inv c)"

definition session_inv :: "session_manager \<Rightarrow> bool" where
  "session_inv sm \<longleftrightarrow>
     (sn_is_running sm \<longrightarrow> sn_current_session sm \<noteq> None) \<and>
     (\<forall>s. sn_current_session sm = Some s \<longrightarrow> contexts_inv (ts_trading_contexts s))"

lemma contexts_inv_set:
  "contexts_inv d \<Longrightarrow> context_inv c \<Longrightarrow> contexts_inv (dict_set k c d)"
  unfolding contexts_inv_def using dict_values_set_subset [of k c d] by fastforce

lemma contexts_inv_get: "contexts_inv d \<Longrightarrow> dict_get d k = Some c \<Longrightarrow> context_inv c"
  by (force simp: contexts_inv_def dest: map_of_SomeD)

lemma update_first_keys [simp]: "dict_keys (update_first P f d) = dict_keys d"
  by (induction P f d rule: update_first.induct) auto

lemma update_first_values:
  "(\<forall>c\<in>set (dict_values d). Q c) \<Longrightarrow> (\<And>c. Q c \<Longrightarrow> Q (f c)) \<Longrightarrow>
   \<forall>c\<in>set (dict_values (update_first P f d)). Q c"
  by (induction P f d rule: update_first.induct) auto

lemma contexts_inv_update_first:
  assumes "contexts_inv d" and "\<And>c. context_inv c \<Longrightarrow> context_inv (f c)"
  shows "contexts_inv (update_first P f d)"
proof -
  have vals: "\<forall>c\<in>set (dict_values d). context_inv c" and keys: "distinct (dict_keys d)"
    using assms(1) by (simp_all add: contexts_inv_def dict_wf_def)
  have "\<forall>c\<in>set (dict_values (update_first P f d)). context_inv c"
    by (rule update_first_values [OF vals assms(2)])
  with keys show ?thesis by (simp add: contexts_inv_def dict_wf_def)
qed

lemma contexts_inv_map:
  assumes "contexts_inv d" and "\<And>c. context_inv c \<Longrightarrow> context_inv (f c)"
  shows "contexts_inv (map (\<lambda>(k, c). (k, f c)) d)"
proof -
  have keys: "fst \<circ> (\<lambda>(k, c). (k, f c)) = fst" by auto
  show ?thesis
    using assms unfolding contexts_inv_def dict_wf_def by (auto simp: keys)
qed

lemma session_inv_map:
  assumes "session_inv sm"
    and "\<And>s. contexts_inv (ts_trading_contexts s) \<Longrightarrow> contexts_inv (ts_trading_contexts (f s))"
  shows "session_inv (map_session f sm)"
  using assms by (auto simp: session_inv_def map_session_def)

lemma session_inv_modify:
  assumes "session_inv sm" and "\<And>c. context_inv c \<Longrightarrow> context_inv (f c)"
  shows "session_inv (modify_context k f sm)"
  unfolding modify_context_def
  by (rule session_inv_map [OF assms(1)])
    (auto intro: contexts_inv_set contexts_inv_get assms(2) split: option.split)

lemma session_inv_fill:
  assumes "session_inv sm" and "0 \<le> o_quantity ord"
  shows "session_inv (fst (record_order_fill i fresh head sm ord))"
  using assms
  by (auto simp: record_order_fill_def modify_context_by_symbol_def Let_def split: option.split
      intro!: session_inv_map contexts_inv_update_first context_inv_apply_fill)

lemma session_inv_init_asset:
  assumes "session_inv sm" and "init_asset_balance py_hash sm a b q p ts now i = Inr sm'"
  shows "session_inv sm'"
proof -
  obtain s where s: "sn_current_session sm = Some s"
    using assms(2) by (auto simp: init_asset_balance_def split: option.splits)
  have inv: "contexts_inv (ts_trading_contexts s)" using assms(1) s by (simp add: session_inv_def)
  show ?thesis
  proof (cases "dict_get (ts_trading_contexts s) (asset_key py_hash a)")
    case None
    let ?ctx = "new_context (ticker_symbol a) (a_exchange a) b (ts_commit_hash s)"
    have "context_inv (if q > 0 then bootstrap_context ?ctx (ticker_symbol a) q p (opt_or ts now) i
        else ?ctx)"
      by (simp add: context_inv_new context_inv_bootstrap)
    from contexts_inv_set [OF inv this] show ?thesis
      using assms(2) s None by (auto simp: init_asset_balance_def Let_def session_inv_def)
  qed (use assms s in \<open>simp add: init_asset_balance_def\<close>)
qed

lemma session_inv_on_balance:
  assumes "session_inv sm"
  shows "session_inv (on_balance_changed sm e c b)"
  unfolding on_balance_changed_def
  by (rule session_inv_map [OF assms]) (simp, erule contexts_inv_map, simp)

lemma session_reach_inv: "session_reach sm \<Longrightarrow> session_inv sm"
proof (induction rule: session_reach.induct)
  case (created sm t sid h head sm')
  then show ?case by (auto simp: create_session_def session_inv_def contexts_inv_def split: if_splits)
next
  case (started sm now sm')
  then show ?case by (auto simp: start_session_def session_inv_def split: option.splits)
next
  case (rehashed sm h)
  then show ?case by (auto simp: update_commit_hash_def intro: session_inv_map)
next
  case (asset_initialised sm py_hash a b q p ts now i sm')
  then show ?case by (blast intro: session_inv_init_asset)
next
  case (balance_changed sm e c b)
  then show ?case by (blast intro: session_inv_on_balance)
next
  case (balance_updated sm k b)
  then show ?case by (simp add: update_available_balance_def session_inv_modify)
next
  case (balance_closed sm k b)
  then show ?case by (simp add: close_asset_balance_def session_inv_modify)
next
  case (filled sm ord i fresh head)
  then show ?case by (blast intro: session_inv_fill)
next
  case (position_recorded sm k md act)
  then show ?case by (simp add: record_position_def session_inv_modify split: option.split)
next
  case (ended sm now)
  then show ?case by (auto simp: end_session_def session_inv_def split: option.split)
qed (simp_all add: session_inv_def init_session_manager_def reset_session_def)

section \<open>Realised profit\<close>

lemma match_lots_net:
  assumes "lots_ok lots" and "0 \<le> ex_quantity ex" and "match_lots fresh lots ex = (ts, lots', r)"
  shows "sum_list (map tr_net_pnl ts) =
    fifo_sum (\<lambda>l. ex_price ex - pl_price l - pl_fee_per_unit l - pl_slippage_per_unit l
                  - per_unit (ex_fee ex) (ex_quantity ex) - per_unit (ex_slippage ex) (ex_quantity ex))
      lots (ex_quantity ex)"
  using match_loop_sums [OF assms(1,2), of tr_net_pnl ex "per_unit (ex_fee ex) (ex_quantity ex)"
      "per_unit (ex_slippage ex) (ex_quantity ex)"
      "\<lambda>l. ex_price ex - pl_price l - pl_fee_per_unit l - pl_slippage_per_unit l
           - per_unit (ex_fee ex) (ex_quantity ex) - per_unit (ex_slippage ex) (ex_quantity ex)"
      fresh "[]"] assms(3)
  by (simp add: match_lots_def algebra_simps)

lemma fifo_sum_linear:
  "fifo_sum (\<lambda>l. c - w l) lots q = c * fifo_matched lots q - fifo_sum w lots q"
  by (induction lots arbitrary: q) (simp_all add: algebra_simps)

lemma fifo_sum_add: "fifo_sum (\<lambda>l. v l + w l) lots q = fifo_sum v lots q + fifo_sum w lots q"
  by (induction lots arbitrary: q) (simp_all add: algebra_simps)

lemma per_unit_mult: "0 < q \<Longrightarrow> per_unit a q * q = a"
  by (simp add: per_unit_def)

text \<open>A sale covered by the position realises its proceeds minus the FIFO cost of the units sold
  (entry price, entry fee and entry slippage per unit) minus its own fee and slippage.\<close>

lemma match_fifo_lots_pnl:
  assumes "lots_ok (tc_position_lots ctx)" and "0 < q" and "q \<le> inventory (tc_position_lots ctx)"
  shows "tc_realized_pnl (fst (match_fifo_lots fresh ctx ord p q fee slip ts)) =
    tc_realized_pnl ctx + p * q
    - fifo_sum (\<lambda>l. pl_price l + (pl_fee_per_unit l + pl_slippage_per_unit l)) (tc_position_lots ctx) q
    - fee - slip"
proof -
  let ?lots = "tc_position_lots ctx" and ?ex = "exit_args_of ctx ord p q fee slip ts"
  obtain trs lots' r where m: "match_lots fresh ?lots ?ex = (trs, lots', r)"
    by (cases "match_lots fresh ?lots ?ex")
  have q: "0 \<le> ex_quantity ?ex" using assms(2) by simp
  have "r = 0" using fifo.fully_matched_iff [OF assms(1) q m] assms(3) by simp
  have full: "fifo_matched ?lots q = q" using fifo_matched_eq [OF assms(1)] assms(2,3) by simp
  have "sum_list (map tr_net_pnl trs) =
      fifo_sum (\<lambda>l. (p - per_unit fee q - per_unit slip q)
                    - (pl_price l + (pl_fee_per_unit l + pl_slippage_per_unit l))) ?lots q"
    using match_lots_net [OF assms(1) q m] by (simp add: exit_args_of_def algebra_simps)
  also have "\<dots> = p * q - fee - slip
      - fifo_sum (\<lambda>l. pl_price l + (pl_fee_per_unit l + pl_slippage_per_unit l)) ?lots q"
    using assms(2) by (simp add: fifo_sum_linear full left_diff_distrib per_unit_mult)
  finally show ?thesis
    using \<open>r = 0\<close> by (simp add: match_fifo_lots_def m Let_def foldl_add_sum_list)
qed


section \<open>Properties\<close>

definition demo_lot :: "string \<Rightarrow> decimal \<Rightarrow> decimal \<Rightarrow> position_lot" where
  "demo_lot uuid price q = create_lot uuid uuid ''BTC_USD'' price q 0 0 None None None 0 None"

definition demo_exit :: "decimal \<Rightarrow> decimal \<Rightarrow> exit_args" where
  "demo_exit price q =
     \<lparr>ex_ticker_symbol = ''BTC_USD'', ex_order_uuid = ''x'', ex_price = price, ex_quantity = q,
      ex_fee = 0, ex_timestamp = 5, ex_commit_hash = None, ex_winning_strategy = None,
      ex_strategy_votes = None, ex_strategy_attributions = None, ex_slippage = 0, ex_regime = None\<rparr>"

lemma demo_exit_fields [simp]: "ex_quantity (demo_exit p q) = q" "ex_price (demo_exit p q) = p"
  by (simp_all add: demo_exit_def)

definition demo_order :: "trade_action \<Rightarrow> decimal \<Rightarrow> decimal \<Rightarrow> order" where
  "demo_order act price q =
     \<lparr>o_uuid = ''o'', o_provider_name = ''CDC'', o_ticker_symbol = ''BTC_USD'', o_price = price,
      o_quantity = q, o_trade_action = act, o_created_time = 1, o_commit_hash = None,
      o_executed_time = None, o_status = Some COMPLETED, o_fees = None, o_fill_price = None,
      o_winning_strategy = None, o_strategy_votes = None, o_strategy_attributions = None,
      o_slippage = None, o_decision_id = None, o_regime = None\<rparr>"

definition demo_asset :: asset where
  "demo_asset = \<lparr>a_base_ticker_symbol = ''BTC'', a_quote_ticker_symbol = ''USD'', a_exchange = ''CDC'',
     a_separator = None, a_enabled = True\<rparr>"

definition demo_session :: session_manager where
  "demo_session =
     init_session_manager\<lparr>sn_current_session := Some
       \<lparr>ts_session_id = ''s'', ts_session_time = new_session_time 1,
        ts_trading_contexts = [(0, new_context ''BTC_USD'' ''CDC'' 100 None)], ts_commit_hash = None\<rparr>\<rparr>"

lemma demo_session_reach: "session_reach demo_session"
proof -
  obtain sm where sm: "create_session init_session_manager 1 ''s'' None None = Inr sm"
    by (simp add: create_session_def init_session_manager_def)
  have "init_asset_balance (\<lambda>_. 0) sm demo_asset 100 0 0 None 2 ''l'' = Inr demo_session"
    using sm
    by (auto simp: init_asset_balance_def demo_session_def create_session_def init_session_manager_def
        asset_key_def ticker_symbol_def demo_asset_def)
  with sm show ?thesis
    by (blast intro: session_reach.intros)
qed



text \<open>C11.  FIFO matching conserves quantity: for non-negative lots and demand, the trades carry
  the smaller of demand and stock, the lots lose exactly that, the unmatched rest is what the
  stock could not cover, and the lots left are those of the reference consumption from the
  front.\<close>

theorem match_lots_conserves:
  assumes "lots_ok lots" and "0 \<le> ex_quantity ex" and "match_lots fresh lots ex = (ts, lots', r)"
  shows "sum_list (map tr_quantity ts) = min (ex_quantity ex) (inventory lots) \<and>
    inventory lots' = max 0 (inventory lots - ex_quantity ex) \<and>
    r = max 0 (ex_quantity ex - inventory lots) \<and>
    lots' = consume lots (ex_quantity ex)"
  using fifo.matched_total [OF assms] fifo.stock_after [OF assms] fifo.demand [OF assms]
    match_lots_eq(1) [OF assms] by auto

theorem match_lots_conserves_witness:
  "\<exists>ts lots' r. match_lots (\<lambda>_. []) [demo_lot ''a'' 10 2, demo_lot ''b'' 20 3] (demo_exit 30 4)
     = (ts, lots', r) \<and> sum_list (map tr_quantity ts) = 4 \<and> inventory lots' = 1"
proof -
  obtain ts lots' r where m:
    "match_lots (\<lambda>_. []) [demo_lot ''a'' 10 2, demo_lot ''b'' 20 3] (demo_exit 30 4) = (ts, lots', r)"
    by (metis prod_cases3)
  have "lots_ok [demo_lot ''a'' 10 2, demo_lot ''b'' 20 3]" and "0 \<le> ex_quantity (demo_exit 30 4)"
    by (simp_all add: demo_lot_def demo_exit_def)
  from match_lots_conserves [OF this m] m show ?thesis
    by (simp add: demo_lot_def demo_exit_def)
qed

text \<open>Trades are matched first-in first-out: the entries of the trades produced are, in
  order, the orders of a prefix of the lots.\<close>

theorem match_lots_fifo_order:
  assumes "lots_ok lots" and "0 \<le> ex_quantity ex" and "match_lots fresh lots ex = (ts, lots', r)"
  shows "map tr_entry_order_uuid ts = map pl_order_uuid (take (length ts) lots)"
  using match_loop_prefix [OF assms(1,2), of ex "per_unit (ex_fee ex) (ex_quantity ex)"
      "per_unit (ex_slippage ex) (ex_quantity ex)" fresh "[]"] assms(3)
  by (auto simp: match_lots_def)

theorem match_lots_fifo_order_witness:
  "map tr_entry_order_uuid (fst (match_lots (\<lambda>_. []) [demo_lot ''a'' 10 2, demo_lot ''b'' 20 3]
     (demo_exit 30 4))) = [''a'', ''b'']"
proof -
  let ?m = "match_lots (\<lambda>_. []) [demo_lot ''a'' 10 2, demo_lot ''b'' 20 3] (demo_exit 30 4)"
  have len: "length (fst ?m) = 2"
    by (simp add: match_lots_def demo_exit_def demo_lot_def match_loop_whole match_loop_part)
  have "lots_ok [demo_lot ''a'' 10 2, demo_lot ''b'' 20 3]" and "0 \<le> ex_quantity (demo_exit 30 4)"
    by (simp_all add: demo_lot_def demo_exit_def)
  then have "map tr_entry_order_uuid (fst ?m) =
      map pl_order_uuid (take (length (fst ?m)) [demo_lot ''a'' 10 2, demo_lot ''b'' 20 3])"
    by (rule match_lots_fifo_order [where lots' = "fst (snd ?m)" and r = "snd (snd ?m)"]) simp
  also have "\<dots> = [''a'', ''b'']" unfolding len by (simp add: demo_lot_def create_lot_def)
  finally show ?thesis .
qed

text \<open>Splitting an exit does not change its result: selling \<open>p\<close> and then \<open>q\<close> at one
  price leaves the same lots and the same total gross profit as selling \<open>p + q\<close> at once.\<close>

theorem match_lots_split:
  assumes ok: "lots_ok lots" and nonneg: "0 \<le> ex_quantity e1" "0 \<le> ex_quantity e2"
    and total: "ex_quantity e = ex_quantity e1 + ex_quantity e2"
    and price: "ex_price e1 = ex_price e" "ex_price e2 = ex_price e"
    and m1: "match_lots f1 lots e1 = (t1, l1, r1)"
    and m2: "match_lots f2 l1 e2 = (t2, l2, r2)"
    and m: "match_lots f lots e = (t, l, r)"
  shows "l2 = l \<and>
    sum_list (map tr_gross_pnl t1) + sum_list (map tr_gross_pnl t2) = sum_list (map tr_gross_pnl t)"
proof -
  have l1: "l1 = consume lots (ex_quantity e1)" by (rule match_lots_eq(1) [OF ok nonneg(1) m1])
  then have ok1: "lots_ok l1" by (simp add: ok consume_ok)
  have gross: "sum_list (map tr_gross_pnl ts) = fifo_sum (\<lambda>l. ex_price x - pl_price l) ls (ex_quantity x)"
    if "lots_ok ls" "0 \<le> ex_quantity x" "match_lots g ls x = (ts, ls', r')" for g ls x ts ls' r'
    using match_loop_sums [OF that(1,2), of tr_gross_pnl x "per_unit (ex_fee x) (ex_quantity x)"
        "per_unit (ex_slippage x) (ex_quantity x)" "\<lambda>l. ex_price x - pl_price l" g "[]"] that(3)
    by (simp add: match_lots_def)
  have e: "0 \<le> ex_quantity e" using nonneg total by simp
  have "l2 = l"
    using match_lots_eq(1) [OF ok1 nonneg(2) m2] match_lots_eq(1) [OF ok e m]
    by (simp add: l1 total consume_twice [OF ok nonneg])
  moreover have "fifo_sum (\<lambda>l. ex_price e - pl_price l) lots (ex_quantity e) =
      fifo_sum (\<lambda>l. ex_price e - pl_price l) lots (ex_quantity e1) +
      fifo_sum (\<lambda>l. ex_price e - pl_price l) l1 (ex_quantity e2)"
    unfolding total l1 by (rule fifo_sum_split [OF ok nonneg]) simp
  ultimately show ?thesis
    using gross [OF ok nonneg(1) m1] gross [OF ok1 nonneg(2) m2] gross [OF ok e m]
    by (simp add: price)
qed

theorem match_lots_split_witness:
  "sum_list (map tr_gross_pnl (fst (match_lots (\<lambda>_. []) [demo_lot ''a'' 10 2, demo_lot ''b'' 20 3]
      (demo_exit 30 1)))) +
   sum_list (map tr_gross_pnl (fst (match_lots (\<lambda>_. [])
      (fst (snd (match_lots (\<lambda>_. []) [demo_lot ''a'' 10 2, demo_lot ''b'' 20 3] (demo_exit 30 1))))
      (demo_exit 30 3)))) =
   sum_list (map tr_gross_pnl (fst (match_lots (\<lambda>_. []) [demo_lot ''a'' 10 2, demo_lot ''b'' 20 3]
      (demo_exit 30 4))))"
proof -
  let ?lots = "[demo_lot ''a'' 10 2, demo_lot ''b'' 20 3]"
  obtain t1 l1 r1 where m1: "match_lots (\<lambda>_. []) ?lots (demo_exit 30 1) = (t1, l1, r1)"
    by (metis prod_cases3)
  obtain t2 l2 r2 where m2: "match_lots (\<lambda>_. []) l1 (demo_exit 30 3) = (t2, l2, r2)"
    by (metis prod_cases3)
  obtain t l r where m: "match_lots (\<lambda>_. []) ?lots (demo_exit 30 4) = (t, l, r)"
    by (metis prod_cases3)
  have "lots_ok ?lots" by (simp add: demo_lot_def)
  then show ?thesis
    using match_lots_split [OF _ _ _ _ _ _ m1 m2 m] by (simp add: m1 m2 m)
qed

text \<open>A sale covered by the position realises exactly its proceeds minus the FIFO cost of
  the units sold (their entry price, entry fee and entry slippage) minus the sale's own fee and
  slippage.\<close>

theorem sell_fill_realized_pnl:
  assumes "context_inv ctx" and "0 < q" and "q \<le> tc_position_qty ctx"
  shows "tc_realized_pnl (fst (record_sell_fill fresh ctx ord p q fee slip ts)) =
    tc_realized_pnl ctx + p * q
    - fifo_sum (\<lambda>l. pl_price l + (pl_fee_per_unit l + pl_slippage_per_unit l)) (tc_position_lots ctx) q
    - fee - slip"
  using assms by (simp add: record_sell_fill_def Let_def split_beta match_fifo_lots_pnl context_inv_def)

theorem sell_fill_realized_pnl_witness:
  "tc_realized_pnl (fst (record_sell_fill (\<lambda>_. [])
     (bootstrap_context (new_context ''BTC_USD'' ''CDC'' 0 None) ''BTC_USD'' 5 10 0 ''l'')
     (demo_order SELL 12 2) 12 2 1 0 7)) = 3"
proof -
  let ?ctx = "bootstrap_context (new_context ''BTC_USD'' ''CDC'' 0 None) ''BTC_USD'' 5 10 0 ''l''"
  have "context_inv ?ctx" by (simp add: context_inv_bootstrap)
  moreover have "tc_position_qty ?ctx = 5" by (simp add: bootstrap_context_def)
  ultimately show ?thesis
    by (simp add: sell_fill_realized_pnl)
      (simp add: bootstrap_context_def new_context_def create_lot_def per_unit_def)
qed

text \<open>The recorded duration of a session is the time between \<open>start_session\<close> and
  \<open>end_session\<close> once it has ended; while it runs, the duration reported is the time from its
  start back to the moment the module was imported, so it is negative for every session started
  after the import.\<close>

theorem session_duration_life_cycle:
  assumes "create_session sm import_time sid h head = Inr sm1"
    and "start_session sm1 t0 = Inr sm2" and "end_session sm2 t1 = (sm3, Some s)"
    and "import_time \<noteq> 0" and "t1 \<noteq> 0"
  shows "session_duration (ts_session_time s) now = t1 - t0 \<and>
    map_option (\<lambda>s. session_duration (ts_session_time s) now) (sn_current_session sm2)
      = Some (import_time - t0)"
proof -
  obtain s1 where s1: "sn_current_session sm1 = Some s1"
    and time1: "ts_session_time s1 = new_session_time import_time"
    using assms(1) by (auto simp: create_session_def split: if_splits)
  let ?s2 = "s1\<lparr>ts_session_time := (ts_session_time s1)\<lparr>st_start_time := t0\<rparr>\<rparr>"
  have s2: "sn_current_session sm2 = Some ?s2" "sn_is_running sm2"
    using assms(2) s1 by (auto simp: start_session_def)
  then have "s = ?s2\<lparr>ts_session_time := (ts_session_time ?s2)\<lparr>st_end_time := t1\<rparr>\<rparr>"
    using assms(3) by (simp add: end_session_def)
  then show ?thesis
    using s2(1) time1 assms(4,5) by (simp add: session_duration_def new_session_time_def)
qed

theorem session_duration_life_cycle_witness:
  "\<exists>sm1 sm2 sm3 s. create_session init_session_manager 10 ''s'' None None = Inr sm1 \<and>
     start_session sm1 20 = Inr sm2 \<and> end_session sm2 50 = (sm3, Some s) \<and>
     session_duration (ts_session_time s) 60 = 30 \<and>
     map_option (\<lambda>s. session_duration (ts_session_time s) 60) (sn_current_session sm2) = Some (- 10)"
proof -
  obtain sm1 where 1: "create_session init_session_manager 10 ''s'' None None = Inr sm1"
    by (simp add: create_session_def init_session_manager_def)
  then obtain sm2 where 2: "start_session sm1 20 = Inr sm2"
    by (auto simp: create_session_def start_session_def init_session_manager_def)
  with 1 obtain sm3 s where 3: "end_session sm2 50 = (sm3, Some s)"
    by (auto simp: create_session_def start_session_def end_session_def init_session_manager_def)
  from session_duration_life_cycle [OF 1 2 3, of 60] 1 2 3 show ?thesis by auto
qed

end
