(* ===== verification/Strategies.thy ===== *)
theory Strategies
  imports Domain
begin

text \<open>
  Trading strategies: schedules and effective weights
  (\<open>src/src/trading/strategies/strategy_weight_resolver.py\<close>, \<open>models/strategy_schedule.py\<close>),
  the built-in rule-based strategies (\<open>src/src/trading/consensus/strategies/\<close>), and the
  resolution of an asset's configured strategies (\<open>strategy_resolver.py\<close>).

  A \<open>datetime\<close> is modelled by its local second count since 1970-01-01 00:00 in its own zone
  (\<open>dt_day\<close>, \<open>dt_seconds\<close>).  The time-zone database is a parameter: \<open>utcoffset tz t\<close> is the
  offset of zone \<open>tz\<close> at the UTC instant \<open>t\<close>.  The expression engine behind dynamic strategies
  is a parameter too: \<open>eval_expr\<close> is the truth value (or the exception) of an expression.
\<close>

section \<open>Date and time\<close>

definition day_seconds :: rat where
  "day_seconds = 86400"

definition dt_day :: "rat \<Rightarrow> int" where
  "dt_day t = \<lfloor>t / day_seconds\<rfloor>"

definition dt_seconds :: "rat \<Rightarrow> rat" where
  "dt_seconds t = t - of_int (dt_day t) * day_seconds"

text \<open>Monday is 0, as \<open>datetime.weekday()\<close> and the enumeration \<open>Weekday\<close>; day 0 is a Thursday.\<close>

definition day_weekday :: "int \<Rightarrow> int" where
  "day_weekday d = (d + 3) mod 7"

definition dt_weekday :: "rat \<Rightarrow> int" where
  "dt_weekday t = day_weekday (dt_day t)"

section \<open>Schedules\<close>

record trading_window =
  tw_days :: "int list"
  tw_start_time :: rat
  tw_end_time :: rat

text \<open>The validators of \<open>TradingWindow\<close>: days sorted without repetition, at least one; the
  start and end times differ.\<close>

definition make_window :: "int list \<Rightarrow> rat \<Rightarrow> rat \<Rightarrow> trading_window result" where
  "make_window days s e =
     (if days = [] then Inl ValueError
      else if s = e then Inl ValueError
      else Inr \<lparr>tw_days = sorted_list_of_set (set days), tw_start_time = s, tw_end_time = e\<rparr>)"

record strategy_schedule =
  ss_timezone :: string
  ss_windows :: "trading_window list"

definition is_end_of_day_bar :: "rat \<Rightarrow> bool" where
  "is_end_of_day_bar t \<longleftrightarrow>
     (let s = dt_seconds t; hour = \<lfloor>s / 3600\<rfloor>; minute = \<lfloor>s / 60\<rfloor> mod 60; second = \<lfloor>s\<rfloor> mod 60
      in (hour = 23 \<and> minute \<ge> 50) \<or> (hour = 0 \<and> minute = 0 \<and> second = 0))"

definition is_window_active :: "trading_window \<Rightarrow> rat \<Rightarrow> rat option \<Rightarrow> bool" where
  "is_window_active w local_dt utc_dt =
     (let current_weekday = dt_weekday local_dt;
          current_time = dt_seconds local_dt;
          by_clock =
            (if is_end_of_day_bar local_dt then dt_weekday local_dt \<in> set (tw_days w)
             else if tw_start_time w < tw_end_time w
             then current_weekday \<in> set (tw_days w) \<and>
                  tw_start_time w \<le> current_time \<and> current_time < tw_end_time w
             else (current_weekday \<in> set (tw_days w) \<and> current_time \<ge> tw_start_time w) \<or>
                  ((dt_weekday local_dt - 1) mod 7 \<in> set (tw_days w) \<and> current_time < tw_end_time w))
      in case utc_dt of
           Some u \<Rightarrow> if is_end_of_day_bar u then dt_weekday u \<in> set (tw_days w) else by_clock
         | None \<Rightarrow> by_clock)"

definition is_schedule_active ::
  "(string \<Rightarrow> rat \<Rightarrow> rat) \<Rightarrow> strategy_schedule \<Rightarrow> timestamp \<Rightarrow> bool" where
  "is_schedule_active utcoffset sch t =
     (if ss_windows sch = [] then False
      else let local_dt = t + utcoffset (ss_timezone sch) t
           in list_ex (\<lambda>w. is_window_active w local_dt (Some t)) (ss_windows sch))"

section \<open>Strategies\<close>

datatype strategy_kind =
    BearishEngulfingSell
  | BuyActiveOpenPositionsCount nat
  | BuyContextAwareGrid decimal
  | BuyLowerThanLowestBuy decimal
  | BuyRebalance decimal
  | BuyVolatilityRisk rat
  | HammerAccumulation
  | RiskManagementBuy rat
  | SellHigherThanHighestBuy decimal
  | SellProfitTaking decimal
  | SellStopLoss decimal
  | ShootingStarSell
  | Expression string

record strategy =
  sy_id :: nat
  sy_name :: string
  sy_action :: trade_action
  sy_ticker_symbols :: "string set option"
  sy_weight :: rat
  sy_schedule :: "strategy_schedule option"
  sy_enabled :: bool
  sy_kind :: strategy_kind

definition resolve_effective_weight ::
  "(string \<Rightarrow> rat \<Rightarrow> rat) \<Rightarrow> strategy \<Rightarrow> timestamp \<Rightarrow> rat" where
  "resolve_effective_weight utcoffset s t =
     (if \<not> sy_enabled s then 0
      else if sy_weight s \<le> 0 then 0
      else case sy_schedule s of
             None \<Rightarrow> sy_weight s
           | Some sch \<Rightarrow>
               if ss_windows sch = [] then 0
               else if is_schedule_active utcoffset sch t then sy_weight s
               else 0)"

subsection \<open>Votes of the built-in strategies\<close>

definition bearish_engulfing_vote :: "candle list \<Rightarrow> bool" where
  "bearish_engulfing_vote candles =
     (case rev candles of
        latest # prev # _ \<Rightarrow>
          cd_close prev > cd_open prev \<and> cd_close latest < cd_open latest \<and>
          cd_open latest \<ge> cd_close prev \<and> cd_close latest \<le> cd_open prev
      | _ \<Rightarrow> False)"

definition candle_body :: "candle \<Rightarrow> rat" where
  "candle_body c = \<bar>cd_close c - cd_open c\<bar>"

definition lower_wick :: "candle \<Rightarrow> rat" where
  "lower_wick c = min (cd_open c) (cd_close c) - cd_low c"

definition upper_wick :: "candle \<Rightarrow> rat" where
  "upper_wick c = cd_high c - max (cd_open c) (cd_close c)"

definition hammer_vote :: "candle list \<Rightarrow> bool" where
  "hammer_vote candles =
     (case rev candles of
        [] \<Rightarrow> False
      | c # _ \<Rightarrow>
          if candle_body c = 0 then False
          else lower_wick c \<ge> 2 * candle_body c \<and> upper_wick c \<le> 1 / 2 * candle_body c)"

definition shooting_star_vote :: "candle list \<Rightarrow> bool" where
  "shooting_star_vote candles =
     (case rev candles of
        [] \<Rightarrow> False
      | c # _ \<Rightarrow>
          if candle_body c = 0 then False
          else upper_wick c \<ge> 3 / 2 * candle_body c \<and> lower_wick c \<le> 1 / 2 * candle_body c)"

definition calculate_volatility :: "candle list \<Rightarrow> rat" where
  "calculate_volatility candles =
     (let ranges = map (\<lambda>c. (cd_high c - cd_low c) / cd_close c) (filter (\<lambda>c. cd_close c > 0) candles)
      in if ranges = [] then 0 else sum_list ranges / of_nat (length ranges))"

definition open_positions_vote :: "nat \<Rightarrow> trading_context \<Rightarrow> bool" where
  "open_positions_vote threshold ctx \<longleftrightarrow> length (tc_open_positions ctx) < threshold"

text \<open>The percentage parameters are divided by 100 when the strategy is constructed.\<close>

definition grid_vote :: "decimal \<Rightarrow> trading_context \<Rightarrow> decimal \<Rightarrow> bool" where
  "grid_vote pct ctx close_price =
     (case tc_lowest_buy ctx of
        None \<Rightarrow> True
      | Some lowest \<Rightarrow> close_price \<le> lowest * (1 - pct / 100))"

definition lower_than_lowest_vote :: "decimal \<Rightarrow> trading_context \<Rightarrow> decimal \<Rightarrow> bool" where
  "lower_than_lowest_vote pct ctx close_price =
     (case tc_lowest_buy ctx of
        None \<Rightarrow> True
      | Some lowest \<Rightarrow> close_price < lowest * (1 - pct / 100))"

definition higher_than_highest_vote :: "decimal \<Rightarrow> trading_context \<Rightarrow> decimal \<Rightarrow> bool" where
  "higher_than_highest_vote pct ctx close_price =
     (case tc_highest_buy ctx of
        None \<Rightarrow> False
      | Some highest \<Rightarrow> close_price > highest * (1 + pct / 100))"

definition rebalance_vote :: "decimal \<Rightarrow> trading_context \<Rightarrow> bool" where
  "rebalance_vote threshold ctx \<longleftrightarrow> tc_closing_balance ctx > tc_starting_balance ctx * threshold"

definition profit_taking_vote :: "decimal \<Rightarrow> trading_context \<Rightarrow> decimal \<Rightarrow> bool" where
  "profit_taking_vote pct ctx close_price =
     list_ex (\<lambda>p. close_price \<ge> pe_price p * (1 + pct / 100)) (tc_open_positions ctx)"

fun stop_loss_loop :: "decimal \<Rightarrow> decimal \<Rightarrow> position_entry list \<Rightarrow> bool result" where
  "stop_loss_loop pct close_price [] = Inr False"
| "stop_loss_loop pct close_price (p # ps) =
     (if pe_price p = 0 then Inl ZeroDivisionError
      else if (pe_price p - close_price) / pe_price p \<ge> pct then Inr True
      else stop_loss_loop pct close_price ps)"

type_synonym expr_oracle =
  "string \<Rightarrow> trading_context \<Rightarrow> market_data option \<Rightarrow> candle list \<Rightarrow> bool result"

definition with_price :: "market_data option \<Rightarrow> (decimal \<Rightarrow> 'a result) \<Rightarrow> 'a result" where
  "with_price md f = (case md of None \<Rightarrow> Inl AttributeError | Some m \<Rightarrow> f (md_close_price m))"

fun kind_vote ::
  "expr_oracle \<Rightarrow> strategy_kind \<Rightarrow> trade_action \<Rightarrow> trade_action \<Rightarrow> trading_context \<Rightarrow>
     market_data option \<Rightarrow> candle list \<Rightarrow> bool result" where
  "kind_vote ev BearishEngulfingSell own act ctx md cs = Inr (bearish_engulfing_vote cs)"
| "kind_vote ev (BuyActiveOpenPositionsCount n) own act ctx md cs =
     Inr (act = BUY \<and> open_positions_vote n ctx)"
| "kind_vote ev (BuyContextAwareGrid pct) own act ctx md cs =
     (if act \<noteq> BUY then Inr False
      else if tc_lowest_buy ctx = None then Inr True
      else with_price md (\<lambda>p. Inr (grid_vote pct ctx p)))"
| "kind_vote ev (BuyLowerThanLowestBuy pct) own act ctx md cs =
     (if act \<noteq> BUY then Inr False
      else if tc_lowest_buy ctx = None then Inr True
      else with_price md (\<lambda>p. Inr (lower_than_lowest_vote pct ctx p)))"
| "kind_vote ev (BuyRebalance t) own act ctx md cs = Inr (rebalance_vote t ctx)"
| "kind_vote ev (BuyVolatilityRisk tol) own act ctx md cs =
     Inr (act = BUY \<and> calculate_volatility cs \<le> tol)"
| "kind_vote ev HammerAccumulation own act ctx md cs = Inr (hammer_vote cs)"
| "kind_vote ev (RiskManagementBuy tol) own act ctx md cs = Inr True"
| "kind_vote ev (SellHigherThanHighestBuy pct) own act ctx md cs =
     (if act \<noteq> SELL then Inr False
      else if tc_highest_buy ctx = None then Inr False
      else with_price md (\<lambda>p. Inr (higher_than_highest_vote pct ctx p)))"
| "kind_vote ev (SellProfitTaking pct) own act ctx md cs =
     (if act \<noteq> SELL then Inr False
      else with_price md (\<lambda>p. Inr (profit_taking_vote pct ctx p)))"
| "kind_vote ev (SellStopLoss pct) own act ctx md cs =
     (if act \<noteq> SELL then Inr False
      else with_price md (\<lambda>p. stop_loss_loop pct p (tc_open_positions ctx)))"
| "kind_vote ev ShootingStarSell own act ctx md cs = Inr (shooting_star_vote cs)"
| "kind_vote ev (Expression e) own act ctx md cs =
     (if act \<noteq> own then Inr False else ev e ctx md cs)"

definition strategy_vote ::
  "expr_oracle \<Rightarrow> strategy \<Rightarrow> trade_action \<Rightarrow> trading_context \<Rightarrow> market_data option \<Rightarrow> candle list \<Rightarrow>
     bool result" where
  "strategy_vote ev s act ctx md cs = kind_vote ev (sy_kind s) (sy_action s) act ctx md cs"

section \<open>Resolution of configured strategies\<close>

datatype strategy_type = STATIC | DYNAMIC

record strategy_config =
  cf_name :: string
  cf_type :: strategy_type
  cf_action :: "trade_action option"
  cf_expression :: "string option"
  cf_class_name :: "string option"
  cf_enabled :: bool
  cf_weight :: rat
  cf_schedule :: "strategy_schedule option"

record consensus_factor =
  cf_buy :: rat
  cf_sell :: rat

record strategy_asset = asset +
  sa_consensus :: "consensus_factor option"
  sa_strategies :: "strategy_config list option"

text \<open>The built-in classes, their constructor defaults and the action each sets.\<close>

definition builtin_strategy_classes :: "(string, strategy_kind \<times> trade_action) dict" where
  "builtin_strategy_classes =
     [(''BearishEngulfingSellStrategy'', BearishEngulfingSell, SELL),
      (''BuyActiveOpenPositionsCountStrategy'', BuyActiveOpenPositionsCount 15, BUY),
      (''BuyContextAwareGridStrategy'', BuyContextAwareGrid (1/2), BUY),
      (''BuyLowerThanLowestBuyStrategy'', BuyLowerThanLowestBuy (1/2), BUY),
      (''BuyRebalanceStrategy'', BuyRebalance (1/100), BUY),
      (''BuyVolatilityRiskStrategy'', BuyVolatilityRisk (1/50), BUY),
      (''HammerAccumulationStrategy'', HammerAccumulation, BUY),
      (''RiskManagementBuyStrategy'', RiskManagementBuy (1/50), BUY),
      (''SellHigherThanHighestBuyStrategy'', SellHigherThanHighestBuy (1/2), SELL),
      (''SellProfitTakingStrategy'', SellProfitTaking (1/50), SELL),
      (''SellStopLossStrategy'', SellStopLoss (1/50), SELL),
      (''ShootingStarSellStrategy'', ShootingStarSell, SELL)]"

definition bind_to_asset :: "strategy \<Rightarrow> 'x asset_scheme \<Rightarrow> strategy result" where
  "bind_to_asset s a =
     (if ticker_symbol a = [] then Inl ValueError
      else Inr (s\<lparr>sy_ticker_symbols := Some {ticker_symbol a}\<rparr>))"

definition resolve_dynamic ::
  "(string, strategy_config) dict \<Rightarrow> nat \<Rightarrow> strategy_config \<Rightarrow> 'x asset_scheme \<Rightarrow> strategy result" where
  "resolve_dynamic registry oid entry a =
     (let predefined = dict_get registry (cf_name entry);
          expression = (case cf_expression entry of
                          Some e \<Rightarrow> Some e
                        | None \<Rightarrow> Option.bind predefined cf_expression);
          act = (case cf_action entry of
                   Some x \<Rightarrow> Some x
                 | None \<Rightarrow> Option.bind predefined cf_action)
      in case expression of
           None \<Rightarrow> Inl ValueError
         | Some e \<Rightarrow>
             (case act of
                None \<Rightarrow> Inl ValueError
              | Some x \<Rightarrow>
                  bind_to_asset
                    \<lparr>sy_id = oid, sy_name = cf_name entry, sy_action = x, sy_ticker_symbols = None,
                     sy_weight = cf_weight entry, sy_schedule = cf_schedule entry,
                     sy_enabled = cf_enabled entry, sy_kind = Expression e\<rparr> a))"

definition resolve_static :: "nat \<Rightarrow> strategy_config \<Rightarrow> 'x asset_scheme \<Rightarrow> strategy result" where
  "resolve_static oid entry a =
     (case Option.bind (cf_class_name entry) (dict_get builtin_strategy_classes) of
        None \<Rightarrow> Inl ValueError
      | Some (kind, act) \<Rightarrow>
          (if cf_action entry \<noteq> None \<and> cf_action entry \<noteq> Some act then Inl ValueError
           else bind_to_asset
                  \<lparr>sy_id = oid, sy_name = opt_or (cf_class_name entry) [], sy_action = act,
                   sy_ticker_symbols = None, sy_weight = cf_weight entry,
                   sy_schedule = cf_schedule entry, sy_enabled = cf_enabled entry,
                   sy_kind = kind\<rparr> a))"

definition resolve_entry ::
  "(string, strategy_config) dict \<Rightarrow> nat \<Rightarrow> strategy_config \<Rightarrow> 'x asset_scheme \<Rightarrow> strategy result" where
  "resolve_entry registry oid entry a =
     (if cf_type entry = DYNAMIC then resolve_dynamic registry oid entry a
      else resolve_static oid entry a)"

text \<open>\<open>oids\<close> numbers the strategy objects created; the first failing entry aborts.\<close>

fun resolve_entries ::
  "(string, strategy_config) dict \<Rightarrow> nat \<Rightarrow> strategy_config list \<Rightarrow> 'x asset_scheme \<Rightarrow>
     strategy list result" where
  "resolve_entries registry oid [] a = Inr []"
| "resolve_entries registry oid (entry # es) a =
     (if \<not> cf_enabled entry then resolve_entries registry oid es a
      else res_bind (resolve_entry registry oid entry a)
             (\<lambda>s. res_bind (resolve_entries registry (Suc oid) es a) (\<lambda>ss. Inr (s # ss))))"

definition resolve_asset ::
  "(string, strategy_config) dict \<Rightarrow> nat \<Rightarrow> strategy_asset \<Rightarrow> strategy list result" where
  "resolve_asset registry oid a =
     (if \<not> a_enabled a then Inr []
      else resolve_entries registry oid (opt_or (sa_strategies a) []) a)"


section \<open>Windows as recurring intervals\<close>

lemma dt_split: "t = of_int (dt_day t) * day_seconds + dt_seconds t"
  by (simp add: dt_seconds_def)

lemma dt_seconds_bounds: "0 \<le> dt_seconds t" "dt_seconds t < day_seconds"
proof -
  have "of_int (dt_day t) \<le> t / day_seconds" "t / day_seconds < of_int (dt_day t) + 1"
    unfolding dt_day_def by linarith+
  then show "0 \<le> dt_seconds t" "dt_seconds t < day_seconds"
    by (simp_all add: dt_seconds_def day_seconds_def)
qed

lemma day_weekday_pred: "(day_weekday d - 1) mod 7 = day_weekday (d - 1)"
  by (simp add: day_weekday_def mod_diff_left_eq algebra_simps)

lemma day_index_mono: "of_int j * day_seconds < of_int k * day_seconds \<longleftrightarrow> j < (k::int)"
  by (simp add: day_seconds_def)

text \<open>The instants a window covers on the day \<open>k\<close>: an overnight window ends on the next day.\<close>

definition window_covers :: "trading_window \<Rightarrow> int \<Rightarrow> rat \<Rightarrow> bool" where
  "window_covers w k t \<longleftrightarrow>
     of_int k * day_seconds + tw_start_time w \<le> t \<and>
     t < of_int k * day_seconds + tw_end_time w
         + (if tw_start_time w < tw_end_time w then 0 else day_seconds)"

definition window_ok :: "trading_window \<Rightarrow> bool" where
  "window_ok w \<longleftrightarrow> 0 \<le> tw_start_time w \<and> tw_start_time w < day_seconds \<and>
     0 \<le> tw_end_time w \<and> tw_end_time w < day_seconds"

lemma window_covers_days:
  assumes "window_ok w" and "window_covers w k t"
  shows "k = dt_day t \<or> (\<not> tw_start_time w < tw_end_time w \<and> k = dt_day t - 1)"
proof -
  let ?d = "dt_day t"
  have t: "of_int ?d * day_seconds \<le> t" "t < of_int (?d + 1) * day_seconds"
    using dt_split [of t] dt_seconds_bounds [of t] by (simp_all add: algebra_simps)
  have "of_int k * day_seconds < of_int (?d + 1) * day_seconds"
    using assms t unfolding window_covers_def window_ok_def by linarith
  then have upper: "k < ?d + 1" unfolding day_index_mono .
  have "of_int ?d * day_seconds
      < of_int (k + (if tw_start_time w < tw_end_time w then 1 else 2)) * day_seconds"
    using assms t by (simp add: window_covers_def window_ok_def algebra_simps split: if_splits)
  then have "?d < k + (if tw_start_time w < tw_end_time w then 1 else 2)" unfolding day_index_mono .
  with upper show ?thesis by (auto split: if_splits)
qed

lemma window_covers_today:
  assumes "window_ok w"
  shows "window_covers w (dt_day t) t \<longleftrightarrow>
    tw_start_time w \<le> dt_seconds t \<and>
    (tw_start_time w < tw_end_time w \<longrightarrow> dt_seconds t < tw_end_time w)"
  using assms dt_seconds_bounds [of t]
  unfolding window_covers_def window_ok_def dt_seconds_def by auto

lemma window_covers_yesterday:
  assumes "window_ok w" and "\<not> tw_start_time w < tw_end_time w"
  shows "window_covers w (dt_day t - 1) t \<longleftrightarrow> dt_seconds t < tw_end_time w"
  using assms dt_seconds_bounds [of t]
  unfolding window_covers_def window_ok_def dt_seconds_def by (auto simp: algebra_simps)

lemma window_active_iff_covers:
  assumes "window_ok w" and "\<not> is_end_of_day_bar t"
  shows "is_window_active w t None \<longleftrightarrow> (\<exists>k. day_weekday k \<in> set (tw_days w) \<and> window_covers w k t)"
proof -
  let ?d = "dt_day t" and ?D = "set (tw_days w)"
  have "(\<exists>k. day_weekday k \<in> ?D \<and> window_covers w k t) \<longleftrightarrow>
      (day_weekday ?d \<in> ?D \<and> window_covers w ?d t) \<or>
      (\<not> tw_start_time w < tw_end_time w \<and> day_weekday (?d - 1) \<in> ?D \<and> window_covers w (?d - 1) t)"
    using window_covers_days [OF assms(1)] by blast
  also have "\<dots> \<longleftrightarrow> is_window_active w t None"
    using assms window_covers_today [OF assms(1), of t] window_covers_yesterday [OF assms(1), of t]
    by (auto simp: is_window_active_def Let_def dt_weekday_def day_weekday_pred)
  finally show ?thesis by simp
qed

section \<open>Resolution\<close>

lemma bind_to_asset_ok:
  "bind_to_asset s a = Inr s' \<Longrightarrow>
   sy_ticker_symbols s' = Some {ticker_symbol a} \<and> sy_enabled s' = sy_enabled s \<and>
   sy_weight s' = sy_weight s"
  by (auto simp: bind_to_asset_def split: if_splits)

lemma resolve_entry_ok:
  assumes "resolve_entry registry oid entry a = Inr s"
  shows "sy_ticker_symbols s = Some {ticker_symbol a} \<and> sy_enabled s = cf_enabled entry \<and>
    sy_weight s = cf_weight entry \<and> (\<forall>act. cf_action entry = Some act \<longrightarrow> sy_action s = act)"
  using assms
  by (auto simp: resolve_entry_def resolve_dynamic_def resolve_static_def bind_to_asset_def Let_def
      split: if_splits option.splits)

lemma resolve_entries_ok:
  assumes "resolve_entries registry oid es a = Inr ss"
  shows "list_all2 (\<lambda>e s. sy_ticker_symbols s = Some {ticker_symbol a} \<and> sy_enabled s \<and>
      sy_weight s = cf_weight e \<and> (\<forall>act. cf_action e = Some act \<longrightarrow> sy_action s = act))
    (filter cf_enabled es) ss"
  using assms
  by (induction es arbitrary: oid ss) (auto simp: res_bind_eq_Inr dest: resolve_entry_ok split: if_splits)

section \<open>Properties\<close>

text \<open>Outside the end-of-day bar, a strategy window is active at a local instant exactly
  when the instant lies in one of the recurring intervals of the window: from the start time of a
  listed weekday (inclusive) to the end time (exclusive), which falls on the following day when
  the end is not after the start.\<close>

theorem window_active_recurring:
  assumes "window_ok w" and "\<not> is_end_of_day_bar t"
  shows "is_window_active w t None \<longleftrightarrow> (\<exists>k. day_weekday k \<in> set (tw_days w) \<and> window_covers w k t)"
  using assms by (rule window_active_iff_covers)

theorem window_active_recurring_witness:
  "is_window_active \<lparr>tw_days = [3], tw_start_time = 79200, tw_end_time = 21600\<rparr> 100000 None"
proof -
  let ?w = "\<lparr>tw_days = [3], tw_start_time = 79200, tw_end_time = 21600\<rparr>"
  have ok: "window_ok ?w" by (simp add: window_ok_def day_seconds_def)
  have day: "dt_day 100000 = 1" by (simp add: dt_day_def day_seconds_def floor_eq_iff)
  have bar: "\<not> is_end_of_day_bar 100000"
    by (simp add: is_end_of_day_bar_def dt_seconds_def day Let_def day_seconds_def floor_eq_iff)
  have "day_weekday 0 \<in> set (tw_days ?w) \<and> window_covers ?w 0 100000"
    by (simp add: day_weekday_def window_covers_def day_seconds_def)
  then show ?thesis using window_active_recurring [OF ok bar] by blast
qed

text \<open>Resolving an asset's configuration yields one strategy per enabled entry, in order,
  bound to exactly that asset's ticker, with the configured weight and, where configured, the
  configured action; a disabled asset has none.\<close>

theorem resolve_asset_binds:
  assumes "resolve_asset registry oid a = Inr ss"
  shows "list_all2 (\<lambda>e s. sy_ticker_symbols s = Some {ticker_symbol a} \<and> sy_enabled s \<and>
      sy_weight s = cf_weight e \<and> (\<forall>act. cf_action e = Some act \<longrightarrow> sy_action s = act))
    (if a_enabled a then filter cf_enabled (opt_or (sa_strategies a) []) else []) ss"
  using assms by (auto simp: resolve_asset_def dest: resolve_entries_ok split: if_splits)

definition demo_config :: strategy_config where
  "demo_config = \<lparr>cf_name = ''h'', cf_type = STATIC, cf_action = Some BUY, cf_expression = None,
     cf_class_name = Some ''HammerAccumulationStrategy'', cf_enabled = True, cf_weight = 2,
     cf_schedule = None\<rparr>"

definition demo_strategy_asset :: strategy_asset where
  "demo_strategy_asset = \<lparr>a_base_ticker_symbol = ''BTC'', a_quote_ticker_symbol = ''USD'',
     a_exchange = ''CDC'', a_separator = None, a_enabled = True,
     sa_consensus = Some \<lparr>cf_buy = 1, cf_sell = 1\<rparr>, sa_strategies = Some [demo_config]\<rparr>"

theorem resolve_asset_binds_witness:
  "\<exists>s. resolve_asset [] 0 demo_strategy_asset = Inr [s] \<and>
     sy_ticker_symbols s = Some {''BTC_USD''} \<and> sy_weight s = 2 \<and> sy_action s = BUY"
proof -
  obtain s where s: "resolve_asset [] 0 demo_strategy_asset = Inr [s]"
    by (simp add: resolve_asset_def demo_strategy_asset_def demo_config_def resolve_entry_def
        resolve_static_def builtin_strategy_classes_def bind_to_asset_def ticker_symbol_def)
  have t: "ticker_symbol demo_strategy_asset = ''BTC_USD''"
    by (simp add: ticker_symbol_def demo_strategy_asset_def)
  show ?thesis
    using resolve_asset_binds [OF s] s by (simp add: t) (simp add: demo_strategy_asset_def demo_config_def)
qed

end
