(* ===== verification/Consensus.thy ===== *)
theory Consensus
  imports Strategies
begin

text \<open>
  The consensus engine (\<open>src/src/trading/consensus/consensus_manager.py\<close>,
  \<open>consensus_decision.py\<close>): strategies are registered per action, the eligible ones vote with
  their effective weight, and a decision reaches quorum when the weighted true votes outweigh the
  false ones by the asset's factor.  The published evaluation events are returned with the
  decision.  Strategy objects are compared by identity, here \<open>sy_id\<close>.
\<close>

section \<open>Decisions\<close>

record consensus_decision =
  dn_trade_action :: trade_action
  dn_ticker_symbol :: string
  dn_votes :: "(string, bool) dict"
  dn_weights :: "(string, rat) dict"
  dn_factor :: rat

definition true_count :: "consensus_decision \<Rightarrow> nat" where
  "true_count d = length (filter (\<lambda>v. v) (dict_values (dn_votes d)))"

definition total_votes :: "consensus_decision \<Rightarrow> nat" where
  "total_votes d = length (dn_votes d)"

definition vote_ratio :: "consensus_decision \<Rightarrow> rat" where
  "vote_ratio d = (if total_votes d = 0 then 0 else of_nat (true_count d) / of_nat (total_votes d))"

definition total_weight :: "consensus_decision \<Rightarrow> rat" where
  "total_weight d = sum_list (dict_values (dn_weights d))"

definition weighted_true_count :: "consensus_decision \<Rightarrow> rat" where
  "weighted_true_count d =
     sum_list (map snd (filter (\<lambda>(n, w). dict_get (dn_votes d) n = Some True) (dn_weights d)))"

definition weighted_false_count :: "consensus_decision \<Rightarrow> rat" where
  "weighted_false_count d =
     sum_list (map snd (filter (\<lambda>(n, w). dict_get (dn_votes d) n = Some False) (dn_weights d)))"

definition weighted_vote_ratio :: "consensus_decision \<Rightarrow> rat" where
  "weighted_vote_ratio d =
     (if total_weight d = 0 then 0 else weighted_true_count d / total_weight d)"

definition quorum_threshold :: "consensus_decision \<Rightarrow> rat" where
  "quorum_threshold d = dn_factor d / (1 + dn_factor d)"

definition quorum_margin :: "consensus_decision \<Rightarrow> rat" where
  "quorum_margin d =
     (if total_weight d > 0
      then weighted_true_count d - dn_factor d * weighted_false_count d
      else of_nat (true_count d) - dn_factor d * (of_nat (total_votes d) - of_nat (true_count d)))"

definition quorum :: "consensus_decision \<Rightarrow> bool" where
  "quorum d =
     (if total_weight d > 0
      then weighted_true_count d > 0 \<and> quorum_margin d \<ge> 0
      else total_votes d > 0 \<and> quorum_margin d \<ge> 0)"

section \<open>The manager\<close>

record consensus_manager =
  cm_strategies :: "(trade_action, strategy list) dict"
  cm_asset_factors :: "(string, consensus_factor) dict"
  cm_has_event_bus :: bool

definition set_factors :: "consensus_manager \<Rightarrow> strategy_asset list \<Rightarrow> consensus_manager" where
  "set_factors cm assets =
     cm\<lparr>cm_asset_factors :=
       foldl (\<lambda>d a. case sa_consensus a of
                 None \<Rightarrow> d
               | Some f \<Rightarrow> dict_set (ticker_symbol a) f d) [] assets\<rparr>"

definition factor_for :: "consensus_manager \<Rightarrow> string \<Rightarrow> consensus_factor option" where
  "factor_for cm ticker = dict_get (cm_asset_factors cm) ticker"

definition conflicts :: "strategy \<Rightarrow> strategy \<Rightarrow> bool" where
  "conflicts other new \<longleftrightarrow>
     sy_name other = sy_name new \<and>
     (case (sy_ticker_symbols other, sy_ticker_symbols new) of
        (Some ts, Some us) \<Rightarrow> ts \<inter> us \<noteq> {}
      | _ \<Rightarrow> True)"

definition strategies_for :: "consensus_manager \<Rightarrow> trade_action \<Rightarrow> strategy list" where
  "strategies_for cm act = opt_or (dict_get (cm_strategies cm) act) []"

definition register_strategy :: "consensus_manager \<Rightarrow> strategy \<Rightarrow> consensus_manager result" where
  "register_strategy cm s =
     (if sy_ticker_symbols s = Some {} then Inl ValueError
      else if list_ex (\<lambda>other. conflicts other s) (strategies_for cm (sy_action s))
      then Inl ValueError
      else Inr (cm\<lparr>cm_strategies :=
             dict_set (sy_action s) (strategies_for cm (sy_action s) @ [s]) (cm_strategies cm)\<rparr>))"

fun remove_by_id :: "nat \<Rightarrow> strategy list \<Rightarrow> strategy list" where
  "remove_by_id i [] = []"
| "remove_by_id i (s # ss) = (if sy_id s = i then ss else s # remove_by_id i ss)"

definition unregister_action ::
  "strategy \<Rightarrow> (trade_action, strategy list) dict \<Rightarrow> trade_action \<Rightarrow> (trade_action, strategy list) dict"
where
  "unregister_action s d act =
     (case dict_get d act of
        None \<Rightarrow> d
      | Some ss \<Rightarrow>
          (if sy_id s \<in> sy_id ` set ss
           then let ss' = remove_by_id (sy_id s) ss
                in if ss' = [] then dict_del act d else dict_set act ss' d
           else d))"

definition unregister_strategy :: "consensus_manager \<Rightarrow> strategy \<Rightarrow> consensus_manager" where
  "unregister_strategy cm s =
     (let actions = (if sy_action s \<in> set (dict_keys (cm_strategies cm)) then [sy_action s]
                     else dict_keys (cm_strategies cm))
      in cm\<lparr>cm_strategies := foldl (unregister_action s) (cm_strategies cm) actions\<rparr>)"

definition eligible_strategies :: "strategy list \<Rightarrow> string \<Rightarrow> strategy list" where
  "eligible_strategies ss ticker =
     filter (\<lambda>s. sy_enabled s \<and>
       (case sy_ticker_symbols s of None \<Rightarrow> True | Some ts \<Rightarrow> ticker \<in> ts)) ss"

fun collect_strategy_votes ::
  "(string \<Rightarrow> rat \<Rightarrow> rat) \<Rightarrow> expr_oracle \<Rightarrow> strategy list \<Rightarrow> trade_action \<Rightarrow> trading_context \<Rightarrow>
     market_data option \<Rightarrow> candle list \<Rightarrow> timestamp \<Rightarrow> (string, bool) dict \<Rightarrow> (string, rat) dict \<Rightarrow>
     ((string, bool) dict \<times> (string, rat) dict) result" where
  "collect_strategy_votes uo ev [] act ctx md cs t votes weights = Inr (votes, weights)"
| "collect_strategy_votes uo ev (s # ss) act ctx md cs t votes weights =
     (if \<not> sy_enabled s then collect_strategy_votes uo ev ss act ctx md cs t votes weights
      else
        let w = resolve_effective_weight uo s t;
            weights' = dict_set (sy_name s) w weights
        in if w > 0
           then res_bind (strategy_vote ev s act ctx md cs)
                  (\<lambda>v. collect_strategy_votes uo ev ss act ctx md cs t
                         (dict_set (sy_name s) v votes) weights')
           else collect_strategy_votes uo ev ss act ctx md cs t
                  (dict_set (sy_name s) False votes) weights')"

record consensus_event =
  ce_symbol :: string
  ce_decision :: string
  ce_buy_votes :: nat
  ce_sell_votes :: nat
  ce_total_strategies :: nat
  ce_quorum_met :: bool
  ce_evaluated_at :: timestamp
  ce_factor :: rat
  ce_votes :: "(string, bool) dict"
  ce_weights :: "(string, rat) dict"

definition action_value :: "trade_action \<Rightarrow> string" where
  "action_value act = (case act of BUY \<Rightarrow> ''BUY'' | SELL \<Rightarrow> ''SELL'')"

definition evaluated_event :: "consensus_decision \<Rightarrow> timestamp \<Rightarrow> consensus_event" where
  "evaluated_event d t =
     \<lparr>ce_symbol = dn_ticker_symbol d,
      ce_decision = (if quorum d then action_value (dn_trade_action d) else ''HOLD''),
      ce_buy_votes = (if dn_trade_action d = BUY then true_count d else 0),
      ce_sell_votes = (if dn_trade_action d = SELL then true_count d else 0),
      ce_total_strategies = total_votes d, ce_quorum_met = quorum d, ce_evaluated_at = t,
      ce_factor = dn_factor d, ce_votes = dn_votes d, ce_weights = dn_weights d\<rparr>"

definition empty_decision :: "trade_action \<Rightarrow> string \<Rightarrow> consensus_decision" where
  "empty_decision act ticker =
     \<lparr>dn_trade_action = act, dn_ticker_symbol = ticker, dn_votes = [], dn_weights = [], dn_factor = 0\<rparr>"

definition consensus_evaluate ::
  "(string \<Rightarrow> rat \<Rightarrow> rat) \<Rightarrow> expr_oracle \<Rightarrow> consensus_manager \<Rightarrow> trade_action \<Rightarrow> string \<Rightarrow>
     trading_context \<Rightarrow> market_data option \<Rightarrow> candle list \<Rightarrow> timestamp \<Rightarrow>
     (consensus_decision \<times> consensus_event list) result" where
  "consensus_evaluate uo ev cm act ticker ctx md cs now =
     (case dict_get (cm_strategies cm) act of
        None \<Rightarrow> Inr (empty_decision act ticker, [])
      | Some all_strategies \<Rightarrow>
          let strategies = eligible_strategies all_strategies ticker
          in if strategies = [] then Inr (empty_decision act ticker, [])
             else case factor_for cm ticker of
                    None \<Rightarrow> Inl ValueError
                  | Some cf \<Rightarrow>
                      let factor = (if act = BUY then cf_buy cf else cf_sell cf);
                          t = (case md of Some m \<Rightarrow> md_timestamp m | None \<Rightarrow> now)
                      in res_bind (collect_strategy_votes uo ev strategies act ctx md cs t [] [])
                           (\<lambda>(votes, weights).
                              let d = \<lparr>dn_trade_action = act, dn_ticker_symbol = ticker,
                                       dn_votes = votes, dn_weights = weights, dn_factor = factor\<rparr>
                              in Inr (d, if cm_has_event_bus cm then [evaluated_event d t] else [])))"

definition get_quorum ::
  "(string \<Rightarrow> rat \<Rightarrow> rat) \<Rightarrow> expr_oracle \<Rightarrow> consensus_manager \<Rightarrow> trade_action \<Rightarrow> string \<Rightarrow>
     trading_context \<Rightarrow> market_data option \<Rightarrow> candle list \<Rightarrow> timestamp \<Rightarrow> bool result" where
  "get_quorum uo ev cm act ticker ctx md cs now =
     res_bind (consensus_evaluate uo ev cm act ticker ctx md cs now) (\<lambda>(d, _). Inr (quorum d))"

section \<open>Collected votes\<close>

text \<open>
  A decision is well formed when votes and weights name the same strategies, in the same order and
  once each, no weight is negative, and a strategy of weight zero has not voted true.
\<close>

definition ballot_ok :: "(string, bool) dict \<Rightarrow> (string, rat) dict \<Rightarrow> bool" where
  "ballot_ok votes weights \<longleftrightarrow>
     dict_wf votes \<and> dict_keys votes = dict_keys weights \<and>
     list_all2 (\<lambda>(_, v) (_, w). 0 \<le> w \<and> (v \<longrightarrow> 0 < w)) votes weights"

lemma effective_weight_nonneg: "0 \<le> resolve_effective_weight uo s t"
  by (auto simp: resolve_effective_weight_def split: option.split)

lemma dict_set_new: "k \<notin> set (dict_keys d) \<Longrightarrow> dict_set k v d = d @ [(k, v)]"
  by (induction d) auto

lemma collect_strategy_votes_append:
  assumes "collect_strategy_votes uo ev ss act ctx md cs t votes weights = Inr (votes', weights')"
    and "ballot_ok votes weights"
    and "distinct (map sy_name ss)" and "sy_name ` set ss \<inter> set (dict_keys votes) = {}"
    and "\<forall>s\<in>set ss. sy_enabled s"
  shows "ballot_ok votes' weights' \<and> dict_keys votes' = dict_keys votes @ map sy_name ss \<and>
    dict_values weights' = dict_values weights @ map (\<lambda>s. resolve_effective_weight uo s t) ss"
  using assms
proof (induction ss arbitrary: votes weights)
  case (Cons s ss)
  let ?w = "resolve_effective_weight uo s t"
  have keys: "dict_keys votes = dict_keys weights" and fresh: "sy_name s \<notin> set (dict_keys votes)"
    using Cons.prems(2,4) by (auto simp: ballot_ok_def)
  obtain v where v: "v \<longrightarrow> 0 < ?w"
    and rest: "collect_strategy_votes uo ev ss act ctx md cs t (votes @ [(sy_name s, v)])
      (weights @ [(sy_name s, ?w)]) = Inr (votes', weights')"
    using Cons.prems(1,5) fresh keys
    by (auto simp: Let_def dict_set_new res_bind_eq_Inr split: if_splits)
  have "ballot_ok (votes @ [(sy_name s, v)]) (weights @ [(sy_name s, ?w)])"
    using Cons.prems(2) fresh v effective_weight_nonneg [of uo s t]
    by (auto simp: ballot_ok_def dict_wf_def list_all2_appendI)
  from Cons.IH [OF rest this] Cons.prems(3-5) show ?case by auto
qed auto

section \<open>Registration\<close>

text \<open>Two strategies of one action never compete for the same name on the same ticker.\<close>

definition manager_inv :: "consensus_manager \<Rightarrow> bool" where
  "manager_inv cm \<longleftrightarrow>
     dict_wf (cm_strategies cm) \<and>
     pd.all_values (\<lambda>act ss. ss \<noteq> [] \<and> sorted_wrt (\<lambda>a b. \<not> conflicts a b) ss \<and>
       (\<forall>s\<in>set ss. sy_action s = act \<and> sy_ticker_symbols s \<noteq> Some {})) (cm_strategies cm)"

lemma manager_inv_strategies:
  assumes "manager_inv cm"
  shows "sorted_wrt (\<lambda>a b. \<not> conflicts a b) (strategies_for cm act)"
    and "\<forall>s\<in>set (strategies_for cm act). sy_action s = act \<and> sy_ticker_symbols s \<noteq> Some {}"
  using assms pd.all_valuesD [of _ "cm_strategies cm" act]
  by (cases "dict_get (cm_strategies cm) act"; fastforce simp: manager_inv_def strategies_for_def)+

lemma manager_inv_register:
  assumes "manager_inv cm" and "register_strategy cm s = Inr cm'"
  shows "manager_inv cm'"
proof -
  have new: "sy_ticker_symbols s \<noteq> Some {}"
    and free: "\<forall>other\<in>set (strategies_for cm (sy_action s)). \<not> conflicts other s"
    and cm': "cm' = cm\<lparr>cm_strategies :=
      dict_set (sy_action s) (strategies_for cm (sy_action s) @ [s]) (cm_strategies cm)\<rparr>"
    using assms(2) by (auto simp: register_strategy_def list_ex_iff split: if_splits)
  have "sorted_wrt (\<lambda>a b. \<not> conflicts a b) (strategies_for cm (sy_action s) @ [s])"
    using manager_inv_strategies(1) [OF assms(1)] free by (simp add: sorted_wrt_append)
  then show ?thesis
    using assms(1) new manager_inv_strategies(2) [OF assms(1), of "sy_action s"]
    by (auto simp: cm' manager_inv_def intro!: pd.all_values_put)
qed

lemma remove_by_id_set: "set (remove_by_id i ss) \<subseteq> set ss"
  by (induction ss) auto

lemma remove_by_id_sorted: "sorted_wrt P ss \<Longrightarrow> sorted_wrt P (remove_by_id i ss)"
  by (induction ss) (use remove_by_id_set in fastforce)+

lemma manager_inv_unregister_action:
  assumes "manager_inv cm"
  shows "manager_inv (cm\<lparr>cm_strategies := unregister_action s (cm_strategies cm) act\<rparr>)"
proof (cases "dict_get (cm_strategies cm) act")
  case (Some ss)
  have ss: "sorted_wrt (\<lambda>a b. \<not> conflicts a b) ss"
    "\<forall>s\<in>set ss. sy_action s = act \<and> sy_ticker_symbols s \<noteq> Some {}"
    using manager_inv_strategies [OF assms, of act] Some by (simp_all add: strategies_for_def)
  then show ?thesis
    using assms Some remove_by_id_sorted [OF ss(1), of "sy_id s"] remove_by_id_set [of "sy_id s" ss]
    by (auto simp: manager_inv_def unregister_action_def Let_def
        intro!: pd.all_values_put pd.all_values_del)
qed (use assms in \<open>simp add: unregister_action_def\<close>)

lemma manager_inv_unregister: "manager_inv cm \<Longrightarrow> manager_inv (unregister_strategy cm s)"
proof -
  assume inv: "manager_inv cm"
  have "manager_inv (cm\<lparr>cm_strategies := foldl (unregister_action s) d acts\<rparr>)"
    if "manager_inv (cm\<lparr>cm_strategies := d\<rparr>)" for d acts
    using that
  proof (induction acts arbitrary: d)
    case (Cons a acts)
    then show ?case
      using manager_inv_unregister_action [OF Cons.prems, of s a] by simp
  qed simp
  then show ?thesis using inv by (simp add: unregister_strategy_def Let_def)
qed

lemma manager_inv_set_factors [simp]: "manager_inv (set_factors cm assets) = manager_inv cm"
  by (simp add: manager_inv_def set_factors_def)

text \<open>The strategies eligible for one ticker carry distinct names.\<close>

lemma eligible_conflict:
  assumes "s \<in> set (eligible_strategies ss ticker)" and "t \<in> set (eligible_strategies ss ticker)"
    and "sy_name s = sy_name t"
  shows "conflicts s t"
  using assms by (auto simp: eligible_strategies_def conflicts_def split: option.splits)

lemma eligible_names_distinct:
  assumes "sorted_wrt (\<lambda>a b. \<not> conflicts a b) ss"
  shows "distinct (map sy_name (eligible_strategies ss ticker))"
proof -
  have "sorted_wrt (\<lambda>a b. \<not> conflicts a b) (eligible_strategies ss ticker)"
    using assms by (simp add: eligible_strategies_def sorted_wrt_filter)
  then have "sorted_wrt (\<lambda>a b. sy_name a \<noteq> sy_name b) (eligible_strategies ss ticker)"
    by (rule sorted_wrt_mono_rel [rotated]) (auto dest: eligible_conflict)
  then have "sorted_wrt (\<noteq>) (map sy_name (eligible_strategies ss ticker))"
    by (simp add: sorted_wrt_map)
  then show ?thesis by (simp add: distinct_conv_nth sorted_wrt_iff_nth_less) (metis nat_neq_iff)
qed

section \<open>Quorum\<close>

lemma sum_list_filter_split:
  "sum_list (map snd (filter P xs)) + sum_list (map snd (filter (\<lambda>x. \<not> P x) xs)) =
     (sum_list (map snd xs) :: rat)"
  by (induction xs) auto

lemma ballot_lookup:
  assumes "ballot_ok votes weights" and "n \<in> set (dict_keys weights)"
  shows "dict_get votes n = Some True \<or> dict_get votes n = Some False"
proof -
  have "dict_keys votes = dict_keys weights" using assms(1) by (simp add: ballot_ok_def)
  then have "n \<in> set (dict_keys votes)" using assms(2) by simp
  then have "n \<in> dom (map_of votes)" by (simp add: dom_map_of_conv_image_fst)
  then show ?thesis by auto
qed

lemma ballot_weights_split:
  assumes "ballot_ok (dn_votes d) (dn_weights d)"
  shows "weighted_true_count d + weighted_false_count d = total_weight d"
proof -
  have "filter (\<lambda>(n, w). dict_get (dn_votes d) n = Some False) (dn_weights d) =
      filter (\<lambda>x. \<not> (case x of (n, w) \<Rightarrow> dict_get (dn_votes d) n = Some True)) (dn_weights d)"
    by (rule filter_cong [OF refl]) (use ballot_lookup [OF assms] in force)
  then show ?thesis
    by (simp add: weighted_true_count_def weighted_false_count_def total_weight_def
        sum_list_filter_split)
qed

lemma ballot_weights_nonneg:
  assumes "ballot_ok votes weights"
  shows "\<forall>w\<in>set (dict_values weights). 0 \<le> w"
proof -
  have "list_all2 (\<lambda>(_, v) (_, w). 0 \<le> w \<and> (v \<longrightarrow> 0 < w)) votes weights"
    using assms by (simp add: ballot_ok_def)
  then show ?thesis by (induction rule: list_all2_induct) auto
qed

lemma ballot_zero_weights:
  "list_all2 (\<lambda>(_, v) (_, w). 0 \<le> w \<and> (v \<longrightarrow> 0 < w)) votes weights \<Longrightarrow>
   \<forall>w\<in>set (dict_values weights). w = (0::rat) \<Longrightarrow> \<forall>v\<in>set (dict_values votes). \<not> v"
  by (induction rule: list_all2_induct) auto

lemma weighted_counts_nonneg:
  assumes "ballot_ok (dn_votes d) (dn_weights d)"
  shows "0 \<le> weighted_true_count d" and "0 \<le> weighted_false_count d"
  using ballot_weights_nonneg [OF assms]
  by (auto simp: weighted_true_count_def weighted_false_count_def intro!: sum_list_nonneg)

lemma no_weight_no_true:
  assumes "ballot_ok (dn_votes d) (dn_weights d)" and "total_weight d = 0"
  shows "true_count d = 0"
proof -
  have "\<forall>w\<in>set (dict_values (dn_weights d)). w = 0"
    using assms(2) sum_list_nonneg_eq_0_iff [of "dict_values (dn_weights d)"]
      ballot_weights_nonneg [OF assms(1)] by (simp add: total_weight_def)
  then have "\<forall>v\<in>set (dict_values (dn_votes d)). \<not> v"
    using assms(1) ballot_zero_weights unfolding ballot_ok_def by blast
  then show ?thesis by (auto simp: true_count_def filter_empty_conv)
qed

lemma quorum_iff_margin:
  assumes "ballot_ok (dn_votes d) (dn_weights d)" and "0 < dn_factor d"
  shows "quorum d \<longleftrightarrow>
    0 < total_weight d \<and> dn_factor d * weighted_false_count d \<le> weighted_true_count d \<and>
    0 < weighted_true_count d"
proof (cases "0 < total_weight d")
  case False
  then have "total_weight d = 0"
    using ballot_weights_split [OF assms(1)] weighted_counts_nonneg [OF assms(1)] by simp
  with no_weight_no_true [OF assms(1)] assms(2) show ?thesis
    by (auto simp: quorum_def quorum_margin_def mult_le_0_iff)
qed (auto simp: quorum_def quorum_margin_def)

lemma quorum_iff_ratio:
  assumes "ballot_ok (dn_votes d) (dn_weights d)" and "0 < dn_factor d"
  shows "quorum d \<longleftrightarrow> 0 < total_weight d \<and> quorum_threshold d \<le> weighted_vote_ratio d"
proof (cases "0 < total_weight d")
  case True
  let ?t = "weighted_true_count d" and ?f = "weighted_false_count d" and ?k = "dn_factor d"
  have sum: "total_weight d = ?t + ?f" using ballot_weights_split [OF assms(1)] by simp
  have pos: "0 \<le> ?t" "0 \<le> ?f" using weighted_counts_nonneg [OF assms(1)] by simp_all
  have "quorum_threshold d \<le> weighted_vote_ratio d \<longleftrightarrow> ?k * (?t + ?f) \<le> ?t * (1 + ?k)"
    using True assms(2)
    by (simp add: quorum_threshold_def weighted_vote_ratio_def sum divide_simps mult.commute)
  also have "\<dots> \<longleftrightarrow> ?k * ?f \<le> ?t" by (simp add: algebra_simps)
  also have "\<dots> \<longleftrightarrow> ?k * ?f \<le> ?t \<and> 0 < ?t"
    using True pos assms(2) sum by (auto simp: less_le mult_le_0_iff)
  finally show ?thesis using True quorum_iff_margin [OF assms] by simp
qed (use quorum_iff_margin [OF assms] in simp)

subsection \<open>Equal weights: the documented counting rule\<close>

lemma ballot_true_length:
  assumes "ballot_ok (dn_votes d) (dn_weights d)"
  shows "length (filter (\<lambda>(n, w). dict_get (dn_votes d) n = Some True) (dn_weights d)) = true_count d"
proof -
  let ?P = "\<lambda>n. dict_get (dn_votes d) n = Some True"
  have wf: "dict_wf (dn_votes d)" and keys: "dict_keys (dn_votes d) = dict_keys (dn_weights d)"
    using assms by (simp_all add: ballot_ok_def)
  have by_key: "length (filter (\<lambda>(n, x). ?P n) xs) = length (filter ?P (map fst xs))"
    for xs :: "(string \<times> 'b) list"
    by (induction xs) auto
  have "filter (\<lambda>(n, v). ?P n) (dn_votes d) = filter (\<lambda>(n, v). v) (dn_votes d)"
    by (rule filter_cong [OF refl]) (use wf in \<open>auto simp: dict_wf_get_iff [symmetric]\<close>)
  then have "length (filter ?P (dict_keys (dn_votes d))) = length (filter (\<lambda>(n, v). v) (dn_votes d))"
    by (subst by_key [symmetric]) simp
  also have "\<dots> = true_count d"
    by (simp add: true_count_def filter_map comp_def case_prod_beta')
  finally show ?thesis unfolding by_key keys .
qed

lemma sum_list_const: "\<forall>x\<in>set xs. snd x = w \<Longrightarrow> sum_list (map snd xs) = of_nat (length xs) * (w::rat)"
  by (induction xs) (auto simp: algebra_simps)

lemma true_count_le: "true_count d \<le> total_votes d"
  using length_filter_le [of "\<lambda>v. v" "dict_values (dn_votes d)"]
  by (simp add: true_count_def total_votes_def)

lemma equal_weight_counts:
  assumes "ballot_ok (dn_votes d) (dn_weights d)" and "\<forall>x\<in>set (dn_weights d). snd x = w"
  shows "weighted_true_count d = of_nat (true_count d) * w"
    and "total_weight d = of_nat (total_votes d) * w"
    and "weighted_false_count d = (of_nat (total_votes d) - of_nat (true_count d)) * w"
proof -
  have "length (dn_weights d) = total_votes d"
    using assms(1) unfolding ballot_ok_def total_votes_def by (metis length_map)
  then show total: "total_weight d = of_nat (total_votes d) * w"
    using sum_list_const [OF assms(2)] by (simp add: total_weight_def)
  show true: "weighted_true_count d = of_nat (true_count d) * w"
    using sum_list_const [of "filter (\<lambda>(n, w). dict_get (dn_votes d) n = Some True) (dn_weights d)" w]
      ballot_true_length [OF assms(1)] assms(2)
    by (auto simp: weighted_true_count_def)
  show "weighted_false_count d = (of_nat (total_votes d) - of_nat (true_count d)) * w"
    using ballot_weights_split [OF assms(1)] true total by (simp add: algebra_simps)
qed

lemma quorum_equal_weights:
  assumes "ballot_ok (dn_votes d) (dn_weights d)" and "\<forall>x\<in>set (dn_weights d). snd x = w"
    and "0 < w" and "0 < dn_factor d"
  shows "quorum d \<longleftrightarrow>
    0 < true_count d \<and>
    dn_factor d * (of_nat (total_votes d) - of_nat (true_count d)) \<le> of_nat (true_count d)"
proof -
  note counts = equal_weight_counts [OF assms(1,2)]
  have "dn_factor d * weighted_false_count d \<le> weighted_true_count d \<longleftrightarrow>
      dn_factor d * (of_nat (total_votes d) - of_nat (true_count d)) * w \<le> of_nat (true_count d) * w"
    by (simp add: counts mult.assoc)
  also have "\<dots> \<longleftrightarrow> dn_factor d * (of_nat (total_votes d) - of_nat (true_count d)) \<le> of_nat (true_count d)"
    using assms(3) by (rule mult_le_cancel_right_pos)
  finally show ?thesis
    using quorum_iff_margin [OF assms(1,4)] assms(3) true_count_le [of d]
    by (auto simp: counts zero_less_mult_iff)
qed

subsection \<open>Monotonicity\<close>

lemma filter_sum_mono:
  assumes "\<forall>x\<in>set xs. 0 \<le> (snd x :: rat)" and "\<And>x. P x \<Longrightarrow> Q x"
  shows "sum_list (map snd (filter P xs)) \<le> sum_list (map snd (filter Q xs))"
  using assms(1) by (induction xs) (auto dest: assms(2))

lemma quorum_monotone:
  assumes ok: "ballot_ok (dn_votes d) (dn_weights d)" "ballot_ok (dn_votes e) (dn_weights e)"
    and same: "dn_weights e = dn_weights d" "dn_factor e = dn_factor d" and "0 < dn_factor d"
    and more: "\<And>n. dict_get (dn_votes d) n = Some True \<Longrightarrow> dict_get (dn_votes e) n = Some True"
    and "quorum d"
  shows "quorum e"
proof -
  have nonneg: "\<forall>x\<in>set (dn_weights d). 0 \<le> snd x" using ballot_weights_nonneg [OF ok(1)] by auto
  have true: "weighted_true_count d \<le> weighted_true_count e"
    unfolding weighted_true_count_def same
    by (rule filter_sum_mono [OF nonneg]) (auto dest: more)
  moreover have total: "total_weight e = total_weight d" by (simp add: total_weight_def same)
  ultimately have false: "weighted_false_count e \<le> weighted_false_count d"
    using ballot_weights_split [OF ok(1)] ballot_weights_split [OF ok(2)] by simp
  have "dn_factor d * weighted_false_count e \<le> dn_factor d * weighted_false_count d"
    using false \<open>0 < dn_factor d\<close> by simp
  with true total \<open>quorum d\<close> show ?thesis
    unfolding quorum_iff_margin [OF ok(1) \<open>0 < dn_factor d\<close>]
      quorum_iff_margin [OF ok(2), unfolded same, OF \<open>0 < dn_factor d\<close>]
    by linarith
qed

subsection \<open>Evaluation\<close>

lemma eligible_Nil [simp]: "eligible_strategies [] ticker = []"
  by (simp add: eligible_strategies_def)

lemma evaluate_ballot:
  assumes "manager_inv cm" and "consensus_evaluate uo ev cm act ticker ctx md cs now = Inr (d, evs)"
  shows "ballot_ok (dn_votes d) (dn_weights d)"
    and "dict_keys (dn_votes d) =
      map sy_name (eligible_strategies (strategies_for cm act) ticker)"
proof -
  let ?el = "eligible_strategies (strategies_for cm act) ticker"
  have "ballot_ok (dn_votes d) (dn_weights d) \<and> dict_keys (dn_votes d) = map sy_name ?el"
  proof (cases "?el = []")
    case True
    then have "d = empty_decision act ticker"
      using assms(2)
      by (cases "dict_get (cm_strategies cm) act") (auto simp: consensus_evaluate_def strategies_for_def)
    with True show ?thesis by (simp add: empty_decision_def ballot_ok_def)
  next
    case False
    then obtain votes weights t where
      coll: "collect_strategy_votes uo ev ?el act ctx md cs t [] [] = Inr (votes, weights)"
      and d: "dn_votes d = votes" "dn_weights d = weights"
      using assms(2)
      by (auto simp: consensus_evaluate_def strategies_for_def Let_def res_bind_eq_Inr
          split: option.splits if_splits)
    have names: "distinct (map sy_name ?el)"
      by (rule eligible_names_distinct [OF manager_inv_strategies(1) [OF assms(1)]])
    have "ballot_ok [] []" by (simp add: ballot_ok_def)
    moreover have "\<forall>s\<in>set ?el. sy_enabled s" by (simp add: eligible_strategies_def)
    ultimately have "ballot_ok votes weights \<and> dict_keys votes = map sy_name ?el"
      using collect_strategy_votes_append [OF coll] names by simp
    with d show ?thesis by simp
  qed
  then show "ballot_ok (dn_votes d) (dn_weights d)"
    and "dict_keys (dn_votes d) = map sy_name ?el" by simp_all
qed

lemma evaluate_factor:
  assumes "consensus_evaluate uo ev cm act ticker ctx md cs now = Inr (d, evs)"
    and "dn_votes d \<noteq> []"
  shows "\<exists>cf. factor_for cm ticker = Some cf \<and> dn_factor d = (if act = BUY then cf_buy cf else cf_sell cf)"
  using assms
  by (auto simp: consensus_evaluate_def Let_def res_bind_eq_Inr empty_decision_def
      split: option.splits if_splits)


lemma collect_true_vote:
  assumes "collect_strategy_votes uo ev ss act ctx md cs t votes weights = Inr (votes', weights')"
    and "dict_get votes' n = Some True"
  shows "dict_get votes n = Some True \<or>
    (\<exists>s\<in>set ss. sy_enabled s \<and> 0 < resolve_effective_weight uo s t \<and>
       strategy_vote ev s act ctx md cs = Inr True)"
  using assms
proof (induction ss arbitrary: votes weights)
  case (Cons s ss)
  let ?w = "resolve_effective_weight uo s t"
  consider "\<not> sy_enabled s" | "sy_enabled s" "0 < ?w" | "sy_enabled s" "\<not> 0 < ?w" by blast
  then show ?case
  proof cases
    case 2
    then obtain v where v: "strategy_vote ev s act ctx md cs = Inr v"
      and rest: "collect_strategy_votes uo ev ss act ctx md cs t (dict_set (sy_name s) v votes)
        (dict_set (sy_name s) ?w weights) = Inr (votes', weights')"
      using Cons.prems(1) by (auto simp: Let_def res_bind_eq_Inr)
    show ?thesis using Cons.IH [OF rest Cons.prems(2)] v 2 by (auto split: if_splits)
  qed (use Cons.IH Cons.prems in \<open>fastforce simp: Let_def split: if_splits\<close>)+
qed simp

lemma weighted_true_positive:
  "0 < weighted_true_count d \<Longrightarrow> \<exists>n. dict_get (dn_votes d) n = Some True"
proof (rule ccontr)
  assume "0 < weighted_true_count d" and "\<nexists>n. dict_get (dn_votes d) n = Some True"
  then show False by (simp add: weighted_true_count_def)
qed

section \<open>Reachable managers\<close>

inductive manager_reach :: "consensus_manager \<Rightarrow> bool" where
  initial: "manager_reach \<lparr>cm_strategies = [], cm_asset_factors = [], cm_has_event_bus = eb\<rparr>"
| factors: "manager_reach cm \<Longrightarrow> manager_reach (set_factors cm assets)"
| registered: "manager_reach cm \<Longrightarrow> register_strategy cm s = Inr cm' \<Longrightarrow> manager_reach cm'"
| unregistered: "manager_reach cm \<Longrightarrow> manager_reach (unregister_strategy cm s)"

lemma manager_inv_initial: "manager_inv \<lparr>cm_strategies = [], cm_asset_factors = [], cm_has_event_bus = eb\<rparr>"
  by (simp add: manager_inv_def pd.all_values_empty)

lemma manager_reach_inv: "manager_reach cm \<Longrightarrow> manager_inv cm"
  by (induction rule: manager_reach.induct)
    (auto intro: manager_inv_initial manager_inv_register manager_inv_unregister)

section \<open>Properties\<close>

definition demo_strategy :: strategy where
  "demo_strategy = \<lparr>sy_id = 0, sy_name = ''RiskManagementBuyStrategy'', sy_action = BUY,
     sy_ticker_symbols = Some {''BTC_USD''}, sy_weight = 1, sy_schedule = None, sy_enabled = True,
     sy_kind = RiskManagementBuy (1/50)\<rparr>"

definition demo_manager :: consensus_manager where
  "demo_manager = \<lparr>cm_strategies = [(BUY, [demo_strategy])],
     cm_asset_factors = [(''BTC_USD'', \<lparr>cf_buy = 1, cf_sell = 1\<rparr>)], cm_has_event_bus = True\<rparr>"

lemma demo_manager_reach: "manager_reach demo_manager"
proof -
  let ?cm = "set_factors \<lparr>cm_strategies = [], cm_asset_factors = [], cm_has_event_bus = True\<rparr>
    [demo_strategy_asset]"
  have "register_strategy ?cm demo_strategy = Inr demo_manager"
    by (simp add: register_strategy_def set_factors_def strategies_for_def demo_manager_def
        demo_strategy_asset_def ticker_symbol_def demo_strategy_def)
  then show ?thesis by (blast intro: manager_reach.intros)
qed

lemma demo_evaluate:
  "\<exists>d evs. consensus_evaluate uo ev demo_manager BUY ''BTC_USD'' ctx None [] 0 = Inr (d, evs) \<and>
     dn_votes d = [(''RiskManagementBuyStrategy'', True)] \<and>
     dn_weights d = [(''RiskManagementBuyStrategy'', 1)] \<and> dn_factor d = 1"
  by (simp add: consensus_evaluate_def demo_manager_def eligible_strategies_def demo_strategy_def
      factor_for_def resolve_effective_weight_def strategy_vote_def Let_def)

text \<open>Every eligible strategy votes exactly once: whatever strategies were registered and
  unregistered before, an evaluation that returns has, for the ticker, one vote and one weight per
  enabled strategy bound to it, under distinct names, with no negative weight, and no strategy
  outside its schedule (weight zero) counted as a true vote.\<close>

theorem evaluation_one_vote_each:
  assumes "manager_reach cm"
    and "consensus_evaluate uo ev cm act ticker ctx md cs now = Inr (d, evs)"
  shows "dict_keys (dn_votes d) = map sy_name (eligible_strategies (strategies_for cm act) ticker) \<and>
    distinct (dict_keys (dn_votes d)) \<and> ballot_ok (dn_votes d) (dn_weights d)"
  using evaluate_ballot [OF manager_reach_inv [OF assms(1)] assms(2)]
  unfolding ballot_ok_def dict_wf_def by blast

theorem evaluation_one_vote_each_witness:
  "\<exists>d evs. consensus_evaluate (\<lambda>_ _. 0) (\<lambda>_ _ _ _. Inl ValueError) demo_manager BUY ''BTC_USD''
       (new_context ''BTC_USD'' ''CDC'' 0 None) None [] 0 = Inr (d, evs) \<and>
     dict_keys (dn_votes d) = [''RiskManagementBuyStrategy'']"
proof -
  obtain d evs where e: "consensus_evaluate (\<lambda>_ _. 0) (\<lambda>_ _ _ _. Inl ValueError) demo_manager BUY
      ''BTC_USD'' (new_context ''BTC_USD'' ''CDC'' 0 None) None [] 0 = Inr (d, evs)"
    using demo_evaluate by blast
  from evaluation_one_vote_each [OF demo_manager_reach e] e show ?thesis
    by (auto simp: demo_manager_def strategies_for_def eligible_strategies_def demo_strategy_def)
qed



text \<open>The documented factor table: with equal positive weights, \<open>T\<close> true votes of \<open>N\<close>
  reach quorum exactly at the counts the documentation promises for the factor ranges (1 of 1,
  1 of 2, 2 of 2, 1 of 3, 2 of 3, 3 of 3).\<close>

theorem quorum_documented_table:
  assumes "ballot_ok (dn_votes d) (dn_weights d)" and "\<forall>x\<in>set (dn_weights d). snd x = w" and "0 < w"
    and "1 / 20 \<le> dn_factor d" and "dn_factor d \<le> 10"
  shows "(total_votes d = 1 \<longrightarrow> quorum d = (1 \<le> true_count d)) \<and>
    (total_votes d = 2 \<and> dn_factor d \<le> 1 \<longrightarrow> quorum d = (1 \<le> true_count d)) \<and>
    (total_votes d = 2 \<and> 1 < dn_factor d \<longrightarrow> quorum d = (2 \<le> true_count d)) \<and>
    (total_votes d = 3 \<and> dn_factor d \<le> 1 / 2 \<longrightarrow> quorum d = (1 \<le> true_count d)) \<and>
    (total_votes d = 3 \<and> 1 / 2 < dn_factor d \<and> dn_factor d \<le> 2 \<longrightarrow> quorum d = (2 \<le> true_count d)) \<and>
    (total_votes d = 3 \<and> 2 < dn_factor d \<longrightarrow> quorum d = (3 \<le> true_count d))"
proof -
  have "0 < dn_factor d" using assms(4) by simp
  note rule = quorum_equal_weights [OF assms(1-3) this]
  have le: "true_count d \<le> total_votes d" by (rule true_count_le)
  consider "true_count d = 0" | "true_count d = 1" | "true_count d = 2" | "true_count d = 3" | "3 < true_count d"
    by linarith
  then show ?thesis using rule le assms(4,5) by cases auto
qed

theorem quorum_documented_table_witness:
  "quorum \<lparr>dn_trade_action = BUY, dn_ticker_symbol = ''BTC_USD'',
      dn_votes = [(''a'', True), (''b'', False), (''c'', True)],
      dn_weights = [(''a'', 1), (''b'', 1), (''c'', 1)], dn_factor = 1\<rparr>"
proof -
  let ?d = "\<lparr>dn_trade_action = BUY, dn_ticker_symbol = ''BTC_USD'',
      dn_votes = [(''a'', True), (''b'', False), (''c'', True)],
      dn_weights = [(''a'', 1), (''b'', 1), (''c'', 1)], dn_factor = 1\<rparr>"
  have "ballot_ok (dn_votes ?d) (dn_weights ?d)" and "\<forall>x\<in>set (dn_weights ?d). snd x = 1"
    by (simp_all add: ballot_ok_def dict_wf_def)
  from quorum_documented_table [OF this] show ?thesis
    by (simp add: total_votes_def true_count_def)
qed

text \<open>More agreement never loses quorum: turning false votes into true ones, with weights and
  factor unchanged, keeps a reached quorum.\<close>

theorem quorum_vote_monotone:
  assumes "ballot_ok (dn_votes d) (dn_weights d)" "ballot_ok (dn_votes e) (dn_weights e)"
    and "dn_weights e = dn_weights d" "dn_factor e = dn_factor d" and "0 < dn_factor d"
    and "\<And>n. dict_get (dn_votes d) n = Some True \<Longrightarrow> dict_get (dn_votes e) n = Some True"
    and "quorum d"
  shows "quorum e"
  using assms by (rule quorum_monotone)

theorem quorum_vote_monotone_witness:
  "quorum \<lparr>dn_trade_action = BUY, dn_ticker_symbol = ''BTC_USD'',
      dn_votes = [(''a'', True), (''b'', True)], dn_weights = [(''a'', 2), (''b'', 1)],
      dn_factor = 2\<rparr>"
proof -
  let ?d = "\<lambda>b. \<lparr>dn_trade_action = BUY, dn_ticker_symbol = ''BTC_USD'',
      dn_votes = [(''a'', True), (''b'', b)], dn_weights = [(''a'', 2), (''b'', 1)], dn_factor = 2\<rparr>"
  have "ballot_ok (dn_votes (?d b)) (dn_weights (?d b))" for b
    by (simp add: ballot_ok_def dict_wf_def)
  moreover have "quorum (?d False)"
    by (simp add: quorum_def quorum_margin_def total_weight_def weighted_true_count_def
        weighted_false_count_def)
  ultimately show ?thesis
    by (intro quorum_vote_monotone [of "?d False" "?d True"]) (auto split: if_splits)
qed

text \<open>No trade without a real vote: whenever \<open>get_quorum\<close> approves with a positive factor,
  some registered, enabled strategy bound to the ticker, with positive effective weight at the
  evaluation time, itself voted true.\<close>

theorem quorum_backed_by_vote:
  assumes "manager_reach cm"
    and "consensus_evaluate uo ev cm act ticker ctx md cs now = Inr (d, evs)"
    and "quorum d" and "0 < dn_factor d"
  shows "\<exists>s\<in>set (eligible_strategies (strategies_for cm act) ticker).
    0 < resolve_effective_weight uo s (case md of Some m \<Rightarrow> md_timestamp m | None \<Rightarrow> now) \<and>
    strategy_vote ev s act ctx md cs = Inr True"
proof -
  let ?el = "eligible_strategies (strategies_for cm act) ticker"
  let ?t = "case md of Some m \<Rightarrow> md_timestamp m | None \<Rightarrow> now"
  have ok: "ballot_ok (dn_votes d) (dn_weights d)"
    using evaluate_ballot(1) [OF manager_reach_inv [OF assms(1)] assms(2)] .
  then obtain n where n: "dict_get (dn_votes d) n = Some True"
    using quorum_iff_margin [OF ok assms(4)] assms(3) weighted_true_positive by blast
  then have ne: "dn_votes d \<noteq> []" by auto
  obtain weights where "collect_strategy_votes uo ev ?el act ctx md cs ?t [] [] = Inr (dn_votes d, weights)"
    using assms(2) ne
    by (auto simp: consensus_evaluate_def strategies_for_def Let_def res_bind_eq_Inr empty_decision_def
        split: option.splits if_splits)
  from collect_true_vote [OF this n] show ?thesis by auto
qed

theorem quorum_backed_by_vote_witness:
  "\<exists>s\<in>set (eligible_strategies (strategies_for demo_manager BUY) ''BTC_USD'').
     0 < resolve_effective_weight (\<lambda>_ _. 0) s 0 \<and>
     strategy_vote (\<lambda>_ _ _ _. Inl ValueError) s BUY (new_context ''BTC_USD'' ''CDC'' 0 None) None []
       = Inr True"
proof -
  let ?ev = "\<lambda>_ _ _ _. Inl ValueError" and ?ctx = "new_context ''BTC_USD'' ''CDC'' 0 None"
  obtain d evs where e: "consensus_evaluate (\<lambda>_ _. 0) ?ev demo_manager BUY ''BTC_USD'' ?ctx None [] 0
      = Inr (d, evs)" and votes: "dn_votes d = [(''RiskManagementBuyStrategy'', True)]"
    and weights: "dn_weights d = [(''RiskManagementBuyStrategy'', 1)]" and factor: "dn_factor d = 1"
    using demo_evaluate by blast
  have "quorum d"
    by (simp add: quorum_def quorum_margin_def total_weight_def weighted_true_count_def
        weighted_false_count_def votes weights factor)
  then show ?thesis
    using quorum_backed_by_vote [OF demo_manager_reach e] factor by simp
qed

end
