(* ===== verification/Orders.thy ===== *)
theory Orders
  imports Session "HOL-Library.Sublist"
begin

text \<open>
  The order pipeline: the in-memory journal of fills
  (\<open>src/src/trading/session/in_memory_trading_journal.py\<close>), the order table with its mapper
  (\<open>src/src/database/repositories/providers/postgres_order_repository.py\<close>,
  \<open>mappers/order_db_vs_entity_mapper.py\<close>), the trade table with its mapper
  (\<open>providers/postgres_trade_repository.py\<close>, \<open>mappers/trade_db_vs_entity_mapper.py\<close>) and the order manager
  (\<open>src/src/trading/orders/order_manager.py\<close>).

  The exchange and the database are the environment: whether \<open>place_order\<close> or \<open>cancel_order\<close>
  raises, what \<open>get_order\<close> returns, and whether a unit of work fails to open or to commit
  (\<open>db_health\<close>) are arguments.  A unit of work that fails rolls the tables back, not the
  in-memory state.  \<open>uuid_of\<close> is the stream of fresh identifiers; \<open>om_next_id\<close> the next unused
  one.  The session manager and the event bus are always present, as in the application.
\<close>

section \<open>Journal of fills\<close>

record trading_journal =
  tj_entries :: "order list"
  tj_entries_by_ticker :: "(string, order list) dict"
  tj_recorded_order_ids :: "string set"

definition empty_journal :: trading_journal where
  "empty_journal = \<lparr>tj_entries = [], tj_entries_by_ticker = [], tj_recorded_order_ids = {}\<rparr>"

definition record_fill :: "trading_journal \<Rightarrow> order \<Rightarrow> trading_journal" where
  "record_fill j ord =
     (if o_status ord \<noteq> Some COMPLETED then j
      else if o_uuid ord \<in> tj_recorded_order_ids j then j
      else \<lparr>tj_entries = tj_entries j @ [ord],
            tj_entries_by_ticker =
              dict_set (o_ticker_symbol ord)
                (opt_or (dict_get (tj_entries_by_ticker j) (o_ticker_symbol ord)) [] @ [ord])
                (tj_entries_by_ticker j),
            tj_recorded_order_ids = insert (o_uuid ord) (tj_recorded_order_ids j)\<rparr>)"

definition journal_entries :: "trading_journal \<Rightarrow> string option \<Rightarrow> order list" where
  "journal_entries j ticker =
     (case ticker of
        None \<Rightarrow> tj_entries j
      | Some t \<Rightarrow> if t = [] then tj_entries j else opt_or (dict_get (tj_entries_by_ticker j) t) [])"

section \<open>Order table\<close>

definition status_value :: "order_status \<Rightarrow> string" where
  "status_value s =
     (case s of PENDING \<Rightarrow> ''PENDING'' | PROCESSING \<Rightarrow> ''PROCESSING'' | COMPLETED \<Rightarrow> ''COMPLETED''
      | CANCELLED \<Rightarrow> ''CANCELLED'' | REJECTED \<Rightarrow> ''REJECTED'' | UNKNOWN \<Rightarrow> ''UNKNOWN''
      | RECONCILIATION_REQUIRED \<Rightarrow> ''RECONCILIATION_REQUIRED'')"

definition status_of_value :: "string \<Rightarrow> order_status result" where
  "status_of_value v =
     (case find (\<lambda>s. status_value s = v)
        [PENDING, PROCESSING, COMPLETED, CANCELLED, REJECTED, UNKNOWN, RECONCILIATION_REQUIRED] of
        Some s \<Rightarrow> Inr s
      | None \<Rightarrow> Inl ValueError)"

datatype meta_value = MetaNull | MetaStr string | MetaVotes votes | MetaAttributions attributions

record order_dao =
  od_uuid :: string
  od_provider_name :: string
  od_ticker_symbol :: string
  od_price :: decimal
  od_quantity :: decimal
  od_trade_action :: trade_action
  od_status :: string
  od_commit_hash :: "string option"
  od_decision_id :: "string option"
  od_metadata :: "(string, meta_value) dict option"
  od_fees :: "decimal option"
  od_fill_price :: "decimal option"
  od_created_timestamp :: timestamp
  od_executed_timestamp :: "timestamp option"

definition order_metadata :: "order \<Rightarrow> (string, meta_value) dict" where
  "order_metadata ord =
     (case o_winning_strategy ord of Some w \<Rightarrow> [(''winning_strategy'', MetaStr w)] | None \<Rightarrow> [])
     @ (case o_strategy_votes ord of Some v \<Rightarrow> [(''strategy_votes'', MetaVotes v)] | None \<Rightarrow> [])
     @ (case o_strategy_attributions ord of
          Some a \<Rightarrow> [(''strategy_attributions'', MetaAttributions a)] | None \<Rightarrow> [])
     @ (case o_regime ord of Some r \<Rightarrow> [(''regime'', MetaStr r)] | None \<Rightarrow> [])"

text \<open>\<open>order.status.value\<close> raises when the status is \<open>None\<close>.\<close>

definition map_to_db :: "order \<Rightarrow> order_dao result" where
  "map_to_db ord =
     (case o_status ord of
        None \<Rightarrow> Inl AttributeError
      | Some s \<Rightarrow>
          Inr \<lparr>od_uuid = o_uuid ord, od_provider_name = o_provider_name ord,
               od_ticker_symbol = o_ticker_symbol ord, od_price = o_price ord,
               od_quantity = o_quantity ord, od_trade_action = o_trade_action ord,
               od_status = status_value s, od_commit_hash = o_commit_hash ord,
               od_decision_id = o_decision_id ord,
               od_metadata = (if order_metadata ord = [] then None else Some (order_metadata ord)),
               od_fees = o_fees ord, od_fill_price = o_fill_price ord,
               od_created_timestamp = o_created_time ord,
               od_executed_timestamp = o_executed_time ord\<rparr>)"

definition meta_str :: "(string, meta_value) dict \<Rightarrow> string \<Rightarrow> string option" where
  "meta_str m k = (case dict_get m k of Some (MetaStr s) \<Rightarrow> Some s | _ \<Rightarrow> None)"

definition map_to_entity :: "order_dao \<Rightarrow> order result" where
  "map_to_entity dao =
     (let m = opt_or (od_metadata dao) []
      in res_bind (if od_status dao = [] then Inr PENDING else status_of_value (od_status dao))
           (\<lambda>s. Inr \<lparr>o_uuid = od_uuid dao, o_provider_name = od_provider_name dao,
                     o_ticker_symbol = od_ticker_symbol dao, o_price = od_price dao,
                     o_quantity = od_quantity dao, o_trade_action = od_trade_action dao,
                     o_created_time = od_created_timestamp dao, o_commit_hash = od_commit_hash dao,
                     o_executed_time = od_executed_timestamp dao, o_status = Some s,
                     o_fees = od_fees dao, o_fill_price = od_fill_price dao,
                     o_winning_strategy = meta_str m ''winning_strategy'',
                     o_strategy_votes =
                       (case dict_get m ''strategy_votes'' of Some (MetaVotes v) \<Rightarrow> Some v | _ \<Rightarrow> None),
                     o_strategy_attributions =
                       (case dict_get m ''strategy_attributions'' of
                          Some (MetaAttributions a) \<Rightarrow> Some a | _ \<Rightarrow> None),
                     o_slippage = None, o_decision_id = od_decision_id dao,
                     o_regime = meta_str m ''regime''\<rparr>))"

definition terminal_status :: "string \<Rightarrow> bool" where
  "terminal_status v \<longleftrightarrow> v \<in> {''COMPLETED'', ''CANCELLED'', ''REJECTED''}"

type_synonym order_table = "(string, order_dao) dict"

definition or_keep :: "'a option \<Rightarrow> 'a option \<Rightarrow> 'a option" where
  "or_keep new old = (case new of None \<Rightarrow> old | Some _ \<Rightarrow> new)"

definition merge_row :: "order_dao \<Rightarrow> order_dao \<Rightarrow> order_dao" where
  "merge_row old new =
     old\<lparr>od_price := od_price new, od_ticker_symbol := od_ticker_symbol new,
         od_status := od_status new,
         od_commit_hash := or_keep (od_commit_hash new) (od_commit_hash old),
         od_decision_id := or_keep (od_decision_id new) (od_decision_id old),
         od_metadata := or_keep (od_metadata new) (od_metadata old),
         od_fees := or_keep (od_fees new) (od_fees old),
         od_fill_price := or_keep (od_fill_price new) (od_fill_price old),
         od_executed_timestamp := or_keep (od_executed_timestamp new) (od_executed_timestamp old)\<rparr>"

definition upsert :: "order_table \<Rightarrow> order \<Rightarrow> order_table result" where
  "upsert tbl ord =
     res_bind (map_to_db ord)
       (\<lambda>dao. Inr (case dict_get tbl (od_uuid dao) of
                     None \<Rightarrow> dict_set (od_uuid dao) dao tbl
                   | Some old \<Rightarrow>
                       if terminal_status (od_status old) then tbl
                       else dict_set (od_uuid dao) (merge_row old dao) tbl))"

fun map_results :: "('a \<Rightarrow> 'b result) \<Rightarrow> 'a list \<Rightarrow> 'b list result" where
  "map_results f [] = Inr []"
| "map_results f (x # xs) = res_bind (f x) (\<lambda>y. res_bind (map_results f xs) (\<lambda>ys. Inr (y # ys)))"

definition get_non_terminal :: "order_table \<Rightarrow> order list result" where
  "get_non_terminal tbl =
     map_results map_to_entity (filter (\<lambda>d. \<not> terminal_status (od_status d)) (dict_values tbl))"

section \<open>Trade table\<close>

record trade_dao =
  td_trade_id :: string
  td_ticker_symbol :: string
  td_entry_order_uuid :: string
  td_exit_order_uuid :: string
  td_entry_price :: decimal
  td_exit_price :: decimal
  td_quantity :: decimal
  td_gross_pnl :: decimal
  td_fees :: decimal
  td_slippage :: decimal
  td_net_pnl :: decimal
  td_return_pct :: decimal
  td_duration_seconds :: rat
  td_entry_timestamp :: timestamp
  td_exit_timestamp :: timestamp
  td_metadata :: "(string, meta_value) dict option"

definition null_or :: "('a \<Rightarrow> meta_value) \<Rightarrow> 'a option \<Rightarrow> meta_value" where
  "null_or f v = (case v of None \<Rightarrow> MetaNull | Some x \<Rightarrow> f x)"

definition key_if :: "string \<Rightarrow> ('a \<Rightarrow> meta_value) \<Rightarrow> 'a option \<Rightarrow> (string, meta_value) dict" where
  "key_if k f v = (case v of None \<Rightarrow> [] | Some x \<Rightarrow> [(k, f x)])"

definition trade_metadata :: "trade \<Rightarrow> (string, meta_value) dict" where
  "trade_metadata t =
     [(''commit_hash'', null_or MetaStr (tr_commit_hash t)),
      (''winning_strategy'', null_or MetaStr (tr_winning_strategy t)),
      (''strategy_votes'', null_or MetaVotes (tr_strategy_votes t))]
     @ key_if ''entry_strategy_attributions'' MetaAttributions (tr_entry_strategy_attributions t)
     @ key_if ''exit_strategy_attributions'' MetaAttributions (tr_exit_strategy_attributions t)
     @ key_if ''exit_winning_strategy'' MetaStr (tr_exit_winning_strategy t)
     @ key_if ''entry_regime'' MetaStr (tr_entry_regime t)
     @ key_if ''exit_regime'' MetaStr (tr_exit_regime t)"

text \<open>The columns hold UTC wall-clock times.\<close>

definition trade_map_to_db :: "trade \<Rightarrow> trade_dao" where
  "trade_map_to_db t =
     \<lparr>td_trade_id = tr_trade_id t, td_ticker_symbol = tr_ticker_symbol t,
      td_entry_order_uuid = tr_entry_order_uuid t, td_exit_order_uuid = tr_exit_order_uuid t,
      td_entry_price = tr_entry_price t, td_exit_price = tr_exit_price t, td_quantity = tr_quantity t,
      td_gross_pnl = tr_gross_pnl t, td_fees = tr_fees t, td_slippage = tr_slippage t,
      td_net_pnl = tr_net_pnl t, td_return_pct = tr_return_pct t,
      td_duration_seconds = tr_duration_seconds t, td_entry_timestamp = tr_entry_timestamp t,
      td_exit_timestamp = tr_exit_timestamp t, td_metadata = Some (trade_metadata t)\<rparr>"

definition meta_votes :: "(string, meta_value) dict \<Rightarrow> string \<Rightarrow> votes option" where
  "meta_votes m k = (case dict_get m k of Some (MetaVotes v) \<Rightarrow> Some v | _ \<Rightarrow> None)"

definition meta_attributions :: "(string, meta_value) dict \<Rightarrow> string \<Rightarrow> attributions option" where
  "meta_attributions m k = (case dict_get m k of Some (MetaAttributions a) \<Rightarrow> Some a | _ \<Rightarrow> None)"

text \<open>\<open>dao.entry_timestamp.timestamp()\<close> reads the naive column as local time: \<open>utcoffset\<close> is the
  offset of the host's zone at that wall-clock time.\<close>

definition trade_map_to_entity :: "(timestamp \<Rightarrow> rat) \<Rightarrow> trade_dao \<Rightarrow> trade" where
  "trade_map_to_entity utcoffset dao =
     (let m = opt_or (td_metadata dao) []
      in \<lparr>tr_trade_id = td_trade_id dao, tr_ticker_symbol = td_ticker_symbol dao,
          tr_entry_order_uuid = td_entry_order_uuid dao, tr_exit_order_uuid = td_exit_order_uuid dao,
          tr_entry_price = td_entry_price dao, tr_exit_price = td_exit_price dao,
          tr_quantity = td_quantity dao, tr_gross_pnl = td_gross_pnl dao, tr_fees = td_fees dao,
          tr_net_pnl = td_net_pnl dao, tr_return_pct = td_return_pct dao,
          tr_duration_seconds = td_duration_seconds dao,
          tr_entry_timestamp = td_entry_timestamp dao - utcoffset (td_entry_timestamp dao),
          tr_exit_timestamp = td_exit_timestamp dao - utcoffset (td_exit_timestamp dao),
          tr_slippage = td_slippage dao, tr_commit_hash = meta_str m ''commit_hash'',
          tr_winning_strategy = meta_str m ''winning_strategy'',
          tr_strategy_votes = meta_votes m ''strategy_votes'',
          tr_entry_strategy_attributions =
            py_or (meta_attributions m ''entry_strategy_attributions'')
              (meta_attributions m ''strategy_attributions''),
          tr_exit_strategy_attributions = meta_attributions m ''exit_strategy_attributions'',
          tr_exit_winning_strategy = meta_str m ''exit_winning_strategy'',
          tr_exit_strategy_votes = None,
          tr_entry_regime = meta_str m ''entry_regime'', tr_exit_regime = meta_str m ''exit_regime''\<rparr>)"

definition merge_trade_row :: "trade_dao \<Rightarrow> trade_dao \<Rightarrow> trade_dao" where
  "merge_trade_row old new =
     old\<lparr>td_exit_price := td_exit_price new, td_gross_pnl := td_gross_pnl new,
         td_fees := td_fees new, td_slippage := td_slippage new, td_net_pnl := td_net_pnl new,
         td_return_pct := td_return_pct new, td_duration_seconds := td_duration_seconds new,
         td_exit_timestamp := td_exit_timestamp new,
         td_metadata := or_keep (td_metadata new) (td_metadata old)\<rparr>"

definition upsert_trade :: "(string, trade_dao) dict \<Rightarrow> trade \<Rightarrow> (string, trade_dao) dict" where
  "upsert_trade tbl t =
     (let dao = trade_map_to_db t
      in case dict_get tbl (td_trade_id dao) of
           None \<Rightarrow> dict_set (td_trade_id dao) dao tbl
         | Some old \<Rightarrow> dict_set (td_trade_id dao) (merge_trade_row old dao) tbl)"

section \<open>Order manager\<close>

datatype order_event =
    TradeClosed string trade
  | PositionChanged string trade_action decimal decimal decimal decimal
  | OrderFilled string order
  | OrderCancelled string order
  | OrderRejected string order
  | RuntimeErrorCaptured order

record order_manager =
  om_in_flight :: "(string, string \<times> trade_action) dict"
  om_queue :: "order list"
  om_journal :: trading_journal
  om_orders :: order_table
  om_trades :: "(string, trade_dao) dict"
  om_session :: session_manager
  om_outbox :: "order_event list"
  om_synchronous :: bool
  om_stopped :: bool
  om_next_id :: nat

datatype db_health = DbOk | DbOpenFails | DbCommitFails

definition is_open_status :: "order_status option \<Rightarrow> bool" where
  "is_open_status s \<longleftrightarrow> s = Some PENDING \<or> s = Some PROCESSING"

definition with_commit_hash :: "string option \<Rightarrow> session_manager \<Rightarrow> order \<Rightarrow> order" where
  "with_commit_hash head sm ord =
     (if truthy (o_commit_hash ord) then ord
      else ord\<lparr>o_commit_hash := Some (get_current_commit_hash sm head)\<rparr>)"

definition fill_events :: "session_manager \<Rightarrow> order \<Rightarrow> trade list \<Rightarrow> order_event list" where
  "fill_events sm ord trades =
     map (TradeClosed (o_ticker_symbol ord)) trades
     @ (case find_context sm (o_ticker_symbol ord) of
          None \<Rightarrow> []
        | Some ctx \<Rightarrow> [PositionChanged (o_ticker_symbol ord) (o_trade_action ord) (o_quantity ord)
                        (fill_price_of ord) (tc_position_qty ctx) (tc_realized_pnl ctx)])
     @ [OrderFilled (o_ticker_symbol ord) ord]"

definition upsert_trades :: "(string, trade_dao) dict \<Rightarrow> trade list \<Rightarrow> (string, trade_dao) dict" where
  "upsert_trades tbl ts = foldl upsert_trade tbl ts"

text \<open>One order of the loop in \<open>_save_orders_to_database\<close>; the tables are the open
  transaction's.\<close>

definition save_one ::
  "(nat \<Rightarrow> string) \<Rightarrow> string option \<Rightarrow> order_manager \<Rightarrow> order \<Rightarrow> order_manager \<times> order_table result" where
  "save_one uuid_of head om ord0 =
     (let ord = with_commit_hash head (om_session om) ord0;
          om1 = (if \<not> is_open_status (o_status ord)
                 then om\<lparr>om_in_flight := dict_del (o_uuid ord) (om_in_flight om)\<rparr> else om);
          (om2, ord2) =
            (if o_status ord = Some COMPLETED
             then let n = om_next_id om1;
                      j = record_fill (om_journal om1) ord;
                      (sm, ord', trades) =
                        record_order_fill (uuid_of n) (\<lambda>i. uuid_of (n + 1 + i)) head
                          (om_session om1) ord
                  in (om1\<lparr>om_journal := j, om_session := sm,
                          om_trades := upsert_trades (om_trades om1) trades,
                          om_outbox := om_outbox om1 @ fill_events sm ord' trades,
                          om_next_id := n + 1 + length trades\<rparr>, ord')
             else if o_status ord = Some CANCELLED
             then (om1\<lparr>om_outbox := om_outbox om1 @ [OrderCancelled (o_ticker_symbol ord) ord]\<rparr>, ord)
             else (om1, ord))
      in (om2, upsert (om_orders om2) ord2))"

fun save_loop ::
  "(nat \<Rightarrow> string) \<Rightarrow> string option \<Rightarrow> order_manager \<Rightarrow> order list \<Rightarrow> order_manager \<times> unit result" where
  "save_loop uuid_of head om [] = (om, Inr ())"
| "save_loop uuid_of head om (ord # ords) =
     (case save_one uuid_of head om ord of
        (om', Inl e) \<Rightarrow> (om', Inl e)
      | (om', Inr tbl) \<Rightarrow> save_loop uuid_of head (om'\<lparr>om_orders := tbl\<rparr>) ords)"

definition rollback :: "order_manager \<Rightarrow> order_manager \<Rightarrow> order_manager" where
  "rollback before om = om\<lparr>om_orders := om_orders before, om_trades := om_trades before\<rparr>"

definition save_orders_to_database ::
  "(nat \<Rightarrow> string) \<Rightarrow> string option \<Rightarrow> db_health \<Rightarrow> order_manager \<Rightarrow> order list \<Rightarrow>
     order_manager \<times> unit result" where
  "save_orders_to_database uuid_of head db om ords =
     (if db = DbOpenFails then (om, Inl RuntimeError)
      else case save_loop uuid_of head om ords of
             (om', Inl e) \<Rightarrow> (rollback om om', Inl e)
           | (om', Inr _) \<Rightarrow>
               if db = DbCommitFails then (rollback om om', Inl RuntimeError) else (om', Inr ()))"

definition get_non_terminal_orders :: "db_health \<Rightarrow> order_manager \<Rightarrow> order list result" where
  "get_non_terminal_orders db om =
     (if db = DbOk then get_non_terminal (om_orders om) else Inl RuntimeError)"

definition has_outstanding_intent ::
  "db_health \<Rightarrow> order_manager \<Rightarrow> string \<Rightarrow> trade_action option \<Rightarrow> bool" where
  "has_outstanding_intent db om ticker act =
     (if list_ex (\<lambda>(sym, a). sym = ticker \<and> (act = None \<or> act = Some a)) (dict_values (om_in_flight om))
      then True
      else case get_non_terminal_orders db om of
             Inl _ \<Rightarrow> False
           | Inr ords \<Rightarrow>
               list_ex (\<lambda>ord. o_ticker_symbol ord = ticker \<and> is_open_status (o_status ord) \<and>
                          (act = None \<or> act = Some (o_trade_action ord))) ords)"

text \<open>\<open>execute_order\<close>: the order is placed on the exchange and stored; any failure marks it
  REJECTED, tries to store that, and raises.\<close>

definition store_order :: "db_health \<Rightarrow> order_manager \<Rightarrow> order \<Rightarrow> order_manager \<times> unit result" where
  "store_order db om ord =
     (if db \<noteq> DbOk then (om, Inl RuntimeError)
      else case upsert (om_orders om) ord of
             Inl e \<Rightarrow> (om, Inl e)
           | Inr tbl \<Rightarrow> (om\<lparr>om_orders := tbl\<rparr>, Inr ()))"

definition execute_order ::
  "string option \<Rightarrow> bool \<Rightarrow> db_health \<Rightarrow> db_health \<Rightarrow> order_manager \<Rightarrow> order \<Rightarrow>
     order_manager \<times> order \<times> unit result" where
  "execute_order head place_ok db1 db2 om ord0 =
     (let ord = with_commit_hash head (om_session om) ord0;
          rejected = ord\<lparr>o_status := Some REJECTED\<rparr>
      in if \<not> place_ok then (fst (store_order db2 om rejected), rejected, Inl RuntimeError)
         else case store_order db1 om ord of
                (om', Inr _) \<Rightarrow> (om', ord, Inr ())
              | (om', Inl _) \<Rightarrow> (fst (store_order db2 om' rejected), rejected, Inl RuntimeError))"

definition open_order ::
  "string option \<Rightarrow> bool \<Rightarrow> db_health \<Rightarrow> db_health \<Rightarrow> order_manager \<Rightarrow> order \<Rightarrow>
     order_manager \<times> order \<times> unit result" where
  "open_order head place_ok db1 db2 om ord0 =
     (let ord = with_commit_hash head (om_session om) (ord0\<lparr>o_status := Some PENDING\<rparr>);
          om1 = om\<lparr>om_in_flight :=
                  dict_set (o_uuid ord) (o_ticker_symbol ord, o_trade_action ord) (om_in_flight om)\<rparr>
      in if om_synchronous om then execute_order head place_ok db1 db2 om1 ord
         else (om1\<lparr>om_queue := om_queue om1 @ [ord]\<rparr>, ord, Inr ()))"

text \<open>One turn of the worker thread's loop \<open>process_order_queue\<close>.\<close>

definition process_next ::
  "string option \<Rightarrow> bool \<Rightarrow> db_health \<Rightarrow> db_health \<Rightarrow> order_manager \<Rightarrow> order_manager" where
  "process_next head place_ok db1 db2 om =
     (if om_stopped om then om
      else case om_queue om of
             [] \<Rightarrow> om
           | ord # rest \<Rightarrow>
               (case execute_order head place_ok db1 db2 (om\<lparr>om_queue := rest\<rparr>) ord of
                  (om', _, Inr _) \<Rightarrow> om'
                | (om', ord', Inl _) \<Rightarrow>
                    om'\<lparr>om_in_flight := dict_del (o_uuid ord') (om_in_flight om'),
                        om_outbox := om_outbox om' @
                          [OrderRejected (o_ticker_symbol ord') ord', RuntimeErrorCaptured ord']\<rparr>))"

definition mark_reconciliation_required ::
  "(nat \<Rightarrow> string) \<Rightarrow> string option \<Rightarrow> db_health \<Rightarrow> order_manager \<Rightarrow> order \<Rightarrow> order_manager" where
  "mark_reconciliation_required uuid_of head db om ord =
     fst (save_orders_to_database uuid_of head db om
            [ord\<lparr>o_status := Some RECONCILIATION_REQUIRED\<rparr>])"

definition reconcile_one ::
  "(nat \<Rightarrow> string) \<Rightarrow> string option \<Rightarrow> (string \<Rightarrow> db_health) \<Rightarrow> string set \<Rightarrow>
     (string \<Rightarrow> string \<Rightarrow> order option result) \<Rightarrow> order_manager \<Rightarrow> order \<Rightarrow> order_manager" where
  "reconcile_one uuid_of head db registered fetch om ord =
     (if o_provider_name ord \<notin> registered then om
      else case fetch (o_provider_name ord) (o_uuid ord) of
             Inl _ \<Rightarrow> om
           | Inr None \<Rightarrow> mark_reconciliation_required uuid_of head (db (o_uuid ord)) om ord
           | Inr (Some eo) \<Rightarrow>
               if o_status eo = None
               then mark_reconciliation_required uuid_of head (db (o_uuid ord)) om ord
               else fst (save_orders_to_database uuid_of head (db (o_uuid ord)) om
                      [ord\<lparr>o_status := o_status eo, o_fill_price := o_fill_price eo,
                           o_fees := o_fees eo, o_executed_time := o_executed_time eo\<rparr>]))"

definition reconcile_pending_orders ::
  "(nat \<Rightarrow> string) \<Rightarrow> string option \<Rightarrow> db_health \<Rightarrow> (string \<Rightarrow> db_health) \<Rightarrow> string set \<Rightarrow>
     (string \<Rightarrow> string \<Rightarrow> order option result) \<Rightarrow> order_manager \<Rightarrow> order_manager" where
  "reconcile_pending_orders uuid_of head load_db db registered fetch om =
     (case get_non_terminal_orders load_db om of
        Inl _ \<Rightarrow> om
      | Inr ords \<Rightarrow> foldl (reconcile_one uuid_of head db registered fetch) om ords)"

definition cancel_order ::
  "(nat \<Rightarrow> string) \<Rightarrow> string option \<Rightarrow> db_health \<Rightarrow> bool \<Rightarrow> order_manager \<Rightarrow> order \<Rightarrow>
     order_manager \<times> unit result" where
  "cancel_order uuid_of head db cancel_ok om ord =
     (if \<not> cancel_ok then (om, Inl RuntimeError)
      else case save_orders_to_database uuid_of head db om [ord\<lparr>o_status := Some CANCELLED\<rparr>] of
             (om', Inr _) \<Rightarrow> (om', Inr ())
           | (om', Inl _) \<Rightarrow> (om', Inl RuntimeError))"

definition cancel_open_orders ::
  "(nat \<Rightarrow> string) \<Rightarrow> string option \<Rightarrow> db_health \<Rightarrow> (string \<Rightarrow> db_health) \<Rightarrow> (string \<Rightarrow> bool) \<Rightarrow>
     order_manager \<Rightarrow> order_manager" where
  "cancel_open_orders uuid_of head load_db db cancel_ok om =
     (case get_non_terminal_orders load_db om of
        Inl _ \<Rightarrow> om
      | Inr ords \<Rightarrow>
          foldl (\<lambda>om ord. fst (cancel_order uuid_of head (db (o_uuid ord)) (cancel_ok (o_uuid ord)) om ord))
            om (filter (\<lambda>ord. is_open_status (o_status ord)) ords))"

definition order_shutdown ::
  "(nat \<Rightarrow> string) \<Rightarrow> string option \<Rightarrow> db_health \<Rightarrow> (string \<Rightarrow> db_health) \<Rightarrow> string set \<Rightarrow>
     (string \<Rightarrow> string \<Rightarrow> order option result) \<Rightarrow> (string \<Rightarrow> bool) \<Rightarrow> order_manager \<Rightarrow> order_manager" where
  "order_shutdown uuid_of head load_db db registered fetch cancel_ok om =
     (let om1 = om\<lparr>om_stopped := True\<rparr>;
          om2 = reconcile_pending_orders uuid_of head load_db db registered fetch om1;
          om3 = cancel_open_orders uuid_of head load_db db cancel_ok om2
      in om3\<lparr>om_in_flight := []\<rparr>)"

text \<open>The operations the application calls on the manager; the order update is the websocket
  callback.\<close>

datatype order_op =
    OpenOrder "string option" bool db_health db_health order
  | QueueTurn "string option" bool db_health db_health
  | OrderUpdate "string option" db_health "order list"
  | ReconcilePending "string option" db_health "string \<Rightarrow> db_health" "string set"
      "string \<Rightarrow> string \<Rightarrow> order option result"
  | Shutdown "string option" db_health "string \<Rightarrow> db_health" "string set"
      "string \<Rightarrow> string \<Rightarrow> order option result" "string \<Rightarrow> bool"

definition order_step :: "(nat \<Rightarrow> string) \<Rightarrow> order_manager \<Rightarrow> order_op \<Rightarrow> order_manager" where
  "order_step uuid_of om op =
     (case op of
        OpenOrder head place_ok db1 db2 ord \<Rightarrow> fst (open_order head place_ok db1 db2 om ord)
      | QueueTurn head place_ok db1 db2 \<Rightarrow> process_next head place_ok db1 db2 om
      | OrderUpdate head db ords \<Rightarrow> fst (save_orders_to_database uuid_of head db om ords)
      | ReconcilePending head load_db db registered fetch \<Rightarrow>
          reconcile_pending_orders uuid_of head load_db db registered fetch om
      | Shutdown head load_db db registered fetch cancel_ok \<Rightarrow>
          order_shutdown uuid_of head load_db db registered fetch cancel_ok om)"

definition init_order_manager :: "bool \<Rightarrow> session_manager \<Rightarrow> order_manager" where
  "init_order_manager synchronous sm =
     \<lparr>om_in_flight = [], om_queue = [], om_journal = empty_journal, om_orders = [], om_trades = [],
      om_session = sm, om_outbox = [], om_synchronous = synchronous, om_stopped = False,
      om_next_id = 0\<rparr>"

section \<open>Stored rows only advance\<close>

text \<open>
  What one statement may do to a row: identity columns stay, optional columns are filled and
  never cleared, and a terminal row is frozen.
\<close>

definition opt_grows :: "'a option \<Rightarrow> 'a option \<Rightarrow> bool" where
  "opt_grows a b \<longleftrightarrow> (a \<noteq> None \<longrightarrow> b \<noteq> None)"

definition row_le :: "order_dao \<Rightarrow> order_dao \<Rightarrow> bool" where
  "row_le d d' \<longleftrightarrow>
     od_uuid d' = od_uuid d \<and> od_provider_name d' = od_provider_name d \<and>
     od_quantity d' = od_quantity d \<and> od_trade_action d' = od_trade_action d \<and>
     od_created_timestamp d' = od_created_timestamp d \<and>
     opt_grows (od_commit_hash d) (od_commit_hash d') \<and>
     opt_grows (od_decision_id d) (od_decision_id d') \<and>
     opt_grows (od_metadata d) (od_metadata d') \<and> opt_grows (od_fees d) (od_fees d') \<and>
     opt_grows (od_fill_price d) (od_fill_price d') \<and>
     opt_grows (od_executed_timestamp d) (od_executed_timestamp d') \<and>
     (terminal_status (od_status d) \<longrightarrow> d' = d)"

definition table_le :: "order_table \<Rightarrow> order_table \<Rightarrow> bool" where
  "table_le t t' \<longleftrightarrow> (\<forall>u d. dict_get t u = Some d \<longrightarrow> (\<exists>d'. dict_get t' u = Some d' \<and> row_le d d'))"

lemma row_le_refl [simp]: "row_le d d"
  by (simp add: row_le_def opt_grows_def)

lemma row_le_trans: "row_le a b \<Longrightarrow> row_le b c \<Longrightarrow> row_le a c"
  by (auto simp: row_le_def opt_grows_def)

lemma table_le_refl [simp]: "table_le t t"
  by (auto simp: table_le_def intro: row_le_refl)

lemma table_le_trans: "table_le a b \<Longrightarrow> table_le b c \<Longrightarrow> table_le a c"
  unfolding table_le_def by (meson row_le_trans)

lemma opt_grows_or_keep [simp]: "opt_grows old (or_keep new old)"
  by (simp add: opt_grows_def or_keep_def split: option.split)

lemma row_le_merge_row: "\<not> terminal_status (od_status old) \<Longrightarrow> row_le old (merge_row old new)"
  by (simp add: row_le_def merge_row_def)

lemma upsert_cases:
  assumes "upsert t ord = Inr t'"
  obtains (insert) dao where "map_to_db ord = Inr dao" "dict_get t (od_uuid dao) = None"
      "t' = dict_set (od_uuid dao) dao t"
  | (frozen) dao old where "map_to_db ord = Inr dao" "dict_get t (od_uuid dao) = Some old"
      "terminal_status (od_status old)" "t' = t"
  | (merge) dao old where "map_to_db ord = Inr dao" "dict_get t (od_uuid dao) = Some old"
      "\<not> terminal_status (od_status old)" "t' = dict_set (od_uuid dao) (merge_row old dao) t"
proof -
  from assms obtain dao where d: "map_to_db ord = Inr dao"
    "t' = (case dict_get t (od_uuid dao) of None \<Rightarrow> dict_set (od_uuid dao) dao t
           | Some old \<Rightarrow> if terminal_status (od_status old) then t
                       else dict_set (od_uuid dao) (merge_row old dao) t)"
    by (auto simp: upsert_def res_bind_eq_Inr)
  show thesis
    using d by (cases "dict_get t (od_uuid dao)") (auto intro: that split: if_splits)
qed

lemma upsert_table_le: "upsert t ord = Inr t' \<Longrightarrow> table_le t t'"
  by (erule upsert_cases) (auto simp: table_le_def row_le_merge_row intro: row_le_refl)

text \<open>A relation on tables that every statement keeps is kept by every operation: the operations
  touch the table only through \<open>upsert\<close> and the rollback of a transaction.\<close>

locale table_order =
  fixes le :: "order_table \<Rightarrow> order_table \<Rightarrow> bool"
  assumes refl: "le t t"
    and trans: "le a b \<Longrightarrow> le b c \<Longrightarrow> le a c"
    and upsert: "upsert t ord = Inr t' \<Longrightarrow> le t t'"
begin

lemma save_one_orders: "om_orders (fst (save_one uuid_of head om ord)) = om_orders om"
  by (simp add: save_one_def Let_def split_beta)

lemma save_one_snd: "save_one uuid_of head om ord = (om', Inr t) \<Longrightarrow> le (om_orders om) t"
  by (auto simp: save_one_def Let_def split_beta dest!: upsert split: if_splits)

lemma save_loop: "le (om_orders om) (om_orders (fst (save_loop uuid_of head om ords)))"
proof (induction ords arbitrary: om)
  case (Cons ord ords)
  obtain om' r where s: "save_one uuid_of head om ord = (om', r)" by force
  have eq: "om_orders om' = om_orders om" using save_one_orders [of uuid_of head om ord] s by simp
  show ?case
  proof (cases r)
    case (Inl e)
    with s eq show ?thesis by (simp add: refl)
  next
    case (Inr t)
    with s Cons [of "om'\<lparr>om_orders := t\<rparr>"] show ?thesis
      by (auto intro: trans [OF save_one_snd])
  qed
qed (simp add: refl)

lemma save_orders: "le (om_orders om) (om_orders (fst (save_orders_to_database uuid_of head db om ords)))"
  using save_loop [of om uuid_of head ords]
  by (auto simp: save_orders_to_database_def rollback_def refl split: prod.split sum.split)

lemma store: "le (om_orders om) (om_orders (fst (store_order db om ord)))"
  by (auto simp: store_order_def refl upsert split: sum.split)

lemma execute: "le (om_orders om) (om_orders (fst (execute_order head place_ok db1 db2 om ord)))"
proof -
  obtain om' r where s: "store_order db1 om (with_commit_hash head (om_session om) ord) = (om', r)"
    by force
  then have "le (om_orders om) (om_orders om')"
    using store [of om db1 "with_commit_hash head (om_session om) ord"] by simp
  then show ?thesis
    using s by (cases r) (simp_all add: execute_order_def Let_def store trans [OF _ store])
qed

lemma open_order: "le (om_orders om) (om_orders (fst (open_order head place_ok db1 db2 om ord)))"
  using execute [of "om\<lparr>om_in_flight := f\<rparr>" for f]
  by (auto simp: open_order_def Let_def refl)

lemma process_next: "le (om_orders om) (om_orders (process_next head place_ok db1 db2 om))"
proof (cases "om_queue om")
  case (Cons ord rest)
  show ?thesis
    using execute [of "om\<lparr>om_queue := rest\<rparr>" head place_ok db1 db2 ord] Cons
    by (auto simp: process_next_def refl split: prod.split sum.split)
qed (simp add: process_next_def refl)

lemma reconcile_one: "le (om_orders om) (om_orders (reconcile_one uuid_of head db reg fetch om ord))"
  by (auto simp: reconcile_one_def mark_reconciliation_required_def refl save_orders
      split: sum.split option.split)

lemma fold: "(\<And>om x. le (om_orders om) (om_orders (f om x))) \<Longrightarrow> le (om_orders om) (om_orders (foldl f om xs))"
  by (induction xs arbitrary: om) (auto simp: refl intro: trans)

lemma reconcile:
  "le (om_orders om) (om_orders (reconcile_pending_orders uuid_of head load_db db reg fetch om))"
  by (auto simp: reconcile_pending_orders_def refl fold reconcile_one split: sum.split)

lemma cancel: "le (om_orders om) (om_orders (fst (cancel_order uuid_of head db ok om ord)))"
  using save_orders [of om uuid_of head db "[ord\<lparr>o_status := Some CANCELLED\<rparr>]"]
  by (auto simp: cancel_order_def refl split: prod.split sum.split)

lemma cancel_open:
  "le (om_orders om) (om_orders (cancel_open_orders uuid_of head load_db db ok om))"
  by (auto simp: cancel_open_orders_def refl fold cancel split: sum.split)

lemma shutdown:
  "le (om_orders om) (om_orders (order_shutdown uuid_of head load_db db reg fetch ok om))"
  using reconcile [of "om\<lparr>om_stopped := True\<rparr>" uuid_of head load_db db reg fetch]
  by (simp add: order_shutdown_def Let_def trans [OF _ cancel_open])

lemma step: "le (om_orders om) (om_orders (order_step uuid_of om op))"
  by (cases op)
    (simp_all add: order_step_def open_order process_next save_orders reconcile shutdown)

lemma run: "le (om_orders om) (om_orders (foldl (order_step uuid_of) om ops))"
  by (intro fold step)

end

interpretation rows: table_order table_le
  by unfold_locales (auto intro: table_le_trans upsert_table_le)

text \<open>C8.  Whatever sequence of operations runs, with whatever exchange answers and database
  failures, no stored order disappears, its provider, quantity, side and creation time never
  change, its optional columns are never cleared, and a row that is COMPLETED, CANCELLED or
  REJECTED never changes again.\<close>

theorem stored_orders_only_advance:
  assumes "dict_get (om_orders om) u = Some d"
  shows "\<exists>d'. dict_get (om_orders (foldl (order_step uuid_of) om ops)) u = Some d' \<and> row_le d d'"
  using rows.run [of om uuid_of ops] assms unfolding table_le_def by blast

section \<open>Mapper\<close>

lemma status_round_trip [simp]: "status_of_value (status_value s) = Inr s"
  by (cases s) (simp_all add: status_of_value_def status_value_def)

lemma status_value_not_Nil [simp]: "status_value s \<noteq> []"
  by (cases s) (simp_all add: status_value_def)

lemma terminal_status_value: "terminal_status (status_value s) \<longleftrightarrow> s \<in> {COMPLETED, CANCELLED, REJECTED}"
  by (cases s) (simp_all add: terminal_status_def status_value_def)

lemma order_metadata_get [simp]:
  "meta_str (order_metadata ord) ''winning_strategy'' = o_winning_strategy ord"
  "meta_str (order_metadata ord) ''regime'' = o_regime ord"
  "dict_get (order_metadata ord) ''strategy_votes'' = map_option MetaVotes (o_strategy_votes ord)"
  "dict_get (order_metadata ord) ''strategy_attributions'' =
     map_option MetaAttributions (o_strategy_attributions ord)"
  by (simp_all add: meta_str_def order_metadata_def split: option.split)

lemma opt_or_metadata [simp]: "opt_or (if m = [] then None else Some m) [] = m"
  by simp

text \<open>Writing an order to its row and reading it back gives the order again, whatever its
  status, with every field but the slippage, which the row does not keep.  An order without a
  status cannot be written.\<close>

theorem order_mapper_round_trip:
  "res_bind (map_to_db ord) map_to_entity =
     (if o_status ord = None then Inl AttributeError else Inr (ord\<lparr>o_slippage := None\<rparr>))"
proof (cases "o_status ord")
  case (Some s)
  then show ?thesis
    by (auto simp: map_to_db_def map_to_entity_def Let_def split: option.split)
qed (simp add: map_to_db_def)

lemma trade_metadata_get [simp]:
  "meta_str (trade_metadata t) ''commit_hash'' = tr_commit_hash t"
  "meta_str (trade_metadata t) ''winning_strategy'' = tr_winning_strategy t"
  "meta_votes (trade_metadata t) ''strategy_votes'' = tr_strategy_votes t"
  "meta_attributions (trade_metadata t) ''entry_strategy_attributions'' = tr_entry_strategy_attributions t"
  "meta_attributions (trade_metadata t) ''strategy_attributions'' = None"
  "meta_attributions (trade_metadata t) ''exit_strategy_attributions'' = tr_exit_strategy_attributions t"
  "meta_str (trade_metadata t) ''exit_winning_strategy'' = tr_exit_winning_strategy t"
  "meta_str (trade_metadata t) ''entry_regime'' = tr_entry_regime t"
  "meta_str (trade_metadata t) ''exit_regime'' = tr_exit_regime t"
  by (simp_all add: meta_str_def meta_votes_def meta_attributions_def trade_metadata_def null_or_def
      key_if_def split: option.split)

text \<open>A closed trade read back from the table is the trade that was stored, up to three
  losses: the votes of the exit are gone, empty entry attributions become none, and both times
  move by the offset of the host's time zone (nothing on a host in UTC).\<close>

theorem trade_mapper_round_trip:
  "trade_map_to_entity utcoffset (trade_map_to_db t) =
     t\<lparr>tr_exit_strategy_votes := None,
       tr_entry_strategy_attributions := py_or (tr_entry_strategy_attributions t) None,
       tr_entry_timestamp := tr_entry_timestamp t - utcoffset (tr_entry_timestamp t),
       tr_exit_timestamp := tr_exit_timestamp t - utcoffset (tr_exit_timestamp t)\<rparr>"
  by (simp add: trade_map_to_entity_def trade_map_to_db_def Let_def)

section \<open>Journal and table invariants\<close>

definition journal_ok :: "trading_journal \<Rightarrow> bool" where
  "journal_ok j \<longleftrightarrow>
     distinct (map o_uuid (tj_entries j)) \<and>
     tj_recorded_order_ids j = o_uuid ` set (tj_entries j) \<and>
     (\<forall>e\<in>set (tj_entries j). o_status e = Some COMPLETED) \<and>
     (\<forall>t. opt_or (dict_get (tj_entries_by_ticker j) t) [] =
          filter (\<lambda>e. o_ticker_symbol e = t) (tj_entries j))"

lemma journal_ok_empty [simp]: "journal_ok empty_journal"
  by (simp add: journal_ok_def empty_journal_def)

lemma journal_ok_record_fill [simp]: "journal_ok j \<Longrightarrow> journal_ok (record_fill j ord)"
  by (auto simp: journal_ok_def record_fill_def)

lemma record_fill_idem [simp]: "record_fill (record_fill j ord) ord = record_fill j ord"
  by (simp add: record_fill_def)

lemma record_fill_prefix: "prefix (tj_entries j) (tj_entries (record_fill j ord))"
  by (simp add: record_fill_def)

text \<open>The journal survives a failed transaction; only saving an update writes to it.\<close>

definition journal_le :: "trading_journal \<Rightarrow> trading_journal \<Rightarrow> bool" where
  "journal_le j j' \<longleftrightarrow> (journal_ok j \<longrightarrow> journal_ok j') \<and> prefix (tj_entries j) (tj_entries j')"

lemma journal_le_refl [simp]: "journal_le j j"
  by (simp add: journal_le_def)

lemma journal_le_trans: "journal_le a b \<Longrightarrow> journal_le b c \<Longrightarrow> journal_le a c"
  by (auto simp: journal_le_def intro: prefix_order.trans)

lemma save_one_journal:
  "om_journal (fst (save_one uuid_of head om ord)) =
     record_fill (om_journal om) (with_commit_hash head (om_session om) ord)"
  by (simp add: save_one_def Let_def split_beta record_fill_def)

lemma save_one_journal_le: "journal_le (om_journal om) (om_journal (fst (save_one uuid_of head om ord)))"
  by (simp add: save_one_journal journal_le_def record_fill_prefix)

lemma save_loop_journal_le: "journal_le (om_journal om) (om_journal (fst (save_loop uuid_of head om ords)))"
proof (induction ords arbitrary: om)
  case (Cons ord ords)
  obtain om' r where s: "save_one uuid_of head om ord = (om', r)" by force
  then have "journal_le (om_journal om) (om_journal om')"
    using save_one_journal_le [of om uuid_of head ord] by simp
  with s Cons [of "om'\<lparr>om_orders := t\<rparr>" for t] show ?case
    by (cases r) (auto intro: journal_le_trans)
qed simp

lemma save_orders_journal_le [simp]:
  "journal_le (om_journal om) (om_journal (fst (save_orders_to_database uuid_of head db om ords)))"
  using save_loop_journal_le [of om uuid_of head ords]
  by (auto simp: save_orders_to_database_def rollback_def split: prod.split sum.split)

lemma store_order_journal [simp]: "om_journal (fst (store_order db om ord)) = om_journal om"
  by (simp add: store_order_def split: sum.split)

lemma execute_order_journal [simp]:
  "om_journal (fst (execute_order head place_ok db1 db2 om ord)) = om_journal om"
  by (simp add: execute_order_def Let_def split_beta split: sum.split)

lemma open_order_journal [simp]:
  "om_journal (fst (open_order head place_ok db1 db2 om ord)) = om_journal om"
  by (simp add: open_order_def Let_def)

lemma process_next_journal [simp]: "om_journal (process_next head place_ok db1 db2 om) = om_journal om"
proof (cases "om_queue om")
  case (Cons ord rest)
  then show ?thesis
    by (simp add: process_next_def split_beta split: sum.split)
qed (simp add: process_next_def)

lemma foldl_journal_le:
  "(\<And>om x. journal_le (om_journal om) (om_journal (f om x))) \<Longrightarrow>
     journal_le (om_journal om) (om_journal (foldl f om xs))"
  by (induction xs arbitrary: om) (auto intro: journal_le_trans)

lemma reconcile_journal_le:
  "journal_le (om_journal om) (om_journal (reconcile_pending_orders uuid_of head load_db db reg fetch om))"
  by (auto simp: reconcile_pending_orders_def reconcile_one_def mark_reconciliation_required_def
      split: sum.split option.split intro!: foldl_journal_le)

lemma cancel_open_journal_le:
  "journal_le (om_journal om) (om_journal (cancel_open_orders uuid_of head load_db db ok om))"
proof -
  have "journal_le (om_journal om) (om_journal (fst (cancel_order uuid_of head d b om ord)))" for om d b ord
    by (simp add: cancel_order_def split_beta split: sum.split)
  then show ?thesis
    by (auto simp: cancel_open_orders_def split: sum.split intro!: foldl_journal_le)
qed

lemma order_step_journal_le: "journal_le (om_journal om) (om_journal (order_step uuid_of om op))"
proof (cases op)
  case (Shutdown head load_db db reg fetch ok)
  show ?thesis
    using reconcile_journal_le [of "om\<lparr>om_stopped := True\<rparr>" uuid_of head load_db db reg fetch]
    by (simp add: Shutdown order_step_def order_shutdown_def Let_def
        journal_le_trans [OF _ cancel_open_journal_le])
qed (simp_all add: order_step_def reconcile_journal_le)

interpretation journal: stepper "order_step uuid_of" "\<lambda>om. journal_ok (om_journal om)" for uuid_of
  using order_step_journal_le by unfold_locales (simp add: journal_le_def)


definition table_ok :: "order_table \<Rightarrow> bool" where
  "table_ok t \<longleftrightarrow> dict_wf t \<and>
     (\<forall>u d. dict_get t u = Some d \<longrightarrow> od_uuid d = u \<and> (\<exists>s. od_status d = status_value s))"

lemma table_ok_set:
  "table_ok t \<Longrightarrow> od_uuid d = u \<Longrightarrow> od_status d = status_value s \<Longrightarrow> table_ok (dict_set u d t)"
  by (auto simp: table_ok_def)

lemma map_to_db_fields:
  assumes "map_to_db ord = Inr dao"
  shows "od_uuid dao = o_uuid ord" and "\<exists>s. o_status ord = Some s \<and> od_status dao = status_value s"
  using assms by (auto simp: map_to_db_def split: option.splits)

lemma merge_row_fields [simp]:
  "od_uuid (merge_row old new) = od_uuid old" "od_status (merge_row old new) = od_status new"
  by (simp_all add: merge_row_def)

lemma table_ok_upsert: "upsert t ord = Inr t' \<Longrightarrow> table_ok t \<Longrightarrow> table_ok t'"
proof (erule upsert_cases)
  fix dao assume "map_to_db ord = Inr dao" "t' = dict_set (od_uuid dao) dao t" "table_ok t"
  then show "table_ok t'" using map_to_db_fields(2) [of ord dao] by (auto intro: table_ok_set)
next
  fix dao old
  assume a: "map_to_db ord = Inr dao" "dict_get t (od_uuid dao) = Some old"
    "t' = dict_set (od_uuid dao) (merge_row old dao) t" "table_ok t"
  then have "od_uuid old = od_uuid dao" by (auto simp: table_ok_def)
  with a show "table_ok t'" using map_to_db_fields(2) [of ord dao] by (auto intro: table_ok_set)
qed simp

interpretation rows_ok: table_order "\<lambda>t t'. table_ok t \<longrightarrow> table_ok t'"
  by unfold_locales (auto intro: table_ok_upsert)

lemma reachable_table_ok:
  "table_ok (om_orders (foldl (order_step uuid_of) (init_order_manager synchronous sm) ops))"
  using rows_ok.run [of "init_order_manager synchronous sm" uuid_of ops]
  by (simp add: init_order_manager_def table_ok_def)

text \<open>A well-formed row is read back with its own columns.\<close>

lemma map_to_entity_ok:
  assumes "od_status d = status_value s"
  obtains ord where "map_to_entity d = Inr ord" "o_status ord = Some s" "o_uuid ord = od_uuid d"
    "o_ticker_symbol ord = od_ticker_symbol d" "o_trade_action ord = od_trade_action d"
  using assms by (simp add: map_to_entity_def Let_def)

lemma map_results_all:
  "(\<And>x. x \<in> set xs \<Longrightarrow> \<exists>y. f x = Inr y \<and> R x y) \<Longrightarrow> \<exists>ys. map_results f xs = Inr ys \<and> list_all2 R xs ys"
proof (induction xs)
  case (Cons x xs)
  obtain y ys where "f x = Inr y" "R x y" "map_results f xs = Inr ys" "list_all2 R xs ys"
    using Cons.IH Cons.prems by fastforce
  then show ?case by simp
qed simp

definition row_of :: "order_dao \<Rightarrow> order \<Rightarrow> bool" where
  "row_of d ord \<longleftrightarrow> o_uuid ord = od_uuid d \<and> o_ticker_symbol ord = od_ticker_symbol d \<and>
     o_trade_action ord = od_trade_action d \<and> (\<exists>s. o_status ord = Some s \<and> od_status d = status_value s)"

lemma get_non_terminal_rows:
  assumes "table_ok t"
  obtains ords where "get_non_terminal t = Inr ords"
    "list_all2 row_of (filter (\<lambda>d. \<not> terminal_status (od_status d)) (dict_values t)) ords"
proof -
  have "\<exists>y. map_to_entity d = Inr y \<and> row_of d y"
    if "d \<in> set (filter (\<lambda>d. \<not> terminal_status (od_status d)) (dict_values t))" for d
  proof -
    from that assms obtain u where "dict_get t u = Some d"
      using dict_values_iff [of t d] by (auto simp: table_ok_def)
    with assms obtain s where "od_status d = status_value s" by (auto simp: table_ok_def)
    then show ?thesis by (rule map_to_entity_ok) (use \<open>od_status d = status_value s\<close> in \<open>auto simp: row_of_def\<close>)
  qed
  then show thesis
    using map_results_all [of _ map_to_entity row_of] that unfolding get_non_terminal_def by blast
qed

definition open_row :: "order_dao \<Rightarrow> bool" where
  "open_row d \<longleftrightarrow> od_status d = status_value PENDING \<or> od_status d = status_value PROCESSING"

lemma status_value_inject [simp]: "status_value s = status_value s' \<longleftrightarrow> s = s'"
  by (metis status_round_trip sum.inject(2))

lemma open_row_row_of: "row_of d ord \<Longrightarrow> is_open_status (o_status ord) \<longleftrightarrow> open_row d"
  by (auto simp: row_of_def open_row_def is_open_status_def)

lemma open_row_not_terminal: "open_row d \<Longrightarrow> \<not> terminal_status (od_status d)"
  by (auto simp: open_row_def terminal_status_value)

lemma list_all2_ex: "list_all2 R xs ys \<Longrightarrow> (\<And>x y. R x y \<Longrightarrow> P x \<longleftrightarrow> Q y) \<Longrightarrow> list_ex P xs \<longleftrightarrow> list_ex Q ys"
  by (induction rule: list_all2_induct) auto

lemma list_all2_mem: "list_all2 R xs ys \<Longrightarrow> x \<in> set xs \<Longrightarrow> \<exists>y\<in>set ys. R x y"
  by (induction rule: list_all2_induct) auto

lemma outstanding_intent_rows:
  assumes "table_ok (om_orders om)"
  shows "has_outstanding_intent DbOk om t act \<longleftrightarrow>
    (\<exists>a. (t, a) \<in> set (dict_values (om_in_flight om)) \<and> (act = None \<or> act = Some a)) \<or>
    (\<exists>u d. dict_get (om_orders om) u = Some d \<and> od_ticker_symbol d = t \<and> open_row d \<and>
       (act = None \<or> act = Some (od_trade_action d)))"
proof -
  let ?rows = "filter (\<lambda>d. \<not> terminal_status (od_status d)) (dict_values (om_orders om))"
  obtain ords where ords: "get_non_terminal (om_orders om) = Inr ords" "list_all2 row_of ?rows ords"
    using assms by (rule get_non_terminal_rows)
  let ?Q = "\<lambda>d. od_ticker_symbol d = t \<and> open_row d \<and> (act = None \<or> act = Some (od_trade_action d))"
  let ?Q' = "\<lambda>ord. o_ticker_symbol ord = t \<and> is_open_status (o_status ord) \<and>
    (act = None \<or> act = Some (o_trade_action ord))"
  have "list_ex ?Q' ords \<longleftrightarrow> list_ex ?Q ?rows"
    by (rule list_all2_ex [OF ords(2), symmetric]) (simp add: open_row_row_of, auto simp: row_of_def)
  also have "\<dots> \<longleftrightarrow> (\<exists>d\<in>set (dict_values (om_orders om)). ?Q d)"
    using open_row_not_terminal by (auto simp: list_ex_iff)
  also have "\<dots> \<longleftrightarrow> (\<exists>u d. dict_get (om_orders om) u = Some d \<and> ?Q d)"
    using assms dict_values_iff [of "om_orders om"] unfolding table_ok_def by blast
  finally have stored: "list_ex ?Q' ords \<longleftrightarrow> (\<exists>u d. dict_get (om_orders om) u = Some d \<and> ?Q d)" .
  have "list_ex (\<lambda>(sym, a). sym = t \<and> (act = None \<or> act = Some a)) (dict_values (om_in_flight om)) \<longleftrightarrow>
    (\<exists>a. (t, a) \<in> set (dict_values (om_in_flight om)) \<and> (act = None \<or> act = Some a))"
    unfolding list_ex_iff by (intro iffI; clarify) (auto, force+)
  with stored show ?thesis
    by (simp only: has_outstanding_intent_def get_non_terminal_orders_def ords(1)) auto
qed

text \<open>In every reachable manager, with the database up, an outstanding intent is reported
  for a ticker (and side) exactly when an order for it is in flight or stored as PENDING or
  PROCESSING: the check neither misses an open order nor blocks on a closed one.\<close>

theorem outstanding_intent_exact:
  assumes "om = foldl (order_step uuid_of) (init_order_manager synchronous sm) ops"
  shows "has_outstanding_intent DbOk om t act \<longleftrightarrow>
    (\<exists>a. (t, a) \<in> set (dict_values (om_in_flight om)) \<and> (act = None \<or> act = Some a)) \<or>
    (\<exists>u d. dict_get (om_orders om) u = Some d \<and> od_ticker_symbol d = t \<and> open_row d \<and>
       (act = None \<or> act = Some (od_trade_action d)))"
  unfolding assms by (rule outstanding_intent_rows [OF reachable_table_ok])

section \<open>Shutdown\<close>

definition open_ids :: "order_table \<Rightarrow> string set" where
  "open_ids t = {u. \<exists>d. dict_get t u = Some d \<and> open_row d}"

lemma upsert_CANCELLED:
  assumes "o_status ord = Some CANCELLED"
  obtains t' where "upsert t ord = Inr t'" "open_ids t' \<subseteq> open_ids t - {o_uuid ord}"
proof -
  obtain dao where dao: "map_to_db ord = Inr dao" "od_uuid dao = o_uuid ord"
    "od_status dao = status_value CANCELLED"
    using assms by (simp add: map_to_db_def)
  then have "\<not> open_row dao" "\<not> open_row (merge_row old dao)" for old by (simp_all add: open_row_def)
  with dao open_row_not_terminal have "\<exists>t'. upsert t ord = Inr t' \<and> open_ids t' \<subseteq> open_ids t - {o_uuid ord}"
    by (auto simp: upsert_def open_ids_def split: option.splits if_splits)
  then show thesis using that by blast
qed

lemma with_commit_hash_fields [simp]:
  "o_status (with_commit_hash head sm ord) = o_status ord"
  "o_uuid (with_commit_hash head sm ord) = o_uuid ord"
  "o_ticker_symbol (with_commit_hash head sm ord) = o_ticker_symbol ord"
  "o_trade_action (with_commit_hash head sm ord) = o_trade_action ord"
  "o_quantity (with_commit_hash head sm ord) = o_quantity ord"
  by (simp_all add: with_commit_hash_def)

lemma cancel_order_closes:
  "open_ids (om_orders (fst (cancel_order uuid_of head DbOk True om ord))) \<subseteq>
     open_ids (om_orders om) - {o_uuid ord}"
proof -
  let ?ord = "with_commit_hash head (om_session om) (ord\<lparr>o_status := Some CANCELLED\<rparr>)"
  obtain t' where "upsert (om_orders om) ?ord = Inr t'" "open_ids t' \<subseteq> open_ids (om_orders om) - {o_uuid ord}"
    using upsert_CANCELLED [of ?ord "om_orders om"] by auto
  then show ?thesis
    by (simp add: cancel_order_def save_orders_to_database_def save_one_def Let_def split_beta)
qed

lemma cancel_all_closes:
  "open_ids (om_orders (foldl (\<lambda>om ord. fst (cancel_order uuid_of head DbOk True om ord)) om ords)) \<subseteq>
     open_ids (om_orders om) - o_uuid ` set ords"
proof (induction ords arbitrary: om)
  case (Cons ord ords)
  show ?case
    using Cons [of "fst (cancel_order uuid_of head DbOk True om ord)"]
      cancel_order_closes [of uuid_of head om ord] by auto
qed simp

lemma cancel_open_orders_closes:
  assumes "table_ok (om_orders om)"
  shows "open_ids (om_orders (cancel_open_orders uuid_of head DbOk (\<lambda>_. DbOk) (\<lambda>_. True) om)) = {}"
proof -
  let ?rows = "filter (\<lambda>d. \<not> terminal_status (od_status d)) (dict_values (om_orders om))"
  obtain ords where ords: "get_non_terminal (om_orders om) = Inr ords" "list_all2 row_of ?rows ords"
    using assms by (rule get_non_terminal_rows)
  have "u \<in> o_uuid ` set (filter (\<lambda>ord. is_open_status (o_status ord)) ords)"
    if "u \<in> open_ids (om_orders om)" for u
  proof -
    from that obtain d where d: "dict_get (om_orders om) u = Some d" "open_row d" by (auto simp: open_ids_def)
    from d(1) have "d \<in> set (dict_values (om_orders om))" by (force dest: map_of_SomeD)
    with d(2) have "d \<in> set ?rows" using open_row_not_terminal [of d] by simp
    from list_all2_mem [OF ords(2) this] obtain ord where "ord \<in> set ords" "row_of d ord" ..
    have "od_uuid d = u" using assms d(1) by (simp add: table_ok_def)
    have "is_open_status (o_status ord)" "o_uuid ord = u"
      using d(2) \<open>row_of d ord\<close> \<open>od_uuid d = u\<close> open_row_row_of [of d ord] by (simp_all add: row_of_def)
    with \<open>ord \<in> set ords\<close> show ?thesis by auto
  qed
  then show ?thesis
    using cancel_all_closes [of uuid_of head om "filter (\<lambda>ord. is_open_status (o_status ord)) ords"] ords(1)
    by (auto simp: cancel_open_orders_def get_non_terminal_orders_def)
qed

text \<open>C13.  Shutting down a reachable manager while the database is up and the exchange accepts
  the cancellations leaves no order open: no stored row is PENDING or PROCESSING, whatever the
  reconciliation found on the exchange before, and no intent is outstanding for any ticker.\<close>

theorem shutdown_leaves_no_open_order:
  assumes "om = foldl (order_step uuid_of) (init_order_manager synchronous sm) ops"
    and "om' = order_shutdown uuid_of head DbOk (\<lambda>_. DbOk) registered fetch (\<lambda>_. True) om"
  shows "(\<forall>u d. dict_get (om_orders om') u = Some d \<longrightarrow> \<not> open_row d) \<and>
    \<not> has_outstanding_intent DbOk om' t act"
proof -
  let ?om1 = "om\<lparr>om_stopped := True\<rparr>"
  have ok: "table_ok (om_orders om)" unfolding assms(1) by (rule reachable_table_ok)
  then have "table_ok (om_orders ?om1)" by simp
  then have "table_ok (om_orders (reconcile_pending_orders uuid_of head DbOk (\<lambda>_. DbOk) registered fetch ?om1))"
    using rows_ok.reconcile by blast
  then have "open_ids (om_orders om') = {}" "om_in_flight om' = []"
    unfolding assms(2) by (simp_all add: order_shutdown_def Let_def cancel_open_orders_closes)
  moreover have "table_ok (om_orders om')"
    using rows_ok.shutdown ok assms(2) by blast
  ultimately show ?thesis
    by (auto simp: outstanding_intent_rows open_ids_def)
qed

section \<open>Repeated updates\<close>

lemma find_update_first:
  "find P (dict_values d) = Some c \<Longrightarrow> P (f c) \<Longrightarrow> find P (dict_values (update_first P f d)) = Some (f c)"
  by (induction P f d rule: update_first.induct) (auto split: if_splits)

lemma find_context_modify:
  assumes "find_context sm t = Some c" and "tc_ticker_symbol (f c) = tc_ticker_symbol c"
  shows "find_context (modify_context_by_symbol t f sm) t = Some (f c)"
proof -
  obtain s where s: "sn_current_session sm = Some s"
    and c: "find (\<lambda>ctx. tc_ticker_symbol ctx = t) (dict_values (ts_trading_contexts s)) = Some c"
    using assms(1) by (auto simp: find_context_def split: option.splits)
  then have "tc_ticker_symbol c = t" using find_Some_mem by fastforce
  with s c assms(2) show ?thesis
    by (simp add: find_context_def modify_context_by_symbol_def map_session_def find_update_first)
qed

lemma apply_fill_buy:
  assumes "o_trade_action ord = BUY" and "0 < o_quantity ord"
  shows "tc_ticker_symbol (fst (apply_fill i fresh ctx ord)) = tc_ticker_symbol ctx"
    and "tc_position_qty (fst (apply_fill i fresh ctx ord)) = tc_position_qty ctx + o_quantity ord"
  using assms by (simp_all add: apply_fill_def record_buy_fill_def Let_def)

lemma record_order_fill_buy:
  assumes "find_context sm (o_ticker_symbol ord) = Some ctx" and "o_trade_action ord = BUY"
    and "0 < o_quantity ord"
  shows "\<exists>c. find_context (fst (record_order_fill i fresh head sm ord)) (o_ticker_symbol ord) = Some c \<and>
    tc_position_qty c = tc_position_qty ctx + o_quantity ord"
  using assms by (simp add: record_order_fill_def Let_def find_context_modify apply_fill_buy)

lemma record_order_fill_order [simp]:
  "o_status (fst (snd (record_order_fill i fresh head sm ord))) = o_status ord"
  "o_uuid (fst (snd (record_order_fill i fresh head sm ord))) = o_uuid ord"
  by (simp_all add: record_order_fill_def Let_def split: option.split)

text \<open>A COMPLETED order leaves a frozen row behind, and a frozen row ignores it.\<close>

lemma upsert_COMPLETED:
  assumes "o_status ord = Some COMPLETED"
  obtains t' d where "upsert t ord = Inr t'" "dict_get t' (o_uuid ord) = Some d" "terminal_status (od_status d)"
proof -
  obtain dao where "map_to_db ord = Inr dao" "od_uuid dao = o_uuid ord" "od_status dao = status_value COMPLETED"
    using assms by (simp add: map_to_db_def)
  then have "\<exists>t' d. upsert t ord = Inr t' \<and> dict_get t' (o_uuid ord) = Some d \<and> terminal_status (od_status d)"
    by (cases "dict_get t (o_uuid ord)") (auto simp: upsert_def terminal_status_value)
  then show thesis using that by blast
qed

lemma upsert_frozen:
  "dict_get t (o_uuid ord) = Some d \<Longrightarrow> terminal_status (od_status d) \<Longrightarrow> o_status ord \<noteq> None \<Longrightarrow>
     upsert t ord = Inr t"
  by (auto simp: upsert_def map_to_db_def)

lemma save_completed:
  assumes "o_status ord = Some COMPLETED"
    and "om' = fst (save_orders_to_database uuid_of head DbOk om [ord])"
  shows "om_journal om' = record_fill (om_journal om) (with_commit_hash head (om_session om) ord)"
    and "\<exists>ord'. o_status ord' = Some COMPLETED \<and> o_uuid ord' = o_uuid ord \<and>
      upsert (om_orders om) ord' = Inr (om_orders om')"
    and "om_session om' = fst (record_order_fill (uuid_of (om_next_id om))
      (\<lambda>i. uuid_of (om_next_id om + 1 + i)) head (om_session om) (with_commit_hash head (om_session om) ord))"
proof -
  let ?ord = "with_commit_hash head (om_session om) ord"
  let ?r = "record_order_fill (uuid_of (om_next_id om)) (\<lambda>i. uuid_of (om_next_id om + 1 + i)) head
    (om_session om) ?ord"
  obtain t' where t': "upsert (om_orders om) (fst (snd ?r)) = Inr t'"
    using upsert_COMPLETED [of "fst (snd ?r)" "om_orders om"] assms(1) by auto
  then have om': "om_orders om' = t'" "om_session om' = fst ?r"
    "om_journal om' = record_fill (om_journal om) ?ord"
    using assms by (simp_all add: save_orders_to_database_def save_one_def Let_def split_beta is_open_status_def)
  show "om_journal om' = record_fill (om_journal om) ?ord" "om_session om' = fst ?r"
    using om' by simp_all
  show "\<exists>ord'. o_status ord' = Some COMPLETED \<and> o_uuid ord' = o_uuid ord \<and>
      upsert (om_orders om) ord' = Inr (om_orders om')"
    using t' om'(1) assms(1) by (intro exI [of _ "fst (snd ?r)"]) simp
qed

lemma save_completed_position:
  assumes "o_status ord = Some COMPLETED"
    and "om' = fst (save_orders_to_database uuid_of head DbOk om [ord])"
    and "find_context (om_session om) (o_ticker_symbol ord) = Some ctx"
    and "o_trade_action ord = BUY" and "0 < o_quantity ord"
  shows "\<exists>c. find_context (om_session om') (o_ticker_symbol ord) = Some c \<and>
    tc_position_qty c = tc_position_qty ctx + o_quantity ord"
  using record_order_fill_buy [of "om_session om" "with_commit_hash head (om_session om) ord" ctx
      "uuid_of (om_next_id om)" "\<lambda>i. uuid_of (om_next_id om + 1 + i)" head] assms(3-5)
  by (simp add: save_completed(3) [OF assms(1,2)])

text \<open>A completed buy that is reported twice is written once to the journal and once to the
  order table, but the session books it twice: the position grows by twice the quantity.\<close>

theorem duplicate_fill_counted_twice:
  assumes "o_status ord = Some COMPLETED" and "o_trade_action ord = BUY" and "0 < o_quantity ord"
    and "find_context (om_session om) (o_ticker_symbol ord) = Some ctx"
    and "om1 = fst (save_orders_to_database uuid_of head DbOk om [ord])"
    and "om2 = fst (save_orders_to_database uuid_of head DbOk om1 [ord])"
  shows "om_journal om2 = om_journal om1 \<and> om_orders om2 = om_orders om1 \<and>
    (\<exists>c2. find_context (om_session om2) (o_ticker_symbol ord) = Some c2 \<and>
       tc_position_qty c2 = tc_position_qty ctx + 2 * o_quantity ord)"
proof (intro conjI)
  note once = save_completed [OF assms(1,5)] and twice = save_completed [OF assms(1,6)]
  show "om_journal om2 = om_journal om1"
    by (simp add: once(1) twice(1) record_fill_def)
  obtain o1 d where "upsert (om_orders om) o1 = Inr (om_orders om1)"
    "dict_get (om_orders om1) (o_uuid ord) = Some d" "terminal_status (od_status d)"
    using once(2) upsert_COMPLETED by (metis sum.inject(2))
  then show "om_orders om2 = om_orders om1"
    using twice(2) upsert_frozen [of "om_orders om1"] by auto
  obtain c1 where c1: "find_context (om_session om1) (o_ticker_symbol ord) = Some c1"
    "tc_position_qty c1 = tc_position_qty ctx + o_quantity ord"
    using save_completed_position [OF assms(1,5,4,2,3)] by blast
  then show "\<exists>c2. find_context (om_session om2) (o_ticker_symbol ord) = Some c2 \<and>
       tc_position_qty c2 = tc_position_qty ctx + 2 * o_quantity ord"
    using save_completed_position [OF assms(1,6) c1(1) assms(2,3)] by auto
qed

lemma refused_queued_order:
  assumes "om_queue om = ord # rest" and "\<not> om_stopped om"
    and "dict_get (om_orders om) (o_uuid ord) = None"
    and "om' = process_next head False db1 DbOk om"
  shows "dict_get (om_in_flight om') (o_uuid ord) = None \<and> om_queue om' = rest \<and>
    (\<exists>d ord'. dict_get (om_orders om') (o_uuid ord) = Some d \<and> od_status d = ''REJECTED'' \<and>
      map_to_db ord' = Inr d \<and> OrderRejected (o_ticker_symbol ord) ord' \<in> set (om_outbox om'))"
proof -
  let ?rej = "with_commit_hash head (om_session om) ord\<lparr>o_status := Some REJECTED\<rparr>"
  obtain d where "map_to_db ?rej = Inr d" "od_uuid d = o_uuid ord" "od_status d = ''REJECTED''"
    by (simp add: map_to_db_def status_value_def)
  with assms show ?thesis
    by (simp add: process_next_def execute_order_def store_order_def upsert_def Let_def) blast
qed

lemma store_order_in_flight [simp]: "om_in_flight (fst (store_order db om ord)) = om_in_flight om"
  by (simp add: store_order_def split: sum.split)

lemma refused_synchronous_order:
  assumes "om_synchronous om" and "open_order head False db1 db2 om ord = (om', ord', r)"
  shows "r = Inl RuntimeError \<and> o_status ord' = Some REJECTED \<and>
    has_outstanding_intent db om' (o_ticker_symbol ord) (Some (o_trade_action ord))"
proof -
  have "om_in_flight om' =
      dict_set (o_uuid ord) (o_ticker_symbol ord, o_trade_action ord) (om_in_flight om)"
    "r = Inl RuntimeError" "o_status ord' = Some REJECTED"
    using assms by (auto simp: open_order_def execute_order_def Let_def)
  moreover from this(1) have "(o_ticker_symbol ord, o_trade_action ord) \<in> set (dict_values (om_in_flight om'))"
    by (metis dict_get_set image_eqI list.set_map map_of_SomeD snd_conv)
  ultimately show ?thesis
    by (force simp: has_outstanding_intent_def list_ex_iff)
qed

text \<open>When the exchange refuses a queued order, the worker releases its intent, stores it as
  REJECTED where the table has no row for it yet and publishes the rejection.  When it refuses an
  order placed synchronously, the caller gets the error and the same REJECTED order, but the
  intent stays, so the ticker and side keep reporting an outstanding order.\<close>

theorem rejected_order_intent:
  "(om_queue om = ord # rest \<and> \<not> om_stopped om \<and> dict_get (om_orders om) (o_uuid ord) = None \<and>
     om1 = process_next head False db1 DbOk om \<longrightarrow>
     dict_get (om_in_flight om1) (o_uuid ord) = None \<and> om_queue om1 = rest \<and>
     (\<exists>d ord'. dict_get (om_orders om1) (o_uuid ord) = Some d \<and> od_status d = ''REJECTED'' \<and>
        map_to_db ord' = Inr d \<and> OrderRejected (o_ticker_symbol ord) ord' \<in> set (om_outbox om1))) \<and>
   (om_synchronous om \<and> open_order head False db1 db2 om ord = (om2, ord2, r) \<longrightarrow>
     r = Inl RuntimeError \<and> o_status ord2 = Some REJECTED \<and>
     has_outstanding_intent db om2 (o_ticker_symbol ord) (Some (o_trade_action ord)))"
  apply (rule conjI)
   apply (rule impI, elim conjE, rule refused_queued_order, assumption+)
  apply (rule impI, elim conjE, rule refused_synchronous_order, assumption+)
  done

section \<open>Witnesses\<close>

definition demo_om :: order_manager where
  "demo_om = init_order_manager True demo_session"

definition demo_ops :: "order_op list" where
  "demo_ops = [OpenOrder None True DbOk DbOk (demo_order BUY 10 3)]"

definition demo_pending_dao :: order_dao where
  "demo_pending_dao =
     \<lparr>od_uuid = ''o'', od_provider_name = ''CDC'', od_ticker_symbol = ''BTC_USD'', od_price = 10,
      od_quantity = 3, od_trade_action = BUY, od_status = ''PENDING'', od_commit_hash = Some ''HEAD'',
      od_decision_id = None, od_metadata = None, od_fees = None, od_fill_price = None,
      od_created_timestamp = 1, od_executed_timestamp = None\<rparr>"

lemmas demo_order_defs = demo_om_def demo_ops_def demo_order_def demo_session_def init_order_manager_def
  init_session_manager_def get_current_commit_hash_def

lemma demo_opened:
  "om_orders (foldl (order_step uuid_of) demo_om demo_ops) = [(''o'', demo_pending_dao)]"
  "om_in_flight (foldl (order_step uuid_of) demo_om demo_ops) = [(''o'', (''BTC_USD'', BUY))]"
  by (simp_all add: demo_order_defs order_step_def open_order_def execute_order_def store_order_def
      with_commit_hash_def truthy_def upsert_def map_to_db_def order_metadata_def status_value_def
      demo_pending_dao_def Let_def)

theorem stored_orders_only_advance_witness:
  "\<exists>d'. dict_get (om_orders (foldl (order_step (\<lambda>_. [])) (foldl (order_step (\<lambda>_. [])) demo_om demo_ops)
      [OrderUpdate None DbOk [demo_order BUY 10 3]])) ''o'' = Some d' \<and> row_le demo_pending_dao d'"
  by (rule stored_orders_only_advance) (simp add: demo_opened)


theorem outstanding_intent_exact_witness:
  "has_outstanding_intent DbOk (foldl (order_step (\<lambda>_. [])) (init_order_manager True demo_session) demo_ops)
     ''BTC_USD'' (Some BUY) \<and>
   \<not> has_outstanding_intent DbOk (foldl (order_step (\<lambda>_. [])) (init_order_manager True demo_session) demo_ops)
     ''BTC_USD'' (Some SELL)"
  using outstanding_intent_exact [OF HOL.refl, of "\<lambda>_. []" True demo_session demo_ops "''BTC_USD''"]
    demo_opened [of "\<lambda>_. []"]
  by (simp add: demo_om_def demo_pending_dao_def)

theorem shutdown_leaves_no_open_order_witness:
  "\<not> has_outstanding_intent DbOk
     (order_shutdown (\<lambda>_. []) None DbOk (\<lambda>_. DbOk) {''CDC''} (\<lambda>_ _. Inr None) (\<lambda>_. True)
        (foldl (order_step (\<lambda>_. [])) (init_order_manager True demo_session) demo_ops)) ''BTC_USD'' None"
  using shutdown_leaves_no_open_order [OF HOL.refl HOL.refl] by blast

theorem duplicate_fill_counted_twice_witness:
  "\<exists>c. find_context (om_session (fst (save_orders_to_database (\<lambda>_. []) None DbOk
      (fst (save_orders_to_database (\<lambda>_. []) None DbOk demo_om [demo_order BUY 10 3]))
      [demo_order BUY 10 3]))) ''BTC_USD'' = Some c \<and> tc_position_qty c = 6"
proof -
  let ?o = "demo_order BUY 10 3"
  have o: "o_status ?o = Some COMPLETED" "o_trade_action ?o = BUY" "0 < o_quantity ?o"
    "o_ticker_symbol ?o = ''BTC_USD''" "o_quantity ?o = 3"
    by (simp_all add: demo_order_def)
  have c: "find_context (om_session demo_om) (o_ticker_symbol ?o) =
      Some (new_context ''BTC_USD'' ''CDC'' 100 None)"
    by (simp add: demo_order_defs find_context_def new_context_def)
  show ?thesis
    using duplicate_fill_counted_twice [OF o(1-3) c HOL.refl HOL.refl, of "\<lambda>_. []" None] o
    by (auto simp: new_context_def)
qed

theorem rejected_order_intent_witness:
  "has_outstanding_intent DbOk (fst (open_order None False DbOk DbOk demo_om (demo_order BUY 10 3)))
     ''BTC_USD'' (Some BUY)"
proof -
  obtain om' ord' r where o: "open_order None False DbOk DbOk demo_om (demo_order BUY 10 3) = (om', ord', r)"
    by (metis prod_cases3)
  have "om_synchronous demo_om" by (simp add: demo_order_defs)
  with rejected_order_intent [of demo_om "demo_order BUY 10 3" _ _ None DbOk DbOk om' ord' r DbOk] o
  show ?thesis by (simp add: demo_order_def)
qed

end
