(* ===== verification/Accounts.thy ===== *)
theory Accounts
  imports Session
begin

text \<open>
  Account balances: the canonical per-currency state
  (\<open>src/src/trading/accounts/account_state.py\<close>) and the account manager
  (\<open>src/src/trading/accounts/account_manager.py\<close>).  The REST manager's answer to a balance or
  market-data request is an argument (\<open>Inl\<close> when the call raises), as is the clock.  The manager
  publishes its balance events after it releases its lock: each operation returns them in order.
\<close>

section \<open>Account state\<close>

record currency_balance_state =
  cb_currency :: string
  cb_total :: decimal
  cb_available :: decimal
  cb_reserved :: decimal
  cb_last_updated_at :: timestamp
  cb_version :: nat
  cb_source :: string

definition has_changed :: "currency_balance_state \<Rightarrow> decimal \<Rightarrow> decimal option \<Rightarrow> bool" where
  "has_changed s other_available other_total \<longleftrightarrow>
     cb_available s \<noteq> other_available \<or>
     (case other_total of None \<Rightarrow> False | Some t \<Rightarrow> cb_total s \<noteq> t)"

record account_state =
  as_exchange :: string
  as_balances :: "(string, currency_balance_state) dict"
  as_last_reconciliation_time :: timestamp

definition new_account_state :: "string \<Rightarrow> account_state" where
  "new_account_state ex = \<lparr>as_exchange = ex, as_balances = [], as_last_reconciliation_time = 0\<rparr>"

definition account_get_balance :: "account_state \<Rightarrow> string \<Rightarrow> currency_balance_state option" where
  "account_get_balance st currency = dict_get (as_balances st) (upper currency)"

text \<open>The new state of the currency and the one it replaces, if any.\<close>

definition update_balance ::
  "account_state \<Rightarrow> string \<Rightarrow> decimal \<Rightarrow> decimal option \<Rightarrow> decimal option \<Rightarrow> string \<Rightarrow> timestamp option \<Rightarrow>
     timestamp \<Rightarrow> account_state \<times> currency_balance_state \<times> currency_balance_state option" where
  "update_balance st currency available tot0 reserved source ts now =
     (let k = upper currency;
          tot = opt_or tot0 available;
          prev = dict_get (as_balances st) k;
          new = \<lparr>cb_currency = k, cb_total = tot, cb_available = available,
                 cb_reserved = opt_or reserved (max 0 (tot - available)),
                 cb_last_updated_at = opt_or ts now,
                 cb_version = (case prev of None \<Rightarrow> 1 | Some old \<Rightarrow> cb_version old + 1),
                 cb_source = source\<rparr>
      in (st\<lparr>as_balances := dict_set k new (as_balances st)\<rparr>, new, prev))"

section \<open>Account manager\<close>

record balance_changed_event =
  bc_exchange :: string
  bc_currency :: string
  bc_available :: decimal
  bc_total :: decimal
  bc_reserved :: decimal
  bc_previous_available :: "decimal option"
  bc_previous_total :: "decimal option"
  bc_source :: string
  bc_reason :: string
  bc_version :: nat

record account_manager =
  am_account_states :: "(string, account_state) dict"
  am_balances :: "(string, (string, account_balance) dict) dict"
  am_last_balance_updates :: "(string, (string, timestamp) dict) dict"

definition init_account_manager :: account_manager where
  "init_account_manager = \<lparr>am_account_states = [], am_balances = [], am_last_balance_updates = []\<rparr>"

definition get_account_state :: "account_manager \<Rightarrow> string \<Rightarrow> account_manager \<times> account_state" where
  "get_account_state am exchange =
     (let k = upper exchange
      in case dict_get (am_account_states am) k of
           Some st \<Rightarrow> (am, st)
         | None \<Rightarrow> (am\<lparr>am_account_states := dict_set k (new_account_state k) (am_account_states am)\<rparr>,
                   new_account_state k))"

definition changed_event ::
  "string \<Rightarrow> string \<Rightarrow> string \<Rightarrow> string \<Rightarrow> currency_balance_state \<Rightarrow> currency_balance_state option \<Rightarrow>
     balance_changed_event list" where
  "changed_event ex cur source reason new prev =
     (if (case prev of None \<Rightarrow> True | Some p \<Rightarrow> has_changed p (cb_available new) (Some (cb_total new)))
      then [\<lparr>bc_exchange = ex, bc_currency = cur, bc_available = cb_available new,
             bc_total = cb_total new, bc_reserved = cb_reserved new,
             bc_previous_available = map_option cb_available prev,
             bc_previous_total = map_option cb_total prev,
             bc_source = source, bc_reason = reason, bc_version = cb_version new\<rparr>]
      else [])"

text \<open>One balance of the loop in \<open>_cache_balances\<close>; \<open>last_balance_updates\<close> is a defaultdict.\<close>

definition cache_one ::
  "string \<Rightarrow> string \<Rightarrow> string \<Rightarrow> timestamp \<Rightarrow> account_manager \<times> balance_changed_event list \<Rightarrow>
     account_balance \<Rightarrow> account_manager \<times> balance_changed_event list" where
  "cache_one ex source reason now acc bal =
     (let (am, evs) = acc;
          cur = upper (ab_currency bal);
          st = opt_or (dict_get (am_account_states am) ex) (new_account_state ex);
          (st', new, prev) = update_balance st cur (ab_available_balance bal) None None source None now;
          per_curr = opt_or (dict_get (am_balances am) ex) [];
          updates = opt_or (dict_get (am_last_balance_updates am) ex) []
      in (am\<lparr>am_account_states := dict_set ex st' (am_account_states am),
             am_balances := dict_set ex (dict_set cur bal per_curr) (am_balances am),
             am_last_balance_updates :=
               dict_set ex (dict_set cur now updates) (am_last_balance_updates am)\<rparr>,
          evs @ changed_event ex cur source reason new prev))"

definition open_exchange :: "string \<Rightarrow> account_manager \<Rightarrow> account_manager" where
  "open_exchange ex am =
     (let am1 = (if dict_get (am_account_states am) ex = None
                 then am\<lparr>am_account_states := dict_set ex (new_account_state ex) (am_account_states am)\<rparr>
                 else am)
      in if dict_get (am_balances am1) ex = None
         then am1\<lparr>am_balances := dict_set ex [] (am_balances am1)\<rparr> else am1)"

definition cache_balances ::
  "account_manager \<Rightarrow> string \<Rightarrow> account_balance list \<Rightarrow> string \<Rightarrow> string \<Rightarrow> timestamp \<Rightarrow>
     account_manager \<times> balance_changed_event list" where
  "cache_balances am provider bals source reason now =
     foldl (cache_one (upper provider) source reason now) (open_exchange (upper provider) am, []) bals"

type_synonym rest_balances = "string \<Rightarrow> account_balance list result"

definition reconcile_account_balances ::
  "rest_balances \<Rightarrow> account_manager \<Rightarrow> string \<Rightarrow> timestamp \<Rightarrow>
     account_manager \<times> balance_changed_event list \<times> account_balance list result" where
  "reconcile_account_balances rest am provider now =
     (case rest provider of
        Inl e \<Rightarrow> (am, [], Inl e)
      | Inr data \<Rightarrow>
          let (am', evs) = cache_balances am provider data ''REST_RECONCILIATION'' ''SNAPSHOT'' now;
              ex = upper provider
          in (case dict_get (am_account_states am') ex of
                None \<Rightarrow> am'
              | Some st \<Rightarrow> am'\<lparr>am_account_states :=
                  dict_set ex (st\<lparr>as_last_reconciliation_time := now\<rparr>) (am_account_states am')\<rparr>,
              evs, Inr data))"

definition on_order_rejected ::
  "rest_balances \<Rightarrow> account_manager \<Rightarrow> string \<Rightarrow> timestamp \<Rightarrow>
     account_manager \<times> balance_changed_event list" where
  "on_order_rejected rest am provider now =
     (if provider = [] then (am, [])
      else let (am', evs, _) = reconcile_account_balances rest am provider now in (am', evs))"

definition BALANCE_TTL_SECONDS :: rat where
  "BALANCE_TTL_SECONDS = 60"

definition cached_balance :: "account_manager \<Rightarrow> string \<Rightarrow> string \<Rightarrow> account_balance option" where
  "cached_balance am ex cur = Option.bind (dict_get (am_balances am) ex) (\<lambda>d. dict_get d cur)"

definition last_update :: "account_manager \<Rightarrow> string \<Rightarrow> string \<Rightarrow> timestamp" where
  "last_update am ex cur =
     opt_or (dict_get (opt_or (dict_get (am_last_balance_updates am) ex) []) cur) 0"

definition get_balance ::
  "rest_balances \<Rightarrow> account_manager \<Rightarrow> string \<Rightarrow> string \<Rightarrow> timestamp \<Rightarrow>
     account_manager \<times> balance_changed_event list \<times> account_balance result" where
  "get_balance rest am currency provider now =
     (let cur = upper currency;
          ex = upper provider;
          should_refresh = (cached_balance am ex cur = None \<or>
                            now - last_update am ex cur > BALANCE_TTL_SECONDS);
          answer = (\<lambda>a. opt_or (cached_balance a ex cur) \<lparr>ab_currency = currency, ab_available_balance = 0\<rparr>)
      in if should_refresh
         then (case reconcile_account_balances rest am provider now of
                 (am', evs, Inl e) \<Rightarrow> (am', evs, Inl e)
               | (am', evs, Inr _) \<Rightarrow> (am', evs, Inr (answer am')))
         else (am, [], Inr (answer am)))"

definition get_base_balance where
  "get_base_balance rest am (a :: 'x asset_scheme) provider now =
     get_balance rest am (a_base_ticker_symbol a) provider now"

definition get_quote_balance where
  "get_quote_balance rest am (a :: 'x asset_scheme) provider now =
     get_balance rest am (a_quote_ticker_symbol a) provider now"

text \<open>The manager's \<open>init_asset_balance\<close>: any exception is logged and reported as \<open>False\<close>.  The
  events published on the way reach the session before the asset has a context.\<close>

definition am_init_asset_balance ::
  "rest_balances \<Rightarrow> (string \<Rightarrow> string \<Rightarrow> market_data result) \<Rightarrow> (string \<Rightarrow> int) \<Rightarrow> string \<Rightarrow>
     account_manager \<Rightarrow> session_manager \<Rightarrow> asset \<Rightarrow> timestamp \<Rightarrow>
     account_manager \<times> session_manager \<times> balance_changed_event list \<times> bool" where
  "am_init_asset_balance rest market py_hash lot_id am sm a now =
     (if get_trading_context sm (asset_key py_hash a) \<noteq> None then (am, sm, [], True)
      else case get_quote_balance rest am a (a_exchange a) now of
             (am1, ev1, Inl _) \<Rightarrow> (am1, sm, ev1, False)
           | (am1, ev1, Inr opening) \<Rightarrow>
               (case get_base_balance rest am1 a (a_exchange a) now of
                  (am2, ev2, Inl _) \<Rightarrow> (am2, sm, ev1 @ ev2, False)
                | (am2, ev2, Inr base) \<Rightarrow>
                    let qty = ab_available_balance base;
                        opened = (\<lambda>q p. init_asset_balance py_hash sm a (ab_available_balance opening) q p
                                   None now lot_id)
                    in case (if qty > 0
                             then res_bind (market (a_exchange a) (ticker_symbol a))
                                    (\<lambda>md. opened qty (md_close_price md))
                             else opened 0 0) of
                         Inl _ \<Rightarrow> (am2, sm, ev1 @ ev2, False)
                       | Inr sm' \<Rightarrow> (am2, sm', ev1 @ ev2, True)))"

definition am_close_one ::
  "rest_balances \<Rightarrow> (string \<Rightarrow> int) \<Rightarrow> timestamp \<Rightarrow>
     account_manager \<times> session_manager \<times> balance_changed_event list \<Rightarrow> asset \<Rightarrow>
     account_manager \<times> session_manager \<times> balance_changed_event list" where
  "am_close_one rest py_hash now acc a =
     (let (am, sm, evs) = acc
      in case get_quote_balance rest am a (a_exchange a) now of
           (am', ev, Inl _) \<Rightarrow> (am', sm, evs @ ev)
         | (am', ev, Inr b) \<Rightarrow>
             (am', close_asset_balance sm (asset_key py_hash a) (ab_available_balance b), evs @ ev))"

definition close_account_balances ::
  "rest_balances \<Rightarrow> (string \<Rightarrow> int) \<Rightarrow> timestamp \<Rightarrow> account_manager \<Rightarrow> session_manager \<Rightarrow> asset list \<Rightarrow>
     account_manager \<times> session_manager \<times> balance_changed_event list" where
  "close_account_balances rest py_hash now am sm assets =
     foldl (am_close_one rest py_hash now) (am, sm, []) assets"

text \<open>The operations that change the manager, with the events each publishes.\<close>

datatype account_op =
    WsBalances string "account_balance list"
  | ReconcileBalances rest_balances string
  | OrderRejectedOn rest_balances string
  | ReadBalance rest_balances string string

fun account_step ::
  "account_manager \<Rightarrow> account_op \<times> timestamp \<Rightarrow> account_manager \<times> balance_changed_event list" where
  "account_step am (WsBalances provider bals, now) = cache_balances am provider bals ''WS'' ''UPDATE'' now"
| "account_step am (ReconcileBalances rest provider, now) =
     (let (am', evs, _) = reconcile_account_balances rest am provider now in (am', evs))"
| "account_step am (OrderRejectedOn rest provider, now) = on_order_rejected rest am provider now"
| "account_step am (ReadBalance rest currency provider, now) =
     (let (am', evs, _) = get_balance rest am currency provider now in (am', evs))"

section \<open>The event stream and the cache\<close>

text \<open>What a subscriber knows: the last announced balance of each exchange and currency.\<close>

definition apply_balance_event ::
  "(string \<times> string \<Rightarrow> decimal option) \<Rightarrow> balance_changed_event \<Rightarrow> (string \<times> string \<Rightarrow> decimal option)" where
  "apply_balance_event m e = m((bc_exchange e, bc_currency e) \<mapsto> bc_available e)"

definition cache_view :: "account_manager \<Rightarrow> string \<times> string \<Rightarrow> decimal option" where
  "cache_view am = (\<lambda>(ex, c). map_option ab_available_balance (cached_balance am ex c))"

definition state_of :: "account_manager \<Rightarrow> string \<times> string \<Rightarrow> currency_balance_state option" where
  "state_of am = (\<lambda>(ex, c). Option.bind (dict_get (am_account_states am) ex) (\<lambda>st. dict_get (as_balances st) c))"

text \<open>The cache and the canonical state agree, and a state's total is its available amount: the
  exchange reports only the available one.\<close>

definition account_inv :: "account_manager \<Rightarrow> bool" where
  "account_inv am \<longleftrightarrow>
     cache_view am = (\<lambda>k. map_option cb_available (state_of am k)) \<and>
     (\<forall>k s. state_of am k = Some s \<longrightarrow> cb_total s = cb_available s \<and> cb_reserved s = 0 \<and> 0 < cb_version s)"

lemma account_inv_init [simp]: "account_inv init_account_manager"
  by (simp add: account_inv_def cache_view_def state_of_def cached_balance_def init_account_manager_def
      fun_eq_iff)

lemma cache_view_init [simp]: "cache_view init_account_manager = Map.empty"
  by (simp add: cache_view_def cached_balance_def init_account_manager_def fun_eq_iff)

lemma open_exchange_views [simp]:
  "cache_view (open_exchange ex am) = cache_view am" "state_of (open_exchange ex am) = state_of am"
  by (auto simp: open_exchange_def cache_view_def state_of_def cached_balance_def new_account_state_def
      fun_eq_iff Let_def split: option.splits)

lemma account_inv_open [simp]: "account_inv (open_exchange ex am) = account_inv am"
  by (simp add: account_inv_def)

lemma get_opt_or [simp]:
  "dict_get (opt_or x []) k = Option.bind x (\<lambda>d. dict_get d k)"
  "dict_get (as_balances (opt_or y (new_account_state ex))) k = Option.bind y (\<lambda>st. dict_get (as_balances st) k)"
  by (cases x; simp) (cases y; simp add: new_account_state_def)

lemma cache_one_cache_view:
  "cache_view (fst (cache_one ex source reason now (am, evs) bal)) =
     (cache_view am)((ex, upper (ab_currency bal)) \<mapsto> ab_available_balance bal)"
  by (auto simp: cache_one_def cache_view_def cached_balance_def Let_def split_beta fun_eq_iff
      split: option.splits)

lemma cache_one_state_of:
  "state_of (fst (cache_one ex source reason now (am, evs) bal)) =
     (state_of am)((ex, upper (ab_currency bal)) \<mapsto>
        \<lparr>cb_currency = upper (ab_currency bal), cb_total = ab_available_balance bal,
         cb_available = ab_available_balance bal, cb_reserved = 0, cb_last_updated_at = now,
         cb_version = (case state_of am (ex, upper (ab_currency bal)) of
                         None \<Rightarrow> 1 | Some old \<Rightarrow> cb_version old + 1),
         cb_source = source\<rparr>)"
  by (auto simp: cache_one_def state_of_def update_balance_def Let_def split_beta
      fun_eq_iff split: option.splits)

lemma cache_one_events:
  "snd (cache_one ex source reason now (am, evs) bal) = evs @
     (let k = (ex, upper (ab_currency bal)); prev = state_of am k; b = ab_available_balance bal
      in changed_event ex (upper (ab_currency bal)) source reason
           \<lparr>cb_currency = upper (ab_currency bal), cb_total = b, cb_available = b, cb_reserved = 0,
            cb_last_updated_at = now, cb_version = (case prev of None \<Rightarrow> 1 | Some old \<Rightarrow> cb_version old + 1),
            cb_source = source\<rparr> prev)"
  by (auto simp: cache_one_def state_of_def update_balance_def Let_def split_beta
      split: option.splits)

text \<open>One cached balance: a subscriber in step with the cache stays in step, also when the
  unchanged balance is not announced.\<close>

lemma cache_one_sim:
  assumes "account_inv am"
  shows "account_inv (fst (cache_one ex source reason now (am, evs) bal)) \<and>
    foldl apply_balance_event (cache_view am) (drop (length evs) (snd (cache_one ex source reason now (am, evs) bal))) =
      cache_view (fst (cache_one ex source reason now (am, evs) bal))"
proof
  show "account_inv (fst (cache_one ex source reason now (am, evs) bal))"
    using assms unfolding account_inv_def cache_one_cache_view cache_one_state_of
    by (auto simp: fun_eq_iff split: option.splits)
  let ?k = "(ex, upper (ab_currency bal))"
  have "cache_view am ?k = Some (ab_available_balance bal)"
    if "state_of am ?k = Some s" "\<not> has_changed s (ab_available_balance bal) (Some (ab_available_balance bal))" for s
    using that assms by (simp add: account_inv_def has_changed_def)
  then show "foldl apply_balance_event (cache_view am) (drop (length evs) (snd (cache_one ex source reason now (am, evs) bal))) =
      cache_view (fst (cache_one ex source reason now (am, evs) bal))"
    unfolding cache_one_cache_view cache_one_events
    by (auto simp: changed_event_def apply_balance_event_def Let_def fun_upd_idem split: option.splits)
qed

lemma cache_one_prefix: "\<exists>new. snd (cache_one ex source reason now (am, evs) bal) = evs @ new"
  by (simp add: cache_one_events)

lemma cache_loop_sim:
  assumes "account_inv am"
  shows "account_inv (fst (foldl (cache_one ex source reason now) (am, evs) bals)) \<and>
    (\<exists>new. snd (foldl (cache_one ex source reason now) (am, evs) bals) = evs @ new \<and>
       foldl apply_balance_event (cache_view am) new =
         cache_view (fst (foldl (cache_one ex source reason now) (am, evs) bals)))"
  using assms
proof (induction bals arbitrary: am evs)
  case (Cons bal bals)
  obtain am1 evs1 where one: "cache_one ex source reason now (am, evs) bal = (am1, evs1)" by force
  obtain new1 where new1: "evs1 = evs @ new1" using cache_one_prefix [of ex source reason now am evs bal] one by auto
  have "account_inv am1" "foldl apply_balance_event (cache_view am) new1 = cache_view am1"
    using cache_one_sim [OF Cons.prems, of ex source reason now evs bal] one new1 by simp_all
  then show ?case using Cons.IH [of am1 evs1] one new1 by auto
qed simp

lemma cache_balances_sim:
  assumes "account_inv am"
  shows "account_inv (fst (cache_balances am provider bals source reason now)) \<and>
    foldl apply_balance_event (cache_view am) (snd (cache_balances am provider bals source reason now)) =
      cache_view (fst (cache_balances am provider bals source reason now))"
  using cache_loop_sim [of "open_exchange (upper provider) am" "upper provider" source reason now "[]" bals] assms
  by (auto simp: cache_balances_def)

lemma touch_account_state:
  "dict_get (am_account_states am) ex = Some st \<Longrightarrow>
     state_of (am\<lparr>am_account_states := dict_set ex (st\<lparr>as_last_reconciliation_time := t\<rparr>) (am_account_states am)\<rparr>) =
       state_of am"
  by (auto simp: state_of_def fun_eq_iff)

lemma cached_balance_states [simp]: "cached_balance (am\<lparr>am_account_states := x\<rparr>) = cached_balance am"
  by (simp add: cached_balance_def fun_eq_iff)

lemma cache_view_states [simp]: "cache_view (am\<lparr>am_account_states := x\<rparr>) = cache_view am"
  by (simp add: cache_view_def)

lemma reconcile_balances_sim:
  assumes "account_inv am"
  shows "account_inv (fst (reconcile_account_balances rest am provider now)) \<and>
    foldl apply_balance_event (cache_view am) (fst (snd (reconcile_account_balances rest am provider now))) =
      cache_view (fst (reconcile_account_balances rest am provider now))"
proof (cases "rest provider")
  case (Inr data)
  let ?c = "cache_balances am provider data ''REST_RECONCILIATION'' ''SNAPSHOT'' now"
  show ?thesis
    using cache_balances_sim [OF assms, of provider data "''REST_RECONCILIATION''" "''SNAPSHOT''" now]
    by (cases "dict_get (am_account_states (fst ?c)) (upper provider)")
      (simp_all add: reconcile_account_balances_def Inr Let_def split_beta account_inv_def touch_account_state)
qed (simp add: reconcile_account_balances_def assms)

lemma get_balance_sim:
  assumes "account_inv am"
  shows "account_inv (fst (get_balance rest am c provider now)) \<and>
    foldl apply_balance_event (cache_view am) (fst (snd (get_balance rest am c provider now))) =
      cache_view (fst (get_balance rest am c provider now))"
  using reconcile_balances_sim [OF assms, of rest provider now] assms
  by (auto simp: get_balance_def Let_def split: prod.splits sum.splits)

interpretation account: event_sourced account_step account_inv cache_view apply_balance_event
proof
  fix am :: account_manager and op :: "account_op \<times> timestamp"
  assume inv: "account_inv am"
  have "account_inv (fst (account_step am op)) \<and>
    foldl apply_balance_event (cache_view am) (snd (account_step am op)) = cache_view (fst (account_step am op))"
    using inv cache_balances_sim reconcile_balances_sim get_balance_sim
    by (cases "(am, op)" rule: account_step.cases)
      (simp_all add: on_order_rejected_def Let_def split_beta)
  then show "account_inv (fst (account_step am op))"
    "foldl apply_balance_event (cache_view am) (snd (account_step am op)) = cache_view (fst (account_step am op))"
    by simp_all
qed

section \<open>Properties\<close>

text \<open>From an empty account manager, after any websocket updates, reconciliations, order
  rejections and balance reads, a subscriber that only follows the published events holds exactly
  the cached balance of every exchange and currency, and the canonical account state agrees with
  the cache: suppressing the events of unchanged balances loses nothing.\<close>

theorem balance_events_complete:
  assumes "run_events account_step init_account_manager ops = (am, evs)"
  shows "foldl apply_balance_event Map.empty evs = cache_view am \<and>
    cache_view am = (\<lambda>k. map_option cb_available (state_of am k))"
  using account.replay [OF account_inv_init, of ops] account.inv_run [OF account_inv_init, of ops] assms
  by (simp add: account_inv_def)

theorem balance_events_complete_witness:
  "cache_view (fst (run_events account_step init_account_manager
     [(WsBalances ''cdc'' [\<lparr>ab_currency = ''usd'', ab_available_balance = 5\<rparr>], 10),
      (WsBalances ''cdc'' [\<lparr>ab_currency = ''USD'', ab_available_balance = 5\<rparr>], 20)])) (''CDC'', ''USD'') = Some 5 \<and>
   length (snd (run_events account_step init_account_manager
     [(WsBalances ''cdc'' [\<lparr>ab_currency = ''usd'', ab_available_balance = 5\<rparr>], 10),
      (WsBalances ''cdc'' [\<lparr>ab_currency = ''USD'', ab_available_balance = 5\<rparr>], 20)])) = 1"
proof -
  let ?ops = "[(WsBalances ''cdc'' [\<lparr>ab_currency = ''usd'', ab_available_balance = 5\<rparr>], 10),
      (WsBalances ''cdc'' [\<lparr>ab_currency = ''USD'', ab_available_balance = 5\<rparr>], 20)]"
  obtain am evs where run: "run_events account_step init_account_manager ?ops = (am, evs)" by force
  have up: "upper ''cdc'' = ''CDC''" "upper ''usd'' = ''USD''" "upper ''USD'' = ''USD''" by code_simp+
  let ?e = "\<lparr>bc_exchange = ''CDC'', bc_currency = ''USD'', bc_available = 5, bc_total = 5, bc_reserved = 0,
    bc_previous_available = None, bc_previous_total = None, bc_source = ''WS'', bc_reason = ''UPDATE'',
    bc_version = 1\<rparr>"
  have "snd (run_events account_step init_account_manager ?ops) = [?e]"
    by (simp add: cache_balances_def open_exchange_def init_account_manager_def cache_one_def
        update_balance_def new_account_state_def changed_event_def has_changed_def up Let_def)
  with run have "evs = [?e]" by simp
  moreover have "cache_view am (''CDC'', ''USD'') = Some 5"
    unfolding conjunct1 [OF balance_events_complete [OF run], symmetric] \<open>evs = [?e]\<close>
    by (simp add: apply_balance_event_def)
  ultimately show ?thesis using run by simp
qed

text \<open>The last entry of an answer for a currency is the one that stays.\<close>

definition reported :: "account_balance list \<Rightarrow> string \<Rightarrow> account_balance option" where
  "reported bals c = find (\<lambda>b. upper (ab_currency b) = c) (rev bals)"

lemma cached_balance_loop:
  "cached_balance (fst (foldl (cache_one ex source reason now) (am, evs) bals)) ex c =
     (case reported bals c of None \<Rightarrow> cached_balance am ex c | Some b \<Rightarrow> Some b)"
proof (induction bals arbitrary: am evs rule: rev_induct)
  case (snoc bal bals)
  obtain am1 evs1 where one: "foldl (cache_one ex source reason now) (am, evs) bals = (am1, evs1)" by force
  have "cached_balance (fst (cache_one ex source reason now (am1, evs1) bal)) ex c =
      (if upper (ab_currency bal) = c then Some bal else cached_balance am1 ex c)"
    by (simp add: cache_one_def cached_balance_def Let_def split_beta)
  then show ?case using snoc [of am evs] one by (simp add: reported_def)
qed (simp add: reported_def)

lemma cached_balance_open [simp]: "cached_balance (open_exchange ex' am) ex c = cached_balance am ex c"
  by (auto simp: open_exchange_def cached_balance_def Let_def split: option.splits)

lemma reconcile_cached_balance:
  assumes "rest provider = Inr data"
  shows "cached_balance (fst (reconcile_account_balances rest am provider now)) (upper provider) c =
    (case reported data c of None \<Rightarrow> cached_balance am (upper provider) c | Some b \<Rightarrow> Some b)"
  using assms
  by (simp add: reconcile_account_balances_def cache_balances_def Let_def split_beta cached_balance_loop
      split: option.split)

lemma balance_read_cases:
  assumes "get_balance rest am c provider now = (am', evs, Inr b)"
  shows "(cached_balance am (upper provider) (upper c) = Some b \<and>
      now - last_update am (upper provider) (upper c) \<le> 60 \<and> am' = am \<and> evs = []) \<or>
    (\<exists>data. rest provider = Inr data \<and>
      b = (case reported data (upper c) of
             Some r \<Rightarrow> r
           | None \<Rightarrow> opt_or (cached_balance am (upper provider) (upper c))
                      \<lparr>ab_currency = c, ab_available_balance = 0\<rparr>))"
proof (cases "cached_balance am (upper provider) (upper c) = None \<or>
    now - last_update am (upper provider) (upper c) > BALANCE_TTL_SECONDS")
  case True
  then obtain d where r: "reconcile_account_balances rest am provider now = (am', evs, Inr d)"
    and b: "b = opt_or (cached_balance am' (upper provider) (upper c)) \<lparr>ab_currency = c, ab_available_balance = 0\<rparr>"
    using assms by (auto simp: get_balance_def Let_def split: prod.splits sum.splits)
  obtain data where "rest provider = Inr data"
    using r by (auto simp: reconcile_account_balances_def split: sum.splits)
  with reconcile_cached_balance [of rest provider data am now "upper c"] r b show ?thesis
    by (auto split: option.splits)
next
  case False
  then show ?thesis
    using assms by (auto simp: get_balance_def Let_def BALANCE_TTL_SECONDS_def)
qed

text \<open>A balance read is either served from a cached value at most 60 seconds old, without
  asking the exchange, or the exchange was asked: then it is the last amount the answer lists for
  the currency, and when the answer does not list it, the old cached amount, however stale, or
  zero when there is none.\<close>

theorem balance_read_fresh:
  assumes "get_balance rest am c provider now = (am', evs, Inr b)"
  shows "(cached_balance am (upper provider) (upper c) = Some b \<and>
      now - last_update am (upper provider) (upper c) \<le> 60 \<and> am' = am \<and> evs = []) \<or>
    (\<exists>data. rest provider = Inr data \<and>
      b = (case reported data (upper c) of
             Some r \<Rightarrow> r
           | None \<Rightarrow> opt_or (cached_balance am (upper provider) (upper c))
                      \<lparr>ab_currency = c, ab_available_balance = 0\<rparr>))"
  using assms by (rule balance_read_cases)

theorem balance_read_fresh_witness:
  "\<exists>am' evs. get_balance (\<lambda>_. Inr [\<lparr>ab_currency = ''USD'', ab_available_balance = 7\<rparr>]) init_account_manager
       ''USD'' ''CDC'' 100 = (am', evs, Inr \<lparr>ab_currency = ''USD'', ab_available_balance = 7\<rparr>)"
proof -
  let ?rest = "\<lambda>_. Inr [\<lparr>ab_currency = ''USD'', ab_available_balance = 7\<rparr>] :: account_balance list result"
  have up: "upper ''USD'' = ''USD''" by code_simp
  obtain am' evs b where g: "get_balance ?rest init_account_manager ''USD'' ''CDC'' 100 = (am', evs, Inr b)"
    by (auto simp: get_balance_def reconcile_account_balances_def Let_def split_beta cached_balance_def
        init_account_manager_def)
  have "b = \<lparr>ab_currency = ''USD'', ab_available_balance = 7\<rparr>"
    using balance_read_fresh [OF g] by (auto simp: cached_balance_def init_account_manager_def reported_def up)
  with g show ?thesis by blast
qed

section \<open>Shape of the cache\<close>

text \<open>The per-exchange dictionaries have distinct, upper-case keys.\<close>

definition cache_keys_ok :: "(string, account_balance) dict \<Rightarrow> bool" where
  "cache_keys_ok d \<longleftrightarrow> dict_wf d \<and> (\<forall>c\<in>set (dict_keys d). upper c = c)"

definition cache_ok :: "account_manager \<Rightarrow> bool" where
  "cache_ok am \<longleftrightarrow> dict_all cache_keys_ok (am_balances am)"

lemma cache_keys_ok_set: "cache_keys_ok d \<Longrightarrow> cache_keys_ok (dict_set (upper c) b d)"
  by (auto simp: cache_keys_ok_def dict_set_keys)

lemma cache_ok_init [simp]: "cache_ok init_account_manager"
  by (simp add: cache_ok_def init_account_manager_def)

lemma cache_ok_states [simp]: "cache_ok (am\<lparr>am_account_states := x\<rparr>) = cache_ok am"
  by (simp add: cache_ok_def)

lemma cache_ok_open: "cache_ok am \<Longrightarrow> cache_ok (open_exchange ex am)"
  by (simp add: cache_ok_def open_exchange_def Let_def dict_all_set cache_keys_ok_def)

lemma cache_ok_one: "cache_ok am \<Longrightarrow> cache_ok (fst (cache_one ex source reason now (am, evs) bal))"
proof -
  assume ok: "cache_ok am"
  have "cache_keys_ok (opt_or (dict_get (am_balances am) ex) [])"
    using ok by (cases "dict_get (am_balances am) ex")
      (simp_all add: cache_ok_def cache_keys_ok_def [of "[]"] dict_all_get)
  with ok show ?thesis
    by (simp add: cache_one_def Let_def split_beta cache_ok_def dict_all_set cache_keys_ok_set)
qed

lemma cache_ok_loop: "cache_ok am \<Longrightarrow> cache_ok (fst (foldl (cache_one ex source reason now) (am, evs) bals))"
proof (induction bals arbitrary: am evs)
  case (Cons bal bals)
  then show ?case
    using cache_ok_one [OF Cons.prems, of ex source reason now evs bal]
    by (cases "cache_one ex source reason now (am, evs) bal") simp
qed simp

lemma cache_ok_balances: "cache_ok am \<Longrightarrow> cache_ok (fst (cache_balances am provider bals source reason now))"
  by (simp add: cache_balances_def cache_ok_loop cache_ok_open)

lemma cache_ok_reconcile: "cache_ok am \<Longrightarrow> cache_ok (fst (reconcile_account_balances rest am provider now))"
  by (simp add: reconcile_account_balances_def Let_def split_beta cache_ok_balances split: sum.split option.split)

interpretation account_cache: stepper "\<lambda>am op. fst (account_step am op)" cache_ok
proof
  fix am op assume "cache_ok am"
  then show "cache_ok (fst (account_step am op))"
    by (cases "(am, op)" rule: account_step.cases)
      (simp_all add: cache_ok_balances cache_ok_reconcile on_order_rejected_def get_balance_def Let_def split_beta
        split: sum.split)
qed

lemma reachable_cache_ok: "cache_ok (fst (run_events account_step init_account_manager ops))"
  unfolding run_events_fst by (rule account_cache.inv_run) simp

lemma cached_balance_cache:
  "cached_balance (fst (cache_balances am provider bals source reason now)) (upper provider) c =
     (case reported bals c of None \<Rightarrow> cached_balance am (upper provider) c | Some b \<Rightarrow> Some b)"
  by (simp add: cache_balances_def cached_balance_loop split: option.split)

end
