(* ===== verification/Regimes.thy ===== *)
theory Regimes
  imports Domain
begin

text \<open>
  Portfolio configuration (\<open>src/src/configuration/portfolio_config.py\<close>) and the market regime
  detector (\<open>src/src/trading/regimes\<close>).  Decimal and float arithmetic is exact.  A configuration
  block is built from the fields a document gives: \<open>None\<close> stands for a field left out (it takes
  its default), \<open>Some None\<close> for an explicit null.
\<close>

section \<open>Configuration\<close>

record exposure_config =
  xc_max_total :: "decimal option"
  xc_max_per_asset :: "decimal option"
  xc_max_per_quote :: "decimal option"

record regime_config =
  mc_enabled :: bool
  mc_period :: nat
  mc_high_volatility_threshold :: decimal
  mc_low_volatility_threshold :: decimal
  mc_trend_threshold :: decimal
  mc_illiquid_spread_threshold :: decimal
  mc_min_data_points :: nat

record guard_policy =
  gp_enabled :: bool
  gp_max_drawdown :: "decimal option"
  gp_max_daily_loss :: "decimal option"
  gp_max_position_count :: "nat option"
  gp_min_quote_reserve :: decimal
  gp_max_quote_exposure :: decimal

record portfolio_config =
  pc_exposure :: exposure_config
  pc_regime :: regime_config
  pc_guard :: guard_policy

record portfolio_override =
  po_exposure :: "exposure_config option"
  po_regime :: "regime_config option"
  po_guard :: "guard_policy option"

definition make_exposure_config ::
  "decimal option option \<Rightarrow> decimal option option \<Rightarrow> decimal option option \<Rightarrow> exposure_config" where
  "make_exposure_config max_total max_per_asset max_per_quote =
     \<lparr>xc_max_total = opt_or max_total (Some (8/10)), xc_max_per_asset = opt_or max_per_asset (Some (1/4)),
      xc_max_per_quote = opt_or max_per_quote (Some (1/2))\<rparr>"

definition make_guard_policy ::
  "bool option \<Rightarrow> decimal option option \<Rightarrow> decimal option option \<Rightarrow> nat option option \<Rightarrow>
     decimal option \<Rightarrow> decimal option \<Rightarrow> guard_policy" where
  "make_guard_policy enabled max_drawdown max_daily_loss max_count reserve exposure =
     \<lparr>gp_enabled = opt_or enabled True, gp_max_drawdown = opt_or max_drawdown (Some (1/10)),
      gp_max_daily_loss = opt_or max_daily_loss (Some (1/20)),
      gp_max_position_count = opt_or max_count (Some 10),
      gp_min_quote_reserve = opt_or reserve (1/10), gp_max_quote_exposure = opt_or exposure (8/10)\<rparr>"

definition default_regime_config :: regime_config where
  "default_regime_config =
     \<lparr>mc_enabled = True, mc_period = 20, mc_high_volatility_threshold = 3/100,
      mc_low_volatility_threshold = 5/1000, mc_trend_threshold = 5/1000,
      mc_illiquid_spread_threshold = 5/100, mc_min_data_points = 3\<rparr>"

definition default_portfolio_config :: portfolio_config where
  "default_portfolio_config =
     \<lparr>pc_exposure = make_exposure_config None None None, pc_regime = default_regime_config,
      pc_guard = make_guard_policy None None None None None None\<rparr>"

section \<open>Market regimes\<close>

datatype market_regime =
    TRENDING_UP | TRENDING_DOWN | RANGING | HIGH_VOLATILITY | LOW_VOLATILITY | ILLIQUID
  | NORMAL | EXTREME | REGIME_UNKNOWN

definition get_exposure_multiplier :: "market_regime \<Rightarrow> rat" where
  "get_exposure_multiplier r =
     (if r = HIGH_VOLATILITY then 1/2
      else if r = TRENDING_DOWN then 3/4
      else if r = ILLIQUID \<or> r = EXTREME then 1/8
      else 1)"

record regime_metrics =
  rm_regime :: market_regime
  rm_volatility :: rat
  rm_trend_strength :: rat
  rm_liquidity :: rat
  rm_spread :: rat

record regime_detector =
  dt_high_volatility :: rat
  dt_low_volatility :: rat
  dt_trend :: rat
  dt_illiquid_spread :: rat
  dt_period :: nat
  dt_min_data_points :: nat
  dt_enabled :: bool

definition detector_of_config :: "regime_config \<Rightarrow> regime_detector" where
  "detector_of_config c =
     \<lparr>dt_high_volatility = mc_high_volatility_threshold c,
      dt_low_volatility = mc_low_volatility_threshold c, dt_trend = mc_trend_threshold c,
      dt_illiquid_spread = mc_illiquid_spread_threshold c, dt_period = mc_period c,
      dt_min_data_points = mc_min_data_points c, dt_enabled = mc_enabled c\<rparr>"

definition true_range :: "candle \<Rightarrow> candle \<Rightarrow> rat" where
  "true_range prev cur =
     max (cd_high cur - cd_low cur)
       (max \<bar>cd_high cur - cd_close prev\<bar> \<bar>cd_low cur - cd_close prev\<bar>)"

text \<open>\<open>n\<close> is the number of true ranges: the last \<open>n\<close> candles, each with its predecessor.\<close>

definition regime_volatility :: "candle list \<Rightarrow> rat \<Rightarrow> nat \<Rightarrow> rat" where
  "regime_volatility candles close period =
     (if length candles \<le> 1 \<or> close \<le> 0 then 0
      else let n = min period (length candles - 1);
               trs = map (\<lambda>i. true_range (candles ! (i - 1)) (candles ! i))
                       [length candles - n ..< length candles]
           in if trs = [] then 0 else sum_list trs / of_nat (length trs) / close)"

fun ema_loop :: "rat \<Rightarrow> rat \<Rightarrow> rat list \<Rightarrow> rat" where
  "ema_loop k ema [] = ema"
| "ema_loop k ema (p # ps) = ema_loop k ((p - ema) * k + ema) ps"

definition mean :: "rat list \<Rightarrow> rat" where
  "mean xs = sum_list xs / of_nat (length xs)"

definition calculate_ema_value :: "rat list \<Rightarrow> nat \<Rightarrow> rat" where
  "calculate_ema_value prices period =
     (if prices = [] \<or> period = 0 then 0
      else if length prices \<le> period then mean prices
      else ema_loop (2 / (of_nat period + 1)) (sum_list (take period prices) / of_nat period)
             (drop period prices))"

definition ema_periods :: "nat \<Rightarrow> nat \<Rightarrow> nat \<times> nat" where
  "ema_periods period n =
     (let fast = max 2 (period div 2);
          slow = max (fast + 1) (min period n)
      in if n < slow then (max 2 (n div 2), n) else (fast, slow))"

definition calculate_trend_strength :: "candle list \<Rightarrow> nat \<Rightarrow> rat" where
  "calculate_trend_strength candles period =
     (if length candles < 3 then 0
      else let prices = map cd_close candles;
               (fast, slow) = ema_periods period (length prices);
               fast_ema = calculate_ema_value prices fast;
               slow_ema = calculate_ema_value prices slow
           in if slow_ema \<le> 0 then 0 else (fast_ema - slow_ema) / slow_ema)"

definition calculate_liquidity :: "market_data option \<Rightarrow> rat" where
  "calculate_liquidity md = (case md of None \<Rightarrow> 0 | Some m \<Rightarrow> md_volume m)"

definition calculate_spread :: "market_data option \<Rightarrow> rat \<Rightarrow> rat" where
  "calculate_spread md close =
     (case md of
        None \<Rightarrow> 0
      | Some m \<Rightarrow>
          if close \<le> 0 then 0
          else (case (md_bid_price m, md_ask_price m) of
                  (Some bid, Some ask) \<Rightarrow> if ask \<ge> bid then (ask - bid) / close else 0
                | _ \<Rightarrow> 0))"

definition classify :: "regime_detector \<Rightarrow> rat \<Rightarrow> rat \<Rightarrow> rat \<Rightarrow> rat \<Rightarrow> bool \<Rightarrow> market_regime" where
  "classify d trend_strength volatility liquidity spread has_sufficient_data =
     (if \<not> has_sufficient_data then REGIME_UNKNOWN
      else if liquidity \<le> 0 \<or> spread \<ge> dt_illiquid_spread d then ILLIQUID
      else if volatility \<ge> dt_high_volatility d then HIGH_VOLATILITY
      else if trend_strength \<ge> dt_trend d then TRENDING_UP
      else if trend_strength \<le> - dt_trend d then TRENDING_DOWN
      else if volatility \<le> dt_low_volatility d then LOW_VOLATILITY
      else RANGING)"

definition detect ::
  "regime_detector \<Rightarrow> candle list \<Rightarrow> market_data option \<Rightarrow> nat option \<Rightarrow> regime_metrics" where
  "detect d candles md period =
     (let active_period = opt_or period (dt_period d);
          close = (case md of None \<Rightarrow> 0 | Some m \<Rightarrow> md_close_price m);
          volatility = regime_volatility candles close active_period;
          trend_strength = calculate_trend_strength candles active_period;
          liquidity = calculate_liquidity md;
          spread = calculate_spread md close
      in \<lparr>rm_regime = classify d trend_strength volatility liquidity spread
                        (length candles \<ge> dt_min_data_points d),
          rm_volatility = volatility, rm_trend_strength = trend_strength,
          rm_liquidity = liquidity, rm_spread = spread\<rparr>)"

section \<open>Bounds\<close>

lemma multiplier_bounds: "0 < get_exposure_multiplier r" "get_exposure_multiplier r \<le> 1"
  by (simp_all add: get_exposure_multiplier_def)

lemma mean_bounds:
  assumes "xs \<noteq> []" and "\<forall>x\<in>set xs. a \<le> x \<and> x \<le> b"
  shows "a \<le> mean xs" and "mean xs \<le> b"
proof -
  have "of_nat (length xs) * a \<le> sum_list xs \<and> sum_list xs \<le> of_nat (length xs) * b"
    using assms(2) by (induction xs) (auto simp: algebra_simps)
  moreover have "0 < (of_nat (length xs) :: rat)" using assms(1) by simp
  ultimately show "a \<le> mean xs" "mean xs \<le> b"
    by (simp_all add: mean_def field_simps)
qed

lemma ema_loop_bounds:
  assumes "0 \<le> k" "k \<le> 1" "a \<le> ema" "ema \<le> b" "\<forall>p\<in>set ps. a \<le> p \<and> p \<le> b"
  shows "a \<le> ema_loop k ema ps \<and> ema_loop k ema ps \<le> b"
  using assms(3-5)
proof (induction ps arbitrary: ema)
  case (Cons p ps)
  have eq: "(p - ema) * k + ema = p * k + ema * (1 - k)" by (simp add: algebra_simps)
  have "a = a * k + a * (1 - k)" "b = b * k + b * (1 - k)" by (simp_all add: algebra_simps)
  then have "a \<le> p * k + ema * (1 - k)" "p * k + ema * (1 - k) \<le> b"
    using Cons.prems assms(1,2) by (smt (verit) add_mono diff_ge_0_iff_ge list.set_intros(1) mult_right_mono)+
  then show ?case using Cons eq by simp
qed simp

text \<open>The exponential average of prices stays between their bounds.\<close>

lemma calculate_ema_bounds:
  assumes "prices \<noteq> []" "0 < period" "\<forall>p\<in>set prices. a \<le> p \<and> p \<le> b"
  shows "a \<le> calculate_ema_value prices period \<and> calculate_ema_value prices period \<le> b"
proof (cases "length prices \<le> period")
  case True
  then show ?thesis using assms mean_bounds [OF assms(1,3)] by (simp add: calculate_ema_value_def)
next
  case False
  let ?first = "take period prices"
  have "?first \<noteq> []" "\<forall>p\<in>set ?first. a \<le> p \<and> p \<le> b" "length ?first = period"
    using assms False by (auto dest: in_set_takeD)
  then have "a \<le> sum_list ?first / of_nat period" "sum_list ?first / of_nat period \<le> b"
    using mean_bounds [of ?first a b] by (simp_all add: mean_def)
  moreover have "\<forall>p\<in>set (drop period prices). a \<le> p \<and> p \<le> b" using assms(3) by (auto dest: in_set_dropD)
  moreover have "0 \<le> (2 :: rat) / (of_nat period + 1)" "(2 :: rat) / (of_nat period + 1) \<le> 1"
    using assms(2) by (simp_all add: field_simps Suc_le_eq)
  ultimately show ?thesis
    using False assms ema_loop_bounds [of "2 / (of_nat period + 1)" a "sum_list ?first / of_nat period" b]
    by (simp add: calculate_ema_value_def)
qed

lemma trend_strength_bound:
  assumes "0 < a" and "a \<le> b" and close: "\<forall>c\<in>set candles. a \<le> cd_close c \<and> cd_close c \<le> b"
  shows "\<bar>calculate_trend_strength candles period\<bar> \<le> (b - a) / a"
proof (cases "length candles < 3")
  case True
  with assms(1,2) show ?thesis by (simp add: calculate_trend_strength_def)
next
  case False
  let ?prices = "map cd_close candles"
  obtain fast slow where p: "ema_periods period (length candles) = (fast, slow)" by force
  then have pos: "0 < fast" "0 < slow"
    using False unfolding ema_periods_def Let_def by (auto split: if_splits simp: less_max_iff_disj)
  let ?f = "calculate_ema_value ?prices fast" and ?s = "calculate_ema_value ?prices slow"
  have strength: "calculate_trend_strength candles period = (if ?s \<le> 0 then 0 else (?f - ?s) / ?s)"
    using False p by (simp add: calculate_trend_strength_def Let_def)
  have "?prices \<noteq> []" "\<forall>p\<in>set ?prices. a \<le> p \<and> p \<le> b" using False close by auto
  from calculate_ema_bounds [OF this(1) pos(1) this(2)] calculate_ema_bounds [OF this(1) pos(2) this(2)]
  have b: "a \<le> ?f" "?f \<le> b" "a \<le> ?s" "?s \<le> b" by auto
  then have "\<bar>?f - ?s\<bar> / ?s \<le> (b - a) / a"
    using assms(1) by (intro frac_le) auto
  moreover have "0 < ?s" using b(3) assms(1) by linarith
  ultimately show ?thesis using strength by (simp add: abs_divide)
qed

text \<open>A market whose closing prices move less than the trend threshold (relative to the lowest)
  is never classified as trending, whatever the period: the exponential averages stay between the
  lowest and the highest close.  With too few candles the regime is unknown, and otherwise a
  market without volume is illiquid.\<close>

theorem regime_detection_sound:
  assumes "0 < a" and "a \<le> b" and "\<forall>c\<in>set candles. a \<le> cd_close c \<and> cd_close c \<le> b"
    and "(b - a) / a < dt_trend d"
  shows "rm_regime (detect d candles md period) \<notin> {TRENDING_UP, TRENDING_DOWN} \<and>
    (rm_regime (detect d candles md period) = REGIME_UNKNOWN \<longleftrightarrow> length candles < dt_min_data_points d) \<and>
    (dt_min_data_points d \<le> length candles \<and> md = None \<longrightarrow> rm_regime (detect d candles md period) = ILLIQUID)"
proof -
  have "\<bar>calculate_trend_strength candles (opt_or period (dt_period d))\<bar> < dt_trend d"
    using trend_strength_bound [OF assms(1-3)] assms(4) by (rule le_less_trans)
  then show ?thesis
    by (auto simp: detect_def classify_def Let_def calculate_liquidity_def not_le)
qed

definition demo_candle :: "decimal \<Rightarrow> candle" where
  "demo_candle p = \<lparr>cd_open = p, cd_low = p, cd_high = p, cd_close = p, cd_start_time = 0, cd_volume = 1\<rparr>"

theorem regime_detection_sound_witness:
  "rm_regime (detect (detector_of_config default_regime_config) (map demo_candle [1000, 1002, 1001]) None None)
     = ILLIQUID"
  using regime_detection_sound [of 1000 1002 "map demo_candle [1000, 1002, 1001]"
      "detector_of_config default_regime_config" None None]
  by (simp add: demo_candle_def detector_of_config_def default_regime_config_def)

end
