(* ===== verification/Protection.thy ===== *)
theory Protection
  imports Regimes "HOL-Library.List_Lexorder" "HOL-Library.Char_ord"
begin

text \<open>
  Portfolio risk: the quote portfolio (\<open>src/src/trading/protection/quote_portfolio.py\<close>), the
  policy resolver (\<open>portfolio_policy_resolver.py\<close>), the guard (\<open>quote_portfolio_guard.py\<close>) and
  the risk manager (\<open>portfolio_risk_manager.py\<close>).  The manager's re-entrant lock makes each
  method one step; a portfolio object it looks up and mutates is the portfolio written back.  The
  text of a violation is left out, its kind is kept.
\<close>

section \<open>Quote portfolio\<close>

record quote_portfolio =
  qp_exchange :: string
  qp_quote_currency :: string
  qp_total_cash :: decimal
  qp_reserved_cash :: decimal
  qp_open_orders :: "(string, decimal) dict"
  qp_asset_positions :: "(string, decimal) dict"
  qp_asset_mark_prices :: "(string, decimal) dict"
  qp_peak_equity :: decimal

definition new_quote_portfolio :: "string \<Rightarrow> string \<Rightarrow> quote_portfolio" where
  "new_quote_portfolio ex qc =
     \<lparr>qp_exchange = ex, qp_quote_currency = qc, qp_total_cash = 0, qp_reserved_cash = 0,
      qp_open_orders = [], qp_asset_positions = [], qp_asset_mark_prices = [], qp_peak_equity = 0\<rparr>"

definition available_cash :: "quote_portfolio \<Rightarrow> decimal" where
  "available_cash p = max 0 (qp_total_cash p - qp_reserved_cash p)"

definition get_asset_notional :: "quote_portfolio \<Rightarrow> string \<Rightarrow> decimal" where
  "get_asset_notional p t =
     opt_or (dict_get (qp_asset_positions p) t) 0 * opt_or (dict_get (qp_asset_mark_prices p) t) 0"

definition get_total_holdings_notional :: "quote_portfolio \<Rightarrow> decimal" where
  "get_total_holdings_notional p =
     sum_list (map (get_asset_notional p) (dict_keys (qp_asset_positions p)))"

definition get_total_equity :: "quote_portfolio \<Rightarrow> decimal" where
  "get_total_equity p = qp_total_cash p + get_total_holdings_notional p"

definition refresh_peak_equity :: "quote_portfolio \<Rightarrow> quote_portfolio" where
  "refresh_peak_equity p = p\<lparr>qp_peak_equity := max (get_total_equity p) (qp_peak_equity p)\<rparr>"

definition update_cash :: "decimal \<Rightarrow> quote_portfolio \<Rightarrow> quote_portfolio" where
  "update_cash amount p = refresh_peak_equity (p\<lparr>qp_total_cash := max 0 amount\<rparr>)"

definition update_asset_position :: "string \<Rightarrow> decimal \<Rightarrow> quote_portfolio \<Rightarrow> quote_portfolio" where
  "update_asset_position t q p =
     refresh_peak_equity (p\<lparr>qp_asset_positions := dict_set t (max 0 q) (qp_asset_positions p)\<rparr>)"

definition update_asset_mark_price :: "string \<Rightarrow> decimal \<Rightarrow> quote_portfolio \<Rightarrow> quote_portfolio" where
  "update_asset_mark_price t price p =
     refresh_peak_equity (p\<lparr>qp_asset_mark_prices := dict_set t (max 0 price) (qp_asset_mark_prices p)\<rparr>)"

definition reserve_cash :: "string \<Rightarrow> decimal \<Rightarrow> quote_portfolio \<Rightarrow> quote_portfolio \<times> bool" where
  "reserve_cash uuid amount p =
     (if amount \<le> 0 then (p, True)
      else if amount > available_cash p then (p, False)
      else (p\<lparr>qp_reserved_cash := qp_reserved_cash p + amount,
              qp_open_orders := dict_set uuid amount (qp_open_orders p)\<rparr>, True))"

definition release_cash :: "string \<Rightarrow> quote_portfolio \<Rightarrow> quote_portfolio \<times> decimal" where
  "release_cash uuid p =
     (case dict_get (qp_open_orders p) uuid of
        None \<Rightarrow> (p, 0)
      | Some amount \<Rightarrow>
          (p\<lparr>qp_open_orders := dict_del uuid (qp_open_orders p),
             qp_reserved_cash := max 0 (qp_reserved_cash p - amount)\<rparr>, amount))"

fun release_all :: "string list \<Rightarrow> quote_portfolio \<Rightarrow> quote_portfolio \<times> decimal" where
  "release_all [] p = (p, 0)"
| "release_all (u # us) p =
     (let (p1, a) = release_cash u p; (p2, b) = release_all us p1 in (p2, a + b))"

definition reconcile_orders :: "string set \<Rightarrow> quote_portfolio \<Rightarrow> quote_portfolio \<times> decimal" where
  "reconcile_orders active p =
     release_all (filter (\<lambda>u. u \<notin> active) (dict_keys (qp_open_orders p))) p"

definition get_drawdown :: "quote_portfolio \<Rightarrow> decimal" where
  "get_drawdown p =
     (if qp_peak_equity p \<le> 0 then 0 else (get_total_equity p - qp_peak_equity p) / qp_peak_equity p)"

definition unavailable_price_assets :: "quote_portfolio \<Rightarrow> string list" where
  "unavailable_price_assets p =
     map fst (filter (\<lambda>(sym, qty). qty > 0 \<and> opt_or (dict_get (qp_asset_mark_prices p) sym) 0 \<le> 0)
       (sort_key fst (qp_asset_positions p)))"

definition get_asset_concentration :: "quote_portfolio \<Rightarrow> string \<Rightarrow> decimal" where
  "get_asset_concentration p t =
     (if get_total_equity p \<le> 0 then 0 else get_asset_notional p t / get_total_equity p)"

section \<open>Policy resolution\<close>

record effective_config =
  ec_exposure :: exposure_config
  ec_regime :: regime_config
  ec_guard :: guard_policy
  ec_regime_multiplier :: decimal

definition effective_max_total :: "effective_config \<Rightarrow> decimal option" where
  "effective_max_total c = map_option (\<lambda>m. m * ec_regime_multiplier c) (xc_max_total (ec_exposure c))"

definition effective_max_per_asset :: "effective_config \<Rightarrow> decimal option" where
  "effective_max_per_asset c =
     map_option (\<lambda>m. m * ec_regime_multiplier c) (xc_max_per_asset (ec_exposure c))"

definition or_global :: "'a option \<Rightarrow> 'a option \<Rightarrow> 'a option" where
  "or_global own glob = (case own of Some v \<Rightarrow> Some v | None \<Rightarrow> glob)"

definition resolve_exposure :: "exposure_config \<Rightarrow> exposure_config option \<Rightarrow> exposure_config" where
  "resolve_exposure g ov =
     (case ov of
        None \<Rightarrow> g
      | Some x \<Rightarrow>
          \<lparr>xc_max_total = or_global (xc_max_total x) (xc_max_total g),
           xc_max_per_asset = or_global (xc_max_per_asset x) (xc_max_per_asset g),
           xc_max_per_quote = or_global (xc_max_per_quote x) (xc_max_per_quote g)\<rparr>)"

text \<open>The other fields of a regime or guard override are never \<open>None\<close>, so they always win.\<close>

definition resolve_regime :: "regime_config \<Rightarrow> regime_config option \<Rightarrow> regime_config" where
  "resolve_regime g ov =
     (case ov of None \<Rightarrow> g | Some x \<Rightarrow> x\<lparr>mc_min_data_points := mc_min_data_points g\<rparr>)"

definition resolve_guard :: "guard_policy \<Rightarrow> guard_policy option \<Rightarrow> guard_policy" where
  "resolve_guard g ov =
     (case ov of
        None \<Rightarrow> g
      | Some x \<Rightarrow>
          x\<lparr>gp_max_drawdown := or_global (gp_max_drawdown x) (gp_max_drawdown g),
            gp_max_daily_loss := or_global (gp_max_daily_loss x) (gp_max_daily_loss g),
            gp_max_position_count := or_global (gp_max_position_count x) (gp_max_position_count g)\<rparr>)"

record risk_asset = asset +
  ra_portfolio :: "portfolio_override option"

definition resolve_policy ::
  "portfolio_config \<Rightarrow> risk_asset \<Rightarrow> market_regime option \<Rightarrow> effective_config" where
  "resolve_policy cfg a regime =
     (let ov = ra_portfolio a;
          rc = resolve_regime (pc_regime cfg) (Option.bind ov po_regime)
      in \<lparr>ec_exposure = resolve_exposure (pc_exposure cfg) (Option.bind ov po_exposure),
          ec_regime = rc,
          ec_guard = resolve_guard (pc_guard cfg) (Option.bind ov po_guard),
          ec_regime_multiplier =
            (case regime of
               Some r \<Rightarrow> if mc_enabled rc then get_exposure_multiplier r else 1
             | None \<Rightarrow> 1)\<rparr>)"

section \<open>Guard\<close>

record risk_metrics =
  rk_total_equity :: decimal
  rk_total_cash :: decimal
  rk_reserved_cash :: decimal
  rk_available_cash :: decimal
  rk_invested_notional :: decimal
  rk_total_exposure_pct :: decimal
  rk_asset_notional :: decimal
  rk_asset_concentration_pct :: decimal
  rk_peak_equity :: decimal
  rk_drawdown_pct :: decimal
  rk_daily_loss_pct :: decimal
  rk_open_position_count :: nat

datatype violation =
    InsufficientCash | QuoteReserveBreached | MaxQuoteExposure | AssetConcentration
  | MaxTotalExposure | DrawdownLimit | MaxPositionCount | IlliquidRegime

definition above :: "decimal \<Rightarrow> decimal option \<Rightarrow> bool" where
  "above v limit = (case limit of None \<Rightarrow> False | Some l \<Rightarrow> v > l)"

definition asset_limit :: "effective_config \<Rightarrow> decimal option" where
  "asset_limit cfg =
     (if mc_enabled (ec_regime cfg) then effective_max_per_asset cfg else xc_max_per_asset (ec_exposure cfg))"

definition total_limit :: "effective_config \<Rightarrow> decimal option" where
  "total_limit cfg =
     (if mc_enabled (ec_regime cfg) then effective_max_total cfg else xc_max_total (ec_exposure cfg))"

definition guard_evaluate ::
  "decimal \<Rightarrow> risk_metrics \<Rightarrow> market_regime \<Rightarrow> effective_config \<Rightarrow> violation list" where
  "guard_evaluate cost risk regime cfg =
     (if \<not> gp_enabled (ec_guard cfg) then []
      else
        let equity = rk_total_equity risk;
            invested = rk_invested_notional risk + cost;
            count = rk_open_position_count risk + (if rk_asset_notional risk \<le> 0 then 1 else 0)
        in (if cost > rk_available_cash risk then [InsufficientCash] else [])
           @ (if rk_available_cash risk - cost < equity * gp_min_quote_reserve (ec_guard cfg)
              then [QuoteReserveBreached] else [])
           @ (if equity > 0 \<and> invested / equity > gp_max_quote_exposure (ec_guard cfg)
              then [MaxQuoteExposure] else [])
           @ (if equity > 0 \<and> above ((rk_asset_notional risk + cost) / equity) (asset_limit cfg)
              then [AssetConcentration] else [])
           @ (if equity > 0 \<and> above (invested / equity) (total_limit cfg) then [MaxTotalExposure] else [])
           @ (case gp_max_drawdown (ec_guard cfg) of
                None \<Rightarrow> []
              | Some dd \<Rightarrow> if rk_drawdown_pct risk < - \<bar>dd\<bar> then [DrawdownLimit] else [])
           @ (case gp_max_position_count (ec_guard cfg) of
                None \<Rightarrow> []
              | Some m \<Rightarrow> if count > m then [MaxPositionCount] else [])
           @ (if mc_enabled (ec_regime cfg) \<and> regime = ILLIQUID then [IlliquidRegime] else []))"

section \<open>Risk manager\<close>

record risk_manager =
  pm_portfolios :: "(string \<times> string, quote_portfolio) dict"
  pm_config :: portfolio_config
  pm_explicit_drawdown :: "decimal option"
  pm_explicit_concentration :: "decimal option"

definition register_asset :: "risk_manager \<Rightarrow> risk_asset \<Rightarrow> risk_manager" where
  "register_asset m a =
     (let k = (a_exchange a, a_quote_ticker_symbol a)
      in if dict_get (pm_portfolios m) k = None
         then m\<lparr>pm_portfolios :=
                 dict_set k (new_quote_portfolio (a_exchange a) (a_quote_ticker_symbol a)) (pm_portfolios m)\<rparr>
         else m)"

definition init_risk_manager ::
  "risk_asset list \<Rightarrow> portfolio_config \<Rightarrow> decimal option \<Rightarrow> decimal option \<Rightarrow> risk_manager" where
  "init_risk_manager assets cfg dd conc =
     foldl register_asset
       \<lparr>pm_portfolios = [], pm_config = cfg, pm_explicit_drawdown = dd, pm_explicit_concentration = conc\<rparr>
       assets"

definition get_portfolio :: "risk_manager \<Rightarrow> string \<Rightarrow> string \<Rightarrow> quote_portfolio" where
  "get_portfolio m ex qc = opt_or (dict_get (pm_portfolios m) (ex, qc)) (new_quote_portfolio ex qc)"

definition put_portfolio :: "risk_manager \<Rightarrow> string \<Rightarrow> string \<Rightarrow> quote_portfolio \<Rightarrow> risk_manager" where
  "put_portfolio m ex qc p = m\<lparr>pm_portfolios := dict_set (ex, qc) p (pm_portfolios m)\<rparr>"

definition update_config :: "risk_manager \<Rightarrow> portfolio_config \<Rightarrow> risk_manager" where
  "update_config m cfg = m\<lparr>pm_config := cfg\<rparr>"

definition set_cash :: "decimal \<Rightarrow> quote_portfolio \<Rightarrow> quote_portfolio" where
  "set_cash balance p = (if qp_total_cash p \<noteq> balance then update_cash balance p else p)"

definition update_cash_balance :: "risk_manager \<Rightarrow> string \<Rightarrow> string \<Rightarrow> decimal \<Rightarrow> risk_manager" where
  "update_cash_balance m ex qc balance = put_portfolio m ex qc (set_cash balance (get_portfolio m ex qc))"

definition update_market_data :: "risk_manager \<Rightarrow> risk_asset \<Rightarrow> market_data \<Rightarrow> risk_manager" where
  "update_market_data m a md =
     put_portfolio m (a_exchange a) (a_quote_ticker_symbol a)
       (update_asset_mark_price (ticker_symbol a) (md_close_price md)
          (get_portfolio m (a_exchange a) (a_quote_ticker_symbol a)))"

definition update_position :: "risk_manager \<Rightarrow> risk_asset \<Rightarrow> decimal \<Rightarrow> risk_manager" where
  "update_position m a q =
     put_portfolio m (a_exchange a) (a_quote_ticker_symbol a)
       (update_asset_position (ticker_symbol a) q
          (get_portfolio m (a_exchange a) (a_quote_ticker_symbol a)))"

definition reserve_order_cash :: "risk_manager \<Rightarrow> risk_asset \<Rightarrow> string \<Rightarrow> decimal \<Rightarrow> risk_manager \<times> bool" where
  "reserve_order_cash m a uuid amount =
     (let (p, ok) = reserve_cash uuid amount (get_portfolio m (a_exchange a) (a_quote_ticker_symbol a))
      in (put_portfolio m (a_exchange a) (a_quote_ticker_symbol a) p, ok))"

definition release_order_cash :: "risk_manager \<Rightarrow> string \<Rightarrow> string \<Rightarrow> string \<Rightarrow> risk_manager \<times> decimal" where
  "release_order_cash m ex qc uuid =
     (let (p, released) = release_cash uuid (get_portfolio m ex qc) in (put_portfolio m ex qc p, released))"

fun release_first ::
  "string \<Rightarrow> (string \<times> string, quote_portfolio) dict \<Rightarrow> (string \<times> string, quote_portfolio) dict \<times> decimal" where
  "release_first uuid [] = ([], 0)"
| "release_first uuid ((k, p) # d) =
     (let (p', released) = release_cash uuid p
      in if released > 0 then ((k, p') # d, released)
         else let (d', r) = release_first uuid d in ((k, p') # d', r))"

definition release_order_cash_by_uuid :: "risk_manager \<Rightarrow> string \<Rightarrow> risk_manager \<times> decimal" where
  "release_order_cash_by_uuid m uuid =
     (let (d, r) = release_first uuid (pm_portfolios m) in (m\<lparr>pm_portfolios := d\<rparr>, r))"

definition reconcile_open_orders :: "risk_manager \<Rightarrow> string set \<Rightarrow> risk_manager \<times> decimal" where
  "reconcile_open_orders m active =
     (m\<lparr>pm_portfolios := map (\<lambda>(k, p). (k, fst (reconcile_orders active p))) (pm_portfolios m)\<rparr>,
      sum_list (map (\<lambda>(k, p). snd (reconcile_orders active p)) (pm_portfolios m)))"

definition risk_metrics_of :: "quote_portfolio \<Rightarrow> string \<Rightarrow> risk_metrics" where
  "risk_metrics_of p t =
     (let equity = get_total_equity p
      in \<lparr>rk_total_equity = equity, rk_total_cash = qp_total_cash p,
          rk_reserved_cash = qp_reserved_cash p, rk_available_cash = available_cash p,
          rk_invested_notional = get_total_holdings_notional p,
          rk_total_exposure_pct = (if equity > 0 then get_total_holdings_notional p / equity else 0),
          rk_asset_notional = get_asset_notional p t,
          rk_asset_concentration_pct = (if equity > 0 then get_asset_notional p t / equity else 0),
          rk_peak_equity = qp_peak_equity p, rk_drawdown_pct = get_drawdown p, rk_daily_loss_pct = 0,
          rk_open_position_count = length (filter (\<lambda>q. q > 0) (dict_values (qp_asset_positions p)))\<rparr>)"

definition get_risk_metrics :: "risk_manager \<Rightarrow> risk_asset \<Rightarrow> risk_manager \<times> risk_metrics" where
  "get_risk_metrics m a =
     (let p = get_portfolio m (a_exchange a) (a_quote_ticker_symbol a)
      in (put_portfolio m (a_exchange a) (a_quote_ticker_symbol a) p, risk_metrics_of p (ticker_symbol a)))"

definition with_explicit_limits :: "risk_manager \<Rightarrow> effective_config \<Rightarrow> effective_config" where
  "with_explicit_limits m c =
     (if pm_explicit_drawdown m \<noteq> None \<or> pm_explicit_concentration m \<noteq> None
      then c\<lparr>ec_exposure := (ec_exposure c)\<lparr>xc_max_per_asset :=
               or_global (pm_explicit_concentration m) (xc_max_per_asset (ec_exposure c))\<rparr>,
             ec_guard := (ec_guard c)\<lparr>gp_max_drawdown :=
               or_global (pm_explicit_drawdown m) (gp_max_drawdown (ec_guard c))\<rparr>\<rparr>
      else c)"

definition marked_portfolio :: "risk_manager \<Rightarrow> risk_asset \<Rightarrow> market_data option \<Rightarrow> quote_portfolio" where
  "marked_portfolio m a md =
     (let p = get_portfolio m (a_exchange a) (a_quote_ticker_symbol a)
      in case md of
           None \<Rightarrow> p
         | Some d \<Rightarrow> update_asset_mark_price (ticker_symbol a) (md_close_price d) p)"

definition effective_policy :: "risk_manager \<Rightarrow> risk_asset \<Rightarrow> market_regime option \<Rightarrow> effective_config" where
  "effective_policy m a regime =
     with_explicit_limits m (resolve_policy (pm_config m) a (Some (opt_or regime REGIME_UNKNOWN)))"

definition risk_can_trade ::
  "risk_manager \<Rightarrow> risk_asset \<Rightarrow> trade_action \<Rightarrow> decimal \<Rightarrow> market_data option \<Rightarrow> market_regime option \<Rightarrow>
     risk_manager \<times> bool \<times> violation list" where
  "risk_can_trade m a act cost md regime =
     (if act = SELL then (m, True, [])
      else let p = marked_portfolio m a md;
               vs = guard_evaluate cost (risk_metrics_of p (ticker_symbol a)) (opt_or regime REGIME_UNKNOWN)
                      (effective_policy m a regime)
           in (put_portfolio m (a_exchange a) (a_quote_ticker_symbol a) p, vs = [], vs))"

text \<open>Event handlers.  \<open>order.fill_price or order.price\<close> skips a zero fill price.\<close>

definition submitted_price :: "order \<Rightarrow> decimal" where
  "submitted_price ord =
     (case o_fill_price ord of Some p \<Rightarrow> if p = 0 then o_price ord else p | None \<Rightarrow> o_price ord)"

fun reserve_first ::
  "order \<Rightarrow> decimal \<Rightarrow> (string \<times> string, quote_portfolio) dict \<Rightarrow> (string \<times> string, quote_portfolio) dict" where
  "reserve_first ord cost [] = []"
| "reserve_first ord cost (((ex, qc), p) # d) =
     (if ex = o_provider_name ord \<and>
         (CHR ''_'' \<notin> set (o_ticker_symbol ord) \<or> last_segment (CHR ''_'') (o_ticker_symbol ord) = qc)
      then ((ex, qc), if dict_get (qp_open_orders p) (o_uuid ord) = None
                      then fst (reserve_cash (o_uuid ord) cost p) else p) # d
      else ((ex, qc), p) # reserve_first ord cost d)"

definition on_order_submitted :: "risk_manager \<Rightarrow> order \<Rightarrow> risk_manager" where
  "on_order_submitted m ord =
     (if o_trade_action ord = BUY
      then m\<lparr>pm_portfolios :=
             reserve_first ord (submitted_price ord * o_quantity ord) (pm_portfolios m)\<rparr>
      else m)"

definition on_order_closed :: "risk_manager \<Rightarrow> order \<Rightarrow> risk_manager" where
  "on_order_closed m ord = fst (release_order_cash_by_uuid m (o_uuid ord))"

definition on_market_data :: "risk_manager \<Rightarrow> string \<Rightarrow> market_data \<Rightarrow> risk_manager" where
  "on_market_data m t md =
     m\<lparr>pm_portfolios := map (\<lambda>(k, p).
         (k, if dict_get (qp_asset_positions p) t \<noteq> None \<or> dict_get (qp_asset_mark_prices p) t \<noteq> None
             then update_asset_mark_price t (md_close_price md) p else p)) (pm_portfolios m)\<rparr>"

definition portfolio_on_balance_changed ::
  "risk_manager \<Rightarrow> string \<Rightarrow> string \<Rightarrow> decimal \<Rightarrow> risk_manager" where
  "portfolio_on_balance_changed m exchange currency available =
     m\<lparr>pm_portfolios := map (\<lambda>((ex, qc), p).
         ((ex, qc), if exchange \<noteq> [] \<and> upper ex \<noteq> upper exchange then p
                    else if upper qc = upper currency then set_cash available p else p)) (pm_portfolios m)\<rparr>"

section \<open>Portfolio invariant\<close>

text \<open>
  The reserved cash is the total of the open reservations, each positive; cash, positions and
  prices are not negative; the peak is at least the current equity.
\<close>

definition portfolio_inv :: "quote_portfolio \<Rightarrow> bool" where
  "portfolio_inv p \<longleftrightarrow>
     dict_wf (qp_open_orders p) \<and> qp_reserved_cash p = sum_list (dict_values (qp_open_orders p)) \<and>
     (\<forall>v\<in>set (dict_values (qp_open_orders p)). 0 < v) \<and> 0 \<le> qp_total_cash p \<and>
     dict_wf (qp_asset_positions p) \<and>
     pd.all_values (\<lambda>_ q. 0 \<le> q) (qp_asset_positions p) \<and>
     pd.all_values (\<lambda>_ q. 0 \<le> q) (qp_asset_mark_prices p) \<and>
     get_total_equity p \<le> qp_peak_equity p"

lemma portfolio_inv_new [simp]: "portfolio_inv (new_quote_portfolio ex qc)"
  by (simp add: portfolio_inv_def new_quote_portfolio_def get_total_equity_def
      get_total_holdings_notional_def pd.all_values_empty)

lemma notional_cong [simp]:
  "get_asset_notional (p\<lparr>qp_peak_equity := x\<rparr>) = get_asset_notional p"
  "get_asset_notional (p\<lparr>qp_total_cash := x\<rparr>) = get_asset_notional p"
  "get_asset_notional (p\<lparr>qp_reserved_cash := x\<rparr>) = get_asset_notional p"
  "get_asset_notional (p\<lparr>qp_open_orders := o1\<rparr>) = get_asset_notional p"
  by (simp_all add: get_asset_notional_def fun_eq_iff)

lemma equity_cong [simp]:
  "get_total_equity (p\<lparr>qp_peak_equity := x\<rparr>) = get_total_equity p"
  "get_total_equity (p\<lparr>qp_reserved_cash := x\<rparr>) = get_total_equity p"
  "get_total_equity (p\<lparr>qp_open_orders := o1\<rparr>) = get_total_equity p"
  by (simp_all add: get_total_equity_def get_total_holdings_notional_def)

lemma portfolio_inv_refresh:
  assumes "portfolio_inv p" and "0 \<le> qp_total_cash p'" and "dict_wf (qp_asset_positions p')"
    and "pd.all_values (\<lambda>_ q. 0 \<le> q) (qp_asset_positions p')"
    and "pd.all_values (\<lambda>_ q. 0 \<le> q) (qp_asset_mark_prices p')"
    and "qp_open_orders p' = qp_open_orders p" and "qp_reserved_cash p' = qp_reserved_cash p"
  shows "portfolio_inv (refresh_peak_equity p')"
  using assms by (simp add: portfolio_inv_def refresh_peak_equity_def)

lemma portfolio_inv_update_cash [simp]: "portfolio_inv p \<Longrightarrow> portfolio_inv (update_cash x p)"
  unfolding update_cash_def by (rule portfolio_inv_refresh [of p]) (simp_all add: portfolio_inv_def)

lemma portfolio_inv_update_position [simp]: "portfolio_inv p \<Longrightarrow> portfolio_inv (update_asset_position t x p)"
  unfolding update_asset_position_def
  by (rule portfolio_inv_refresh [of p]) (auto simp: portfolio_inv_def intro: pd.all_values_put)

lemma portfolio_inv_update_price [simp]: "portfolio_inv p \<Longrightarrow> portfolio_inv (update_asset_mark_price t x p)"
  unfolding update_asset_mark_price_def
  by (rule portfolio_inv_refresh [of p]) (auto simp: portfolio_inv_def intro: pd.all_values_put)

lemma portfolio_inv_set_cash [simp]: "portfolio_inv p \<Longrightarrow> portfolio_inv (set_cash x p)"
  by (simp add: set_cash_def)

lemma portfolio_inv_reserve:
  assumes "portfolio_inv p" and "dict_get (qp_open_orders p) uuid = None"
  shows "portfolio_inv (fst (reserve_cash uuid amount p))"
  using assms by (auto simp: reserve_cash_def portfolio_inv_def dict_set_fresh)
    (auto simp: dict_wf_def map_of_eq_None_iff)

lemma portfolio_inv_release [simp]:
  assumes "portfolio_inv p"
  shows "portfolio_inv (fst (release_cash uuid p))"
proof (cases "dict_get (qp_open_orders p) uuid")
  case (Some amount)
  have vals: "\<forall>v\<in>set (dict_values (dict_del uuid (qp_open_orders p))). 0 < v"
    using assms set_dict_del [of uuid "qp_open_orders p"] by (auto simp: portfolio_inv_def)
  then have "0 \<le> sum_list (dict_values (dict_del uuid (qp_open_orders p)))"
    by (intro sum_list_nonneg) auto
  with vals assms Some show ?thesis
    by (simp add: release_cash_def portfolio_inv_def sum_dict_del max_def)
qed (simp add: release_cash_def assms)

lemma portfolio_inv_release_all: "portfolio_inv p \<Longrightarrow> portfolio_inv (fst (release_all us p))"
  by (induction us arbitrary: p) (simp_all add: Let_def split_beta)

lemma portfolio_inv_reconcile [simp]: "portfolio_inv p \<Longrightarrow> portfolio_inv (fst (reconcile_orders active p))"
  by (simp add: reconcile_orders_def portfolio_inv_release_all)

definition risk_inv :: "risk_manager \<Rightarrow> bool" where
  "risk_inv m \<longleftrightarrow> dict_all portfolio_inv (pm_portfolios m)"

lemma risk_inv_get: "risk_inv m \<Longrightarrow> portfolio_inv (get_portfolio m ex qc)"
  by (cases "dict_get (pm_portfolios m) (ex, qc)")
    (simp_all add: risk_inv_def get_portfolio_def dict_all_get)

lemma risk_inv_put: "risk_inv m \<Longrightarrow> portfolio_inv p \<Longrightarrow> risk_inv (put_portfolio m ex qc p)"
  by (simp add: risk_inv_def put_portfolio_def dict_all_set)

lemma risk_inv_map:
  "risk_inv m \<Longrightarrow> (\<And>k p. portfolio_inv p \<Longrightarrow> portfolio_inv (f k p)) \<Longrightarrow>
     risk_inv (m\<lparr>pm_portfolios := map (\<lambda>(k, p). (k, f k p)) (pm_portfolios m)\<rparr>)"
  by (simp add: risk_inv_def dict_all_map)

lemma release_first_inv: "dict_all portfolio_inv d \<Longrightarrow> dict_all portfolio_inv (fst (release_first uuid d))"
proof (induction d)
  case (Cons kp d)
  then show ?case by (cases kp) (simp add: Let_def split_beta)
qed simp

lemma reserve_first_inv: "dict_all portfolio_inv d \<Longrightarrow> dict_all portfolio_inv (reserve_first ord cost d)"
  by (induction ord cost d rule: reserve_first.induct) (simp_all add: portfolio_inv_reserve)

lemma risk_inv_register: "risk_inv m \<Longrightarrow> risk_inv (register_asset m a)"
  by (simp add: register_asset_def risk_inv_def Let_def dict_all_set)

text \<open>Everything the application does with the manager.  The executor reserves cash under a fresh
  order id; the handler of a submitted order checks that itself.\<close>

inductive risk_reach :: "risk_manager \<Rightarrow> bool" where
  init: "risk_reach (init_risk_manager assets cfg dd conc)"
| register: "risk_reach m \<Longrightarrow> risk_reach (register_asset m a)"
| config: "risk_reach m \<Longrightarrow> risk_reach (update_config m cfg)"
| cash: "risk_reach m \<Longrightarrow> risk_reach (update_cash_balance m ex qc b)"
| market: "risk_reach m \<Longrightarrow> risk_reach (update_market_data m a md)"
| position: "risk_reach m \<Longrightarrow> risk_reach (update_position m a q)"
| reserve: "risk_reach m \<Longrightarrow>
    dict_get (qp_open_orders (get_portfolio m (a_exchange a) (a_quote_ticker_symbol a))) uuid = None \<Longrightarrow>
    risk_reach (fst (reserve_order_cash m a uuid amount))"
| release: "risk_reach m \<Longrightarrow> risk_reach (fst (release_order_cash m ex qc uuid))"
| release_uuid: "risk_reach m \<Longrightarrow> risk_reach (fst (release_order_cash_by_uuid m uuid))"
| reconcile: "risk_reach m \<Longrightarrow> risk_reach (fst (reconcile_open_orders m active))"
| metrics: "risk_reach m \<Longrightarrow> risk_reach (fst (get_risk_metrics m a))"
| trade: "risk_reach m \<Longrightarrow> risk_reach (fst (risk_can_trade m a act cost md0 regime))"
| submitted: "risk_reach m \<Longrightarrow> risk_reach (on_order_submitted m ord)"
| closed: "risk_reach m \<Longrightarrow> risk_reach (on_order_closed m ord)"
| market_event: "risk_reach m \<Longrightarrow> risk_reach (on_market_data m t md)"
| balance_event: "risk_reach m \<Longrightarrow> risk_reach (portfolio_on_balance_changed m exchange currency available)"

lemma risk_inv_release_uuid: "risk_inv m \<Longrightarrow> risk_inv (fst (release_order_cash_by_uuid m uuid))"
  by (simp add: release_order_cash_by_uuid_def Let_def split_beta risk_inv_def release_first_inv)

lemma marked_portfolio_inv: "risk_inv m \<Longrightarrow> portfolio_inv (marked_portfolio m a md)"
  by (simp add: marked_portfolio_def Let_def risk_inv_get split: option.split)

lemma risk_inv_trade: "risk_inv m \<Longrightarrow> risk_inv (fst (risk_can_trade m a act cost md regime))"
  by (simp add: risk_can_trade_def Let_def marked_portfolio_inv risk_inv_put)

lemma risk_inv_init: "risk_inv (init_risk_manager assets cfg dd conc)"
  unfolding init_risk_manager_def
  by (rule foldl_invariant) (simp add: risk_inv_def, simp add: risk_inv_register)

lemma risk_inv_reconcile: "risk_inv m \<Longrightarrow> risk_inv (fst (reconcile_open_orders m active))"
  using risk_inv_map [of m "\<lambda>_ p. fst (reconcile_orders active p)"] by (simp add: reconcile_open_orders_def)

lemma risk_inv_market_event: "risk_inv m \<Longrightarrow> risk_inv (on_market_data m t md)"
  unfolding on_market_data_def by (rule risk_inv_map) simp_all

lemma risk_inv_balance_event:
  assumes "risk_inv m"
  shows "risk_inv (portfolio_on_balance_changed m exchange currency available)"
proof -
  let ?f = "\<lambda>k p. if exchange \<noteq> [] \<and> upper (fst k) \<noteq> upper exchange then p
    else if upper (snd k) = upper currency then set_cash available p else p"
  have "(\<lambda>((ex, qc), p). ((ex, qc), if exchange \<noteq> [] \<and> upper ex \<noteq> upper exchange then p
      else if upper qc = upper currency then set_cash available p else p)) = (\<lambda>(k, p). (k, ?f k p))"
    by (auto simp: fun_eq_iff)
  then show ?thesis
    using risk_inv_map [OF assms, of ?f] by (simp add: portfolio_on_balance_changed_def)
qed

lemma risk_inv_config: "risk_inv m \<Longrightarrow> risk_inv (update_config m cfg)"
  by (simp add: risk_inv_def update_config_def)

lemma risk_inv_submitted: "risk_inv m \<Longrightarrow> risk_inv (on_order_submitted m ord)"
  by (simp add: risk_inv_def on_order_submitted_def reserve_first_inv)

lemmas risk_op_defs = update_cash_balance_def update_market_data_def update_position_def
  reserve_order_cash_def release_order_cash_def get_risk_metrics_def on_order_closed_def

lemmas risk_inv_rules = risk_inv_init risk_inv_register risk_inv_config risk_inv_release_uuid risk_inv_reconcile
  risk_inv_trade risk_inv_submitted risk_inv_market_event risk_inv_balance_event risk_inv_get risk_inv_put
  portfolio_inv_reserve

lemma risk_reach_inv: "risk_reach m \<Longrightarrow> risk_inv m"
  by (induction rule: risk_reach.induct)
    (simp_all add: risk_op_defs risk_inv_rules Let_def split_beta)

section \<open>What an allowed buy does to the portfolio\<close>

text \<open>The order filled at the mark price: cash becomes a holding of the same value.\<close>

definition filled_at_mark :: "string \<Rightarrow> decimal \<Rightarrow> quote_portfolio \<Rightarrow> quote_portfolio" where
  "filled_at_mark t cost p =
     (let price = opt_or (dict_get (qp_asset_mark_prices p) t) 0;
          qty = opt_or (dict_get (qp_asset_positions p) t) 0
      in p\<lparr>qp_total_cash := qp_total_cash p - cost,
           qp_asset_positions := dict_set t (qty + cost / price) (qp_asset_positions p)\<rparr>)"

lemma filled_notional:
  assumes "0 < opt_or (dict_get (qp_asset_mark_prices p) t) 0"
  shows "get_asset_notional (filled_at_mark t cost p) t' =
    get_asset_notional p t' + (if t' = t then cost else 0)"
  using assms by (simp add: filled_at_mark_def get_asset_notional_def Let_def field_simps)

lemma sum_list_if_distinct:
  "distinct xs \<Longrightarrow> sum_list (map (\<lambda>x. f x + (if x = a then c else 0)) xs) =
     sum_list (map f xs) + (if a \<in> set xs then c else (0 :: rat))"
  by (induction xs) (auto simp: algebra_simps)

lemma filled_holdings:
  assumes "0 < opt_or (dict_get (qp_asset_mark_prices p) t) 0" and "dict_wf (qp_asset_positions p)"
  shows "get_total_holdings_notional (filled_at_mark t cost p) = get_total_holdings_notional p + cost"
proof -
  let ?ks = "dict_keys (qp_asset_positions p)"
  have keys: "dict_keys (qp_asset_positions (filled_at_mark t cost p)) = (if t \<in> set ?ks then ?ks else ?ks @ [t])"
    by (simp add: filled_at_mark_def Let_def dict_set_keys)
  have "get_asset_notional p t = 0" if "t \<notin> set ?ks"
  proof -
    from that have "dict_get (qp_asset_positions p) t = None" by (simp add: map_of_eq_None_iff)
    then show ?thesis by (simp add: get_asset_notional_def)
  qed
  moreover have "sum_list (map (get_asset_notional (filled_at_mark t cost p)) ?ks) =
      sum_list (map (get_asset_notional p) ?ks) + (if t \<in> set ?ks then cost else 0)"
  proof -
    have "get_asset_notional (filled_at_mark t cost p) =
        (\<lambda>x. get_asset_notional p x + (if x = t then cost else 0))"
      by (rule ext) (rule filled_notional [OF assms(1)])
    then show ?thesis
      using sum_list_if_distinct [of ?ks "get_asset_notional p" t cost] assms(2)
      unfolding dict_wf_def by (simp only:)
  qed
  ultimately show ?thesis
    unfolding get_total_holdings_notional_def keys by (simp add: filled_notional [OF assms(1)])
qed

lemma guard_clear:
  assumes "guard_evaluate cost risk regime cfg = []" and "gp_enabled (ec_guard cfg)"
  shows "cost \<le> rk_available_cash risk"
    and "rk_total_equity risk * gp_min_quote_reserve (ec_guard cfg) \<le> rk_available_cash risk - cost"
    and "0 < rk_total_equity risk \<Longrightarrow>
      (rk_invested_notional risk + cost) / rk_total_equity risk \<le> gp_max_quote_exposure (ec_guard cfg)"
    and "0 < rk_total_equity risk \<Longrightarrow> asset_limit cfg = Some l \<Longrightarrow>
      (rk_asset_notional risk + cost) / rk_total_equity risk \<le> l"
    and "0 < rk_total_equity risk \<Longrightarrow> total_limit cfg = Some l \<Longrightarrow>
      (rk_invested_notional risk + cost) / rk_total_equity risk \<le> l"
    and "gp_max_drawdown (ec_guard cfg) = Some l \<Longrightarrow> - \<bar>l\<bar> \<le> rk_drawdown_pct risk"
    and "\<not> (mc_enabled (ec_regime cfg) \<and> regime = ILLIQUID)"
  using assms by (simp_all add: guard_evaluate_def Let_def above_def split: if_splits)

section \<open>Properties\<close>

text \<open>C14.  In every reachable risk manager, each portfolio's reserved cash is exactly the total of its
  open reservations, every reservation is positive, the peak equity is at least the current
  equity, and the drawdown lies between -1 and 0: no sequence of fills, cancellations, rejections,
  reconciliations, balance and price updates leaks or double-releases a reservation.\<close>

theorem reserved_cash_matches_orders:
  assumes "risk_reach m" and "dict_get (pm_portfolios m) k = Some p"
  shows "qp_reserved_cash p = sum_list (dict_values (qp_open_orders p)) \<and>
    (\<forall>u v. dict_get (qp_open_orders p) u = Some v \<longrightarrow> 0 < v) \<and>
    get_total_equity p \<le> qp_peak_equity p \<and> -1 \<le> get_drawdown p \<and> get_drawdown p \<le> 0"
proof -
  have inv: "portfolio_inv p"
    using risk_reach_inv [OF assms(1)] assms(2) by (simp add: risk_inv_def dict_all_get)
  then have nonneg: "0 \<le> get_asset_notional p t" for t
    unfolding get_asset_notional_def portfolio_inv_def
    by (intro mult_nonneg_nonneg)
      (auto simp: opt_or_def split: option.split dest: pd.all_valuesD)
  have "0 \<le> get_total_holdings_notional p"
    unfolding get_total_holdings_notional_def by (rule sum_list_nonneg) (use nonneg in auto)
  with inv have eq: "0 \<le> get_total_equity p" "get_total_equity p \<le> qp_peak_equity p"
    by (simp_all add: get_total_equity_def portfolio_inv_def)
  then have "-1 \<le> get_drawdown p" "get_drawdown p \<le> 0"
    by (simp_all add: get_drawdown_def field_simps)
  moreover have "\<forall>u v. dict_get (qp_open_orders p) u = Some v \<longrightarrow> 0 < v"
    using inv by (auto simp: portfolio_inv_def dest!: map_of_SomeD)
  ultimately show ?thesis using inv eq by (simp add: portfolio_inv_def)
qed

definition demo_risk_asset :: risk_asset where
  "demo_risk_asset = \<lparr>a_base_ticker_symbol = ''BTC'', a_quote_ticker_symbol = ''USD'', a_exchange = ''CDC'',
     a_separator = None, a_enabled = True, ra_portfolio = None\<rparr>"

definition demo_risk_manager :: risk_manager where
  "demo_risk_manager =
     update_market_data (update_cash_balance (init_risk_manager [demo_risk_asset] default_portfolio_config None None)
       ''CDC'' ''USD'' 1000) demo_risk_asset
       \<lparr>md_volume = 1, md_high_price = 10, md_low_price = 10, md_close_price = 10, md_timestamp = 1,
        md_bid_price = None, md_ask_price = None\<rparr>"

lemma demo_risk_reach: "risk_reach demo_risk_manager"
  unfolding demo_risk_manager_def by (intro risk_reach.intros)

lemma demo_portfolio:
  "dict_get (pm_portfolios demo_risk_manager) (''CDC'', ''USD'') =
     Some \<lparr>qp_exchange = ''CDC'', qp_quote_currency = ''USD'', qp_total_cash = 1000, qp_reserved_cash = 0,
       qp_open_orders = [], qp_asset_positions = [], qp_asset_mark_prices = [(''BTC_USD'', 10)],
       qp_peak_equity = 1000\<rparr>"
  by (simp add: demo_risk_manager_def update_market_data_def update_cash_balance_def put_portfolio_def
      get_portfolio_def init_risk_manager_def register_asset_def demo_risk_asset_def Let_def set_cash_def
      update_cash_def update_asset_mark_price_def refresh_peak_equity_def new_quote_portfolio_def
      get_total_equity_def get_total_holdings_notional_def ticker_symbol_def)

theorem reserved_cash_matches_orders_witness:
  "\<exists>p. dict_get (pm_portfolios (fst (reserve_order_cash demo_risk_manager demo_risk_asset ''o1'' 100)))
      (''CDC'', ''USD'') = Some p \<and> qp_reserved_cash p = 100"
proof -
  let ?m = "fst (reserve_order_cash demo_risk_manager demo_risk_asset ''o1'' 100)"
  have g: "get_portfolio demo_risk_manager ''CDC'' ''USD'' = the (dict_get (pm_portfolios demo_risk_manager) (''CDC'', ''USD''))"
    by (simp add: get_portfolio_def demo_portfolio)
  have "risk_reach ?m"
    by (rule risk_reach.reserve [OF demo_risk_reach]) (simp add: g demo_portfolio demo_risk_asset_def)
  moreover obtain p where p: "dict_get (pm_portfolios ?m) (''CDC'', ''USD'') = Some p"
    "qp_open_orders p = [(''o1'', 100)]"
    by (simp add: reserve_order_cash_def put_portfolio_def demo_risk_asset_def g demo_portfolio reserve_cash_def
        available_cash_def Let_def)
  ultimately show ?thesis using reserved_cash_matches_orders [of ?m "(''CDC'', ''USD'')" p] by simp
qed


text \<open>The guard is monotone in the order size: if a buy is let through, so is every smaller one
  at the same moment.\<close>

theorem smaller_buy_allowed:
  assumes "guard_evaluate cost risk regime cfg = []" and "0 \<le> cost'" and "cost' \<le> cost"
  shows "guard_evaluate cost' risk regime cfg = []"
proof (cases "gp_enabled (ec_guard cfg)")
  case True
  have "(v + cost') / rk_total_equity risk \<le> (v + cost) / rk_total_equity risk"
    if "0 < rk_total_equity risk" for v
    using that assms(3) by (simp add: divide_right_mono)
  then show ?thesis
    using assms(1,3) True
    by (auto simp: guard_evaluate_def Let_def above_def split: if_splits option.splits
        dest: order_trans less_le_trans)
qed (simp add: guard_evaluate_def)

lemma demo_marked: "marked_portfolio demo_risk_manager demo_risk_asset None =
     the (dict_get (pm_portfolios demo_risk_manager) (''CDC'', ''USD''))"
  by (simp add: marked_portfolio_def get_portfolio_def demo_risk_asset_def demo_portfolio)

lemma demo_policy:
  "effective_policy demo_risk_manager demo_risk_asset None =
     \<lparr>ec_exposure = make_exposure_config None None None, ec_regime = default_regime_config,
      ec_guard = make_guard_policy None None None None None None, ec_regime_multiplier = 1\<rparr>"
  by (simp add: effective_policy_def with_explicit_limits_def resolve_policy_def demo_risk_manager_def
      update_market_data_def update_cash_balance_def put_portfolio_def init_risk_manager_def register_asset_def
      Let_def demo_risk_asset_def resolve_exposure_def resolve_regime_def resolve_guard_def
      default_portfolio_config_def default_regime_config_def get_exposure_multiplier_def)


theorem smaller_buy_allowed_witness:
  "guard_evaluate 1 (risk_metrics_of (marked_portfolio demo_risk_manager demo_risk_asset None) ''BTC_USD'')
     NORMAL (effective_policy demo_risk_manager demo_risk_asset None) = []"
proof -
  have "guard_evaluate 2 (risk_metrics_of (marked_portfolio demo_risk_manager demo_risk_asset None) ''BTC_USD'')
     NORMAL (effective_policy demo_risk_manager demo_risk_asset None) = []"
    by (simp add: risk_metrics_of_def demo_marked demo_portfolio get_total_equity_def Let_def
        get_total_holdings_notional_def get_asset_notional_def get_drawdown_def available_cash_def demo_policy
        guard_evaluate_def above_def asset_limit_def total_limit_def effective_max_per_asset_def
        effective_max_total_def make_exposure_config_def make_guard_policy_def default_regime_config_def)
  from smaller_buy_allowed [OF this, of 1] show ?thesis by simp
qed

text \<open>An asset's exposure override that gives only some fields does not inherit the rest from the
  global configuration: a field left out takes the built-in default (a quarter for the per-asset
  limit), whatever the global limit; only an explicit null inherits.  A tighter global limit is
  silently loosened.\<close>

theorem partial_override_ignores_global:
  assumes "ra_portfolio a = Some ov" and "po_exposure ov = Some (make_exposure_config max_total per_asset per_quote)"
  shows "xc_max_per_asset (ec_exposure (resolve_policy cfg a regime)) =
    (case per_asset of
       None \<Rightarrow> Some (1/4)
     | Some None \<Rightarrow> xc_max_per_asset (pc_exposure cfg)
     | Some (Some l) \<Rightarrow> Some l)"
  using assms
  by (simp add: resolve_policy_def Let_def resolve_exposure_def make_exposure_config_def or_global_def
      split: option.split)

theorem partial_override_ignores_global_witness:
  "xc_max_per_asset (ec_exposure (resolve_policy
     (default_portfolio_config\<lparr>pc_exposure := make_exposure_config None (Some (Some (1/10))) None\<rparr>)
     (demo_risk_asset\<lparr>ra_portfolio := Some \<lparr>po_exposure = Some (make_exposure_config (Some (Some (1/2))) None None),
        po_regime = None, po_guard = None\<rparr>\<rparr>) None)) = Some (1/4)"
  using partial_override_ignores_global
    [of "demo_risk_asset\<lparr>ra_portfolio := Some \<lparr>po_exposure = Some (make_exposure_config (Some (Some (1/2))) None None),
        po_regime = None, po_guard = None\<rparr>\<rparr>"
      "\<lparr>po_exposure = Some (make_exposure_config (Some (Some (1/2))) None None), po_regime = None, po_guard = None\<rparr>"
      "Some (Some (1/2))" None None]
  by simp

definition with_daily_loss :: "decimal option \<Rightarrow> decimal option \<Rightarrow> portfolio_config \<Rightarrow> portfolio_config" where
  "with_daily_loss loss per_quote cfg =
     cfg\<lparr>pc_guard := (pc_guard cfg)\<lparr>gp_max_daily_loss := loss\<rparr>,
         pc_exposure := (pc_exposure cfg)\<lparr>xc_max_per_quote := per_quote\<rparr>\<rparr>"

lemma guard_evaluate_cong:
  assumes "ec_regime c' = ec_regime c" and "ec_regime_multiplier c' = ec_regime_multiplier c"
    and "xc_max_total (ec_exposure c') = xc_max_total (ec_exposure c)"
    and "xc_max_per_asset (ec_exposure c') = xc_max_per_asset (ec_exposure c)"
    and "ec_guard c' = (ec_guard c)\<lparr>gp_max_daily_loss := l\<rparr>"
  shows "guard_evaluate cost risk regime c' = guard_evaluate cost risk regime c"
  using assms
  by (simp add: guard_evaluate_def asset_limit_def total_limit_def effective_max_per_asset_def effective_max_total_def)

lemma resolve_guard_daily_loss:
  "\<exists>l. resolve_guard (g\<lparr>gp_max_daily_loss := loss\<rparr>) ov = (resolve_guard g ov)\<lparr>gp_max_daily_loss := l\<rparr>"
proof (cases ov)
  case (Some x)
  then show ?thesis
    by (intro exI [of _ "or_global (gp_max_daily_loss x) loss"]) (simp add: resolve_guard_def)
qed (auto simp: resolve_guard_def)

text \<open>The daily-loss limit and the per-quote exposure limit are configurable but have no effect:
  configurations that differ only in them give the same verdict and the same violations for every
  manager state, asset and order.\<close>

theorem daily_loss_limit_ignored:
  "snd (risk_can_trade (m\<lparr>pm_config := with_daily_loss loss per_quote (pm_config m)\<rparr>) a act cost md regime) =
     snd (risk_can_trade m a act cost md regime)"
proof -
  let ?m' = "m\<lparr>pm_config := with_daily_loss loss per_quote (pm_config m)\<rparr>"
  have p: "marked_portfolio ?m' a md = marked_portfolio m a md"
    by (simp add: marked_portfolio_def get_portfolio_def)
  let ?c = "effective_policy m a regime" and ?c' = "effective_policy ?m' a regime"
  obtain l where "resolve_guard (pc_guard (with_daily_loss loss per_quote (pm_config m))) (Option.bind (ra_portfolio a) po_guard) =
      (resolve_guard (pc_guard (pm_config m)) (Option.bind (ra_portfolio a) po_guard))\<lparr>gp_max_daily_loss := l\<rparr>"
    using resolve_guard_daily_loss by (force simp: with_daily_loss_def)
  then have "ec_guard ?c' = (ec_guard ?c)\<lparr>gp_max_daily_loss := l\<rparr>"
    by (simp add: effective_policy_def with_explicit_limits_def resolve_policy_def Let_def)
  moreover have "ec_regime ?c' = ec_regime ?c" "ec_regime_multiplier ?c' = ec_regime_multiplier ?c"
    "xc_max_total (ec_exposure ?c') = xc_max_total (ec_exposure ?c)"
    "xc_max_per_asset (ec_exposure ?c') = xc_max_per_asset (ec_exposure ?c)"
    by (simp_all add: effective_policy_def with_explicit_limits_def resolve_policy_def Let_def with_daily_loss_def
        resolve_exposure_def split: option.split)
  ultimately have "guard_evaluate cost risk r ?c' = guard_evaluate cost risk r ?c" for risk r
    by (intro guard_evaluate_cong)
  then show ?thesis by (simp add: risk_can_trade_def Let_def p)
qed

end
