(* ===== verification/Guards.thy ===== *)
theory Guards
  imports Domain "HOL-Library.Multiset"
begin

text \<open>
  The per-asset trading guards (\<open>src/src/trading/protection/guards\<close>), the portfolio helper the
  drawdown guard uses (\<open>src/src/trading/helpers/portfolio_helper.py\<close>) and the protection manager
  (\<open>src/src/trading/protection/protection_manager.py\<close>).  A guard object is built from a
  configuration in which the field it needs is set (\<open>is_enabled\<close>), so the constructors of
  \<open>guard\<close> carry that field's value.  What the reconciliation engine answers is an argument here;
  the engine is modelled in its own theory.
\<close>

section \<open>Portfolio helper\<close>

type_synonym holding = "decimal \<times> decimal"

text \<open>The inner \<open>while\<close>: one sale against the inventory of (price, quantity) pairs.\<close>

fun sell_from :: "decimal \<Rightarrow> holding list \<Rightarrow> holding list" where
  "sell_from q [] = []"
| "sell_from q ((p, n) # hs) =
     (if q > 0
      then if n \<le> q then sell_from (q - n) hs else (p, n - q) # hs
      else (p, n) # hs)"

definition get_active_holdings :: "position_entry list \<Rightarrow> position_entry list \<Rightarrow> holding list" where
  "get_active_holdings opens closes =
     (let buys = sort_key pe_timestamp opens;
          sells = sort_key pe_timestamp closes;
          inventory = map (\<lambda>b. (pe_price b, pe_quantity b)) buys
      in filter (\<lambda>(p, n). n > 0) (foldl (\<lambda>hs s. sell_from (pe_quantity s) hs) inventory sells))"

definition calculate_portfolio_value ::
  "decimal \<Rightarrow> decimal \<Rightarrow> position_entry list \<Rightarrow> position_entry list \<Rightarrow> decimal" where
  "calculate_portfolio_value balance price opens closes =
     foldl (\<lambda>v (p, n). v + price * n) balance (get_active_holdings opens closes)"

definition calculate_unrealized_pnl_value ::
  "decimal \<Rightarrow> decimal \<Rightarrow> position_entry list \<Rightarrow> position_entry list \<Rightarrow> decimal result" where
  "calculate_unrealized_pnl_value starting price opens closes =
     (if starting \<le> 0 then Inl ValueError
      else Inr (foldl (\<lambda>v (p, n). v + (price - p) * n) 0 (get_active_holdings opens closes)))"

text \<open>All trades in time order, each with its effect on the cash balance; the sort is stable and
  buys come first in the unsorted list.\<close>

definition cash_flows :: "position_entry list \<Rightarrow> position_entry list \<Rightarrow> (timestamp \<times> decimal) list" where
  "cash_flows opens closes =
     map (\<lambda>(p, is_buy). (pe_timestamp p, if is_buy then - (pe_price p * pe_quantity p)
                                          else pe_price p * pe_quantity p))
       (sort_key (\<lambda>x. pe_timestamp (fst x)) (map (\<lambda>p. (p, True)) opens @ map (\<lambda>p. (p, False)) closes))"

fun peak_loop ::
  "decimal \<Rightarrow> decimal \<Rightarrow> timestamp option \<Rightarrow> (timestamp \<times> decimal) list \<Rightarrow> decimal \<times> timestamp option" where
  "peak_loop v peak when [] = (peak, when)"
| "peak_loop v peak when ((t, d) # fs) =
     (let v' = v + d;
          (peak', when') = (if v' > peak then (v', Some t) else (peak, when))
      in if v' \<le> 0 then (peak', when') else peak_loop v' peak' when' fs)"

fun trough_loop ::
  "decimal \<Rightarrow> decimal \<Rightarrow> timestamp option \<Rightarrow> (timestamp \<times> decimal) list \<Rightarrow> decimal \<times> timestamp option" where
  "trough_loop v trough when [] = (trough, when)"
| "trough_loop v trough when ((t, d) # fs) =
     (let v' = v + d;
          (trough', when') = (if v' < trough then (v', Some t) else (trough, when))
      in if v' \<le> 0 then (trough', when') else trough_loop v' trough' when' fs)"

definition calculate_peak_value ::
  "decimal \<Rightarrow> position_entry list \<Rightarrow> position_entry list \<Rightarrow> (decimal \<times> timestamp option) result" where
  "calculate_peak_value starting opens closes =
     (if starting \<le> 0 then Inl ValueError
      else Inr (peak_loop starting starting None (cash_flows opens closes)))"

definition calculate_trough_value ::
  "decimal \<Rightarrow> position_entry list \<Rightarrow> position_entry list \<Rightarrow> decimal \<times> timestamp option" where
  "calculate_trough_value starting opens closes =
     trough_loop starting starting None (cash_flows opens closes)"

section \<open>Guards\<close>

record guard_config =
  gc_cooldown_timeout :: "rat option"
  gc_max_drawdown_percentage :: "rat option"
  gc_max_drawdown_period :: "nat option"

datatype guard =
    CooldownGuard rat
  | MaxDrawDownGuard rat "nat option"
  | ReconciliationGuard bool

definition cooldown_can_trade :: "rat \<Rightarrow> trade_action \<Rightarrow> trading_context \<Rightarrow> market_data \<Rightarrow> bool" where
  "cooldown_can_trade timeout act ctx md =
     (if act = SELL then True
      else case tc_last_market_activity_time ctx of
             None \<Rightarrow> True
           | Some t \<Rightarrow> t + timeout < md_timestamp md)"

text \<open>The last \<open>period\<close> positions of the merged history; membership is by value.\<close>

definition get_window_positions ::
  "nat option \<Rightarrow> trading_context \<Rightarrow> position_entry list \<times> position_entry list" where
  "get_window_positions period ctx =
     (let opens = tc_open_positions ctx;
          closes = tc_close_positions ctx;
          all = sort_key pe_timestamp (opens @ closes)
      in case period of
           None \<Rightarrow> (opens, closes)
         | Some n \<Rightarrow>
             (if length all > n
              then let window = set (drop (length all - n) all)
                   in (filter (\<lambda>p. p \<in> window) opens, filter (\<lambda>p. p \<in> window) closes)
              else (opens, closes)))"

text \<open>\<open>p.timestamp > peak_time if peak_time else True\<close>: a peak time of 0 filters nothing.\<close>

definition after_peak :: "timestamp option \<Rightarrow> position_entry \<Rightarrow> bool" where
  "after_peak peak_time p =
     (case peak_time of None \<Rightarrow> True | Some t \<Rightarrow> t = 0 \<or> pe_timestamp p > t)"

definition maxdrawdown_can_trade ::
  "rat \<Rightarrow> nat option \<Rightarrow> trade_action \<Rightarrow> trading_context \<Rightarrow> bool result" where
  "maxdrawdown_can_trade pct period act ctx =
     (if act = SELL then Inr True
      else if tc_starting_balance ctx \<le> 0 then Inr False
      else let (opens, closes) = get_window_positions period ctx
           in if opens = [] \<and> closes = [] then Inr True
              else res_bind (calculate_peak_value (tc_starting_balance ctx) opens closes)
                (\<lambda>(peak, peak_time).
                   let (trough, _) = calculate_trough_value peak (filter (after_peak peak_time) opens)
                                       (filter (after_peak peak_time) closes)
                   in if peak \<le> 0 then Inr False
                      else let draw_down = (trough - peak) / peak
                           in Inr (draw_down \<ge> - pct \<or> draw_down = 0)))"

definition reconciliation_can_trade ::
  "(string \<Rightarrow> string \<Rightarrow> bool) \<Rightarrow> bool \<Rightarrow> trading_context \<Rightarrow> bool" where
  "reconciliation_can_trade critical has_engine ctx =
     (if \<not> has_engine then True else \<not> critical (tc_exchange ctx) (tc_ticker_symbol ctx))"

fun guard_can_trade ::
  "(string \<Rightarrow> string \<Rightarrow> bool) \<Rightarrow> guard \<Rightarrow> trade_action \<Rightarrow> trading_context \<Rightarrow> market_data \<Rightarrow> bool result" where
  "guard_can_trade critical (CooldownGuard t) act ctx md = Inr (cooldown_can_trade t act ctx md)"
| "guard_can_trade critical (MaxDrawDownGuard pct period) act ctx md = maxdrawdown_can_trade pct period act ctx"
| "guard_can_trade critical (ReconciliationGuard has_engine) act ctx md =
     Inr (reconciliation_can_trade critical has_engine ctx)"

text \<open>\<open>Application._setup_protections\<close>: every enabled guard class gets an instance per asset.\<close>

definition guards_for :: "guard_config option \<Rightarrow> bool \<Rightarrow> guard list" where
  "guards_for cfg has_engine =
     (case Option.bind cfg gc_cooldown_timeout of Some t \<Rightarrow> [CooldownGuard t] | None \<Rightarrow> [])
     @ (case Option.bind cfg gc_max_drawdown_percentage of
          Some pct \<Rightarrow> [MaxDrawDownGuard pct (Option.bind cfg gc_max_drawdown_period)] | None \<Rightarrow> [])
     @ [ReconciliationGuard has_engine]"

section \<open>Protection manager\<close>

record protection_manager =
  pt_guards :: "(int, guard list) dict"
  pt_is_paused :: bool
  pt_paused_assets :: "int set"

definition init_protection_manager :: protection_manager where
  "init_protection_manager = \<lparr>pt_guards = [], pt_is_paused = False, pt_paused_assets = {}\<rparr>"

definition pause_trading :: "protection_manager \<Rightarrow> protection_manager" where
  "pause_trading m = m\<lparr>pt_is_paused := True\<rparr>"

definition resume_trading :: "protection_manager \<Rightarrow> protection_manager" where
  "resume_trading m = m\<lparr>pt_is_paused := False\<rparr>"

definition pause_asset :: "protection_manager \<Rightarrow> int \<Rightarrow> protection_manager" where
  "pause_asset m k = m\<lparr>pt_paused_assets := insert k (pt_paused_assets m)\<rparr>"

definition resume_asset :: "protection_manager \<Rightarrow> int \<Rightarrow> protection_manager" where
  "resume_asset m k = m\<lparr>pt_paused_assets := pt_paused_assets m - {k}\<rparr>"

definition is_asset_paused :: "protection_manager \<Rightarrow> int \<Rightarrow> bool" where
  "is_asset_paused m k \<longleftrightarrow> pt_is_paused m \<or> k \<in> pt_paused_assets m"

definition register_guard :: "protection_manager \<Rightarrow> int \<Rightarrow> guard \<Rightarrow> protection_manager" where
  "register_guard m k g =
     m\<lparr>pt_guards := dict_set k (opt_or (dict_get (pt_guards m) k) [] @ [g]) (pt_guards m)\<rparr>"

definition setup_protections ::
  "(string \<Rightarrow> int) \<Rightarrow> protection_manager \<Rightarrow> (asset \<times> guard_config option) list \<Rightarrow> bool \<Rightarrow> protection_manager" where
  "setup_protections py_hash m assets has_engine =
     foldl (\<lambda>m (a, cfg). foldl (\<lambda>m g. register_guard m (asset_key py_hash a) g) m (guards_for cfg has_engine))
       m assets"

text \<open>\<open>all(...)\<close> stops at the first guard that refuses; a guard that raises aborts.\<close>

fun all_guards ::
  "(string \<Rightarrow> string \<Rightarrow> bool) \<Rightarrow> guard list \<Rightarrow> trade_action \<Rightarrow> trading_context \<Rightarrow> market_data \<Rightarrow> bool result" where
  "all_guards critical [] act ctx md = Inr True"
| "all_guards critical (g # gs) act ctx md =
     res_bind (guard_can_trade critical g act ctx md)
       (\<lambda>ok. if ok then all_guards critical gs act ctx md else Inr False)"

definition protection_can_trade ::
  "(string \<Rightarrow> string \<Rightarrow> bool) \<Rightarrow> protection_manager \<Rightarrow> int \<Rightarrow> trade_action \<Rightarrow> trading_context \<Rightarrow> market_data \<Rightarrow>
     bool result" where
  "protection_can_trade critical m k act ctx md =
     (if pt_is_paused m \<or> k \<in> pt_paused_assets m then Inr False
      else case dict_get (pt_guards m) k of
             None \<Rightarrow> Inr True
           | Some gs \<Rightarrow> if gs = [] then Inr True else all_guards critical gs act ctx md)"

section \<open>Holdings\<close>

definition held :: "holding list \<Rightarrow> decimal" where
  "held hs = sum_list (map snd hs)"

definition holdings_ok :: "holding list \<Rightarrow> bool" where
  "holdings_ok hs \<longleftrightarrow> (\<forall>h\<in>set hs. 0 \<le> snd h)"

lemma holdings_ok_simps [simp]:
  "holdings_ok []" "holdings_ok (h # hs) \<longleftrightarrow> 0 \<le> snd h \<and> holdings_ok hs"
  "held [] = 0" "held (h # hs) = snd h + held hs"
  by (auto simp: holdings_ok_def held_def)

lemma held_nonneg: "holdings_ok hs \<Longrightarrow> 0 \<le> held hs"
  by (induction hs) auto

lemma sell_from_held:
  assumes "holdings_ok hs" and "0 \<le> q"
  shows "held (sell_from q hs) = max 0 (held hs - q)" and "holdings_ok (sell_from q hs)"
proof -
  have "held (sell_from q hs) = max 0 (held hs - q) \<and> holdings_ok (sell_from q hs)"
    using assms
  proof (induction q hs rule: sell_from.induct)
    case (2 q p n hs)
    have "0 \<le> held hs" using 2 held_nonneg by simp
    with 2 show ?case by (auto simp: max_def)
  qed simp
  then show "held (sell_from q hs) = max 0 (held hs - q)" "holdings_ok (sell_from q hs)" by simp_all
qed

lemma sells_held:
  assumes "holdings_ok hs" and "\<forall>s\<in>set sells. 0 \<le> pe_quantity s"
  shows "held (foldl (\<lambda>hs s. sell_from (pe_quantity s) hs) hs sells) =
    max 0 (held hs - sum_list (map pe_quantity sells))"
  using assms
proof (induction sells arbitrary: hs)
  case Nil
  then show ?case by (simp add: held_nonneg)
next
  case (Cons s sells)
  have "0 \<le> sum_list (map pe_quantity sells)" using Cons.prems by (intro sum_list_nonneg) auto
  with Cons sell_from_held [of hs "pe_quantity s"] show ?case by (auto simp: max_def)
qed

lemma held_filter: "holdings_ok hs \<Longrightarrow> held (filter (\<lambda>(p, n). n > 0) hs) = held hs"
  by (induction hs) auto

lemma sells_holdings_ok:
  "holdings_ok hs \<Longrightarrow> \<forall>s\<in>set sells. 0 \<le> pe_quantity s \<Longrightarrow>
     holdings_ok (foldl (\<lambda>hs s. sell_from (pe_quantity s) hs) hs sells)"
  by (induction sells arbitrary: hs) (auto simp: sell_from_held)

lemma sum_list_sort_key: "sum_list (map f (sort_key k xs)) = sum_list (map (f :: _ \<Rightarrow> rat) xs)"
  by (metis mset_map mset_sort sum_mset_sum_list)

section \<open>Properties\<close>

text \<open>The active holdings of a history with non-negative quantities add up to what was bought
  minus what was sold, and to nothing when more was sold than bought; each remaining holding is
  positive.  The portfolio value is the balance plus that quantity at the current price.\<close>

theorem active_holdings_quantity:
  assumes "\<forall>p\<in>set opens. 0 \<le> pe_quantity p" and "\<forall>p\<in>set closes. 0 \<le> pe_quantity p"
  shows "held (get_active_holdings opens closes) =
      max 0 (sum_list (map pe_quantity opens) - sum_list (map pe_quantity closes)) \<and>
    (\<forall>h\<in>set (get_active_holdings opens closes). 0 < snd h) \<and>
    calculate_portfolio_value balance price opens closes =
      balance + price * held (get_active_holdings opens closes)"
proof -
  let ?inv = "map (\<lambda>b. (pe_price b, pe_quantity b)) (sort_key pe_timestamp opens)"
  let ?sells = "sort_key pe_timestamp closes"
  have ok: "holdings_ok ?inv" using assms(1) by (simp add: holdings_ok_def)
  have "held ?inv = sum_list (map pe_quantity opens)"
    using sum_list_sort_key [of pe_quantity pe_timestamp opens] by (simp add: held_def comp_def)
  then have "held (foldl (\<lambda>hs s. sell_from (pe_quantity s) hs) ?inv ?sells) =
      max 0 (sum_list (map pe_quantity opens) - sum_list (map pe_quantity closes))"
    using sells_held [OF ok, of ?sells] assms(2) by (simp add: sum_list_sort_key)
  moreover have "holdings_ok (foldl (\<lambda>hs s. sell_from (pe_quantity s) hs) ?inv ?sells)"
    using sells_holdings_ok [OF ok, of ?sells] assms(2) by simp
  moreover have "foldl (\<lambda>v (p, n). v + price * n) b hs = b + price * held hs" for b and hs :: "holding list"
    by (induction hs arbitrary: b) (auto simp: algebra_simps)
  ultimately show ?thesis
    by (auto simp: get_active_holdings_def calculate_portfolio_value_def Let_def held_filter)
qed

theorem active_holdings_quantity_witness:
  "held (get_active_holdings [\<lparr>pe_price = 10, pe_quantity = 3, pe_timestamp = 1\<rparr>]
     [\<lparr>pe_price = 12, pe_quantity = 1, pe_timestamp = 2\<rparr>]) = 2"
  using active_holdings_quantity [of "[\<lparr>pe_price = 10, pe_quantity = 3, pe_timestamp = 1\<rparr>]"
      "[\<lparr>pe_price = 12, pe_quantity = 1, pe_timestamp = 2\<rparr>]" 0 0]
  by simp

text \<open>The drawdown guard never raises: it rejects a non-positive starting balance before the helper
  would.\<close>

lemma maxdrawdown_total: "\<exists>b. maxdrawdown_can_trade pct period act ctx = Inr b"
  by (auto simp: maxdrawdown_can_trade_def calculate_peak_value_def Let_def split_beta)

lemma guard_total: "\<exists>b. guard_can_trade critical g act ctx md = Inr b"
  by (cases g) (simp_all add: maxdrawdown_total)

lemma guard_exit:
  "guard_can_trade critical g SELL ctx md =
     Inr (case g of ReconciliationGuard e \<Rightarrow> reconciliation_can_trade critical e ctx | _ \<Rightarrow> True)"
  by (cases g) (simp_all add: cooldown_can_trade_def maxdrawdown_can_trade_def)

lemma all_guards_iff:
  "all_guards critical gs act ctx md = Inr (\<forall>g\<in>set gs. guard_can_trade critical g act ctx md = Inr True)"
proof (induction gs)
  case (Cons g gs)
  obtain b where "guard_can_trade critical g act ctx md = Inr b" using guard_total by blast
  with Cons show ?case by simp
qed simp

lemma register_all:
  "opt_or (dict_get (pt_guards (foldl (\<lambda>m g. register_guard m k g) m gs)) k') [] =
     opt_or (dict_get (pt_guards m) k') [] @ (if k' = k then gs else [])"
  by (induction gs arbitrary: m) (simp_all add: register_guard_def)

lemma register_paused:
  "pt_is_paused (foldl (\<lambda>m g. register_guard m k g) m gs) = pt_is_paused m"
  "pt_paused_assets (foldl (\<lambda>m g. register_guard m k g) m gs) = pt_paused_assets m"
  by (induction gs arbitrary: m) (simp_all add: register_guard_def)

lemma protection_can_trade_iff:
  "protection_can_trade critical m k act ctx md =
     Inr (\<not> is_asset_paused m k \<and>
       (\<forall>g\<in>set (opt_or (dict_get (pt_guards m) k) []). guard_can_trade critical g act ctx md = Inr True))"
  by (simp add: protection_can_trade_def is_asset_paused_def all_guards_iff split: option.split)

text \<open>For an asset whose guards the application has set up, asking whether it may trade always
  gives an answer.  An exit is refused only while trading or the asset is paused or the
  reconciliation engine reports a critical discrepancy for the asset: no cooldown and no drawdown
  ever blocks a sale.  An entry needs every configured guard to agree.\<close>

theorem exits_blocked_only_by_pause_or_discrepancy:
  assumes "k = asset_key py_hash a" and "m = setup_protections py_hash init_protection_manager [(a, cfg)] has_engine"
    and "m' = (if paused then pause_trading m else m)"
  shows "protection_can_trade critical m' k SELL ctx md =
      Inr (\<not> paused \<and> \<not> (has_engine \<and> critical (tc_exchange ctx) (tc_ticker_symbol ctx))) \<and>
    protection_can_trade critical m' k BUY ctx md =
      Inr (\<not> paused \<and> \<not> (has_engine \<and> critical (tc_exchange ctx) (tc_ticker_symbol ctx)) \<and>
        (\<forall>c. cfg = Some c \<longrightarrow>
          (\<forall>t. gc_cooldown_timeout c = Some t \<longrightarrow> cooldown_can_trade t BUY ctx md) \<and>
          (\<forall>pct. gc_max_drawdown_percentage c = Some pct \<longrightarrow>
             maxdrawdown_can_trade pct (gc_max_drawdown_period c) BUY ctx = Inr True)))"
proof -
  have guards: "opt_or (dict_get (pt_guards m') k) [] = guards_for cfg has_engine"
    using register_all [of k init_protection_manager "guards_for cfg has_engine" k]
    by (simp add: assms setup_protections_def init_protection_manager_def pause_trading_def)
  have paused: "is_asset_paused m' k \<longleftrightarrow> paused"
    by (simp add: assms setup_protections_def is_asset_paused_def register_paused init_protection_manager_def
        pause_trading_def)
  show ?thesis
    unfolding protection_can_trade_iff guards paused
    by (cases cfg)
      (auto simp: guards_for_def guard_exit reconciliation_can_trade_def split: option.splits)
qed

theorem exits_blocked_only_by_pause_or_discrepancy_witness:
  "protection_can_trade (\<lambda>_ _. False)
     (setup_protections (\<lambda>_. 7) init_protection_manager
        [(\<lparr>a_base_ticker_symbol = ''BTC'', a_quote_ticker_symbol = ''USD'', a_exchange = ''CDC'',
           a_separator = None, a_enabled = True\<rparr>,
          Some \<lparr>gc_cooldown_timeout = Some 60, gc_max_drawdown_percentage = Some (1/10), gc_max_drawdown_period = None\<rparr>)]
        True) 7 SELL (new_context ''BTC_USD'' ''CDC'' 100 None)
     \<lparr>md_volume = 1, md_high_price = 10, md_low_price = 10, md_close_price = 10, md_timestamp = 1,
      md_bid_price = None, md_ask_price = None\<rparr> = Inr True"
proof -
  let ?a = "\<lparr>a_base_ticker_symbol = ''BTC'', a_quote_ticker_symbol = ''USD'', a_exchange = ''CDC'',
    a_separator = None, a_enabled = True\<rparr>"
  have "7 = asset_key (\<lambda>_. 7) ?a" by (simp add: asset_key_def)
  from conjunct1 [OF exits_blocked_only_by_pause_or_discrepancy [OF this HOL.refl, of _ False]]
  show ?thesis by simp
qed

lemma single_buy_loops:
  assumes "0 < c" and "c < b"
  shows "peak_loop b b None [(t, - c)] = (b, None)" and "trough_loop b b None [(t, - c)] = (b - c, Some t)"
  using assms by simp_all

text \<open>The drawdown guard measures spent cash, not losses: after a single purchase worth \<open>c\<close> from a
  starting balance \<open>B > c\<close>, with nothing sold and whatever the market price now is, further buys
  are refused exactly when \<open>c\<close> exceeds the configured fraction of \<open>B\<close>.\<close>

theorem drawdown_guard_counts_spending:
  assumes "tc_open_positions ctx = [p]" and "tc_close_positions ctx = []" and "tc_starting_balance ctx = B"
    and "0 < pe_price p * pe_quantity p" and "pe_price p * pe_quantity p < B"
    and "period = None \<or> period = Some (Suc n)" and "0 \<le> pct"
  shows "maxdrawdown_can_trade pct period BUY ctx = Inr (pe_price p * pe_quantity p \<le> pct * B)"
proof -
  let ?c = "pe_price p * pe_quantity p"
  have B: "0 < B" using assms(4,5) by linarith
  have w: "get_window_positions period ctx = ([p], [])"
    using assms(6) by (auto simp: get_window_positions_def assms(1,2) Let_def)
  have f: "cash_flows [p] [] = [(pe_timestamp p, - ?c)]" by (simp add: cash_flows_def)
  have "maxdrawdown_can_trade pct period BUY ctx = Inr ((B - ?c - B) / B \<ge> - pct \<or> (B - ?c - B) / B = 0)"
    using B single_buy_loops [OF assms(4,5)]
    by (simp add: maxdrawdown_can_trade_def assms(3) w calculate_peak_value_def calculate_trough_value_def f
        after_peak_def)
  also have "\<dots> = Inr (?c \<le> pct * B)"
    using B assms(4) by (auto simp: field_simps)
  finally show ?thesis .
qed

theorem drawdown_guard_counts_spending_witness:
  "maxdrawdown_can_trade (1/10) None BUY ((new_context ''BTC_USD'' ''CDC'' 100 None)
     \<lparr>tc_open_positions := [\<lparr>pe_price = 10, pe_quantity = 2, pe_timestamp = 1\<rparr>]\<rparr>) = Inr False"
  by (subst drawdown_guard_counts_spending
      [where p = "\<lparr>pe_price = 10, pe_quantity = 2, pe_timestamp = 1\<rparr>" and B = 100])
    (simp_all add: new_context_def)

end
