(* ===== verification/Reconciliation.thy ===== *)
theory Reconciliation
  imports Orders Accounts Guards Health
begin

text \<open>
  Reconciliation with the exchange: fees (\<open>src/src/trading/fees/fees_manager.py\<close>), the five
  reconcilers (\<open>src/src/trading/reconciliation/reconcilers\<close>) and the engine
  (\<open>exchange_reconciliation_engine.py\<close>).

  The state the reconcilers share is one record: the order manager (with the session), the
  account manager, the fees and the protection manager.  What the exchange answers, the database
  health, the clock and the fresh identifiers are the environment.  Balance events are delivered
  to the session at once, as the bus is synchronous.  Python iterates the sets of currencies and
  exchanges in arbitrary order; the model uses the order of the dictionary and of the assets.
\<close>

section \<open>Discrepancies\<close>

datatype discrepancy_type =
    BALANCE_MISMATCH | ORDER_STATUS_MISMATCH | ORPHAN_ORDER_DETECTED | MISSING_FILL
  | POSITION_MISMATCH | FEE_MISMATCH | UNTRACKED_TRANSFER

datatype recon_action =
    ActionNone | TRADING_PAUSED_AND_LOCAL_SYNCED | LOCAL_STATE_SYNCED | MARKED_RECONCILIATION_REQUIRED
  | LOCAL_STATUS_UPDATED | MANUAL_REVIEW_REQUIRED | LOCAL_FEES_RESET

record discrepancy =
  dc_type :: discrepancy_type
  dc_severity :: severity
  dc_exchange :: string
  dc_asset_or_currency :: string
  dc_difference :: "decimal option"
  dc_action_taken :: recon_action
  dc_order_uuid :: "string option"

definition is_critical :: "discrepancy \<Rightarrow> bool" where
  "is_critical d \<longleftrightarrow> dc_severity d = CRITICAL \<or> dc_severity d = FATAL"

record reconciliation_report =
  rr_exchange :: string
  rr_started_at :: timestamp
  rr_finished_at :: timestamp
  rr_discrepancies :: "discrepancy list"

definition duration_ms :: "reconciliation_report \<Rightarrow> rat" where
  "duration_ms r = max 0 ((rr_finished_at r - rr_started_at r) * 1000)"

definition critical_discrepancies :: "reconciliation_report \<Rightarrow> discrepancy list" where
  "critical_discrepancies r = filter is_critical (rr_discrepancies r)"

definition has_critical :: "reconciliation_report \<Rightarrow> bool" where
  "has_critical r \<longleftrightarrow> list_ex is_critical (rr_discrepancies r)"

definition actions_taken :: "reconciliation_report \<Rightarrow> recon_action list" where
  "actions_taken r = filter (\<lambda>a. a \<noteq> ActionNone) (map dc_action_taken (rr_discrepancies r))"

section \<open>Fees\<close>

record fees =
  fe_maker_fee_pct :: decimal
  fe_taker_fee_pct :: decimal

type_synonym fees_manager = "(string, fees) dict"

definition get_account_fees ::
  "(string \<Rightarrow> fees option result) \<Rightarrow> fees_manager \<Rightarrow> string \<Rightarrow> fees_manager \<times> fees option result" where
  "get_account_fees rest fm provider =
     (case rest provider of
        Inl e \<Rightarrow> (fm, Inl e)
      | Inr None \<Rightarrow> (fm, Inr None)
      | Inr (Some f) \<Rightarrow> (dict_set provider f fm, Inr (Some f)))"

definition get_instrument_fees ::
  "(string \<Rightarrow> string \<Rightarrow> fees result) \<Rightarrow> fees_manager \<Rightarrow> string \<Rightarrow> string \<Rightarrow> fees result" where
  "get_instrument_fees rest fm provider ticker =
     res_bind (rest provider ticker)
       (\<lambda>inst. Inr (case dict_get fm provider of
          None \<Rightarrow> inst
        | Some acc \<Rightarrow>
            \<lparr>fe_maker_fee_pct = min (fe_maker_fee_pct acc) (fe_maker_fee_pct inst),
             fe_taker_fee_pct = min (fe_taker_fee_pct acc) (fe_taker_fee_pct inst)\<rparr>))"

definition init_fees ::
  "(string \<Rightarrow> fees option result) \<Rightarrow> fees_manager \<Rightarrow> 'x asset_scheme list \<Rightarrow> fees_manager" where
  "init_fees rest fm assets = foldl (\<lambda>fm ex. fst (get_account_fees rest fm ex)) fm (remdups (map a_exchange assets))"

section \<open>State and environment\<close>

record recon_asset = asset +
  rn_min_quantity :: decimal

record recon_state =
  rs_orders :: order_manager
  rs_accounts :: account_manager
  rs_fees :: fees_manager
  rs_protection :: protection_manager
  rs_active :: "discrepancy list"

record recon_env =
  en_rest_balances :: rest_balances
  en_fetch :: "string \<Rightarrow> string \<Rightarrow> order option result"
  en_open_orders :: "string \<Rightarrow> order list result"
  en_instrument_fees :: "string \<Rightarrow> string \<Rightarrow> fees result"
  en_registered :: "string set"
  en_load_db :: db_health
  en_db :: "string \<Rightarrow> db_health"
  en_uuid_of :: "nat \<Rightarrow> string"
  en_head :: "string option"
  en_py_hash :: "string \<Rightarrow> int"
  en_now :: timestamp

type_synonym reconciler =
  "recon_env \<Rightarrow> string \<Rightarrow> recon_asset list \<Rightarrow> recon_state \<Rightarrow> recon_state \<times> discrepancy list result"

abbreviation rs_session :: "recon_state \<Rightarrow> session_manager" where
  "rs_session s \<equiv> om_session (rs_orders s)"

definition with_session :: "session_manager \<Rightarrow> recon_state \<Rightarrow> recon_state" where
  "with_session sm s = s\<lparr>rs_orders := (rs_orders s)\<lparr>om_session := sm\<rparr>\<rparr>"

definition deliver_balances :: "balance_changed_event list \<Rightarrow> session_manager \<Rightarrow> session_manager" where
  "deliver_balances evs sm =
     foldl (\<lambda>sm e. on_balance_changed sm (bc_exchange e) (bc_currency e) (bc_available e)) sm evs"

section \<open>Balance reconciler\<close>

definition balance_critical_threshold :: decimal where "balance_critical_threshold = 1"

definition balance_warning_threshold :: decimal where "balance_warning_threshold = 1/10000"

definition exchange_map :: "account_balance list \<Rightarrow> (string, decimal) dict" where
  "exchange_map bals = foldl (\<lambda>d b. dict_set (upper (ab_currency b)) (ab_available_balance b) d) [] bals"

definition local_map :: "account_manager \<Rightarrow> string \<Rightarrow> (string, decimal) dict" where
  "local_map am ex =
     foldl (\<lambda>d (c, b). dict_set (upper c) (ab_available_balance b) d) [] (opt_or (dict_get (am_balances am) ex) [])"

definition balance_discrepancy :: "string \<Rightarrow> (string, decimal) dict \<Rightarrow> string \<times> decimal \<Rightarrow> discrepancy list" where
  "balance_discrepancy ex emap cl =
     (let (cur, loc) = cl;
          diff = opt_or (dict_get emap cur) 0 - loc
      in if \<bar>diff\<bar> > balance_warning_threshold
         then let crit = \<bar>diff\<bar> \<ge> balance_critical_threshold
              in [\<lparr>dc_type = BALANCE_MISMATCH, dc_severity = (if crit then CRITICAL else WARNING),
                   dc_exchange = ex, dc_asset_or_currency = cur, dc_difference = Some diff,
                   dc_action_taken = (if crit then TRADING_PAUSED_AND_LOCAL_SYNCED else LOCAL_STATE_SYNCED),
                   dc_order_uuid = None\<rparr>]
         else [])"

definition sync_available ::
  "recon_env \<Rightarrow> string \<Rightarrow> (string, decimal) dict \<Rightarrow> session_manager \<Rightarrow> recon_asset \<Rightarrow> session_manager" where
  "sync_available env ex emap sm a =
     (if upper (a_exchange a) = ex
      then case dict_get emap (upper (a_quote_ticker_symbol a)) of
             None \<Rightarrow> sm
           | Some b \<Rightarrow> update_available_balance sm (asset_key (en_py_hash env) a) b
      else sm)"

definition balance_reconcile :: reconciler where
  "balance_reconcile env exchange assets s =
     (case en_rest_balances env exchange of
        Inl _ \<Rightarrow> (s, Inr [])
      | Inr bals \<Rightarrow>
          if bals = [] then (s, Inr [])
          else let ex = upper exchange;
                   emap = exchange_map bals;
                   ds = concat (map (balance_discrepancy ex emap) (local_map (rs_accounts s) ex));
                   (am, evs) = cache_balances (rs_accounts s) ex bals ''REST_RECONCILIATION''
                                 ''AUTHORITATIVE_SYNC'' (en_now env);
                   sm = foldl (sync_available env ex emap) (deliver_balances evs (rs_session s)) assets
               in (with_session sm (s\<lparr>rs_accounts := am\<rparr>), Inr ds))"

section \<open>Order reconciler\<close>

definition order_discrepancy :: "string \<Rightarrow> order \<Rightarrow> recon_action \<Rightarrow> discrepancy" where
  "order_discrepancy ex ord act =
     \<lparr>dc_type = ORDER_STATUS_MISMATCH, dc_severity = WARNING, dc_exchange = ex,
      dc_asset_or_currency = o_ticker_symbol ord, dc_difference = None, dc_action_taken = act,
      dc_order_uuid = Some (o_uuid ord)\<rparr>"

definition order_reconcile_one ::
  "recon_env \<Rightarrow> string \<Rightarrow> order_manager \<times> discrepancy list \<Rightarrow> order \<Rightarrow> order_manager \<times> discrepancy list" where
  "order_reconcile_one env ex acc ord =
     (let (om, ds) = acc;
          db = en_db env (o_uuid ord)
      in if upper (o_provider_name ord) \<noteq> ex then (om, ds)
         else case en_fetch env (o_provider_name ord) (o_uuid ord) of
                Inl _ \<Rightarrow> (om, ds)
              | Inr eo \<Rightarrow>
                  (case Option.bind eo o_status of
                     None \<Rightarrow> (mark_reconciliation_required (en_uuid_of env) (en_head env) db om ord,
                              ds @ [order_discrepancy ex ord MARKED_RECONCILIATION_REQUIRED])
                   | Some st \<Rightarrow>
                       if o_status ord = Some st then (om, ds)
                       else (fst (save_orders_to_database (en_uuid_of env) (en_head env) db om
                               [ord\<lparr>o_status := Some st, o_fill_price := o_fill_price (the eo),
                                    o_fees := o_fees (the eo), o_executed_time := o_executed_time (the eo)\<rparr>]),
                             ds @ [order_discrepancy ex ord LOCAL_STATUS_UPDATED])))"

definition orphan_discrepancies :: "recon_env \<Rightarrow> string \<Rightarrow> string \<Rightarrow> string set \<Rightarrow> discrepancy list" where
  "orphan_discrepancies env exchange ex known =
     (case en_open_orders env exchange of
        Inl _ \<Rightarrow> []
      | Inr ords \<Rightarrow>
          map (\<lambda>eo. \<lparr>dc_type = ORPHAN_ORDER_DETECTED, dc_severity = CRITICAL, dc_exchange = ex,
                     dc_asset_or_currency = o_ticker_symbol eo, dc_difference = None,
                     dc_action_taken = MANUAL_REVIEW_REQUIRED, dc_order_uuid = Some (o_uuid eo)\<rparr>)
            (filter (\<lambda>eo. o_uuid eo \<notin> known) ords))"

definition order_reconcile :: reconciler where
  "order_reconcile env exchange assets s =
     (let ex = upper exchange
      in if exchange \<notin> en_registered env \<and> ex \<notin> en_registered env then (s, Inr [])
         else case get_non_terminal_orders (en_load_db env) (rs_orders s) of
                Inl _ \<Rightarrow> (s, Inr [])
              | Inr ords \<Rightarrow>
                  let known = o_uuid ` set (filter (\<lambda>ord. upper (o_provider_name ord) = ex) ords);
                      (om, ds) = foldl (order_reconcile_one env ex) (rs_orders s, []) ords
                  in (s\<lparr>rs_orders := om\<rparr>, Inr (ds @ orphan_discrepancies env exchange ex known)))"

section \<open>Position reconciler\<close>

definition position_dust_threshold :: decimal where "position_dust_threshold = 1 / 100000000"

definition position_critical_threshold :: decimal where "position_critical_threshold = 1/1000"

definition position_discrepancy :: "string \<Rightarrow> recon_asset \<Rightarrow> decimal \<Rightarrow> discrepancy" where
  "position_discrepancy ex a diff =
     (let thresh = (if rn_min_quantity a \<noteq> 0 then max position_critical_threshold (rn_min_quantity a)
                    else position_critical_threshold);
          crit = \<bar>diff\<bar> \<ge> thresh
      in \<lparr>dc_type = POSITION_MISMATCH, dc_severity = (if crit then CRITICAL else WARNING), dc_exchange = ex,
          dc_asset_or_currency = ticker_symbol a, dc_difference = Some diff,
          dc_action_taken = (if crit then TRADING_PAUSED_AND_LOCAL_SYNCED else LOCAL_STATE_SYNCED),
          dc_order_uuid = None\<rparr>)"

fun position_loop ::
  "recon_env \<Rightarrow> string \<Rightarrow> recon_asset list \<Rightarrow> recon_state \<Rightarrow> discrepancy list \<Rightarrow>
     recon_state \<times> discrepancy list result" where
  "position_loop env ex [] s ds = (s, Inr ds)"
| "position_loop env ex (a # as) s ds =
     (let key = asset_key (en_py_hash env) a
      in if upper (a_exchange a) \<noteq> ex then position_loop env ex as s ds
         else case get_trading_context (rs_session s) key of
                None \<Rightarrow> position_loop env ex as s ds
              | Some ctx \<Rightarrow>
                  let local_qty = tc_position_qty ctx
                  in case get_base_balance (en_rest_balances env) (rs_accounts s) a (a_exchange a) (en_now env) of
                       (am, evs, Inl e) \<Rightarrow>
                         (with_session (deliver_balances evs (rs_session s)) (s\<lparr>rs_accounts := am\<rparr>), Inl e)
                     | (am, evs, Inr bal) \<Rightarrow>
                         let s1 = with_session (deliver_balances evs (rs_session s)) (s\<lparr>rs_accounts := am\<rparr>);
                             diff = ab_available_balance bal - local_qty
                         in if \<bar>diff\<bar> > position_dust_threshold
                            then position_loop env ex as
                                   (with_session (modify_context key
                                      (\<lambda>c. c\<lparr>tc_position_qty := ab_available_balance bal\<rparr>) (rs_session s1)) s1)
                                   (ds @ [position_discrepancy ex a diff])
                            else position_loop env ex as s1 ds)"

definition position_reconcile :: reconciler where
  "position_reconcile env exchange assets s = position_loop env (upper exchange) assets s []"

section \<open>Fee and fill reconcilers\<close>

definition fee_reconcile :: reconciler where
  "fee_reconcile env exchange assets s =
     (s, Inr (concat (map (\<lambda>a.
        if upper (a_exchange a) \<noteq> upper exchange then []
        else case get_instrument_fees (en_instrument_fees env) (rs_fees s) (a_exchange a) (ticker_symbol a) of
               Inl _ \<Rightarrow> []
             | Inr f \<Rightarrow>
                 if fe_maker_fee_pct f < 0 \<or> fe_taker_fee_pct f < 0
                 then [\<lparr>dc_type = FEE_MISMATCH, dc_severity = WARNING, dc_exchange = upper exchange,
                        dc_asset_or_currency = ticker_symbol a, dc_difference = None,
                        dc_action_taken = LOCAL_FEES_RESET, dc_order_uuid = None\<rparr>]
                 else []) assets)))"

definition fill_reconcile :: reconciler where
  "fill_reconcile env exchange assets s =
     (s, Inr (case get_non_terminal_orders (en_load_db env) (rs_orders s) of
        Inl _ \<Rightarrow> []
      | Inr ords \<Rightarrow>
          map (\<lambda>ord. \<lparr>dc_type = MISSING_FILL, dc_severity = WARNING, dc_exchange = upper exchange,
                      dc_asset_or_currency = o_ticker_symbol ord, dc_difference = None,
                      dc_action_taken = MARKED_RECONCILIATION_REQUIRED, dc_order_uuid = Some (o_uuid ord)\<rparr>)
            (filter (\<lambda>ord. upper (o_provider_name ord) = upper exchange \<and> o_status ord = Some COMPLETED \<and>
                       (case o_fill_price ord of None \<Rightarrow> True | Some p \<Rightarrow> p \<le> 0)) ords)))"

section \<open>Engine\<close>

definition default_reconcilers :: "reconciler list" where
  "default_reconcilers = [balance_reconcile, order_reconcile, position_reconcile, fee_reconcile, fill_reconcile]"

text \<open>A reconciler that raises keeps its effects on the state but reports nothing.\<close>

fun run_reconcilers ::
  "reconciler list \<Rightarrow> recon_env \<Rightarrow> string \<Rightarrow> recon_asset list \<Rightarrow> recon_state \<Rightarrow> discrepancy list \<Rightarrow>
     recon_state \<times> discrepancy list" where
  "run_reconcilers [] env exchange assets s ds = (s, ds)"
| "run_reconcilers (r # rs) env exchange assets s ds =
     (case r env exchange assets s of
        (s', Inl _) \<Rightarrow> run_reconcilers rs env exchange assets s' ds
      | (s', Inr new) \<Rightarrow> run_reconcilers rs env exchange assets s' (ds @ new))"

definition has_critical_discrepancy :: "discrepancy list \<Rightarrow> string \<Rightarrow> string \<Rightarrow> bool" where
  "has_critical_discrepancy active exchange symbol \<longleftrightarrow>
     list_ex (\<lambda>d. is_critical d \<and>
       \<not> (exchange \<noteq> [] \<and> upper (dc_exchange d) \<noteq> upper exchange) \<and>
       \<not> (symbol \<noteq> [] \<and> upper (dc_asset_or_currency d) \<noteq> upper symbol)) active"

definition apply_pause_policy :: "bool \<Rightarrow> bool \<Rightarrow> discrepancy list \<Rightarrow> protection_manager \<Rightarrow> protection_manager" where
  "apply_pause_policy auto_pause report_critical active pm =
     (if report_critical then (if auto_pause then pause_trading pm else pm)
      else if \<not> has_critical_discrepancy active [] []
      then (if auto_pause \<and> pt_is_paused pm then resume_trading pm else pm)
      else pm)"

definition reconcile_exchange ::
  "reconciler list \<Rightarrow> bool \<Rightarrow> recon_env \<Rightarrow> recon_asset list \<Rightarrow> recon_state \<Rightarrow> string \<Rightarrow>
     recon_state \<times> reconciliation_report" where
  "reconcile_exchange rs auto_pause env assets s exchange =
     (let (s1, ds) = run_reconcilers rs env exchange assets s [];
          report = \<lparr>rr_exchange = exchange, rr_started_at = en_now env, rr_finished_at = en_now env,
                    rr_discrepancies = ds\<rparr>;
          active = filter (\<lambda>d. upper (dc_exchange d) \<noteq> upper exchange) (rs_active s1) @ ds
      in (s1\<lparr>rs_active := active,
             rs_protection := apply_pause_policy auto_pause (has_critical report) active (rs_protection s1)\<rparr>,
          report))"

fun reconcile_exchanges ::
  "reconciler list \<Rightarrow> bool \<Rightarrow> recon_env \<Rightarrow> recon_asset list \<Rightarrow> recon_state \<Rightarrow> string list \<Rightarrow>
     recon_state \<times> reconciliation_report list" where
  "reconcile_exchanges rs auto_pause env assets s [] = (s, [])"
| "reconcile_exchanges rs auto_pause env assets s (ex # exs) =
     (let (s1, r) = reconcile_exchange rs auto_pause env assets s ex;
          (s2, reports) = reconcile_exchanges rs auto_pause env assets s1 exs
      in (s2, r # reports))"

definition reconcile_all ::
  "reconciler list \<Rightarrow> bool \<Rightarrow> recon_env \<Rightarrow> recon_asset list \<Rightarrow> recon_state \<Rightarrow>
     recon_state \<times> reconciliation_report list" where
  "reconcile_all rs auto_pause env assets s =
     reconcile_exchanges rs auto_pause env assets s (remdups (map a_exchange assets))"

text \<open>What is published for a report: each discrepancy, then the summary.\<close>

datatype recon_event =
    ReconciliationDiscrepancy discrepancy
  | ReconciliationCompleted string rat nat nat "recon_action list"

definition report_events :: "reconciliation_report \<Rightarrow> recon_event list" where
  "report_events r =
     map ReconciliationDiscrepancy (rr_discrepancies r)
     @ [ReconciliationCompleted (rr_exchange r) (duration_ms r) (length (rr_discrepancies r))
          (length (critical_discrepancies r)) (actions_taken r)]"

definition clear_discrepancies :: "recon_state \<Rightarrow> recon_state" where
  "clear_discrepancies s =
     s\<lparr>rs_active := [],
       rs_protection := (if pt_is_paused (rs_protection s) then resume_trading (rs_protection s)
                         else rs_protection s)\<rparr>"

section \<open>The engine and its reconcilers\<close>

text \<open>
  What the engine relies on: a reconciler repairs orders, accounts and the session but leaves the
  list of active discrepancies and the protection manager to the engine.
\<close>

locale reconciler_suite =
  fixes reconcilers :: "reconciler list"
  assumes keeps_engine_state: "r \<in> set reconcilers \<Longrightarrow> r env exchange assets s = (s', res) \<Longrightarrow>
    rs_active s' = rs_active s \<and> rs_protection s' = rs_protection s"
begin

lemma run_keeps:
  assumes "set rs \<subseteq> set reconcilers" and "run_reconcilers rs env exchange assets s ds = (s', ds')"
  shows "rs_active s' = rs_active s \<and> rs_protection s' = rs_protection s"
  using assms
proof (induction rs arbitrary: s ds)
  case (Cons r rs)
  obtain s1 res where r: "r env exchange assets s = (s1, res)" by force
  with Cons.prems(1) have "rs_active s1 = rs_active s \<and> rs_protection s1 = rs_protection s"
    using keeps_engine_state [of r] by simp
  with Cons r show ?case by (cases res) auto
qed simp

definition pause_inv :: "recon_state \<Rightarrow> bool" where
  "pause_inv s \<longleftrightarrow> (pt_is_paused (rs_protection s) \<longleftrightarrow> list_ex is_critical (rs_active s))"

lemma pause_policy:
  assumes "pt_is_paused pm \<longleftrightarrow> list_ex is_critical old"
    and "active = filter keep old @ ds"
  shows "pt_is_paused (apply_pause_policy True (list_ex is_critical ds) active pm) \<longleftrightarrow> list_ex is_critical active"
  using assms
  by (auto simp: apply_pause_policy_def has_critical_discrepancy_def pause_trading_def resume_trading_def list_ex_iff)

lemma pause_inv_exchange:
  "pause_inv s \<Longrightarrow> pause_inv (fst (reconcile_exchange reconcilers True env assets s exchange))"
proof -
  assume inv: "pause_inv s"
  obtain s1 ds where run: "run_reconcilers reconcilers env exchange assets s [] = (s1, ds)" by force
  have "rs_active s1 = rs_active s \<and> rs_protection s1 = rs_protection s"
    using run_keeps [OF subset_refl run] .
  then show ?thesis
    using inv pause_policy [of "rs_protection s" "rs_active s" _ "\<lambda>d. upper (dc_exchange d) \<noteq> upper exchange" ds]
    by (simp add: pause_inv_def reconcile_exchange_def run Let_def has_critical_def)
qed

lemma pause_inv_exchanges:
  "pause_inv s \<Longrightarrow> pause_inv (fst (reconcile_exchanges reconcilers True env assets s exs))"
  by (induction exs arbitrary: s) (auto simp: Let_def split_beta pause_inv_exchange)

lemma pause_inv_all: "pause_inv s \<Longrightarrow> pause_inv (fst (reconcile_all reconcilers True env assets s))"
  by (simp add: reconcile_all_def pause_inv_exchanges)

lemma pause_inv_clear: "pause_inv (clear_discrepancies s)"
  by (simp add: pause_inv_def clear_discrepancies_def resume_trading_def)

end

lemma with_session_engine [simp]:
  "rs_active (with_session sm s) = rs_active s" "rs_protection (with_session sm s) = rs_protection s"
  "rs_accounts (with_session sm s) = rs_accounts s" "rs_session (with_session sm s) = sm"
  by (simp_all add: with_session_def)

lemma position_loop_keeps [simp]:
  "rs_active (fst (position_loop env ex as s ds)) = rs_active s"
  "rs_protection (fst (position_loop env ex as s ds)) = rs_protection s"
  by (induction as arbitrary: s ds) (simp_all add: Let_def split_beta split: option.split sum.split)

lemma default_reconciler_keeps:
  assumes "r \<in> set default_reconcilers"
  shows "rs_active (fst (r env exchange assets s)) = rs_active s"
    and "rs_protection (fst (r env exchange assets s)) = rs_protection s"
  using assms
  by (auto simp: default_reconcilers_def balance_reconcile_def order_reconcile_def position_reconcile_def
      fee_reconcile_def fill_reconcile_def Let_def split_beta split: sum.split)

interpretation suite: reconciler_suite default_reconcilers
  by unfold_locales (metis default_reconciler_keeps fst_conv)

text \<open>The life of the engine: cycles of the default reconcilers, clearing by an operator, and
  whatever trading does to the other parts in between.\<close>

datatype engine_op =
    RunCycle recon_env "recon_asset list"
  | ClearDiscrepancies
  | TradingActivity order_manager account_manager fees_manager

fun engine_step :: "recon_state \<Rightarrow> engine_op \<Rightarrow> recon_state" where
  "engine_step s (RunCycle env assets) = fst (reconcile_all default_reconcilers True env assets s)"
| "engine_step s ClearDiscrepancies = clear_discrepancies s"
| "engine_step s (TradingActivity om am fm) = s\<lparr>rs_orders := om, rs_accounts := am, rs_fees := fm\<rparr>"

interpretation engine: stepper engine_step suite.pause_inv
proof
  fix s e assume "suite.pause_inv s"
  then show "suite.pause_inv (engine_step s e)"
    by (cases e) (simp_all add: suite.pause_inv_all suite.pause_inv_clear, simp add: suite.pause_inv_def)
qed

section \<open>Properties\<close>

text \<open>C15.  With automatic pausing, starting unpaused and without discrepancies, after any number of
  reconciliation cycles (any exchange answers and failures), clearings and trading in between,
  trading is paused exactly while a critical discrepancy is active, and then no asset may trade,
  neither buy nor sell.\<close>

theorem trading_paused_iff_critical:
  assumes "rs_active s0 = []" and "\<not> pt_is_paused (rs_protection s0)" and "s = foldl engine_step s0 ops"
  shows "(pt_is_paused (rs_protection s) \<longleftrightarrow> (\<exists>d\<in>set (rs_active s). is_critical d)) \<and>
    ((\<exists>d\<in>set (rs_active s). is_critical d) \<longrightarrow>
       protection_can_trade critical (rs_protection s) k act ctx md = Inr False)"
proof -
  have "suite.pause_inv s"
    unfolding assms(3) by (rule engine.inv_run) (simp add: suite.pause_inv_def assms)
  then show ?thesis
    by (auto simp: suite.pause_inv_def list_ex_iff protection_can_trade_def)
qed

definition demo_recon_state :: recon_state where
  "demo_recon_state =
     \<lparr>rs_orders = init_order_manager False demo_session,
      rs_accounts = fst (cache_balances init_account_manager ''CDC''
        [\<lparr>ab_currency = ''USD'', ab_available_balance = 100\<rparr>] ''WS'' ''UPDATE'' 1),
      rs_fees = [], rs_protection = init_protection_manager, rs_active = []\<rparr>"

definition demo_env :: recon_env where
  "demo_env =
     \<lparr>en_rest_balances = (\<lambda>_. Inl RuntimeError), en_fetch = (\<lambda>_ _. Inr None), en_open_orders = (\<lambda>_. Inr []),
      en_instrument_fees = (\<lambda>_ _. Inl RuntimeError), en_registered = {''CDC''}, en_load_db = DbOk,
      en_db = (\<lambda>_. DbOk), en_uuid_of = (\<lambda>_. []), en_head = None, en_py_hash = (\<lambda>_. 0), en_now = 2\<rparr>"

theorem trading_paused_iff_critical_witness:
  "pt_is_paused (rs_protection (foldl engine_step demo_recon_state [RunCycle demo_env [], ClearDiscrepancies])) \<longleftrightarrow>
   (\<exists>d\<in>set (rs_active (foldl engine_step demo_recon_state [RunCycle demo_env [], ClearDiscrepancies])). is_critical d)"
proof -
  have "rs_active demo_recon_state = []" "\<not> pt_is_paused (rs_protection demo_recon_state)"
    by (simp_all add: demo_recon_state_def init_protection_manager_def)
  from trading_paused_iff_critical [OF this HOL.refl] show ?thesis by blast
qed

text \<open>The fill reconciler cannot report anything: it looks for COMPLETED orders among those the
  repository returns as not terminal, and in every reachable order manager those are never
  COMPLETED.\<close>

theorem fill_reconciler_never_reports:
  assumes "rs_orders s = foldl (order_step uuid_of) (init_order_manager synchronous sm) ops"
  shows "fill_reconcile env exchange assets s = (s, Inr [])"
proof -
  let ?t = "om_orders (rs_orders s)"
  let ?rows = "filter (\<lambda>d. \<not> terminal_status (od_status d)) (dict_values ?t)"
  have "table_ok ?t" unfolding assms by (rule reachable_table_ok)
  then obtain ords where ords: "get_non_terminal ?t = Inr ords" "list_all2 row_of ?rows ords"
    by (rule get_non_terminal_rows)
  have "o_status ord \<noteq> Some COMPLETED" if "ord \<in> set ords" for ord
  proof -
    from that obtain i where "i < length ords" "ord = ords ! i" by (auto simp: in_set_conv_nth)
    with ords(2) have "row_of (?rows ! i) ord" "?rows ! i \<in> set ?rows"
      by (auto simp: list_all2_conv_all_nth simp del: set_filter)
    then show ?thesis by (auto simp: row_of_def terminal_status_value)
  qed
  then show ?thesis
    using ords(1) by (auto simp: fill_reconcile_def get_non_terminal_orders_def filter_empty_conv)
qed

theorem fill_reconciler_never_reports_witness:
  "fill_reconcile demo_env ''CDC'' [] (demo_recon_state\<lparr>rs_orders := foldl (order_step (\<lambda>_. []))
     (init_order_manager True demo_session) demo_ops\<rparr>) =
   (demo_recon_state\<lparr>rs_orders := foldl (order_step (\<lambda>_. [])) (init_order_manager True demo_session) demo_ops\<rparr>, Inr [])"
  by (rule fill_reconciler_never_reports) simp

lemma get_trading_context_modify:
  "get_trading_context sm k = Some ctx \<Longrightarrow> get_trading_context (modify_context k f sm) k = Some (f ctx)"
  by (auto simp: get_trading_context_def modify_context_def map_session_def split: option.splits)

lemma on_balance_changed_context:
  "get_trading_context sm k = Some ctx \<Longrightarrow>
     \<exists>b. get_trading_context (on_balance_changed sm ex c v) k = Some (ctx\<lparr>tc_available_balance := b\<rparr>)"
proof -
  assume "get_trading_context sm k = Some ctx"
  then obtain s where s: "sn_current_session sm = Some s" "dict_get (ts_trading_contexts s) k = Some ctx"
    by (auto simp: get_trading_context_def split: option.splits)
  have "ctx\<lparr>tc_available_balance := tc_available_balance ctx\<rparr> = ctx" by simp
  with s show ?thesis
    by (auto simp: get_trading_context_def on_balance_changed_def map_session_def map_of_map
        intro: exI [of _ v] exI [of _ "tc_available_balance ctx"])
qed

lemma deliver_balances_context:
  "get_trading_context sm k = Some ctx \<Longrightarrow>
     \<exists>b. get_trading_context (deliver_balances evs sm) k = Some (ctx\<lparr>tc_available_balance := b\<rparr>)"
proof (induction evs arbitrary: sm ctx)
  case Nil
  then show ?case by (intro exI [of _ "tc_available_balance ctx"]) (simp add: deliver_balances_def)
next
  case (Cons e evs)
  obtain b where b: "get_trading_context (on_balance_changed sm (bc_exchange e) (bc_currency e) (bc_available e)) k =
      Some (ctx\<lparr>tc_available_balance := b\<rparr>)"
    using on_balance_changed_context [OF Cons.prems] by blast
  from Cons.IH [OF b] show ?case by (simp add: deliver_balances_def)
qed

text \<open>When the position of an asset differs from the base balance by more than dust, the
  reconciler overwrites the position quantity but not the FIFO lots: if the two agreed before,
  as the session guarantees, they disagree afterwards, and the average entry price is kept.\<close>

theorem position_sync_breaks_lots:
  assumes "get_trading_context (rs_session s) (asset_key (en_py_hash env) a) = Some ctx"
    and "tc_position_qty ctx = inventory (tc_position_lots ctx)"
    and "position_reconcile env exchange [a] s = (s', Inr (d # ds))"
  shows "\<exists>ctx'. get_trading_context (rs_session s') (asset_key (en_py_hash env) a) = Some ctx' \<and>
    tc_position_lots ctx' = tc_position_lots ctx \<and> tc_avg_entry_price ctx' = tc_avg_entry_price ctx \<and>
    dc_difference d = Some (tc_position_qty ctx' - inventory (tc_position_lots ctx')) \<and>
    tc_position_qty ctx' \<noteq> inventory (tc_position_lots ctx')"
proof -
  let ?k = "asset_key (en_py_hash env) a"
  obtain am evs res where base: "get_base_balance (en_rest_balances env) (rs_accounts s) a (a_exchange a) (en_now env) =
      (am, evs, res)" by (metis prod_cases3)
  have ex: "upper (a_exchange a) = upper exchange"
    using assms(3) by (auto simp: position_reconcile_def Let_def split: if_splits)
  obtain bal where bal: "res = Inr bal"
    using assms(3) by (cases res) (simp_all add: position_reconcile_def Let_def assms(1) base ex)
  let ?diff = "ab_available_balance bal - tc_position_qty ctx"
  have big: "\<bar>?diff\<bar> > position_dust_threshold"
    and d: "d = position_discrepancy (upper exchange) a ?diff"
    and s': "rs_session s' = modify_context ?k (\<lambda>c. c\<lparr>tc_position_qty := ab_available_balance bal\<rparr>)
      (deliver_balances evs (rs_session s))"
    using assms(3) by (auto simp: position_reconcile_def Let_def assms(1) base bal ex split: if_splits)
  obtain b where "get_trading_context (deliver_balances evs (rs_session s)) ?k = Some (ctx\<lparr>tc_available_balance := b\<rparr>)"
    using deliver_balances_context [OF assms(1)] by blast
  from get_trading_context_modify [OF this] have
    "get_trading_context (rs_session s') ?k =
       Some (ctx\<lparr>tc_available_balance := b, tc_position_qty := ab_available_balance bal\<rparr>)"
    unfolding s' by simp
  moreover have "?diff \<noteq> 0" using big by (auto simp: position_dust_threshold_def)
  moreover have "dc_difference d = Some ?diff" by (simp add: d position_discrepancy_def Let_def)
  ultimately show ?thesis using assms(2) by auto
qed

definition demo_recon_asset :: recon_asset where
  "demo_recon_asset = \<lparr>a_base_ticker_symbol = ''BTC'', a_quote_ticker_symbol = ''USD'', a_exchange = ''CDC'',
     a_separator = None, a_enabled = True, rn_min_quantity = 1\<rparr>"

theorem position_sync_breaks_lots_witness:
  "\<exists>s' d ds ctx'. position_reconcile (demo_env\<lparr>en_rest_balances :=
       (\<lambda>_. Inr [\<lparr>ab_currency = ''BTC'', ab_available_balance = 5\<rparr>])\<rparr>) ''CDC'' [demo_recon_asset] demo_recon_state =
       (s', Inr (d # ds)) \<and>
     get_trading_context (rs_session s') 0 = Some ctx' \<and> tc_position_qty ctx' \<noteq> inventory (tc_position_lots ctx')"
proof -
  let ?env = "demo_env\<lparr>en_rest_balances := (\<lambda>_. Inr [\<lparr>ab_currency = ''BTC'', ab_available_balance = 5\<rparr>])\<rparr>"
  have key: "asset_key (en_py_hash ?env) demo_recon_asset = 0" by (simp add: demo_env_def asset_key_def)
  have ctx: "get_trading_context (rs_session demo_recon_state) 0 = Some (new_context ''BTC_USD'' ''CDC'' 100 None)"
    by (simp add: demo_recon_state_def init_order_manager_def demo_session_def get_trading_context_def
        init_session_manager_def)
  have up: "upper ''CDC'' = ''CDC''" "upper ''BTC'' = ''BTC''" "upper ''USD'' = ''USD''" by code_simp+
  have cached: "cached_balance (rs_accounts demo_recon_state) ''CDC'' ''BTC'' = None"
    by (simp add: demo_recon_state_def cache_balances_def open_exchange_def init_account_manager_def cache_one_def
        update_balance_def new_account_state_def changed_event_def up Let_def cached_balance_def)
  obtain am evs bal where base: "get_base_balance (en_rest_balances ?env) (rs_accounts demo_recon_state) demo_recon_asset
      (a_exchange demo_recon_asset) (en_now ?env) = (am, evs, Inr bal)"
    by (auto simp: get_base_balance_def get_balance_def Let_def reconcile_account_balances_def split_beta
        demo_recon_asset_def up cached)
  have "ab_available_balance bal = 5"
    using balance_read_cases [OF base [unfolded get_base_balance_def]]
    by (auto simp: demo_recon_asset_def up cached reported_def)
  then obtain s' d where r: "position_reconcile ?env ''CDC'' [demo_recon_asset] demo_recon_state = (s', Inr (d # []))"
    using ctx key base
    by (auto simp: position_reconcile_def Let_def demo_recon_asset_def up new_context_def position_dust_threshold_def)
  have "tc_position_qty (new_context ''BTC_USD'' ''CDC'' 100 None) =
      inventory (tc_position_lots (new_context ''BTC_USD'' ''CDC'' 100 None))"
    by (simp add: new_context_def)
  from position_sync_breaks_lots [OF ctx [folded key] this r] r key show ?thesis by auto
qed

section \<open>Balances\<close>

lemma local_map_fold:
  assumes "distinct (dict_keys d)" and "\<forall>c\<in>set (dict_keys d). upper c = c"
    and "set (dict_keys acc) \<inter> set (dict_keys d) = {}"
  shows "foldl (\<lambda>acc (c, b). dict_set (upper c) (ab_available_balance b) acc) acc d =
    acc @ map (\<lambda>(c, b). (c, ab_available_balance b)) d"
  using assms
proof (induction d arbitrary: acc)
  case (Cons cb d)
  obtain c b where cb: "cb = (c, b)" by force
  have "dict_get acc c = None" using Cons.prems(3) cb by (auto simp: map_of_eq_None_iff)
  then have "dict_set c (ab_available_balance b) acc = acc @ [(c, ab_available_balance b)]"
    by (rule dict_set_fresh)
  with Cons cb show ?case by (simp add: Cons.IH)
qed simp

lemma local_map_eq:
  assumes "cache_ok am"
  shows "local_map am ex = map (\<lambda>(c, b). (c, ab_available_balance b)) (opt_or (dict_get (am_balances am) ex) [])"
proof -
  have "cache_keys_ok (opt_or (dict_get (am_balances am) ex) [])"
    using assms by (cases "dict_get (am_balances am) ex")
      (simp_all add: cache_ok_def cache_keys_ok_def [of "[]"] dict_all_get)
  then show ?thesis
    unfolding local_map_def by (subst local_map_fold) (simp_all add: cache_keys_ok_def dict_wf_def)
qed

lemma local_map_member:
  assumes "cache_ok am"
  shows "(c, v) \<in> set (local_map am ex) \<longleftrightarrow> map_option ab_available_balance (cached_balance am ex c) = Some v"
proof (cases "dict_get (am_balances am) ex")
  case None
  then show ?thesis by (simp add: local_map_eq [OF assms] cached_balance_def)
next
  case (Some d)
  then have wf: "dict_wf d" using assms by (auto simp: cache_ok_def cache_keys_ok_def dest: dict_all_get)
  have "(c, v) \<in> set (local_map am ex) \<longleftrightarrow> (\<exists>b. (c, b) \<in> set d \<and> ab_available_balance b = v)"
    using Some by (force simp: local_map_eq [OF assms])
  also have "\<dots> \<longleftrightarrow> (\<exists>b. dict_get d c = Some b \<and> ab_available_balance b = v)"
    using wf by (simp add: dict_wf_get_iff)
  finally show ?thesis using Some by (auto simp: cached_balance_def)
qed

lemma exchange_map_get: "dict_get (exchange_map bals) c = map_option ab_available_balance (reported bals c)"
proof -
  have "dict_get (foldl (\<lambda>d b. dict_set (upper (ab_currency b)) (ab_available_balance b) d) acc bals) c =
      (case reported bals c of Some b \<Rightarrow> Some (ab_available_balance b) | None \<Rightarrow> dict_get acc c)" for acc
  proof (induction bals rule: rev_induct)
    case (snoc b bals)
    then show ?case by (simp add: reported_def)
  qed (simp add: reported_def)
  then show ?thesis by (simp add: exchange_map_def split: option.split)
qed

text \<open>Balance reconciliation repairs what the exchange reports and nothing else.  After a cycle,
  a second cycle with the same answer reports only currencies missing from the answer; and a
  cached currency that the answer omits, holding one unit or more, is reported as critical in
  every cycle, since its cached balance is never written although the discrepancy says it was
  synchronised.\<close>

theorem balance_sync_reported_only:
  assumes "rs_accounts s = fst (run_events account_step init_account_manager ops)"
    and "en_rest_balances env exchange = Inr bals" and "bals \<noteq> []"
    and "balance_reconcile env exchange assets s = (s1, Inr ds1)"
    and "balance_reconcile env' exchange assets' s1 = (s2, Inr ds2)"
    and "en_rest_balances env' exchange = Inr bals"
  shows "(\<forall>d\<in>set ds2. reported bals (dc_asset_or_currency d) = None) \<and>
    (\<forall>c b. cached_balance (rs_accounts s) (upper exchange) c = Some b \<and> reported bals c = None \<and>
       1 \<le> ab_available_balance b \<longrightarrow>
       (\<exists>d\<in>set ds2. dc_asset_or_currency d = c \<and> is_critical d \<and> d \<in> set ds1))"
proof -
  let ?ex = "upper exchange"
  have ok: "cache_ok (rs_accounts s)" unfolding assms(1) by (rule reachable_cache_ok)
  have am1: "rs_accounts s1 = fst (cache_balances (rs_accounts s) ?ex bals ''REST_RECONCILIATION''
      ''AUTHORITATIVE_SYNC'' (en_now env))"
    and ds1: "ds1 = concat (map (balance_discrepancy ?ex (exchange_map bals)) (local_map (rs_accounts s) ?ex))"
    using assms(4) by (auto simp: balance_reconcile_def assms(2,3) Let_def split_beta)
  have ds2: "ds2 = concat (map (balance_discrepancy ?ex (exchange_map bals)) (local_map (rs_accounts s1) ?ex))"
    using assms(5) by (auto simp: balance_reconcile_def assms(3,6) Let_def split_beta)
  have ok1: "cache_ok (rs_accounts s1)" unfolding am1 by (rule cache_ok_balances [OF ok])
  have cached1: "cached_balance (rs_accounts s1) ?ex c =
      (case reported bals c of None \<Rightarrow> cached_balance (rs_accounts s) ?ex c | Some b \<Rightarrow> Some b)" for c
    using cached_balance_cache [of "rs_accounts s" ?ex bals] unfolding am1 by (simp split: option.split)
  have "reported bals (dc_asset_or_currency d) = None" if "d \<in> set ds2" for d
  proof -
    from that obtain c v where cv: "(c, v) \<in> set (local_map (rs_accounts s1) ?ex)"
      "d \<in> set (balance_discrepancy ?ex (exchange_map bals) (c, v))"
      unfolding ds2 by auto
    then have "dc_asset_or_currency d = c" "\<bar>opt_or (dict_get (exchange_map bals) c) 0 - v\<bar> > balance_warning_threshold"
      by (auto simp: balance_discrepancy_def Let_def split: if_splits)
    moreover have "map_option ab_available_balance (cached_balance (rs_accounts s1) ?ex c) = Some v"
      using cv(1) local_map_member [OF ok1] by simp
    ultimately show ?thesis
      by (cases "reported bals c") (auto simp: cached1 exchange_map_get balance_warning_threshold_def)
  qed
  moreover have "\<exists>d\<in>set ds2. dc_asset_or_currency d = c \<and> is_critical d \<and> d \<in> set ds1"
    if "cached_balance (rs_accounts s) ?ex c = Some b" "reported bals c = None" "1 \<le> ab_available_balance b" for c b
  proof -
    let ?v = "ab_available_balance b"
    let ?d = "\<lparr>dc_type = BALANCE_MISMATCH, dc_severity = CRITICAL, dc_exchange = ?ex, dc_asset_or_currency = c,
      dc_difference = Some (- ?v), dc_action_taken = TRADING_PAUSED_AND_LOCAL_SYNCED, dc_order_uuid = None\<rparr>"
    have "balance_discrepancy ?ex (exchange_map bals) (c, ?v) = [?d]"
      using that(2,3)
      by (simp add: balance_discrepancy_def Let_def exchange_map_get balance_warning_threshold_def
          balance_critical_threshold_def)
    moreover have "(c, ?v) \<in> set (local_map (rs_accounts s) ?ex)" "(c, ?v) \<in> set (local_map (rs_accounts s1) ?ex)"
      using that(1,2) by (simp_all add: local_map_member [OF ok] local_map_member [OF ok1] cached1)
    ultimately have "?d \<in> set ds2" "?d \<in> set ds1" unfolding ds1 ds2 by force+
    then show ?thesis by (intro bexI [of _ ?d]) (simp_all add: is_critical_def)
  qed
  ultimately show ?thesis by blast
qed

theorem balance_sync_reported_only_witness:
  "\<exists>s1 ds1 s2 ds2. balance_reconcile (demo_env\<lparr>en_rest_balances :=
       (\<lambda>_. Inr [\<lparr>ab_currency = ''BTC'', ab_available_balance = 5\<rparr>])\<rparr>) ''CDC'' [] demo_recon_state = (s1, Inr ds1) \<and>
     balance_reconcile (demo_env\<lparr>en_rest_balances :=
       (\<lambda>_. Inr [\<lparr>ab_currency = ''BTC'', ab_available_balance = 5\<rparr>])\<rparr>) ''CDC'' [] s1 = (s2, Inr ds2) \<and>
     (\<exists>d\<in>set ds2. dc_asset_or_currency d = ''USD'' \<and> is_critical d)"
proof -
  let ?bals = "[\<lparr>ab_currency = ''BTC'', ab_available_balance = 5\<rparr>]"
  let ?env = "demo_env\<lparr>en_rest_balances := (\<lambda>_. Inr ?bals)\<rparr>"
  let ?op = "(WsBalances ''CDC'' [\<lparr>ab_currency = ''USD'', ab_available_balance = 100\<rparr>], 1)"
  have up: "upper ''CDC'' = ''CDC''" "upper ''BTC'' = ''BTC''" "upper ''USD'' = ''USD''" by code_simp+
  have acc: "rs_accounts demo_recon_state = fst (run_events account_step init_account_manager [?op])"
    by (simp add: demo_recon_state_def Let_def split_beta)
  obtain s1 ds1 where r1: "balance_reconcile ?env ''CDC'' [] demo_recon_state = (s1, Inr ds1)"
    by (simp add: balance_reconcile_def Let_def split_beta)
  obtain s2 ds2 where r2: "balance_reconcile ?env ''CDC'' [] s1 = (s2, Inr ds2)"
    by (simp add: balance_reconcile_def Let_def split_beta)
  have "cached_balance (rs_accounts demo_recon_state) ''CDC'' ''USD'' =
      Some \<lparr>ab_currency = ''USD'', ab_available_balance = 100\<rparr>"
    using cached_balance_cache [of init_account_manager "''CDC''"
        "[\<lparr>ab_currency = ''USD'', ab_available_balance = 100\<rparr>]" "''WS''" "''UPDATE''" 1 "''USD''"]
    by (simp add: demo_recon_state_def up reported_def)
  moreover have "reported ?bals ''USD'' = None" by (simp add: reported_def up)
  ultimately have "\<exists>d\<in>set ds2. dc_asset_or_currency d = ''USD'' \<and> is_critical d \<and> d \<in> set ds1"
    using balance_sync_reported_only [OF acc _ _ r1 r2] by (simp add: up)
  with r1 r2 show ?thesis by blast
qed

end
