(* ===== verification/EventBus.thy ===== *)
theory EventBus
  imports Prelude "HOL-Library.Sublist"
begin

text \<open>
  The in-process event bus (\<open>src/src/events/message_event_bus.py\<close>) and the bounded queue a
  web-socket client reads from (\<open>src/src/events/message_subscription.py\<close>).

  Subscription objects live in a heap and the bus holds their addresses: \<open>publish\<close> compares
  objects by identity.  A callback is represented by the events it was called with; a callback
  that raises is called all the same, since the bus swallows the exception.  Python iterates the
  set of an event's type names in an arbitrary order, which is the argument \<open>order\<close> of
  \<open>publish\<close>.  Every method is one step.
\<close>

section \<open>Bounded subscription\<close>

record 'e message_subscription =
  ms_max_size :: int
  ms_queue :: "'e option list"
  ms_dropped :: nat
  ms_closed :: bool

definition new_subscription :: "int \<Rightarrow> 'e message_subscription" where
  "new_subscription max_size =
     \<lparr>ms_max_size = max_size, ms_queue = [], ms_dropped = 0, ms_closed = False\<rparr>"

text \<open>\<open>queue.Queue.put_nowait\<close>: \<open>None\<close> when the queue is full; a size of zero or less is no bound.\<close>

definition put_nowait :: "int \<Rightarrow> 'a \<Rightarrow> 'a list \<Rightarrow> 'a list option" where
  "put_nowait max_size x q =
     (if 0 < max_size \<and> max_size \<le> int (length q) then None else Some (q @ [x]))"

text \<open>\<open>get_nowait\<close> with the \<open>Empty\<close> exception swallowed, then \<open>put_nowait\<close> with \<open>Full\<close> swallowed.\<close>

definition force_put :: "int \<Rightarrow> 'a \<Rightarrow> 'a list \<Rightarrow> 'a list" where
  "force_put max_size x q = opt_or (put_nowait max_size x (tl q)) (tl q)"

definition subscription_put :: "'e \<Rightarrow> 'e message_subscription \<Rightarrow> 'e message_subscription" where
  "subscription_put e s =
     (if ms_closed s then s
      else case put_nowait (ms_max_size s) (Some e) (ms_queue s) of
             Some q \<Rightarrow> s\<lparr>ms_queue := q\<rparr>
           | None \<Rightarrow> s\<lparr>ms_queue := force_put (ms_max_size s) (Some e) (ms_queue s),
                      ms_dropped := ms_dropped s + 1\<rparr>)"

text \<open>\<open>get\<close> returns the head, or raises \<open>queue.Empty\<close> after its timeout (\<open>None\<close>).\<close>

definition subscription_get :: "'e message_subscription \<Rightarrow> 'e message_subscription \<times> 'e option option" where
  "subscription_get s =
     (case ms_queue s of [] \<Rightarrow> (s, None) | x # q \<Rightarrow> (s\<lparr>ms_queue := q\<rparr>, Some x))"

definition take_dropped :: "'e message_subscription \<Rightarrow> 'e message_subscription \<times> nat" where
  "take_dropped s = (s\<lparr>ms_dropped := 0\<rparr>, ms_dropped s)"

definition subscription_close :: "'e message_subscription \<Rightarrow> 'e message_subscription" where
  "subscription_close s =
     (if ms_closed s then s
      else s\<lparr>ms_closed := True,
             ms_queue := (case put_nowait (ms_max_size s) None (ms_queue s) of
                            Some q \<Rightarrow> q
                          | None \<Rightarrow> force_put (ms_max_size s) None (ms_queue s))\<rparr>)"

section \<open>The bus\<close>

record event =
  ev_id :: string
  ev_type :: string
  ev_alias :: "string option"
  ev_class_name :: string

datatype subscriber =
    Callback "event list" bool
  | Mailbox "event message_subscription"

fun subscriber_put :: "event \<Rightarrow> subscriber \<Rightarrow> subscriber" where
  "subscriber_put e (Callback calls off) = Callback (if off then calls else calls @ [e]) off"
| "subscriber_put e (Mailbox s) = Mailbox (subscription_put e s)"

record event_bus =
  eb_subscriptions :: "(string, (string, nat) dict) dict"
  eb_heap :: "nat \<Rightarrow> subscriber"

definition empty_bus :: "(nat \<Rightarrow> subscriber) \<Rightarrow> event_bus" where
  "empty_bus heap = \<lparr>eb_subscriptions = [], eb_heap = heap\<rparr>"

definition subscribe :: "string \<Rightarrow> string \<Rightarrow> nat \<Rightarrow> event_bus \<Rightarrow> event_bus" where
  "subscribe sid event_type addr b =
     b\<lparr>eb_subscriptions :=
         dict_set event_type
           (dict_set sid addr (opt_or (dict_get (eb_subscriptions b) event_type) []))
           (eb_subscriptions b)\<rparr>"

fun unsubscribe_first ::
  "string \<Rightarrow> (string, (string, nat) dict) dict \<Rightarrow> (string, (string, nat) dict) dict" where
  "unsubscribe_first sid [] = []"
| "unsubscribe_first sid ((et, subs) # d) =
     (if sid \<in> set (dict_keys subs) then (et, dict_del sid subs) # d
      else (et, subs) # unsubscribe_first sid d)"

definition unsubscribe :: "string \<Rightarrow> event_bus \<Rightarrow> event_bus" where
  "unsubscribe sid b = b\<lparr>eb_subscriptions := unsubscribe_first sid (eb_subscriptions b)\<rparr>"

definition event_types :: "event \<Rightarrow> string set" where
  "event_types e =
     {ev_type e} \<union> (if truthy (ev_alias e) then {the (ev_alias e)} else {})
     \<union> (if ev_class_name e \<noteq> ev_type e then {ev_class_name e} else {})"

text \<open>The addresses collected under the lock, in the order of the set of type names.\<close>

definition subscribers_of :: "event_bus \<Rightarrow> string list \<Rightarrow> nat list" where
  "subscribers_of b order =
     concat (map (\<lambda>et. dict_values (opt_or (dict_get (eb_subscriptions b) et) [])) order)"

fun deliver :: "event \<Rightarrow> nat set \<Rightarrow> nat list \<Rightarrow> (nat \<Rightarrow> subscriber) \<Rightarrow> nat \<Rightarrow> subscriber" where
  "deliver e seen [] heap = heap"
| "deliver e seen (a # as) heap =
     (if a \<in> seen then deliver e seen as heap
      else deliver e (insert a seen) as (heap(a := subscriber_put e (heap a))))"

definition publish :: "string list \<Rightarrow> event \<Rightarrow> event_bus \<Rightarrow> event_bus" where
  "publish order e b = b\<lparr>eb_heap := deliver e {} (subscribers_of b order) (eb_heap b)\<rparr>"

definition subscriber_count :: "event_bus \<Rightarrow> string option \<Rightarrow> nat" where
  "subscriber_count b et =
     (case et of
        Some t \<Rightarrow> length (opt_or (dict_get (eb_subscriptions b) t) [])
      | None \<Rightarrow> sum_list (map length (dict_values (eb_subscriptions b))))"

definition bus_close :: "event_bus \<Rightarrow> event_bus" where
  "bus_close b = b\<lparr>eb_subscriptions := []\<rparr>"

section \<open>A bounded mailbox that keeps the newest\<close>

text \<open>
  The contract of a queue that makes room by dropping its oldest entry: what it holds after a
  burst of messages, and how many it lost.
\<close>

locale newest_mailbox =
  fixes send :: "'m \<Rightarrow> 'q \<Rightarrow> 'q"
    and contents :: "'q \<Rightarrow> 'm list"
    and lost :: "'q \<Rightarrow> nat"
    and ok :: "'q \<Rightarrow> bool"
    and cap :: nat
  assumes ok_send: "ok q \<Longrightarrow> ok (send m q)"
    and bounded: "ok q \<Longrightarrow> length (contents q) \<le> cap"
    and send_room: "ok q \<Longrightarrow> length (contents q) < cap \<Longrightarrow>
      contents (send m q) = contents q @ [m] \<and> lost (send m q) = lost q"
    and send_full: "ok q \<Longrightarrow> length (contents q) = cap \<Longrightarrow>
      contents (send m q) = tl (contents q) @ [m] \<and> lost (send m q) = lost q + 1"
    and cap_pos: "0 < cap"
begin

lemma ok_burst: "ok q \<Longrightarrow> ok (fold send ms q)"
  by (induction ms arbitrary: q) (simp_all add: ok_send)

lemma send_newest:
  assumes "ok q"
  shows "contents (send m q) = drop (length (contents q) + 1 - cap) (contents q @ [m])"
proof (cases "length (contents q) = cap")
  case True
  then show ?thesis using assms cap_pos send_full [OF assms True] by (simp add: drop_Suc)
next
  case False
  then have "length (contents q) < cap" using bounded [OF assms] by simp
  then show ?thesis using send_room [OF assms] by simp
qed

lemma send_accounts: "ok q \<Longrightarrow>
  length (contents (send m q)) + lost (send m q) = length (contents q) + lost q + 1"
  using send_room [of q m] send_full [of q m] bounded [of q] cap_pos
  by (cases "length (contents q) = cap") auto

lemma burst_accounts: "ok q \<Longrightarrow>
  length (contents (fold send ms q)) + lost (fold send ms q) = length (contents q) + lost q + length ms"
  by (induction ms arbitrary: q) (simp_all add: ok_send send_accounts)

lemma burst_newest: "ok q \<Longrightarrow>
  contents (fold send ms q) = drop (length (contents q) + length ms - cap) (contents q @ ms)"
proof (induction ms arbitrary: q)
  case Nil
  then show ?case using bounded [of q] by simp
next
  case (Cons m ms)
  let ?n = "length (contents q)"
  have le: "?n \<le> cap" using bounded Cons.prems by blast
  have c: "contents (send m q) = drop (?n + 1 - cap) (contents q @ [m])"
    by (rule send_newest) fact
  have "contents (fold send (m # ms) q)
      = drop (length (contents (send m q)) + length ms - cap) (contents (send m q) @ ms)"
    using Cons by (simp add: ok_send)
  also have "\<dots> = drop (?n + length (m # ms) - cap) (contents q @ m # ms)"
  proof (cases "?n = cap")
    case True
    then have "contents q \<noteq> []" using cap_pos by auto
    then show ?thesis using True cap_pos
      by (cases "contents q") (simp_all add: c)
  next
    case False
    then show ?thesis using le by (simp add: c)
  qed
  finally show ?case .
qed

end

definition open_bounded :: "nat \<Rightarrow> 'e message_subscription \<Rightarrow> bool" where
  "open_bounded n s \<longleftrightarrow> \<not> ms_closed s \<and> ms_max_size s = int (Suc n) \<and> length (ms_queue s) \<le> Suc n"

lemma force_put_full:
  "0 < m \<Longrightarrow> int (length q) = m \<Longrightarrow> force_put m x q = tl q @ [x]"
  by (cases q) (auto simp: force_put_def put_nowait_def)

lemma subscription_put_room:
  "open_bounded n s \<Longrightarrow> length (ms_queue s) < Suc n \<Longrightarrow>
     subscription_put e s = s\<lparr>ms_queue := ms_queue s @ [Some e]\<rparr>"
  by (simp add: open_bounded_def subscription_put_def put_nowait_def)

lemma subscription_put_full:
  "open_bounded n s \<Longrightarrow> length (ms_queue s) = Suc n \<Longrightarrow>
     subscription_put e s = s\<lparr>ms_queue := tl (ms_queue s) @ [Some e], ms_dropped := ms_dropped s + 1\<rparr>"
  by (simp add: open_bounded_def subscription_put_def put_nowait_def force_put_full)

lemma open_bounded_put: "open_bounded n s \<Longrightarrow> open_bounded n (subscription_put e s)"
  using subscription_put_room [of n s e] subscription_put_full [of n s e]
  by (cases "length (ms_queue s) = Suc n") (auto simp: open_bounded_def)

interpretation inbox: newest_mailbox
  subscription_put "\<lambda>s. map the (ms_queue s)" ms_dropped "open_bounded n" "Suc n" for n
proof unfold_locales
  fix s :: "'a message_subscription" and m
  assume ok: "open_bounded n s"
  then show "open_bounded n (subscription_put m s)" by (rule open_bounded_put)
  show "length (map the (ms_queue s)) \<le> Suc n" using ok by (simp add: open_bounded_def)
  show "map the (ms_queue (subscription_put m s)) = map the (ms_queue s) @ [m] \<and>
      ms_dropped (subscription_put m s) = ms_dropped s"
    if "length (map the (ms_queue s)) < Suc n"
    using that ok by (simp add: subscription_put_room)
  show "map the (ms_queue (subscription_put m s)) = tl (map the (ms_queue s)) @ [m] \<and>
      ms_dropped (subscription_put m s) = ms_dropped s + 1"
    if "length (map the (ms_queue s)) = Suc n"
    using that ok by (simp add: subscription_put_full map_tl)
qed simp

text \<open>A burst into a fresh subscription of size \<open>n + 1\<close> leaves its newest entries and counts the others.\<close>

lemma burst_keeps_newest:
  "map the (ms_queue (fold subscription_put es (new_subscription (int (Suc n))))) = drop (length es - Suc n) es \<and>
   ms_dropped (fold subscription_put es (new_subscription (int (Suc n)))) = length es - Suc n"
proof -
  have ok: "open_bounded n (new_subscription (int (Suc n)) :: 'a message_subscription)"
    by (simp add: open_bounded_def new_subscription_def)
  show ?thesis
    using inbox.burst_newest [OF ok, of es] inbox.burst_accounts [OF ok, of es]
    by (auto simp: new_subscription_def dest: arg_cong [of _ _ length])
qed

section \<open>Runs of a subscription\<close>

datatype 'e mailbox_op = Put 'e | Get | TakeDropped | Close

record 'e mailbox_run =
  mr_sub :: "'e message_subscription"
  mr_published :: "'e list"
  mr_received :: "'e list"
  mr_reported :: nat

definition start_run :: "int \<Rightarrow> 'e mailbox_run" where
  "start_run m = \<lparr>mr_sub = new_subscription m, mr_published = [], mr_received = [], mr_reported = 0\<rparr>"

fun mailbox_step :: "'e mailbox_run \<Rightarrow> 'e mailbox_op \<Rightarrow> 'e mailbox_run" where
  "mailbox_step r (Put e) =
     r\<lparr>mr_sub := subscription_put e (mr_sub r),
       mr_published := (if ms_closed (mr_sub r) then mr_published r else mr_published r @ [e])\<rparr>"
| "mailbox_step r Get =
     (case subscription_get (mr_sub r) of
        (s, Some (Some e)) \<Rightarrow> r\<lparr>mr_sub := s, mr_received := mr_received r @ [e]\<rparr>
      | (s, _) \<Rightarrow> r\<lparr>mr_sub := s\<rparr>)"
| "mailbox_step r TakeDropped =
     r\<lparr>mr_sub := fst (take_dropped (mr_sub r)),
       mr_reported := mr_reported r + snd (take_dropped (mr_sub r))\<rparr>"
| "mailbox_step r Close = r\<lparr>mr_sub := subscription_close (mr_sub r)\<rparr>"

definition queued_events :: "'e message_subscription \<Rightarrow> 'e list" where
  "queued_events s = List.map_filter id (ms_queue s)"

definition missing :: "'e mailbox_run \<Rightarrow> nat" where
  "missing r = length (mr_received r) + length (queued_events (mr_sub r))
     + ms_dropped (mr_sub r) + mr_reported r"

definition mailbox_inv :: "int \<Rightarrow> 'e mailbox_run \<Rightarrow> bool" where
  "mailbox_inv m r \<longleftrightarrow>
     ms_max_size (mr_sub r) = m \<and> 0 < m \<and>
     int (length (ms_queue (mr_sub r))) \<le> m \<and>
     (ms_closed (mr_sub r) \<or> None \<notin> set (ms_queue (mr_sub r))) \<and>
     subseq (mr_received r @ queued_events (mr_sub r)) (mr_published r) \<and>
     missing r \<le> length (mr_published r) \<and>
     length (mr_published r) \<le> missing r + (if ms_closed (mr_sub r) then 1 else 0)"

lemma map_filter_id_simps [simp]:
  "List.map_filter id [] = []"
  "List.map_filter id (Some e # q) = e # List.map_filter id q"
  "List.map_filter id (None # q) = List.map_filter id q"
  "List.map_filter id (q @ q') = List.map_filter id q @ List.map_filter id q'"
  by (simp_all add: List.map_filter_def)

lemma put_nowait_room: "int (length q) < m \<Longrightarrow> put_nowait m x q = Some (q @ [x])"
  by (simp add: put_nowait_def)

lemma put_nowait_full: "0 < m \<Longrightarrow> int (length q) = m \<Longrightarrow> put_nowait m x q = None"
  by (simp add: put_nowait_def)

lemma subseq_drop_oldest: "subseq (xs @ y # ys) zs \<Longrightarrow> subseq (xs @ ys) zs"
proof -
  assume "subseq (xs @ y # ys) zs"
  moreover have "subseq (xs @ ys) (xs @ y # ys)"
    by (rule list_emb_append_mono) auto
  ultimately show ?thesis by (rule subseq_order.trans [rotated])
qed

lemma mailbox_inv_put: "mailbox_inv m r \<Longrightarrow> mailbox_inv m (mailbox_step r (Put e))"
proof -
  assume inv: "mailbox_inv m r"
  let ?s = "mr_sub r"
  show ?thesis
  proof (cases "ms_closed ?s")
    case True
    then show ?thesis using inv by (simp add: mailbox_inv_def subscription_put_def missing_def)
  next
    case False
    note open_simps = mailbox_inv_def subscription_put_def missing_def queued_events_def
    show ?thesis
    proof (cases "int (length (ms_queue ?s)) = m")
      case True
      then obtain x q where q: "ms_queue ?s = Some x # q"
        using inv False by (cases "ms_queue ?s"; cases "hd (ms_queue ?s)") (auto simp: mailbox_inv_def)
      have "subseq (mr_received r @ List.map_filter id q) (mr_published r)"
        using inv q by (auto simp: open_simps intro: subseq_drop_oldest)
      then have "subseq ((mr_received r @ List.map_filter id q) @ [e]) (mr_published r @ [e])"
        by (rule list_emb_append_mono) simp
      then show ?thesis using inv False True q
        by (simp add: open_simps put_nowait_full force_put_full)
    next
      case not_full: False
      then have "int (length (ms_queue ?s)) < m" using inv by (auto simp: mailbox_inv_def)
      moreover have "subseq ((mr_received r @ queued_events ?s) @ [e]) (mr_published r @ [e])"
        by (rule list_emb_append_mono) (use inv in \<open>simp_all add: mailbox_inv_def\<close>)
      ultimately show ?thesis using inv False
        by (simp add: open_simps put_nowait_room)
    qed
  qed
qed

lemma mailbox_inv_get: "mailbox_inv m r \<Longrightarrow> mailbox_inv m (mailbox_step r Get)"
  by (cases "ms_queue (mr_sub r)"; cases "hd (ms_queue (mr_sub r))")
    (auto simp: mailbox_inv_def subscription_get_def missing_def queued_events_def)

lemma mailbox_inv_close: "mailbox_inv m r \<Longrightarrow> mailbox_inv m (mailbox_step r Close)"
proof -
  assume inv: "mailbox_inv m r"
  let ?s = "mr_sub r"
  note close_simps = mailbox_inv_def subscription_close_def missing_def queued_events_def
  show ?thesis
  proof (cases "ms_closed ?s \<or> int (length (ms_queue ?s)) < m")
    case True
    then show ?thesis using inv by (auto simp: close_simps put_nowait_room)
  next
    case False
    then have full: "\<not> ms_closed ?s" "int (length (ms_queue ?s)) = m"
      using inv by (auto simp: mailbox_inv_def)
    then obtain x q where q: "ms_queue ?s = Some x # q"
      using inv by (cases "ms_queue ?s"; cases "hd (ms_queue ?s)") (auto simp: mailbox_inv_def)
    have "subseq (mr_received r @ List.map_filter id q) (mr_published r)"
      using inv q by (auto simp: close_simps intro: subseq_drop_oldest)
    then show ?thesis using inv full q by (simp add: close_simps put_nowait_full force_put_full)
  qed
qed

lemma mailbox_inv_take: "mailbox_inv m r \<Longrightarrow> mailbox_inv m (mailbox_step r TakeDropped)"
  by (auto simp: mailbox_inv_def take_dropped_def missing_def queued_events_def)

lemma mailbox_inv_step: "mailbox_inv m r \<Longrightarrow> mailbox_inv m (mailbox_step r op)"
  by (cases op) (simp_all only: mailbox_inv_put mailbox_inv_get mailbox_inv_take mailbox_inv_close)

interpretation mailbox: stepper mailbox_step "mailbox_inv m" for m
  by unfold_locales (rule mailbox_inv_step)

lemma mailbox_inv_start: "0 < m \<Longrightarrow> mailbox_inv m (start_run m)"
  by (simp add: mailbox_inv_def start_run_def new_subscription_def missing_def queued_events_def)

text \<open>A subscription never holds more than its maximal size; what the reader has received,
  followed by what is still queued, is the published sequence with some entries left out, in the
  published order; and every entry left out is counted.  Only closing a full queue loses one entry
  uncounted, so the count of an open subscription is exact.\<close>

theorem subscription_bounded_in_order:
  assumes "0 < m" and "r = foldl mailbox_step (start_run m) ops"
  shows "int (length (ms_queue (mr_sub r))) \<le> m \<and>
    subseq (mr_received r @ queued_events (mr_sub r)) (mr_published r) \<and>
    (\<not> ms_closed (mr_sub r) \<longrightarrow> length (mr_published r) = missing r) \<and>
    length (mr_published r) - missing r \<le> 1"
proof -
  have "mailbox_inv m r"
    unfolding assms(2) by (intro mailbox.inv_run mailbox_inv_start assms(1))
  then show ?thesis by (auto simp: mailbox_inv_def split: if_splits)
qed

theorem subscription_bounded_in_order_witness:
  "ms_queue (mr_sub (foldl mailbox_step (start_run 2)
     [Put ''a'', Put ''b'', Put ''c'', Get, TakeDropped, Put ''d'', Close])) = [Some ''d'', None] \<and>
   (let r = foldl mailbox_step (start_run 2)
     [Put ''a'', Put ''b'', Put ''c'', Get, TakeDropped, Put ''d'', Close]
    in int (length (ms_queue (mr_sub r))) \<le> 2)"
  using subscription_bounded_in_order [of 2 _ "[Put ''a'', Put ''b'', Put ''c'', Get, TakeDropped, Put ''d'', Close]",
      OF _ HOL.refl]
  by (simp add: Let_def start_run_def new_subscription_def subscription_put_def put_nowait_def
      force_put_def subscription_get_def take_dropped_def subscription_close_def)

section \<open>Delivery\<close>

lemma deliver_seen:
  "deliver e seen as heap a = (if a \<in> set as \<and> a \<notin> seen then subscriber_put e (heap a) else heap a)"
  by (induction as arbitrary: seen heap) simp_all

lemma set_subscribers_of:
  "a \<in> set (subscribers_of b order) \<longleftrightarrow>
     (\<exists>et \<in> set order. \<exists>subs. dict_get (eb_subscriptions b) et = Some subs \<and> a \<in> set (dict_values subs))"
proof -
  have "a \<in> set (dict_values (opt_or m [])) \<longleftrightarrow> (\<exists>subs. m = Some subs \<and> a \<in> set (dict_values subs))"
    for m :: "(string, nat) dict option"
    by (cases m) simp_all
  then show ?thesis unfolding subscribers_of_def by simp
qed

definition listens :: "event_bus \<Rightarrow> nat \<Rightarrow> event \<Rightarrow> bool" where
  "listens b a e \<longleftrightarrow>
     (\<exists>et \<in> event_types e. \<exists>subs. dict_get (eb_subscriptions b) et = Some subs \<and> a \<in> set (dict_values subs))"

lemma publish_heap:
  "set order = event_types e \<Longrightarrow>
     eb_heap (publish order e b) a = (if listens b a e then subscriber_put e (eb_heap b a) else eb_heap b a)"
  by (simp add: publish_def deliver_seen set_subscribers_of listens_def)

lemma listens_subscribe:
  "et \<in> event_types e \<Longrightarrow> listens (subscribe sid et a b) a e"
proof -
  have "a \<in> set (dict_values (dict_set sid a d))" for d :: "(string, nat) dict"
    by (induction d) auto
  then show "et \<in> event_types e \<Longrightarrow> ?thesis" by (auto simp: listens_def subscribe_def)
qed

text \<open>Publishing an event hands it exactly once to every subscriber registered under any of the
  event's names, and to no other, whatever order the names are visited in: a subscriber registered
  under both the type and its alias receives one copy.  Publishing does not change who is
  subscribed, and a subscriber registered under one of the event's names is reached.\<close>

theorem publish_delivers_once:
  assumes "set order = event_types e"
  shows "eb_subscriptions (publish order e b) = eb_subscriptions b \<and>
    eb_heap (publish order e b) a =
      (if listens b a e then subscriber_put e (eb_heap b a) else eb_heap b a) \<and>
    (set order' = event_types e \<longrightarrow> publish order' e b = publish order e b) \<and>
    (et \<in> event_types e \<longrightarrow> listens (subscribe sid et a b) a e)"
proof -
  have "publish order' e b = publish order e b" if "set order' = event_types e"
    using publish_heap [OF assms, of b] publish_heap [OF that, of b]
    by (intro event_bus.equality ext) (simp_all add: publish_def)
  moreover have "eb_heap (publish order e b) a =
      (if listens b a e then subscriber_put e (eb_heap b a) else eb_heap b a)"
    by (rule publish_heap) (rule assms)
  ultimately show ?thesis by (simp add: publish_def listens_subscribe)
qed

definition demo_event :: event where
  "demo_event = \<lparr>ev_id = ''1'', ev_type = ''order.filled'', ev_alias = Some ''OrderFilled'',
     ev_class_name = ''OrderFilled''\<rparr>"

definition demo_bus :: event_bus where
  "demo_bus = subscribe ''s2'' ''OrderFilled'' 0 (subscribe ''s1'' ''order.filled'' 0
     (empty_bus (\<lambda>_. Callback [] False)))"

theorem publish_delivers_once_witness:
  "eb_heap (publish [''order.filled'', ''OrderFilled''] demo_event demo_bus) 0 = Callback [demo_event] False \<and>
   eb_heap (publish [''order.filled'', ''OrderFilled''] demo_event demo_bus) 1 = Callback [] False"
proof -
  have "set [''order.filled'', ''OrderFilled''] = event_types demo_event"
    by (auto simp: event_types_def demo_event_def truthy_def)
  note once = publish_delivers_once [OF this, of demo_bus]
  have "listens demo_bus 0 demo_event" and "\<not> listens demo_bus 1 demo_event"
    by (auto simp: listens_def demo_bus_def subscribe_def empty_bus_def event_types_def demo_event_def
        truthy_def split: if_splits)
  then show ?thesis using once [of 0] once [of 1]
    by (simp add: demo_bus_def subscribe_def empty_bus_def)
qed

end
