(* ===== verification/Merge.thy ===== *)
theory Merge
  imports Prelude "HOL-Library.List_Lexorder" "HOL-Library.Char_ord" "HOL-Library.Multiset"
begin

text \<open>
  Three-way merge of trading configurations
  (\<open>src/src/vcs/application/semantic_merge.py\<close>, \<open>src/src/vcs/domain/merge.py\<close>).

  A configuration is a JSON-like dictionary.  Python's \<open>==\<close> on such values ignores the order of
  dictionary keys and identifies \<open>True\<close>, \<open>1\<close> and \<open>1.0\<close>: \<open>py_eq\<close> compares normal forms.
  \<open>str_of\<close> is the text \<open>str\<close> gives a number or a container (the text of a string is itself).
  A value of the wrong type raises, as the attribute access or iteration of the code does.
  \<open>deepcopy\<close> is the identity on values; the \<open>description\<close> of a conflict is left out.
\<close>

section \<open>Python values\<close>

primrec py_norm :: "pyval \<Rightarrow> pyval" where
  "py_norm PNone = PNone"
| "py_norm (PBool b) = PNum (if b then 1 else 0)"
| "py_norm (PInt i) = PNum (of_int i)"
| "py_norm (PNum r) = PNum r"
| "py_norm (PStr s) = PStr s"
| "py_norm (PList xs) = PList (map py_norm xs)"
| "py_norm (PDict d) = PDict (sort_key fst (map (map_prod id py_norm) d))"

definition py_eq :: "pyval \<Rightarrow> pyval \<Rightarrow> bool" where
  "py_eq a b \<longleftrightarrow> py_norm a = py_norm b"

fun py_truthy :: "pyval \<Rightarrow> bool" where
  "py_truthy PNone = False"
| "py_truthy (PBool b) = b"
| "py_truthy (PInt i) = (i \<noteq> 0)"
| "py_truthy (PNum r) = (r \<noteq> 0)"
| "py_truthy (PStr s) = (s \<noteq> [])"
| "py_truthy (PList xs) = (xs \<noteq> [])"
| "py_truthy (PDict d) = (d \<noteq> [])"

definition val_or :: "pyval \<Rightarrow> pyval \<Rightarrow> pyval" where
  "val_or a b = (if py_truthy a then a else b)"

fun py_iter :: "pyval \<Rightarrow> pyval list result" where
  "py_iter (PList xs) = Inr xs"
| "py_iter (PDict d) = Inr (map (\<lambda>kv. PStr (fst kv)) d)"
| "py_iter (PStr s) = Inr (map (\<lambda>c. PStr [c]) s)"
| "py_iter _ = Inl TypeError"

fun py_dict :: "pyval \<Rightarrow> (string, pyval) dict result" where
  "py_dict (PDict d) = Inr d"
| "py_dict _ = Inl AttributeError"

fun is_dict :: "pyval \<Rightarrow> bool" where
  "is_dict (PDict d) = True"
| "is_dict _ = False"

fun py_str :: "(pyval \<Rightarrow> string) \<Rightarrow> pyval \<Rightarrow> string" where
  "py_str str_of (PStr s) = s"
| "py_str str_of PNone = ''None''"
| "py_str str_of (PBool b) = (if b then ''True'' else ''False'')"
| "py_str str_of v = str_of v"

fun nat_str :: "nat \<Rightarrow> string" where
  "nat_str n = (if n < 10 then [char_of (48 + n)] else nat_str (n div 10) @ [char_of (48 + n mod 10)])"

declare nat_str.simps [simp del]

text \<open>A key of a dictionary: numbers are compared by value, containers are not hashable.\<close>

fun py_key :: "pyval \<Rightarrow> pyval result" where
  "py_key (PList xs) = Inl TypeError"
| "py_key (PDict d) = Inl TypeError"
| "py_key v = Inr (py_norm v)"

definition get_or :: "(string, pyval) dict \<Rightarrow> string \<Rightarrow> pyval \<Rightarrow> pyval" where
  "get_or d k dflt = opt_or (dict_get d k) dflt"

abbreviation py_get :: "(string, pyval) dict \<Rightarrow> string \<Rightarrow> pyval" where
  "py_get d k \<equiv> get_or d k PNone"

definition dict_fromkeys :: "'a list \<Rightarrow> 'a list" where
  "dict_fromkeys xs = foldl (\<lambda>acc x. if x \<in> set acc then acc else acc @ [x]) [] xs"

fun res_map :: "('a \<Rightarrow> 'b result) \<Rightarrow> 'a list \<Rightarrow> 'b list result" where
  "res_map f [] = Inr []"
| "res_map f (x # xs) = res_bind (f x) (\<lambda>y. res_bind (res_map f xs) (\<lambda>ys. Inr (y # ys)))"

section \<open>The merge engine\<close>

record field_conflict =
  fc_path :: string
  fc_base_value :: pyval
  fc_ours_value :: pyval
  fc_theirs_value :: pyval

type_synonym config = "(string, pyval) dict"

text \<open>The chain of comparisons every level of the merge uses: \<open>None\<close> is a conflict.\<close>

definition merge_by :: "('a \<Rightarrow> 'a \<Rightarrow> bool) \<Rightarrow> 'a \<Rightarrow> 'a \<Rightarrow> 'a \<Rightarrow> 'a option" where
  "merge_by eq base ours theirs =
     (if eq ours theirs then Some ours
      else if eq base ours then Some theirs
      else if eq base theirs then Some ours
      else None)"

definition merge_value :: "string \<Rightarrow> pyval \<Rightarrow> pyval \<Rightarrow> pyval \<Rightarrow> pyval \<times> field_conflict list" where
  "merge_value path base ours theirs =
     (case merge_by py_eq base ours theirs of
        Some v \<Rightarrow> (v, [])
      | None \<Rightarrow> (ours, [\<lparr>fc_path = path, fc_base_value = base, fc_ours_value = ours,
                        fc_theirs_value = theirs\<rparr>]))"

text \<open>
  The two loops of the engine: over the sorted field names, writing every merged field, and over
  the names of list entries, appending the entries that survive (kept with their names here).
\<close>

definition merge_fields ::
  "(string \<Rightarrow> (pyval \<times> field_conflict list) result) \<Rightarrow> string list \<Rightarrow> (config \<times> field_conflict list) result" where
  "merge_fields f ks =
     foldl (\<lambda>acc k. res_bind acc (\<lambda>(m, cs). res_bind (f k) (\<lambda>(v, c). Inr (dict_set k v m, cs @ c))))
       (Inr ([], [])) ks"

definition merge_entries ::
  "('k \<Rightarrow> ('v option \<times> field_conflict list) result) \<Rightarrow> 'k list \<Rightarrow> (('k \<times> 'v) list \<times> field_conflict list) result" where
  "merge_entries f ks =
     foldl (\<lambda>acc k. res_bind acc (\<lambda>(ms, cs). res_bind (f k) (\<lambda>(v, c).
              Inr (case v of None \<Rightarrow> ms | Some x \<Rightarrow> ms @ [(k, x)], cs @ c))))
       (Inr ([], [])) ks"

definition sorted_keys :: "config \<Rightarrow> config \<Rightarrow> config \<Rightarrow> string list" where
  "sorted_keys base ours theirs = sort (remdups (dict_keys base @ dict_keys ours @ dict_keys theirs))"

definition merge_subdict ::
  "string \<Rightarrow> config \<Rightarrow> config \<Rightarrow> config \<Rightarrow> (config \<times> field_conflict list) result" where
  "merge_subdict prefix base ours theirs =
     merge_fields
       (\<lambda>k. Inr (merge_value (prefix @ ''.'' @ k) (py_get base k) (py_get ours k) (py_get theirs k)))
       (sorted_keys base ours theirs)"

definition strategy_name :: "nat \<Rightarrow> pyval \<Rightarrow> (pyval \<times> pyval) result" where
  "strategy_name i s =
     res_bind (py_dict s) (\<lambda>d. res_bind (py_key (get_or d ''name'' (PStr (nat_str i)))) (\<lambda>k. Inr (k, s)))"

definition strategy_map :: "pyval \<Rightarrow> (pyval, pyval) dict result" where
  "strategy_map v =
     res_bind (py_iter v) (\<lambda>ss.
     res_bind (res_map (\<lambda>(i, s). strategy_name i s) (zip [0..<length ss] ss))
       (\<lambda>kvs. Inr (foldl (\<lambda>d (k, s). dict_set k s d) [] kvs)))"

definition merge_strategy ::
  "string \<Rightarrow> pyval option \<Rightarrow> pyval option \<Rightarrow> pyval option \<Rightarrow> pyval option \<times> field_conflict list" where
  "merge_strategy path base ours theirs =
     (case merge_by (rel_option py_eq) base ours theirs of
        Some v \<Rightarrow> (v, [])
      | None \<Rightarrow> (ours, [\<lparr>fc_path = path, fc_base_value = opt_or base PNone,
                        fc_ours_value = opt_or ours PNone, fc_theirs_value = opt_or theirs PNone\<rparr>]))"

definition merge_strategies ::
  "(pyval \<Rightarrow> string) \<Rightarrow> string \<Rightarrow> pyval \<Rightarrow> pyval \<Rightarrow> pyval \<Rightarrow> (pyval \<times> field_conflict list) result" where
  "merge_strategies str_of asset_key base ours theirs =
     (case merge_by py_eq base ours theirs of
        Some v \<Rightarrow> Inr (v, [])
      | None \<Rightarrow>
          res_bind (strategy_map base) (\<lambda>bm. res_bind (strategy_map ours) (\<lambda>om.
          res_bind (strategy_map theirs) (\<lambda>tm.
          res_bind
            (merge_entries
               (\<lambda>n. Inr (merge_strategy (''assets.'' @ asset_key @ ''.strategies.'' @ py_str str_of n)
                           (dict_get bm n) (dict_get om n) (dict_get tm n)))
               (dict_fromkeys (dict_keys om @ dict_keys tm @ dict_keys bm)))
            (\<lambda>(ss, cs). Inr (PList (map snd ss), cs))))))"

definition merge_asset_field ::
  "(pyval \<Rightarrow> string) \<Rightarrow> string \<Rightarrow> string \<Rightarrow> pyval \<Rightarrow> pyval \<Rightarrow> pyval \<Rightarrow> (pyval \<times> field_conflict list) result" where
  "merge_asset_field str_of asset_key f base ours theirs =
     (let path = ''assets.'' @ asset_key @ ''.'' @ f
      in if f = ''strategies''
         then merge_strategies str_of asset_key (val_or base (PList [])) (val_or ours (PList []))
                (val_or theirs (PList []))
         else if f \<in> {''consensus'', ''guard_config''} \<and> (is_dict ours \<or> is_dict theirs \<or> is_dict base)
         then res_bind (py_dict (val_or base (PDict []))) (\<lambda>b.
              res_bind (py_dict (val_or ours (PDict []))) (\<lambda>a.
              res_bind (py_dict (val_or theirs (PDict []))) (\<lambda>t.
              res_bind (merge_subdict path b a t) (\<lambda>(m, cs). Inr (PDict m, cs)))))
         else Inr (merge_value path base ours theirs))"

definition merge_single_asset ::
  "(pyval \<Rightarrow> string) \<Rightarrow> string \<Rightarrow> config \<Rightarrow> config \<Rightarrow> config \<Rightarrow> (config \<times> field_conflict list) result" where
  "merge_single_asset str_of asset_key base ours theirs =
     merge_fields
       (\<lambda>f. merge_asset_field str_of asset_key f (py_get base f) (py_get ours f) (py_get theirs f))
       (sorted_keys base ours theirs)"

definition asset_key_of :: "(pyval \<Rightarrow> string) \<Rightarrow> config \<Rightarrow> string" where
  "asset_key_of str_of a =
     (let base = upper (py_str str_of (get_or a ''base_ticker_symbol'' (PStr [])));
          quote = upper (py_str str_of (get_or a ''quote_ticker_symbol'' (PStr [])));
          name = py_str str_of (get_or a ''name'' (PStr []))
      in if base \<noteq> [] \<and> quote \<noteq> [] then base @ ''_'' @ quote else name)"

definition asset_map :: "(pyval \<Rightarrow> string) \<Rightarrow> pyval \<Rightarrow> (string, config) dict result" where
  "asset_map str_of v =
     res_bind (py_iter v) (\<lambda>xs. res_bind (res_map py_dict xs) (\<lambda>as.
       Inr (foldl (\<lambda>d a. dict_set (asset_key_of str_of a) a d) [] as)))"

definition presence_conflict :: "string \<Rightarrow> string \<Rightarrow> string \<Rightarrow> field_conflict" where
  "presence_conflict key ours theirs =
     \<lparr>fc_path = ''assets.'' @ key, fc_base_value = PStr ''Present'', fc_ours_value = PStr ours,
      fc_theirs_value = PStr theirs\<rparr>"

definition merge_asset ::
  "(pyval \<Rightarrow> string) \<Rightarrow> string \<Rightarrow> config option \<Rightarrow> config option \<Rightarrow> config option \<Rightarrow>
     (config option \<times> field_conflict list) result" where
  "merge_asset str_of k base ours theirs =
     (case (base, ours, theirs) of
        (b, Some a, Some t) \<Rightarrow>
          res_bind (merge_single_asset str_of k (opt_or b []) a t) (\<lambda>(m, cs). Inr (Some m, cs))
      | (None, Some a, None) \<Rightarrow> Inr (Some a, [])
      | (None, None, t) \<Rightarrow> Inr (t, [])
      | (Some b, Some a, None) \<Rightarrow>
          if py_eq (PDict a) (PDict b) then Inr (None, [])
          else Inr (Some a, [presence_conflict k ''Modified'' ''Deleted''])
      | (Some b, None, Some t) \<Rightarrow>
          if py_eq (PDict t) (PDict b) then Inr (None, [])
          else Inr (Some t, [presence_conflict k ''Deleted'' ''Modified''])
      | (Some b, None, None) \<Rightarrow> Inr (None, []))"

definition merge_assets ::
  "(pyval \<Rightarrow> string) \<Rightarrow> pyval \<Rightarrow> pyval \<Rightarrow> pyval \<Rightarrow> ((string \<times> config) list \<times> field_conflict list) result" where
  "merge_assets str_of base ours theirs =
     res_bind (asset_map str_of base) (\<lambda>bm. res_bind (asset_map str_of ours) (\<lambda>om.
     res_bind (asset_map str_of theirs) (\<lambda>tm.
       merge_entries (\<lambda>k. merge_asset str_of k (dict_get bm k) (dict_get om k) (dict_get tm k))
         (dict_fromkeys (dict_keys om @ dict_keys tm @ dict_keys bm)))))"

definition merge :: "(pyval \<Rightarrow> string) \<Rightarrow> config \<Rightarrow> config \<Rightarrow> config \<Rightarrow> (config \<times> field_conflict list) result" where
  "merge str_of base ours theirs =
     res_bind
       (merge_fields (\<lambda>k. Inr (merge_value k (py_get base k) (py_get ours k) (py_get theirs k)))
          (filter (\<lambda>k. k \<noteq> ''assets'') (sorted_keys base ours theirs)))
       (\<lambda>(top, cs).
     res_bind
       (merge_assets str_of (get_or base ''assets'' (PList [])) (get_or ours ''assets'' (PList []))
          (get_or theirs ''assets'' (PList [])))
       (\<lambda>(kas, acs).
     Inr (dict_set ''assets'' (PList (map (\<lambda>ka. PDict (snd ka)) kas)) top, cs @ acs)))"

section \<open>Equality of values and the three-way rule\<close>

text \<open>What a merged value \<open>m\<close> owes to the three versions: an unchanged side yields to the other,
  and a change made on both sides is kept.\<close>

definition three_way :: "('a \<Rightarrow> 'a \<Rightarrow> bool) \<Rightarrow> 'a \<Rightarrow> 'a \<Rightarrow> 'a \<Rightarrow> 'a \<Rightarrow> bool" where
  "three_way eq base ours theirs m \<longleftrightarrow>
     (eq base ours \<longrightarrow> eq m theirs) \<and> (eq base theirs \<longrightarrow> eq m ours) \<and> (eq ours theirs \<longrightarrow> eq m ours) \<and>
     (eq base ours \<or> eq base theirs \<or> eq ours theirs)"

locale equality =
  fixes eq :: "'a \<Rightarrow> 'a \<Rightarrow> bool"
  assumes eq_refl: "eq x x"
    and eq_sym: "eq x y \<Longrightarrow> eq y x"
    and eq_trans: "eq x y \<Longrightarrow> eq y z \<Longrightarrow> eq x z"
begin

lemma merge_by_Some: "merge_by eq b ours t = Some m \<Longrightarrow> three_way eq b ours t m"
  unfolding merge_by_def three_way_def by (metis eq_refl eq_sym eq_trans option.distinct(1) option.inject)

lemma merge_by_None: "merge_by eq b ours t = None \<longleftrightarrow> \<not> eq b ours \<and> \<not> eq b t \<and> \<not> eq ours t"
  by (auto simp: merge_by_def)

lemma merge_by_commute: "merge_by eq b ours t = None \<longleftrightarrow> merge_by eq b t ours = None"
  by (auto simp: merge_by_None dest: eq_sym)

lemma three_way_unique: "three_way eq b ours t m \<Longrightarrow> three_way eq b ours t m' \<Longrightarrow> eq m m'"
  unfolding three_way_def by (metis eq_sym eq_trans)

lemma three_way_commute: "three_way eq b ours t m \<longleftrightarrow> three_way eq b t ours m"
  unfolding three_way_def by (metis eq_sym eq_trans)

end

interpretation val: equality py_eq
  by unfold_locales (simp_all add: py_eq_def)

lemma rel_option_py_eq: "rel_option py_eq a b \<longleftrightarrow> map_option py_norm a = map_option py_norm b"
  by (cases a; cases b) (simp_all add: py_eq_def)

interpretation optval: equality "rel_option py_eq"
  by unfold_locales (simp_all add: rel_option_py_eq)

text \<open>The normal form decides Python's equality of dictionaries: same keys with equal values.\<close>

lemma sort_key_fst_eq_iff:
  fixes xs ys :: "('k::linorder, 'v) dict"
  assumes "dict_wf xs" and "dict_wf ys"
  shows "sort_key fst xs = sort_key fst ys \<longleftrightarrow> map_of xs = map_of ys"
proof
  assume "sort_key fst xs = sort_key fst ys"
  then have "set xs = set ys" by (metis set_sort)
  then show "map_of xs = map_of ys" using assms by (simp add: map_of_inject_set dict_wf_def)
next
  assume "map_of xs = map_of ys"
  then have "set xs = set ys" using assms by (simp add: map_of_inject_set dict_wf_def)
  then have "mset xs = mset ys"
    using assms by (simp add: set_eq_iff_mset_eq_distinct [symmetric] dict_wf_def distinct_map)
  then show "sort_key fst xs = sort_key fst ys"
    using assms by (intro sort_key_inj_key_eq) (simp_all add: dict_wf_def distinct_map)
qed

lemma py_eq_dict:
  assumes "dict_wf d" and "dict_wf e"
  shows "py_eq (PDict d) (PDict e) \<longleftrightarrow> (\<forall>k. rel_option py_eq (dict_get d k) (dict_get e k))"
proof -
  have wf: "dict_wf (map (map_prod id py_norm) c)" if "dict_wf c" for c :: "(string, pyval) dict"
    using that by (simp add: dict_wf_def comp_def)
  have get: "map_of (map (map_prod id py_norm) c) k = map_option py_norm (map_of c k)" for c :: "(string, pyval) dict" and k
    by (induction c) auto
  show ?thesis
    by (simp add: py_eq_def sort_key_fst_eq_iff wf assms fun_eq_iff get rel_option_py_eq)
qed

section \<open>The loops\<close>

lemma dict_fromkeys_aux:
  "distinct acc \<Longrightarrow> distinct (foldl (\<lambda>acc x. if x \<in> set acc then acc else acc @ [x]) acc xs) \<and>
     set (foldl (\<lambda>acc x. if x \<in> set acc then acc else acc @ [x]) acc xs) = set acc \<union> set xs"
  by (induction xs arbitrary: acc) auto

lemma dict_fromkeys [simp]:
  "distinct (dict_fromkeys xs)" "set (dict_fromkeys xs) = set xs"
  using dict_fromkeys_aux [of "[]" xs] by (simp_all add: dict_fromkeys_def)

lemma set_sorted_keys [simp]:
  "k \<in> set (sorted_keys b a t) \<longleftrightarrow>
     dict_get b k \<noteq> None \<or> dict_get a k \<noteq> None \<or> dict_get t k \<noteq> None"
  by (auto simp: sorted_keys_def map_of_eq_None_iff)

lemma merge_fields_snoc:
  "merge_fields f (ks @ [k]) =
     res_bind (merge_fields f ks) (\<lambda>(m, cs). res_bind (f k) (\<lambda>(v, c). Inr (dict_set k v m, cs @ c)))"
  by (simp add: merge_fields_def)

lemma merge_entries_snoc:
  "merge_entries f (ks @ [k]) =
     res_bind (merge_entries f ks) (\<lambda>(ms, cs). res_bind (f k) (\<lambda>(v, c).
       Inr (case v of None \<Rightarrow> ms | Some x \<Rightarrow> ms @ [(k, x)], cs @ c)))"
  by (simp add: merge_entries_def)

text \<open>Every name of the loop has a result, which is what the merged object holds under the name;
  the conflicts are those of the single results.\<close>

lemma merge_fields_Inr:
  "merge_fields f ks = Inr (m, cs) \<Longrightarrow>
     (\<forall>k \<in> set ks. f k = Inr (projr (f k))) \<and>
     (\<forall>k. dict_get m k = (if k \<in> set ks then Some (fst (projr (f k))) else None)) \<and>
     set cs = (\<Union>k \<in> set ks. set (snd (projr (f k))))"
proof (induction ks arbitrary: m cs rule: rev_induct)
  case Nil
  then show ?case by (simp add: merge_fields_def)
next
  case (snoc k ks)
  from snoc.prems obtain m' cs' v c where
    loop: "merge_fields f ks = Inr (m', cs')" and fk: "f k = Inr (v, c)"
    and m: "m = dict_set k v m'" "cs = cs' @ c"
    by (auto simp: merge_fields_snoc res_bind_eq_Inr)
  from snoc.IH [OF loop] show ?case using fk m by auto
qed

lemma merge_entries_Inr:
  "merge_entries f ks = Inr (ms, cs) \<Longrightarrow> distinct ks \<Longrightarrow>
     (\<forall>k \<in> set ks. f k = Inr (projr (f k))) \<and>
     (\<forall>k. dict_get ms k = (if k \<in> set ks then fst (projr (f k)) else None)) \<and>
     distinct (map fst ms) \<and> fst ` set ms \<subseteq> set ks \<and>
     set cs = (\<Union>k \<in> set ks. set (snd (projr (f k))))"
proof (induction ks arbitrary: ms cs rule: rev_induct)
  case Nil
  then show ?case by (simp add: merge_entries_def)
next
  case (snoc k ks)
  from snoc.prems obtain ms' cs' v c where
    loop: "merge_entries f ks = Inr (ms', cs')" and fk: "f k = Inr (v, c)"
    and ms: "ms = (case v of None \<Rightarrow> ms' | Some x \<Rightarrow> ms' @ [(k, x)])" "cs = cs' @ c"
    by (auto simp: merge_entries_snoc res_bind_eq_Inr)
  from snoc.IH [OF loop] snoc.prems have IH:
    "\<forall>k \<in> set ks. f k = Inr (projr (f k))"
    "\<And>k. dict_get ms' k = (if k \<in> set ks then fst (projr (f k)) else None)"
    "distinct (map fst ms')" "fst ` set ms' \<subseteq> set ks"
    "set cs' = (\<Union>k \<in> set ks. set (snd (projr (f k))))" by auto
  have fresh: "dict_get ms' k = None" "k \<notin> set ks" using IH(2) [of k] snoc.prems by auto
  then have "dict_get ms k' = (if k' = k then v else dict_get ms' k')" for k'
    using ms by (cases v) (auto simp: map_add_def split: option.splits)
  moreover have "distinct (map fst ms)" "fst ` set ms \<subseteq> set (ks @ [k])"
    using ms IH fresh by (auto split: option.splits)
  ultimately show ?case using fk ms(2) IH(1,5) fresh by (simp add: IH(2) Un_commute)
qed

lemma merge_fields_clean:
  assumes "merge_fields f ks = Inr (m, [])"
  shows "k \<in> set ks \<Longrightarrow> f k = Inr (py_get m k, [])" and "k \<notin> set ks \<Longrightarrow> py_get m k = PNone"
proof -
  note res = merge_fields_Inr [OF assms]
  show "f k = Inr (py_get m k, [])" if k: "k \<in> set ks"
  proof -
    have "f k = Inr (projr (f k))" using res k by blast
    moreover have "projr (f k) = (py_get m k, [])"
      using res k by (intro prod_eqI) (auto simp: get_or_def)
    ultimately show ?thesis by simp
  qed
  show "py_get m k = PNone" if "k \<notin> set ks" using res that by (simp add: get_or_def)
qed

lemma merge_entries_clean:
  assumes "merge_entries f ks = Inr (ms, [])" and "distinct ks"
  shows "k \<in> set ks \<Longrightarrow> f k = Inr (dict_get ms k, [])" and "k \<notin> set ks \<Longrightarrow> dict_get ms k = None"
    and "distinct (map fst ms)"
proof -
  note res = merge_entries_Inr [OF assms]
  show "f k = Inr (dict_get ms k, [])" if k: "k \<in> set ks"
  proof -
    have "f k = Inr (projr (f k))" using res k by blast
    moreover have "projr (f k) = (dict_get ms k, [])"
      using res k by (intro prod_eqI) auto
    ultimately show ?thesis by simp
  qed
  show "dict_get ms k = None" if "k \<notin> set ks" using res that by simp
  show "distinct (map fst ms)" using res by blast
qed

section \<open>What a merge keeps\<close>

lemma merge_value_no_conflict:
  "merge_value path b a t = (v, []) \<Longrightarrow> three_way py_eq b a t v"
  by (auto simp: merge_value_def intro: val.merge_by_Some split: option.splits)

lemma merge_strategy_no_conflict:
  "merge_strategy path b a t = (v, []) \<Longrightarrow> three_way (rel_option py_eq) b a t v"
  by (auto simp: merge_strategy_def intro: optval.merge_by_Some split: option.splits)

lemma three_way_same [simp]: "three_way py_eq v v v v" "three_way (rel_option py_eq) u u u u"
  by (simp_all add: three_way_def val.eq_refl optval.eq_refl)

text \<open>The sub-dictionary of a field, as the merge reads it.\<close>

definition sub_of :: "pyval \<Rightarrow> config" where
  "sub_of v = (case val_or v (PDict []) of PDict d \<Rightarrow> d | _ \<Rightarrow> [])"

definition list_of :: "pyval \<Rightarrow> pyval" where
  "list_of v = val_or v (PList [])"

definition strategies_three_way :: "pyval \<Rightarrow> pyval \<Rightarrow> pyval \<Rightarrow> pyval \<Rightarrow> bool" where
  "strategies_three_way b a t m \<longleftrightarrow>
     three_way py_eq b a t m \<or>
     (\<exists>bm am tm sm. strategy_map b = Inr bm \<and> strategy_map a = Inr am \<and> strategy_map t = Inr tm \<and>
        m = PList (map snd sm) \<and> distinct (map fst sm) \<and>
        (\<forall>n. three_way (rel_option py_eq) (dict_get bm n) (dict_get am n) (dict_get tm n) (dict_get sm n)))"

definition asset_three_way :: "config \<Rightarrow> config \<Rightarrow> config \<Rightarrow> config \<Rightarrow> bool" where
  "asset_three_way b a t m \<longleftrightarrow>
     (\<forall>f. f \<notin> {''strategies'', ''consensus'', ''guard_config''} \<longrightarrow>
        three_way py_eq (py_get b f) (py_get a f) (py_get t f) (py_get m f)) \<and>
     (\<forall>f \<in> {''consensus'', ''guard_config''}. \<forall>k.
        three_way py_eq (py_get (sub_of (py_get b f)) k) (py_get (sub_of (py_get a f)) k)
          (py_get (sub_of (py_get t f)) k) (py_get (sub_of (py_get m f)) k)) \<and>
     strategies_three_way (list_of (py_get b ''strategies'')) (list_of (py_get a ''strategies''))
       (list_of (py_get t ''strategies'')) (list_of (py_get m ''strategies''))"

definition asset_merged :: "config option \<Rightarrow> config option \<Rightarrow> config option \<Rightarrow> config option \<Rightarrow> bool" where
  "asset_merged b a t m \<longleftrightarrow>
     (case (a, t) of
        (Some a', Some t') \<Rightarrow> (\<exists>x. m = Some x \<and> asset_three_way (opt_or b []) a' t' x)
      | (Some a', None) \<Rightarrow> (case b of None \<Rightarrow> m = a | Some b' \<Rightarrow> m = None \<and> py_eq (PDict a') (PDict b'))
      | (None, Some t') \<Rightarrow> (case b of None \<Rightarrow> m = t | Some b' \<Rightarrow> m = None \<and> py_eq (PDict t') (PDict b'))
      | (None, None) \<Rightarrow> m = None)"

lemma merge_subdict_clean:
  assumes "merge_subdict p b a t = Inr (m, [])"
  shows "three_way py_eq (py_get b k) (py_get a k) (py_get t k) (py_get m k)"
proof (cases "k \<in> set (sorted_keys b a t)")
  case True
  from merge_fields_clean(1) [OF assms [unfolded merge_subdict_def] this]
  show ?thesis by (auto intro: merge_value_no_conflict)
next
  case False
  from merge_fields_clean(2) [OF assms [unfolded merge_subdict_def] this] False
  show ?thesis by (simp add: get_or_def)
qed

lemma merge_strategies_clean:
  assumes "merge_strategies str_of key b a t = Inr (m, [])"
  shows "strategies_three_way b a t m"
proof (cases "merge_by py_eq b a t")
  case (Some v)
  then show ?thesis using assms val.merge_by_Some [OF Some]
    by (simp add: merge_strategies_def strategies_three_way_def)
next
  case None
  with assms obtain bm am tm sm where
    maps: "strategy_map b = Inr bm" "strategy_map a = Inr am" "strategy_map t = Inr tm"
    and loop: "merge_entries (\<lambda>n. Inr (merge_strategy (''assets.'' @ key @ ''.strategies.'' @ py_str str_of n)
         (dict_get bm n) (dict_get am n) (dict_get tm n)))
       (dict_fromkeys (dict_keys am @ dict_keys tm @ dict_keys bm)) = Inr (sm, [])"
    and m: "m = PList (map snd sm)"
    by (auto simp: merge_strategies_def res_bind_eq_Inr)
  note res = merge_entries_clean [OF loop dict_fromkeys(1), unfolded dict_fromkeys(2)]
  have "three_way (rel_option py_eq) (dict_get bm n) (dict_get am n) (dict_get tm n) (dict_get sm n)" for n
  proof (cases "n \<in> set (dict_keys am @ dict_keys tm @ dict_keys bm)")
    case True
    from res(1) [OF this] show ?thesis by (auto intro: merge_strategy_no_conflict)
  next
    case False
    then have "dict_get bm n = None" "dict_get am n = None" "dict_get tm n = None"
      by (auto simp: map_of_eq_None_iff)
    then show ?thesis using res(2) [OF False] by simp
  qed
  then show ?thesis using maps m res(3) by (auto simp: strategies_three_way_def)
qed

lemma merge_by_mem: "merge_by eq b a t = Some v \<Longrightarrow> v = a \<or> v = t"
  by (auto simp: merge_by_def split: if_splits)

lemma list_of_idem [simp]: "list_of (list_of v) = list_of v" "list_of (PList xs) = PList xs"
  by (simp_all add: list_of_def val_or_def)

lemma sub_of_dict [simp]: "sub_of (PDict d) = d"
  by (simp add: sub_of_def val_or_def)

lemma sub_of_not_dict: "\<not> is_dict v \<Longrightarrow> sub_of v = []"
  by (cases v) (simp_all add: sub_of_def val_or_def)

lemma py_dict_sub: "py_dict (val_or v (PDict [])) = Inr d \<Longrightarrow> sub_of v = d"
  by (cases "val_or v (PDict [])") (simp_all add: sub_of_def)

lemma merge_field_plain:
  assumes "merge_asset_field str_of key f b a t = Inr (v, [])"
    and "f \<notin> {''strategies'', ''consensus'', ''guard_config''}"
  shows "three_way py_eq b a t v"
  using assms by (auto simp: merge_asset_field_def Let_def intro: merge_value_no_conflict)

lemma merge_field_strategies:
  assumes "merge_asset_field str_of key ''strategies'' b a t = Inr (v, [])"
  shows "strategies_three_way (list_of b) (list_of a) (list_of t) (list_of v)"
proof -
  have m: "merge_strategies str_of key (list_of b) (list_of a) (list_of t) = Inr (v, [])"
    using assms by (simp add: merge_asset_field_def list_of_def)
  then have "list_of v = v"
    by (auto simp: merge_strategies_def res_bind_eq_Inr dest: merge_by_mem split: option.splits)
  then show ?thesis using merge_strategies_clean [OF m] by simp
qed

lemma merge_field_subdict:
  assumes "merge_asset_field str_of key f b a t = Inr (v, [])"
    and "f \<in> {''consensus'', ''guard_config''}"
  shows "three_way py_eq (py_get (sub_of b) k) (py_get (sub_of a) k) (py_get (sub_of t) k) (py_get (sub_of v) k)"
proof (cases "is_dict a \<or> is_dict t \<or> is_dict b")
  case True
  with assms obtain b' a' t' m where
    "py_dict (val_or b (PDict [])) = Inr b'" "py_dict (val_or a (PDict [])) = Inr a'"
    "py_dict (val_or t (PDict [])) = Inr t'"
    and m: "merge_subdict (''assets.'' @ key @ ''.'' @ f) b' a' t' = Inr (m, [])" "v = PDict m"
    by (auto simp: merge_asset_field_def Let_def res_bind_eq_Inr)
  then show ?thesis using merge_subdict_clean [OF m(1), of k]
    by (simp add: py_dict_sub)
next
  case False
  with assms have "merge_value (''assets.'' @ key @ ''.'' @ f) b a t = (v, [])"
    by (auto simp: merge_asset_field_def Let_def)
  then have "v = a \<or> v = t"
    by (auto simp: merge_value_def dest: merge_by_mem split: option.splits)
  then show ?thesis using False by (auto simp: sub_of_not_dict)
qed

lemma strategies_three_way_empty: "strategies_three_way (list_of v) (list_of v) (list_of v) (list_of v)"
  by (simp add: strategies_three_way_def)

lemma merge_single_asset_clean:
  assumes "merge_single_asset str_of key b a t = Inr (m, [])"
  shows "asset_three_way b a t m"
proof -
  note field = merge_fields_clean(1) [OF assms [unfolded merge_single_asset_def]]
  note gone = merge_fields_clean(2) [OF assms [unfolded merge_single_asset_def]]
  have absent: "py_get b f = PNone" "py_get a f = PNone" "py_get t f = PNone" "py_get m f = PNone"
    if "f \<notin> set (sorted_keys b a t)" for f
    using that gone [OF that] by (simp_all add: get_or_def)
  show ?thesis
    unfolding asset_three_way_def
  proof (intro conjI allI impI ballI)
    fix f assume "f \<notin> {''strategies'', ''consensus'', ''guard_config''}"
    then show "three_way py_eq (py_get b f) (py_get a f) (py_get t f) (py_get m f)"
      using merge_field_plain [OF field] absent by (cases "f \<in> set (sorted_keys b a t)") simp_all
  next
    fix f k assume "f \<in> {''consensus'', ''guard_config''}"
    then show "three_way py_eq (py_get (sub_of (py_get b f)) k) (py_get (sub_of (py_get a f)) k)
          (py_get (sub_of (py_get t f)) k) (py_get (sub_of (py_get m f)) k)"
      using merge_field_subdict [OF field] absent by (cases "f \<in> set (sorted_keys b a t)") simp_all
  next
    let ?f = "''strategies''"
    show "strategies_three_way (list_of (py_get b ?f)) (list_of (py_get a ?f)) (list_of (py_get t ?f))
        (list_of (py_get m ?f))"
    proof (cases "?f \<in> set (sorted_keys b a t)")
      case True
      then show ?thesis by (intro merge_field_strategies [OF field])
    next
      case False
      then show ?thesis by (simp only: absent [OF False] strategies_three_way_empty)
    qed
  qed
qed

lemma merge_asset_clean:
  assumes "merge_asset str_of key b a t = Inr (m, [])"
  shows "asset_merged b a t m"
  using assms
  by (cases a; cases t; cases b)
    (auto simp: merge_asset_def asset_merged_def res_bind_eq_Inr intro: merge_single_asset_clean
      split: if_splits)

lemma merge_assets_clean:
  assumes "merge_assets str_of b a t = Inr (kas, [])"
  obtains bm om tm where "asset_map str_of b = Inr bm" "asset_map str_of a = Inr om"
    "asset_map str_of t = Inr tm" "distinct (map fst kas)"
    "\<And>k. asset_merged (dict_get bm k) (dict_get om k) (dict_get tm k) (dict_get kas k)"
proof -
  from assms obtain bm om tm where
    maps: "asset_map str_of b = Inr bm" "asset_map str_of a = Inr om" "asset_map str_of t = Inr tm"
    and loop: "merge_entries (\<lambda>k. merge_asset str_of k (dict_get bm k) (dict_get om k) (dict_get tm k))
       (dict_fromkeys (dict_keys om @ dict_keys tm @ dict_keys bm)) = Inr (kas, [])"
    by (auto simp: merge_assets_def res_bind_eq_Inr)
  note res = merge_entries_clean [OF loop dict_fromkeys(1), unfolded dict_fromkeys(2)]
  have "asset_merged (dict_get bm k) (dict_get om k) (dict_get tm k) (dict_get kas k)" for k
  proof (cases "k \<in> set (dict_keys om @ dict_keys tm @ dict_keys bm)")
    case True
    then show ?thesis by (intro merge_asset_clean [OF res(1)])
  next
    case False
    then have "dict_get bm k = None" "dict_get om k = None" "dict_get tm k = None"
      by (auto simp: map_of_eq_None_iff)
    then show ?thesis using res(2) [OF False] by (simp add: asset_merged_def)
  qed
  then show ?thesis using maps res(3) by (intro that) auto
qed

lemma merge_top:
  assumes "merge str_of base ours theirs = Inr (m, cs)"
  obtains top kas tcs acs where
    "merge_fields (\<lambda>k. Inr (merge_value k (py_get base k) (py_get ours k) (py_get theirs k)))
       (filter (\<lambda>k. k \<noteq> ''assets'') (sorted_keys base ours theirs)) = Inr (top, tcs)"
    "merge_assets str_of (get_or base ''assets'' (PList [])) (get_or ours ''assets'' (PList []))
       (get_or theirs ''assets'' (PList [])) = Inr (kas, acs)"
    "m = dict_set ''assets'' (PList (map (\<lambda>ka. PDict (snd ka)) kas)) top" "cs = tcs @ acs"
  using assms by (auto simp: merge_def res_bind_eq_Inr)

text \<open>C16.  A merge without conflicts loses no change.  Every top-level setting of the result follows
  the three-way rule: a side that did not change the setting yields to the other, a common change is
  kept.  Every asset is present exactly when the rule says so (added by one side, or present on both;
  removed by one side only when the other left it unchanged), and the fields of an asset on both
  sides, the entries of its consensus and guard settings and its strategies by name follow the same
  rule.\<close>

theorem clean_merge_keeps_changes:
  assumes "merge str_of base ours theirs = Inr (m, [])"
  shows "(\<forall>k. k \<noteq> ''assets'' \<longrightarrow>
            three_way py_eq (py_get base k) (py_get ours k) (py_get theirs k) (py_get m k)) \<and>
    (\<exists>bm om tm kas.
       asset_map str_of (get_or base ''assets'' (PList [])) = Inr bm \<and>
       asset_map str_of (get_or ours ''assets'' (PList [])) = Inr om \<and>
       asset_map str_of (get_or theirs ''assets'' (PList [])) = Inr tm \<and>
       dict_get m ''assets'' = Some (PList (map (\<lambda>ka. PDict (snd ka)) kas)) \<and>
       distinct (map fst kas) \<and>
       (\<forall>k. asset_merged (dict_get bm k) (dict_get om k) (dict_get tm k) (dict_get kas k)))"
proof -
  let ?ks = "filter (\<lambda>k. k \<noteq> ''assets'') (sorted_keys base ours theirs)"
  obtain top kas tcs acs where
    "merge_fields (\<lambda>k. Inr (merge_value k (py_get base k) (py_get ours k) (py_get theirs k))) ?ks
      = Inr (top, tcs)"
    "merge_assets str_of (get_or base ''assets'' (PList [])) (get_or ours ''assets'' (PList []))
       (get_or theirs ''assets'' (PList [])) = Inr (kas, acs)"
    and m: "m = dict_set ''assets'' (PList (map (\<lambda>ka. PDict (snd ka)) kas)) top"
    and "[] = tcs @ acs"
    by (rule merge_top [OF assms])
  then have
    fields: "merge_fields (\<lambda>k. Inr (merge_value k (py_get base k) (py_get ours k) (py_get theirs k))) ?ks
      = Inr (top, [])"
    and assets: "merge_assets str_of (get_or base ''assets'' (PList [])) (get_or ours ''assets'' (PList []))
       (get_or theirs ''assets'' (PList [])) = Inr (kas, [])" by simp_all
  have "three_way py_eq (py_get base k) (py_get ours k) (py_get theirs k) (py_get m k)"
    if k: "k \<noteq> ''assets''" for k
  proof (cases "k \<in> set ?ks")
    case True
    from merge_fields_clean(1) [OF fields this] k show ?thesis
      by (auto simp: m get_or_def intro: merge_value_no_conflict)
  next
    case False
    from merge_fields_clean(2) [OF fields this] False k show ?thesis
      by (auto simp: m get_or_def)
  qed
  moreover from merge_assets_clean [OF assets] obtain bm om tm where
    "asset_map str_of (get_or base ''assets'' (PList [])) = Inr bm"
    "asset_map str_of (get_or ours ''assets'' (PList [])) = Inr om"
    "asset_map str_of (get_or theirs ''assets'' (PList [])) = Inr tm" "distinct (map fst kas)"
    "\<And>k. asset_merged (dict_get bm k) (dict_get om k) (dict_get tm k) (dict_get kas k)" by blast
  ultimately show ?thesis by (auto simp: m)
qed

text \<open>One side changes an asset's weight, the other a top-level setting.\<close>

definition demo_asset :: "rat \<Rightarrow> pyval" where
  "demo_asset w = PDict [(''base_ticker_symbol'', PStr ''BTC''), (''quote_ticker_symbol'', PStr ''USD''),
     (''min_quantity'', PNum w)]"

definition demo_config :: "string \<Rightarrow> rat \<Rightarrow> config" where
  "demo_config q w = [(''dynamic_quantity'', PStr q), (''assets'', PList [demo_asset w])]"

definition no_text :: "pyval \<Rightarrow> string" where
  "no_text v = []"

lemma demo_merge:
  "merge no_text (demo_config ''1'' 1) (demo_config ''2'' 1) (demo_config ''1'' 5) =
     Inr ([(''dynamic_quantity'', PStr ''2''),
           (''assets'', PList [PDict [(''base_ticker_symbol'', PStr ''BTC''), (''min_quantity'', PNum 5),
              (''quote_ticker_symbol'', PStr ''USD'')]])], [])"
  by code_simp

theorem clean_merge_keeps_changes_witness:
  "\<exists>m. merge no_text (demo_config ''1'' 1) (demo_config ''2'' 1) (demo_config ''1'' 5) = Inr (m, []) \<and>
     three_way py_eq (PStr ''1'') (PStr ''2'') (PStr ''1'') (py_get m ''dynamic_quantity'')"
proof -
  have get: "py_get (demo_config q w) ''dynamic_quantity'' = PStr q" for q w
    by (simp add: demo_config_def get_or_def)
  show ?thesis
    using clean_merge_keeps_changes [OF demo_merge, THEN conjunct1, THEN spec, of "''dynamic_quantity''"] demo_merge
    by (simp add: get)
qed

text \<open>A setting that one side removed and the other left unchanged is not removed: it comes back as an
  explicit null.\<close>

theorem removed_setting_becomes_null:
  assumes "merge str_of base ours theirs = Inr (m, cs)" and "k \<noteq> ''assets''"
    and "dict_get base k = Some v" and "ours = base" and "dict_get theirs k = None"
  shows "dict_get m k = Some PNone"
proof -
  obtain top kas tcs acs where
    fields: "merge_fields (\<lambda>k. Inr (merge_value k (py_get base k) (py_get ours k) (py_get theirs k)))
      (filter (\<lambda>k. k \<noteq> ''assets'') (sorted_keys base ours theirs)) = Inr (top, tcs)"
    and "merge_assets str_of (get_or base ''assets'' (PList [])) (get_or ours ''assets'' (PList []))
       (get_or theirs ''assets'' (PList [])) = Inr (kas, acs)"
    and m: "m = dict_set ''assets'' (PList (map (\<lambda>ka. PDict (snd ka)) kas)) top" and "cs = tcs @ acs"
    by (rule merge_top [OF assms(1)])
  have "dict_get top k = Some (fst (merge_value k v v PNone))"
    using merge_fields_Inr [OF fields] assms(2-5) by (simp add: get_or_def)
  moreover have "fst (merge_value k v v PNone) = PNone"
    by (cases v) (simp_all add: merge_value_def merge_by_def py_eq_def)
  ultimately show ?thesis using assms(2) by (simp add: m)
qed

section \<open>Conflicts\<close>

definition genuine :: "field_conflict \<Rightarrow> bool" where
  "genuine c \<longleftrightarrow> \<not> py_eq (fc_base_value c) (fc_ours_value c) \<and>
     \<not> py_eq (fc_base_value c) (fc_theirs_value c) \<and> \<not> py_eq (fc_ours_value c) (fc_theirs_value c)"

definition agreeing :: "'a \<Rightarrow> 'a \<Rightarrow> 'a \<Rightarrow> bool" where
  "agreeing b a t \<longleftrightarrow> a = b \<or> t = b \<or> a = t"

lemma merge_fields_conflict:
  assumes "merge_fields f ks = Inr (m, cs)" and "c \<in> set cs"
  obtains k v cs' where "k \<in> set ks" "f k = Inr (v, cs')" "c \<in> set cs'"
proof -
  from merge_fields_Inr [OF assms(1)] assms(2) obtain k where
    "k \<in> set ks" "f k = Inr (projr (f k))" "c \<in> set (snd (projr (f k)))" by auto
  then show ?thesis using that [of k "fst (projr (f k))" "snd (projr (f k))"] by simp
qed

lemma merge_entries_conflict:
  assumes "merge_entries f ks = Inr (m, cs)" and "distinct ks" and "c \<in> set cs"
  obtains k v cs' where "k \<in> set ks" "f k = Inr (v, cs')" "c \<in> set cs'"
proof -
  from merge_entries_Inr [OF assms(1,2)] assms(3) obtain k where
    "k \<in> set ks" "f k = Inr (projr (f k))" "c \<in> set (snd (projr (f k)))" by auto
  then show ?thesis using that [of k "fst (projr (f k))" "snd (projr (f k))"] by simp
qed

lemma merge_value_conflict:
  "merge_value p b a t = (v, cs) \<Longrightarrow> c \<in> set cs \<Longrightarrow> genuine c \<and> \<not> agreeing b a t"
  by (auto simp: merge_value_def genuine_def agreeing_def val.merge_by_None val.eq_refl
      split: option.splits)

lemma merge_subdict_conflict:
  assumes "merge_subdict p b a t = Inr (m, cs)" and "c \<in> set cs"
  shows "genuine c \<and> \<not> agreeing b a t"
proof -
  obtain k v cs' where
    "Inr (merge_value (p @ ''.'' @ k) (py_get b k) (py_get a k) (py_get t k)) = (Inr (v, cs') :: (pyval \<times> field_conflict list) result)"
    "c \<in> set cs'"
    by (rule merge_fields_conflict [OF assms(1) [unfolded merge_subdict_def] assms(2)])
  then have "genuine c \<and> \<not> agreeing (py_get b k) (py_get a k) (py_get t k)"
    using merge_value_conflict by blast
  then show ?thesis by (auto simp: agreeing_def)
qed

lemma strategy_map_dict:
  assumes "strategy_map v = Inr m" and "dict_get m n = Some s"
  shows "is_dict s"
proof -
  have names: "res_map (\<lambda>(i, s). strategy_name i s) xs = Inr kvs \<Longrightarrow> list_all (\<lambda>kv. is_dict (snd kv)) kvs"
    for xs kvs
  proof (induction xs arbitrary: kvs)
    case (Cons x xs)
    from Cons.prems obtain ks kvs' where x: "strategy_name (fst x) (snd x) = Inr ks" "kvs = ks # kvs'"
      and rest: "res_map (\<lambda>(i, s). strategy_name i s) xs = Inr kvs'"
      by (cases x; cases "strategy_name (fst x) (snd x)";
          cases "res_map (\<lambda>(i, s). strategy_name i s) xs") auto
    from x(1) have "is_dict (snd ks)"
      by (cases "snd x") (auto simp: strategy_name_def res_bind_eq_Inr)
    then show ?case using x(2) Cons.IH [OF rest] by simp
  qed simp
  have fold: "list_all (\<lambda>kv. is_dict (snd kv)) kvs \<Longrightarrow> dict_all is_dict d \<Longrightarrow>
      dict_all is_dict (foldl (\<lambda>d (k, s). dict_set k s d) d kvs)" for kvs and d :: "(pyval, pyval) dict"
    by (induction kvs arbitrary: d) (auto simp: dict_all_set)
  from assms(1) obtain xs kvs where "res_map (\<lambda>(i, s). strategy_name i s) xs = Inr kvs"
    "m = foldl (\<lambda>d (k, s). dict_set k s d) [] kvs"
    by (auto simp: strategy_map_def res_bind_eq_Inr)
  then have "dict_all is_dict m" using names fold by simp
  then show ?thesis using assms(2) by (rule dict_all_get)
qed

lemma py_eq_None_dict: "is_dict s \<Longrightarrow> \<not> py_eq PNone s \<and> \<not> py_eq s PNone"
  by (cases s) (simp_all add: py_eq_def)

lemma merge_strategy_conflict:
  assumes "merge_strategy p b a t = (v, cs)" and "c \<in> set cs"
    and "\<And>s. b = Some s \<or> a = Some s \<or> t = Some s \<Longrightarrow> is_dict s"
  shows "genuine c"
proof -
  have none: "merge_by (rel_option py_eq) b a t = None" and
    c: "fc_base_value c = opt_or b PNone" "fc_ours_value c = opt_or a PNone" "fc_theirs_value c = opt_or t PNone"
    using assms(1,2) by (auto simp: merge_strategy_def split: option.splits)
  have same: "py_eq (opt_or x PNone) (opt_or y PNone) \<longleftrightarrow> rel_option py_eq x y"
    if "\<And>s. x = Some s \<Longrightarrow> is_dict s" and "\<And>s. y = Some s \<Longrightarrow> is_dict s" for x y
    using that py_eq_None_dict by (cases x; cases y) (auto simp: val.eq_refl)
  note d = assms(3) [OF disjI1] assms(3) [OF disjI2, OF disjI1] assms(3) [OF disjI2, OF disjI2]
  show ?thesis
    using none by (simp add: optval.merge_by_None genuine_def c same [OF d(1) d(2)] same [OF d(1) d(3)] same [OF d(2) d(3)])
qed

lemma merge_strategies_conflict:
  assumes "merge_strategies str_of key b a t = Inr (m, cs)" and "c \<in> set cs"
  shows "genuine c \<and> \<not> agreeing b a t"
proof -
  from assms have none: "merge_by py_eq b a t = None"
    by (auto simp: merge_strategies_def split: option.splits)
  with assms(1) obtain bm am tm sm where
    maps: "strategy_map b = Inr bm" "strategy_map a = Inr am" "strategy_map t = Inr tm"
    and loop: "merge_entries (\<lambda>n. Inr (merge_strategy (''assets.'' @ key @ ''.strategies.'' @ py_str str_of n)
         (dict_get bm n) (dict_get am n) (dict_get tm n)))
       (dict_fromkeys (dict_keys am @ dict_keys tm @ dict_keys bm)) = Inr (sm, cs)"
    by (auto simp: merge_strategies_def res_bind_eq_Inr)
  obtain n v cs' where
    "Inr (merge_strategy (''assets.'' @ key @ ''.strategies.'' @ py_str str_of n)
         (dict_get bm n) (dict_get am n) (dict_get tm n)) = (Inr (v, cs') :: (pyval option \<times> field_conflict list) result)"
    "c \<in> set cs'"
    by (rule merge_entries_conflict [OF loop dict_fromkeys(1) assms(2)])
  then have "genuine c"
    using strategy_map_dict [OF maps(1), of n] strategy_map_dict [OF maps(2), of n] strategy_map_dict [OF maps(3), of n]
    by (intro merge_strategy_conflict) auto
  moreover have "\<not> agreeing b a t" using none by (auto simp: val.merge_by_None agreeing_def val.eq_refl)
  ultimately show ?thesis by simp
qed

lemma merge_asset_field_conflict:
  assumes "merge_asset_field str_of key f b a t = Inr (m, cs)" and "c \<in> set cs"
  shows "genuine c \<and> \<not> agreeing b a t"
proof -
  let ?p = "''assets.'' @ key @ ''.'' @ f"
  consider "merge_strategies str_of key (val_or b (PList [])) (val_or a (PList [])) (val_or t (PList [])) = Inr (m, cs)"
    | b' a' t' m' where "py_dict (val_or b (PDict [])) = Inr b'" "py_dict (val_or a (PDict [])) = Inr a'"
      "py_dict (val_or t (PDict [])) = Inr t'" "merge_subdict ?p b' a' t' = Inr (m', cs)"
    | "merge_value ?p b a t = (m, cs)"
    using assms(1) unfolding merge_asset_field_def Let_def
    by (auto simp: res_bind_eq_Inr simp del: append.simps split: if_splits)
  then show ?thesis
  proof cases
    case 1
    from merge_strategies_conflict [OF this assms(2)] show ?thesis by (auto simp: agreeing_def)
  next
    case 2
    from merge_subdict_conflict [OF 2(4) assms(2)] 2(1-3) show ?thesis by (auto simp: agreeing_def)
  next
    case 3
    from merge_value_conflict [OF 3 assms(2)] show ?thesis .
  qed
qed

lemma merge_single_asset_conflict:
  assumes "merge_single_asset str_of key b a t = Inr (m, cs)" and "c \<in> set cs"
  shows "genuine c \<and> \<not> agreeing b a t"
proof -
  obtain f v cs' where "merge_asset_field str_of key f (py_get b f) (py_get a f) (py_get t f) = Inr (v, cs')"
    "c \<in> set cs'"
    by (rule merge_fields_conflict [OF assms(1) [unfolded merge_single_asset_def] assms(2)])
  from merge_asset_field_conflict [OF this] show ?thesis by (auto simp: agreeing_def)
qed

lemma presence_conflict_genuine: "genuine (presence_conflict k ''Modified'' ''Deleted'')"
  "genuine (presence_conflict k ''Deleted'' ''Modified'')"
  by (simp_all add: genuine_def presence_conflict_def py_eq_def)

lemma merge_asset_conflict:
  assumes "merge_asset str_of key b a t = Inr (m, cs)" and "c \<in> set cs"
  shows "genuine c \<and> \<not> agreeing b a t"
proof (cases "\<exists>a' t'. a = Some a' \<and> t = Some t'")
  case True
  then obtain a' t' where at: "a = Some a'" "t = Some t'" by blast
  then obtain m' where "merge_single_asset str_of key (opt_or b []) a' t' = Inr (m', cs)"
    using assms(1) by (cases b) (auto simp: merge_asset_def res_bind_eq_Inr)
  from merge_single_asset_conflict [OF this assms(2)] at show ?thesis
    by (cases b) (auto simp: agreeing_def)
next
  case False
  then show ?thesis using assms
    by (cases a; cases t; cases b)
      (auto simp: merge_asset_def agreeing_def presence_conflict_genuine val.eq_refl split: if_splits)
qed

lemma merge_assets_conflict:
  assumes "merge_assets str_of b a t = Inr (m, cs)" and "c \<in> set cs"
  shows "genuine c \<and> \<not> agreeing b a t"
proof -
  from assms(1) obtain bm om tm where
    maps: "asset_map str_of b = Inr bm" "asset_map str_of a = Inr om" "asset_map str_of t = Inr tm"
    and loop: "merge_entries (\<lambda>k. merge_asset str_of k (dict_get bm k) (dict_get om k) (dict_get tm k))
       (dict_fromkeys (dict_keys om @ dict_keys tm @ dict_keys bm)) = Inr (m, cs)"
    by (auto simp: merge_assets_def res_bind_eq_Inr)
  obtain k v cs' where "merge_asset str_of k (dict_get bm k) (dict_get om k) (dict_get tm k) = Inr (v, cs')"
    "c \<in> set cs'"
    by (rule merge_entries_conflict [OF loop dict_fromkeys(1) assms(2)])
  from merge_asset_conflict [OF this] maps show ?thesis by (auto simp: agreeing_def)
qed

text \<open>Every conflict a merge reports is genuine: the three values it shows differ pairwise.  When
  one side left the configuration as it was, or both sides made the same configuration, the merge
  reports none.\<close>

theorem conflicts_are_genuine:
  assumes "merge str_of base ours theirs = Inr (m, cs)"
  shows "(\<forall>c \<in> set cs. genuine c) \<and> (ours = base \<or> theirs = base \<or> ours = theirs \<longrightarrow> cs = [])"
proof -
  have "genuine c \<and> \<not> agreeing base ours theirs" if c: "c \<in> set cs" for c
  proof -
    obtain top kas tcs acs where
      fields: "merge_fields (\<lambda>k. Inr (merge_value k (py_get base k) (py_get ours k) (py_get theirs k)))
        (filter (\<lambda>k. k \<noteq> ''assets'') (sorted_keys base ours theirs)) = Inr (top, tcs)"
      and assets: "merge_assets str_of (get_or base ''assets'' (PList [])) (get_or ours ''assets'' (PList []))
        (get_or theirs ''assets'' (PList [])) = Inr (kas, acs)" and "cs = tcs @ acs"
      by (rule merge_top [OF assms])
    with c consider "c \<in> set tcs" | "c \<in> set acs" by auto
    then show ?thesis
    proof cases
      case 1
      obtain k v cs' where
        "Inr (merge_value k (py_get base k) (py_get ours k) (py_get theirs k)) = (Inr (v, cs') :: (pyval \<times> field_conflict list) result)"
        "c \<in> set cs'"
        by (rule merge_fields_conflict [OF fields 1])
      then have "genuine c \<and> \<not> agreeing (py_get base k) (py_get ours k) (py_get theirs k)"
        using merge_value_conflict by blast
      then show ?thesis by (auto simp: agreeing_def)
    next
      case 2
      from merge_assets_conflict [OF assets this] show ?thesis by (auto simp: agreeing_def)
    qed
  qed
  then show ?thesis by (cases cs) (auto simp: agreeing_def)
qed

lemma demo_conflict:
  "merge no_text (demo_config ''1'' 1) (demo_config ''2'' 1) (demo_config ''3'' 1) =
     Inr ([(''dynamic_quantity'', PStr ''2''),
           (''assets'', PList [PDict [(''base_ticker_symbol'', PStr ''BTC''), (''min_quantity'', PNum 1),
              (''quote_ticker_symbol'', PStr ''USD'')]])],
          [\<lparr>fc_path = ''dynamic_quantity'', fc_base_value = PStr ''1'', fc_ours_value = PStr ''2'',
            fc_theirs_value = PStr ''3''\<rparr>])"
  by code_simp

theorem conflicts_are_genuine_witness:
  "\<exists>m c. merge no_text (demo_config ''1'' 1) (demo_config ''2'' 1) (demo_config ''3'' 1) = Inr (m, [c]) \<and> genuine c"
  using conflicts_are_genuine [OF demo_conflict] demo_conflict by (intro exI conjI) (assumption, simp)

end
