(* ===== verification/Versioning.thy ===== *)
theory Versioning
  imports Merge "HOL-Library.Countable"
begin

text \<open>
  The configuration version store (\<open>src/src/vcs/application/service.py\<close>, \<open>src/src/vcs/core\<close>, the
  blob, commit and reference repositories under \<open>src/src/database/repositories/providers\<close>).

  The three tables are dictionaries.  A unit of work that raises changes nothing.  \<open>hash_env\<close> holds
  what the code takes from outside: SHA-256, the canonical JSON text of a value and the ISO text of a
  time stamp; \<open>model\<close> is the validation of a configuration by its pydantic class, returning the
  dumped dictionary.  Strings are byte strings (UTF-8).  Only \<open>merge\<close> writes \<open>parents\<close> into the
  metadata of a commit; the search reads the strings of that list.

  \<open>merge\<close> reads the store, computes, and writes in a later transaction, so other clients may change
  the store in between: it is split into \<open>merge_prepare\<close> and \<open>merge_finish\<close>.
\<close>

section \<open>Data\<close>

record commit =
  cm_hash :: string
  cm_blob_hash :: string
  cm_parent_hash :: "string option"
  cm_author :: string
  cm_message :: string
  cm_metadata :: config
  cm_created_at :: timestamp

record vcs_store =
  vs_refs :: "(string, string) dict"
  vs_commits :: "(string, commit) dict"
  vs_blobs :: "(string, config) dict"

definition empty_store :: vcs_store where
  "empty_store = \<lparr>vs_refs = [], vs_commits = [], vs_blobs = []\<rparr>"

datatype vcs_error =
    InvalidReferenceError
  | CommitNotFoundError
  | BlobNotFoundError
  | ProtectedBranch
  | TargetHeadChanged
  | UnresolvedConflicts
  | MergedConfigurationEmpty
  | TargetUpdatedConcurrently
  | ValidationError
  | IntegrityError
  | Raised py_exc

type_synonym 'a vcs_result = "vcs_error + 'a"

definition vbind :: "'a vcs_result \<Rightarrow> ('a \<Rightarrow> 'b vcs_result) \<Rightarrow> 'b vcs_result" where
  "vbind r f = (case r of Inl e \<Rightarrow> Inl e | Inr x \<Rightarrow> f x)"

lemma vbind_simps [simp]: "vbind (Inl e) f = Inl e" "vbind (Inr x) f = f x"
  by (simp_all add: vbind_def)

lemma vbind_eq_Inr: "vbind r f = Inr y \<longleftrightarrow> (\<exists>x. r = Inr x \<and> f x = Inr y)"
  by (cases r) simp_all

section \<open>Hashing\<close>

record hash_env =
  he_sha256 :: "string \<Rightarrow> string"
  he_json :: "pyval \<Rightarrow> string"
  he_isoformat :: "timestamp \<Rightarrow> string"

definition compute_blob_hash :: "hash_env \<Rightarrow> config \<Rightarrow> string" where
  "compute_blob_hash E content = he_sha256 E (he_json E (PDict content))"

definition newline :: string where
  "newline = [CHR 0x0A]"

definition compute_commit_hash ::
  "hash_env \<Rightarrow> string \<Rightarrow> string option \<Rightarrow> string \<Rightarrow> string \<Rightarrow> config \<Rightarrow> timestamp \<Rightarrow> string" where
  "compute_commit_hash E blob_hash parent_hash author message metadata ts =
     (let raw_body = ''parent='' @ opt_or parent_hash [] @ newline @ ''blob='' @ blob_hash @ newline
            @ ''author='' @ author @ newline @ ''message='' @ message @ newline
            @ ''metadata='' @ he_json E (PDict metadata) @ newline @ ''timestamp='' @ he_isoformat E ts;
          header = ''commit '' @ nat_str (length raw_body) @ [CHR 0x00]
      in he_sha256 E (header @ raw_body))"

section \<open>Names\<close>

definition main_names :: "string list" where
  "main_names = [''refs/heads/main'', ''main'', ''HEAD'']"

definition starts_with :: "string \<Rightarrow> string \<Rightarrow> bool" where
  "starts_with p s \<longleftrightarrow> take (length p) s = p"

definition ref_candidates :: "string \<Rightarrow> string list" where
  "ref_candidates r =
     (if r \<in> set main_names then r # filter (\<lambda>x. x \<noteq> r) main_names
      else if starts_with ''refs/heads/'' r then [r, drop (length ''refs/heads/'') r]
      else [r, ''refs/heads/'' @ r]
           @ (if starts_with ''backtest/'' r then [] else [''refs/heads/backtest/'' @ r]))"

definition first_ref :: "vcs_store \<Rightarrow> string list \<Rightarrow> string option" where
  "first_ref st names =
     (case find (\<lambda>n. dict_get (vs_refs st) n \<noteq> None) names of
        None \<Rightarrow> None | Some n \<Rightarrow> dict_get (vs_refs st) n)"

definition resolve_commit_hash :: "vcs_store \<Rightarrow> string \<Rightarrow> string vcs_result" where
  "resolve_commit_hash st r =
     (case first_ref st (ref_candidates r) of
        Some h \<Rightarrow> Inr h
      | None \<Rightarrow> (case dict_get (vs_commits st) r of
                    Some c \<Rightarrow> Inr (cm_hash c)
                  | None \<Rightarrow> Inl InvalidReferenceError))"

section \<open>Reading\<close>

definition head :: "vcs_store \<Rightarrow> string \<Rightarrow> commit vcs_result" where
  "head st r = vbind (resolve_commit_hash st r)
     (\<lambda>h. case dict_get (vs_commits st) h of None \<Rightarrow> Inl CommitNotFoundError | Some c \<Rightarrow> Inr c)"

definition get_blob :: "vcs_store \<Rightarrow> string \<Rightarrow> config vcs_result" where
  "get_blob st r = vbind (resolve_commit_hash st r)
     (\<lambda>h. case dict_get (vs_commits st) h of
            None \<Rightarrow> Inl CommitNotFoundError
          | Some c \<Rightarrow> (case dict_get (vs_blobs st) (cm_blob_hash c) of
                          None \<Rightarrow> Inl BlobNotFoundError | Some b \<Rightarrow> Inr b))"

definition checkout :: "vcs_store \<Rightarrow> string \<Rightarrow> config vcs_result" where
  "checkout st r = get_blob st r"

fun get_log :: "vcs_store \<Rightarrow> string option \<Rightarrow> nat \<Rightarrow> commit list" where
  "get_log st cur 0 = []"
| "get_log st cur (Suc n) =
     (case cur of
        None \<Rightarrow> []
      | Some h \<Rightarrow> if h = [] then []
                  else (case dict_get (vs_commits st) h of
                          None \<Rightarrow> [] | Some c \<Rightarrow> c # get_log st (cm_parent_hash c) n))"

definition vcs_log :: "vcs_store \<Rightarrow> string \<Rightarrow> int \<Rightarrow> commit list vcs_result" where
  "vcs_log st r limit = vbind (resolve_commit_hash st r) (\<lambda>h. Inr (get_log st (Some h) (nat limit)))"

definition list_branches :: "vcs_store \<Rightarrow> string \<Rightarrow> (string \<times> string) list" where
  "list_branches st pre =
     filter (\<lambda>r. starts_with pre (fst r) \<or> fst r \<in> {''HEAD'', ''main''}) (vs_refs st)"

section \<open>Writing\<close>

text \<open>\<open>save_blob\<close>: \<open>ON CONFLICT DO NOTHING\<close>; \<open>set_reference\<close>: an upsert.\<close>

definition save_blob :: "string \<Rightarrow> config \<Rightarrow> vcs_store \<Rightarrow> vcs_store" where
  "save_blob h content st =
     (case dict_get (vs_blobs st) h of
        Some _ \<Rightarrow> st | None \<Rightarrow> st\<lparr>vs_blobs := dict_set h content (vs_blobs st)\<rparr>)"

definition save_commit :: "commit \<Rightarrow> vcs_store \<Rightarrow> vcs_store vcs_result" where
  "save_commit c st =
     (case dict_get (vs_commits st) (cm_hash c) of
        Some _ \<Rightarrow> Inl IntegrityError
      | None \<Rightarrow> Inr (st\<lparr>vs_commits := dict_set (cm_hash c) c (vs_commits st)\<rparr>))"

definition set_reference :: "string \<Rightarrow> string \<Rightarrow> vcs_store \<Rightarrow> vcs_store" where
  "set_reference name h st = st\<lparr>vs_refs := dict_set name h (vs_refs st)\<rparr>"

definition move_reference :: "string \<Rightarrow> string \<Rightarrow> vcs_store \<Rightarrow> vcs_store" where
  "move_reference r h st =
     (let st1 = set_reference r h st
      in if r \<in> set main_names then set_reference ''refs/heads/main'' h (set_reference ''HEAD'' h st1) else st1)"

text \<open>The head a writer builds on: the reference itself, or for a main name the first alias set.\<close>

definition existing_ref :: "string list \<Rightarrow> vcs_store \<Rightarrow> string \<Rightarrow> string option" where
  "existing_ref aliases st r =
     (case dict_get (vs_refs st) r of
        Some h \<Rightarrow> Some h
      | None \<Rightarrow> if r \<in> set main_names then first_ref st aliases else None)"

definition commit_aliases :: "string list" where
  "commit_aliases = [''HEAD'', ''refs/heads/main'', ''main'']"

text \<open>Blob, commit and reference of one new commit: the body of the transaction.\<close>

definition write_commit ::
  "hash_env \<Rightarrow> timestamp \<Rightarrow> config \<Rightarrow> string option \<Rightarrow> string \<Rightarrow> string \<Rightarrow> config \<Rightarrow> string \<Rightarrow> vcs_store \<Rightarrow>
     (vcs_store \<times> commit) vcs_result" where
  "write_commit E now content parent author message metadata r st =
     (let bh = compute_blob_hash E content;
          c = \<lparr>cm_hash = compute_commit_hash E bh parent author message metadata now, cm_blob_hash = bh,
               cm_parent_hash = parent, cm_author = author, cm_message = message,
               cm_metadata = metadata, cm_created_at = now\<rparr>
      in vbind (save_commit c (save_blob bh content st))
           (\<lambda>st'. Inr (move_reference r (cm_hash c) st', c)))"

definition vcs_commit ::
  "hash_env \<Rightarrow> timestamp \<Rightarrow> config \<Rightarrow> string \<Rightarrow> string \<Rightarrow> string \<Rightarrow> config \<Rightarrow> vcs_store \<Rightarrow>
     (vcs_store \<times> commit) vcs_result" where
  "vcs_commit E now content author message r metadata st =
     write_commit E now content (existing_ref commit_aliases st r) author message metadata r st"

definition seed_if_empty ::
  "hash_env \<Rightarrow> timestamp \<Rightarrow> config \<Rightarrow> string \<Rightarrow> string \<Rightarrow> string \<Rightarrow> vcs_store \<Rightarrow>
     (vcs_store \<times> commit option) vcs_result" where
  "seed_if_empty E now content author message r st =
     (case existing_ref commit_aliases st r of
        Some h \<Rightarrow>
          Inr (if r \<in> set main_names
               then set_reference ''refs/heads/main'' h (set_reference ''HEAD'' h st) else st, None)
      | None \<Rightarrow> vbind (vcs_commit E now content author message r [] st) (\<lambda>(st', c). Inr (st', Some c)))"

definition reset :: "string \<Rightarrow> string \<Rightarrow> vcs_store \<Rightarrow> vcs_store vcs_result" where
  "reset r target st = vbind (resolve_commit_hash st target) (\<lambda>h. Inr (set_reference r h st))"

definition branch :: "string \<Rightarrow> string \<Rightarrow> vcs_store \<Rightarrow> vcs_store vcs_result" where
  "branch name from_ref st = vbind (resolve_commit_hash st from_ref) (\<lambda>h. Inr (set_reference name h st))"

definition delete_branch :: "string \<Rightarrow> vcs_store \<Rightarrow> (vcs_store \<times> bool) vcs_result" where
  "delete_branch name st =
     (if name \<in> set main_names then Inl ProtectedBranch
      else Inr (st\<lparr>vs_refs := dict_del name (vs_refs st)\<rparr>, dict_get (vs_refs st) name \<noteq> None))"

section \<open>Merge base\<close>

definition metadata_parents :: "commit \<Rightarrow> string list" where
  "metadata_parents c =
     (case py_get (cm_metadata c) ''parents'' of
        PList ps \<Rightarrow> List.map_filter (\<lambda>p. case p of PStr s \<Rightarrow> Some s | _ \<Rightarrow> None) ps
      | _ \<Rightarrow> [])"

definition commit_parents :: "commit \<Rightarrow> string list" where
  "commit_parents c = (if truthy (cm_parent_hash c) then [the (cm_parent_hash c)] else []) @ metadata_parents c"

definition parents :: "vcs_store \<Rightarrow> string \<Rightarrow> string list" where
  "parents st h = (case dict_get (vs_commits st) h of None \<Rightarrow> [] | Some c \<Rightarrow> commit_parents c)"

text \<open>The breadth-first loop: \<open>visited\<close> lists the commits with the depth at which they were found.\<close>

function bfs :: "vcs_store \<Rightarrow> (string \<times> nat) list \<Rightarrow> (string \<times> nat) list \<Rightarrow> (string \<times> nat) list" where
  "bfs st [] visited = visited"
| "bfs st ((h, d) # q) visited =
     (if h \<in> fst ` set visited then bfs st q visited
      else bfs st (q @ map (\<lambda>p. (p, d + 1)) (parents st h)) (visited @ [(h, d)]))"
  by pat_completeness auto

termination
proof (relation "inv_image (less_than <*lex*> less_than)
    (\<lambda>(st, q, v). (card (set (dict_keys (vs_commits st)) - fst ` set v), length q))", goal_cases)
  case 1
  then show ?case by (simp add: wf_lex_prod)
next
  case (2 st h d q visited)
  then show ?case by simp
next
  case (3 st h d q visited)
  show ?case
  proof (cases "h \<in> set (dict_keys (vs_commits st))")
    case True
    then have "card (set (dict_keys (vs_commits st)) - fst ` set (visited @ [(h, d)]))
        < card (set (dict_keys (vs_commits st)) - fst ` set visited)"
      using 3 by (intro psubset_card_mono) auto
    then show ?thesis by simp
  next
    case False
    then have "parents st h = []" by (simp add: parents_def map_of_eq_None_iff [THEN iffD2])
    moreover have "set (dict_keys (vs_commits st)) - fst ` set (visited @ [(h, d)])
        = set (dict_keys (vs_commits st)) - fst ` set visited" using False by auto
    ultimately show ?thesis by simp
  qed
qed

definition merge_candidates :: "vcs_store \<Rightarrow> string \<Rightarrow> string \<Rightarrow> (nat \<times> string) list" where
  "merge_candidates st a b =
     (let ancestors_a = bfs st [(a, 0)] []
      in List.map_filter
           (\<lambda>(h, d). map_option (\<lambda>da. (da + d, h)) (dict_get ancestors_a h)) (bfs st [(b, 0)] []))"

definition merge_base_of :: "vcs_store \<Rightarrow> string \<Rightarrow> string \<Rightarrow> string option" where
  "merge_base_of st a b =
     (if a = b then Some a
      else case sort_key fst (merge_candidates st a b) of [] \<Rightarrow> None | (_, h) # _ \<Rightarrow> Some h)"

definition find_merge_base :: "vcs_store \<Rightarrow> string \<Rightarrow> string \<Rightarrow> string option vcs_result" where
  "find_merge_base st commit_a commit_b =
     vbind (resolve_commit_hash st commit_a) (\<lambda>a.
     vbind (resolve_commit_hash st commit_b) (\<lambda>b. Inr (merge_base_of st a b)))"

section \<open>Merging\<close>

datatype merge_status = CLEAN | CONFLICT | INCOMPATIBLE_SCHEMA | FAST_FORWARD

record merge_preview =
  mv_status :: merge_status
  mv_merge_base_hash :: string
  mv_target_head_hash :: string
  mv_source_commit_hash :: string
  mv_can_fast_forward :: bool
  mv_conflicts :: "field_conflict list"
  mv_merged_config :: config
  mv_valid :: bool

definition lift_exc :: "'a result \<Rightarrow> 'a vcs_result" where
  "lift_exc r = (case r of Inl e \<Rightarrow> Inl (Raised e) | Inr x \<Rightarrow> Inr x)"

definition preview_merge ::
  "(pyval \<Rightarrow> string) \<Rightarrow> (config \<Rightarrow> config option) \<Rightarrow> vcs_store \<Rightarrow> string \<Rightarrow> string \<Rightarrow> merge_preview vcs_result" where
  "preview_merge str_of model st source target_ref =
     vbind (resolve_commit_hash st source) (\<lambda>source_hash.
     vbind (case resolve_commit_hash st target_ref of
              Inl InvalidReferenceError \<Rightarrow> resolve_commit_hash st ''HEAD'' | r \<Rightarrow> r) (\<lambda>target_hash.
     vbind (find_merge_base st target_hash source_hash) (\<lambda>found.
       let base = (if truthy found then the found else target_hash);
           ff = (base = target_hash)
       in if source_hash = target_hash
          then vbind (checkout st source_hash) (\<lambda>cfg.
                 Inr \<lparr>mv_status = CLEAN, mv_merge_base_hash = base, mv_target_head_hash = target_hash,
                      mv_source_commit_hash = source_hash, mv_can_fast_forward = True, mv_conflicts = [],
                      mv_merged_config = cfg, mv_valid = True\<rparr>)
          else vbind (checkout st base) (\<lambda>base_config.
               vbind (checkout st target_hash) (\<lambda>ours_config.
               vbind (checkout st source_hash) (\<lambda>theirs_config.
               vbind (lift_exc (merge str_of base_config ours_config theirs_config)) (\<lambda>(merged, conflicts).
                 Inr \<lparr>mv_status = (if ff \<and> conflicts = [] then FAST_FORWARD
                                     else if conflicts \<noteq> [] then CONFLICT else CLEAN),
                      mv_merge_base_hash = base, mv_target_head_hash = target_hash,
                      mv_source_commit_hash = source_hash, mv_can_fast_forward = ff,
                      mv_conflicts = conflicts, mv_merged_config = merged,
                      mv_valid = (model merged \<noteq> None)\<rparr>)))))))"

text \<open>What \<open>merge\<close> has computed when it opens its transaction.\<close>

record merge_plan =
  mg_source :: string
  mg_target :: string
  mg_target_ref :: string
  mg_content :: config
  mg_author :: string
  mg_message :: string
  mg_metadata :: config

record merge_request =
  mq_source :: string
  mq_target_ref :: string
  mq_author :: string
  mq_message :: "string option"
  mq_expected_head :: "string option"
  mq_resolved :: "config option"

definition merge_prepare ::
  "(pyval \<Rightarrow> string) \<Rightarrow> (config \<Rightarrow> config option) \<Rightarrow> vcs_store \<Rightarrow> merge_request \<Rightarrow> merge_plan vcs_result" where
  "merge_prepare str_of model st q =
     vbind (resolve_commit_hash st (mq_source q)) (\<lambda>source_hash.
     vbind (resolve_commit_hash st (mq_target_ref q)) (\<lambda>target_hash.
       if truthy (mq_expected_head q) \<and> mq_expected_head q \<noteq> Some target_hash then Inl TargetHeadChanged
       else
         vbind (case mq_resolved q of
                  Some cfg \<Rightarrow> Inr cfg
                | None \<Rightarrow>
                    vbind (preview_merge str_of model st (mq_source q) (mq_target_ref q)) (\<lambda>p.
                      if mv_conflicts p \<noteq> [] then Inl UnresolvedConflicts
                      else if mv_merged_config p = [] then Inl MergedConfigurationEmpty
                      else Inr (mv_merged_config p)))
           (\<lambda>final_config.
         case model final_config of
           None \<Rightarrow> Inl ValidationError
         | Some canonical \<Rightarrow>
             Inr \<lparr>mg_source = source_hash, mg_target = target_hash, mg_target_ref = mq_target_ref q,
                  mg_content = canonical, mg_author = mq_author q,
                  mg_message = opt_or (py_or (mq_message q) None)
                    (''Merge '' @ [CHR 0x27] @ mq_source q @ [CHR 0x27] @ '' into '' @ mq_target_ref q),
                  mg_metadata = [(''parents'', PList [PStr target_hash, PStr source_hash]),
                    (''merge_source'', PStr (mq_source q)), (''merge_target'', PStr (mq_target_ref q))]\<rparr>)))"

definition merge_finish ::
  "hash_env \<Rightarrow> timestamp \<Rightarrow> merge_plan \<Rightarrow> vcs_store \<Rightarrow> (vcs_store \<times> commit) vcs_result" where
  "merge_finish E now plan st =
     (let existing = existing_ref main_names st (mg_target_ref plan)
      in if existing \<noteq> None \<and> existing \<noteq> Some (mg_target plan) then Inl TargetUpdatedConcurrently
         else write_commit E now (mg_content plan) (Some (mg_target plan)) (mg_author plan)
                (mg_message plan) (mg_metadata plan) (mg_target_ref plan) st)"

section \<open>Runs of the store\<close>

text \<open>
  Clients act one transaction at a time; a merge in progress is a pending plan, so any other
  operation may come between its two halves.  \<open>str_of\<close>, \<open>model\<close> and the hash environment are
  fixed for a run.
\<close>

datatype vcs_op =
    Commit timestamp config string string string config
  | Seed timestamp config string string string
  | Reset string string
  | Branch string string
  | DeleteBranch string
  | PrepareMerge merge_request
  | FinishMerge timestamp nat

record vcs_system =
  sy_store :: vcs_store
  sy_pending :: "merge_plan list"

definition vcs_start :: vcs_system where
  "vcs_start = \<lparr>sy_store = empty_store, sy_pending = []\<rparr>"

definition with_store :: "vcs_system \<Rightarrow> vcs_store vcs_result \<Rightarrow> vcs_system" where
  "with_store s r = (case r of Inl e \<Rightarrow> s | Inr st \<Rightarrow> s\<lparr>sy_store := st\<rparr>)"

definition fst_result :: "('a \<times> 'b) vcs_result \<Rightarrow> 'a vcs_result" where
  "fst_result r = vbind r (\<lambda>p. Inr (fst p))"

fun vcs_step ::
  "hash_env \<Rightarrow> (pyval \<Rightarrow> string) \<Rightarrow> (config \<Rightarrow> config option) \<Rightarrow> vcs_system \<Rightarrow> vcs_op \<Rightarrow> vcs_system" where
  "vcs_step E str_of model s (Commit now content author message r metadata) =
     with_store s (fst_result (vcs_commit E now content author message r metadata (sy_store s)))"
| "vcs_step E str_of model s (Seed now content author message r) =
     with_store s (fst_result (seed_if_empty E now content author message r (sy_store s)))"
| "vcs_step E str_of model s (Reset r target) = with_store s (reset r target (sy_store s))"
| "vcs_step E str_of model s (Branch name from_ref) = with_store s (branch name from_ref (sy_store s))"
| "vcs_step E str_of model s (DeleteBranch name) = with_store s (fst_result (delete_branch name (sy_store s)))"
| "vcs_step E str_of model s (PrepareMerge q) =
     (case merge_prepare str_of model (sy_store s) q of
        Inl e \<Rightarrow> s | Inr plan \<Rightarrow> s\<lparr>sy_pending := sy_pending s @ [plan]\<rparr>)"
| "vcs_step E str_of model s (FinishMerge now i) =
     (if i < length (sy_pending s)
      then with_store s (fst_result (merge_finish E now (sy_pending s ! i) (sy_store s)))
      else s)"

section \<open>The search for the merge base\<close>

text \<open>\<open>walk st n a h\<close>: \<open>h\<close> is reached from \<open>a\<close> by following \<open>n\<close> parent links.\<close>

fun walk :: "vcs_store \<Rightarrow> nat \<Rightarrow> string \<Rightarrow> string \<Rightarrow> bool" where
  "walk st 0 a h \<longleftrightarrow> a = h"
| "walk st (Suc n) a h \<longleftrightarrow> (\<exists>c. walk st n a c \<and> h \<in> set (parents st c))"

definition bfs_inv :: "vcs_store \<Rightarrow> string \<Rightarrow> (string \<times> nat) list \<Rightarrow> (string \<times> nat) list \<Rightarrow> bool" where
  "bfs_inv st a q v \<longleftrightarrow>
     (\<forall>(h, d) \<in> set v \<union> set q. walk st d a h) \<and>
     sorted (map snd q) \<and>
     (q \<noteq> [] \<longrightarrow> (\<forall>(h, d) \<in> set q. d \<le> snd (hd q) + 1) \<and> (\<forall>(h, d) \<in> set v. d \<le> snd (hd q))) \<and>
     (\<forall>(h, d) \<in> set v. \<forall>p \<in> set (parents st h). \<exists>d' \<le> d + 1. (p, d') \<in> set v \<union> set q) \<and>
     (a, 0) \<in> set v \<union> set q \<and> distinct (map fst v)"

lemma bfs_inv_skip:
  assumes "bfs_inv st a ((h, d) # q) v" and "h \<in> fst ` set v"
  shows "bfs_inv st a q v"
proof -
  from assms(2) obtain d0 where d0: "(h, d0) \<in> set v" by auto
  then have le: "d0 \<le> d" using assms(1) by (auto simp: bfs_inv_def)
  have found: "\<exists>d'' \<le> n. (p, d'') \<in> set v \<union> set q" if "(p, d') \<in> set v \<union> set ((h, d) # q)" "d' \<le> n" for p d' n
    using that d0 le by (cases "(p, d') = (h, d)") (auto intro: exI [of _ d0])
  have "(a, 0) \<in> set v \<union> set q"
    using assms(1) found [of a 0 0] by (auto simp: bfs_inv_def)
  moreover have "\<exists>d' \<le> n + 1. (p, d') \<in> set v \<union> set q"
    if "(x, n) \<in> set v" "p \<in> set (parents st x)" for x n p
  proof -
    from assms(1) that obtain d' where "d' \<le> n + 1" "(p, d') \<in> set v \<union> set ((h, d) # q)"
      unfolding bfs_inv_def by blast
    then show ?thesis by (intro found)
  qed
  moreover have "d' \<le> snd (hd q) + 1" if "q \<noteq> []" "(x, d') \<in> set q" for x d'
    using assms(1) that by (cases q) (fastforce simp: bfs_inv_def)+
  moreover have "d' \<le> snd (hd q)" if "q \<noteq> []" "(x, d') \<in> set v" for x d'
    using assms(1) that by (cases q) (fastforce simp: bfs_inv_def)+
  ultimately show ?thesis using assms(1) unfolding bfs_inv_def by auto
qed

lemma bfs_inv_visit:
  assumes "bfs_inv st a ((h, d) # q) v" and "h \<notin> fst ` set v"
  shows "bfs_inv st a (q @ map (\<lambda>p. (p, d + 1)) (parents st h)) (v @ [(h, d)])"
proof -
  let ?q = "q @ map (\<lambda>p. (p, d + 1)) (parents st h)"
  have walk: "walk st d a h" and all: "\<forall>(x, n) \<in> set q. d \<le> n \<and> n \<le> d + 1"
    and v: "\<forall>(x, n) \<in> set v. n \<le> d" and srt: "sorted (map snd q)"
    using assms(1) by (auto simp: bfs_inv_def)
  have hd: "d \<le> snd (hd ?q) \<and> snd (hd ?q) \<le> d + 1" if "?q \<noteq> []"
    using that all by (cases q) (auto simp: hd_map)
  have "\<forall>(x, n) \<in> set (v @ [(h, d)]) \<union> set ?q. walk st n a x"
    using assms(1) walk by (auto simp: bfs_inv_def)
  moreover have "sorted (map snd ?q)"
  proof -
    have "sorted (map (\<lambda>_. d + 1) ps)" for ps :: "string list" by (induction ps) auto
    then show ?thesis using srt all by (auto simp: sorted_append comp_def)
  qed
  moreover have bound: "(\<forall>(x, n) \<in> set ?q. n \<le> snd (hd ?q) + 1) \<and> (\<forall>(x, n) \<in> set (v @ [(h, d)]). n \<le> snd (hd ?q))"
    if "?q \<noteq> []"
    using hd [OF that] all v by fastforce
  have link: "\<exists>d' \<le> n + 1. (p, d') \<in> set (v @ [(h, d)]) \<union> set ?q"
    if x: "(x, n) \<in> set (v @ [(h, d)])" "p \<in> set (parents st x)" for x n p
  proof (cases "(x, n) \<in> set v")
    case True
    with assms(1) x obtain d' where "d' \<le> n + 1" "(p, d') \<in> set v \<union> set ((h, d) # q)"
      unfolding bfs_inv_def by blast
    then show ?thesis by auto
  next
    case False
    with x have "x = h" "n = d" by auto
    then show ?thesis using x by (intro exI [of _ "d + 1"]) auto
  qed
  then have "\<forall>(x, n) \<in> set (v @ [(h, d)]). \<forall>p \<in> set (parents st x).
      \<exists>d' \<le> n + 1. (p, d') \<in> set (v @ [(h, d)]) \<union> set ?q" by blast
  moreover have "(a, 0) \<in> set (v @ [(h, d)]) \<union> set ?q" "distinct (map fst (v @ [(h, d)]))"
    using assms by (auto simp: bfs_inv_def)
  ultimately show ?thesis unfolding bfs_inv_def using bound by blast
qed

lemma bfs_inv_result: "bfs_inv st a q v \<Longrightarrow> bfs_inv st a [] (bfs st q v)"
proof (induction st q v rule: bfs.induct)
  case (2 st h d q v)
  then show ?case
    using bfs_inv_skip [OF 2(3)] bfs_inv_visit [OF 2(3)] by (cases "h \<in> fst ` set v") auto
qed simp

declare bfs.simps [simp del]

lemma bfs_complete:
  assumes inv: "bfs_inv st a [] v"
  shows "walk st n a h \<Longrightarrow> \<exists>d \<le> n. (h, d) \<in> set v"
proof (induction n arbitrary: h)
  case 0
  then show ?case using inv by (auto simp: bfs_inv_def)
next
  case (Suc n)
  from Suc.prems obtain c where c: "walk st n a c" "h \<in> set (parents st c)" by auto
  moreover from Suc.IH [OF c(1)] obtain d where "d \<le> n" "(c, d) \<in> set v" by blast
  moreover from this c(2) inv obtain d' where "d' \<le> d + 1" "(h, d') \<in> set v"
    unfolding bfs_inv_def by fastforce
  ultimately show ?case by (intro exI [of _ d']) auto
qed

text \<open>The search lists every ancestor once, with its least distance.\<close>

lemma bfs_distance:
  "dict_get (bfs st [(a, 0)] []) h = Some d \<longleftrightarrow> walk st d a h \<and> (\<forall>n. walk st n a h \<longrightarrow> d \<le> n)"
proof -
  let ?v = "bfs st [(a, 0)] []"
  have inv: "bfs_inv st a [] ?v"
    by (rule bfs_inv_result) (simp add: bfs_inv_def)
  have get: "dict_get ?v h = Some d \<longleftrightarrow> (h, d) \<in> set ?v" for h d
    using inv by (simp add: bfs_inv_def)
  have sound: "(h, d) \<in> set ?v \<Longrightarrow> walk st d a h" for h d
    using inv by (auto simp: bfs_inv_def)
  have unique: "(h, d) \<in> set ?v \<Longrightarrow> (h, d') \<in> set ?v \<Longrightarrow> d = d'" for h d d'
    using get by (metis option.inject)
  show ?thesis
  proof
    assume "dict_get ?v h = Some d"
    then have mem: "(h, d) \<in> set ?v" by (simp add: get)
    moreover have "d \<le> n" if "walk st n a h" for n
      using bfs_complete [OF inv that] unique [OF mem] by auto
    ultimately show "walk st d a h \<and> (\<forall>n. walk st n a h \<longrightarrow> d \<le> n)" using sound by blast
  next
    assume *: "walk st d a h \<and> (\<forall>n. walk st n a h \<longrightarrow> d \<le> n)"
    with bfs_complete [OF inv] obtain d' where "d' \<le> d" "(h, d') \<in> set ?v" by blast
    moreover from this sound * have "d \<le> d'" by blast
    ultimately show "dict_get ?v h = Some d" by (simp add: get)
  qed
qed

lemma bfs_mem: "(h, d) \<in> set (bfs st [(a, 0)] []) \<longleftrightarrow> dict_get (bfs st [(a, 0)] []) h = Some d"
proof -
  have "bfs_inv st a [] (bfs st [(a, 0)] [])"
    by (rule bfs_inv_result) (simp add: bfs_inv_def)
  then show ?thesis by (simp add: bfs_inv_def)
qed

definition common_ancestor :: "vcs_store \<Rightarrow> string \<Rightarrow> string \<Rightarrow> nat \<Rightarrow> nat \<Rightarrow> string \<Rightarrow> bool" where
  "common_ancestor st a b i j h \<longleftrightarrow> walk st i a h \<and> walk st j b h"

lemma merge_candidates_mem:
  "(n, h) \<in> set (merge_candidates st a b) \<longleftrightarrow>
     (\<exists>i j. n = i + j \<and> dict_get (bfs st [(a, 0)] []) h = Some i \<and> dict_get (bfs st [(b, 0)] []) h = Some j)"
proof -
  have filter: "y \<in> set (List.map_filter f xs) \<longleftrightarrow> (\<exists>x \<in> set xs. f x = Some y)" for f :: "'a \<Rightarrow> 'b option" and xs y
    by (force simp: List.map_filter_def)
  show ?thesis
    by (auto simp: merge_candidates_def Let_def filter bfs_mem intro: rev_bexI [OF bfs_mem [THEN iffD2]])
qed

lemma least_walk: "walk st n a h \<Longrightarrow> \<exists>i \<le> n. dict_get (bfs st [(a, 0)] []) h = Some i"
proof -
  assume "walk st n a h"
  then have "walk st (LEAST n. walk st n a h) a h" and le: "(LEAST n. walk st n a h) \<le> n"
    by (rule LeastI, rule Least_le)
  then have "dict_get (bfs st [(a, 0)] []) h = Some (LEAST n. walk st n a h)"
    by (simp add: bfs_distance Least_le)
  then show ?thesis using le by blast
qed

lemma merge_base_of_Some:
  assumes "merge_base_of st a b = Some h"
  shows "\<exists>i j. common_ancestor st a b i j h \<and>
    (\<forall>h' i' j'. common_ancestor st a b i' j' h' \<longrightarrow> i + j \<le> i' + j')"
proof (cases "a = b")
  case True
  then show ?thesis using assms
    by (intro exI [of _ 0]) (simp add: merge_base_of_def common_ancestor_def)
next
  case False
  let ?cs = "merge_candidates st a b"
  from assms False obtain n rest where srt: "sort_key fst ?cs = (n, h) # rest"
    by (auto simp: merge_base_of_def split: list.splits)
  then have mem: "(n, h) \<in> set ?cs" by (metis list.set_intros(1) set_sort)
  have least: "n \<le> n'" if "(n', h') \<in> set ?cs" for n' h'
  proof -
    have "(n', h') \<in> set ((n, h) # rest)" using that srt by (metis set_sort)
    moreover have "sorted (map fst ((n, h) # rest))" using srt by (metis sorted_sort_key)
    ultimately show ?thesis by auto
  qed
  from mem obtain i j where ij: "n = i + j" "dict_get (bfs st [(a, 0)] []) h = Some i"
    "dict_get (bfs st [(b, 0)] []) h = Some j" by (auto simp: merge_candidates_mem)
  moreover have "i + j \<le> i' + j'" if c: "common_ancestor st a b i' j' h'" for h' i' j'
  proof -
    from c least_walk obtain x y where "x \<le> i'" "y \<le> j'"
      "dict_get (bfs st [(a, 0)] []) h' = Some x" "dict_get (bfs st [(b, 0)] []) h' = Some y"
      unfolding common_ancestor_def by metis
    then show ?thesis using least [of "x + y" h'] ij(1) by (fastforce simp: merge_candidates_mem)
  qed
  ultimately show ?thesis unfolding common_ancestor_def bfs_distance by blast
qed

lemma merge_base_of_None:
  "merge_base_of st a b = None \<longleftrightarrow> \<not> (\<exists>i j h. common_ancestor st a b i j h)"
proof
  assume none: "merge_base_of st a b = None"
  then have "sort_key fst (merge_candidates st a b) = []"
    by (auto simp: merge_base_of_def split: if_splits list.splits)
  then have empty: "merge_candidates st a b = []" by (metis set_empty set_sort)
  show "\<not> (\<exists>i j h. common_ancestor st a b i j h)"
  proof
    assume "\<exists>i j h. common_ancestor st a b i j h"
    then obtain h x y where "dict_get (bfs st [(a, 0)] []) h = Some x" "dict_get (bfs st [(b, 0)] []) h = Some y"
      unfolding common_ancestor_def using least_walk by blast
    then have "(x + y, h) \<in> set (merge_candidates st a b)" by (auto simp: merge_candidates_mem)
    then show False using empty by simp
  qed
next
  assume "\<not> (\<exists>i j h. common_ancestor st a b i j h)"
  then show "merge_base_of st a b = None" using merge_base_of_Some by (cases "merge_base_of st a b") blast+
qed

text \<open>C21.  The search for a merge base ends on every store, even one whose parent links form a cycle.
  It fails only if one of the two names cannot be resolved.  It answers \<open>None\<close> exactly when the two
  commits have no common ancestor, and otherwise a common ancestor whose total distance to the two
  commits is least among all of them.\<close>

theorem merge_base_is_nearest_common_ancestor:
  assumes "resolve_commit_hash st x = Inr a" and "resolve_commit_hash st y = Inr b"
  shows "\<exists>r. find_merge_base st x y = Inr r \<and>
    (case r of
       None \<Rightarrow> \<not> (\<exists>i j h. common_ancestor st a b i j h)
     | Some h \<Rightarrow> \<exists>i j. common_ancestor st a b i j h \<and>
         (\<forall>h' i' j'. common_ancestor st a b i' j' h' \<longrightarrow> i + j \<le> i' + j'))"
proof (cases "merge_base_of st a b")
  case None
  then show ?thesis using merge_base_of_None [of st a b] assms by (simp add: find_merge_base_def)
next
  case (Some h)
  then show ?thesis using merge_base_of_Some [OF Some] assms by (simp add: find_merge_base_def)
qed

section \<open>Invariants of the store\<close>

text \<open>Commits in the order they were written: each one's parents come before it.\<close>

fun history_ok :: "string set \<Rightarrow> (string, commit) dict \<Rightarrow> bool" where
  "history_ok seen [] = True"
| "history_ok seen ((h, c) # cs) \<longleftrightarrow>
     h \<notin> seen \<and> cm_hash c = h \<and> set (commit_parents c) \<subseteq> seen \<and> history_ok (insert h seen) cs"

definition store_inv :: "hash_env \<Rightarrow> vcs_store \<Rightarrow> bool" where
  "store_inv E st \<longleftrightarrow>
     history_ok {} (vs_commits st) \<and>
     (\<forall>n h. dict_get (vs_refs st) n = Some h \<longrightarrow> dict_get (vs_commits st) h \<noteq> None) \<and>
     (\<forall>h c. dict_get (vs_commits st) h = Some c \<longrightarrow> dict_get (vs_blobs st) (cm_blob_hash c) \<noteq> None) \<and>
     (\<forall>h b. dict_get (vs_blobs st) h = Some b \<longrightarrow> h = compute_blob_hash E b)"

lemma history_ok_append:
  "history_ok seen (cs @ cs') \<longleftrightarrow> history_ok seen cs \<and> history_ok (seen \<union> fst ` set cs) cs'"
  by (induction cs arbitrary: seen) auto

lemma history_ok_hash: "history_ok seen cs \<Longrightarrow> dict_get cs h = Some c \<Longrightarrow> cm_hash c = h"
  by (induction cs arbitrary: seen) (auto split: if_splits)

lemma history_ok_parents:
  "history_ok seen cs \<Longrightarrow> dict_get cs h = Some c \<Longrightarrow> set (commit_parents c) \<subseteq> seen \<union> fst ` set cs"
proof (induction cs arbitrary: seen)
  case (Cons hc cs)
  then show ?case by (cases hc) (fastforce split: if_splits)
qed simp

lemma dict_get_not_None: "dict_get d k \<noteq> None \<longleftrightarrow> k \<in> fst ` set d"
  by (simp add: map_of_eq_None_iff)

lemma store_inv_commit_hash: "store_inv E st \<Longrightarrow> dict_get (vs_commits st) h = Some c \<Longrightarrow> cm_hash c = h"
  by (auto simp: store_inv_def intro: history_ok_hash)

lemma store_inv_empty: "store_inv E empty_store"
  by (simp add: store_inv_def empty_store_def)

lemma resolve_exists:
  assumes "store_inv E st" and "resolve_commit_hash st r = Inr h"
  shows "dict_get (vs_commits st) h \<noteq> None"
proof (cases "first_ref st (ref_candidates r)")
  case (Some h')
  then have "\<exists>n. dict_get (vs_refs st) n = Some h"
    using assms(2) by (auto simp: resolve_commit_hash_def first_ref_def split: option.splits)
  then show ?thesis using assms(1) by (auto simp: store_inv_def)
next
  case None
  then show ?thesis using assms store_inv_commit_hash [OF assms(1)]
    by (auto simp: resolve_commit_hash_def split: option.splits)
qed

lemma existing_ref_exists:
  "store_inv E st \<Longrightarrow> existing_ref as st r = Some h \<Longrightarrow> dict_get (vs_commits st) h \<noteq> None"
  by (auto simp: store_inv_def existing_ref_def first_ref_def split: option.splits if_splits)

lemma store_inv_refs:
  "store_inv E st \<Longrightarrow> (\<And>n h. dict_get rs n = Some h \<Longrightarrow> dict_get (vs_commits st) h \<noteq> None) \<Longrightarrow>
     store_inv E (st\<lparr>vs_refs := rs\<rparr>)"
  by (simp add: store_inv_def)

lemma store_inv_set_reference:
  "store_inv E st \<Longrightarrow> dict_get (vs_commits st) h \<noteq> None \<Longrightarrow> store_inv E (set_reference r h st)"
  unfolding set_reference_def
  by (rule store_inv_refs) (auto simp: store_inv_def split: if_splits)

lemma store_inv_move:
  "store_inv E st \<Longrightarrow> dict_get (vs_commits st) h \<noteq> None \<Longrightarrow> store_inv E (move_reference r h st)"
proof -
  have [simp]: "vs_commits (set_reference r h st) = vs_commits st" for r h st
    by (simp add: set_reference_def)
  show "store_inv E st \<Longrightarrow> dict_get (vs_commits st) h \<noteq> None \<Longrightarrow> store_inv E (move_reference r h st)"
    by (simp add: move_reference_def Let_def store_inv_set_reference del: not_None_eq)
qed

lemma store_inv_save_blob:
  "store_inv E st \<Longrightarrow> store_inv E (save_blob (compute_blob_hash E content) content st)"
  by (auto simp: store_inv_def save_blob_def split: option.splits)

lemma save_blob_simps [simp]:
  "vs_commits (save_blob h content st) = vs_commits st" "vs_refs (save_blob h content st) = vs_refs st"
  "dict_get (vs_blobs (save_blob h content st)) h \<noteq> None"
  by (simp_all add: save_blob_def split: option.splits)

lemma store_inv_save_commit:
  assumes "store_inv E st" and "save_commit c st = Inr st'"
    and "set (commit_parents c) \<subseteq> fst ` set (vs_commits st)" and "dict_get (vs_blobs st) (cm_blob_hash c) \<noteq> None"
  shows "store_inv E st'"
proof -
  have fresh: "dict_get (vs_commits st) (cm_hash c) = None"
    and st': "st' = st\<lparr>vs_commits := vs_commits st @ [(cm_hash c, c)]\<rparr>"
    using assms(2) by (auto simp: save_commit_def dict_set_fresh split: option.splits)
  have "dict_get (vs_commits st') h = (if h = cm_hash c then Some c else dict_get (vs_commits st) h)" for h
    using fresh by (auto simp: st' map_add_def split: option.splits)
  then show ?thesis
    using assms fresh
    by (auto simp: store_inv_def st' history_ok_append map_of_eq_None_iff split: if_splits)
qed

lemma write_commit_cases:
  assumes "write_commit E now content parent author message metadata r st = Inr (st', c)"
  obtains st1 where "save_commit c (save_blob (compute_blob_hash E content) content st) = Inr st1"
    "st' = move_reference r (cm_hash c) st1" "cm_blob_hash c = compute_blob_hash E content"
    "cm_parent_hash c = parent" "cm_metadata c = metadata"
  using assms unfolding write_commit_def Let_def by (auto simp: vbind_eq_Inr)

lemma save_commit_get:
  "save_commit c st = Inr st' \<Longrightarrow>
     dict_get (vs_commits st') h = (if h = cm_hash c then Some c else dict_get (vs_commits st) h) \<and>
     vs_blobs st' = vs_blobs st \<and> vs_refs st' = vs_refs st \<and> dict_get (vs_commits st) (cm_hash c) = None"
  by (auto simp: save_commit_def split: option.splits)

lemma move_reference_simps [simp]:
  "vs_commits (move_reference r h st) = vs_commits st" "vs_blobs (move_reference r h st) = vs_blobs st"
  by (simp_all add: move_reference_def set_reference_def Let_def)

lemma write_commit_fresh:
  assumes "write_commit E now content parent author message metadata r st = Inr (st', c)"
  shows "dict_get (vs_commits st) (cm_hash c) = None" and "cm_metadata c = metadata"
proof -
  from assms obtain st1 where "save_commit c (save_blob (compute_blob_hash E content) content st) = Inr st1"
    and "cm_metadata c = metadata" by (rule write_commit_cases)
  then show "dict_get (vs_commits st) (cm_hash c) = None" and "cm_metadata c = metadata"
    using save_commit_get [of c "save_blob (compute_blob_hash E content) content st" st1] by auto
qed

lemma store_inv_write_commit:
  assumes "store_inv E st"
    and w: "write_commit E now content parent author message metadata r st = Inr (st', c)"
    and "set (commit_parents c) \<subseteq> fst ` set (vs_commits st)"
  shows "store_inv E st'"
proof -
  from w obtain st1 where
    st1: "save_commit c (save_blob (compute_blob_hash E content) content st) = Inr st1"
    and st': "st' = move_reference r (cm_hash c) st1" and b: "cm_blob_hash c = compute_blob_hash E content"
    by (rule write_commit_cases)
  have "store_inv E st1"
    by (rule store_inv_save_commit [OF store_inv_save_blob [OF assms(1)] st1]) (use assms(3) b in simp_all)
  moreover have "dict_get (vs_commits st1) (cm_hash c) \<noteq> None" using save_commit_get [OF st1] by simp
  ultimately show ?thesis unfolding st' by (rule store_inv_move)
qed

definition store_le :: "vcs_store \<Rightarrow> vcs_store \<Rightarrow> bool" where
  "store_le st st' \<longleftrightarrow>
     map_of (vs_commits st) \<subseteq>\<^sub>m map_of (vs_commits st') \<and> map_of (vs_blobs st) \<subseteq>\<^sub>m map_of (vs_blobs st')"

lemma store_le_refl [simp]: "store_le st st"
  by (simp add: store_le_def)

lemma store_le_trans: "store_le a b \<Longrightarrow> store_le b c \<Longrightarrow> store_le a c"
  unfolding store_le_def by (auto intro: map_le_trans)

lemma store_le_refs [simp]:
  "store_le st (set_reference r h st')= store_le st st'" "store_le st (st'\<lparr>vs_refs := rs\<rparr>) = store_le st st'"
  "store_le st (move_reference r h st') = store_le st st'"
  by (simp_all add: store_le_def set_reference_def)

lemma store_le_write:
  assumes "write_commit E now content parent author message metadata r st = Inr (st', c)"
  shows "store_le st st'"
proof -
  from assms obtain st1 where
    st1: "save_commit c (save_blob (compute_blob_hash E content) content st) = Inr st1"
    and st': "st' = move_reference r (cm_hash c) st1" by (rule write_commit_cases)
  have "map_of (vs_commits st) \<subseteq>\<^sub>m map_of (vs_commits st1)"
    using save_commit_get [OF st1] by (auto simp: map_le_def)
  moreover have "map_of (vs_blobs st) \<subseteq>\<^sub>m map_of (vs_blobs st1)"
    using save_commit_get [OF st1] by (auto simp: map_le_def save_blob_def split: option.splits)
  ultimately show ?thesis by (simp add: st' store_le_def)
qed

definition op_ok :: "vcs_op \<Rightarrow> bool" where
  "op_ok op \<longleftrightarrow> (case op of Commit _ _ _ _ _ metadata \<Rightarrow> dict_get metadata ''parents'' = None | _ \<Rightarrow> True)"

definition plan_ok :: "vcs_store \<Rightarrow> merge_plan \<Rightarrow> bool" where
  "plan_ok st p \<longleftrightarrow>
     dict_get (vs_commits st) (mg_target p) \<noteq> None \<and> dict_get (vs_commits st) (mg_source p) \<noteq> None \<and>
     py_get (mg_metadata p) ''parents'' = PList [PStr (mg_target p), PStr (mg_source p)]"

definition system_inv :: "hash_env \<Rightarrow> vcs_system \<Rightarrow> bool" where
  "system_inv E s \<longleftrightarrow> store_inv E (sy_store s) \<and> list_all (plan_ok (sy_store s)) (sy_pending s)"

lemma plan_ok_mono: "store_le st st' \<Longrightarrow> plan_ok st p \<Longrightarrow> plan_ok st' p"
  by (force simp: plan_ok_def store_le_def map_le_def)

lemma system_inv_store:
  "system_inv E s \<Longrightarrow> store_le (sy_store s) st' \<Longrightarrow> store_inv E st' \<Longrightarrow> system_inv E (s\<lparr>sy_store := st'\<rparr>)"
  by (auto simp: system_inv_def list_all_iff intro: plan_ok_mono)

lemma vcs_commit_ok:
  assumes inv: "store_inv E st" and c: "vcs_commit E now content author message r metadata st = Inr (st', c)"
    and md: "dict_get metadata ''parents'' = None"
  shows "store_inv E st' \<and> store_le st st'"
proof -
  have w: "write_commit E now content (existing_ref commit_aliases st r) author message metadata r st = Inr (st', c)"
    using c by (simp add: vcs_commit_def)
  then have "cm_parent_hash c = existing_ref commit_aliases st r" "cm_metadata c = metadata"
    by (blast elim: write_commit_cases)+
  then have "set (commit_parents c) \<subseteq> fst ` set (vs_commits st)"
    using md existing_ref_exists [OF inv, of commit_aliases r]
    by (auto simp: commit_parents_def metadata_parents_def get_or_def truthy_def dict_get_not_None [symmetric]
        split: option.splits)
  then show ?thesis using store_inv_write_commit [OF inv w] store_le_write [OF w] by blast
qed

lemma merge_finish_ok:
  assumes inv: "store_inv E st" and plan: "plan_ok st p" and c: "merge_finish E now p st = Inr (st', c)"
  shows "store_inv E st' \<and> store_le st st'"
proof -
  have w: "write_commit E now (mg_content p) (Some (mg_target p)) (mg_author p) (mg_message p)
      (mg_metadata p) (mg_target_ref p) st = Inr (st', c)"
    using c by (simp add: merge_finish_def Let_def split: if_splits)
  then have "cm_parent_hash c = Some (mg_target p)" "cm_metadata c = mg_metadata p"
    by (blast elim: write_commit_cases)+
  then have "set (commit_parents c) \<subseteq> fst ` set (vs_commits st)"
    using plan by (auto simp: plan_ok_def commit_parents_def metadata_parents_def List.map_filter_def
        dict_get_not_None simp del: not_None_eq)
  then show ?thesis using store_inv_write_commit [OF inv w] store_le_write [OF w] by blast
qed

lemma seed_ok:
  assumes inv: "store_inv E st" and c: "seed_if_empty E now content author message r st = Inr (st', c)"
  shows "store_inv E st' \<and> store_le st st'"
proof (cases "existing_ref commit_aliases st r")
  case (Some h)
  then have h: "dict_get (vs_commits st) h \<noteq> None" by (rule existing_ref_exists [OF inv])
  have "store_inv E (set_reference ''refs/heads/main'' h (set_reference ''HEAD'' h st))"
    by (intro store_inv_set_reference inv) (use h in \<open>simp_all add: set_reference_def\<close>)
  then show ?thesis using c Some inv by (auto simp: seed_if_empty_def)
next
  case None
  then show ?thesis using c vcs_commit_ok [OF inv]
    by (auto simp: seed_if_empty_def vbind_eq_Inr)
qed

lemma merge_prepare_ok:
  assumes "store_inv E st" and "merge_prepare str_of model st q = Inr p"
  shows "plan_ok st p"
proof -
  from assms(2) obtain sh th where "resolve_commit_hash st (mq_source q) = Inr sh"
    "resolve_commit_hash st (mq_target_ref q) = Inr th" "mg_source p = sh" "mg_target p = th"
    "py_get (mg_metadata p) ''parents'' = PList [PStr th, PStr sh]"
    unfolding merge_prepare_def by (auto simp: vbind_eq_Inr get_or_def split: if_splits option.splits)
  then show ?thesis using resolve_exists [OF assms(1)] by (simp add: plan_ok_def)
qed

lemma with_store_inv:
  assumes "system_inv E s" and "\<And>st'. r = Inr st' \<Longrightarrow> store_inv E st' \<and> store_le (sy_store s) st'"
  shows "system_inv E (with_store s r)"
  using assms by (auto simp: with_store_def intro: system_inv_store split: sum.splits)

lemma with_store_le:
  "(\<And>st'. r = Inr st' \<Longrightarrow> store_le (sy_store s) st') \<Longrightarrow> store_le (sy_store s) (sy_store (with_store s r))"
  by (auto simp: with_store_def split: sum.splits)

lemma fst_result_Inr: "fst_result r = Inr st \<longleftrightarrow> (\<exists>x. r = Inr (st, x))"
  by (auto simp: fst_result_def vbind_eq_Inr)

lemma vcs_step_extends: "store_le (sy_store s) (sy_store (vcs_step E str_of model s op))"
proof -
  have seed: "store_le st st'" if "seed_if_empty E now content author message r st = Inr (st', c)"
    for st st' now content author message r c
    using that
    by (auto simp: seed_if_empty_def vcs_commit_def vbind_eq_Inr split: option.splits dest: store_le_write)
  show ?thesis
    by (cases op)
      (auto simp: fst_result_Inr vcs_commit_def reset_def branch_def delete_branch_def merge_finish_def
        Let_def vbind_eq_Inr intro!: with_store_le dest: store_le_write seed split: sum.splits if_splits)
qed

lemma vcs_step_inv:
  assumes inv: "system_inv E s" and op: "op_ok op"
  shows "system_inv E (vcs_step E str_of model s op)"
proof -
  let ?st = "sy_store s"
  have st: "store_inv E ?st" using inv by (simp add: system_inv_def)
  note w = with_store_inv [OF inv]
  show ?thesis
  proof (cases op)
    case (Commit now content author message r metadata)
    then show ?thesis using op vcs_commit_ok [OF st] by (auto simp: op_ok_def fst_result_Inr intro!: w)
  next
    case (Seed now content author message r)
    then show ?thesis using seed_ok [OF st] by (auto simp: fst_result_Inr intro!: w)
  next
    case (Reset r target)
    then show ?thesis using st resolve_exists [OF st]
      by (auto simp: reset_def vbind_eq_Inr intro!: w store_inv_set_reference)
  next
    case (Branch name from_ref)
    then show ?thesis using st resolve_exists [OF st]
      by (auto simp: branch_def vbind_eq_Inr intro!: w store_inv_set_reference)
  next
    case (DeleteBranch name)
    have "store_inv E (?st\<lparr>vs_refs := dict_del name (vs_refs ?st)\<rparr>)"
      using st by (intro store_inv_refs) (auto simp: store_inv_def split: if_splits)
    then show ?thesis using DeleteBranch
      by (auto simp: fst_result_Inr delete_branch_def intro!: w split: if_splits)
  next
    case (PrepareMerge q)
    then show ?thesis using inv merge_prepare_ok [OF st] by (auto simp: system_inv_def split: sum.splits)
  next
    case (FinishMerge now i)
    show ?thesis
    proof (cases "i < length (sy_pending s)")
      case True
      then have "plan_ok ?st (sy_pending s ! i)" using inv by (simp add: system_inv_def list_all_length)
      then show ?thesis using FinishMerge True merge_finish_ok [OF st]
        by (auto simp: fst_result_Inr intro!: w)
    next
      case False
      then show ?thesis using FinishMerge inv by simp
    qed
  qed
qed

interpretation vcs: append_only "vcs_step E str_of model" op_ok "system_inv E"
  "\<lambda>s s'. store_le (sy_store s) (sy_store s')" for E str_of model
  by unfold_locales (auto intro: vcs_step_inv vcs_step_extends store_le_trans)

lemma reachable_store_inv:
  "list_all op_ok ops \<Longrightarrow> store_inv E (sy_store (foldl (vcs_step E str_of model) vcs_start ops))"
proof -
  assume "list_all op_ok ops"
  moreover have "system_inv E vcs_start" by (simp add: system_inv_def vcs_start_def store_inv_empty)
  ultimately have "system_inv E (foldl (vcs_step E str_of model) vcs_start ops)" by (rule vcs.inv_run [rotated])
  then show ?thesis by (simp add: system_inv_def)
qed

lemma resolve_ref: "dict_get (vs_refs st) r = Some h \<Longrightarrow> resolve_commit_hash st r = Inr h"
  by (simp add: resolve_commit_hash_def first_ref_def ref_candidates_def)

lemma resolve_content:
  assumes "store_inv E st" and "resolve_commit_hash st r = Inr h"
  obtains c cfg where "dict_get (vs_commits st) h = Some c" "dict_get (vs_blobs st) (cm_blob_hash c) = Some cfg"
    "checkout st r = Inr cfg"
proof -
  from resolve_exists [OF assms] obtain c where c: "dict_get (vs_commits st) h = Some c" by blast
  with assms(1) obtain cfg where "dict_get (vs_blobs st) (cm_blob_hash c) = Some cfg"
    unfolding store_inv_def by blast
  then show ?thesis using that c assms(2) by (simp add: checkout_def get_blob_def)
qed

text \<open>Parents were written before their children, so no commit is its own ancestor.\<close>

definition rank :: "vcs_store \<Rightarrow> string \<Rightarrow> nat" where
  "rank st h = length (takeWhile (\<lambda>k. k \<noteq> h) (dict_keys (vs_commits st)))"

lemma takeWhile_neq: "x \<notin> set xs \<Longrightarrow> takeWhile (\<lambda>k. k \<noteq> x) (xs @ x # ys) = xs"
  by (induction xs) auto

lemma parent_rank:
  assumes "store_inv E st" and "p \<in> set (parents st h)"
  shows "rank st p < rank st h" and "p \<in> fst ` set (vs_commits st)"
proof -
  from assms(2) obtain c where c: "dict_get (vs_commits st) h = Some c" "p \<in> set (commit_parents c)"
    by (cases "dict_get (vs_commits st) h") (auto simp: parents_def)
  then have "(h, c) \<in> set (vs_commits st)" by (simp add: map_of_SomeD)
  then obtain xs ys where cs: "vs_commits st = xs @ (h, c) # ys" by (meson split_list)
  have hist: "history_ok {} (vs_commits st)" using assms(1) by (simp add: store_inv_def)
  then have "h \<notin> fst ` set xs" "set (commit_parents c) \<subseteq> fst ` set xs"
    by (auto simp: cs history_ok_append)
  with c(2) have h: "h \<notin> set (map fst xs)" and p: "p \<in> set (map fst xs)" by auto
  have "rank st h = length xs"
    using takeWhile_neq [OF h, of "dict_keys ys"] by (simp add: rank_def cs)
  moreover have "rank st p < length xs"
  proof -
    from p obtain as bs where "map fst xs = as @ p # bs" "p \<notin> set as" by (meson split_list_first)
    moreover from this have "rank st p = length as"
      using takeWhile_neq [of p as "bs @ h # dict_keys ys"] by (simp add: rank_def cs)
    ultimately show ?thesis using length_map [of fst xs] by simp
  qed
  ultimately show "rank st p < rank st h" by simp
  show "p \<in> fst ` set (vs_commits st)" using p by (auto simp: cs)
qed

lemma parent_stored: "store_inv E st \<Longrightarrow> p \<in> set (parents st h) \<Longrightarrow> dict_get (vs_commits st) p \<noteq> None"
  using parent_rank(2) by (simp add: dict_get_not_None del: not_None_eq)

lemma walk_rank: "store_inv E st \<Longrightarrow> walk st n a h \<Longrightarrow> rank st h + n \<le> rank st a"
proof (induction n arbitrary: h)
  case (Suc n)
  then obtain c where "walk st n a c" "h \<in> set (parents st c)" by auto
  then show ?case using Suc parent_rank(1) [of E st h c] by fastforce
qed simp

lemma get_log_extends:
  assumes inv: "store_inv E st" and le: "store_le st st'"
  shows "(\<And>h. cur = Some h \<Longrightarrow> h \<noteq> [] \<Longrightarrow> dict_get (vs_commits st) h \<noteq> None) \<Longrightarrow> get_log st' cur n = get_log st cur n"
proof (induction n arbitrary: cur)
  case (Suc n)
  show ?case
  proof (cases "truthy cur")
    case True
    then obtain h where cur: "cur = Some h" "h \<noteq> []" by (auto simp: truthy_def split: option.splits)
    then obtain c where c: "dict_get (vs_commits st) h = Some c" using Suc.prems by blast
    then have c': "dict_get (vs_commits st') h = Some c" using le by (auto simp: store_le_def map_le_def dom_def)
    have "dict_get (vs_commits st) p \<noteq> None" if "cm_parent_hash c = Some p" "p \<noteq> []" for p
      using parent_rank(2) [OF inv, of p h] c that
      by (simp add: parents_def commit_parents_def truthy_def dict_get_not_None del: not_None_eq)
    then have "get_log st' (cm_parent_hash c) n = get_log st (cm_parent_hash c) n" by (rule Suc.IH)
    then show ?thesis using cur c c' by simp
  next
    case False
    then show ?thesis by (cases cur) (simp_all add: truthy_def)
  qed
qed simp

text \<open>C17.  In every store that the operations of the service can reach, with merges interrupted at any
  point by other writers, every reference points to a stored commit whose configuration can be
  checked out, the parents of every commit are stored, and no commit is its own ancestor.\<close>

theorem history_well_founded:
  assumes "list_all op_ok ops" and "st = sy_store (foldl (vcs_step E str_of model) vcs_start ops)"
  shows "(\<forall>r h. dict_get (vs_refs st) r = Some h \<longrightarrow> (\<exists>cfg. checkout st r = Inr cfg)) \<and>
    (\<forall>h p. p \<in> set (parents st h) \<longrightarrow> dict_get (vs_commits st) p \<noteq> None) \<and>
    (\<forall>n h. 0 < n \<longrightarrow> \<not> walk st n h h)"
proof -
  have inv: "store_inv E st" using reachable_store_inv [OF assms(1)] assms(2) by simp
  have "\<exists>cfg. checkout st r = Inr cfg" if "dict_get (vs_refs st) r = Some h" for r h
    by (rule resolve_content [OF inv resolve_ref [OF that]]) blast
  moreover have "dict_get (vs_commits st) p \<noteq> None" if "p \<in> set (parents st h)" for h p
    by (rule parent_stored [OF inv that])
  moreover have "\<not> walk st n h h" if "0 < n" for n h
    using walk_rank [OF inv, of n h h] that by auto
  ultimately show ?thesis by blast
qed

text \<open>C18.  The store is append-only: whatever the clients do next, a commit once written keeps its
  data, its configuration and its whole log.\<close>

theorem commits_never_change:
  assumes "list_all op_ok ops"
    and "st = sy_store (foldl (vcs_step E str_of model) vcs_start ops)"
    and "st' = sy_store (foldl (vcs_step E str_of model) vcs_start (ops @ ops'))"
    and "dict_get (vs_commits st) h = Some c"
  shows "dict_get (vs_commits st') h = Some c \<and>
    dict_get (vs_blobs st') (cm_blob_hash c) = dict_get (vs_blobs st) (cm_blob_hash c) \<and>
    get_log st' (Some h) n = get_log st (Some h) n"
proof -
  have inv: "store_inv E st" using reachable_store_inv [OF assms(1)] assms(2) by simp
  have le: "store_le st st'" using vcs.extends_later assms(2,3) by simp
  then have keep: "dict_get (vs_commits st') h = Some c" if "dict_get (vs_commits st) h = Some c" for h c
    using that by (auto simp: store_le_def map_le_def dom_def)
  have "dict_get (vs_blobs st) (cm_blob_hash c) \<noteq> None" using inv assms(4) by (auto simp: store_inv_def)
  then have "dict_get (vs_blobs st') (cm_blob_hash c) = dict_get (vs_blobs st) (cm_blob_hash c)"
    using le by (auto simp: store_le_def map_le_def dom_def)
  moreover have "get_log st' (Some h) n = get_log st (Some h) n"
    by (rule get_log_extends [OF inv le]) (use assms(4) in simp)
  ultimately show ?thesis using keep assms(4) by blast
qed

section \<open>Committing and checking out\<close>

text \<open>What the hash environment must provide: equal canonical texts come from equal values, and
  SHA-256 does not collide between the new configuration and a stored one.\<close>

definition json_faithful :: "hash_env \<Rightarrow> bool" where
  "json_faithful E \<longleftrightarrow> (\<forall>a b. he_json E a = he_json E b \<longrightarrow> py_eq a b)"

definition collision_free :: "hash_env \<Rightarrow> vcs_store \<Rightarrow> config \<Rightarrow> bool" where
  "collision_free E st content \<longleftrightarrow>
     (\<forall>h b. dict_get (vs_blobs st) h = Some b \<longrightarrow>
        he_sha256 E (he_json E (PDict b)) = he_sha256 E (he_json E (PDict content)) \<longrightarrow>
        he_json E (PDict b) = he_json E (PDict content))"

lemma move_reference_get:
  "dict_get (vs_refs (move_reference r h st)) x =
     (if x = r \<or> (r \<in> set main_names \<and> x \<in> {''HEAD'', ''refs/heads/main''}) then Some h
      else dict_get (vs_refs st) x)"
  by (auto simp: move_reference_def set_reference_def Let_def)

lemma write_commit_refs:
  assumes "write_commit E now content parent author message metadata r st = Inr (st', c)"
  shows "dict_get (vs_refs st') x =
     (if x = r \<or> (r \<in> set main_names \<and> x \<in> {''HEAD'', ''refs/heads/main''}) then Some (cm_hash c)
      else dict_get (vs_refs st) x)"
    and "dict_get (vs_commits st') (cm_hash c) = Some c"
proof -
  from assms obtain st1 where
    st1: "save_commit c (save_blob (compute_blob_hash E content) content st) = Inr st1"
    and st': "st' = move_reference r (cm_hash c) st1" by (rule write_commit_cases)
  show "dict_get (vs_refs st') x =
     (if x = r \<or> (r \<in> set main_names \<and> x \<in> {''HEAD'', ''refs/heads/main''}) then Some (cm_hash c)
      else dict_get (vs_refs st) x)"
    using save_commit_get [OF st1] by (simp only: st' move_reference_get save_blob_simps)
  show "dict_get (vs_commits st') (cm_hash c) = Some c" using save_commit_get [OF st1] by (simp add: st')
qed

lemma write_commit_content:
  assumes "store_inv E st" and "json_faithful E" and "collision_free E st content"
    and w: "write_commit E now content parent author message metadata r st = Inr (st', c)"
  shows "\<exists>cfg. checkout st' r = Inr cfg \<and> py_eq (PDict cfg) (PDict content)"
proof -
  from w obtain st1 where
    st1: "save_commit c (save_blob (compute_blob_hash E content) content st) = Inr st1"
    and st': "st' = move_reference r (cm_hash c) st1" and b: "cm_blob_hash c = compute_blob_hash E content"
    by (rule write_commit_cases)
  have "resolve_commit_hash st' r = Inr (cm_hash c)"
    using write_commit_refs(1) [OF w, of r] by (simp add: resolve_ref)
  moreover have "\<exists>cfg. dict_get (vs_blobs st') (compute_blob_hash E content) = Some cfg \<and> py_eq (PDict cfg) (PDict content)"
  proof (cases "dict_get (vs_blobs st) (compute_blob_hash E content)")
    case (Some old)
    then have "compute_blob_hash E old = compute_blob_hash E content"
      using assms(1) by (auto simp: store_inv_def)
    then have "py_eq (PDict old) (PDict content)"
      using assms(2,3) Some by (auto simp: json_faithful_def collision_free_def compute_blob_hash_def)
    then show ?thesis using Some save_commit_get [OF st1] by (auto simp: st' save_blob_def)
  next
    case None
    then show ?thesis using save_commit_get [OF st1] by (auto simp: st' save_blob_def val.eq_refl)
  qed
  ultimately show ?thesis
    using write_commit_refs(2) [OF w] b by (auto simp: checkout_def get_blob_def)
qed

text \<open>C19.  What is committed is what is checked out: after a commit to a reference the reference
  yields the committed configuration, the log of the reference starts with the new commit followed by
  the log of the old head, and every reference other than the one named (and the aliases of the main
  branch) still yields what it did.\<close>

theorem commit_checkout_round_trip:
  assumes inv: "list_all op_ok ops" "st = sy_store (foldl (vcs_step E str_of model) vcs_start ops)"
    and "json_faithful E" and "collision_free E st content"
    and c: "vcs_commit E now content author message r metadata st = Inr (st', c)"
    and "cm_hash c \<noteq> []"
  shows "(\<exists>cfg. checkout st' r = Inr cfg \<and> py_eq (PDict cfg) (PDict content)) \<and>
    vcs_log st' r (int n + 1) = Inr (c # get_log st (existing_ref commit_aliases st r) n) \<and>
    (\<forall>x h. dict_get (vs_refs st) x = Some h \<longrightarrow> x \<noteq> r \<longrightarrow>
       \<not> (r \<in> set main_names \<and> x \<in> {''HEAD'', ''refs/heads/main''}) \<longrightarrow> checkout st' x = checkout st x)"
proof -
  have inv: "store_inv E st" using reachable_store_inv [OF inv(1)] inv(2) by simp
  have w: "write_commit E now content (existing_ref commit_aliases st r) author message metadata r st = Inr (st', c)"
    using c by (simp add: vcs_commit_def)
  have le: "store_le st st'" by (rule store_le_write [OF w])
  have log: "get_log st' (existing_ref commit_aliases st r) n = get_log st (existing_ref commit_aliases st r) n"
    by (rule get_log_extends [OF inv le]) (rule existing_ref_exists [OF inv])
  have parent: "cm_parent_hash c = existing_ref commit_aliases st r"
    using w by (blast elim: write_commit_cases)
  have "vcs_log st' r (int n + 1) = Inr (c # get_log st (existing_ref commit_aliases st r) n)"
    using write_commit_refs(1) [OF w, of r] write_commit_refs(2) [OF w] log parent assms(6)
    by (simp add: vcs_log_def resolve_ref nat_add_distrib)
  moreover have "checkout st' x = checkout st x"
    if x: "dict_get (vs_refs st) x = Some h" "x \<noteq> r"
      "\<not> (r \<in> set main_names \<and> x \<in> {''HEAD'', ''refs/heads/main''})" for x h
  proof -
    have "dict_get (vs_refs st') x = Some h" using write_commit_refs(1) [OF w, of x] x by auto
    then have "resolve_commit_hash st' x = Inr h" by (rule resolve_ref)
    moreover from resolve_content [OF inv resolve_ref [OF x(1)]] obtain d cfg where
      "dict_get (vs_commits st) h = Some d" "dict_get (vs_blobs st) (cm_blob_hash d) = Some cfg"
      "checkout st x = Inr cfg" by blast
    moreover from this le have "dict_get (vs_commits st') h = Some d" "dict_get (vs_blobs st') (cm_blob_hash d) = Some cfg"
      by (auto simp: store_le_def map_le_def dom_def)
    ultimately show ?thesis by (simp add: checkout_def get_blob_def)
  qed
  ultimately show ?thesis using write_commit_content [OF inv assms(3,4) w] by blast
qed

section \<open>Merging without losing updates\<close>

lemma merge_finish_cases:
  assumes "merge_finish E now p st = Inr (st', c)"
  shows "write_commit E now (mg_content p) (Some (mg_target p)) (mg_author p) (mg_message p)
      (mg_metadata p) (mg_target_ref p) st = Inr (st', c)"
    and "existing_ref main_names st (mg_target_ref p) = None \<or>
      existing_ref main_names st (mg_target_ref p) = Some (mg_target p)"
  using assms by (auto simp: merge_finish_def Let_def split: if_splits)

lemma merge_commit_parents:
  assumes "plan_ok st0 p" and "merge_finish E now p st = Inr (st', c)"
  shows "parents st' (cm_hash c) = (if mg_target p = [] then [] else [mg_target p]) @ [mg_target p, mg_source p]"
proof -
  note w = merge_finish_cases(1) [OF assms(2)]
  from w have "cm_parent_hash c = Some (mg_target p)" "cm_metadata c = mg_metadata p"
    by (blast elim: write_commit_cases)+
  then show ?thesis using write_commit_refs(2) [OF w] assms(1)
    by (simp add: parents_def commit_parents_def metadata_parents_def plan_ok_def truthy_def List.map_filter_def)
qed


text \<open>A commit to the name \<open>main\<close> can drop commits from the main branch.  Once a reference
  \<open>main\<close> exists, commits to \<open>HEAD\<close> move \<open>HEAD\<close> and \<open>refs/heads/main\<close> but not \<open>main\<close>; the next
  commit to \<open>main\<close> builds on the stale reference and moves the other two to a commit of which the
  former head is no ancestor.\<close>

theorem commit_to_main_drops_head:
  assumes ops: "list_all op_ok ops" "st = sy_store (foldl (vcs_step E str_of model) vcs_start ops)"
    and m: "dict_get (vs_refs st) ''main'' = Some m"
    and c: "vcs_commit E t content author message ''HEAD'' [] st = Inr (st1, c)"
    and d: "vcs_commit E t' content' author' message' ''main'' [] st1 = Inr (st2, d)"
  shows "dict_get (vs_refs st1) ''HEAD'' = Some (cm_hash c) \<and> dict_get (vs_refs st2) ''HEAD'' = Some (cm_hash d) \<and>
    cm_parent_hash d = Some m \<and> \<not> walk st2 n (cm_hash d) (cm_hash c)"
proof -
  have inv: "store_inv E st" using reachable_store_inv [OF ops(1)] ops(2) by simp
  have wc: "write_commit E t content (existing_ref commit_aliases st ''HEAD'') author message [] ''HEAD'' st = Inr (st1, c)"
    using c by (simp add: vcs_commit_def)
  have m1: "dict_get (vs_refs st1) ''main'' = Some m"
    using write_commit_refs(1) [OF wc, of "''main''"] m by simp
  then have wd: "write_commit E t' content' (Some m) author' message' [] ''main'' st1 = Inr (st2, d)"
    using d by (simp add: vcs_commit_def existing_ref_def)
  have inv1: "store_inv E st1" using vcs_commit_ok [OF inv c] by simp
  have inv2: "store_inv E st2" using vcs_commit_ok [OF inv1 d] by simp
  have pd: "cm_parent_hash d = Some m" using wd by (blast elim: write_commit_cases)
  have mk: "dict_get (vs_commits st) m \<noteq> None" using inv m by (auto simp: store_inv_def)
  have le: "store_le st st1" "store_le st1 st2" by (rule store_le_write [OF wc], rule store_le_write [OF wd])
  then have keep: "parents st2 x = parents st x" if "dict_get (vs_commits st) x \<noteq> None" for x
    using that by (force simp: parents_def store_le_def map_le_def dom_def)
  have par_d: "set (parents st2 (cm_hash d)) \<subseteq> {m}"
    using write_commit_refs(2) [OF wd] pd write_commit_fresh(2) [OF wd]
    by (auto simp: parents_def commit_parents_def metadata_parents_def get_or_def split: if_splits)
  have reach: "walk st2 n (cm_hash d) x \<Longrightarrow> x = cm_hash d \<or> dict_get (vs_commits st) x \<noteq> None" for x n
  proof (induction n arbitrary: x)
    case (Suc n)
    then obtain y where y: "walk st2 n (cm_hash d) y" "x \<in> set (parents st2 y)" by auto
    with Suc.IH [OF y(1)] show ?case
      using par_d mk keep [of y] parent_stored [OF inv, of x y] by auto
  qed simp
  have "dict_get (vs_commits st) (cm_hash c) = None" "cm_hash c \<noteq> cm_hash d"
    using write_commit_fresh(1) [OF wc] write_commit_fresh(1) [OF wd] write_commit_refs(2) [OF wc] by auto
  then have "\<not> walk st2 n (cm_hash d) (cm_hash c)" using reach by blast
  then show ?thesis
    using write_commit_refs(1) [OF wc, of "''HEAD''"] write_commit_refs(1) [OF wd, of "''HEAD''"] pd
    by (simp add: main_names_def)
qed

section \<open>Example runs\<close>

instance pyval :: countable
  by countable_datatype

text \<open>Stand-ins for the hash environment: the digest is the text itself; one canonical text spells
  out the value, the other is constant.\<close>

definition unary_json :: "pyval \<Rightarrow> string" where
  "unary_json v = replicate (to_nat v) CHR ''1''"

definition demo_env :: "(pyval \<Rightarrow> string) \<Rightarrow> hash_env" where
  "demo_env js = \<lparr>he_sha256 = id, he_json = js, he_isoformat = (\<lambda>t. if t = 0 then ''0'' else ''1'')\<rparr>"

lemma demo_env_faithful: "json_faithful (demo_env unary_json)" "collision_free (demo_env js) st content"
  by (auto simp: json_faithful_def collision_free_def demo_env_def unary_json_def replicate_eq_replicate val.eq_refl)

abbreviation flat_env :: hash_env where
  "flat_env \<equiv> demo_env (\<lambda>_. [])"

definition demo_ops :: "vcs_op list" where
  "demo_ops = [Commit 0 [] ''ann'' ''first'' ''main'' []]"

definition demo_model :: "config \<Rightarrow> config option" where
  "demo_model cfg = Some cfg"

definition demo_store :: vcs_store where
  "demo_store = sy_store (foldl (vcs_step flat_env no_text demo_model) vcs_start demo_ops)"

definition demo_head :: string where
  "demo_head = the (dict_get (vs_refs demo_store) ''main'')"

lemma demo_ops_ok: "list_all op_ok demo_ops"
  by (simp add: demo_ops_def op_ok_def)

lemma demo_resolve: "resolve_commit_hash demo_store ''main'' = Inr demo_head"
  by code_simp

theorem merge_base_is_nearest_common_ancestor_witness:
  "\<exists>i j. find_merge_base demo_store ''main'' ''HEAD'' = Inr (Some demo_head) \<and>
     common_ancestor demo_store demo_head demo_head i j demo_head"
proof -
  have "resolve_commit_hash demo_store ''HEAD'' = Inr demo_head" by code_simp
  moreover have "find_merge_base demo_store ''main'' ''HEAD'' = Inr (Some demo_head)" by code_simp
  ultimately show ?thesis
    using merge_base_is_nearest_common_ancestor [OF demo_resolve, of "''HEAD''"] by auto
qed

theorem history_well_founded_witness: "\<exists>cfg. checkout demo_store ''main'' = Inr cfg"
proof -
  have "dict_get (vs_refs demo_store) ''main'' = Some demo_head" by code_simp
  then show ?thesis
    using history_well_founded [OF demo_ops_ok demo_store_def] by blast
qed

theorem commits_never_change_witness:
  "\<exists>c. dict_get (vs_commits demo_store) demo_head = Some c \<and>
     dict_get (vs_commits (sy_store (foldl (vcs_step flat_env no_text demo_model) vcs_start
       (demo_ops @ [Reset ''main'' ''HEAD'', DeleteBranch ''x''])))) demo_head = Some c"
proof -
  have "dict_get (vs_commits demo_store) demo_head = Some (the (dict_get (vs_commits demo_store) demo_head))"
    by code_simp
  from commits_never_change [OF demo_ops_ok demo_store_def HOL.refl this] this show ?thesis by blast
qed

theorem commit_checkout_round_trip_witness:
  "\<exists>st c cfg. vcs_commit (demo_env unary_json) 0 (demo_config ''1'' 1) ''ann'' ''first'' ''HEAD'' [] empty_store = Inr (st, c) \<and>
     checkout st ''HEAD'' = Inr cfg \<and> py_eq (PDict cfg) (PDict (demo_config ''1'' 1))"
proof -
  let ?E = "demo_env unary_json"
  obtain st c where c: "vcs_commit ?E 0 (demo_config ''1'' 1) ''ann'' ''first'' ''HEAD'' [] empty_store = Inr (st, c)"
    and "cm_hash c \<noteq> []"
    by (simp add: vcs_commit_def write_commit_def Let_def save_commit_def save_blob_def empty_store_def
        compute_commit_hash_def demo_env_def)
  then show ?thesis
    using commit_checkout_round_trip [of "[]" empty_store ?E no_text demo_model, OF _ _ demo_env_faithful c]
    by (simp add: vcs_start_def)
qed

definition demo_request :: merge_request where
  "demo_request = \<lparr>mq_source = ''HEAD'', mq_target_ref = ''main'', mq_author = ''ann'', mq_message = None,
     mq_expected_head = None, mq_resolved = Some []\<rparr>"

definition clock_env :: hash_env where
  "clock_env = \<lparr>he_sha256 = (\<lambda>s. [last s]), he_json = unary_json, he_isoformat = (\<lambda>t. if t = 0 then ''0'' else ''1'')\<rparr>"

definition busy_ops :: "vcs_op list" where
  "busy_ops = [Commit 0 [] ''ann'' ''first'' ''main'' [], PrepareMerge demo_request,
     Commit 1 [] ''bob'' ''second'' ''main'' []]"

definition busy_system :: vcs_system where
  "busy_system = foldl (vcs_step clock_env no_text demo_model) vcs_start busy_ops"

lemma clock_hash: "compute_commit_hash clock_env bh parent author message metadata t = (if t = 0 then ''0'' else ''1'')"
  by (simp add: compute_commit_hash_def clock_env_def Let_def)

lemma busy_system_simps:
  "sy_pending busy_system = [\<lparr>mg_source = ''0'', mg_target = ''0'', mg_target_ref = ''main'', mg_content = [],
     mg_author = ''ann'', mg_message = opt_or None (''Merge '' @ [CHR 0x27] @ ''HEAD'' @ [CHR 0x27] @ '' into '' @ ''main''),
     mg_metadata = [(''parents'', PList [PStr ''0'', PStr ''0'']), (''merge_source'', PStr ''HEAD''),
       (''merge_target'', PStr ''main'')]\<rparr>]"
  "dict_get (vs_refs (sy_store busy_system)) ''main'' = Some ''1''"
  "vs_blobs (sy_store busy_system) = [(compute_blob_hash clock_env [], [])]"
  by (simp_all add: busy_system_def busy_ops_def demo_request_def vcs_start_def empty_store_def vcs_commit_def
      write_commit_def Let_def clock_hash save_commit_def save_blob_def move_reference_def set_reference_def
      with_store_def fst_result_def main_names_def merge_prepare_def resolve_ref demo_model_def truthy_def)


definition demo_head_commit :: "(vcs_store \<times> commit) vcs_result" where
  "demo_head_commit = vcs_commit flat_env 1 [] ''ann'' ''second'' ''HEAD'' [] demo_store"

definition demo_main_commit :: "(vcs_store \<times> commit) vcs_result" where
  "demo_main_commit = vcs_commit flat_env 1 [] ''bob'' ''third'' ''main'' [] (fst (projr demo_head_commit))"

theorem commit_to_main_drops_head_witness:
  "\<not> walk (fst (projr demo_main_commit)) 7 (cm_hash (snd (projr demo_main_commit))) (cm_hash (snd (projr demo_head_commit)))"
proof -
  have "dict_get (vs_refs demo_store) ''main'' = Some demo_head" by code_simp
  moreover have "vcs_commit flat_env 1 [] ''ann'' ''second'' ''HEAD'' [] demo_store
      = Inr (fst (projr demo_head_commit), snd (projr demo_head_commit))" by code_simp
  moreover have "vcs_commit flat_env 1 [] ''bob'' ''third'' ''main'' [] (fst (projr demo_head_commit))
      = Inr (fst (projr demo_main_commit), snd (projr demo_main_commit))" by code_simp
  ultimately show ?thesis using commit_to_main_drops_head [OF demo_ops_ok demo_store_def] by blast
qed

end
