(* ===== verification/Expressions.thy ===== *)
theory Expressions
  imports Domain "HOL-Library.List_Lexorder" "HOL-Library.Char_ord"
begin

text \<open>
  The formula language (\<open>src/src/core/expressions/expression_parser.py\<close>, \<open>default_context.py\<close>,
  \<open>schema.py\<close>): the strict validator that guards the constructor of \<open>ExpressionParser\<close>, the
  inspector that reports diagnostics and an inferred type to an editor, and the evaluator.

  Formulas are Python expressions.  The text is turned into a tree by Python's own parser, the
  parameter \<open>parse\<close> of the definitions (\<open>ast.parse(text, mode="eval").body\<close>, no tree for a syntax
  error).  The tree has a constructor for every node class the code tests for and \<open>OtherNode\<close> for the
  rest.  Values are what the interpreter computes with: integers, floats (exact rationals), strings,
  booleans, \<open>None\<close>, and the list of candles a context holds; literals of bytes and complex numbers
  are left out.  The positions of diagnostics in the text are left out.
\<close>

section \<open>Values\<close>

datatype xval =
    XNone
  | XBool bool
  | XInt int
  | XFloat rat
  | XStr string
  | XCandle candle
  | XCandles "candle list"

fun py_truth :: "xval \<Rightarrow> bool" where
  "py_truth XNone = False"
| "py_truth (XBool b) = b"
| "py_truth (XInt i) = (i \<noteq> 0)"
| "py_truth (XFloat r) = (r \<noteq> 0)"
| "py_truth (XStr s) = (s \<noteq> [])"
| "py_truth (XCandle c) = True"
| "py_truth (XCandles cs) = (cs \<noteq> [])"

text \<open>A boolean is an integer in arithmetic and comparisons.\<close>

fun as_int :: "xval \<Rightarrow> int option" where
  "as_int (XBool b) = Some (if b then 1 else 0)"
| "as_int (XInt i) = Some i"
| "as_int _ = None"

fun as_number :: "xval \<Rightarrow> rat option" where
  "as_number (XFloat r) = Some r"
| "as_number v = map_option of_int (as_int v)"

text \<open>Arithmetic: two integers give an integer, a float makes the result a float.\<close>

definition arith ::
  "(int \<Rightarrow> int \<Rightarrow> int) \<Rightarrow> (rat \<Rightarrow> rat \<Rightarrow> rat) \<Rightarrow> xval \<Rightarrow> xval \<Rightarrow> xval result" where
  "arith fi fr a b =
     (case (as_int a, as_int b) of
        (Some i, Some j) \<Rightarrow> Inr (XInt (fi i j))
      | _ \<Rightarrow> (case (as_number a, as_number b) of
                (Some x, Some y) \<Rightarrow> Inr (XFloat (fr x y))
              | _ \<Rightarrow> Inl TypeError))"

definition py_add :: "xval \<Rightarrow> xval \<Rightarrow> xval result" where
  "py_add a b =
     (case (a, b) of
        (XStr s, XStr t) \<Rightarrow> Inr (XStr (s @ t))
      | (XCandles s, XCandles t) \<Rightarrow> Inr (XCandles (s @ t))
      | _ \<Rightarrow> arith (+) (+) a b)"

text \<open>Repetition of a sequence; a negative count gives the empty one.\<close>

definition repeat_seq :: "'a list \<Rightarrow> int \<Rightarrow> 'a list" where
  "repeat_seq xs n = concat (replicate (nat n) xs)"

definition py_mult :: "xval \<Rightarrow> xval \<Rightarrow> xval result" where
  "py_mult a b =
     (case (a, as_int b) of
        (XStr s, Some n) \<Rightarrow> Inr (XStr (repeat_seq s n))
      | (XCandles s, Some n) \<Rightarrow> Inr (XCandles (repeat_seq s n))
      | _ \<Rightarrow> (case (as_int a, b) of
                (Some n, XStr s) \<Rightarrow> Inr (XStr (repeat_seq s n))
              | (Some n, XCandles s) \<Rightarrow> Inr (XCandles (repeat_seq s n))
              | _ \<Rightarrow> arith (*) (*) a b))"

definition py_sub :: "xval \<Rightarrow> xval \<Rightarrow> xval result" where
  "py_sub = arith (-) (-)"

definition py_div :: "xval \<Rightarrow> xval \<Rightarrow> xval result" where
  "py_div a b =
     (case (as_number a, as_number b) of
        (Some x, Some y) \<Rightarrow> if y = 0 then Inl ZeroDivisionError else Inr (XFloat (x / y))
      | _ \<Rightarrow> Inl TypeError)"

definition py_neg :: "xval \<Rightarrow> xval result" where
  "py_neg a =
     (case as_int a of
        Some i \<Rightarrow> Inr (XInt (- i))
      | None \<Rightarrow> (case a of XFloat r \<Rightarrow> Inr (XFloat (- r)) | _ \<Rightarrow> Inl TypeError))"

text \<open>Equality never fails and compares numbers by value.\<close>

definition py_eq :: "xval \<Rightarrow> xval \<Rightarrow> bool" where
  "py_eq a b =
     (case (as_number a, as_number b) of
        (Some x, Some y) \<Rightarrow> x = y
      | (None, None) \<Rightarrow> a = b
      | _ \<Rightarrow> False)"

text \<open>
  Ordering: numbers, strings, and lists, which compare their first different elements or else their
  lengths; candles have no order.
\<close>

fun same_prefix :: "'a list \<Rightarrow> 'a list \<Rightarrow> bool" where
  "same_prefix (x # xs) (y # ys) \<longleftrightarrow> x = y \<and> same_prefix xs ys"
| "same_prefix _ _ \<longleftrightarrow> True"

definition py_less :: "xval \<Rightarrow> xval \<Rightarrow> bool result" where
  "py_less a b =
     (case (as_number a, as_number b) of
        (Some x, Some y) \<Rightarrow> Inr (x < y)
      | _ \<Rightarrow> (case (a, b) of
                (XStr s, XStr t) \<Rightarrow> Inr (s < t)
              | (XCandles s, XCandles t) \<Rightarrow>
                  if same_prefix s t then Inr (length s < length t) else Inl TypeError
              | _ \<Rightarrow> Inl TypeError))"

definition py_less_eq :: "xval \<Rightarrow> xval \<Rightarrow> bool result" where
  "py_less_eq a b =
     (case (as_number a, as_number b) of
        (Some x, Some y) \<Rightarrow> Inr (x \<le> y)
      | _ \<Rightarrow> (case (a, b) of
                (XStr s, XStr t) \<Rightarrow> Inr (s \<le> t)
              | (XCandles s, XCandles t) \<Rightarrow>
                  if same_prefix s t then Inr (length s \<le> length t) else Inl TypeError
              | _ \<Rightarrow> Inl TypeError))"

section \<open>Formulas\<close>

datatype operator = Add | Mult | Sub | Div | OtherOperator string
datatype cmpop = Gt | Lt | GtE | LtE | Eq | NotEq | OtherCmpop string
datatype boolop = And | Or
datatype unaryop = USub | Not | OtherUnaryop string

text \<open>A call has its function, its arguments and the number of its keyword arguments.\<close>

datatype node =
    Constant xval
  | Name string
  | BinOp node operator node
  | Compare node "cmpop list" "node list"
  | IfExp node node node
  | BoolOp boolop "node list"
  | UnaryOp unaryop node
  | Call node "node list" nat
  | OtherNode string

fun known_operator :: "operator \<Rightarrow> bool" where
  "known_operator (OtherOperator _) = False"
| "known_operator _ = True"

fun known_cmpop :: "cmpop \<Rightarrow> bool" where
  "known_cmpop (OtherCmpop _) = False"
| "known_cmpop _ = True"

fun known_unaryop :: "unaryop \<Rightarrow> bool" where
  "known_unaryop (OtherUnaryop _) = False"
| "known_unaryop _ = True"

definition MAX_FORMULA_LENGTH :: nat where
  "MAX_FORMULA_LENGTH = 1000"

definition VALID_ROLLING_SERIES :: "string list" where
  "VALID_ROLLING_SERIES = [''high'', ''low'', ''close'', ''open'', ''volume'']"

definition is_rolling :: "string \<Rightarrow> bool" where
  "is_rolling f \<longleftrightarrow> f \<in> {''highest'', ''lowest''}"

fun extract_series_name :: "node \<Rightarrow> string option" where
  "extract_series_name (Name x) = Some x"
| "extract_series_name (Constant (XStr s)) = Some s"
| "extract_series_name _ = None"

definition valid_series :: "node \<Rightarrow> bool" where
  "valid_series n \<longleftrightarrow>
     (case extract_series_name n of None \<Rightarrow> False | Some s \<Rightarrow> s \<in> set VALID_ROLLING_SERIES)"

section \<open>Validation\<close>

definition check :: "bool \<Rightarrow> unit result" where
  "check ok = (if ok then Inr () else Inl ValueError)"

text \<open>A constant period is a positive integer and no boolean; any other period is left to run time.\<close>

fun period_ok :: "node \<Rightarrow> bool" where
  "period_ok (Constant (XInt n)) = (n > 0)"
| "period_ok (Constant v) = False"
| "period_ok _ = True"

fun validate_rolling_call_strict :: "node list \<Rightarrow> unit result" where
  "validate_rolling_call_strict [series, period] =
     res_bind (check (valid_series series)) (\<lambda>_. check (period_ok period))"
| "validate_rolling_call_strict _ = Inl ValueError"

fun validate_node :: "node \<Rightarrow> unit result"
  and validate_nodes :: "node list \<Rightarrow> unit result"
  and validate_comparators :: "cmpop list \<Rightarrow> node list \<Rightarrow> unit result" where
  "validate_node (Constant v) = Inr ()"
| "validate_node (Name x) = Inr ()"
| "validate_node (BinOp l op r) =
     res_bind (check (known_operator op)) (\<lambda>_. res_bind (validate_node l) (\<lambda>_. validate_node r))"
| "validate_node (Compare l ops rs) = res_bind (validate_node l) (\<lambda>_. validate_comparators ops rs)"
| "validate_node (IfExp t b e) =
     res_bind (validate_node t) (\<lambda>_. res_bind (validate_node b) (\<lambda>_. validate_node e))"
| "validate_node (BoolOp op vs) = validate_nodes vs"
| "validate_node (UnaryOp op n) = res_bind (check (known_unaryop op)) (\<lambda>_. validate_node n)"
| "validate_node (Call f args kw) =
     (case f of
        Name fn \<Rightarrow>
          res_bind (check (kw = 0)) (\<lambda>_.
            res_bind (if is_rolling fn then validate_rolling_call_strict args else Inr ())
              (\<lambda>_. validate_nodes args))
      | _ \<Rightarrow> Inl ValueError)"
| "validate_node (OtherNode c) = Inl ValueError"
| "validate_nodes [] = Inr ()"
| "validate_nodes (n # ns) = res_bind (validate_node n) (\<lambda>_. validate_nodes ns)"
| "validate_comparators (op # ops) (n # ns) =
     res_bind (check (known_cmpop op)) (\<lambda>_. res_bind (validate_node n) (\<lambda>_. validate_comparators ops ns))"
| "validate_comparators _ _ = Inr ()"

definition is_space :: "char \<Rightarrow> bool" where
  "is_space c \<longleftrightarrow> c \<in> {CHR '' '', CHR 0x09, CHR 0x0A, CHR 0x0B, CHR 0x0C, CHR 0x0D,
     CHR 0x1C, CHR 0x1D, CHR 0x1E, CHR 0x1F}"

definition strip :: "string \<Rightarrow> string" where
  "strip s = rev (dropWhile is_space (rev (dropWhile is_space s)))"

type_synonym py_parser = "string \<Rightarrow> node option"

definition validate :: "py_parser \<Rightarrow> string \<Rightarrow> unit result" where
  "validate parse expression =
     (if strip expression = [] then Inr ()
      else if length expression > MAX_FORMULA_LENGTH then Inl ValueError
      else case parse expression of None \<Rightarrow> Inl ValueError | Some tree \<Rightarrow> validate_node tree)"

text \<open>A parser object is the tree it holds, none for a blank formula.\<close>

definition new_parser :: "py_parser \<Rightarrow> string \<Rightarrow> node option result" where
  "new_parser parse expression =
     res_bind (validate parse expression)
       (\<lambda>_. Inr (if strip expression = [] then None else parse expression))"

section \<open>Inspection\<close>

datatype value_type = NUMBER | BOOLEAN | STRING | SERIES | ANY

datatype diagnostic =
    UnknownVariable string
  | UnknownFunction string
  | OnlySimpleCalls
  | KeywordArguments
  | RollingArguments string
  | RollingSeries string
  | RollingPeriodNotInteger string
  | RollingPeriodNotPositive string
  | UnsupportedOperator string
  | UnsupportedComparison string
  | UnsupportedUnary string
  | UnsupportedNode string
  | TooLong
  | SyntaxError

record inspection =
  in_diagnostics :: "diagnostic list"
  in_variables :: "string list"
  in_functions :: "string list"

definition add_error :: "diagnostic \<Rightarrow> inspection \<Rightarrow> inspection" where
  "add_error d st = st\<lparr>in_diagnostics := in_diagnostics st @ [d]\<rparr>"

definition add_error_if :: "bool \<Rightarrow> diagnostic \<Rightarrow> inspection \<Rightarrow> inspection" where
  "add_error_if b d st = (if b then add_error d st else st)"

definition add_variable :: "string \<Rightarrow> inspection \<Rightarrow> inspection" where
  "add_variable x st = st\<lparr>in_variables := List.insert x (in_variables st)\<rparr>"

definition add_function :: "string \<Rightarrow> inspection \<Rightarrow> inspection" where
  "add_function f st = st\<lparr>in_functions := List.insert f (in_functions st)\<rparr>"

fun period_error :: "string \<Rightarrow> node \<Rightarrow> inspection \<Rightarrow> inspection" where
  "period_error f (Constant (XInt n)) st = add_error_if (n \<le> 0) (RollingPeriodNotPositive f) st"
| "period_error f (Constant v) st = add_error (RollingPeriodNotInteger f) st"
| "period_error f _ st = st"

fun validate_rolling_call :: "string \<Rightarrow> node list \<Rightarrow> inspection \<Rightarrow> inspection" where
  "validate_rolling_call f [series, period] st =
     period_error f period (add_error_if (\<not> valid_series series) (RollingSeries f) st)"
| "validate_rolling_call f _ st = add_error (RollingArguments f) st"

fun operator_name :: "operator \<Rightarrow> string" where
  "operator_name (OtherOperator s) = s"
| "operator_name Add = ''Add''" | "operator_name Mult = ''Mult''"
| "operator_name Sub = ''Sub''" | "operator_name Div = ''Div''"

fun cmpop_name :: "cmpop \<Rightarrow> string" where
  "cmpop_name (OtherCmpop s) = s"
| "cmpop_name Gt = ''Gt''" | "cmpop_name Lt = ''Lt''" | "cmpop_name GtE = ''GtE''"
| "cmpop_name LtE = ''LtE''" | "cmpop_name Eq = ''Eq''" | "cmpop_name NotEq = ''NotEq''"

fun unaryop_name :: "unaryop \<Rightarrow> string" where
  "unaryop_name (OtherUnaryop s) = s"
| "unaryop_name USub = ''USub''" | "unaryop_name Not = ''Not''"

definition outside :: "string list option \<Rightarrow> string \<Rightarrow> bool" where
  "outside allowed x \<longleftrightarrow> (case allowed of None \<Rightarrow> False | Some xs \<Rightarrow> x \<notin> set xs)"

definition series_reference :: "node list \<Rightarrow> inspection \<Rightarrow> inspection" where
  "series_reference args st = (case args of Name x # _ \<Rightarrow> add_variable x st | _ \<Rightarrow> st)"

fun collect ::
  "string list option \<Rightarrow> string list option \<Rightarrow> node \<Rightarrow> inspection \<Rightarrow> inspection"
  and collect_list ::
  "string list option \<Rightarrow> string list option \<Rightarrow> node list \<Rightarrow> inspection \<Rightarrow> inspection"
  and collect_comparators ::
  "string list option \<Rightarrow> string list option \<Rightarrow> cmpop list \<Rightarrow> node list \<Rightarrow> inspection \<Rightarrow> inspection" where
  "collect av af (Constant v) st = st"
| "collect av af (Name x) st = add_error_if (outside av x) (UnknownVariable x) (add_variable x st)"
| "collect av af (Call f args kw) st =
     (case f of
        Name fn \<Rightarrow>
          (let st1 = add_error_if (outside af fn) (UnknownFunction fn)
                       (add_function fn (add_error_if (kw \<noteq> 0) KeywordArguments st))
           in if is_rolling fn
              then (case args of
                      [] \<Rightarrow> validate_rolling_call fn args st1
                    | a # as \<Rightarrow> collect_list av af as
                                 (series_reference args (validate_rolling_call fn args st1)))
              else collect_list av af args st1)
      | _ \<Rightarrow> add_error OnlySimpleCalls st)"
| "collect av af (BinOp l op r) st =
     collect av af r (collect av af l
       (add_error_if (\<not> known_operator op) (UnsupportedOperator (operator_name op)) st))"
| "collect av af (Compare l ops rs) st = collect_comparators av af ops rs (collect av af l st)"
| "collect av af (IfExp t b e) st = collect av af e (collect av af b (collect av af t st))"
| "collect av af (BoolOp op vs) st = collect_list av af vs st"
| "collect av af (UnaryOp op n) st =
     collect av af n (add_error_if (\<not> known_unaryop op) (UnsupportedUnary (unaryop_name op)) st)"
| "collect av af (OtherNode c) st = add_error (UnsupportedNode c) st"
| "collect_list av af [] st = st"
| "collect_list av af (n # ns) st = collect_list av af ns (collect av af n st)"
| "collect_comparators av af (op # ops) (n # ns) st =
     collect_comparators av af ops ns (collect av af n
       (add_error_if (\<not> known_cmpop op) (UnsupportedComparison (cmpop_name op)) st))"
| "collect_comparators av af _ _ st = st"

fun infer_node_type :: "node \<Rightarrow> value_type" where
  "infer_node_type (Compare l ops rs) = BOOLEAN"
| "infer_node_type (BoolOp op vs) = BOOLEAN"
| "infer_node_type (UnaryOp op n) = (if op = Not then BOOLEAN else NUMBER)"
| "infer_node_type (Constant v) =
     (case v of XBool b \<Rightarrow> BOOLEAN | XStr s \<Rightarrow> STRING | _ \<Rightarrow> NUMBER)"
| "infer_node_type (IfExp t b e) = infer_node_type b"
| "infer_node_type _ = NUMBER"

record validation_response =
  vr_is_valid :: bool
  vr_inferred_type :: "value_type option"
  vr_diagnostics :: "diagnostic list"
  vr_referenced_variables :: "string list"
  vr_referenced_functions :: "string list"

definition refused :: "diagnostic \<Rightarrow> validation_response" where
  "refused d = \<lparr>vr_is_valid = False, vr_inferred_type = None, vr_diagnostics = [d],
     vr_referenced_variables = [], vr_referenced_functions = []\<rparr>"

text \<open>Every diagnostic the inspector makes is an error.\<close>

definition inspect_semantics ::
  "py_parser \<Rightarrow> string list option \<Rightarrow> string list option \<Rightarrow> string \<Rightarrow> validation_response" where
  "inspect_semantics parse av af expression =
     (let clean = strip expression
      in if clean = [] then
           \<lparr>vr_is_valid = True, vr_inferred_type = None, vr_diagnostics = [],
            vr_referenced_variables = [], vr_referenced_functions = []\<rparr>
         else if length clean > MAX_FORMULA_LENGTH then refused TooLong
         else case parse clean of
                None \<Rightarrow> refused SyntaxError
              | Some tree \<Rightarrow>
                  let st = collect av af tree
                             \<lparr>in_diagnostics = [], in_variables = [], in_functions = []\<rparr>
                  in \<lparr>vr_is_valid = (in_diagnostics st = []),
                      vr_inferred_type = Some (infer_node_type tree),
                      vr_diagnostics = in_diagnostics st,
                      vr_referenced_variables = sort (in_variables st),
                      vr_referenced_functions = sort (in_functions st)\<rparr>)"

section \<open>Evaluation\<close>

text \<open>
  A context holds the variables and the functions; \<open>cx_str\<close> is Python's \<open>str\<close>, applied when a
  formula computes the name of a series.
\<close>

type_synonym xfun = "xval list \<Rightarrow> xval result"

record formula_context =
  cx_variables :: "(string, xval) dict"
  cx_functions :: "(string, xfun) dict"
  cx_str :: "xval \<Rightarrow> string"

definition resolve_variable :: "formula_context \<Rightarrow> string \<Rightarrow> xval result" where
  "resolve_variable cx x =
     (case dict_get (cx_variables cx) x of None \<Rightarrow> Inl ValueError | Some v \<Rightarrow> Inr v)"

definition call_function :: "formula_context \<Rightarrow> string \<Rightarrow> xval list \<Rightarrow> xval result" where
  "call_function cx f args =
     (case dict_get (cx_functions cx) f of None \<Rightarrow> Inl ValueError | Some g \<Rightarrow> g args)"

fun apply_operator :: "operator \<Rightarrow> xval \<Rightarrow> xval \<Rightarrow> xval result" where
  "apply_operator Add a b = py_add a b"
| "apply_operator Mult a b = py_mult a b"
| "apply_operator Sub a b = py_sub a b"
| "apply_operator Div a b = py_div a b"
| "apply_operator (OtherOperator _) a b = Inl ValueError"

fun apply_comparison :: "xval \<Rightarrow> cmpop \<Rightarrow> xval \<Rightarrow> bool result" where
  "apply_comparison a op b =
     (if a = XNone \<or> b = XNone
      then Inr (case op of Eq \<Rightarrow> a = b | NotEq \<Rightarrow> a \<noteq> b | _ \<Rightarrow> False)
      else case op of
             Gt \<Rightarrow> py_less b a
           | Lt \<Rightarrow> py_less a b
           | GtE \<Rightarrow> py_less_eq b a
           | LtE \<Rightarrow> py_less_eq a b
           | Eq \<Rightarrow> Inr (py_eq a b)
           | NotEq \<Rightarrow> Inr (\<not> py_eq a b)
           | OtherCmpop _ \<Rightarrow> Inr False)"

fun apply_unary :: "unaryop \<Rightarrow> xval \<Rightarrow> xval result" where
  "apply_unary USub a = py_neg a"
| "apply_unary Not a = Inr (XBool (\<not> py_truth a))"
| "apply_unary (OtherUnaryop _) a = Inr XNone"

fun evaluate :: "formula_context \<Rightarrow> node \<Rightarrow> xval result"
  and evaluate_list :: "formula_context \<Rightarrow> node list \<Rightarrow> xval list result"
  and evaluate_chain :: "formula_context \<Rightarrow> xval \<Rightarrow> cmpop list \<Rightarrow> node list \<Rightarrow> bool result" where
  "evaluate cx (Constant v) = Inr v"
| "evaluate cx (Name x) = resolve_variable cx x"
| "evaluate cx (BinOp l op r) =
     res_bind (evaluate cx l) (\<lambda>a. res_bind (evaluate cx r) (\<lambda>b. apply_operator op a b))"
| "evaluate cx (Compare l ops rs) =
     res_bind (evaluate cx l) (\<lambda>a. res_bind (evaluate_chain cx a ops rs) (\<lambda>b. Inr (XBool b)))"
| "evaluate cx (IfExp t b e) =
     res_bind (evaluate cx t) (\<lambda>v. if py_truth v then evaluate cx b else evaluate cx e)"
| "evaluate cx (BoolOp op vs) =
     res_bind (evaluate_list cx vs)
       (\<lambda>xs. Inr (XBool (if op = And then list_all py_truth xs else list_ex py_truth xs)))"
| "evaluate cx (UnaryOp op n) = res_bind (evaluate cx n) (apply_unary op)"
| "evaluate cx (Call f args kw) =
     (case f of
        Name fn \<Rightarrow>
          if kw \<noteq> 0 then Inl ValueError
          else (case args of
                  [] \<Rightarrow> call_function cx fn []
                | a # as \<Rightarrow>
                    if is_rolling fn
                    then res_bind (case extract_series_name a of
                                     Some s \<Rightarrow> Inr s
                                   | None \<Rightarrow> res_bind (evaluate cx a) (\<lambda>v. Inr (cx_str cx v)))
                           (\<lambda>s. res_bind (evaluate_list cx as)
                                  (\<lambda>xs. call_function cx fn (XStr s # xs)))
                    else res_bind (evaluate_list cx (a # as)) (call_function cx fn))
      | _ \<Rightarrow> Inl ValueError)"
| "evaluate cx (OtherNode c) = Inl ValueError"
| "evaluate_list cx [] = Inr []"
| "evaluate_list cx (n # ns) =
     res_bind (evaluate cx n) (\<lambda>v. res_bind (evaluate_list cx ns) (\<lambda>vs. Inr (v # vs)))"
| "evaluate_chain cx a (op # ops) (n # ns) =
     res_bind (evaluate cx n) (\<lambda>b.
       res_bind (apply_comparison a op b) (\<lambda>ok. if ok then evaluate_chain cx b ops ns else Inr False))"
| "evaluate_chain cx a _ _ = Inr True"

definition parse_formula :: "node option \<Rightarrow> formula_context \<Rightarrow> xval result" where
  "parse_formula tree cx = (case tree of None \<Rightarrow> Inr XNone | Some n \<Rightarrow> evaluate cx n)"

section \<open>Validator and inspector\<close>

text \<open>The variables a formula reads and the functions it calls.  The series argument of a rolling
  window is a name, not a variable.\<close>

fun variables_of :: "node \<Rightarrow> string list"
  and variables_of_list :: "node list \<Rightarrow> string list"
  and variables_of_chain :: "cmpop list \<Rightarrow> node list \<Rightarrow> string list" where
  "variables_of (Name x) = [x]"
| "variables_of (BinOp l op r) = variables_of l @ variables_of r"
| "variables_of (Compare l ops rs) = variables_of l @ variables_of_chain ops rs"
| "variables_of (IfExp t b e) = variables_of t @ variables_of b @ variables_of e"
| "variables_of (BoolOp op vs) = variables_of_list vs"
| "variables_of (UnaryOp op n) = variables_of n"
| "variables_of (Call f args kw) =
     (case f of
        Name fn \<Rightarrow> (case args of
                      [] \<Rightarrow> []
                    | a # as \<Rightarrow> if is_rolling fn then variables_of_list as else variables_of_list (a # as))
      | _ \<Rightarrow> [])"
| "variables_of (Constant v) = []"
| "variables_of (OtherNode c) = []"
| "variables_of_list [] = []"
| "variables_of_list (n # ns) = variables_of n @ variables_of_list ns"
| "variables_of_chain (op # ops) (n # ns) = variables_of n @ variables_of_chain ops ns"
| "variables_of_chain _ _ = []"

fun functions_of :: "node \<Rightarrow> string list"
  and functions_of_list :: "node list \<Rightarrow> string list"
  and functions_of_chain :: "cmpop list \<Rightarrow> node list \<Rightarrow> string list" where
  "functions_of (Name x) = []"
| "functions_of (BinOp l op r) = functions_of l @ functions_of r"
| "functions_of (Compare l ops rs) = functions_of l @ functions_of_chain ops rs"
| "functions_of (IfExp t b e) = functions_of t @ functions_of b @ functions_of e"
| "functions_of (BoolOp op vs) = functions_of_list vs"
| "functions_of (UnaryOp op n) = functions_of n"
| "functions_of (Call f args kw) =
     (case f of
        Name fn \<Rightarrow> fn # (case args of
                      [] \<Rightarrow> []
                    | a # as \<Rightarrow> if is_rolling fn then functions_of_list as else functions_of_list (a # as))
      | _ \<Rightarrow> [])"
| "functions_of (Constant v) = []"
| "functions_of (OtherNode c) = []"
| "functions_of_list [] = []"
| "functions_of_list (n # ns) = functions_of n @ functions_of_list ns"
| "functions_of_chain (op # ops) (n # ns) = functions_of n @ functions_of_chain ops ns"
| "functions_of_chain _ _ = []"

lemma check_bind [simp]: "res_bind (check b) f = Inr y \<longleftrightarrow> b \<and> f () = Inr y"
  by (simp add: check_def)

lemma check_ok [simp]: "check b = Inr () \<longleftrightarrow> b"
  by (simp add: check_def)

lemma unit_bind [simp]: "res_bind r f = Inr () \<longleftrightarrow> r = Inr () \<and> f () = Inr ()" for r :: "unit result"
  by (cases r) simp_all

lemma inspection_simps [simp]:
  "in_diagnostics (add_error_if b d st) = [] \<longleftrightarrow> \<not> b \<and> in_diagnostics st = []"
  "in_diagnostics (add_error d st) \<noteq> []"
  "in_diagnostics (add_variable x st) = in_diagnostics st"
  "in_diagnostics (add_function f st) = in_diagnostics st"
  "in_functions (add_error_if b d st) = in_functions st" "in_functions (add_error d st) = in_functions st"
  "in_functions (add_variable x st) = in_functions st"
  "set (in_functions (add_function f st)) = insert f (set (in_functions st))"
  by (auto simp: add_error_if_def add_error_def add_variable_def add_function_def)

lemma series_reference_simps [simp]:
  "in_diagnostics (series_reference args st) = in_diagnostics st"
  "in_functions (series_reference args st) = in_functions st"
  by (auto simp: series_reference_def split: list.split node.split)

lemma period_error_simps [simp]:
  "in_diagnostics (period_error f n st) = [] \<longleftrightarrow> period_ok n \<and> in_diagnostics st = []"
  "in_functions (period_error f n st) = in_functions st"
  by (induction f n st rule: period_error.induct) auto

lemma validate_rolling_call_simps [simp]:
  "in_diagnostics (validate_rolling_call f args st) = []
     \<longleftrightarrow> validate_rolling_call_strict args = Inr () \<and> in_diagnostics st = []"
  "in_functions (validate_rolling_call f args st) = in_functions st"
  by (induction f args st rule: validate_rolling_call.induct) auto

lemma rolling_strictE:
  assumes "validate_rolling_call_strict args = Inr ()"
  obtains series period where "args = [series, period]" "valid_series series" "period_ok period"
    "validate_node series = Inr ()"
proof (cases args rule: validate_rolling_call_strict.cases)
  case (1 series period)
  with assms have "valid_series series" "period_ok period" by auto
  moreover from this(1) have "validate_node series = Inr ()"
    by (cases series rule: extract_series_name.cases) (simp_all add: valid_series_def)
  ultimately show ?thesis using that 1 by blast
qed (use assms in simp_all)

definition inside :: "string list option \<Rightarrow> string list \<Rightarrow> bool" where
  "inside allowed xs \<longleftrightarrow> list_all (\<lambda>x. \<not> outside allowed x) xs"

lemma inside_simps [simp]:
  "inside allowed []" "inside allowed (x # xs) \<longleftrightarrow> \<not> outside allowed x \<and> inside allowed xs"
  "inside allowed (xs @ ys) \<longleftrightarrow> inside allowed xs \<and> inside allowed ys"
  "inside None xs" "inside (Some ys) xs \<longleftrightarrow> set xs \<subseteq> set ys"
  by (auto simp: inside_def outside_def list_all_iff)

lemma collect_exact:
  "in_diagnostics (collect av af n st) = [] \<longleftrightarrow> in_diagnostics st = [] \<and> validate_node n = Inr () \<and>
     inside av (variables_of n) \<and> inside af (functions_of n)"
  "in_diagnostics (collect_list av af ns st) = [] \<longleftrightarrow> in_diagnostics st = [] \<and> validate_nodes ns = Inr () \<and>
     inside av (variables_of_list ns) \<and> inside af (functions_of_list ns)"
  "in_diagnostics (collect_comparators av af ops ns st) = [] \<longleftrightarrow> in_diagnostics st = [] \<and>
     validate_comparators ops ns = Inr () \<and>
     inside av (variables_of_chain ops ns) \<and> inside af (functions_of_chain ops ns)"
proof (induction av af n st and av af ns st and av af ops ns st
    rule: collect_collect_list_collect_comparators.induct)
  case (3 av af f args kw st)
  then show ?case
    by (auto simp: Let_def split: node.split list.split elim!: rolling_strictE)
qed (auto)

lemma collect_functions:
  "set (in_functions (collect av af n st)) = set (in_functions st) \<union> set (functions_of n)"
  "set (in_functions (collect_list av af ns st)) = set (in_functions st) \<union> set (functions_of_list ns)"
  "set (in_functions (collect_comparators av af ops ns st))
     = set (in_functions st) \<union> set (functions_of_chain ops ns)"
proof (induction av af n st and av af ns st and av af ops ns st
    rule: collect_collect_list_collect_comparators.induct)
  case (3 av af f args kw st)
  then show ?case
    by (auto simp: Let_def split: node.split list.split)
qed (auto)

lemma inspection_exact:
  assumes "strip e = e" and "e \<noteq> []" and "inspect_semantics parse av af e = r"
  shows "(vr_is_valid r \<longleftrightarrow>
      (\<exists>n. new_parser parse e = Inr (Some n) \<and> inside av (variables_of n) \<and> inside af (functions_of n))) \<and>
    (vr_is_valid r \<longleftrightarrow> vr_diagnostics r = []) \<and>
    (\<forall>n. vr_is_valid r \<and> new_parser parse e = Inr (Some n) \<longrightarrow>
       set (vr_referenced_functions r) = set (functions_of n) \<and> vr_inferred_type r = Some (infer_node_type n))"
proof (cases "length e > MAX_FORMULA_LENGTH \<or> parse e = None")
  case True
  then show ?thesis
    using assms by (auto simp: inspect_semantics_def new_parser_def validate_def refused_def)
next
  case False
  then obtain n where n: "parse e = Some n" and len: "\<not> length e > MAX_FORMULA_LENGTH" by auto
  have p: "new_parser parse e = Inr (Some m) \<longleftrightarrow> m = n \<and> validate_node n = Inr ()" for m
    using assms(1,2) n len by (cases "validate_node n") (auto simp: new_parser_def validate_def)
  let ?st = "collect av af n \<lparr>in_diagnostics = [], in_variables = [], in_functions = []\<rparr>"
  have r: "r = \<lparr>vr_is_valid = (in_diagnostics ?st = []), vr_inferred_type = Some (infer_node_type n),
      vr_diagnostics = in_diagnostics ?st, vr_referenced_variables = sort (in_variables ?st),
      vr_referenced_functions = sort (in_functions ?st)\<rparr>"
    using assms n len by (auto simp: inspect_semantics_def Let_def)
  show ?thesis
    using p by (auto simp: r collect_exact(1) collect_functions(1))
qed

lemma accepted_tree:
  assumes "strip e = e" "e \<noteq> []" "vr_is_valid (inspect_semantics parse av af e)"
  shows "\<exists>n. new_parser parse e = Inr (Some n) \<and> inside av (variables_of n) \<and> inside af (functions_of n)"
  using inspection_exact [OF assms(1,2) refl] assms(3) by blast

section \<open>Accepted formulas\<close>

text \<open>A computation that ends in a value with property \<open>P\<close> or in one of the exceptions \<open>E\<close>.\<close>

definition ends_in :: "py_exc set \<Rightarrow> ('a \<Rightarrow> bool) \<Rightarrow> 'a result \<Rightarrow> bool" where
  "ends_in E P r \<longleftrightarrow> (case r of Inl e \<Rightarrow> e \<in> E | Inr x \<Rightarrow> P x)"

lemma ends_in_simps [simp]: "ends_in E P (Inl e) \<longleftrightarrow> e \<in> E" "ends_in E P (Inr x) \<longleftrightarrow> P x"
  by (simp_all add: ends_in_def)

lemma ends_in_bind:
  "ends_in E Q r \<Longrightarrow> (\<And>x. Q x \<Longrightarrow> ends_in E P (f x)) \<Longrightarrow> ends_in E P (res_bind r f)"
  by (cases r) simp_all

lemma ends_in_mono: "ends_in E P r \<Longrightarrow> E \<subseteq> F \<Longrightarrow> (\<And>x. P x \<Longrightarrow> Q x) \<Longrightarrow> ends_in F Q r"
  by (cases r) auto

text \<open>A context that provides the given names, whose functions raise nothing but \<open>E\<close> and return values
  with property \<open>P\<close>, which its variables have too.\<close>

definition provides ::
  "py_exc set \<Rightarrow> (xval \<Rightarrow> bool) \<Rightarrow> formula_context \<Rightarrow> string list \<Rightarrow> string list \<Rightarrow> bool" where
  "provides E P cx vs fs \<longleftrightarrow>
     (\<forall>x\<in>set vs. \<exists>v. dict_get (cx_variables cx) x = Some v \<and> P v) \<and>
     (\<forall>f\<in>set fs. \<exists>g. dict_get (cx_functions cx) f = Some g \<and> (\<forall>args. ends_in E P (g args)))"

lemma provides_append [simp]:
  "provides E P cx (vs @ ws) fs \<longleftrightarrow> provides E P cx vs fs \<and> provides E P cx ws fs"
  "provides E P cx vs (fs @ gs) \<longleftrightarrow> provides E P cx vs fs \<and> provides E P cx vs gs"
  by (auto simp: provides_def)

lemma provides_mono: "provides E P cx vs fs \<Longrightarrow> set ws \<subseteq> set vs \<Longrightarrow> set gs \<subseteq> set fs \<Longrightarrow> provides E P cx ws gs"
  by (auto simp: provides_def)

lemma resolve_provided: "provides E P cx vs fs \<Longrightarrow> x \<in> set vs \<Longrightarrow> ends_in E P (resolve_variable cx x)"
  by (auto simp: provides_def resolve_variable_def)

lemma call_provided: "provides E P cx vs fs \<Longrightarrow> f \<in> set fs \<Longrightarrow> ends_in E P (call_function cx f args)"
  by (force simp: provides_def call_function_def)

text \<open>Inferred types, and the formulas on which they can be trusted: operands of arithmetic are
  numbers, compared values have one type, and both branches of a conditional have the same type.\<close>

fun has_type :: "value_type \<Rightarrow> xval \<Rightarrow> bool" where
  "has_type NUMBER (XInt i) = True"
| "has_type NUMBER (XFloat r) = True"
| "has_type BOOLEAN (XBool b) = True"
| "has_type STRING (XStr s) = True"
| "has_type _ _ = False"

fun consistent :: "node \<Rightarrow> bool"
  and consistent_list :: "node list \<Rightarrow> bool" where
  "consistent (Constant v) = (v \<noteq> XNone \<and> (\<forall>c. v \<noteq> XCandle c) \<and> (\<forall>cs. v \<noteq> XCandles cs))"
| "consistent (Name x) = True"
| "consistent (BinOp l op r) =
     (consistent l \<and> consistent r \<and> infer_node_type l = NUMBER \<and> infer_node_type r = NUMBER)"
| "consistent (Compare l ops rs) =
     (consistent l \<and> consistent_list rs \<and> list_all (\<lambda>r. infer_node_type r = infer_node_type l) rs)"
| "consistent (IfExp t b e) =
     (consistent t \<and> consistent b \<and> consistent e \<and> infer_node_type b = infer_node_type e)"
| "consistent (BoolOp op vs) = consistent_list vs"
| "consistent (UnaryOp op n) = (consistent n \<and> (op = USub \<longrightarrow> infer_node_type n = NUMBER))"
| "consistent (Call f args kw) = (case args of [] \<Rightarrow> True | a # as \<Rightarrow>
     (case f of Name fn \<Rightarrow> if is_rolling fn then consistent_list as else consistent a \<and> consistent_list as
              | _ \<Rightarrow> True))"
| "consistent (OtherNode c) = True"
| "consistent_list [] = True"
| "consistent_list (n # ns) = (consistent n \<and> consistent_list ns)"

lemma has_type_cases:
  "has_type NUMBER v \<longleftrightarrow> (\<exists>i. v = XInt i) \<or> (\<exists>r. v = XFloat r)"
  "has_type BOOLEAN v \<longleftrightarrow> (\<exists>b. v = XBool b)" "has_type STRING v \<longleftrightarrow> (\<exists>s. v = XStr s)"
  by (cases v; simp)+

lemma operator_typed:
  assumes "known_operator op" "has_type NUMBER a" "has_type NUMBER b"
  shows "ends_in {ZeroDivisionError} (has_type NUMBER) (apply_operator op a b)"
  using assms
  by (cases op) (auto simp: has_type_cases(1) py_add_def py_mult_def py_sub_def py_div_def arith_def)

lemma comparison_typed:
  assumes "has_type T a" "has_type T b"
  shows "ends_in {} (\<lambda>_. True) (apply_comparison a op b)"
proof -
  have "T = NUMBER \<or> T = BOOLEAN \<or> T = STRING" using assms by (cases T; cases a) auto
  then show ?thesis
    using assms
    by (elim disjE; cases op) (auto simp: has_type_cases py_less_def py_less_eq_def)
qed

lemma unary_typed:
  assumes "known_unaryop op" "op = USub \<Longrightarrow> has_type NUMBER a"
  shows "ends_in {} (has_type (if op = Not then BOOLEAN else NUMBER)) (apply_unary op a)"
  using assms by (cases op) (auto simp: has_type_cases(1) py_neg_def)

lemma rolling_call:
  assumes "is_rolling fn" "validate_node (Call (Name fn) args kw) = Inr ()"
  obtains series period s where "args = [series, period]" "extract_series_name series = Some s"
    "validate_node period = Inr ()" "kw = 0"
    "evaluate cx (Call (Name fn) args kw)
      = res_bind (evaluate_list cx [period]) (\<lambda>xs. call_function cx fn (XStr s # xs))"
proof -
  have kw: "kw = 0" and strict: "validate_rolling_call_strict args = Inr ()" and ns: "validate_nodes args = Inr ()"
    using assms by auto
  from strict obtain series period where 1: "args = [series, period]" "valid_series series"
    by (rule rolling_strictE)
  then obtain s where "extract_series_name series = Some s"
    by (auto simp: valid_series_def split: option.splits)
  with 1 ns kw assms(1) show ?thesis by (intro that) auto
qed

lemma call_typed:
  assumes "fn \<in> set fs" "provides E P cx vs fs" "ends_in F (\<lambda>_. True) r" "E \<subseteq> F"
  shows "ends_in F P (res_bind r (\<lambda>xs. call_function cx fn (h xs)))"
  using assms(3) by (rule ends_in_bind) (rule ends_in_mono [OF call_provided [OF assms(2,1)] assms(4)])

text \<open>The arguments of a call that are evaluated, and the call once they are.\<close>

definition evaluated_args :: "string \<Rightarrow> node list \<Rightarrow> node list" where
  "evaluated_args fn args = (if is_rolling fn then tl args else args)"

lemma evaluated_args_names:
  assumes "provides E P cx (variables_of (Call (Name fn) args kw)) (functions_of (Call (Name fn) args kw))"
  shows "provides E P cx (variables_of_list (evaluated_args fn args)) (functions_of_list (evaluated_args fn args))"
  by (rule provides_mono [OF assms]) (cases args; auto simp: evaluated_args_def)+

lemma evaluated_args_valid:
  "validate_node (Call (Name fn) args kw) = Inr () \<Longrightarrow> validate_nodes (evaluated_args fn args) = Inr ()"
  by (cases args) (auto simp: evaluated_args_def)

lemma call_evaluates:
  assumes "validate_node (Call (Name fn) args kw) = Inr ()"
    and prov: "provides E P cx (variables_of (Call (Name fn) args kw)) (functions_of (Call (Name fn) args kw))"
    and args: "ends_in E (\<lambda>_. True) (evaluate_list cx (evaluated_args fn args))"
  shows "ends_in E P (evaluate cx (Call (Name fn) args kw))"
proof -
  have fn: "fn \<in> set (functions_of (Call (Name fn) args kw))" by simp
  note call = call_typed [OF fn prov _ subset_refl]
  show ?thesis
  proof (cases "is_rolling fn")
    case True
    obtain series period s where a: "args = [series, period]"
      and ev: "evaluate cx (Call (Name fn) args kw)
        = res_bind (evaluate_list cx [period]) (\<lambda>xs. call_function cx fn (XStr s # xs))"
      by (rule rolling_call [OF True assms(1)])
    have "ends_in E (\<lambda>_. True) (evaluate_list cx [period])"
      using args True a by (simp add: evaluated_args_def)
    then show ?thesis unfolding ev by (rule call)
  next
    case False
    then have "evaluate cx (Call (Name fn) args kw) = res_bind (evaluate_list cx args) (call_function cx fn)"
      using assms(1) by (cases args) auto
    then show ?thesis
      using call [of "evaluate_list cx args" "\<lambda>xs. xs"] args False by (simp add: evaluated_args_def)
  qed
qed

lemma typed_evaluation:
  "validate_node n = Inr () \<Longrightarrow> consistent n \<Longrightarrow>
     provides E (has_type NUMBER) cx (variables_of n) (functions_of n) \<Longrightarrow> ZeroDivisionError \<in> E \<Longrightarrow>
     ends_in E (has_type (infer_node_type n)) (evaluate cx n)"
  "validate_nodes ns = Inr () \<Longrightarrow> consistent_list ns \<Longrightarrow>
     provides E (has_type NUMBER) cx (variables_of_list ns) (functions_of_list ns) \<Longrightarrow> ZeroDivisionError \<in> E \<Longrightarrow>
     ends_in E (\<lambda>_. True) (evaluate_list cx ns)"
  "validate_comparators ops ns = Inr () \<Longrightarrow> consistent_list ns \<Longrightarrow>
     provides E (has_type NUMBER) cx (variables_of_chain ops ns) (functions_of_chain ops ns) \<Longrightarrow> ZeroDivisionError \<in> E \<Longrightarrow>
     has_type T a \<Longrightarrow> list_all (\<lambda>r. infer_node_type r = T) ns \<Longrightarrow>
     ends_in E (\<lambda>_. True) (evaluate_chain cx a ops ns)"
proof (induction cx n and cx ns and cx a ops ns arbitrary: and and T
    rule: evaluate_evaluate_list_evaluate_chain.induct)
  case (1 cx v)
  then show ?case by (cases v) auto
next
  case (2 cx x)
  then show ?case by (auto intro!: resolve_provided)
next
  case (3 cx l op r)
  have "ends_in E (has_type NUMBER) (evaluate cx l)" "ends_in E (has_type NUMBER) (evaluate cx r)"
    using 3 by (auto simp: sum.case_eq_if)
  moreover have "ends_in E (has_type NUMBER) (apply_operator op a b)" if "has_type NUMBER a" "has_type NUMBER b" for a b
    using 3 that by (intro ends_in_mono [OF operator_typed]) auto
  ultimately show ?case by (auto intro!: ends_in_bind)
next
  case (4 cx l ops rs)
  have "ends_in E (has_type (infer_node_type l)) (evaluate cx l)" using 4 by simp
  then show ?case using 4 by (auto intro!: ends_in_bind 4(2))
next
  case (5 cx t b e)
  have 1: "ends_in E (has_type (infer_node_type t)) (evaluate cx t)" using 5 by simp
  have 2: "ends_in E (has_type (infer_node_type b)) (evaluate cx b)" "ends_in E (has_type (infer_node_type b)) (evaluate cx e)"
    if "py_truth v" "\<not> py_truth v" for v
    using that by simp_all
  show ?case using 5 by (auto intro!: ends_in_bind [OF 1])
next
  case (6 cx op vs)
  then have "ends_in E (\<lambda>_. True) (evaluate_list cx vs)" by simp
  then show ?case by (auto intro: ends_in_bind)
next
  case (7 cx op n)
  then have "ends_in E (has_type (infer_node_type n)) (evaluate cx n)" by simp
  then show ?case using 7 by (auto intro!: ends_in_bind ends_in_mono [OF unary_typed])
next
  case (8 cx f args kw)
  then obtain fn where f: "f = Name fn" by (cases f) auto
  have valid: "validate_node (Call (Name fn) args kw) = Inr ()"
    and prov: "provides E (has_type NUMBER) cx (variables_of (Call (Name fn) args kw)) (functions_of (Call (Name fn) args kw))"
    using 8 f by blast+
  note ok = evaluated_args_valid [OF valid] and names = evaluated_args_names [OF prov]
  have kw: "\<not> kw \<noteq> 0" using valid by auto
  have cons: "consistent_list (evaluated_args fn args)"
    using 8(5) f by (cases args) (auto simp: evaluated_args_def)
  have "ends_in E (\<lambda>_. True) (evaluate_list cx (evaluated_args fn args))"
  proof (cases args)
    case Nil
    then show ?thesis by (simp add: evaluated_args_def)
  next
    case (Cons a as)
    show ?thesis
    proof (cases "is_rolling fn")
      case True
      then have e: "evaluated_args fn args = as" by (simp add: evaluated_args_def Cons)
      show ?thesis unfolding e by (rule 8(2) [OF f kw Cons True ok [unfolded e] cons [unfolded e] names [unfolded e] 8(7)])
    next
      case False
      then have e: "evaluated_args fn args = a # as" by (simp add: evaluated_args_def Cons)
      show ?thesis unfolding e by (rule 8(3) [OF f kw Cons False ok [unfolded e] cons [unfolded e] names [unfolded e] 8(7)])
    qed
  qed
  then show ?case using call_evaluates [OF valid prov] f by simp
next
  case (11 cx n ns)
  then have "ends_in E (\<lambda>_. True) (evaluate cx n)" "ends_in E (\<lambda>_. True) (evaluate_list cx ns)"
    by (auto intro: ends_in_mono)
  then show ?case by (auto intro!: ends_in_bind)
next
  case (12 cx a op ops n ns)
  then have n: "ends_in E (has_type T) (evaluate cx n)" by simp
  have chain: "ends_in E (\<lambda>_. True) (evaluate_chain cx b ops ns)" if "has_type T b" for b
    by (rule 12(2) [OF TrueI _ _ _ _ that]) (use 12 in simp_all)
  have cmp: "ends_in E (\<lambda>_. True) (apply_comparison a op b)" if "has_type T b" for b
    by (rule ends_in_mono [OF comparison_typed [OF 12(7) that]]) simp_all
  show ?case
    unfolding evaluate_chain.simps
    by (rule ends_in_bind [OF n], rule ends_in_bind [OF cmp], assumption) (simp add: chain)
qed (auto intro: ends_in_bind)

text \<open>Without types: an operator applied to any values ends in a value or a type or division error.\<close>

abbreviation runs :: "py_exc set \<Rightarrow> 'a result \<Rightarrow> bool" where
  "runs E r \<equiv> ends_in E (\<lambda>_. True) r"

lemma arith_runs: "TypeError \<in> E \<Longrightarrow> runs E (arith fi fr a b)"
  by (auto simp: arith_def split: option.split)

lemma operator_runs:
  assumes "known_operator op" "TypeError \<in> E" "ZeroDivisionError \<in> E"
  shows "runs E (apply_operator op a b)"
  using assms
  by (cases op) (auto simp: py_add_def py_mult_def py_sub_def py_div_def arith_runs split: option.split xval.split)

lemma comparison_runs: "TypeError \<in> E \<Longrightarrow> runs E (apply_comparison a op b)"
  by (cases op) (auto simp: py_less_def py_less_eq_def split: option.split xval.split)

lemma unary_runs: "TypeError \<in> E \<Longrightarrow> runs E (apply_unary op a)"
  by (cases op) (auto simp: py_neg_def split: option.split xval.split)

lemma accepted_evaluation:
  "validate_node n = Inr () \<Longrightarrow> provides E (\<lambda>_. True) cx (variables_of n) (functions_of n) \<Longrightarrow>
     {TypeError, ZeroDivisionError} \<subseteq> E \<Longrightarrow> runs E (evaluate cx n)"
  "validate_nodes ns = Inr () \<Longrightarrow> provides E (\<lambda>_. True) cx (variables_of_list ns) (functions_of_list ns) \<Longrightarrow>
     {TypeError, ZeroDivisionError} \<subseteq> E \<Longrightarrow> runs E (evaluate_list cx ns)"
  "validate_comparators ops ns = Inr () \<Longrightarrow>
     provides E (\<lambda>_. True) cx (variables_of_chain ops ns) (functions_of_chain ops ns) \<Longrightarrow>
     {TypeError, ZeroDivisionError} \<subseteq> E \<Longrightarrow> runs E (evaluate_chain cx a ops ns)"
proof (induction cx n and cx ns and cx a ops ns rule: evaluate_evaluate_list_evaluate_chain.induct)
  case (2 cx x)
  then show ?case by (auto intro!: resolve_provided)
next
  case (3 cx l op r)
  then show ?case by (auto intro!: ends_in_bind operator_runs)
next
  case (4 cx l ops rs)
  then show ?case by (auto intro!: ends_in_bind)
next
  case (5 cx t b e)
  then show ?case by (auto intro!: ends_in_bind)
next
  case (6 cx op vs)
  then have "runs E (evaluate_list cx vs)" by simp
  then show ?case by (auto intro: ends_in_bind)
next
  case (7 cx op n)
  then show ?case by (auto intro!: ends_in_bind unary_runs)
next
  case (8 cx f args kw)
  then obtain fn where f: "f = Name fn" by (cases f) auto
  have valid: "validate_node (Call (Name fn) args kw) = Inr ()"
    and prov: "provides E (\<lambda>_. True) cx (variables_of (Call (Name fn) args kw)) (functions_of (Call (Name fn) args kw))"
    using 8 f by blast+
  note ok = evaluated_args_valid [OF valid] and names = evaluated_args_names [OF prov]
  have kw: "\<not> kw \<noteq> 0" using valid by auto
  have "ends_in E (\<lambda>_. True) (evaluate_list cx (evaluated_args fn args))"
  proof (cases args)
    case Nil
    then show ?thesis by (simp add: evaluated_args_def)
  next
    case (Cons a as)
    show ?thesis
    proof (cases "is_rolling fn")
      case True
      then have e: "evaluated_args fn args = as" by (simp add: evaluated_args_def Cons)
      show ?thesis unfolding e by (rule 8(2) [OF f kw Cons True ok [unfolded e] names [unfolded e] 8(6)])
    next
      case False
      then have e: "evaluated_args fn args = a # as" by (simp add: evaluated_args_def Cons)
      show ?thesis unfolding e by (rule 8(3) [OF f kw Cons False ok [unfolded e] names [unfolded e] 8(6)])
    qed
  qed
  then show ?case using call_evaluates [OF valid prov] f by simp
next
  case (11 cx n ns)
  then have "runs E (evaluate cx n)" "runs E (evaluate_list cx ns)" by auto
  then show ?case by (auto intro!: ends_in_bind)
next
  case (12 cx a op ops n ns)
  then have n: "runs E (evaluate cx n)" by simp
  have chain: "runs E (evaluate_chain cx b ops ns)" for b
    by (rule 12(2) [OF TrueI]) (use 12 in simp_all)
  have cmp: "runs E (apply_comparison a op b)" for b by (rule comparison_runs) (use 12 in simp)
  show ?case
    unfolding evaluate_chain.simps
    by (rule ends_in_bind [OF n], rule ends_in_bind [OF cmp]) (simp add: chain)
qed (auto intro: ends_in_bind)

lemma parsed_validated: "new_parser parse e = Inr (Some n) \<Longrightarrow> validate_node n = Inr ()"
  by (auto simp: new_parser_def validate_def res_bind_eq_Inr split: if_splits option.splits)

section \<open>Guarantees\<close>

definition demo_parse :: py_parser where
  "demo_parse e = (if e = ''max(x, 2) / y > 1'' then
     Some (Compare (BinOp (Call (Name ''max'') [Name ''x'', Constant (XInt 2)] 0) Div (Name ''y'')) [Gt] [Constant (XInt 1)])
     else None)"

definition demo_formula_context :: formula_context where
  "demo_formula_context =
     \<lparr>cx_variables = [(''x'', XInt 3), (''y'', XFloat (1/2))], cx_functions = [(''max'', \<lambda>args. Inr (XInt 3))],
      cx_str = (\<lambda>_. [])\<rparr>"





text \<open>C24.  Inferred types are sound: where the operands of arithmetic are inferred numbers, compared
  operands have one type and the branches of conditionals agree, a formula the parser accepts
  evaluates, over numeric variables and functions, to a value of the inferred type or raises a
  division error or what a called function raises; it never raises a type error of its own.\<close>

theorem inferred_type_sound:
  assumes "new_parser parse e = Inr (Some n)" and "consistent n"
    and "provides E (has_type NUMBER) cx (variables_of n) (functions_of n)" and "ZeroDivisionError \<in> E"
  shows "ends_in E (has_type (infer_node_type n)) (parse_formula (Some n) cx)"
  using typed_evaluation(1) [OF parsed_validated [OF assms(1)] assms(2-4)] by (simp add: parse_formula_def)

theorem inferred_type_sound_witness:
  "ends_in {ZeroDivisionError} (has_type BOOLEAN)
     (res_bind (new_parser demo_parse ''max(x, 2) / y > 1'') (\<lambda>t. parse_formula t demo_formula_context))"
proof -
  let ?n = "Compare (BinOp (Call (Name ''max'') [Name ''x'', Constant (XInt 2)] 0) Div (Name ''y'')) [Gt] [Constant (XInt 1)]"
  have p: "new_parser demo_parse ''max(x, 2) / y > 1'' = Inr (Some ?n)" by code_simp
  have c: "consistent ?n" by (simp add: is_rolling_def)
  have "provides {ZeroDivisionError} (has_type NUMBER) demo_formula_context (variables_of ?n) (functions_of ?n)"
    by (simp add: provides_def demo_formula_context_def is_rolling_def)
  from inferred_type_sound [OF p c this] show ?thesis by (simp add: p)
qed

text \<open>Without agreeing branches the inferred type may be wrong, and both sides of a conjunction are
  evaluated whatever the first one yields.\<close>

lemma conditional_type_unsound:
  "let n = IfExp (Constant (XBool False)) (Constant (XBool True)) (Constant (XInt 1))
   in validate_node n = Inr () \<and> infer_node_type n = BOOLEAN \<and> evaluate cx n = Inr (XInt 1)"
  by (simp add: Let_def)

lemma conjunction_not_lazy:
  "let n = BoolOp And [Compare (Name ''x'') [NotEq] [Constant (XInt 0)],
             Compare (BinOp (Constant (XInt 1)) Div (Name ''x'')) [Gt] [Constant (XInt 2)]];
     cx = \<lparr>cx_variables = [(''x'', XInt 0)], cx_functions = [], cx_str = (\<lambda>_. [])\<rparr>
   in validate_node n = Inr () \<and> evaluate cx n = Inl ZeroDivisionError"
  by (simp add: Let_def resolve_variable_def py_eq_def py_div_def)

end
