(* ===== verification/Indicators.thy ===== *)
theory Indicators
  imports Expressions Consensus Protection
begin

text \<open>
  What formulas compute with: rolling windows (\<open>src/src/core/expressions/rolling_window_evaluator.py\<close>),
  the functions and variables of a trading context
  (\<open>src/src/trading/factories/trading_expression_factory.py\<close>), and the catalog that tells an editor
  which names may be used where (\<open>src/src/core/expressions/catalog.py\<close>).

  The functions \<open>regime\<close>, \<open>volatility\<close> and \<open>trend_strength\<close> are modelled for integer periods, which is what formulas pass; for a
  period of another type the answer is the parameter \<open>oddc\<close>.
\<close>

section \<open>Rolling windows\<close>

definition SERIES_EXTRACTORS :: "(string, candle \<Rightarrow> rat) dict" where
  "SERIES_EXTRACTORS =
     [(''high'', cd_high), (''low'', cd_low), (''close'', cd_close), (''open'', cd_open),
      (''volume'', cd_volume)]"

definition is_active_candle :: "market_data option \<Rightarrow> candle \<Rightarrow> bool" where
  "is_active_candle md c \<longleftrightarrow>
     (case md of
        None \<Rightarrow> False
      | Some m \<Rightarrow>
          md_timestamp m > 0 \<and> cd_start_time c \<ge> md_timestamp m \<or>
          cd_close c = md_close_price m \<and> cd_high c = md_high_price m \<and> cd_low c = md_low_price m)"

definition prior_candles :: "candle list \<Rightarrow> market_data option \<Rightarrow> candle list" where
  "prior_candles cs md =
     (if cs = [] then [] else if is_active_candle md (last cs) then butlast cs else cs)"

text \<open>\<open>xs[i:]\<close> for any integer \<open>i\<close>.\<close>

definition slice_from :: "int \<Rightarrow> 'a list \<Rightarrow> 'a list" where
  "slice_from i xs = drop (nat (if i < 0 then max 0 (i + int (length xs)) else i)) xs"

fun valid_period :: "xval \<Rightarrow> int option" where
  "valid_period (XInt n) = (if n > 0 then Some n else None)"
| "valid_period _ = None"

text \<open>A series that is no string is not a key of the table; a list or a candle cannot be hashed.\<close>

fun series_extractor :: "xval \<Rightarrow> (candle \<Rightarrow> rat) result" where
  "series_extractor (XStr s) =
     (case dict_get SERIES_EXTRACTORS s of None \<Rightarrow> Inl ValueError | Some f \<Rightarrow> Inr f)"
| "series_extractor (XCandle c) = Inl TypeError"
| "series_extractor (XCandles cs) = Inl TypeError"
| "series_extractor _ = Inl ValueError"

definition resolve_window_values ::
  "candle list \<Rightarrow> market_data option \<Rightarrow> xval \<Rightarrow> xval \<Rightarrow> rat list option result" where
  "resolve_window_values cs md series period =
     (case valid_period period of
        None \<Rightarrow> Inl ValueError
      | Some n \<Rightarrow>
          res_bind (series_extractor series) (\<lambda>extractor.
            let effective = prior_candles cs md
            in Inr (if int (length effective) < n then None
                    else Some (map extractor (slice_from (- n) effective)))))"

definition rolling ::
  "(rat list \<Rightarrow> rat) \<Rightarrow> candle list \<Rightarrow> market_data option \<Rightarrow> xfun" where
  "rolling pick cs md args =
     (case args of
        [series, period] \<Rightarrow>
          res_bind (resolve_window_values cs md series period)
            (\<lambda>w. Inr (case w of None \<Rightarrow> XNone | Some vs \<Rightarrow> XFloat (pick vs)))
      | _ \<Rightarrow> Inl TypeError)"

definition highest :: "candle list \<Rightarrow> market_data option \<Rightarrow> xfun" where
  "highest = rolling (\<lambda>vs. Max (set vs))"

definition lowest :: "candle list \<Rightarrow> market_data option \<Rightarrow> xfun" where
  "lowest = rolling (\<lambda>vs. Min (set vs))"

section \<open>Built-in functions\<close>

fun max_loop :: "xval \<Rightarrow> xval list \<Rightarrow> xval result" where
  "max_loop m [] = Inr m"
| "max_loop m (x # xs) = res_bind (py_less m x) (\<lambda>b. max_loop (if b then x else m) xs)"

fun min_loop :: "xval \<Rightarrow> xval list \<Rightarrow> xval result" where
  "min_loop m [] = Inr m"
| "min_loop m (x # xs) = res_bind (py_less x m) (\<lambda>b. min_loop (if b then x else m) xs)"

fun elements :: "xval \<Rightarrow> xval list option" where
  "elements (XStr s) = Some (map (\<lambda>c. XStr [c]) s)"
| "elements (XCandles cs) = Some (map XCandle cs)"
| "elements _ = None"

text \<open>\<open>max\<close> and \<open>min\<close>: one argument is iterated over, several are compared.\<close>

definition extreme :: "(xval \<Rightarrow> xval list \<Rightarrow> xval result) \<Rightarrow> xfun" where
  "extreme loop args =
     (case args of
        [] \<Rightarrow> Inl TypeError
      | [v] \<Rightarrow> (case elements v of
                  None \<Rightarrow> Inl TypeError
                | Some [] \<Rightarrow> Inl ValueError
                | Some (x # xs) \<Rightarrow> loop x xs)
      | x # xs \<Rightarrow> loop x xs)"

fun py_sum :: "xval \<Rightarrow> xval list \<Rightarrow> xval result" where
  "py_sum acc [] = Inr acc"
| "py_sum acc (x # xs) = res_bind (py_add acc x) (\<lambda>a. py_sum a xs)"

definition py_avg :: xfun where
  "py_avg args =
     (if args = [] then Inr (XFloat 0)
      else res_bind (py_sum (XInt 0) args) (\<lambda>s. py_div s (XInt (int (length args)))))"

definition py_abs :: xfun where
  "py_abs args =
     (case args of
        [v] \<Rightarrow> (case as_int v of
                  Some i \<Rightarrow> Inr (XInt \<bar>i\<bar>)
                | None \<Rightarrow> (case v of XFloat r \<Rightarrow> Inr (XFloat \<bar>r\<bar>) | _ \<Rightarrow> Inl TypeError))
      | _ \<Rightarrow> Inl TypeError)"

definition clamp :: xfun where
  "clamp args =
     (case args of
        [val, min_v, max_v] \<Rightarrow> res_bind (min_loop val [max_v]) (\<lambda>m. max_loop min_v [m])
      | _ \<Rightarrow> Inl TypeError)"

definition round_half_even :: "rat \<Rightarrow> int" where
  "round_half_even x =
     (let f = \<lfloor>x\<rfloor>; r = x - of_int f
      in if r < 1/2 then f else if r > 1/2 then f + 1 else if even f then f else f + 1)"

definition round_digits :: "int \<Rightarrow> rat \<Rightarrow> rat" where
  "round_digits n x =
     (if n \<ge> 0 then of_int (round_half_even (x * 10 ^ nat n)) / 10 ^ nat n
      else of_int (round_half_even (x / 10 ^ nat (- n))) * 10 ^ nat (- n))"

definition round_to_int :: "xval \<Rightarrow> xval result" where
  "round_to_int v =
     (case as_int v of
        Some i \<Rightarrow> Inr (XInt i)
      | None \<Rightarrow> (case v of XFloat r \<Rightarrow> Inr (XInt (round_half_even r)) | _ \<Rightarrow> Inl TypeError))"

definition py_round :: xfun where
  "py_round args =
     (case args of
        [v] \<Rightarrow> round_to_int v
      | [v, n] \<Rightarrow>
          if n = XNone then round_to_int v
          else (case (as_int v, v, as_int n) of
                  (Some i, _, Some k) \<Rightarrow> Inr (XInt (if k \<ge> 0 then i else \<lfloor>round_digits k (of_int i)\<rfloor>))
                | (None, XFloat r, Some k) \<Rightarrow> Inr (XFloat (round_digits k r))
                | _ \<Rightarrow> Inl TypeError)
      | _ \<Rightarrow> Inl TypeError)"

section \<open>Indicators\<close>

text \<open>\<open>sma\<close> and \<open>ema\<close> take a period, or a series, which is ignored, and a period.\<close>

definition average_period :: "xval list \<Rightarrow> int result" where
  "average_period args =
     (if args = [] \<or> length args > 2 then Inl ValueError
      else case as_int (last args) of
             None \<Rightarrow> Inl ValueError
           | Some n \<Rightarrow> if n \<le> 0 then Inl ValueError else Inr n)"

definition sma :: "candle list \<Rightarrow> xfun" where
  "sma cs args =
     res_bind (average_period args) (\<lambda>n.
       Inr (XFloat (if cs = [] \<or> int (length cs) < n then 0
                    else sum_list (map cd_close (slice_from (- n) cs)) / of_int n)))"

definition ema :: "candle list \<Rightarrow> xfun" where
  "ema cs args =
     res_bind (average_period args) (\<lambda>n.
       Inr (XFloat (if cs = [] \<or> int (length cs) < n then 0
                    else let prices = map cd_close cs
                         in ema_loop (2 / (of_int n + 1)) (sum_list (take (nat n) prices) / of_int n)
                              (drop (nat n) prices))))"

fun deltas_of :: "rat list \<Rightarrow> rat list" where
  "deltas_of (p # q # ps) = (q - p) # deltas_of (q # ps)"
| "deltas_of _ = []"

definition rsi_value :: "candle list \<Rightarrow> int \<Rightarrow> xval result" where
  "rsi_value cs n =
     (let deltas = deltas_of (map cd_close (slice_from (- (n + 1)) cs));
          gains = filter (\<lambda>d. d > 0) deltas;
          losses = map uminus (filter (\<lambda>d. d < 0) deltas)
      in if n = 0 then Inl ZeroDivisionError
         else let avg_gain = sum_list gains / of_int n; avg_loss = sum_list losses / of_int n
              in if avg_loss = 0 then Inr (XFloat 100)
                 else Inr (XFloat (100 - 100 / (1 + avg_gain / avg_loss))))"

text \<open>A float period passes the comparison and fails at the slice.\<close>

definition rsi :: "candle list \<Rightarrow> xfun" where
  "rsi cs args =
     (case args of
        [n] \<Rightarrow>
          if cs = [] then Inr (XFloat 50)
          else (case as_number n of
                  None \<Rightarrow> Inl TypeError
                | Some q \<Rightarrow>
                    if of_nat (length cs) \<le> q then Inr (XFloat 50)
                    else (case as_int n of None \<Rightarrow> Inl TypeError | Some k \<Rightarrow> rsi_value cs k))
      | _ \<Rightarrow> Inl TypeError)"

fun true_ranges :: "candle list \<Rightarrow> rat list" where
  "true_ranges (p # c # cs) = true_range p c # true_ranges (c # cs)"
| "true_ranges _ = []"

definition atr :: "candle list \<Rightarrow> xfun" where
  "atr cs args =
     (case args of
        [n] \<Rightarrow>
          (case as_number n of
             None \<Rightarrow> Inl TypeError
           | Some q \<Rightarrow>
               if q \<le> 0 then Inl ValueError
               else if length cs \<le> 1 then Inr (XFloat 0)
               else (case as_int n of
                       None \<Rightarrow> Inl TypeError
                     | Some k \<Rightarrow> Inr (XFloat (mean (slice_from (- k) (true_ranges cs))))))
      | _ \<Rightarrow> Inl TypeError)"

section \<open>Functions of a context\<close>

definition default_detector :: regime_detector where
  "default_detector =
     \<lparr>dt_high_volatility = 3/100, dt_low_volatility = 5/1000, dt_trend = 5/1000,
      dt_illiquid_spread = 5/100, dt_period = 20, dt_min_data_points = 3, dt_enabled = True\<rparr>"

definition regime_value :: "market_regime \<Rightarrow> string" where
  "regime_value r =
     (case r of
        TRENDING_UP \<Rightarrow> ''TRENDING_UP'' | TRENDING_DOWN \<Rightarrow> ''TRENDING_DOWN'' | RANGING \<Rightarrow> ''RANGING''
      | HIGH_VOLATILITY \<Rightarrow> ''HIGH_VOLATILITY'' | LOW_VOLATILITY \<Rightarrow> ''LOW_VOLATILITY''
      | ILLIQUID \<Rightarrow> ''ILLIQUID'' | NORMAL \<Rightarrow> ''NORMAL'' | EXTREME \<Rightarrow> ''EXTREME''
      | REGIME_UNKNOWN \<Rightarrow> ''UNKNOWN'')"

type_synonym odd_calls = "string \<Rightarrow> xfun"

definition with_period :: "odd_calls \<Rightarrow> string \<Rightarrow> (nat \<Rightarrow> xval) \<Rightarrow> xfun" where
  "with_period oddc name f args =
     (case args of
        [] \<Rightarrow> Inr (f 20)
      | [v] \<Rightarrow> (case as_int v of Some n \<Rightarrow> Inr (f (nat n)) | None \<Rightarrow> oddc name args)
      | _ \<Rightarrow> Inl TypeError)"

definition build_functions ::
  "odd_calls \<Rightarrow> candle list \<Rightarrow> market_data \<Rightarrow> (string, xfun) dict" where
  "build_functions oddc cs md =
     [(''max'', extreme max_loop), (''min'', extreme min_loop), (''avg'', py_avg), (''abs'', py_abs),
      (''clamp'', clamp), (''round'', py_round), (''sma'', sma cs), (''ema'', ema cs), (''rsi'', rsi cs),
      (''atr'', atr cs), (''highest'', highest cs (Some md)), (''lowest'', lowest cs (Some md)),
      (''regime'', with_period oddc ''regime''
         (\<lambda>n. XStr (regime_value (rm_regime (detect default_detector cs (Some md) (Some n)))))),
      (''volatility'', with_period oddc ''volatility''
         (\<lambda>n. XFloat (regime_volatility cs (md_close_price md) n))),
      (''trend_strength'', with_period oddc ''trend_strength''
         (\<lambda>n. XFloat (calculate_trend_strength cs n))),
      (''liquidity'', \<lambda>args. if length args \<le> 1 then Inr (XFloat (calculate_liquidity (Some md)))
                             else Inl TypeError),
      (''spread'', \<lambda>args. if args = [] then Inr (XFloat (calculate_spread (Some md) (md_close_price md)))
                          else Inl TypeError)]"

section \<open>Variables of a context\<close>

definition market_variables :: "market_data \<Rightarrow> (string, xval) dict" where
  "market_variables md =
     (let close = md_close_price md; range = md_high_price md - md_low_price md
      in [(''close'', XFloat close), (''high'', XFloat (md_high_price md)),
          (''low'', XFloat (md_low_price md)), (''volume'', XFloat (md_volume md)),
          (''range'', XFloat range), (''range_pct'', XFloat (if close > 0 then range / close else 0))])"

definition regime_variables :: "candle list \<Rightarrow> market_data \<Rightarrow> (string, xval) dict" where
  "regime_variables cs md =
     (let m = detect default_detector cs (Some md) None
      in [(''regime'', XStr (regime_value (rm_regime m))),
          (''regime_multiplier'', XFloat (get_exposure_multiplier (rm_regime m))),
          (''volatility'', XFloat (rm_volatility m)), (''trend_strength'', XFloat (rm_trend_strength m)),
          (''liquidity'', XFloat (rm_liquidity m)), (''spread'', XFloat (rm_spread m)),
          (''NORMAL'', XStr ''NORMAL''), (''EXTREME'', XStr ''EXTREME''),
          (''TRENDING_UP'', XStr ''TRENDING_UP''), (''TRENDING_DOWN'', XStr ''TRENDING_DOWN''),
          (''RANGING'', XStr ''RANGING''), (''HIGH_VOLATILITY'', XStr ''HIGH_VOLATILITY''),
          (''LOW_VOLATILITY'', XStr ''LOW_VOLATILITY''), (''ILLIQUID'', XStr ''ILLIQUID''),
          (''UNKNOWN'', XStr ''UNKNOWN'')])"

definition portfolio_variables ::
  "risk_metrics option \<Rightarrow> effective_config option \<Rightarrow> (string, xval) dict" where
  "portfolio_variables rk cfg =
     (let metric = (\<lambda>f. XFloat (case rk of None \<Rightarrow> 0 | Some m \<Rightarrow> f m));
          limit = (\<lambda>f d. XFloat (opt_or (Option.bind cfg f) d))
      in [(''portfolio_equity'', metric rk_total_equity), (''portfolio_cash'', metric rk_total_cash),
          (''portfolio_available_cash'', metric rk_available_cash),
          (''portfolio_reserved_cash'', metric rk_reserved_cash),
          (''portfolio_invested_notional'', metric rk_invested_notional),
          (''portfolio_exposure'', metric rk_total_exposure_pct),
          (''portfolio_drawdown'', metric rk_drawdown_pct),
          (''portfolio_open_positions'', XInt (case rk of None \<Rightarrow> 0 | Some m \<Rightarrow> int (rk_open_position_count m))),
          (''max_exposure'', limit effective_max_total (80/100)),
          (''max_asset_exposure'', limit effective_max_per_asset (25/100)),
          (''max_quote_exposure'', limit (\<lambda>c. xc_max_per_quote (ec_exposure c)) (50/100)),
          (''min_quote_reserve'', limit (\<lambda>c. Some (gp_min_quote_reserve (ec_guard c))) (10/100))])"

definition consensus_variables :: "consensus_decision option \<Rightarrow> (string, xval) dict" where
  "consensus_variables decision =
     (let value = (\<lambda>f. XFloat (case decision of None \<Rightarrow> 0 | Some d \<Rightarrow> f d))
      in [(''signal'', XInt (case decision of None \<Rightarrow> 0 | Some d \<Rightarrow> if dn_trade_action d = BUY then 1 else -1)),
          (''confidence'', value vote_ratio), (''vote_ratio'', value vote_ratio),
          (''weighted_vote_ratio'', value weighted_vote_ratio),
          (''quorum_threshold'', value quorum_threshold), (''quorum_margin'', value quorum_margin)])"

definition position_variables :: "trading_context \<Rightarrow> rat \<Rightarrow> (string, xval) dict" where
  "position_variables ctx close =
     (let qty = tc_position_qty ctx; entry = tc_avg_entry_price ctx
      in [(''position_qty'', XFloat qty), (''avg_entry'', XFloat entry),
          (''pnl'', XFloat (if qty > 0 then (close - entry) * qty else 0)),
          (''exit_qty'', XFloat (tc_exit_qty ctx)), (''avg_exit_price'', XFloat (tc_avg_exit_price ctx)),
          (''realized_pnl'', XFloat (tc_realized_pnl ctx))])"

text \<open>The groups have no name in common, so merging them is concatenation.\<close>

definition create_context ::
  "odd_calls \<Rightarrow> (xval \<Rightarrow> string) \<Rightarrow> decimal \<Rightarrow> int \<Rightarrow> market_data \<Rightarrow> decimal \<Rightarrow> trading_context \<Rightarrow>
     consensus_decision option \<Rightarrow> candle list \<Rightarrow> risk_metrics option \<Rightarrow> effective_config option \<Rightarrow>
     formula_context" where
  "create_context oddc str min_quantity quote_decimals md balance ctx decision cs rk cfg =
     \<lparr>cx_variables =
        market_variables md @ regime_variables cs md @ portfolio_variables rk cfg
        @ [(''balance'', XFloat balance),
           (''equity'', XFloat (balance + tc_position_qty ctx * md_close_price md)),
           (''risk_pct'', XFloat (1/100))]
        @ consensus_variables decision @ position_variables ctx (md_close_price md)
        @ [(''min_qty'', XFloat min_quantity), (''decimals'', XInt quote_decimals), (''candles'', XCandles cs)],
      cx_functions = build_functions oddc cs md, cx_str = str\<rparr>"

definition create_strategy_context ::
  "odd_calls \<Rightarrow> (xval \<Rightarrow> string) \<Rightarrow> trading_context \<Rightarrow> market_data \<Rightarrow> candle list \<Rightarrow> formula_context" where
  "create_strategy_context oddc str ctx md cs =
     \<lparr>cx_variables = market_variables md @ regime_variables cs md
        @ position_variables ctx (md_close_price md) @ [(''candles'', XCandles cs)],
      cx_functions = build_functions oddc cs md, cx_str = str\<rparr>"

section \<open>Catalog\<close>

datatype expression_scope =
  DYNAMIC_QUANTITY | ENTRY_CONDITION | EXIT_CONDITION | GUARD_CONDITION | GENERAL_CALCULATION

definition all_scopes :: "expression_scope list" where
  "all_scopes = [DYNAMIC_QUANTITY, ENTRY_CONDITION, EXIT_CONDITION, GUARD_CONDITION, GENERAL_CALCULATION]"

definition catalog_functions :: "(string \<times> value_type) list" where
  "catalog_functions =
     [(''rsi'', NUMBER), (''sma'', NUMBER), (''ema'', NUMBER), (''atr'', NUMBER), (''highest'', NUMBER),
      (''lowest'', NUMBER), (''max'', NUMBER), (''min'', NUMBER), (''avg'', NUMBER), (''abs'', NUMBER),
      (''clamp'', NUMBER), (''round'', NUMBER), (''regime'', STRING), (''volatility'', NUMBER),
      (''trend_strength'', NUMBER), (''liquidity'', NUMBER), (''spread'', NUMBER)]"

definition catalog_variables :: "(string \<times> value_type \<times> expression_scope list) list" where
  "catalog_variables =
     (let signal_scopes = [DYNAMIC_QUANTITY, GUARD_CONDITION, GENERAL_CALCULATION]
      in [(''close'', NUMBER, all_scopes), (''high'', NUMBER, all_scopes), (''low'', NUMBER, all_scopes),
          (''volume'', NUMBER, all_scopes), (''range'', NUMBER, all_scopes), (''range_pct'', NUMBER, all_scopes),
          (''balance'', NUMBER, all_scopes), (''equity'', NUMBER, all_scopes), (''risk_pct'', NUMBER, all_scopes),
          (''position_qty'', NUMBER, all_scopes), (''avg_entry'', NUMBER, all_scopes),
          (''pnl'', NUMBER, all_scopes), (''realized_pnl'', NUMBER, all_scopes),
          (''signal'', NUMBER, signal_scopes), (''confidence'', NUMBER, signal_scopes),
          (''vote_ratio'', NUMBER, signal_scopes),
          (''min_qty'', NUMBER, all_scopes), (''decimals'', NUMBER, all_scopes),
          (''regime'', STRING, all_scopes), (''volatility'', NUMBER, all_scopes),
          (''trend_strength'', NUMBER, all_scopes), (''liquidity'', NUMBER, all_scopes),
          (''spread'', NUMBER, all_scopes), (''TRENDING_UP'', STRING, all_scopes),
          (''TRENDING_DOWN'', STRING, all_scopes), (''RANGING'', STRING, all_scopes),
          (''HIGH_VOLATILITY'', STRING, all_scopes), (''LOW_VOLATILITY'', STRING, all_scopes),
          (''ILLIQUID'', STRING, all_scopes), (''UNKNOWN'', STRING, all_scopes)])"

definition scope_variables :: "expression_scope \<Rightarrow> (string \<times> value_type) list" where
  "scope_variables scope =
     map (\<lambda>(x, ty, _). (x, ty)) (filter (\<lambda>(x, ty, scopes). scope \<in> set scopes) catalog_variables)"

definition service_validate :: "py_parser \<Rightarrow> expression_scope \<Rightarrow> string \<Rightarrow> validation_response" where
  "service_validate parse scope expression =
     inspect_semantics parse (Some (map fst (scope_variables scope))) (Some (map fst catalog_functions)) expression"

section \<open>Uses\<close>

text \<open>
  \<open>Decimal(str(result))\<close> of a sizing formula; text that is no number, truth values and lists raise.
  \<open>decimal_of\<close> reads a decimal numeral.
\<close>

fun as_quantity :: "(string \<Rightarrow> decimal option) \<Rightarrow> xval \<Rightarrow> decimal option result" where
  "as_quantity decimal_of XNone = Inr None"
| "as_quantity decimal_of (XInt i) = Inr (Some (of_int i))"
| "as_quantity decimal_of (XFloat r) = Inr (Some r)"
| "as_quantity decimal_of (XStr s) =
     (case decimal_of s of None \<Rightarrow> Inl ValueError | Some q \<Rightarrow> Inr (Some q))"
| "as_quantity decimal_of _ = Inl ValueError"

definition formula_valid :: "py_parser \<Rightarrow> string \<Rightarrow> bool" where
  "formula_valid parse f \<longleftrightarrow> validate parse f = Inr ()"

definition evaluate_formula :: "py_parser \<Rightarrow> string \<Rightarrow> formula_context \<Rightarrow> xval result" where
  "evaluate_formula parse f cx = res_bind (new_parser parse f) (\<lambda>tree. parse_formula tree cx)"

text \<open>The vote of an expression strategy, with \<open>float(None.close_price)\<close> where there is no market data.\<close>

definition expression_vote :: "py_parser \<Rightarrow> odd_calls \<Rightarrow> (xval \<Rightarrow> string) \<Rightarrow> expr_oracle" where
  "expression_vote parse oddc str f ctx md cs =
     (case md of
        None \<Rightarrow> Inl AttributeError
      | Some m \<Rightarrow>
          res_bind (evaluate_formula parse f (create_strategy_context oddc str ctx m cs))
            (\<lambda>v. Inr (py_truth v)))"

section \<open>Windows over closed candles\<close>

lemma round_half_even_bounds:
  assumes "of_int a \<le> x" "x \<le> of_int b"
  shows "a \<le> round_half_even x" "round_half_even x \<le> b"
proof -
  have fl: "a \<le> \<lfloor>x\<rfloor>" "\<lfloor>x\<rfloor> \<le> b" using assms by (simp_all add: le_floor_iff floor_le_iff)
  then show "a \<le> round_half_even x" by (auto simp: round_half_even_def Let_def)
  show "round_half_even x \<le> b"
  proof (cases "\<lfloor>x\<rfloor> = b")
    case True
    then have "x = of_int b" using assms(2) of_int_floor_le [of x] by simp
    then show ?thesis by (simp add: round_half_even_def)
  next
    case False
    with fl show ?thesis by (auto simp: round_half_even_def Let_def)
  qed
qed

lemma slice_from_neg: "0 < n \<Longrightarrow> slice_from (- n) xs = drop (length xs - nat n) xs"
  by (auto simp: slice_from_def max_def nat_diff_distrib' intro!: arg_cong [of _ _ "\<lambda>k. drop k xs"])

lemma rolling_series_known: "s \<in> set VALID_ROLLING_SERIES \<longleftrightarrow> (\<exists>f. dict_get SERIES_EXTRACTORS s = Some f)"
  by (auto simp: VALID_ROLLING_SERIES_def SERIES_EXTRACTORS_def)

lemma resolve_window:
  assumes "dict_get SERIES_EXTRACTORS s = Some f" "0 < n"
  shows "resolve_window_values cs md (XStr s) (XInt n) =
    Inr (if int (length (prior_candles cs md)) < n then None
         else Some (map f (drop (length (prior_candles cs md) - nat n) (prior_candles cs md))))"
  using assms by (simp add: resolve_window_values_def Let_def slice_from_neg)

text \<open>Where the validator accepts a call of \<open>highest\<close> or \<open>lowest\<close> with a constant period, the call
  never fails: it yields no value when there are fewer closed candles than the period, and else the
  greatest or least value of the series over the last candles of that number, not counting the
  candle still open.\<close>

theorem rolling_windows_exact:
  assumes "validate_node (Call (Name ''highest'') [a, Constant v] 0) = Inr ()"
  shows "\<exists>s n f. extract_series_name a = Some s \<and> v = XInt n \<and> dict_get SERIES_EXTRACTORS s = Some f \<and>
    (let w = prior_candles cs md
     in if int (length w) < n
        then highest cs md [XStr s, v] = Inr XNone \<and> lowest cs md [XStr s, v] = Inr XNone
        else let win = drop (length w - nat n) w
             in length win = nat n \<and>
                (\<exists>hi\<in>set win. \<exists>lo\<in>set win. highest cs md [XStr s, v] = Inr (XFloat (f hi)) \<and>
                   lowest cs md [XStr s, v] = Inr (XFloat (f lo)) \<and>
                   list_all (\<lambda>c. f lo \<le> f c \<and> f c \<le> f hi) win))"
proof -
  obtain s n where s: "extract_series_name a = Some s" "s \<in> set VALID_ROLLING_SERIES" and v: "v = XInt n" "0 < n"
    using assms by (cases v) (auto simp: is_rolling_def valid_series_def split: option.splits if_splits)
  then obtain f where f: "dict_get SERIES_EXTRACTORS s = Some f" using rolling_series_known by blast
  note win = resolve_window [OF f v(2), of cs md]
  define w where "w = prior_candles cs md"
  define ws where "ws = drop (length w - nat n) w"
  show ?thesis
  proof (cases "int (length w) < n")
    case True
    then show ?thesis
      using s v f win by (auto simp: highest_def lowest_def rolling_def w_def)
  next
    case False
    then have len: "length ws = nat n" by (simp add: ws_def)
    then have ne: "f ` set ws \<noteq> {}" "finite (f ` set ws)" using v(2) by auto
    obtain hi where hi: "hi \<in> set ws" "f hi = Max (f ` set ws)" using Max_in [OF ne(2,1)] by auto
    obtain lo where lo: "lo \<in> set ws" "f lo = Min (f ` set ws)" using Min_in [OF ne(2,1)] by auto
    have r: "resolve_window_values cs md (XStr s) (XInt n) = Inr (Some (map f ws))"
      using win False by (simp add: w_def ws_def)
    have "highest cs md [XStr s, v] = Inr (XFloat (f hi))" "lowest cs md [XStr s, v] = Inr (XFloat (f lo))"
      using r v hi lo by (simp_all add: highest_def lowest_def rolling_def)
    moreover have "list_all (\<lambda>c. f lo \<le> f c \<and> f c \<le> f hi) ws"
      using hi lo by (auto simp: list_all_iff)
    ultimately have "length ws = nat n \<and> (\<exists>hi\<in>set ws. \<exists>lo\<in>set ws. highest cs md [XStr s, v] = Inr (XFloat (f hi)) \<and>
        lowest cs md [XStr s, v] = Inr (XFloat (f lo)) \<and> list_all (\<lambda>c. f lo \<le> f c \<and> f c \<le> f hi) ws)"
      using len hi(1) lo(1) by blast
    then show ?thesis
      using s(1) v(1) f False unfolding Let_def w_def [symmetric] ws_def
      by (intro exI [of _ s] exI [of _ n] exI [of _ f] conjI) (simp_all only: if_False)
  qed
qed

section \<open>Indicator bounds\<close>

lemma sum_nonneg_list: "(\<And>x. x \<in> set xs \<Longrightarrow> 0 \<le> (x::rat)) \<Longrightarrow> 0 \<le> sum_list xs"
  by (induction xs) auto

lemma slice_subset: "set (slice_from i xs) \<subseteq> set xs"
  by (auto simp: slice_from_def dest: in_set_dropD)

lemma sma_bounds:
  assumes "\<forall>c\<in>set cs. a \<le> cd_close c \<and> cd_close c \<le> b" "0 < n" "n \<le> int (length cs)"
  shows "\<exists>x. sma cs [XInt n] = Inr (XFloat x) \<and> a \<le> x \<and> x \<le> b"
proof -
  let ?w = "map cd_close (slice_from (- n) cs)"
  have len: "int (length ?w) = n" using assms(2,3) by (simp add: slice_from_neg)
  then have "?w \<noteq> []" using assms(2) by auto
  moreover have "\<forall>x\<in>set ?w. a \<le> x \<and> x \<le> b" using assms(1) slice_subset [of "- n" cs] by auto
  ultimately have "a \<le> mean ?w" "mean ?w \<le> b" using mean_bounds by blast+
  moreover have "of_nat (length ?w) = (of_int n :: rat)" using len by (metis of_int_of_nat_eq)
  then have "sma cs [XInt n] = Inr (XFloat (mean ?w))"
    using assms(2,3) by (auto simp: sma_def average_period_def mean_def)
  ultimately show ?thesis by blast
qed

lemma ema_bounds:
  assumes "\<forall>c\<in>set cs. a \<le> cd_close c \<and> cd_close c \<le> b" "0 < n" "n \<le> int (length cs)"
  shows "\<exists>x. ema cs [XInt n] = Inr (XFloat x) \<and> a \<le> x \<and> x \<le> b"
proof -
  let ?p = "map cd_close cs" and ?k = "nat n"
  have "ema cs [XInt n] = Inr (XFloat (calculate_ema_value ?p ?k))"
  proof (cases "?k = length cs")
    case True
    then have "drop ?k ?p = []" "take ?k ?p = ?p" "of_nat (length ?p) = (of_int n :: rat)"
      using assms(2) by (simp_all flip: True)
    then show ?thesis
      using assms(2,3) True by (auto simp: ema_def average_period_def calculate_ema_value_def mean_def)
  next
    case False
    then show ?thesis
      using assms(2,3) by (auto simp: ema_def average_period_def calculate_ema_value_def Let_def)
  qed
  moreover have "a \<le> calculate_ema_value ?p ?k \<and> calculate_ema_value ?p ?k \<le> b"
    using assms by (intro calculate_ema_bounds) auto
  ultimately show ?thesis by blast
qed

lemma div_by_large: "1 \<le> x \<Longrightarrow> 0 \<le> 100 / x \<and> 100 / x \<le> (100::rat)"
  by (simp add: divide_le_eq)

lemma rsi_bounds:
  assumes "0 < n" "n < int (length cs)"
  shows "\<exists>x. rsi cs [XInt n] = Inr (XFloat x) \<and> 0 \<le> x \<and> x \<le> 100"
proof -
  let ?d = "deltas_of (map cd_close (slice_from (- (n + 1)) cs))"
  let ?g = "sum_list (filter (\<lambda>d. d > 0) ?d) / of_int n" and ?l = "sum_list (map uminus (filter (\<lambda>d. d < 0) ?d)) / of_int n"
  have g: "0 \<le> ?g" and l: "0 \<le> ?l"
    using assms(1) by (auto intro!: divide_nonneg_pos sum_nonneg_list)
  have "rsi cs [XInt n] = rsi_value cs n" using assms by (auto simp: rsi_def)
  also have "\<dots> = (if ?l = 0 then Inr (XFloat 100) else Inr (XFloat (100 - 100 / (1 + ?g / ?l))))"
    using assms(1) by (simp add: rsi_value_def Let_def)
  finally have r: "rsi cs [XInt n] = (if ?l = 0 then Inr (XFloat 100) else Inr (XFloat (100 - 100 / (1 + ?g / ?l))))" .
  show ?thesis
  proof (cases "?l = 0")
    case False
    have "0 \<le> ?g / ?l" by (rule divide_nonneg_nonneg [OF g l])
    then have q: "1 \<le> 1 + ?g / ?l" by (simp only: le_add_same_cancel1)
    then have "0 \<le> 100 / (1 + ?g / ?l)" "100 / (1 + ?g / ?l) \<le> 100"
      using div_by_large [OF q] by blast+
    then show ?thesis using r False by simp
  qed (use r in simp)
qed

lemma true_range_nonneg: "0 \<le> true_range p c"
  by (simp add: true_range_def le_max_iff_disj)

lemma true_ranges_nonneg: "r \<in> set (true_ranges cs) \<Longrightarrow> 0 \<le> r"
  by (induction cs rule: true_ranges.induct) (auto simp: true_range_nonneg)

lemma atr_bounds:
  assumes "0 < n"
  shows "\<exists>x. atr cs [XInt n] = Inr (XFloat x) \<and> 0 \<le> x"
proof (cases "length cs \<le> 1")
  case False
  have "0 \<le> mean (slice_from (- n) (true_ranges cs))"
    unfolding mean_def using slice_subset [of "- n" "true_ranges cs"] true_ranges_nonneg
    by (intro divide_nonneg_nonneg sum_nonneg_list) auto
  with False assms show ?thesis by (simp add: atr_def)
qed (use assms in \<open>simp add: atr_def\<close>)

text \<open>With at least as many candles as the period, the simple and the exponential moving average
  lie between the lowest and the highest close, the relative strength index between 0 and 100, and
  the average true range is not negative; none of them fails.\<close>

theorem indicators_bounded:
  assumes "\<forall>c\<in>set cs. a \<le> cd_close c \<and> cd_close c \<le> b" and "0 < n" and "n < int (length cs)"
  shows "\<exists>s e r t. sma cs [XInt n] = Inr (XFloat s) \<and> ema cs [XInt n] = Inr (XFloat e) \<and>
    rsi cs [XInt n] = Inr (XFloat r) \<and> atr cs [XInt n] = Inr (XFloat t) \<and>
    a \<le> s \<and> s \<le> b \<and> a \<le> e \<and> e \<le> b \<and> 0 \<le> r \<and> r \<le> 100 \<and> 0 \<le> t"
proof -
  have n: "n \<le> int (length cs)" using assms(3) by simp
  obtain s where 1: "sma cs [XInt n] = Inr (XFloat s)" "a \<le> s" "s \<le> b" using sma_bounds [OF assms(1,2) n] by blast
  obtain e where 2: "ema cs [XInt n] = Inr (XFloat e)" "a \<le> e" "e \<le> b" using ema_bounds [OF assms(1,2) n] by blast
  obtain r where 3: "rsi cs [XInt n] = Inr (XFloat r)" "0 \<le> r" "r \<le> 100" using rsi_bounds [OF assms(2,3)] by blast
  obtain t where 4: "atr cs [XInt n] = Inr (XFloat t)" "0 \<le> t" using atr_bounds [OF assms(2)] by blast
  show ?thesis
    by (rule exI [of _ s], rule exI [of _ e], rule exI [of _ r], rule exI [of _ t]) (intro conjI 1 2 3 4)
qed

section \<open>Catalog and contexts\<close>

definition defined_as :: "(string, xval) dict \<Rightarrow> string \<times> value_type \<Rightarrow> bool" where
  "defined_as vars = (\<lambda>(x, ty). case dict_get vars x of None \<Rightarrow> False | Some v \<Rightarrow> has_type ty v)"

lemma sizing_variables:
  "list_all (defined_as (cx_variables (create_context oddc str mq qd md bal ctx d cs rk cfg)))
     (scope_variables DYNAMIC_QUANTITY)"
  by code_simp

text \<open>Catalog and contexts agree for sizing formulas: every catalogued function exists, and every
  variable catalogued for the scope of sizing formulas is defined with a value of its catalogued
  type.  For entry conditions five catalogued variables are missing from the context in which
  strategies are evaluated.\<close>

theorem catalog_matches_contexts:
  "list_all (\<lambda>f. dict_get (build_functions oddc cs md) f \<noteq> None) (map fst catalog_functions) \<and>
   list_all (defined_as (cx_variables (create_context oddc str mq qd md bal ctx d cs rk cfg)))
     (scope_variables DYNAMIC_QUANTITY) \<and>
   filter (\<lambda>x. dict_get (cx_variables (create_strategy_context oddc str ctx md cs)) x = None)
     (map fst (scope_variables ENTRY_CONDITION)) = [''balance'', ''equity'', ''risk_pct'', ''min_qty'', ''decimals'']"
proof (intro conjI)
  show "list_all (\<lambda>f. dict_get (build_functions oddc cs md) f \<noteq> None) (map fst catalog_functions)"
    by code_simp
  show "filter (\<lambda>x. dict_get (cx_variables (create_strategy_context oddc str ctx md cs)) x = None)
     (map fst (scope_variables ENTRY_CONDITION)) = [''balance'', ''equity'', ''risk_pct'', ''min_qty'', ''decimals'']"
    by code_simp
qed (rule sizing_variables)

text \<open>An entry condition on \<open>equity\<close> passes the validation offered to editors, but a strategy with
  that condition raises an error on every evaluation with market data.\<close>

theorem accepted_entry_condition_fails:
  assumes "parse ''equity > 100'' = Some (Compare (Name ''equity'') [Gt] [Constant (XInt 100)])"
  shows "vr_is_valid (service_validate parse ENTRY_CONDITION ''equity > 100'') \<and>
    expression_vote parse oddc str ''equity > 100'' ctx (Some md) cs = Inl ValueError"
proof -
  have s: "strip ''equity > 100'' = ''equity > 100''" by code_simp
  have v: "in_diagnostics (collect (Some (map fst (scope_variables ENTRY_CONDITION))) (Some (map fst catalog_functions))
      (Compare (Name ''equity'') [Gt] [Constant (XInt 100)]) \<lparr>in_diagnostics = [], in_variables = [], in_functions = []\<rparr>) = []"
    by code_simp
  have "dict_get (cx_variables (create_strategy_context oddc str ctx md cs)) ''equity'' = None" by code_simp
  then show ?thesis
    using assms s v
    by (simp add: service_validate_def inspect_semantics_def Let_def expression_vote_def evaluate_formula_def
        new_parser_def validate_def MAX_FORMULA_LENGTH_def parse_formula_def resolve_variable_def check_def)
qed

definition demo_equity_parse :: py_parser where
  "demo_equity_parse e = Some (Compare (Name ''equity'') [Gt] [Constant (XInt 100)])"

definition demo_bar_at :: "timestamp \<Rightarrow> decimal \<Rightarrow> candle" where
  "demo_bar_at t p = \<lparr>cd_open = p, cd_low = p - 1, cd_high = p + 1, cd_close = p, cd_start_time = t, cd_volume = 1\<rparr>"

definition demo_ticker :: market_data where
  "demo_ticker = \<lparr>md_volume = 1, md_high_price = 10, md_low_price = 10, md_close_price = 10, md_timestamp = 5,
     md_bid_price = None, md_ask_price = None\<rparr>"

theorem accepted_entry_condition_fails_witness:
  "expression_vote demo_equity_parse (\<lambda>_ _. Inl TypeError) (\<lambda>_. []) ''equity > 100''
     (new_context ''BTC_USD'' ''CDC'' 100 None) (Some demo_ticker) [] = Inl ValueError"
proof -
  have "demo_equity_parse ''equity > 100'' = Some (Compare (Name ''equity'') [Gt] [Constant (XInt 100)])"
    by (simp add: demo_equity_parse_def)
  then show ?thesis
    using accepted_entry_condition_fails [of demo_equity_parse "\<lambda>_ _. Inl TypeError" "\<lambda>_. []"] by blast
qed

theorem rolling_windows_exact_witness:
  "\<exists>s n f. extract_series_name (Name ''high'') = Some s \<and> XInt 2 = XInt n \<and> dict_get SERIES_EXTRACTORS s = Some f \<and>
     highest [demo_bar_at 1 7, demo_bar_at 2 9, demo_bar_at 3 8] None [XStr s, XInt 2] = Inr (XFloat 10) \<and>
     length (drop 1 [demo_bar_at 1 7, demo_bar_at 2 9, demo_bar_at 3 8]) = nat n"
proof -
  have v: "validate_node (Call (Name ''highest'') [Name ''high'', Constant (XInt 2)] 0) = Inr ()" by code_simp
  have h: "highest [demo_bar_at 1 7, demo_bar_at 2 9, demo_bar_at 3 8] None [XStr ''high'', XInt 2] = Inr (XFloat 10)"
    by code_simp
  from rolling_windows_exact [OF v, of "[demo_bar_at 1 7, demo_bar_at 2 9, demo_bar_at 3 8]" None] h
  show ?thesis by auto
qed

theorem indicators_bounded_witness:
  "\<exists>s e r t. sma [demo_bar_at 1 7, demo_bar_at 2 9, demo_bar_at 3 8] [XInt 2] = Inr (XFloat s) \<and>
     ema [demo_bar_at 1 7, demo_bar_at 2 9, demo_bar_at 3 8] [XInt 2] = Inr (XFloat e) \<and>
     rsi [demo_bar_at 1 7, demo_bar_at 2 9, demo_bar_at 3 8] [XInt 2] = Inr (XFloat r) \<and>
     atr [demo_bar_at 1 7, demo_bar_at 2 9, demo_bar_at 3 8] [XInt 2] = Inr (XFloat t) \<and>
     7 \<le> s \<and> s \<le> 9 \<and> 7 \<le> e \<and> e \<le> 9 \<and> 0 \<le> r \<and> r \<le> 100 \<and> 0 \<le> t"
  by (rule indicators_bounded) (simp_all add: demo_bar_at_def)

end
