(* ===== verification/Markets.thy ===== *)
theory Markets
  imports Domain "HOL-Library.Multiset"
begin

text \<open>
  Market data and candles (\<open>src/src/trading/markets/market_data_manager.py\<close>) and the activity
  times derived from events (\<open>src/src/trading/activity/asset_activity_tracker.py\<close>).

  The manager is keyed by the asset's key.  The answer of a REST call is an argument of the
  operation that would make the call; it is used only when the code makes it.  The web-socket
  manager is represented by the calls it receives, its callbacks by the two update operations.
\<close>

section \<open>Market data manager\<close>

record market_asset = asset +
  ma_candles_timeframe :: string

record market_data_manager =
  mm_has_event_bus :: bool
  mm_assets :: "market_asset list"
  mm_market_data :: "(int, market_data option) dict"
  mm_candles :: "(int, candle list) dict"
  mm_ticker_symbols :: "(int, string) dict"

datatype market_event = MarketDataEvent string market_data

definition MAX_CANDLES :: nat where
  "MAX_CANDLES = 300"

definition new_market_manager :: "bool \<Rightarrow> market_data_manager" where
  "new_market_manager has_bus =
     \<lparr>mm_has_event_bus = has_bus, mm_assets = [], mm_market_data = [], mm_candles = [],
      mm_ticker_symbols = []\<rparr>"

text \<open>\<open>self._market_data.get(key)\<close>, \<open>None\<close> for a missing key and for a stored \<open>None\<close>.\<close>

definition stored_market_data :: "market_data_manager \<Rightarrow> int \<Rightarrow> market_data option" where
  "stored_market_data mm key = Option.bind (dict_get (mm_market_data mm) key) id"

definition stored_candles :: "market_data_manager \<Rightarrow> int \<Rightarrow> candle list" where
  "stored_candles mm key = opt_or (dict_get (mm_candles mm) key) []"

definition get_last_price :: "market_data_manager \<Rightarrow> string \<Rightarrow> decimal option" where
  "get_last_price mm ticker =
     map_option md_close_price
       (Option.bind
          (find (\<lambda>(key, sym). sym = ticker \<and> stored_market_data mm key \<noteq> None) (mm_ticker_symbols mm))
          (\<lambda>(key, sym). stored_market_data mm key))"

definition store_market_data ::
  "int \<Rightarrow> market_data \<Rightarrow> market_data_manager \<Rightarrow> market_data_manager \<times> market_event list" where
  "store_market_data key new mm =
     (let is_newer = (case stored_market_data mm key of
                        None \<Rightarrow> True
                      | Some old \<Rightarrow> md_timestamp old < md_timestamp new)
      in (if is_newer then mm\<lparr>mm_market_data := dict_set key (Some new) (mm_market_data mm)\<rparr> else mm,
          case dict_get (mm_ticker_symbols mm) key of
            Some ticker \<Rightarrow> if is_newer \<and> mm_has_event_bus mm \<and> ticker \<noteq> []
                           then [MarketDataEvent ticker new] else []
          | None \<Rightarrow> []))"

definition get_market_data ::
  "market_data result \<Rightarrow> int \<Rightarrow> market_data_manager \<Rightarrow>
     market_data_manager \<times> market_event list \<times> market_data option result" where
  "get_market_data rest key mm =
     (case stored_market_data mm key of
        Some md \<Rightarrow> (mm, [], Inr (Some md))
      | None \<Rightarrow>
          (case rest of
             Inl e \<Rightarrow> (mm, [], Inl e)
           | Inr new \<Rightarrow>
               (let (mm', es) = store_market_data key new mm
                in (mm', es, Inr (stored_market_data mm' key)))))"

text \<open>\<open>extend\<close>, the stable sort by \<open>start_time\<close>, and deletion of the oldest excess.\<close>

definition last_n :: "nat \<Rightarrow> 'a list \<Rightarrow> 'a list" where
  "last_n n xs = drop (length xs - n) xs"

definition update_candles :: "int \<Rightarrow> candle list \<Rightarrow> market_data_manager \<Rightarrow> market_data_manager" where
  "update_candles key new mm =
     (let merged = sort_key cd_start_time (stored_candles mm key @ new)
      in mm\<lparr>mm_candles := dict_set key
             (if length merged > MAX_CANDLES then drop (length merged - MAX_CANDLES) merged else merged)
             (mm_candles mm)\<rparr>)"

definition get_candles ::
  "candle list result \<Rightarrow> int \<Rightarrow> market_data_manager \<Rightarrow> market_data_manager \<times> candle list result" where
  "get_candles rest key mm =
     (if length (stored_candles mm key) > 0 then (mm, Inr (stored_candles mm key))
      else case rest of
             Inl e \<Rightarrow> (mm, Inl e)
           | Inr new \<Rightarrow> (let mm' = update_candles key new mm in (mm', Inr (stored_candles mm' key))))"

datatype ws_call =
    SubscribeMarketData string string
  | SubscribeCandles string string string
  | UnsubscribeMarketData string string
  | UnsubscribeCandles string string string

definition initialize_asset ::
  "(string \<Rightarrow> int) \<Rightarrow> candle list result \<Rightarrow> market_asset \<Rightarrow> market_data_manager \<Rightarrow>
     market_data_manager \<times> ws_call list result" where
  "initialize_asset py_hash rest a mm =
     (let key = asset_key py_hash a;
          mm1 = mm\<lparr>mm_market_data := dict_set key None (mm_market_data mm),
                   mm_candles := dict_set key [] (mm_candles mm),
                   mm_ticker_symbols := dict_set key (ticker_symbol a) (mm_ticker_symbols mm)\<rparr>
      in case get_candles rest key mm1 of
           (mm2, Inl e) \<Rightarrow> (mm2, Inl e)
         | (mm2, Inr _) \<Rightarrow>
             (mm2, Inr [SubscribeMarketData (a_exchange a) (ticker_symbol a),
                        SubscribeCandles (a_exchange a) (ticker_symbol a) (ma_candles_timeframe a)]))"

fun initialize_loop ::
  "(string \<Rightarrow> int) \<Rightarrow> (market_asset \<Rightarrow> candle list result) \<Rightarrow> market_asset list \<Rightarrow> market_data_manager \<Rightarrow>
     market_data_manager \<times> ws_call list \<times> unit result" where
  "initialize_loop py_hash rest [] mm = (mm, [], Inr ())"
| "initialize_loop py_hash rest (a # as) mm =
     (case initialize_asset py_hash (rest a) a mm of
        (mm', Inl e) \<Rightarrow> (mm', [], Inl e)
      | (mm', Inr calls) \<Rightarrow>
          (let (mm'', calls', r) = initialize_loop py_hash rest as mm' in (mm'', calls @ calls', r)))"

definition market_initialize ::
  "(string \<Rightarrow> int) \<Rightarrow> (market_asset \<Rightarrow> candle list result) \<Rightarrow> market_asset list \<Rightarrow> market_data_manager \<Rightarrow>
     market_data_manager \<times> ws_call list \<times> unit result" where
  "market_initialize py_hash rest assets mm =
     initialize_loop py_hash rest assets (mm\<lparr>mm_assets := assets\<rparr>)"

definition market_shutdown :: "market_data_manager \<Rightarrow> ws_call list" where
  "market_shutdown mm =
     concat (map (\<lambda>a. [UnsubscribeMarketData (a_exchange a) (ticker_symbol a),
                       UnsubscribeCandles (a_exchange a) (ticker_symbol a) (ma_candles_timeframe a)])
               (mm_assets mm))"

text \<open>The operations that change the manager once it is initialised.\<close>

datatype market_op =
    MarketUpdate int market_data
  | CandlesUpdate int "candle list"
  | ReadMarketData int "market_data result"
  | ReadCandles int "candle list result"

fun market_step :: "market_data_manager \<Rightarrow> market_op \<Rightarrow> market_data_manager" where
  "market_step mm (MarketUpdate key md) = fst (store_market_data key md mm)"
| "market_step mm (CandlesUpdate key cs) = update_candles key cs mm"
| "market_step mm (ReadMarketData key rest) = fst (get_market_data rest key mm)"
| "market_step mm (ReadCandles key rest) = fst (get_candles rest key mm)"

section \<open>Activity tracker\<close>

record activity_state =
  as_ticker_symbol :: string
  as_last_market_data_at :: "timestamp option"
  as_last_evaluation_at :: "timestamp option"
  as_last_signal_at :: "timestamp option"
  as_last_order_at :: "timestamp option"
  as_last_execution_at :: "timestamp option"

type_synonym activity_tracker = "(string, activity_state) dict"

definition new_activity_state :: "string \<Rightarrow> activity_state" where
  "new_activity_state ticker =
     \<lparr>as_ticker_symbol = ticker, as_last_market_data_at = None, as_last_evaluation_at = None,
      as_last_signal_at = None, as_last_order_at = None, as_last_execution_at = None\<rparr>"

definition max_timestamp :: "timestamp option \<Rightarrow> timestamp \<Rightarrow> timestamp" where
  "max_timestamp current candidate =
     (case current of None \<Rightarrow> candidate | Some c \<Rightarrow> if candidate > c then candidate else c)"

definition touch ::
  "string \<Rightarrow> timestamp option \<Rightarrow> timestamp option \<Rightarrow> timestamp option \<Rightarrow> timestamp option \<Rightarrow>
     timestamp option \<Rightarrow> activity_tracker \<Rightarrow> activity_tracker" where
  "touch ticker market_data_at evaluation_at signal_at order_at execution_at tracker =
     (let s = opt_or (dict_get tracker ticker) (new_activity_state ticker);
          newer = (\<lambda>old new. case new of None \<Rightarrow> old | Some t \<Rightarrow> Some (max_timestamp old t))
      in dict_set ticker
           (s\<lparr>as_last_market_data_at := newer (as_last_market_data_at s) market_data_at,
              as_last_evaluation_at := newer (as_last_evaluation_at s) evaluation_at,
              as_last_signal_at := newer (as_last_signal_at s) signal_at,
              as_last_order_at := newer (as_last_order_at s) order_at,
              as_last_execution_at := newer (as_last_execution_at s) execution_at\<rparr>) tracker)"

datatype activity_event =
    OnMarketData string timestamp
  | OnMarketStateChanged string timestamp
  | OnStrategyEvaluated string timestamp
  | OnSignalGenerated string timestamp
  | OnOrderSubmitted string order
  | OnOrderFilled string order

text \<open>\<open>executed_time or created_time\<close>: a zero time is falsy.\<close>

definition executed_at :: "order \<Rightarrow> timestamp" where
  "executed_at ord =
     (case o_executed_time ord of
        Some t \<Rightarrow> if t = 0 then o_created_time ord else t
      | None \<Rightarrow> o_created_time ord)"

fun on_activity :: "activity_tracker \<Rightarrow> activity_event \<Rightarrow> activity_tracker" where
  "on_activity tr (OnMarketData ticker t) = touch ticker (Some t) None None None None tr"
| "on_activity tr (OnMarketStateChanged ticker t) = touch ticker (Some t) None None None None tr"
| "on_activity tr (OnStrategyEvaluated ticker t) = touch ticker None (Some t) None None None tr"
| "on_activity tr (OnSignalGenerated ticker t) = touch ticker None None (Some t) None None tr"
| "on_activity tr (OnOrderSubmitted ticker ord) = touch ticker None None None (Some (o_created_time ord)) None tr"
| "on_activity tr (OnOrderFilled ticker ord) = touch ticker None None None None (Some (executed_at ord)) tr"

definition state_for :: "activity_tracker \<Rightarrow> string \<Rightarrow> activity_state option" where
  "state_for tr ticker = dict_get tr ticker"

section \<open>A window over a stably sorted stream\<close>

lemma length_last_n [simp]: "length (last_n n xs) = min n (length xs)"
  by (simp add: last_n_def)

lemma last_n_append: "n \<le> length ys \<Longrightarrow> last_n n (xs @ ys) = last_n n ys"
  by (simp add: last_n_def)

lemma window_if: "(if length xs > n then drop (length xs - n) xs else xs) = last_n n xs"
  by (simp add: last_n_def)

lemma insort_key_split:
  "insort_key f x xs = takeWhile (\<lambda>y. f y < f x) xs @ x # dropWhile (\<lambda>y. f y < f x) xs"
  by (induction xs) auto

lemma dropWhile_sorted_filter:
  "sorted (map f xs) \<Longrightarrow> dropWhile (\<lambda>y. f y < (k::'k::linorder)) xs = filter (\<lambda>y. k \<le> f y) xs"
proof (induction xs)
  case (Cons x xs)
  show ?case
  proof (cases "f x < k")
    case False
    then have "\<forall>y\<in>set xs. k \<le> f y" using Cons.prems by auto
    with False show ?thesis by simp
  qed (use Cons in auto)
qed simp

text \<open>Inserting an element with at least \<open>n\<close> elements not below it leaves the last \<open>n\<close> as they are.\<close>

lemma last_n_insort_key:
  assumes "sorted (map f xs)" and "n \<le> length (filter (\<lambda>y. f x \<le> f y) xs)"
  shows "last_n n (insort_key f x xs) = last_n n xs"
proof -
  let ?a = "takeWhile (\<lambda>y. f y < f x) xs" and ?b = "dropWhile (\<lambda>y. f y < f x) xs"
  have n: "n \<le> length ?b" using assms by (simp add: dropWhile_sorted_filter)
  have "last_n n (insort_key f x xs) = last_n n ((?a @ [x]) @ ?b)" by (simp add: insort_key_split)
  also have "\<dots> = last_n n ?b" by (rule last_n_append [OF n])
  also have "\<dots> = last_n n (?a @ ?b)" by (rule last_n_append [OF n, symmetric])
  finally show ?thesis by simp
qed

lemma length_filter_insort_key:
  "length (filter P xs) \<le> length (filter P (insort_key f x xs))"
  by (induction xs) auto

lemma last_n_insort_all:
  assumes "sorted (map f xs)" and "\<And>d. d \<in> set ds \<Longrightarrow> n \<le> length (filter (\<lambda>y. f d \<le> f y) xs)"
  shows "last_n n (foldr (insort_key f) ds xs) = last_n n xs"
  using assms(2)
proof (induction ds)
  case (Cons d ds)
  let ?r = "foldr (insort_key f) ds xs"
  have sorted: "sorted (map f ?r)"
    using assms(1) by (induction ds) (simp_all add: sorted_insort_key)
  have "length (filter (\<lambda>y. f d \<le> f y) xs) \<le> length (filter (\<lambda>y. f d \<le> f y) ?r)"
    by (induction ds) (auto intro: order_trans [OF _ length_filter_insort_key])
  moreover have "n \<le> length (filter (\<lambda>y. f d \<le> f y) xs)" using Cons.prems by simp
  ultimately have "n \<le> length (filter (\<lambda>y. f d \<le> f y) ?r)" by linarith
  with sorted have "last_n n (insort_key f d ?r) = last_n n ?r" by (rule last_n_insort_key)
  then show ?case using Cons by simp
qed simp

lemma sort_key_presort: "sort_key f (sort_key f xs @ ys) = sort_key f (xs @ ys)"
proof (rule properties_for_sort_key)
  show "mset (sort_key f (xs @ ys)) = mset (sort_key f xs @ ys)" by simp
  fix k assume "k \<in> set (sort_key f (xs @ ys))"
  have "filter (\<lambda>x. f x = f k) (sort_key f (xs @ ys)) = filter (\<lambda>x. f x = f k) (sort_key f xs @ ys)"
    by (simp add: sort_key_stable)
  then show "filter (\<lambda>x. f k = f x) (sort_key f (xs @ ys)) = filter (\<lambda>x. f k = f x) (sort_key f xs @ ys)"
    by (simp add: eq_commute [of "f k"])
qed simp

lemma length_filter_sort_key: "length (filter P (sort_key f xs)) = length (filter P xs)"
proof -
  have "size (filter_mset P (mset (sort_key f xs))) = size (filter_mset P (mset xs))" by simp
  then show ?thesis by (metis mset_filter size_mset)
qed

text \<open>Discarding all but the last \<open>n\<close> between two batches does not change the last \<open>n\<close> in the end.\<close>

lemma last_n_sort_key_append:
  "last_n n (sort_key f (last_n n (sort_key f xs) @ ys)) = last_n n (sort_key f (xs @ ys))"
proof -
  let ?z = "sort_key f xs"
  let ?d = "take (length ?z - n) ?z" and ?k = "last_n n ?z"
  let ?s = "sort_key f (?k @ ys)"
  have z: "?d @ ?k = ?z" by (simp add: last_n_def)
  have le: "f d \<le> f y" if "d \<in> set ?d" "y \<in> set ?k" for d y
  proof -
    have "sorted (map f (?d @ ?k))" by (simp only: z sorted_sort_key)
    with that show ?thesis by (auto simp: sorted_append)
  qed
  have n: "n \<le> length (filter (\<lambda>y. f d \<le> f y) ?s)" if "d \<in> set ?d" for d
  proof -
    have "length xs - n \<noteq> 0"
    proof
      assume "length xs - n = 0"
      with that show False by simp
    qed
    then have "n \<le> length ?k" by simp
    moreover have "filter (\<lambda>y. f d \<le> f y) ?k = ?k" using le [OF that] by (simp add: filter_id_conv)
    ultimately show ?thesis by (simp add: length_filter_sort_key del: length_last_n)
  qed
  have "sort_key f (xs @ ys) = sort_key f ((?d @ ?k) @ ys)" by (simp only: z sort_key_presort)
  also have "\<dots> = foldr (insort_key f) ?d ?s" by (simp add: sort_key_def)
  finally show ?thesis using last_n_insort_all [of f ?s ?d n] n by simp
qed

section \<open>What the manager holds\<close>

fun received_candles :: "int \<Rightarrow> market_data_manager \<Rightarrow> market_op \<Rightarrow> candle list" where
  "received_candles key mm (CandlesUpdate k cs) = (if k = key then cs else [])"
| "received_candles key mm (ReadCandles k (Inr cs)) = (if k = key \<and> stored_candles mm key = [] then cs else [])"
| "received_candles key mm _ = []"

definition candle_window :: "candle list \<Rightarrow> candle list" where
  "candle_window cs = last_n MAX_CANDLES (sort_key cd_start_time cs)"

lemma candle_window_Nil [simp]: "candle_window [] = []"
  by (simp add: candle_window_def last_n_def)

lemma stored_update_candles [simp]:
  "stored_candles (update_candles key new mm) k =
     (if k = key then candle_window (stored_candles mm key @ new) else stored_candles mm k)"
  unfolding update_candles_def Let_def window_if by (simp add: stored_candles_def candle_window_def)

lemma stored_candles_market [simp]:
  "stored_candles (fst (store_market_data key md mm)) k = stored_candles mm k"
  "stored_candles (fst (get_market_data rest key mm)) k = stored_candles mm k"
  by (simp_all add: store_market_data_def get_market_data_def stored_candles_def Let_def split_beta
      split: option.split sum.split)

lemma window_append [simp]: "candle_window (candle_window xs @ ys) = candle_window (xs @ ys)"
  unfolding candle_window_def by (rule last_n_sort_key_append)

lemma stored_get_candles:
  "stored_candles (fst (get_candles rest key mm)) k =
     (case rest of
        Inr cs \<Rightarrow> if k = key \<and> stored_candles mm key = [] then candle_window cs else stored_candles mm k
      | Inl e \<Rightarrow> stored_candles mm k)"
  by (simp add: get_candles_def Let_def split: sum.split)

interpretation candles: summarised market_step "received_candles key" "\<lambda>mm. stored_candles mm key" candle_window
  for key
proof
  fix s xs op
  assume *: "stored_candles s key = candle_window xs"
  show "stored_candles (market_step s op) key = candle_window (xs @ received_candles key s op)"
  proof (cases op)
    case (ReadCandles k rest)
    have "candle_window (xs @ cs) = candle_window cs" if "candle_window xs = []" for cs
      using window_append [of xs cs] that by simp
    then show ?thesis using ReadCandles * by (cases rest) (auto simp: stored_get_candles)
  qed (use * in auto)
qed

fun received_market_data :: "int \<Rightarrow> market_data_manager \<Rightarrow> market_op \<Rightarrow> market_data list" where
  "received_market_data key mm (MarketUpdate k md) = (if k = key then [md] else [])"
| "received_market_data key mm (ReadMarketData k (Inr md)) =
     (if k = key \<and> stored_market_data mm key = None then [md] else [])"
| "received_market_data key mm _ = []"

text \<open>The first of the received values with the greatest timestamp.\<close>

fun newer_of :: "market_data option \<Rightarrow> market_data \<Rightarrow> market_data option" where
  "newer_of None md = Some md"
| "newer_of (Some old) md = Some (if md_timestamp old < md_timestamp md then md else old)"

definition newest :: "market_data list \<Rightarrow> market_data option" where
  "newest mds = foldl newer_of None mds"

lemma stored_store_market_data [simp]:
  "stored_market_data (fst (store_market_data key new mm)) k =
     (if k = key then newer_of (stored_market_data mm key) new else stored_market_data mm k)"
  by (auto simp: store_market_data_def stored_market_data_def Let_def split: option.split)

lemma stored_market_data_candles [simp]:
  "stored_market_data (update_candles key cs mm) k = stored_market_data mm k"
  "stored_market_data (fst (get_candles rest key mm)) k = stored_market_data mm k"
  by (simp_all add: get_candles_def update_candles_def stored_market_data_def Let_def split: sum.split)

lemma stored_get_market_data:
  "stored_market_data (fst (get_market_data rest key mm)) k =
     (case rest of
        Inr md \<Rightarrow> if k = key \<and> stored_market_data mm key = None then Some md else stored_market_data mm k
      | Inl e \<Rightarrow> stored_market_data mm k)"
  by (auto simp: get_market_data_def split_beta split: sum.split option.split)

interpretation prices: summarised market_step "received_market_data key" "\<lambda>mm. stored_market_data mm key" newest
  for key
proof
  fix s xs op
  assume *: "stored_market_data s key = newest xs"
  show "stored_market_data (market_step s op) key = newest (xs @ received_market_data key s op)"
  proof (cases op)
    case (ReadMarketData k rest)
    then show ?thesis using * by (cases rest) (auto simp: stored_get_market_data newest_def)
  qed (use * in \<open>auto simp: newest_def\<close>)
qed

lemma newer_of_Some [simp]: "newer_of m md \<noteq> None"
  by (cases m) simp_all

lemma newest_None: "newest mds = None \<longleftrightarrow> mds = []"
  by (cases mds rule: rev_cases) (simp_all add: newest_def del: not_None_eq)

lemma newest_spec:
  "newest mds = Some md \<Longrightarrow> md \<in> set mds \<and> (\<forall>m\<in>set mds. md_timestamp m \<le> md_timestamp md)"
proof (induction mds arbitrary: md rule: rev_induct)
  case (snoc m ms)
  show ?case
  proof (cases "newest ms")
    case None
    then have "ms = []" by (simp add: newest_None)
    with snoc.prems None show ?thesis by (simp add: newest_def)
  next
    case (Some old)
    then show ?thesis using snoc.IH [OF Some] snoc.prems
      by (fastforce simp: newest_def split: if_splits)
  qed
qed (simp add: newest_def)

lemma candle_window_dropped:
  obtains dropped where "mset cs = mset dropped + mset (candle_window cs)"
    and "\<forall>d\<in>set dropped. \<forall>c\<in>set (candle_window cs). cd_start_time d \<le> cd_start_time c"
proof -
  let ?z = "sort_key cd_start_time cs"
  let ?d = "take (length ?z - MAX_CANDLES) ?z"
  have split: "?d @ candle_window cs = ?z" by (simp add: candle_window_def last_n_def)
  have "mset cs = mset (?d @ candle_window cs)" by (simp only: split mset_sort)
  moreover have "sorted (map cd_start_time (?d @ candle_window cs))"
    by (simp only: split sorted_sort_key)
  ultimately show ?thesis
    by (intro that [of ?d]) (simp_all add: sorted_append)
qed

lemma sorted_candle_window: "sorted (map cd_start_time (candle_window cs))"
  by (simp add: candle_window_def last_n_def sorted_wrt_drop flip: drop_map)

text \<open>
  Candles of one start time are not merged: an exchange that repeats an update of the current
  candle fills the window with it, and nothing older is left.
\<close>

lemma repeated_candle_fills_window:
  assumes "\<forall>c\<in>set cs. cd_start_time c < cd_start_time d" and "MAX_CANDLES \<le> n"
  shows "candle_window (cs @ replicate n d) = replicate MAX_CANDLES d"
proof -
  have "sort_key cd_start_time (cs @ replicate n d) = sort_key cd_start_time cs @ replicate n d"
  proof -
    have "sorted (map cd_start_time (sort_key cd_start_time cs @ replicate n d))"
      using assms(1) by (auto simp: sorted_append less_imp_le)
    then show ?thesis by (metis sort_key_presort sort_key_id_if_sorted)
  qed
  then have "candle_window (cs @ replicate n d) = last_n MAX_CANDLES (replicate n d)"
    using assms(2) by (simp add: candle_window_def last_n_append)
  with assms(2) show ?thesis by (simp add: last_n_def)
qed

text \<open>For an asset whose window was empty, the candles held after any sequence of updates
  and reads are the newest 300 of all candles received, stably sorted by start time, although the
  manager discards the excess after every batch: the window has at most 300 candles, is sorted,
  and everything discarded is not newer than anything kept.\<close>

theorem candles_are_newest_300:
  assumes "stored_candles mm key = []"
  shows "let received = inputs_of market_step (received_candles key) mm ops;
             kept = stored_candles (foldl market_step mm ops) key
         in kept = last_n 300 (sort_key cd_start_time received) \<and>
            length kept = min 300 (length received) \<and>
            sorted (map cd_start_time kept) \<and>
            (\<exists>dropped. mset received = mset dropped + mset kept \<and>
               (\<forall>d\<in>set dropped. \<forall>c\<in>set kept. cd_start_time d \<le> cd_start_time c))"
proof -
  let ?received = "inputs_of market_step (received_candles key) mm ops"
  have kept: "stored_candles (foldl market_step mm ops) key = candle_window ?received"
    by (rule candles.run_summary_initial) (simp add: assms)
  obtain dropped where "mset ?received = mset dropped + mset (candle_window ?received)"
    and "\<forall>d\<in>set dropped. \<forall>c\<in>set (candle_window ?received). cd_start_time d \<le> cd_start_time c"
    by (rule candle_window_dropped)
  then show ?thesis
    unfolding Let_def kept
    by (intro conjI exI [of _ dropped] sorted_candle_window)
      (simp_all add: candle_window_def MAX_CANDLES_def)
qed

text \<open>For an asset without stored market data, what is stored after any sequence of
  updates and reads is the first received value with the greatest timestamp; it is absent only if
  nothing was received, and a successful read always returns data.\<close>

theorem market_data_is_newest:
  assumes "stored_market_data mm key = None"
  shows "let received = inputs_of market_step (received_market_data key) mm ops;
             mm' = foldl market_step mm ops
         in stored_market_data mm' key = newest received \<and>
            (stored_market_data mm' key = None \<longleftrightarrow> received = []) \<and>
            (\<forall>md. stored_market_data mm' key = Some md \<longrightarrow>
               md \<in> set received \<and> (\<forall>m\<in>set received. md_timestamp m \<le> md_timestamp md)) \<and>
            (\<forall>answer. snd (snd (get_market_data (Inr answer) key mm')) =
               Inr (Some (opt_or (stored_market_data mm' key) answer)))"
proof -
  let ?received = "inputs_of market_step (received_market_data key) mm ops"
  let ?mm = "foldl market_step mm ops"
  have stored: "stored_market_data ?mm key = newest ?received"
    by (rule prices.run_summary_initial) (simp add: assms newest_def)
  have read: "snd (snd (get_market_data (Inr answer) key m)) =
      Inr (Some (opt_or (stored_market_data m key) answer))" for answer m
    by (simp add: get_market_data_def split_beta split: option.split)
  show ?thesis
    unfolding Let_def read
    using stored newest_spec [of ?received] newest_None [of ?received] by simp
qed

section \<open>Activity times\<close>

datatype activity_kind = AtMarketData | AtEvaluation | AtSignal | AtOrder | AtExecution

fun activity_time :: "activity_kind \<Rightarrow> activity_state \<Rightarrow> timestamp option" where
  "activity_time AtMarketData s = as_last_market_data_at s"
| "activity_time AtEvaluation s = as_last_evaluation_at s"
| "activity_time AtSignal s = as_last_signal_at s"
| "activity_time AtOrder s = as_last_order_at s"
| "activity_time AtExecution s = as_last_execution_at s"

fun event_time :: "activity_event \<Rightarrow> activity_kind \<times> string \<times> timestamp" where
  "event_time (OnMarketData ticker t) = (AtMarketData, ticker, t)"
| "event_time (OnMarketStateChanged ticker t) = (AtMarketData, ticker, t)"
| "event_time (OnStrategyEvaluated ticker t) = (AtEvaluation, ticker, t)"
| "event_time (OnSignalGenerated ticker t) = (AtSignal, ticker, t)"
| "event_time (OnOrderSubmitted ticker ord) = (AtOrder, ticker, o_created_time ord)"
| "event_time (OnOrderFilled ticker ord) = (AtExecution, ticker, executed_at ord)"

definition observed_times :: "activity_kind \<Rightarrow> string \<Rightarrow> activity_event \<Rightarrow> timestamp list" where
  "observed_times kind ticker e =
     (case event_time e of (k, tk, t) \<Rightarrow> if k = kind \<and> tk = ticker then [t] else [])"

definition latest :: "timestamp list \<Rightarrow> timestamp option" where
  "latest ts = (if ts = [] then None else Some (Max (set ts)))"

lemma latest_snoc: "latest (ts @ [t]) = Some (max_timestamp (latest ts) t)"
  by (auto simp: latest_def max_timestamp_def max_def simp del: Max_less_iff)

definition last_activity :: "activity_kind \<Rightarrow> string \<Rightarrow> activity_tracker \<Rightarrow> timestamp option" where
  "last_activity kind ticker tr = Option.bind (state_for tr ticker) (activity_time kind)"

lemma last_activity_step:
  "last_activity kind ticker (on_activity tr e) =
     (case observed_times kind ticker e of
        [] \<Rightarrow> last_activity kind ticker tr
      | t # _ \<Rightarrow> Some (max_timestamp (last_activity kind ticker tr) t))"
  by (cases e; cases kind)
    (auto simp: last_activity_def state_for_def touch_def observed_times_def new_activity_state_def Let_def
      opt_or_def split: option.split)

interpretation activity: summarised on_activity "\<lambda>_. observed_times kind ticker" "last_activity kind ticker" latest
  for kind ticker
proof
  fix s xs op
  assume "last_activity kind ticker s = latest xs"
  then show "last_activity kind ticker (on_activity s op) = latest (xs @ observed_times kind ticker op)"
    by (simp add: last_activity_step observed_times_def latest_snoc split_beta)
qed

lemma activity_times_are_latest:
  "last_activity kind ticker (foldl on_activity [] es) =
     latest (concat (map (observed_times kind ticker) es))"
proof -
  have "inputs_of on_activity (\<lambda>_. observed_times kind ticker) tr es = concat (map (observed_times kind ticker) es)"
    for tr by (induction es arbitrary: tr) simp_all
  then show ?thesis
    using activity.run_summary_initial [of kind ticker "[]" es]
    by (simp add: last_activity_def state_for_def latest_def)
qed

section \<open>Witnesses\<close>

definition demo_market_data :: "decimal \<Rightarrow> timestamp \<Rightarrow> market_data" where
  "demo_market_data price t =
     \<lparr>md_volume = 1, md_high_price = price, md_low_price = price, md_close_price = price,
      md_timestamp = t, md_bid_price = None, md_ask_price = None\<rparr>"

definition demo_bar :: "timestamp \<Rightarrow> candle" where
  "demo_bar t = \<lparr>cd_open = 1, cd_low = 1, cd_high = 1, cd_close = 1, cd_start_time = t, cd_volume = 1\<rparr>"

theorem candles_are_newest_300_witness:
  "stored_candles (foldl market_step (new_market_manager True)
     [ReadCandles 1 (Inr [demo_bar 3, demo_bar 1]), CandlesUpdate 1 [demo_bar 2]]) 1 =
   [demo_bar 1, demo_bar 2, demo_bar 3]"
proof -
  have "stored_candles (new_market_manager True) 1 = []" by code_simp
  note t = candles_are_newest_300 [OF this, of "[ReadCandles 1 (Inr [demo_bar 3, demo_bar 1]), CandlesUpdate 1 [demo_bar 2]]"]
  have "inputs_of market_step (received_candles 1) (new_market_manager True)
     [ReadCandles 1 (Inr [demo_bar 3, demo_bar 1]), CandlesUpdate 1 [demo_bar 2]] =
     [demo_bar 3, demo_bar 1, demo_bar 2]" by code_simp
  with t show ?thesis by (simp add: Let_def last_n_def demo_bar_def)
qed

theorem market_data_is_newest_witness:
  "stored_market_data (foldl market_step (new_market_manager True)
     [ReadMarketData 1 (Inr (demo_market_data 5 3)), MarketUpdate 1 (demo_market_data 6 2)]) 1 =
   Some (demo_market_data 5 3)"
proof -
  have "stored_market_data (new_market_manager True) 1 = None" by code_simp
  note t = market_data_is_newest [OF this, of "[ReadMarketData 1 (Inr (demo_market_data 5 3)), MarketUpdate 1 (demo_market_data 6 2)]"]
  have "newest (inputs_of market_step (received_market_data 1) (new_market_manager True)
     [ReadMarketData 1 (Inr (demo_market_data 5 3)), MarketUpdate 1 (demo_market_data 6 2)]) =
     Some (demo_market_data 5 3)" by code_simp
  with t show ?thesis unfolding Let_def by simp
qed

end
