(* ===== verification/Sizing.thy ===== *)
theory Sizing
  imports Indicators Accounts Reconciliation
begin

text \<open>
  How an order is priced, sized and attributed: the position sizer
  (\<open>src/src/trading/sizing/position_sizer.py\<close>) and the pure helpers of the executor
  (\<open>_calculate_price\<close>, \<open>_validate_execution_edge\<close>, \<open>_resolve_winning_strategy\<close>,
  \<open>_resolve_strategy_attributions\<close>, \<open>_format_strategy_votes\<close> in
  \<open>src/src/trading/trading_executor.py\<close>).  A parser is the formula it was built from; which
  formulas the parser accepts (\<open>valid\<close>) and what a formula evaluates to are parameters.
\<close>

section \<open>Assets and rounding\<close>

record trade_asset = risk_asset +
  ta_quote_decimals :: int
  ta_min_quantity :: decimal
  ta_quantity_decimals :: int
  ta_strategies :: "strategy_config list option"
  ta_consensus :: "consensus_factor option"
  ta_dynamic_quantity :: "string option"

text \<open>\<open>Decimal("1").scaleb(-decimals)\<close>, and \<open>quantize\<close> with the two rounding modes used: towards
  zero and away from zero.\<close>

definition quantum_of :: "int \<Rightarrow> decimal" where
  "quantum_of decimals = (if decimals \<ge> 0 then 1 / 10 ^ nat decimals else 10 ^ nat (- decimals))"

definition quantize_down :: "int \<Rightarrow> decimal \<Rightarrow> decimal" where
  "quantize_down decimals x =
     (let n = x / quantum_of decimals
      in of_int (if n \<ge> 0 then \<lfloor>n\<rfloor> else \<lceil>n\<rceil>) * quantum_of decimals)"

definition quantize_up :: "int \<Rightarrow> decimal \<Rightarrow> decimal" where
  "quantize_up decimals x =
     (let n = x / quantum_of decimals
      in of_int (if n \<ge> 0 then \<lceil>n\<rceil> else \<lfloor>n\<rfloor>) * quantum_of decimals)"

section \<open>Position sizer\<close>

record position_sizer =
  ps_global_formula :: "string option"
  ps_global_parser :: "string option"
  ps_asset_parsers :: "(int, string) dict"

text \<open>\<open>ExpressionParser(formula.strip())\<close> for a formula that is not blank, else no parser.\<close>

definition formula_parser :: "(string \<Rightarrow> bool) \<Rightarrow> string option \<Rightarrow> string option result" where
  "formula_parser valid formula =
     (case formula of
        None \<Rightarrow> Inr None
      | Some f \<Rightarrow> if strip f = [] then Inr None
                  else if valid (strip f) then Inr (Some (strip f)) else Inl ValueError)"

text \<open>The dictionary is filled in place: a formula that is refused leaves the entries before it.\<close>

fun rebuild_loop ::
  "(string \<Rightarrow> bool) \<Rightarrow> (string \<Rightarrow> int) \<Rightarrow> trade_asset list \<Rightarrow> (int, string) dict \<Rightarrow>
     (int, string) dict \<times> unit result" where
  "rebuild_loop valid py_hash [] d = (d, Inr ())"
| "rebuild_loop valid py_hash (a # as) d =
     (case formula_parser valid (ta_dynamic_quantity a) of
        Inl e \<Rightarrow> (d, Inl e)
      | Inr None \<Rightarrow> rebuild_loop valid py_hash as d
      | Inr (Some p) \<Rightarrow> rebuild_loop valid py_hash as (dict_set (asset_key py_hash a) p d))"

definition rebuild_asset_parsers ::
  "(string \<Rightarrow> bool) \<Rightarrow> (string \<Rightarrow> int) \<Rightarrow> trade_asset list \<Rightarrow> position_sizer \<Rightarrow>
     position_sizer \<times> unit result" where
  "rebuild_asset_parsers valid py_hash assets ps =
     (let (d, r) = rebuild_loop valid py_hash assets [] in (ps\<lparr>ps_asset_parsers := d\<rparr>, r))"

definition new_position_sizer ::
  "(string \<Rightarrow> bool) \<Rightarrow> (string \<Rightarrow> int) \<Rightarrow> string option \<Rightarrow> trade_asset list \<Rightarrow> position_sizer result" where
  "new_position_sizer valid py_hash formula assets =
     res_bind (formula_parser valid formula)
       (\<lambda>p. case rebuild_asset_parsers valid py_hash assets
                 \<lparr>ps_global_formula = formula, ps_global_parser = p, ps_asset_parsers = []\<rparr> of
              (ps, Inl e) \<Rightarrow> Inl e
            | (ps, Inr _) \<Rightarrow> Inr ps)"

definition get_parser ::
  "(string \<Rightarrow> bool) \<Rightarrow> (string \<Rightarrow> int) \<Rightarrow> position_sizer \<Rightarrow> trade_asset \<Rightarrow> string option result" where
  "get_parser valid py_hash ps a =
     (case ta_dynamic_quantity a of
        None \<Rightarrow> Inr (ps_global_parser ps)
      | Some f \<Rightarrow>
          if strip f = [] then Inr (ps_global_parser ps)
          else case dict_get (ps_asset_parsers ps) (asset_key py_hash a) of
                 Some p \<Rightarrow> Inr (Some p)
               | None \<Rightarrow> formula_parser valid (Some f))"

definition sizer_update_config ::
  "(string \<Rightarrow> bool) \<Rightarrow> (string \<Rightarrow> int) \<Rightarrow> string option \<Rightarrow> trade_asset list \<Rightarrow> position_sizer \<Rightarrow>
     position_sizer \<times> unit result" where
  "sizer_update_config valid py_hash formula assets ps =
     (if formula = ps_global_formula ps then rebuild_asset_parsers valid py_hash assets ps
      else let ps1 = ps\<lparr>ps_global_formula := formula\<rparr>
           in case formula_parser valid formula of
                Inl e \<Rightarrow> (ps1, Inl e)
              | Inr p \<Rightarrow> rebuild_asset_parsers valid py_hash assets (ps1\<lparr>ps_global_parser := p\<rparr>))"

text \<open>\<open>formula_value p\<close> is what parsing the formula \<open>p\<close> in the expression context of the call yields:
  no value, a number, or an exception.\<close>

definition calculate_quantity ::
  "(string \<Rightarrow> bool) \<Rightarrow> (string \<Rightarrow> int) \<Rightarrow> (string \<Rightarrow> trading_context \<Rightarrow> decimal option result) \<Rightarrow>
     position_sizer \<Rightarrow> trade_asset \<Rightarrow> trading_context option \<Rightarrow> decimal result" where
  "calculate_quantity valid py_hash formula_value ps a ctx =
     res_bind (get_parser valid py_hash ps a)
       (\<lambda>parser. Inr
          (case (parser, ctx) of
             (Some p, Some c) \<Rightarrow>
               (case formula_value p c of
                  Inr (Some raw) \<Rightarrow>
                    (let quantity = quantize_down (ta_quantity_decimals a) raw
                     in if quantity < ta_min_quantity a then ta_min_quantity a
                        else max quantity (ta_min_quantity a))
                | _ \<Rightarrow> ta_min_quantity a)
           | _ \<Rightarrow> ta_min_quantity a))"

section \<open>Price and execution edge\<close>

definition calculate_price :: "trade_asset \<Rightarrow> market_data \<Rightarrow> fees \<Rightarrow> decimal" where
  "calculate_price a md fees =
     quantize_up (ta_quote_decimals a) (md_close_price md * (1 + fe_maker_fee_pct fees / 100))"

definition execution_friction :: "market_data \<Rightarrow> fees \<Rightarrow> decimal" where
  "execution_friction md fees =
     fe_maker_fee_pct fees + fe_taker_fee_pct fees
     + (case (md_bid_price md, md_ask_price md) of
          (Some bid, Some ask) \<Rightarrow> if bid > 0 then (ask - bid) / bid * 100 else 0
        | _ \<Rightarrow> 0)"

definition has_execution_edge :: "market_data \<Rightarrow> fees \<Rightarrow> bool" where
  "has_execution_edge md fees \<longleftrightarrow> \<not> execution_friction md fees > 10"

section \<open>Attribution\<close>

definition vote_weight :: "consensus_decision \<Rightarrow> string \<Rightarrow> rat" where
  "vote_weight d name = opt_or (dict_get (dn_weights d) name) 1"

definition positive_votes :: "consensus_decision \<Rightarrow> (string \<times> rat) list" where
  "positive_votes d = map (\<lambda>(n, v). (n, vote_weight d n)) (filter snd (dn_votes d))"

definition resolve_winning_strategy :: "consensus_decision \<Rightarrow> string option" where
  "resolve_winning_strategy d =
     (case sort_key (\<lambda>(n, w). - w) (sort_key fst (positive_votes d)) of
        [] \<Rightarrow> None
      | (n, w) # _ \<Rightarrow> Some n)"

text \<open>Python's \<open>round(x, 4)\<close>: to the nearest multiple, a tie to the even one.\<close>

definition round4 :: "rat \<Rightarrow> rat" where
  "round4 x = of_int (round_half_even (x * 10000)) / 10000"

definition resolve_strategy_attributions :: "consensus_decision \<Rightarrow> attributions option" where
  "resolve_strategy_attributions d =
     (if dn_votes d = [] then None
      else let total_weight = sum_list (map snd (positive_votes d))
           in if total_weight \<le> 0 then None
              else Some (map (\<lambda>(n, w). (n, round4 (w / total_weight))) (positive_votes d)))"

definition format_strategy_votes :: "consensus_decision \<Rightarrow> votes option" where
  "format_strategy_votes d =
     (if dn_votes d = [] then None
      else Some (map (\<lambda>(n, v). (n, if v then ''TRUE'' else ''FALSE'')) (dn_votes d)))"

section \<open>Rounding\<close>

lemma quantum_pos [simp]: "0 < quantum_of d"
  by (simp add: quantum_of_def)

text \<open>Both rounding modes yield a multiple of the quantum, less than one quantum away.\<close>

lemma quantize_down_nonneg:
  assumes "0 \<le> x"
  shows "quantize_down d x \<le> x" and "x < quantize_down d x + quantum_of d" and "0 \<le> quantize_down d x"
proof -
  let ?q = "quantum_of d"
  have n: "0 \<le> x / ?q" using assms by (simp add: less_imp_le)
  then have v: "quantize_down d x = of_int \<lfloor>x / ?q\<rfloor> * ?q" by (simp add: quantize_down_def Let_def)
  have "of_int \<lfloor>x / ?q\<rfloor> * ?q \<le> x / ?q * ?q"
    by (rule mult_right_mono) (simp_all add: less_imp_le)
  then show "quantize_down d x \<le> x" by (simp add: v less_imp_neq [OF quantum_pos, symmetric])
  have "x / ?q < of_int \<lfloor>x / ?q\<rfloor> + 1" using floor_correct [of "x / ?q"] by simp
  then have "x / ?q * ?q < (of_int \<lfloor>x / ?q\<rfloor> + 1) * ?q" by (rule mult_strict_right_mono) simp
  then show "x < quantize_down d x + ?q"
    by (simp add: v less_imp_neq [OF quantum_pos, symmetric] algebra_simps)
  show "0 \<le> quantize_down d x" using n by (simp add: v less_imp_le)
qed

lemma quantize_up_nonneg:
  assumes "0 \<le> x"
  shows "x \<le> quantize_up d x" and "quantize_up d x < x + quantum_of d"
proof -
  let ?q = "quantum_of d"
  have n: "0 \<le> x / ?q" using assms by (simp add: less_imp_le)
  then have v: "quantize_up d x = of_int \<lceil>x / ?q\<rceil> * ?q" by (simp add: quantize_up_def Let_def)
  have "x / ?q * ?q \<le> of_int \<lceil>x / ?q\<rceil> * ?q"
    by (rule mult_right_mono) (simp_all add: less_imp_le)
  then show "x \<le> quantize_up d x" by (simp add: v less_imp_neq [OF quantum_pos, symmetric])
  have "of_int \<lceil>x / ?q\<rceil> < x / ?q + 1" using ceiling_correct [of "x / ?q"] by linarith
  then have "of_int \<lceil>x / ?q\<rceil> * ?q < (x / ?q + 1) * ?q" by (rule mult_strict_right_mono) simp
  then show "quantize_up d x < x + ?q"
    by (simp add: v less_imp_neq [OF quantum_pos, symmetric] algebra_simps)
qed

lemma quantize_down_neg: "x < 0 \<Longrightarrow> quantize_down d x \<le> 0"
proof -
  assume "x < 0"
  then have n: "x / quantum_of d < 0" by (simp add: divide_neg_pos)
  then have "of_int \<lceil>x / quantum_of d\<rceil> * quantum_of d \<le> 0"
    by (intro mult_nonpos_nonneg) (simp_all add: less_imp_le)
  with n show ?thesis by (simp add: quantize_down_def Let_def)
qed

lemma quantize_multiple:
  "\<exists>n::int. quantize_down d x = of_int n * quantum_of d"
  "\<exists>n::int. quantize_up d x = of_int n * quantum_of d"
  by (auto simp: quantize_down_def quantize_up_def Let_def)

lemma calculate_quantity_cases:
  assumes "calculate_quantity valid py_hash formula_value ps a ctx = Inr q"
  obtains "q = ta_min_quantity a"
  | p c raw where "get_parser valid py_hash ps a = Inr (Some p)" "ctx = Some c"
      "formula_value p c = Inr (Some raw)" "q = quantize_down (ta_quantity_decimals a) raw" "ta_min_quantity a \<le> q"
proof (cases "get_parser valid py_hash ps a")
  case (Inr parser)
  show ?thesis
  proof (cases "parser = None \<or> ctx = None")
    case True
    then show ?thesis using assms Inr that(1) by (auto simp: calculate_quantity_def split: option.splits)
  next
    case False
    then obtain p c where *: "parser = Some p" "ctx = Some c" by auto
    show ?thesis
    proof (cases "\<exists>raw. formula_value p c = Inr (Some raw)")
      case True
      then obtain raw where raw: "formula_value p c = Inr (Some raw)" by blast
      show ?thesis
        using assms Inr * raw that(1) that(2) [of p c raw]
        by (auto simp: calculate_quantity_def Let_def max_def split: if_splits)
    next
      case False
      then have "q = ta_min_quantity a"
        using assms Inr * by (cases "formula_value p c") (auto simp: calculate_quantity_def split: option.splits)
      then show ?thesis by (rule that(1))
    qed
  qed
qed (use assms in \<open>simp add: calculate_quantity_def\<close>)

text \<open>C25.  A computed order quantity is never below the asset's minimum; when it is above it,
  it is the formula's value rounded down to the asset's precision, never more than that value and
  less than one unit of precision below it.  The order price covers the close price with the maker
  fee and exceeds it by less than one unit of the quote precision.\<close>

theorem order_size_and_price_bounds:
  assumes "calculate_quantity valid py_hash formula_value ps a ctx = Inr q" and "0 < ta_min_quantity a"
    and "0 \<le> md_close_price md" and "0 \<le> fe_maker_fee_pct fees"
  shows "ta_min_quantity a \<le> q \<and>
    (ta_min_quantity a < q \<longrightarrow>
       (\<exists>p c raw. get_parser valid py_hash ps a = Inr (Some p) \<and> ctx = Some c \<and>
          formula_value p c = Inr (Some raw) \<and> q \<le> raw \<and> raw < q + quantum_of (ta_quantity_decimals a) \<and>
          (\<exists>n::int. q = of_int n * quantum_of (ta_quantity_decimals a)))) \<and>
    md_close_price md * (1 + fe_maker_fee_pct fees / 100) \<le> calculate_price a md fees \<and>
    calculate_price a md fees
      < md_close_price md * (1 + fe_maker_fee_pct fees / 100) + quantum_of (ta_quote_decimals a)"
proof -
  have price: "0 \<le> md_close_price md * (1 + fe_maker_fee_pct fees / 100)" using assms(3,4) by simp
  have min: "ta_min_quantity a \<le> q"
    using assms(1) by (rule calculate_quantity_cases) simp_all
  have size: "\<exists>p c raw. get_parser valid py_hash ps a = Inr (Some p) \<and> ctx = Some c \<and>
      formula_value p c = Inr (Some raw) \<and> q \<le> raw \<and> raw < q + quantum_of (ta_quantity_decimals a) \<and>
      (\<exists>n::int. q = of_int n * quantum_of (ta_quantity_decimals a))"
    if gt: "ta_min_quantity a < q"
  proof -
    obtain p c raw where *: "get_parser valid py_hash ps a = Inr (Some p)" "ctx = Some c"
        "formula_value p c = Inr (Some raw)" and q: "q = quantize_down (ta_quantity_decimals a) raw"
      using calculate_quantity_cases [OF assms(1)] gt by (metis less_irrefl)
    have "0 \<le> raw"
      using quantize_down_neg [of raw "ta_quantity_decimals a"] gt assms(2) q by linarith
    with * q show ?thesis
      using quantize_down_nonneg [of raw "ta_quantity_decimals a"] quantize_multiple(1) by blast
  qed
  show ?thesis
    unfolding calculate_price_def
    using min size quantize_up_nonneg [OF price] by blast
qed

definition demo_trade_asset :: trade_asset where
  "demo_trade_asset = \<lparr>a_base_ticker_symbol = ''BTC'', a_quote_ticker_symbol = ''USD'', a_exchange = ''CDC'',
     a_separator = None, a_enabled = True, ra_portfolio = None, ta_quote_decimals = 2, ta_min_quantity = 1,
     ta_quantity_decimals = 1, ta_strategies = None, ta_consensus = None, ta_dynamic_quantity = None\<rparr>"

definition demo_fees :: fees where
  "demo_fees = \<lparr>fe_maker_fee_pct = 1, fe_taker_fee_pct = 1\<rparr>"

definition demo_quote :: market_data where
  "demo_quote = \<lparr>md_volume = 1, md_high_price = 10, md_low_price = 10, md_close_price = 10, md_timestamp = 5,
     md_bid_price = None, md_ask_price = None\<rparr>"

theorem order_size_and_price_bounds_witness:
  "calculate_quantity (\<lambda>_. True) (\<lambda>_. 0) (\<lambda>_ _. Inr (Some (257/100)))
     \<lparr>ps_global_formula = Some ''f'', ps_global_parser = Some ''f'', ps_asset_parsers = []\<rparr> demo_trade_asset
     (Some (new_context ''BTC_USD'' ''CDC'' 100 None)) = Inr (5/2) \<and>
   ta_min_quantity demo_trade_asset \<le> 5/2 \<and>
   md_close_price demo_quote * (1 + fe_maker_fee_pct demo_fees / 100) \<le> calculate_price demo_trade_asset demo_quote demo_fees"
proof -
  have q: "calculate_quantity (\<lambda>_. True) (\<lambda>_. 0) (\<lambda>_ _. Inr (Some (257/100)))
     \<lparr>ps_global_formula = Some ''f'', ps_global_parser = Some ''f'', ps_asset_parsers = []\<rparr> demo_trade_asset
     (Some (new_context ''BTC_USD'' ''CDC'' 100 None)) = Inr (5/2)"
    and p: "0 < ta_min_quantity demo_trade_asset" "0 \<le> md_close_price demo_quote" "0 \<le> fe_maker_fee_pct demo_fees"
    by code_simp+
  from order_size_and_price_bounds [OF q p] q show ?thesis by blast
qed

section \<open>Winner and attributions\<close>

lemma positive_votes_mem:
  "(n, w) \<in> set (positive_votes d) \<longleftrightarrow> (n, True) \<in> set (dn_votes d) \<and> w = vote_weight d n"
  by (force simp: positive_votes_def)

text \<open>The head of a list sorted by name and then stably by falling weight.\<close>

lemma sorted_by_both_head:
  assumes "sort_key (\<lambda>(n, w). - w) (sort_key fst xs) = (n, w) # rest" and "(m, v) \<in> set xs"
  shows "(n, w) \<in> set xs" and "v \<le> (w::rat)" and "v = w \<Longrightarrow> n \<le> (m::string)"
proof -
  let ?f = "\<lambda>(n::string, w::rat). - w" and ?ys = "sort_key fst xs"
  have set: "set ((n, w) # rest) = set xs" by (simp only: assms(1) [symmetric] set_sort)
  then show "(n, w) \<in> set xs" by auto
  have mem: "(m, v) \<in> set ((n, w) # rest)" using assms(2) set by simp
  have "sorted (map ?f ((n, w) # rest))" by (simp only: assms(1) [symmetric] sorted_sort_key)
  with mem show "v \<le> w" by auto
  show "n \<le> m" if "v = w"
  proof -
    have "filter (\<lambda>y. ?f y = - w) ?ys = filter (\<lambda>y. ?f y = - w) ((n, w) # rest)"
      by (simp only: assms(1) [symmetric] sort_key_stable)
    then have eq: "filter (\<lambda>y. ?f y = - w) ?ys = (n, w) # filter (\<lambda>y. ?f y = - w) rest" by simp
    have "sorted (map fst (filter (\<lambda>y. ?f y = - w) ?ys))" by (rule sorted_filter) simp
    then have "sorted (map fst ((n, w) # filter (\<lambda>y. ?f y = - w) rest))" by (simp only: eq)
    with mem that show ?thesis by auto
  qed
qed

lemma round_half_even_error: "\<bar>of_int (round_half_even x) - x\<bar> \<le> 1/2"
proof -
  have "of_int \<lfloor>x\<rfloor> \<le> x" "x < of_int \<lfloor>x\<rfloor> + 1" using floor_correct [of x] by simp_all
  then show ?thesis by (auto simp: round_half_even_def Let_def abs_le_iff)
qed

lemma round4_error: "\<bar>round4 x - x\<bar> \<le> 1/20000"
  using round_half_even_error [of "x * 10000"] by (simp add: round4_def abs_le_iff field_simps)

lemma sum_error:
  assumes "\<And>x. x \<in> set xs \<Longrightarrow> \<bar>g x - f x\<bar> \<le> (e::rat)"
  shows "\<bar>sum_list (map g xs) - sum_list (map f xs)\<bar> \<le> of_nat (length xs) * e"
  using assms
proof (induction xs)
  case (Cons x xs)
  have "\<bar>g x - f x\<bar> \<le> e" "\<bar>sum_list (map g xs) - sum_list (map f xs)\<bar> \<le> of_nat (length xs) * e"
    using Cons by simp_all
  then show ?case by (simp add: algebra_simps abs_le_iff)
qed simp

lemma sum_list_shares: "sum_list (map (\<lambda>x. f x / c) xs) = sum_list (map f xs) / (c::rat)"
  by (induction xs) (simp_all add: add_divide_distrib)

text \<open>The winning strategy of a decision voted for it, no strategy that did has a greater
  weight, and among equally heavy ones it is the first by name; there is none only if nobody voted
  for the action.  The attributions name exactly the strategies in favour and add up to one but
  for the rounding to four digits.\<close>

theorem attribution_sound:
  shows "(resolve_winning_strategy d = None \<longleftrightarrow> (\<forall>n. (n, True) \<notin> set (dn_votes d))) \<and>
    (\<forall>n. resolve_winning_strategy d = Some n \<longrightarrow>
       (n, True) \<in> set (dn_votes d) \<and>
       (\<forall>m. (m, True) \<in> set (dn_votes d) \<longrightarrow>
          vote_weight d m < vote_weight d n \<or> (vote_weight d m = vote_weight d n \<and> n \<le> m))) \<and>
    (\<forall>attrs. resolve_strategy_attributions d = Some attrs \<longrightarrow>
       map fst attrs = map fst (filter snd (dn_votes d)) \<and>
       \<bar>sum_list (map snd attrs) - 1\<bar> \<le> of_nat (length attrs) / 20000)"
proof (intro conjI allI impI)
  let ?s = "sort_key (\<lambda>(n, w). - w) (sort_key fst (positive_votes d))"
  have "?s = [] \<longleftrightarrow> positive_votes d = []" by (metis length_0_conv length_sort)
  also have "\<dots> \<longleftrightarrow> (\<forall>n. (n, True) \<notin> set (dn_votes d))"
    by (auto simp: positive_votes_def filter_empty_conv)
  finally show "resolve_winning_strategy d = None \<longleftrightarrow> (\<forall>n. (n, True) \<notin> set (dn_votes d))"
    by (auto simp: resolve_winning_strategy_def split: list.splits)
next
  fix n assume "resolve_winning_strategy d = Some n"
  then obtain w rest where s: "sort_key (\<lambda>(n, w). - w) (sort_key fst (positive_votes d)) = (n, w) # rest"
    by (auto simp: resolve_winning_strategy_def split: list.splits)
  then have "(n, w) \<in> set (positive_votes d)" by (metis list.set_intros(1) set_sort)
  then have n: "(n, True) \<in> set (dn_votes d)" and w: "w = vote_weight d n"
    by (simp_all add: positive_votes_mem)
  show "(n, True) \<in> set (dn_votes d)" by (rule n)
  fix m assume "(m, True) \<in> set (dn_votes d)"
  then have m: "(m, vote_weight d m) \<in> set (positive_votes d)" by (simp add: positive_votes_mem)
  show "vote_weight d m < vote_weight d n \<or> (vote_weight d m = vote_weight d n \<and> n \<le> m)"
    using sorted_by_both_head(2,3) [OF s m] w by fastforce
next
  fix attrs assume a: "resolve_strategy_attributions d = Some attrs"
  let ?t = "sum_list (map snd (positive_votes d))"
  have t: "0 < ?t" and attrs: "attrs = map (\<lambda>(n, w). (n, round4 (w / ?t))) (positive_votes d)"
    using a by (auto simp: resolve_strategy_attributions_def Let_def split: if_splits)
  show "map fst attrs = map fst (filter snd (dn_votes d))"
    by (simp add: attrs positive_votes_def split_beta comp_def)
  have "\<bar>sum_list (map (\<lambda>x. round4 (snd x / ?t)) (positive_votes d))
      - sum_list (map (\<lambda>x. snd x / ?t) (positive_votes d))\<bar>
      \<le> of_nat (length (positive_votes d)) * (1/20000)"
    by (rule sum_error) (rule round4_error)
  then show "\<bar>sum_list (map snd attrs) - 1\<bar> \<le> of_nat (length attrs) / 20000"
    using t by (simp add: attrs split_beta comp_def sum_list_shares)
qed

theorem attribution_sound_witness:
  "let d = \<lparr>dn_trade_action = BUY, dn_ticker_symbol = ''BTC_USD'', dn_votes = [(''b'', True), (''a'', True), (''c'', False)],
       dn_weights = [(''b'', 1), (''a'', 1), (''c'', 2)], dn_factor = 1\<rparr>;
     attrs = [(''b'', 1/2), (''a'', 1/2)]
   in resolve_winning_strategy d = Some ''a'' \<and> resolve_strategy_attributions d = Some attrs \<and>
      \<bar>sum_list (map snd attrs) - 1\<bar> \<le> of_nat (length attrs) / (20000::rat)"
proof -
  let ?d = "\<lparr>dn_trade_action = BUY, dn_ticker_symbol = ''BTC_USD'', dn_votes = [(''b'', True), (''a'', True), (''c'', False)],
       dn_weights = [(''b'', 1), (''a'', 1), (''c'', 2)], dn_factor = 1\<rparr>"
  have "resolve_winning_strategy ?d = Some ''a''" "resolve_strategy_attributions ?d = Some [(''b'', 1/2), (''a'', 1/2)]"
    by code_simp+
  then show ?thesis using attribution_sound [of ?d] unfolding Let_def by blast
qed

end
