(* ===== verification/Decisions.thy ===== *)
theory Decisions
  imports Sizing Health
begin

text \<open>
  The record of one trading decision (\<open>src/src/trading/decision/trading_decision.py\<close>) and the
  snapshots the executor builds for it (\<open>_build_*_snapshot\<close> in
  \<open>src/src/trading/trading_executor.py\<close>).  The texts of a sizing snapshot's variables are the
  decimals they denote.
\<close>

section \<open>Data\<close>

datatype decision_status = EXECUTED | DECISION_REJECTED | SKIPPED

datatype rejected_reason =
    NO_QUORUM | GUARD_HALT | RISK_REJECTED | BELOW_MIN_QUANTITY | INSUFFICIENT_BALANCE
  | NEGATIVE_EDGE | OUTSTANDING_INTENT | QUANTITY_CALCULATION_FAILED | HEALTH_HALT

record market_snapshot =
  ks_close_price :: decimal
  ks_bid_price :: "decimal option"
  ks_ask_price :: "decimal option"
  ks_spread_pct :: "decimal option"
  ks_candles_count :: nat

record regime_snapshot =
  gs_regime :: string
  gs_volatility :: rat
  gs_trend_strength :: rat
  gs_spread :: rat
  gs_exposure_multiplier :: rat

record consensus_snapshot =
  cs_action :: trade_action
  cs_votes :: "(string, bool) dict"
  cs_weights :: "(string, rat) dict"
  cs_factor :: rat
  cs_quorum :: bool
  cs_quorum_margin :: rat
  cs_vote_ratio :: rat
  cs_winning_strategy :: "string option"
  cs_strategy_attributions :: "attributions option"

record sizing_snapshot =
  zs_formula :: "string option"
  zs_calculated_quantity :: "decimal option"
  zs_min_quantity :: decimal
  zs_final_quantity :: "decimal option"
  zs_variables :: "(string, decimal) dict"

record portfolio_snapshot =
  fs_available_cash :: decimal
  fs_total_equity :: decimal
  fs_current_exposure_pct :: rat
  fs_asset_exposure_pct :: rat
  fs_drawdown_pct :: rat

text \<open>The executor sets only these fields of a \<open>RiskEvaluation\<close>; the reason of a refused risk
  check is the list of violations.\<close>

datatype risk_reason = NoConsensusQuorum | NegativeEdgeAfterFees | CostExceedsBalance | RiskViolations "violation list"

record risk_evaluation =
  re_passed :: bool
  re_rejection_reason :: "risk_reason option"

record health_evaluation =
  he_state :: health_state
  he_allowed :: bool
  he_active_conditions :: "health_condition list"

record trading_decision =
  tn_ticker_symbol :: string
  tn_exchange :: string
  tn_trade_action :: trade_action
  tn_market_snapshot :: market_snapshot
  tn_regime_snapshot :: regime_snapshot
  tn_consensus_snapshot :: consensus_snapshot
  tn_sizing_snapshot :: sizing_snapshot
  tn_portfolio_snapshot :: portfolio_snapshot
  tn_risk_evaluation :: risk_evaluation
  tn_decision_id :: string
  tn_timestamp :: timestamp
  tn_status :: decision_status
  tn_rejection_reason :: "rejected_reason option"
  tn_commit_hash :: "string option"
  tn_winning_strategy :: "string option"
  tn_strategy_attributions :: "attributions option"
  tn_resulting_order_id :: "string option"
  tn_health_evaluation :: "health_evaluation option"

section \<open>Snapshots\<close>

definition build_market_snapshot :: "market_data \<Rightarrow> candle list \<Rightarrow> market_snapshot" where
  "build_market_snapshot md candles =
     \<lparr>ks_close_price = md_close_price md, ks_bid_price = md_bid_price md,
      ks_ask_price = md_ask_price md,
      ks_spread_pct =
        (case (md_bid_price md, md_ask_price md) of
           (Some bid, Some ask) \<Rightarrow> if ask > 0 then Some ((ask - bid) / ask) else None
         | _ \<Rightarrow> None),
      ks_candles_count = length candles\<rparr>"

definition build_regime_snapshot :: "regime_metrics \<Rightarrow> regime_snapshot" where
  "build_regime_snapshot m =
     \<lparr>gs_regime = regime_value (rm_regime m), gs_volatility = rm_volatility m,
      gs_trend_strength = rm_trend_strength m, gs_spread = rm_spread m,
      gs_exposure_multiplier = get_exposure_multiplier (rm_regime m)\<rparr>"

definition build_consensus_snapshot :: "trade_action \<Rightarrow> consensus_decision option \<Rightarrow> consensus_snapshot" where
  "build_consensus_snapshot act decision =
     (case decision of
        None \<Rightarrow>
          \<lparr>cs_action = act, cs_votes = [], cs_weights = [], cs_factor = 1, cs_quorum = False,
           cs_quorum_margin = 0, cs_vote_ratio = 0, cs_winning_strategy = None,
           cs_strategy_attributions = None\<rparr>
      | Some d \<Rightarrow>
          \<lparr>cs_action = dn_trade_action d, cs_votes = dn_votes d, cs_weights = dn_weights d,
           cs_factor = dn_factor d, cs_quorum = quorum d, cs_quorum_margin = quorum_margin d,
           cs_vote_ratio = vote_ratio d, cs_winning_strategy = resolve_winning_strategy d,
           cs_strategy_attributions = resolve_strategy_attributions d\<rparr>)"

definition min_sizing :: "trade_asset \<Rightarrow> sizing_snapshot" where
  "min_sizing a =
     \<lparr>zs_formula = None, zs_calculated_quantity = None, zs_min_quantity = ta_min_quantity a,
      zs_final_quantity = None, zs_variables = []\<rparr>"

definition portfolio_snapshot_of :: "risk_metrics \<Rightarrow> portfolio_snapshot" where
  "portfolio_snapshot_of m =
     \<lparr>fs_available_cash = rk_available_cash m, fs_total_equity = rk_total_equity m,
      fs_current_exposure_pct = rk_total_exposure_pct m,
      fs_asset_exposure_pct = rk_asset_concentration_pct m, fs_drawdown_pct = rk_drawdown_pct m\<rparr>"

definition health_evaluation_of :: "health_monitor \<Rightarrow> bool \<Rightarrow> health_evaluation" where
  "health_evaluation_of hm allowed =
     (let snap = sm_snapshot (hm_machine hm)
      in \<lparr>he_state = hs_state snap, he_allowed = allowed,
          he_active_conditions = map ac_condition (hs_active_conditions snap)\<rparr>)"

end
