(* ===== verification/Executor.thy ===== *)
theory Executor
  imports Decisions Markets Orders
begin

text \<open>
  The trading executor (\<open>src/src/trading/trading_executor.py\<close>): for each asset it refreshes
  balance and market data, asks guards and consensus, checks intent, execution edge, size, balance,
  portfolio risk and health, and submits an order.  It composes the managers of the other theories.

  All managers exist and share one event bus, as the manager factory builds them; what the bus
  delivers synchronously to the session, the risk manager and the activity tracker happens here
  when an event is published.  The session is the one the order manager holds.  What the outside
  world answers while one asset is processed is the record \<open>executor_env\<close>: a call made twice
  during that time gets the same answer, and the clock is read once.  Processing one asset for one
  action is one step.
\<close>

section \<open>State\<close>

datatype trading_event =
    BalanceChanged balance_changed_event
  | MarketDataPublished string market_data
  | MarketStateChanged string decimal timestamp
  | ConsensusEvaluated consensus_event
  | StrategyEvaluated string timestamp
  | SignalGenerated string trade_action timestamp
  | DecisionRejected string trade_action rejected_reason
  | TradingDecisionCreated trading_decision
  | OrderSubmitted string order

record executor_state =
  xs_assets :: "trade_asset list"
  xs_strategies :: "strategy list"
  xs_sizer :: position_sizer
  xs_orders :: order_manager
  xs_accounts :: account_manager
  xs_fees :: fees_manager
  xs_markets :: market_data_manager
  xs_consensus :: consensus_manager
  xs_protection :: protection_manager
  xs_risk :: risk_manager
  xs_health :: health_monitor
  xs_activity :: activity_tracker
  xs_decisions :: "trading_decision list"
  xs_activity_queue :: "order list"
  xs_outbox :: "trading_event list"
  xs_next_id :: nat

record executor_env =
  xv_now :: timestamp
  xv_py_hash :: "string \<Rightarrow> int"
  xv_fresh :: "nat \<Rightarrow> string"
  xv_head :: "string option"
  xv_rest_balances :: rest_balances
  xv_rest_market :: "string \<Rightarrow> string \<Rightarrow> market_data result"
  xv_rest_candles :: "string \<Rightarrow> string \<Rightarrow> candle list result"
  xv_instrument_fees :: "string \<Rightarrow> string \<Rightarrow> fees result"
  xv_utcoffset :: "string \<Rightarrow> rat \<Rightarrow> rat"
  xv_parse :: py_parser
  xv_oddc :: odd_calls
  xv_str :: "xval \<Rightarrow> string"
  xv_decimal :: "string \<Rightarrow> decimal option"
  xv_critical :: "string \<Rightarrow> string \<Rightarrow> bool"
  xv_load_db :: db_health
  xv_place_ok :: bool
  xv_db1 :: db_health
  xv_db2 :: db_health
  xv_decision_saved :: bool

text \<open>Formulas: which ones the parser accepts, the vote of an expression, and the size a formula yields.\<close>

abbreviation xv_valid_formula :: "executor_env \<Rightarrow> string \<Rightarrow> bool" where
  "xv_valid_formula env \<equiv> formula_valid (xv_parse env)"

abbreviation xv_expression :: "executor_env \<Rightarrow> expr_oracle" where
  "xv_expression env \<equiv> expression_vote (xv_parse env) (xv_oddc env) (xv_str env)"

definition sizing_value ::
  "executor_env \<Rightarrow> string \<Rightarrow> trade_asset \<Rightarrow> market_data \<Rightarrow> consensus_decision \<Rightarrow> account_balance \<Rightarrow>
     trading_context \<Rightarrow> candle list \<Rightarrow> risk_metrics \<Rightarrow> effective_config \<Rightarrow> decimal option result" where
  "sizing_value env f a md d bal ctx candles rk cfg =
     res_bind (evaluate_formula (xv_parse env) f
         (create_context (xv_oddc env) (xv_str env) (ta_min_quantity a) (ta_quote_decimals a) md
            (ab_available_balance bal) ctx (Some d) candles (Some rk) (Some cfg)))
       (as_quantity (xv_decimal env))"

abbreviation session_of :: "executor_state \<Rightarrow> session_manager" where
  "session_of s \<equiv> om_session (xs_orders s)"

definition set_session :: "session_manager \<Rightarrow> executor_state \<Rightarrow> executor_state" where
  "set_session sm s = s\<lparr>xs_orders := (xs_orders s)\<lparr>om_session := sm\<rparr>\<rparr>"

abbreviation key_of :: "executor_env \<Rightarrow> trade_asset \<Rightarrow> int" where
  "key_of env a \<equiv> asset_key (xv_py_hash env) a"

text \<open>Continue unless an exception was raised; state changes made before it stay.\<close>

definition and_then ::
  "'s \<times> 'a result \<Rightarrow> ('s \<Rightarrow> 'a \<Rightarrow> 's \<times> 'b result) \<Rightarrow> 's \<times> 'b result" where
  "and_then r f = (case r of (s, Inl e) \<Rightarrow> (s, Inl e) | (s, Inr x) \<Rightarrow> f s x)"

section \<open>Events\<close>

fun on_event :: "trading_event \<Rightarrow> executor_state \<Rightarrow> executor_state" where
  "on_event (BalanceChanged b) s =
     (set_session (on_balance_changed (session_of s) (bc_exchange b) (bc_currency b) (bc_available b)) s)
       \<lparr>xs_risk := portfolio_on_balance_changed (xs_risk s) (bc_exchange b) (bc_currency b) (bc_available b)\<rparr>"
| "on_event (MarketDataPublished ticker md) s =
     s\<lparr>xs_risk := on_market_data (xs_risk s) ticker md,
       xs_activity := on_activity (xs_activity s) (OnMarketData ticker (md_timestamp md))\<rparr>"
| "on_event (MarketStateChanged ticker price t) s =
     s\<lparr>xs_activity := on_activity (xs_activity s) (OnMarketStateChanged ticker t)\<rparr>"
| "on_event (StrategyEvaluated ticker t) s =
     s\<lparr>xs_activity := on_activity (xs_activity s) (OnStrategyEvaluated ticker t)\<rparr>"
| "on_event (SignalGenerated ticker act t) s =
     s\<lparr>xs_activity := on_activity (xs_activity s) (OnSignalGenerated ticker t)\<rparr>"
| "on_event (OrderSubmitted ticker ord) s =
     s\<lparr>xs_risk := on_order_submitted (xs_risk s) ord,
       xs_activity := on_activity (xs_activity s) (OnOrderSubmitted ticker ord)\<rparr>"
| "on_event (ConsensusEvaluated e) s = s"
| "on_event (DecisionRejected ticker act reason) s = s"
| "on_event (TradingDecisionCreated d) s = s"

definition publish_event :: "trading_event \<Rightarrow> executor_state \<Rightarrow> executor_state" where
  "publish_event e s = (let s' = on_event e s in s'\<lparr>xs_outbox := xs_outbox s' @ [e]\<rparr>)"

definition publish_all :: "trading_event list \<Rightarrow> executor_state \<Rightarrow> executor_state" where
  "publish_all es s = foldl (\<lambda>s e. publish_event e s) s es"

section \<open>Reading balances and markets\<close>

definition quote_balance ::
  "executor_env \<Rightarrow> trade_asset \<Rightarrow> executor_state \<Rightarrow> executor_state \<times> account_balance result" where
  "quote_balance env a s =
     (let (am, evs, r) = get_quote_balance (xv_rest_balances env) (xs_accounts s) a (a_exchange a) (xv_now env)
      in (publish_all (map BalanceChanged evs) (s\<lparr>xs_accounts := am\<rparr>), r))"

definition base_balance ::
  "executor_env \<Rightarrow> trade_asset \<Rightarrow> executor_state \<Rightarrow> executor_state \<times> account_balance result" where
  "base_balance env a s =
     (let (am, evs, r) = get_base_balance (xv_rest_balances env) (xs_accounts s) a (a_exchange a) (xv_now env)
      in (publish_all (map BalanceChanged evs) (s\<lparr>xs_accounts := am\<rparr>), r))"

text \<open>
  \<open>account_manager.init_asset_balance\<close> when the asset has no context.  The balance events are
  delivered before the session creates the context, so the session is computed from the one that
  has received them; accounts and events do not depend on the session.
\<close>

definition ensure_context ::
  "executor_env \<Rightarrow> trade_asset \<Rightarrow> executor_state \<Rightarrow> executor_state \<times> bool" where
  "ensure_context env a s =
     (if get_trading_context (session_of s) (key_of env a) \<noteq> None then (s, True)
      else
        let init = am_init_asset_balance (xv_rest_balances env) (xv_rest_market env) (xv_py_hash env)
                     (xv_fresh env (xs_next_id s)) (xs_accounts s);
            (am, _, evs, _) = init (session_of s) (asset.truncate a) (xv_now env);
            s1 = publish_all (map BalanceChanged evs)
                   (s\<lparr>xs_accounts := am, xs_next_id := xs_next_id s + 1\<rparr>);
            (_, sm, _, ok) = init (session_of s1) (asset.truncate a) (xv_now env)
        in (set_session sm s1, ok))"

fun market_event_of :: "market_event \<Rightarrow> trading_event" where
  "market_event_of (MarketDataEvent ticker md) = MarketDataPublished ticker md"

text \<open>The market data manager never answers \<open>None\<close> (\<open>market_data_is_newest\<close>); the branch is the
  attribute error such an answer would raise.\<close>

definition read_market_data ::
  "executor_env \<Rightarrow> trade_asset \<Rightarrow> executor_state \<Rightarrow> executor_state \<times> market_data result" where
  "read_market_data env a s =
     (let (mm, evs, r) = get_market_data (xv_rest_market env (a_exchange a) (ticker_symbol a))
                           (key_of env a) (xs_markets s)
      in (publish_all (map market_event_of evs) (s\<lparr>xs_markets := mm\<rparr>),
          res_bind r (\<lambda>md. case md of Some m \<Rightarrow> Inr m | None \<Rightarrow> Inl AttributeError)))"

definition read_candles ::
  "executor_env \<Rightarrow> trade_asset \<Rightarrow> executor_state \<Rightarrow> executor_state \<times> candle list result" where
  "read_candles env a s =
     (let (mm, r) = get_candles (xv_rest_candles env (a_exchange a) (ticker_symbol a)) (key_of env a)
                      (xs_markets s)
      in (s\<lparr>xs_markets := mm\<rparr>, r))"

definition prepare_trade_context ::
  "executor_env \<Rightarrow> trade_asset \<Rightarrow> executor_state \<Rightarrow>
     executor_state \<times> (account_balance \<times> market_data \<times> candle list \<times> fees) result" where
  "prepare_trade_context env a s =
     and_then (quote_balance env a s) (\<lambda>s bal.
       and_then (read_market_data env a
           (set_session (update_available_balance (session_of s) (key_of env a) (ab_available_balance bal)) s))
         (\<lambda>s md.
            and_then (s, get_instrument_fees (xv_instrument_fees env) (xs_fees s) (a_exchange a) (ticker_symbol a))
              (\<lambda>s fees.
                 and_then (read_candles env a s) (\<lambda>s candles.
                   (publish_all [MarketStateChanged (ticker_symbol a) (md_close_price md) (md_timestamp md),
                                 MarketDataPublished (ticker_symbol a) md]
                      (s\<lparr>xs_risk := update_market_data
                           (update_cash_balance (xs_risk s) (a_exchange a) (a_quote_ticker_symbol a)
                              (ab_available_balance bal))
                           (risk_asset.truncate a) md\<rparr>),
                    Inr (bal, md, candles, fees))))))"

section \<open>Decisions\<close>

definition evaluate_decision ::
  "executor_env \<Rightarrow> trade_asset \<Rightarrow> trade_action \<Rightarrow> trading_context \<Rightarrow> market_data \<Rightarrow> candle list \<Rightarrow>
     executor_state \<Rightarrow> executor_state \<times> consensus_decision option result" where
  "evaluate_decision env a act ctx md candles s =
     and_then (s, protection_can_trade (xv_critical env) (xs_protection s) (key_of env a) act ctx md)
       (\<lambda>s ok.
          if \<not> ok then (publish_event (DecisionRejected (ticker_symbol a) act GUARD_HALT) s, Inr None)
          else
            and_then (s, consensus_evaluate (xv_utcoffset env) (xv_expression env) (xs_consensus s) act
                           (ticker_symbol a) ctx (Some md) candles (xv_now env))
              (\<lambda>s (d, evs).
                 (publish_all
                    (map ConsensusEvaluated evs
                     @ [StrategyEvaluated (ticker_symbol a) (md_timestamp md),
                        if quorum d then SignalGenerated (ticker_symbol a) act (md_timestamp md)
                        else DecisionRejected (ticker_symbol a) act NO_QUORUM]) s,
                  Inr (Some d))))"

definition record_decision :: "executor_env \<Rightarrow> trading_decision \<Rightarrow> executor_state \<Rightarrow> executor_state" where
  "record_decision env d s =
     publish_event (TradingDecisionCreated d)
       (if xv_decision_saved env then s\<lparr>xs_decisions := xs_decisions s @ [d]\<rparr> else s)"

text \<open>
  What every \<open>TradingDecision(...)\<close> of one run of the pipeline has in common; each path builds
  exactly one object, so its identifier is drawn once.
\<close>

definition draft_decision ::
  "executor_env \<Rightarrow> trade_asset \<Rightarrow> trade_action \<Rightarrow> market_data \<Rightarrow> candle list \<Rightarrow> regime_metrics \<Rightarrow>
     risk_metrics \<Rightarrow> string \<Rightarrow> consensus_decision option \<Rightarrow> executor_state \<Rightarrow> trading_decision" where
  "draft_decision env a act md candles regime rk commit_hash d s =
     \<lparr>tn_ticker_symbol = ticker_symbol a, tn_exchange = a_exchange a, tn_trade_action = act,
      tn_market_snapshot = build_market_snapshot md candles,
      tn_regime_snapshot = build_regime_snapshot regime,
      tn_consensus_snapshot = build_consensus_snapshot act d,
      tn_sizing_snapshot = min_sizing a, tn_portfolio_snapshot = portfolio_snapshot_of rk,
      tn_risk_evaluation = \<lparr>re_passed = True, re_rejection_reason = None\<rparr>,
      tn_decision_id = ''dec_'' @ xv_fresh env (xs_next_id s), tn_timestamp = xv_now env,
      tn_status = EXECUTED, tn_rejection_reason = None, tn_commit_hash = Some commit_hash,
      tn_winning_strategy = None, tn_strategy_attributions = None, tn_resulting_order_id = None,
      tn_health_evaluation = None\<rparr>"

definition with_winner :: "consensus_decision \<Rightarrow> trading_decision \<Rightarrow> trading_decision" where
  "with_winner d t =
     t\<lparr>tn_winning_strategy := resolve_winning_strategy d,
       tn_strategy_attributions := resolve_strategy_attributions d\<rparr>"

definition rejected ::
  "rejected_reason \<Rightarrow> risk_reason option \<Rightarrow> trading_decision \<Rightarrow> trading_decision" where
  "rejected reason risk t =
     t\<lparr>tn_status := DECISION_REJECTED, tn_rejection_reason := Some reason,
       tn_risk_evaluation := \<lparr>re_passed = (risk = None), re_rejection_reason = risk\<rparr>\<rparr>"

text \<open>Publishing the refusal and recording the decision, where the source does both.\<close>

definition refuse ::
  "executor_env \<Rightarrow> trade_asset \<Rightarrow> trade_action \<Rightarrow> rejected_reason \<Rightarrow> trading_decision \<Rightarrow> executor_state \<Rightarrow>
     executor_state" where
  "refuse env a act reason t s =
     record_decision env t (publish_event (DecisionRejected (ticker_symbol a) act reason) s)"

definition risk_metrics_step :: "trade_asset \<Rightarrow> executor_state \<Rightarrow> executor_state \<times> risk_metrics" where
  "risk_metrics_step a s =
     (let (rm, rk) = get_risk_metrics (xs_risk s) (risk_asset.truncate a) in (s\<lparr>xs_risk := rm\<rparr>, rk))"

text \<open>\<open>_calculate_quantity\<close> of the executor: it reads balance, context and risk again.\<close>

definition executor_quantity ::
  "executor_env \<Rightarrow> trade_asset \<Rightarrow> market_data \<Rightarrow> consensus_decision \<Rightarrow> candle list \<Rightarrow> market_regime \<Rightarrow>
     executor_state \<Rightarrow> executor_state \<times> decimal result" where
  "executor_quantity env a md d candles regime s =
     and_then (quote_balance env a s) (\<lambda>s bal.
       let (s1, rk) = risk_metrics_step a s;
           cfg = resolve_policy (pm_config (xs_risk s1)) (risk_asset.truncate a) (Some regime)
       in (s1, calculate_quantity (xv_valid_formula env) (xv_py_hash env)
                 (\<lambda>p c. sizing_value env p a md d bal c candles rk cfg) (xs_sizer s1) a
                 (get_trading_context (session_of s1) (key_of env a))))"

section \<open>Submission\<close>

definition new_order ::
  "executor_env \<Rightarrow> trade_asset \<Rightarrow> trade_action \<Rightarrow> decimal \<Rightarrow> decimal \<Rightarrow> market_data \<Rightarrow> consensus_decision \<Rightarrow>
     trading_decision \<Rightarrow> executor_state \<Rightarrow> order" where
  "new_order env a act price quantity md d t s =
     \<lparr>o_uuid = xv_fresh env (xs_next_id s), o_provider_name = a_exchange a,
      o_ticker_symbol = ticker_symbol a, o_price = price, o_quantity = quantity,
      o_trade_action = act, o_created_time = md_timestamp md,
      o_commit_hash = Some (get_current_commit_hash (session_of s) (xv_head env)),
      o_executed_time = None, o_status = Some PENDING, o_fees = None, o_fill_price = None,
      o_winning_strategy = resolve_winning_strategy d, o_strategy_votes = format_strategy_votes d,
      o_strategy_attributions = resolve_strategy_attributions d, o_slippage = None,
      o_decision_id = Some (tn_decision_id t), o_regime = Some (gs_regime (tn_regime_snapshot t))\<rparr>"

text \<open>\<open>open_order\<close> may raise (synchronous execution); nothing after it happens then.\<close>

definition submit_order ::
  "executor_env \<Rightarrow> trade_asset \<Rightarrow> trade_action \<Rightarrow> decimal \<Rightarrow> decimal \<Rightarrow> market_data \<Rightarrow> consensus_decision \<Rightarrow>
     trading_decision \<Rightarrow> executor_state \<Rightarrow> executor_state \<times> unit result" where
  "submit_order env a act price quantity md d t s =
     (case open_order (xv_head env) (xv_place_ok env) (xv_db1 env) (xv_db2 env) (xs_orders s)
             (new_order env a act price quantity md d t s) of
        (om, ord, Inl e) \<Rightarrow> (s\<lparr>xs_orders := om, xs_next_id := xs_next_id s + 1\<rparr>, Inl e)
      | (om, ord, Inr _) \<Rightarrow>
          (let s1 = record_decision env (t\<lparr>tn_resulting_order_id := Some (o_uuid ord)\<rparr>)
                      (s\<lparr>xs_orders := om, xs_next_id := xs_next_id s + 1\<rparr>);
               s2 = (if act = BUY
                     then s1\<lparr>xs_risk := fst (reserve_order_cash (xs_risk s1) (risk_asset.truncate a)
                                              (o_uuid ord) (price * quantity))\<rparr>
                     else s1);
               s3 = s2\<lparr>xs_activity_queue := xs_activity_queue s2 @ [ord]\<rparr>
           in (publish_event (OrderSubmitted (ticker_symbol a) ord) s3, Inr ())))"

section \<open>Buying\<close>

definition annotate_context ::
  "executor_env \<Rightarrow> trade_asset \<Rightarrow> regime_metrics \<Rightarrow> executor_state \<Rightarrow> executor_state" where
  "annotate_context env a m s =
     (let (s1, rk) = risk_metrics_step a s
      in set_session
           (modify_context (key_of env a)
              (\<lambda>c. c\<lparr>tc_regime := Some (regime_value (rm_regime m)),
                     tc_regime_volatility := Some (rm_volatility m),
                     tc_regime_trend_strength := Some (rm_trend_strength m),
                     tc_regime_liquidity := Some (rm_liquidity m),
                     tc_regime_spread := Some (rm_spread m),
                     tc_portfolio_total_exposure := Some (rk_total_exposure_pct rk),
                     tc_portfolio_drawdown := Some (rk_drawdown_pct rk),
                     tc_portfolio_cash := Some (rk_available_cash rk),
                     tc_portfolio_equity := Some (rk_total_equity rk)\<rparr>) (session_of s1)) s1)"

definition sized :: "string option \<Rightarrow> trade_asset \<Rightarrow> decimal \<Rightarrow> (string, decimal) dict \<Rightarrow> trading_decision \<Rightarrow> trading_decision" where
  "sized formula a quantity vars t =
     t\<lparr>tn_sizing_snapshot :=
         \<lparr>zs_formula = formula, zs_calculated_quantity = Some quantity,
          zs_min_quantity = ta_min_quantity a, zs_final_quantity = Some quantity, zs_variables = vars\<rparr>\<rparr>"

text \<open>From the quantity on: balance, portfolio risk, health, submission.\<close>

definition buy_quantity ::
  "executor_env \<Rightarrow> trade_asset \<Rightarrow> account_balance \<Rightarrow> market_data \<Rightarrow> market_regime \<Rightarrow> decimal \<Rightarrow> decimal \<Rightarrow>
     consensus_decision \<Rightarrow> trading_decision \<Rightarrow> executor_state \<Rightarrow> executor_state \<times> unit result" where
  "buy_quantity env a bal md regime price quantity d t0 s =
     and_then (s, get_parser (xv_valid_formula env) (xv_py_hash env) (xs_sizer s) a) (\<lambda>s parser.
       let cost = price * quantity;
           t = sized parser a quantity [(''order_cost'', cost), (''price'', price)] t0
       in if cost > ab_available_balance bal
          then (refuse env a BUY INSUFFICIENT_BALANCE
                  (rejected INSUFFICIENT_BALANCE (Some CostExceedsBalance) t) s, Inr ())
          else
            let (rm, ok, vs) = risk_can_trade (xs_risk s) (risk_asset.truncate a) BUY cost (Some md) (Some regime);
                s1 = s\<lparr>xs_risk := rm\<rparr>
            in if \<not> ok
               then (refuse env a BUY RISK_REJECTED
                       (rejected RISK_REJECTED (Some (RiskViolations vs)) t) s1, Inr ())
               else
                 let allowed = has_permission (xs_health s1) (asset_scope (ticker_symbol a)) NEW_ORDERS
                                 (Some (a_exchange a)) (Some (a_quote_ticker_symbol a));
                     t1 = t\<lparr>tn_health_evaluation := Some (health_evaluation_of (xs_health s1) allowed)\<rparr>
                 in if \<not> allowed
                    then (refuse env a BUY HEALTH_HALT (rejected HEALTH_HALT None t1) s1, Inr ())
                    else submit_order env a BUY price quantity md d t1 s1)"

text \<open>With a decision in favour: intent, execution edge, quantity.\<close>

definition buy_with_quorum ::
  "executor_env \<Rightarrow> trade_asset \<Rightarrow> account_balance \<Rightarrow> market_data \<Rightarrow> candle list \<Rightarrow> fees \<Rightarrow> market_regime \<Rightarrow>
     consensus_decision \<Rightarrow> trading_decision \<Rightarrow> executor_state \<Rightarrow> executor_state \<times> unit result" where
  "buy_with_quorum env a bal md candles fees regime d t0 s =
     (let price = calculate_price a md fees;
          t = with_winner d t0
      in if has_outstanding_intent (xv_load_db env) (xs_orders s) (ticker_symbol a) (Some BUY)
         then (refuse env a BUY OUTSTANDING_INTENT
                 (t\<lparr>tn_status := SKIPPED, tn_rejection_reason := Some OUTSTANDING_INTENT\<rparr>) s, Inr ())
         else if \<not> has_execution_edge md fees
         then (refuse env a BUY NEGATIVE_EDGE (rejected NEGATIVE_EDGE (Some NegativeEdgeAfterFees) t) s, Inr ())
         else and_then (executor_quantity env a md d candles regime s)
                (\<lambda>s quantity. buy_quantity env a bal md regime price quantity d t s))"

definition buy_decided ::
  "executor_env \<Rightarrow> trade_asset \<Rightarrow> account_balance \<Rightarrow> market_data \<Rightarrow> candle list \<Rightarrow> fees \<Rightarrow> regime_metrics \<Rightarrow>
     risk_metrics \<Rightarrow> string \<Rightarrow> executor_state \<Rightarrow> consensus_decision option \<Rightarrow> executor_state \<times> unit result" where
  "buy_decided env a bal md candles fees regime rk commit_hash s decision =
     (let t = draft_decision env a BUY md candles regime rk commit_hash decision s;
          s1 = s\<lparr>xs_next_id := xs_next_id s + 1\<rparr>;
          no_quorum = (record_decision env (rejected NO_QUORUM (Some NoConsensusQuorum) t) s1, Inr ())
      in case decision of
           None \<Rightarrow> no_quorum
         | Some d \<Rightarrow>
             if \<not> quorum d then no_quorum
             else buy_with_quorum env a bal md candles fees (rm_regime regime) d t s1)"

definition buy_prepared ::
  "executor_env \<Rightarrow> trade_asset \<Rightarrow> executor_state \<Rightarrow> account_balance \<times> market_data \<times> candle list \<times> fees \<Rightarrow>
     executor_state \<times> unit result" where
  "buy_prepared env a s prepared =
     (let (bal, md, candles, fees) = prepared
      in if ab_available_balance bal \<le> 0 then (s, Inr ())
         else case get_trading_context (session_of s) (key_of env a) of
                None \<Rightarrow> (s, Inr ())
              | Some ctx0 \<Rightarrow>
                  let regime = detect default_detector candles (Some md) None;
                      s1 = annotate_context env a regime s;
                      ctx = opt_or (get_trading_context (session_of s1) (key_of env a)) ctx0;
                      s2 = s1\<lparr>xs_risk := update_position (xs_risk s1) (risk_asset.truncate a)
                                           (tc_position_qty ctx)\<rparr>;
                      (s3, rk) = risk_metrics_step a s2;
                      commit_hash = get_current_commit_hash (session_of s3) (xv_head env)
                  in and_then (evaluate_decision env a BUY ctx md candles s3)
                       (buy_decided env a bal md candles fees regime rk commit_hash))"

definition process_buy_asset ::
  "executor_env \<Rightarrow> trade_asset \<Rightarrow> executor_state \<Rightarrow> executor_state \<times> unit result" where
  "process_buy_asset env a s =
     (let (s0, ready) = ensure_context env a s
      in if \<not> ready then (s0, Inr ())
         else and_then (prepare_trade_context env a s0) (buy_prepared env a))"

section \<open>Selling\<close>

definition sell_quantity ::
  "executor_env \<Rightarrow> trade_asset \<Rightarrow> account_balance \<Rightarrow> market_data \<Rightarrow> decimal \<Rightarrow> decimal \<Rightarrow>
     consensus_decision \<Rightarrow> trading_decision \<Rightarrow> executor_state \<Rightarrow> executor_state \<times> unit result" where
  "sell_quantity env a base md price quantity d t0 s =
     (let may = (\<lambda>p. has_permission (xs_health s) (asset_scope (ticker_symbol a)) p
                      (Some (a_exchange a)) (Some (a_quote_ticker_symbol a)));
          allowed = (may REDUCE_POSITIONS \<or> may CLOSE_POSITIONS \<or> may NEW_ORDERS);
          t = (sized None a quantity [(''price'', price)] t0)
                \<lparr>tn_health_evaluation := Some (health_evaluation_of (xs_health s) allowed)\<rparr>
      in if \<not> allowed
         then (refuse env a SELL HEALTH_HALT (rejected HEALTH_HALT None t) s, Inr ())
         else if ab_available_balance base \<ge> quantity
         then submit_order env a SELL price quantity md d t s
         else (s, Inr ()))"

definition sell_decided ::
  "executor_env \<Rightarrow> trade_asset \<Rightarrow> account_balance \<Rightarrow> market_data \<Rightarrow> candle list \<Rightarrow> fees \<Rightarrow> regime_metrics \<Rightarrow>
     risk_metrics \<Rightarrow> string \<Rightarrow> executor_state \<Rightarrow> consensus_decision option \<Rightarrow> executor_state \<times> unit result" where
  "sell_decided env a base md candles fees regime rk commit_hash s decision =
     (case decision of
        None \<Rightarrow> (s, Inr ())
      | Some d \<Rightarrow>
          if \<not> quorum d then (s, Inr ())
          else
            let t = with_winner d (draft_decision env a SELL md candles regime rk commit_hash decision s);
                s1 = s\<lparr>xs_next_id := xs_next_id s + 1\<rparr>
            in if \<not> has_execution_edge md fees
               then (refuse env a SELL NEGATIVE_EDGE
                       (rejected NEGATIVE_EDGE (Some NegativeEdgeAfterFees) t) s1, Inr ())
               else and_then (executor_quantity env a md d candles (rm_regime regime) s1)
                      (\<lambda>s quantity. sell_quantity env a base md (calculate_price a md fees) quantity d t s))"

definition sell_prepared ::
  "executor_env \<Rightarrow> trade_asset \<Rightarrow> trading_context \<Rightarrow> executor_state \<Rightarrow>
     account_balance \<times> market_data \<times> candle list \<times> fees \<Rightarrow> executor_state \<times> unit result" where
  "sell_prepared env a ctx0 s prepared =
     (let (_, md, candles, fees) = prepared
      in and_then (base_balance env a s) (\<lambda>s base.
           let regime = detect default_detector candles (Some md) None;
               (s1, rk) = risk_metrics_step a s;
               commit_hash = get_current_commit_hash (session_of s1) (xv_head env);
               ctx = opt_or (get_trading_context (session_of s1) (key_of env a)) ctx0
           in and_then (evaluate_decision env a SELL ctx md candles s1)
                (sell_decided env a base md candles fees regime rk commit_hash)))"

definition process_sell_asset ::
  "executor_env \<Rightarrow> trade_asset \<Rightarrow> executor_state \<Rightarrow> executor_state \<times> unit result" where
  "process_sell_asset env a s =
     (let (s0, ready) = ensure_context env a s
      in if \<not> ready then (s0, Inr ())
         else case get_trading_context (session_of s0) (key_of env a) of
                None \<Rightarrow> (s0, Inr ())
              | Some ctx0 \<Rightarrow>
                  if tc_open_positions ctx0 = [] then (s0, Inr ())
                  else if has_outstanding_intent (xv_load_db env) (xs_orders s0) (ticker_symbol a) (Some SELL)
                  then (publish_event (DecisionRejected (ticker_symbol a) SELL OUTSTANDING_INTENT) s0, Inr ())
                  else and_then (prepare_trade_context env a s0) (sell_prepared env a ctx0))"

section \<open>Cycles\<close>

text \<open>An exception is logged and the next asset is processed.\<close>

definition create_buy_order ::
  "(trade_asset \<Rightarrow> executor_env) \<Rightarrow> trade_asset list \<Rightarrow> executor_state \<Rightarrow> executor_state" where
  "create_buy_order env assets s =
     foldl (\<lambda>s a. if a_enabled a then fst (process_buy_asset (env a) a s) else s) s assets"

definition create_sell_order ::
  "(trade_asset \<Rightarrow> executor_env) \<Rightarrow> trade_asset list \<Rightarrow> executor_state \<Rightarrow> executor_state" where
  "create_sell_order env assets s =
     foldl (\<lambda>s a. if a_enabled a then fst (process_sell_asset (env a) a s) else s) s assets"

text \<open>
  What other threads do in between: an operation of the order manager, with the order events it
  publishes delivered to the risk manager, the activity tracker and the account manager.
\<close>

fun on_order_event :: "executor_env \<Rightarrow> executor_state \<Rightarrow> order_event \<Rightarrow> executor_state" where
  "on_order_event env s (OrderFilled ticker ord) =
     s\<lparr>xs_risk := on_order_closed (xs_risk s) ord,
       xs_activity := on_activity (xs_activity s) (OnOrderFilled ticker ord)\<rparr>"
| "on_order_event env s (OrderCancelled ticker ord) = s\<lparr>xs_risk := on_order_closed (xs_risk s) ord\<rparr>"
| "on_order_event env s (OrderRejected ticker ord) =
     (let (am, evs) = on_order_rejected (xv_rest_balances env) (xs_accounts s) (o_provider_name ord) (xv_now env)
      in publish_all (map BalanceChanged evs)
           (s\<lparr>xs_risk := on_order_closed (xs_risk s) ord, xs_accounts := am\<rparr>))"
| "on_order_event env s _ = s"

definition order_traffic ::
  "executor_env \<Rightarrow> (nat \<Rightarrow> string) \<Rightarrow> order_op \<Rightarrow> executor_state \<Rightarrow> executor_state" where
  "order_traffic env uuid_of op s =
     (let om = order_step uuid_of (xs_orders s) op;
          evs = drop (length (om_outbox (xs_orders s))) (om_outbox om)
      in foldl (on_order_event env) (s\<lparr>xs_orders := om\<rparr>) evs)"

datatype trading_op =
    BuyAsset executor_env trade_asset
  | SellAsset executor_env trade_asset
  | OrderTraffic executor_env "nat \<Rightarrow> string" order_op

fun trading_step :: "executor_state \<Rightarrow> trading_op \<Rightarrow> executor_state" where
  "trading_step s (BuyAsset env a) = fst (process_buy_asset env a s)"
| "trading_step s (SellAsset env a) = fst (process_sell_asset env a s)"
| "trading_step s (OrderTraffic env uuid_of op) = order_traffic env uuid_of op s"

section \<open>Configuration\<close>

record trading_config =
  tf_assets :: "trade_asset list"
  tf_portfolio :: "portfolio_config option"
  tf_dynamic_quantity :: "string option"

definition strategy_asset_of :: "trade_asset \<Rightarrow> strategy_asset" where
  "strategy_asset_of a = asset.extend (asset.truncate a) (strategy_asset.fields (ta_consensus a) (ta_strategies a))"

text \<open>Registration stops at the first strategy that is refused; what was registered stays.\<close>

fun register_list ::
  "strategy list \<Rightarrow> executor_state \<Rightarrow> executor_state \<times> unit result" where
  "register_list [] s = (s, Inr ())"
| "register_list (y # ys) s =
     (case register_strategy (xs_consensus s) y of
        Inl e \<Rightarrow> (s, Inl e)
      | Inr cm \<Rightarrow> register_list ys (s\<lparr>xs_consensus := cm, xs_strategies := xs_strategies s @ [y]\<rparr>))"

fun register_asset_strategies ::
  "(string, strategy_config) dict \<Rightarrow> trade_asset list \<Rightarrow> executor_state \<Rightarrow> executor_state \<times> unit result" where
  "register_asset_strategies registry [] s = (s, Inr ())"
| "register_asset_strategies registry (a # as) s =
     and_then (s, resolve_asset registry (xs_next_id s) (strategy_asset_of a)) (\<lambda>s ys.
       and_then (register_list ys (s\<lparr>xs_next_id := xs_next_id s + length ys\<rparr>))
         (\<lambda>s _. register_asset_strategies registry as s))"

definition unregister_asset_strategies :: "executor_state \<Rightarrow> executor_state" where
  "unregister_asset_strategies s =
     s\<lparr>xs_consensus := foldl unregister_strategy (xs_consensus s) (xs_strategies s), xs_strategies := []\<rparr>"

definition asset_changed :: "trade_asset \<Rightarrow> trade_asset \<Rightarrow> bool" where
  "asset_changed new old \<longleftrightarrow>
     ticker_symbol new \<noteq> ticker_symbol old \<or> a_enabled new \<noteq> a_enabled old \<or>
     opt_or (ta_strategies new) [] \<noteq> opt_or (ta_strategies old) [] \<or>
     ta_dynamic_quantity new \<noteq> ta_dynamic_quantity old"

definition assets_changed :: "trade_asset list \<Rightarrow> trade_asset list \<Rightarrow> bool" where
  "assets_changed new old \<longleftrightarrow>
     length new \<noteq> length old \<or> list_ex (\<lambda>(n, p). asset_changed n p) (zip new old)"

definition executor_update_config ::
  "(string \<Rightarrow> bool) \<Rightarrow> (string \<Rightarrow> int) \<Rightarrow> (string, strategy_config) dict \<Rightarrow> trading_config \<Rightarrow>
     executor_state \<Rightarrow> executor_state \<times> unit result" where
  "executor_update_config valid py_hash registry cfg s =
     (let s1 = s\<lparr>xs_consensus := set_factors (xs_consensus s) (map strategy_asset_of (tf_assets cfg)),
                 xs_risk := (case tf_portfolio cfg of
                               None \<Rightarrow> xs_risk s
                             | Some p \<Rightarrow> update_config (xs_risk s) p)\<rparr>;
          (ps, r) = sizer_update_config valid py_hash (tf_dynamic_quantity cfg) (tf_assets cfg) (xs_sizer s1)
      in and_then (s1\<lparr>xs_sizer := ps\<rparr>, r) (\<lambda>s _.
           if assets_changed (tf_assets cfg) (xs_assets s)
           then register_asset_strategies registry (tf_assets cfg)
                  ((unregister_asset_strategies s)\<lparr>xs_assets := tf_assets cfg\<rparr>)
           else (s, Inr ())))"

definition init_executor ::
  "(string, strategy_config) dict \<Rightarrow> trade_asset list \<Rightarrow> executor_state \<Rightarrow> executor_state \<times> unit result" where
  "init_executor registry assets s =
     register_asset_strategies registry assets
       (s\<lparr>xs_assets := assets, xs_strategies := [],
          xs_consensus := set_factors (xs_consensus s) (map strategy_asset_of assets)\<rparr>)"

end
