(* ===== verification/Pipeline.thy ===== *)
theory Pipeline
  imports Executor Guards
begin

text \<open>
  The stages of the executor's pipeline one by one: what each leaves alone, which checks an order
  has passed when it is submitted, and, conversely, that the pipeline runs through to submission
  when every check holds.
\<close>

section \<open>What the pipeline leaves alone\<close>

text \<open>
  Every stage before submission may change balances, market data, contexts, portfolios and
  events, but none of what the checks read from the other managers, and no order.
\<close>

definition keeps :: "executor_state \<Rightarrow> executor_state \<Rightarrow> bool" where
  "keeps s s' \<longleftrightarrow>
     xs_health s' = xs_health s \<and> xs_protection s' = xs_protection s \<and>
     xs_consensus s' = xs_consensus s \<and> xs_sizer s' = xs_sizer s \<and>
     xs_activity_queue s' = xs_activity_queue s \<and>
     (\<exists>sm. xs_orders s' = (xs_orders s)\<lparr>om_session := sm\<rparr>)"

lemma keeps_refl [simp]: "keeps s s"
  unfolding keeps_def by (simp, metis order_manager.surjective order_manager.update_convs(6))

lemma keeps_trans [trans]: "keeps s t \<Longrightarrow> keeps t u \<Longrightarrow> keeps s u"
  by (auto simp: keeps_def)

lemma keeps_simps [simp]:
  "keeps s (t\<lparr>xs_accounts := am\<rparr>) = keeps s t" "keeps s (t\<lparr>xs_markets := mm\<rparr>) = keeps s t"
  "keeps s (t\<lparr>xs_risk := rm\<rparr>) = keeps s t" "keeps s (t\<lparr>xs_activity := ac\<rparr>) = keeps s t"
  "keeps s (t\<lparr>xs_outbox := ob\<rparr>) = keeps s t" "keeps s (t\<lparr>xs_decisions := ds\<rparr>) = keeps s t"
  "keeps s (t\<lparr>xs_next_id := n\<rparr>) = keeps s t"
  by (simp_all add: keeps_def)

lemma keeps_set_session [simp]: "keeps s (set_session sm t) = keeps s t"
  by (auto simp: keeps_def set_session_def)
    (metis order_manager.surjective order_manager.update_convs(6))

lemma keeps_publish [simp]: "keeps s (publish_event e t) = keeps s t"
  by (cases e) (simp_all add: publish_event_def)

lemma keeps_publish_all [simp]: "keeps s (publish_all es t) = keeps s t"
  by (induction es arbitrary: t) (simp_all add: publish_all_def)

lemma keeps_record_decision [simp]: "keeps s (record_decision env d t) = keeps s t"
  by (simp add: record_decision_def)

lemma keeps_refuse [simp]: "keeps s (refuse env a act reason d t) = keeps s t"
  by (simp add: refuse_def)

lemma keeps_fst_and_then:
  assumes "keeps s (fst r)" and "\<And>t x. r = (t, Inr x) \<Longrightarrow> keeps s t \<Longrightarrow> keeps s (fst (f t x))"
  shows "keeps s (fst (and_then r f))"
  using assms by (cases r) (auto simp: and_then_def split: sum.split)

lemma keeps_balances [simp]:
  "keeps s (fst (quote_balance env a t)) = keeps s t"
  "keeps s (fst (base_balance env a t)) = keeps s t"
  by (simp_all add: quote_balance_def base_balance_def split_beta)

lemma keeps_ensure_context [simp]: "keeps s (fst (ensure_context env a t)) = keeps s t"
  by (simp add: ensure_context_def Let_def split_beta)

lemma keeps_reads [simp]:
  "keeps s (fst (read_market_data env a t)) = keeps s t"
  "keeps s (fst (read_candles env a t)) = keeps s t"
  by (simp_all add: read_market_data_def read_candles_def split_beta)

lemma keeps_prepare: "keeps s t \<Longrightarrow> keeps s (fst (prepare_trade_context env a t))"
  unfolding prepare_trade_context_def
  by (intro keeps_fst_and_then | simp)+

lemma keeps_evaluate: "keeps s t \<Longrightarrow> keeps s (fst (evaluate_decision env a act ctx md cs t))"
  unfolding evaluate_decision_def
  by (rule keeps_fst_and_then, simp) (auto intro!: keeps_fst_and_then)

lemma keeps_risk_metrics [simp]: "keeps s (fst (risk_metrics_step a t)) = keeps s t"
  by (simp add: risk_metrics_step_def split_beta)

lemma keeps_annotate [simp]: "keeps s (annotate_context env a m t) = keeps s t"
  by (simp add: annotate_context_def split_beta)

lemma keeps_quantity: "keeps s t \<Longrightarrow> keeps s (fst (executor_quantity env a md d cs regime t))"
  unfolding executor_quantity_def
  by (rule keeps_fst_and_then, simp) (simp add: split_beta Let_def)

section \<open>Following a submitted order back\<close>

text \<open>Only the last stage, which opens the order, does more than \<open>keeps\<close> allows; each lemma goes back
  one stage from there.\<close>

lemma keeps_sym: "keeps s t \<Longrightarrow> keeps t s"
  unfolding keeps_def by (elim conjE exE, simp, metis order_manager.surjective order_manager.update_convs(6))

definition submits :: "executor_state \<Rightarrow> executor_state \<times> 'a result \<Rightarrow> bool" where
  "submits s r \<longleftrightarrow> \<not> keeps s (fst r)"

lemma keeps_not_submits: "keeps s (fst r) \<Longrightarrow> \<not> submits s r"
  by (simp add: submits_def)

lemma not_submits [simp]: "keeps s t \<Longrightarrow> \<not> submits s (t, r)"
  by (rule keeps_not_submits) simp

lemma submits_cong: "keeps s t \<Longrightarrow> submits s r \<longleftrightarrow> submits t r"
  unfolding submits_def using keeps_sym keeps_trans by blast

lemma queue_submits: "xs_activity_queue (fst r) \<noteq> xs_activity_queue s \<Longrightarrow> submits s r"
  by (auto simp: submits_def keeps_def)

lemma submits_and_then:
  assumes "submits s (and_then r f)" and "keeps s (fst r)"
  obtains t x where "r = (t, Inr x)" and "keeps s t" and "submits t (f t x)" and "and_then r f = f t x"
proof (cases r)
  case (Pair t v)
  show ?thesis
  proof (cases v)
    case (Inl e)
    then show ?thesis using assms Pair by (simp add: and_then_def keeps_not_submits)
  next
    case (Inr x)
    have eq: "and_then r f = f t x" and keeps: "keeps s t"
      using assms(2) Pair Inr by (simp_all add: and_then_def)
    have "submits t (f t x)"
      using assms(1) by (simp add: eq submits_cong [OF keeps, of "f t x", symmetric])
    with that Pair Inr eq keeps show ?thesis by blast
  qed
qed

definition order_for ::
  "trade_asset \<Rightarrow> trade_action \<Rightarrow> decimal \<Rightarrow> decimal \<Rightarrow> order \<Rightarrow> bool" where
  "order_for a act price quantity ord \<longleftrightarrow>
     o_ticker_symbol ord = ticker_symbol a \<and> o_provider_name ord = a_exchange a \<and>
     o_trade_action ord = act \<and> o_price ord = price \<and> o_quantity ord = quantity \<and>
     o_status ord = Some PENDING"

lemma with_commit_hash_sel [simp]:
  "o_uuid (with_commit_hash head sm ord) = o_uuid ord"
  "o_ticker_symbol (with_commit_hash head sm ord) = o_ticker_symbol ord"
  "o_provider_name (with_commit_hash head sm ord) = o_provider_name ord"
  "o_trade_action (with_commit_hash head sm ord) = o_trade_action ord"
  "o_price (with_commit_hash head sm ord) = o_price ord"
  "o_quantity (with_commit_hash head sm ord) = o_quantity ord"
  "o_status (with_commit_hash head sm ord) = o_status ord"
  "o_fill_price (with_commit_hash head sm ord) = o_fill_price ord"
  by (simp_all add: with_commit_hash_def)

lemma open_order_ok:
  assumes "open_order head ok db1 db2 om ord0 = (om', ord, Inr u)"
  shows "ord = with_commit_hash head (om_session om)
             (with_commit_hash head (om_session om) (ord0\<lparr>o_status := Some PENDING\<rparr>))
       \<or> ord = with_commit_hash head (om_session om) (ord0\<lparr>o_status := Some PENDING\<rparr>)"
  using assms
  by (auto simp: open_order_def execute_order_def store_order_def Let_def split: if_splits sum.splits)

lemma submit_order_ok:
  assumes "xs_activity_queue (fst (submit_order env a act price quantity md d t s)) \<noteq> xs_activity_queue s"
  obtains ord om where
    "xs_activity_queue (fst (submit_order env a act price quantity md d t s)) = xs_activity_queue s @ [ord]"
    "order_for a act price quantity ord" "o_uuid ord = xv_fresh env (xs_next_id s)" "o_fill_price ord = None"
    "open_order (xv_head env) (xv_place_ok env) (xv_db1 env) (xv_db2 env) (xs_orders s)
       (new_order env a act price quantity md d t s) = (om, ord, Inr ())"
proof -
  obtain om ord r where o: "open_order (xv_head env) (xv_place_ok env) (xv_db1 env) (xv_db2 env) (xs_orders s)
       (new_order env a act price quantity md d t s) = (om, ord, r)"
    by (metis prod_cases3)
  have queue: "xs_activity_queue (publish_event e x) = xs_activity_queue x" for e x
    using keeps_publish [of x e x] by (simp add: keeps_def)
  have queue': "xs_activity_queue (record_decision env e x) = xs_activity_queue x" for e x
    using keeps_record_decision [of x env e x] by (simp add: keeps_def)
  show ?thesis
  proof (cases r)
    case (Inl e)
    then show ?thesis using assms o by (simp add: submit_order_def)
  next
    case (Inr u)
    have "xs_activity_queue (fst (submit_order env a act price quantity md d t s)) = xs_activity_queue s @ [ord]"
      using o Inr by (simp add: submit_order_def Let_def queue queue')
    moreover have "order_for a act price quantity ord \<and> o_uuid ord = xv_fresh env (xs_next_id s) \<and> o_fill_price ord = None"
      using open_order_ok [OF o [unfolded Inr]] by (auto simp: order_for_def new_order_def)
    ultimately show ?thesis using that o Inr by simp
  qed
qed

lemma buy_quantity_submits:
  assumes "submits s (buy_quantity env a bal md regime price quantity d t0 s)"
  obtains rm t where
    "price * quantity \<le> ab_available_balance bal"
    "risk_can_trade (xs_risk s) (risk_asset.truncate a) BUY (price * quantity) (Some md) (Some regime) = (rm, True, [])"
    "has_permission (xs_health s) (asset_scope (ticker_symbol a)) NEW_ORDERS
       (Some (a_exchange a)) (Some (a_quote_ticker_symbol a))"
    "buy_quantity env a bal md regime price quantity d t0 s
       = submit_order env a BUY price quantity md d t (s\<lparr>xs_risk := rm\<rparr>)"
proof -
  let ?r = "risk_can_trade (xs_risk s) (risk_asset.truncate a) BUY (price * quantity) (Some md) (Some regime)"
  obtain rm ok vs where r: "?r = (rm, ok, vs)" by (metis prod_cases3)
  have ok: "ok \<longleftrightarrow> vs = []" using r by (auto simp: risk_can_trade_def Let_def)
  obtain u parser where step: "(s, get_parser (xv_valid_formula env) (xv_py_hash env) (xs_sizer s) a) = (u, Inr parser)"
    using assms unfolding buy_quantity_def by (rule submits_and_then) simp_all
  show ?thesis
    using assms step r ok that [of rm]
    by (auto simp: buy_quantity_def and_then_def Let_def split: if_splits)
qed

lemma outstanding_intent_keeps:
  "keeps s t \<Longrightarrow> has_outstanding_intent db (xs_orders t) ticker act = has_outstanding_intent db (xs_orders s) ticker act"
  by (auto simp: keeps_def has_outstanding_intent_def get_non_terminal_orders_def)

lemma executor_quantity_min:
  assumes "executor_quantity env a md d cs regime s = (t, Inr q)"
  shows "ta_min_quantity a \<le> q"
proof -
  obtain valid py_hash ev ps ctx where "calculate_quantity valid py_hash ev ps a ctx = Inr q"
    using assms by (auto simp: executor_quantity_def and_then_def Let_def split_beta split: prod.splits sum.splits)
  then show ?thesis by (rule calculate_quantity_cases) simp_all
qed

lemma buy_with_quorum_submits:
  assumes "submits s (buy_with_quorum env a bal md cs fees regime d t0 s)"
  obtains s1 quantity t where
    "\<not> has_outstanding_intent (xv_load_db env) (xs_orders s) (ticker_symbol a) (Some BUY)"
    "has_execution_edge md fees" "keeps s s1" "ta_min_quantity a \<le> quantity"
    "submits s1 (buy_quantity env a bal md regime (calculate_price a md fees) quantity d t s1)"
    "buy_with_quorum env a bal md cs fees regime d t0 s
       = buy_quantity env a bal md regime (calculate_price a md fees) quantity d t s1"
proof -
  have intent: "\<not> has_outstanding_intent (xv_load_db env) (xs_orders s) (ticker_symbol a) (Some BUY)"
    and edge: "has_execution_edge md fees"
    using assms by (auto simp: buy_with_quorum_def Let_def split: if_splits)
  let ?f = "\<lambda>s quantity. buy_quantity env a bal md regime (calculate_price a md fees) quantity d (with_winner d t0) s"
  have eq: "buy_with_quorum env a bal md cs fees regime d t0 s = and_then (executor_quantity env a md d cs regime s) ?f"
    using intent edge by (simp add: buy_with_quorum_def Let_def)
  have "submits s (and_then (executor_quantity env a md d cs regime s) ?f)" using assms eq by simp
  then obtain s1 q where *: "executor_quantity env a md d cs regime s = (s1, Inr q)" "keeps s s1"
      "submits s1 (?f s1 q)" "and_then (executor_quantity env a md d cs regime s) ?f = ?f s1 q"
    by (rule submits_and_then) (simp add: keeps_quantity)
  then show ?thesis using that [OF intent edge] executor_quantity_min eq by metis
qed

lemma evaluate_decision_quorum:
  assumes "evaluate_decision env a act ctx md cs s = (t, Inr (Some d))"
  obtains evs where
    "protection_can_trade (xv_critical env) (xs_protection s) (key_of env a) act ctx md = Inr True"
    "consensus_evaluate (xv_utcoffset env) (xv_expression env) (xs_consensus s) act (ticker_symbol a)
       ctx (Some md) cs (xv_now env) = Inr (d, evs)"
  using assms
  by (auto simp: evaluate_decision_def and_then_def split: sum.splits if_splits prod.splits)

lemma submits_prepared:
  assumes "submits s (and_then (prepare_trade_context env a s) f)"
  obtains t bal md cs fees where "prepare_trade_context env a s = (t, Inr (bal, md, cs, fees))"
    and "keeps s t" and "submits t (f t (bal, md, cs, fees))"
    and "and_then (prepare_trade_context env a s) f = f t (bal, md, cs, fees)"
proof -
  have "keeps s (fst (prepare_trade_context env a s))" by (simp add: keeps_prepare)
  from assms this obtain t x where *: "prepare_trade_context env a s = (t, Inr x)" "keeps s t"
      "submits t (f t x)" "and_then (prepare_trade_context env a s) f = f t x"
    by (rule submits_and_then)
  obtain bal md cs fees where "x = (bal, md, cs, fees)" by (cases x) auto
  with * that show ?thesis by blast
qed

lemma buy_decided_submits:
  assumes "submits s (buy_decided env a bal md cs fees regime rk commit s decision)"
  obtains d s1 t where "decision = Some d" "quorum d" "keeps s s1"
    "submits s1 (buy_with_quorum env a bal md cs fees (rm_regime regime) d t s1)"
    "buy_decided env a bal md cs fees regime rk commit s decision
       = buy_with_quorum env a bal md cs fees (rm_regime regime) d t s1"
proof -
  let ?t = "draft_decision env a BUY md cs regime rk commit decision s"
  let ?s = "s\<lparr>xs_next_id := xs_next_id s + 1\<rparr>"
  have k: "keeps s ?s" by simp
  obtain d where d: "decision = Some d" "quorum d"
    using assms k by (auto simp: buy_decided_def Let_def split: option.splits if_splits)
  have eq: "buy_decided env a bal md cs fees regime rk commit s decision
      = buy_with_quorum env a bal md cs fees (rm_regime regime) d ?t ?s"
    using d by (simp add: buy_decided_def Let_def)
  then have "submits ?s (buy_with_quorum env a bal md cs fees (rm_regime regime) d ?t ?s)"
    using assms submits_cong [OF k, THEN iffD1] by metis
  with that d k eq show ?thesis by blast
qed

lemma buy_prepared_submits:
  assumes "submits s (buy_prepared env a s (bal, md, cs, fees))"
  obtains ctx d s1 s2 regime rk commit where "0 < ab_available_balance bal" "keeps s s1"
    "evaluate_decision env a BUY ctx md cs s1 = (s2, Inr (Some d))" "keeps s s2" "quorum d"
    "submits s2 (buy_decided env a bal md cs fees regime rk commit s2 (Some d))"
    "buy_prepared env a s (bal, md, cs, fees) = buy_decided env a bal md cs fees regime rk commit s2 (Some d)"
proof -
  have pos: "0 < ab_available_balance bal"
    using assms by (auto simp: buy_prepared_def not_less split: if_splits)
  obtain ctx0 where ctx0: "get_trading_context (session_of s) (key_of env a) = Some ctx0"
    using assms by (auto simp: buy_prepared_def split: if_splits option.splits)
  let ?m = "detect default_detector cs (Some md) None"
  let ?s1 = "annotate_context env a ?m s"
  let ?ctx = "opt_or (get_trading_context (session_of ?s1) (key_of env a)) ctx0"
  let ?s2 = "?s1\<lparr>xs_risk := update_position (xs_risk ?s1) (risk_asset.truncate a) (tc_position_qty ?ctx)\<rparr>"
  let ?s3 = "fst (risk_metrics_step a ?s2)"
  let ?f = "buy_decided env a bal md cs fees ?m (snd (risk_metrics_step a ?s2))
              (get_current_commit_hash (session_of ?s3) (xv_head env))"
  have eq: "buy_prepared env a s (bal, md, cs, fees) = and_then (evaluate_decision env a BUY ?ctx md cs ?s3) ?f"
    using pos ctx0 by (simp add: buy_prepared_def Let_def split_beta not_le)
  have k: "keeps s ?s3" by simp
  have "submits s (and_then (evaluate_decision env a BUY ?ctx md cs ?s3) ?f)" using assms eq by simp
  then obtain t x where *: "evaluate_decision env a BUY ?ctx md cs ?s3 = (t, Inr x)" "keeps s t"
      "submits t (?f t x)" "and_then (evaluate_decision env a BUY ?ctx md cs ?s3) ?f = ?f t x"
    by (rule submits_and_then) (simp add: keeps_evaluate)
  obtain d where "x = Some d" "quorum d" using *(3) by (rule buy_decided_submits)
  with that [OF pos k] * eq show ?thesis by metis
qed

lemma process_buy_submits:
  assumes "submits s (process_buy_asset env a s)"
  obtains s0 s1 bal md cs fees where "ensure_context env a s = (s0, True)"
    "prepare_trade_context env a s0 = (s1, Inr (bal, md, cs, fees))" "keeps s s1"
    "submits s1 (buy_prepared env a s1 (bal, md, cs, fees))"
    "process_buy_asset env a s = buy_prepared env a s1 (bal, md, cs, fees)"
proof -
  obtain s0 ready where e: "ensure_context env a s = (s0, ready)" by fastforce
  have k0: "keeps s s0" using keeps_ensure_context [of s env a s] e by simp
  have ready and eq: "process_buy_asset env a s = and_then (prepare_trade_context env a s0) (buy_prepared env a)"
    using assms e k0 by (auto simp: process_buy_asset_def split: if_splits)
  have "submits s0 (and_then (prepare_trade_context env a s0) (buy_prepared env a))"
    using assms eq submits_cong [OF k0, THEN iffD1] by metis
  then obtain s1 bal md cs fees where p: "prepare_trade_context env a s0 = (s1, Inr (bal, md, cs, fees))"
    and k1: "keeps s0 s1" and sub: "submits s1 (buy_prepared env a s1 (bal, md, cs, fees))"
    and eq1: "and_then (prepare_trade_context env a s0) (buy_prepared env a) = buy_prepared env a s1 (bal, md, cs, fees)"
    by (rule submits_prepared)
  show ?thesis
    by (rule that [OF _ p keeps_trans [OF k0 k1] sub]) (use e \<open>ready\<close> eq eq1 in simp_all)
qed

lemma keeps_sel:
  assumes "keeps s t"
  shows "xs_health t = xs_health s" "xs_protection t = xs_protection s" "xs_consensus t = xs_consensus s"
    "xs_sizer t = xs_sizer s" "xs_activity_queue t = xs_activity_queue s"
    "om_in_flight (xs_orders t) = om_in_flight (xs_orders s)" "om_orders (xs_orders t) = om_orders (xs_orders s)"
    "om_synchronous (xs_orders t) = om_synchronous (xs_orders s)"
  using assms by (auto simp: keeps_def)

text \<open>The whole way from the start of the pipeline to the last checks of a purchase.\<close>

lemma submitted_buy:
  assumes "submits s (process_buy_asset env a s)"
  obtains s0 s1 s2 bal md cs fees ctx d evs quantity regime t rm where
    "ensure_context env a s = (s0, True)"
    "prepare_trade_context env a s0 = (s1, Inr (bal, md, cs, fees))" "0 < ab_available_balance bal"
    "protection_can_trade (xv_critical env) (xs_protection s) (key_of env a) BUY ctx md = Inr True"
    "consensus_evaluate (xv_utcoffset env) (xv_expression env) (xs_consensus s) BUY (ticker_symbol a)
       ctx (Some md) cs (xv_now env) = Inr (d, evs)" "quorum d"
    "\<not> has_outstanding_intent (xv_load_db env) (xs_orders s) (ticker_symbol a) (Some BUY)"
    "has_execution_edge md fees" "ta_min_quantity a \<le> quantity"
    "calculate_price a md fees * quantity \<le> ab_available_balance bal"
    "risk_can_trade (xs_risk s2) (risk_asset.truncate a) BUY (calculate_price a md fees * quantity)
       (Some md) (Some regime) = (rm, True, [])"
    "has_permission (xs_health s) (asset_scope (ticker_symbol a)) NEW_ORDERS
       (Some (a_exchange a)) (Some (a_quote_ticker_symbol a))"
    "keeps s s2"
    "process_buy_asset env a s
       = submit_order env a BUY (calculate_price a md fees) quantity md d t (s2\<lparr>xs_risk := rm\<rparr>)"
proof -
  from assms obtain s0 s1 bal md cs fees where 1: "ensure_context env a s = (s0, True)"
      "prepare_trade_context env a s0 = (s1, Inr (bal, md, cs, fees))" and k1: "keeps s s1"
    and sub1: "submits s1 (buy_prepared env a s1 (bal, md, cs, fees))"
    and eq1: "process_buy_asset env a s = buy_prepared env a s1 (bal, md, cs, fees)"
    by (rule process_buy_submits)
  from sub1 obtain ctx d u v regime rk commit where 2: "0 < ab_available_balance bal" and k2: "keeps s1 u"
    and ev: "evaluate_decision env a BUY ctx md cs u = (v, Inr (Some d))" and k3: "keeps s1 v" and q: "quorum d"
    and sub2: "submits v (buy_decided env a bal md cs fees regime rk commit v (Some d))"
    and eq2: "buy_prepared env a s1 (bal, md, cs, fees) = buy_decided env a bal md cs fees regime rk commit v (Some d)"
    by (rule buy_prepared_submits)
  from sub2 obtain d' w t where "Some d = Some d'" and k4: "keeps v w"
    and sub3: "submits w (buy_with_quorum env a bal md cs fees (rm_regime regime) d' t w)"
    and eq3: "buy_decided env a bal md cs fees regime rk commit v (Some d)
       = buy_with_quorum env a bal md cs fees (rm_regime regime) d' t w"
    by (rule buy_decided_submits)
  then have d': "d' = d" by simp
  from sub3 obtain x quantity t' where 3: "\<not> has_outstanding_intent (xv_load_db env) (xs_orders w) (ticker_symbol a) (Some BUY)"
      "has_execution_edge md fees" and k5: "keeps w x" and min: "ta_min_quantity a \<le> quantity"
    and sub4: "submits x (buy_quantity env a bal md (rm_regime regime) (calculate_price a md fees) quantity d' t' x)"
    and eq4: "buy_with_quorum env a bal md cs fees (rm_regime regime) d' t w
       = buy_quantity env a bal md (rm_regime regime) (calculate_price a md fees) quantity d' t' x"
    by (rule buy_with_quorum_submits)
  from sub4 obtain rm t'' where 4: "calculate_price a md fees * quantity \<le> ab_available_balance bal"
      "risk_can_trade (xs_risk x) (risk_asset.truncate a) BUY (calculate_price a md fees * quantity)
         (Some md) (Some (rm_regime regime)) = (rm, True, [])"
      "has_permission (xs_health x) (asset_scope (ticker_symbol a)) NEW_ORDERS
         (Some (a_exchange a)) (Some (a_quote_ticker_symbol a))"
    and eq5: "buy_quantity env a bal md (rm_regime regime) (calculate_price a md fees) quantity d' t' x
       = submit_order env a BUY (calculate_price a md fees) quantity md d' t'' (x\<lparr>xs_risk := rm\<rparr>)"
    by (rule buy_quantity_submits)
  have ku: "keeps s u" and kw: "keeps s w" and kx: "keeps s x"
    using k1 k2 k3 k4 k5 keeps_trans by blast+
  from ev obtain evs where 5: "protection_can_trade (xv_critical env) (xs_protection u) (key_of env a) BUY ctx md = Inr True"
      "consensus_evaluate (xv_utcoffset env) (xv_expression env) (xs_consensus u) BUY (ticker_symbol a)
         ctx (Some md) cs (xv_now env) = Inr (d, evs)"
    by (rule evaluate_decision_quorum)
  have submit: "process_buy_asset env a s
      = submit_order env a BUY (calculate_price a md fees) quantity md d' t'' (x\<lparr>xs_risk := rm\<rparr>)"
    by (simp only: eq1 eq2 eq3 eq4 eq5)
  show ?thesis
    by (rule that [OF 1 2 5 [unfolded keeps_sel [OF ku]] q 3 [unfolded outstanding_intent_keeps [OF kw]] min
          4 [unfolded keeps_sel [OF kx]] kx submit [unfolded d']])
qed

lemma protection_not_paused:
  "protection_can_trade critical m k act ctx md = Inr True \<Longrightarrow> \<not> is_asset_paused m k"
  by (auto simp: protection_can_trade_def is_asset_paused_def split: if_splits)

lemma sell_quantity_submits:
  assumes "submits s (sell_quantity env a base md price quantity d t0 s)"
  obtains t p where "p \<in> {REDUCE_POSITIONS, CLOSE_POSITIONS, NEW_ORDERS}"
    "has_permission (xs_health s) (asset_scope (ticker_symbol a)) p (Some (a_exchange a)) (Some (a_quote_ticker_symbol a))"
    "quantity \<le> ab_available_balance base"
    "sell_quantity env a base md price quantity d t0 s = submit_order env a SELL price quantity md d t s"
  using assms by (auto simp: sell_quantity_def Let_def split: if_splits)

lemma sell_decided_submits:
  assumes "submits s (sell_decided env a base md cs fees regime rk commit s decision)"
  obtains d s1 quantity t where "decision = Some d" "quorum d" "has_execution_edge md fees" "keeps s s1"
    "ta_min_quantity a \<le> quantity"
    "submits s1 (sell_quantity env a base md (calculate_price a md fees) quantity d t s1)"
    "sell_decided env a base md cs fees regime rk commit s decision
       = sell_quantity env a base md (calculate_price a md fees) quantity d t s1"
proof -
  let ?s = "s\<lparr>xs_next_id := xs_next_id s + 1\<rparr>"
  have k: "keeps s ?s" by simp
  obtain d where d: "decision = Some d" "quorum d" and edge: "has_execution_edge md fees"
    using assms k by (auto simp: sell_decided_def Let_def split: option.splits if_splits)
  let ?t = "with_winner d (draft_decision env a SELL md cs regime rk commit decision s)"
  let ?f = "\<lambda>s quantity. sell_quantity env a base md (calculate_price a md fees) quantity d ?t s"
  let ?q = "executor_quantity env a md d cs (rm_regime regime) ?s"
  have eq: "sell_decided env a base md cs fees regime rk commit s decision = and_then ?q ?f"
    using d edge by (simp add: sell_decided_def Let_def)
  have "submits s (and_then ?q ?f)" using assms eq by simp
  then obtain s1 q where *: "?q = (s1, Inr q)" "keeps s s1" "submits s1 (?f s1 q)" "and_then ?q ?f = ?f s1 q"
    by (rule submits_and_then) (simp add: keeps_quantity)
  show ?thesis
    by (rule that [OF d edge *(2) executor_quantity_min [OF *(1)] *(3)]) (simp only: eq *(4))
qed

lemma sell_prepared_submits:
  assumes "submits s (sell_prepared env a ctx0 s (bal, md, cs, fees))"
  obtains base ctx d u v regime rk commit s1 where
    "base_balance env a s = (s1, Inr base)" "keeps s u"
    "evaluate_decision env a SELL ctx md cs u = (v, Inr (Some d))" "keeps s v"
    "submits v (sell_decided env a base md cs fees regime rk commit v (Some d))"
    "sell_prepared env a ctx0 s (bal, md, cs, fees) = sell_decided env a base md cs fees regime rk commit v (Some d)"
proof -
  let ?m = "detect default_detector cs (Some md) None"
  let ?g = "\<lambda>s base. and_then
      (evaluate_decision env a SELL
         (opt_or (get_trading_context (session_of (fst (risk_metrics_step a s))) (key_of env a)) ctx0) md cs
         (fst (risk_metrics_step a s)))
      (sell_decided env a base md cs fees ?m (snd (risk_metrics_step a s))
         (get_current_commit_hash (session_of (fst (risk_metrics_step a s))) (xv_head env)))"
  have eq: "sell_prepared env a ctx0 s (bal, md, cs, fees) = and_then (base_balance env a s) ?g"
    by (simp add: sell_prepared_def Let_def split_beta)
  have "submits s (and_then (base_balance env a s) ?g)" using assms eq by simp
  then obtain s1 base where b: "base_balance env a s = (s1, Inr base)" and k1: "keeps s s1"
    and sub: "submits s1 (?g s1 base)" and eq1: "and_then (base_balance env a s) ?g = ?g s1 base"
    by (rule submits_and_then) simp
  let ?u = "fst (risk_metrics_step a s1)"
  let ?ctx = "opt_or (get_trading_context (session_of ?u) (key_of env a)) ctx0"
  let ?f = "sell_decided env a base md cs fees ?m (snd (risk_metrics_step a s1))
         (get_current_commit_hash (session_of ?u) (xv_head env))"
  from sub obtain v x where ev: "evaluate_decision env a SELL ?ctx md cs ?u = (v, Inr x)" and k2: "keeps s1 v"
    and sub2: "submits v (?f v x)" and eq2: "?g s1 base = ?f v x"
    by (rule submits_and_then) (simp add: keeps_evaluate)
  from sub2 obtain d where x: "x = Some d" by (rule sell_decided_submits)
  have ku: "keeps s ?u" using k1 by simp
  show ?thesis
    by (rule that [OF b ku ev [unfolded x] keeps_trans [OF k1 k2] sub2 [unfolded x]])
      (simp only: eq eq1 eq2 x)
qed

lemma submitted_sell:
  assumes "submits s (process_sell_asset env a s)"
  obtains s0 s1 s1' s2 bal md cs fees base ctx0 ctx d evs quantity t p where
    "ensure_context env a s = (s0, True)"
    "get_trading_context (session_of s0) (key_of env a) = Some ctx0" "tc_open_positions ctx0 \<noteq> []"
    "\<not> has_outstanding_intent (xv_load_db env) (xs_orders s) (ticker_symbol a) (Some SELL)"
    "prepare_trade_context env a s0 = (s1, Inr (bal, md, cs, fees))"
    "base_balance env a s1 = (s1', Inr base)"
    "protection_can_trade (xv_critical env) (xs_protection s) (key_of env a) SELL ctx md = Inr True"
    "consensus_evaluate (xv_utcoffset env) (xv_expression env) (xs_consensus s) SELL (ticker_symbol a)
       ctx (Some md) cs (xv_now env) = Inr (d, evs)" "quorum d"
    "has_execution_edge md fees" "ta_min_quantity a \<le> quantity" "quantity \<le> ab_available_balance base"
    "p \<in> {REDUCE_POSITIONS, CLOSE_POSITIONS, NEW_ORDERS}"
    "has_permission (xs_health s) (asset_scope (ticker_symbol a)) p
       (Some (a_exchange a)) (Some (a_quote_ticker_symbol a))"
    "keeps s s2"
    "process_sell_asset env a s = submit_order env a SELL (calculate_price a md fees) quantity md d t s2"
proof -
  obtain s0 ready where e: "ensure_context env a s = (s0, ready)" by fastforce
  have k0: "keeps s s0" using keeps_ensure_context [of s env a s] e by simp
  obtain ctx0 where ready and ctx0: "get_trading_context (session_of s0) (key_of env a) = Some ctx0"
      "tc_open_positions ctx0 \<noteq> []"
    and intent: "\<not> has_outstanding_intent (xv_load_db env) (xs_orders s0) (ticker_symbol a) (Some SELL)"
    using assms e k0 by (auto simp: process_sell_asset_def split: if_splits option.splits)
  have eq0: "process_sell_asset env a s = and_then (prepare_trade_context env a s0) (sell_prepared env a ctx0)"
    using e \<open>ready\<close> ctx0 intent by (simp add: process_sell_asset_def)
  have "submits s0 (and_then (prepare_trade_context env a s0) (sell_prepared env a ctx0))"
    using assms by (simp add: eq0 submits_cong [OF k0])
  then obtain s1 bal md cs fees where p: "prepare_trade_context env a s0 = (s1, Inr (bal, md, cs, fees))"
    and k1: "keeps s0 s1" and sub1: "submits s1 (sell_prepared env a ctx0 s1 (bal, md, cs, fees))"
    and eq1: "and_then (prepare_trade_context env a s0) (sell_prepared env a ctx0)
      = sell_prepared env a ctx0 s1 (bal, md, cs, fees)"
    by (rule submits_prepared)
  from sub1 obtain base ctx d u v regime rk commit s1' where b: "base_balance env a s1 = (s1', Inr base)"
    and k2: "keeps s1 u" and ev: "evaluate_decision env a SELL ctx md cs u = (v, Inr (Some d))" and k3: "keeps s1 v"
    and sub2: "submits v (sell_decided env a base md cs fees regime rk commit v (Some d))"
    and eq2: "sell_prepared env a ctx0 s1 (bal, md, cs, fees)
      = sell_decided env a base md cs fees regime rk commit v (Some d)"
    by (rule sell_prepared_submits)
  from sub2 obtain d' w quantity t where "Some d = Some d'" and q: "quorum d'" and edge: "has_execution_edge md fees"
    and k4: "keeps v w" and min: "ta_min_quantity a \<le> quantity"
    and sub3: "submits w (sell_quantity env a base md (calculate_price a md fees) quantity d' t w)"
    and eq3: "sell_decided env a base md cs fees regime rk commit v (Some d)
      = sell_quantity env a base md (calculate_price a md fees) quantity d' t w"
    by (rule sell_decided_submits)
  then have d': "d' = d" by simp
  from sub3 obtain t' p' where perm: "p' \<in> {REDUCE_POSITIONS, CLOSE_POSITIONS, NEW_ORDERS}"
      "has_permission (xs_health w) (asset_scope (ticker_symbol a)) p' (Some (a_exchange a)) (Some (a_quote_ticker_symbol a))"
    and enough: "quantity \<le> ab_available_balance base"
    and eq4: "sell_quantity env a base md (calculate_price a md fees) quantity d' t w
      = submit_order env a SELL (calculate_price a md fees) quantity md d' t' w"
    by (rule sell_quantity_submits)
  have ku: "keeps s u" and kw: "keeps s w" using k0 k1 k2 k3 k4 keeps_trans by blast+
  from ev obtain evs where 5: "protection_can_trade (xv_critical env) (xs_protection u) (key_of env a) SELL ctx md = Inr True"
      "consensus_evaluate (xv_utcoffset env) (xv_expression env) (xs_consensus u) SELL (ticker_symbol a)
         ctx (Some md) cs (xv_now env) = Inr (d, evs)"
    by (rule evaluate_decision_quorum)
  have submit: "process_sell_asset env a s = submit_order env a SELL (calculate_price a md fees) quantity md d' t' w"
    by (simp only: eq0 eq1 eq2 eq3 eq4)
  show ?thesis
    by (rule that [OF e [unfolded \<open>ready\<close> [THEN eqTrueI]] ctx0 intent [unfolded outstanding_intent_keeps [OF k0]] p b
          5 [unfolded keeps_sel [OF ku]] q [unfolded d'] edge min enough perm [unfolded keeps_sel [OF kw]] kw
          submit [unfolded d']])
qed

section \<open>Orders that go through\<close>

text \<open>With fresh balances and data at hand nothing is fetched and the reads change nothing.\<close>

lemma quote_balance_cached:
  assumes "cached_balance (xs_accounts s) (upper (a_exchange a)) (upper (a_quote_ticker_symbol a)) = Some bal"
    and "xv_now env - last_update (xs_accounts s) (upper (a_exchange a)) (upper (a_quote_ticker_symbol a)) \<le> 60"
  shows "quote_balance env a s = (s, Inr bal)"
  using assms by (simp add: quote_balance_def get_quote_balance_def get_balance_def BALANCE_TTL_SECONDS_def publish_all_def)

lemma read_market_data_stored:
  "stored_market_data (xs_markets s) (key_of env a) = Some md \<Longrightarrow> read_market_data env a s = (s, Inr md)"
  by (simp add: read_market_data_def get_market_data_def publish_all_def)

lemma read_candles_stored:
  "stored_candles (xs_markets s) (key_of env a) = cs \<Longrightarrow> cs \<noteq> [] \<Longrightarrow> read_candles env a s = (s, Inr cs)"
  by (simp add: read_candles_def get_candles_def)

text \<open>Neither the accounts nor the risk manager notice the events published on the way.\<close>

lemma publish_sel [simp]:
  "xs_accounts (publish_event e s) = xs_accounts s" "xs_markets (publish_event e s) = xs_markets s"
  "xs_fees (publish_event e s) = xs_fees s"
  by (cases e; simp add: publish_event_def set_session_def Let_def)+

lemma get_modify_context [simp]:
  "get_trading_context (modify_context key f sm) key = map_option f (get_trading_context sm key)"
  by (auto simp: get_trading_context_def modify_context_def map_session_def split: option.split)

lemma session_publish [simp]:
  "(\<And>b. e \<noteq> BalanceChanged b) \<Longrightarrow> xs_orders (publish_event e s) = xs_orders s"
  by (cases e) (auto simp: publish_event_def Let_def)

lemma set_session_sel [simp]:
  "session_of (set_session sm s) = sm" "xs_accounts (set_session sm s) = xs_accounts s"
  "xs_markets (set_session sm s) = xs_markets s" "xs_fees (set_session sm s) = xs_fees s"
  "xs_risk (set_session sm s) = xs_risk s"
  by (simp_all add: set_session_def)

lemma prepare_cached:
  assumes "cached_balance (xs_accounts s) (upper (a_exchange a)) (upper (a_quote_ticker_symbol a)) = Some bal"
    and "xv_now env - last_update (xs_accounts s) (upper (a_exchange a)) (upper (a_quote_ticker_symbol a)) \<le> 60"
    and "stored_market_data (xs_markets s) (key_of env a) = Some md"
    and "stored_candles (xs_markets s) (key_of env a) = cs" "cs \<noteq> []"
    and "get_instrument_fees (xv_instrument_fees env) (xs_fees s) (a_exchange a) (ticker_symbol a) = Inr fees"
    and "get_trading_context (session_of s) (key_of env a) = Some ctx"
  obtains t where "prepare_trade_context env a s = (t, Inr (bal, md, cs, fees))"
    "xs_accounts t = xs_accounts s"
    "get_trading_context (session_of t) (key_of env a) = Some (ctx\<lparr>tc_available_balance := ab_available_balance bal\<rparr>)"
    "xs_risk t = on_market_data (update_market_data (update_cash_balance (xs_risk s) (a_exchange a)
       (a_quote_ticker_symbol a) (ab_available_balance bal)) (risk_asset.truncate a) md) (ticker_symbol a) md"
proof -
  let ?u = "set_session (update_available_balance (session_of s) (key_of env a) (ab_available_balance bal)) s"
  let ?t = "publish_all [MarketStateChanged (ticker_symbol a) (md_close_price md) (md_timestamp md),
      MarketDataPublished (ticker_symbol a) md]
      (?u\<lparr>xs_risk := update_market_data (update_cash_balance (xs_risk s) (a_exchange a)
       (a_quote_ticker_symbol a) (ab_available_balance bal)) (risk_asset.truncate a) md\<rparr>)"
  have p: "prepare_trade_context env a s = (?t, Inr (bal, md, cs, fees))"
    using assms
    by (simp add: prepare_trade_context_def quote_balance_cached read_market_data_stored read_candles_stored and_then_def)
  show ?thesis
    by (rule that [OF p])
      (use assms(7) in \<open>simp_all add: publish_all_def update_available_balance_def publish_event_def Let_def\<close>)
qed

definition risk_after_metrics :: "trade_asset \<Rightarrow> risk_manager \<Rightarrow> risk_manager" where
  "risk_after_metrics a rm = fst (get_risk_metrics rm (risk_asset.truncate a))"

lemma risk_metrics_step_sel [simp]:
  "xs_risk (fst (risk_metrics_step a s)) = risk_after_metrics a (xs_risk s)"
  "xs_accounts (fst (risk_metrics_step a s)) = xs_accounts s"
  "xs_orders (fst (risk_metrics_step a s)) = xs_orders s"
  by (simp_all add: risk_metrics_step_def risk_after_metrics_def split_beta)

text \<open>What the risk manager has seen when a purchase of \<open>a\<close> is judged.\<close>

definition risk_before_trade ::
  "trade_asset \<Rightarrow> decimal \<Rightarrow> market_data \<Rightarrow> decimal \<Rightarrow> risk_manager \<Rightarrow> risk_manager" where
  "risk_before_trade a cash md position rm =
     (let ra = risk_asset.truncate a;
          r1 = on_market_data (update_market_data (update_cash_balance rm (a_exchange a)
                 (a_quote_ticker_symbol a) cash) ra md) (ticker_symbol a) md
      in risk_after_metrics a (risk_after_metrics a (update_position (risk_after_metrics a r1) ra position)))"

lemma publish_all_decision_sel [simp]:
  "xs_risk (publish_all (map ConsensusEvaluated evs @ [StrategyEvaluated t1 t2,
     if b then SignalGenerated t3 act t4 else DecisionRejected t3 act NO_QUORUM]) s) = xs_risk s"
  "xs_accounts (publish_all (map ConsensusEvaluated evs @ [StrategyEvaluated t1 t2,
     if b then SignalGenerated t3 act t4 else DecisionRejected t3 act NO_QUORUM]) s) = xs_accounts s"
  "xs_orders (publish_all (map ConsensusEvaluated evs @ [StrategyEvaluated t1 t2,
     if b then SignalGenerated t3 act t4 else DecisionRejected t3 act NO_QUORUM]) s) = xs_orders s"
proof -
  have "xs_risk (foldl (\<lambda>s e. publish_event e s) s (map ConsensusEvaluated evs)) = xs_risk s \<and>
    xs_accounts (foldl (\<lambda>s e. publish_event e s) s (map ConsensusEvaluated evs)) = xs_accounts s \<and>
    xs_orders (foldl (\<lambda>s e. publish_event e s) s (map ConsensusEvaluated evs)) = xs_orders s"
    by (induction evs arbitrary: s) (simp_all add: publish_event_def Let_def)
  then show "xs_risk (publish_all (map ConsensusEvaluated evs @ [StrategyEvaluated t1 t2,
     if b then SignalGenerated t3 act t4 else DecisionRejected t3 act NO_QUORUM]) s) = xs_risk s"
    "xs_accounts (publish_all (map ConsensusEvaluated evs @ [StrategyEvaluated t1 t2,
     if b then SignalGenerated t3 act t4 else DecisionRejected t3 act NO_QUORUM]) s) = xs_accounts s"
    "xs_orders (publish_all (map ConsensusEvaluated evs @ [StrategyEvaluated t1 t2,
     if b then SignalGenerated t3 act t4 else DecisionRejected t3 act NO_QUORUM]) s) = xs_orders s"
    by (auto simp: publish_all_def publish_event_def Let_def)
qed

lemma annotate_sel:
  "xs_risk (annotate_context env a m s) = risk_after_metrics a (xs_risk s)"
  "xs_accounts (annotate_context env a m s) = xs_accounts s"
  "get_trading_context (session_of s) (key_of env a) = Some ctx \<Longrightarrow>
     \<exists>c. get_trading_context (session_of (annotate_context env a m s)) (key_of env a) = Some c \<and>
         tc_position_qty c = tc_position_qty ctx"
  by (simp_all add: annotate_context_def split_beta)

text \<open>The last stage of an asynchronous order manager cannot fail.\<close>

lemma submit_order_async:
  assumes "\<not> om_synchronous (xs_orders s)"
  shows "\<exists>ord. xs_activity_queue (fst (submit_order env a act price quantity md d t s)) = xs_activity_queue s @ [ord]
    \<and> order_for a act price quantity ord \<and> o_uuid ord = xv_fresh env (xs_next_id s)"
proof -
  let ?ord = "with_commit_hash (xv_head env) (om_session (xs_orders s))
    ((new_order env a act price quantity md d t s)\<lparr>o_status := Some PENDING\<rparr>)"
  have queue: "xs_activity_queue (publish_event e x) = xs_activity_queue x"
    and queue': "xs_activity_queue (record_decision env dn x) = xs_activity_queue x" for e x dn
    using keeps_publish [of x e x] keeps_record_decision [of x env dn x] by (simp_all add: keeps_sel)
  obtain om where "open_order (xv_head env) (xv_place_ok env) (xv_db1 env) (xv_db2 env) (xs_orders s)
       (new_order env a act price quantity md d t s) = (om, ?ord, Inr ())"
    using assms by (simp add: open_order_def Let_def)
  then have "xs_activity_queue (fst (submit_order env a act price quantity md d t s)) = xs_activity_queue s @ [?ord]"
    by (simp add: submit_order_def Let_def queue queue')
  then show ?thesis by (intro exI [of _ ?ord]) (simp add: order_for_def new_order_def)
qed

lemma submit_order_kept:
  assumes "keeps s t" "\<not> om_synchronous (xs_orders s)"
  shows "\<exists>ord. xs_activity_queue (fst (submit_order env a act price quantity md d dn t)) = xs_activity_queue s @ [ord]
    \<and> order_for a act price quantity ord"
  using submit_order_async [of t env a act price quantity md d dn] assms keeps_sel(5,8) [OF assms(1)] by auto

text \<open>Without a sizing formula the quantity is the minimum.\<close>

lemma executor_quantity_unsized:
  assumes "quote_balance env a s = (s, Inr bal)"
    and "get_parser (xv_valid_formula env) (xv_py_hash env) (xs_sizer (fst (risk_metrics_step a s))) a = Inr None"
  shows "executor_quantity env a md d cs regime s = (fst (risk_metrics_step a s), Inr (ta_min_quantity a))"
  using assms by (simp add: executor_quantity_def and_then_def Let_def split_beta calculate_quantity_def)

text \<open>The last two stages when every check of theirs holds.\<close>

lemma buy_with_quorum_passes:
  assumes "\<not> has_outstanding_intent (xv_load_db env) (xs_orders s) (ticker_symbol a) (Some BUY)"
    and "has_execution_edge md fees" "executor_quantity env a md d cs regime s = (s', Inr q)"
  shows "buy_with_quorum env a bal md cs fees regime d t s
    = buy_quantity env a bal md regime (calculate_price a md fees) q d (with_winner d t) s'"
  using assms by (simp add: buy_with_quorum_def Let_def and_then_def)

lemma buy_quantity_passes:
  assumes "get_parser (xv_valid_formula env) (xv_py_hash env) (xs_sizer s) a = Inr None"
    and "price * q \<le> ab_available_balance bal"
    and "risk_can_trade (xs_risk s) (risk_asset.truncate a) BUY (price * q) (Some md) (Some regime) = (rm, True, vs)"
    and "has_permission (xs_health s) (asset_scope (ticker_symbol a)) NEW_ORDERS
         (Some (a_exchange a)) (Some (a_quote_ticker_symbol a))"
  shows "\<exists>t'. buy_quantity env a bal md regime price q d t s = submit_order env a BUY price q md d t' (s\<lparr>xs_risk := rm\<rparr>)"
  using assms by (auto simp: buy_quantity_def and_then_def Let_def not_less)

lemma fst_snd_True: "fst (snd p) \<Longrightarrow> (\<And>x y. p = (x, True, y) \<Longrightarrow> thesis) \<Longrightarrow> thesis"
  by (cases p) auto

lemma buy_reaches_submission:
  assumes ctx: "get_trading_context (session_of s) (key_of env a) = Some ctx"
    and bal: "cached_balance (xs_accounts s) (upper (a_exchange a)) (upper (a_quote_ticker_symbol a)) = Some bal"
      "xv_now env - last_update (xs_accounts s) (upper (a_exchange a)) (upper (a_quote_ticker_symbol a)) \<le> 60"
      "0 < ab_available_balance bal"
    and mkt: "stored_market_data (xs_markets s) (key_of env a) = Some md"
      "stored_candles (xs_markets s) (key_of env a) = cs" "cs \<noteq> []"
    and fees: "get_instrument_fees (xv_instrument_fees env) (xs_fees s) (a_exchange a) (ticker_symbol a) = Inr fees"
    and votes: "\<And>c. protection_can_trade (xv_critical env) (xs_protection s) (key_of env a) BUY c md = Inr True"
      "\<And>c. consensus_evaluate (xv_utcoffset env) (xv_expression env) (xs_consensus s) BUY (ticker_symbol a)
         c (Some md) cs (xv_now env) = Inr (d, evs)" "quorum d"
    and intent: "\<not> has_outstanding_intent (xv_load_db env) (xs_orders s) (ticker_symbol a) (Some BUY)"
    and edge: "has_execution_edge md fees"
    and size: "get_parser (xv_valid_formula env) (xv_py_hash env) (xs_sizer s) a = Inr None"
    and cost: "calculate_price a md fees * ta_min_quantity a \<le> ab_available_balance bal"
    and risk: "fst (snd (risk_can_trade
        (risk_before_trade a (ab_available_balance bal) md (tc_position_qty ctx) (xs_risk s)) (risk_asset.truncate a) BUY
        (calculate_price a md fees * ta_min_quantity a) (Some md)
        (Some (rm_regime (detect default_detector cs (Some md) None)))))"
    and health: "has_permission (xs_health s) (asset_scope (ticker_symbol a)) NEW_ORDERS
         (Some (a_exchange a)) (Some (a_quote_ticker_symbol a))"
  obtains t u where "process_buy_asset env a s
      = submit_order env a BUY (calculate_price a md fees) (ta_min_quantity a) md d t u" "keeps s u"
    "xs_risk u = fst (risk_can_trade
        (risk_before_trade a (ab_available_balance bal) md (tc_position_qty ctx) (xs_risk s)) (risk_asset.truncate a) BUY
        (calculate_price a md fees * ta_min_quantity a) (Some md)
        (Some (rm_regime (detect default_detector cs (Some md) None))))"
proof -
  let ?m = "detect default_detector cs (Some md) None"
  obtain s1 where p: "prepare_trade_context env a s = (s1, Inr (bal, md, cs, fees))"
    and a1: "xs_accounts s1 = xs_accounts s"
    and c1: "get_trading_context (session_of s1) (key_of env a) = Some (ctx\<lparr>tc_available_balance := ab_available_balance bal\<rparr>)"
    and r1: "xs_risk s1 = on_market_data (update_market_data (update_cash_balance (xs_risk s) (a_exchange a)
       (a_quote_ticker_symbol a) (ab_available_balance bal)) (risk_asset.truncate a) md) (ticker_symbol a) md"
    by (rule prepare_cached [OF bal(1,2) mkt fees ctx])
  have k1: "keeps s s1" using keeps_prepare [of s s env a] p by simp
  let ?s2 = "annotate_context env a ?m s1"
  obtain c where c: "get_trading_context (session_of ?s2) (key_of env a) = Some c" "tc_position_qty c = tc_position_qty ctx"
    using annotate_sel(3) [OF c1, of ?m] by auto
  let ?s3 = "?s2\<lparr>xs_risk := update_position (xs_risk ?s2) (risk_asset.truncate a) (tc_position_qty c)\<rparr>"
  let ?s4 = "fst (risk_metrics_step a ?s3)" and ?rk = "snd (risk_metrics_step a ?s3)"
  let ?h = "get_current_commit_hash (session_of ?s4) (xv_head env)"
  have k4: "keeps s ?s4" using k1 by simp
  have A: "process_buy_asset env a s = and_then (evaluate_decision env a BUY c md cs ?s4)
      (buy_decided env a bal md cs fees ?m ?rk ?h)"
    using ctx p c1 c(1) bal(3)
    by (simp add: process_buy_asset_def ensure_context_def and_then_def [of "(s1, _)"] buy_prepared_def Let_def split_beta not_le)
  let ?s5 = "publish_all (map ConsensusEvaluated evs @ [StrategyEvaluated (ticker_symbol a) (md_timestamp md),
      if quorum d then SignalGenerated (ticker_symbol a) BUY (md_timestamp md)
      else DecisionRejected (ticker_symbol a) BUY NO_QUORUM]) ?s4"
  have B: "evaluate_decision env a BUY c md cs ?s4 = (?s5, Inr (Some d))"
    using votes(1,2) by (simp add: evaluate_decision_def and_then_def keeps_sel [OF k4])
  let ?t = "draft_decision env a BUY md cs ?m ?rk ?h (Some d) ?s5"
  let ?s6 = "?s5\<lparr>xs_next_id := xs_next_id ?s5 + 1\<rparr>"
  have k6: "keeps s ?s6" using k4 by simp
  have C: "process_buy_asset env a s = buy_with_quorum env a bal md cs fees (rm_regime ?m) d ?t ?s6"
    unfolding A B using votes(3) by (simp add: and_then_def buy_decided_def Let_def)
  let ?s7 = "fst (risk_metrics_step a ?s6)"
  have k7: "keeps s ?s7" using k6 by simp
  have q6: "quote_balance env a ?s6 = (?s6, Inr bal)"
    using bal(1,2) a1 by (intro quote_balance_cached) (simp_all add: annotate_sel)
  have p7: "get_parser (xv_valid_formula env) (xv_py_hash env) (xs_sizer ?s7) a = Inr None"
    using size unfolding keeps_sel(4) [OF k7] .
  have D: "executor_quantity env a md d cs (rm_regime ?m) ?s6 = (?s7, Inr (ta_min_quantity a))"
    by (rule executor_quantity_unsized [OF q6 p7])
  have E: "process_buy_asset env a s
      = buy_quantity env a bal md (rm_regime ?m) (calculate_price a md fees) (ta_min_quantity a) d (with_winner d ?t) ?s7"
    unfolding C
    by (rule buy_with_quorum_passes [OF _ edge D]) (use intent in \<open>unfold outstanding_intent_keeps [OF k6]\<close>)
  have r7: "xs_risk ?s7 = risk_before_trade a (ab_available_balance bal) md (tc_position_qty ctx) (xs_risk s)"
    by (simp add: risk_before_trade_def Let_def annotate_sel r1 c(2))
  obtain rm vs where r: "risk_can_trade (xs_risk ?s7) (risk_asset.truncate a) BUY
      (calculate_price a md fees * ta_min_quantity a) (Some md) (Some (rm_regime ?m)) = (rm, True, vs)"
    by (rule fst_snd_True [OF risk [folded r7]])
  obtain t' where F: "process_buy_asset env a s
      = submit_order env a BUY (calculate_price a md fees) (ta_min_quantity a) md d t' (?s7\<lparr>xs_risk := rm\<rparr>)"
    unfolding E
    by (rule exE [OF buy_quantity_passes [OF p7 cost r health [folded keeps_sel(1) [OF k7]]]])
  have ku: "keeps s (?s7\<lparr>xs_risk := rm\<rparr>)" using k7 by simp
  have "fst (risk_can_trade
        (risk_before_trade a (ab_available_balance bal) md (tc_position_qty ctx) (xs_risk s)) (risk_asset.truncate a) BUY
        (calculate_price a md fees * ta_min_quantity a) (Some md) (Some (rm_regime ?m))) = rm"
    unfolding r [unfolded r7] by simp
  then have ru: "xs_risk (?s7\<lparr>xs_risk := rm\<rparr>) = fst (risk_can_trade
        (risk_before_trade a (ab_available_balance bal) md (tc_position_qty ctx) (xs_risk s)) (risk_asset.truncate a) BUY
        (calculate_price a md fees * ta_min_quantity a) (Some md) (Some (rm_regime ?m)))"
    by (simp del: if_split)
  show ?thesis by (rule that [OF F ku ru])
qed

lemma base_balance_cached:
  assumes "cached_balance (xs_accounts s) (upper (a_exchange a)) (upper (a_base_ticker_symbol a)) = Some bal"
    and "xv_now env - last_update (xs_accounts s) (upper (a_exchange a)) (upper (a_base_ticker_symbol a)) \<le> 60"
  shows "base_balance env a s = (s, Inr bal)"
  using assms by (simp add: base_balance_def get_base_balance_def get_balance_def BALANCE_TTL_SECONDS_def publish_all_def)

lemma sell_quantity_passes:
  assumes "has_permission (xs_health s) (asset_scope (ticker_symbol a)) NEW_ORDERS
         (Some (a_exchange a)) (Some (a_quote_ticker_symbol a))"
    and "q \<le> ab_available_balance base"
  shows "\<exists>t'. sell_quantity env a base md price q d t s = submit_order env a SELL price q md d t' s"
  using assms by (auto simp: sell_quantity_def Let_def)

lemma sell_decided_passes:
  assumes "quorum d" "has_execution_edge md fees"
    and "executor_quantity env a md d cs (rm_regime regime) (s\<lparr>xs_next_id := xs_next_id s + 1\<rparr>) = (s', Inr q)"
  shows "\<exists>t. sell_decided env a base md cs fees regime rk h s (Some d)
    = sell_quantity env a base md (calculate_price a md fees) q d t s'"
  using assms by (auto simp: sell_decided_def Let_def and_then_def)

lemma sell_goes_through:
  assumes ctx: "get_trading_context (session_of s) (key_of env a) = Some ctx" "tc_open_positions ctx \<noteq> []"
    and bal: "cached_balance (xs_accounts s) (upper (a_exchange a)) (upper (a_quote_ticker_symbol a)) = Some bal"
      "xv_now env - last_update (xs_accounts s) (upper (a_exchange a)) (upper (a_quote_ticker_symbol a)) \<le> 60"
    and base: "cached_balance (xs_accounts s) (upper (a_exchange a)) (upper (a_base_ticker_symbol a)) = Some base"
      "xv_now env - last_update (xs_accounts s) (upper (a_exchange a)) (upper (a_base_ticker_symbol a)) \<le> 60"
      "ta_min_quantity a \<le> ab_available_balance base"
    and mkt: "stored_market_data (xs_markets s) (key_of env a) = Some md"
      "stored_candles (xs_markets s) (key_of env a) = cs" "cs \<noteq> []"
    and fees: "get_instrument_fees (xv_instrument_fees env) (xs_fees s) (a_exchange a) (ticker_symbol a) = Inr fees"
    and votes: "\<And>c. protection_can_trade (xv_critical env) (xs_protection s) (key_of env a) SELL c md = Inr True"
      "\<And>c. consensus_evaluate (xv_utcoffset env) (xv_expression env) (xs_consensus s) SELL (ticker_symbol a)
         c (Some md) cs (xv_now env) = Inr (d, evs)" "quorum d"
    and intent: "\<not> has_outstanding_intent (xv_load_db env) (xs_orders s) (ticker_symbol a) (Some SELL)"
    and edge: "has_execution_edge md fees"
    and size: "get_parser (xv_valid_formula env) (xv_py_hash env) (xs_sizer s) a = Inr None"
    and health: "has_permission (xs_health s) (asset_scope (ticker_symbol a)) NEW_ORDERS
         (Some (a_exchange a)) (Some (a_quote_ticker_symbol a))"
    and async: "\<not> om_synchronous (xs_orders s)"
  shows "\<exists>ord. xs_activity_queue (fst (process_sell_asset env a s)) = xs_activity_queue s @ [ord]
    \<and> order_for a SELL (calculate_price a md fees) (ta_min_quantity a) ord"
proof -
  let ?m = "detect default_detector cs (Some md) None"
  obtain s1 where p: "prepare_trade_context env a s = (s1, Inr (bal, md, cs, fees))"
    and a1: "xs_accounts s1 = xs_accounts s"
    by (rule prepare_cached [OF bal(1,2) mkt fees ctx(1)])
  have k1: "keeps s s1" using keeps_prepare [of s s env a] p by simp
  let ?s2 = "fst (risk_metrics_step a s1)" and ?rk = "snd (risk_metrics_step a s1)"
  let ?h = "get_current_commit_hash (session_of ?s2) (xv_head env)"
  have k2: "keeps s ?s2" using k1 by simp
  have b1: "base_balance env a s1 = (s1, Inr base)"
    using base(1,2) by (intro base_balance_cached) (simp_all add: a1)
  obtain c where A: "process_sell_asset env a s = and_then (evaluate_decision env a SELL c md cs ?s2)
      (sell_decided env a base md cs fees ?m ?rk ?h)"
    using ctx p b1 intent
    by (simp add: process_sell_asset_def ensure_context_def and_then_def [of "(s1, _)"] sell_prepared_def Let_def split_beta)
  let ?s3 = "publish_all (map ConsensusEvaluated evs @ [StrategyEvaluated (ticker_symbol a) (md_timestamp md),
      if quorum d then SignalGenerated (ticker_symbol a) SELL (md_timestamp md)
      else DecisionRejected (ticker_symbol a) SELL NO_QUORUM]) ?s2"
  have B: "evaluate_decision env a SELL c md cs ?s2 = (?s3, Inr (Some d))"
    using votes(1,2) by (simp add: evaluate_decision_def and_then_def keeps_sel [OF k2])
  let ?s4 = "?s3\<lparr>xs_next_id := xs_next_id ?s3 + 1\<rparr>"
  let ?s5 = "fst (risk_metrics_step a ?s4)"
  have k5: "keeps s ?s5" using k2 by simp
  have q4: "quote_balance env a ?s4 = (?s4, Inr bal)"
    using bal(1,2) a1 by (intro quote_balance_cached) simp_all
  have p5: "get_parser (xv_valid_formula env) (xv_py_hash env) (xs_sizer ?s5) a = Inr None"
    using size unfolding keeps_sel(4) [OF k5] .
  obtain t where D: "process_sell_asset env a s
      = sell_quantity env a base md (calculate_price a md fees) (ta_min_quantity a) d t ?s5"
    unfolding A B and_then_def prod.case sum.case
    by (rule exE [OF sell_decided_passes [OF votes(3) edge executor_quantity_unsized [OF q4 p5]]])
  obtain t' where F: "process_sell_asset env a s
      = submit_order env a SELL (calculate_price a md fees) (ta_min_quantity a) md d t' ?s5"
    unfolding D by (rule exE [OF sell_quantity_passes [OF health [folded keeps_sel(1) [OF k5]] base(3)]])
  show ?thesis unfolding F by (rule submit_order_kept [OF k5 async])
qed

end
