(* ===== verification/Trading.thy ===== *)
theory Trading
  imports Pipeline
begin

text \<open>
  What the executor guarantees: which checks an order has passed when it is submitted, that cash
  is reserved for it, and that there is never more than one order in flight per ticker and action.
\<close>

section \<open>A small trading floor\<close>

text \<open>One asset, fresh balances and market data, and a strategy that always votes in favour.\<close>

definition demo_xenv :: executor_env where
  "demo_xenv =
     \<lparr>xv_now = 5, xv_py_hash = (\<lambda>_. 0), xv_fresh = (\<lambda>n. replicate n CHR ''x''), xv_head = None,
      xv_rest_balances = (\<lambda>_. Inr [\<lparr>ab_currency = ''USD'', ab_available_balance = 100\<rparr>, \<lparr>ab_currency = ''BTC'', ab_available_balance = 3\<rparr>]),
      xv_rest_market = (\<lambda>_ _. Inr (demo_market_data 10 5)), xv_rest_candles = (\<lambda>_ _. Inr [demo_bar 1]),
      xv_instrument_fees = (\<lambda>_ _. Inr \<lparr>fe_maker_fee_pct = 1, fe_taker_fee_pct = 1\<rparr>),
      xv_utcoffset = (\<lambda>_ _. 0), xv_parse = (\<lambda>_. Some (Constant (XBool True))), xv_oddc = (\<lambda>_ _. Inl TypeError),
      xv_str = (\<lambda>_. []), xv_decimal = (\<lambda>_. None), xv_critical = (\<lambda>_ _. False),
      xv_load_db = DbOk, xv_place_ok = True, xv_db1 = DbOk, xv_db2 = DbOk, xv_decision_saved = True\<rparr>"

definition demo_vote :: "trade_action \<Rightarrow> strategy" where
  "demo_vote act = \<lparr>sy_id = 0, sy_name = ''v'', sy_action = act, sy_ticker_symbols = None, sy_weight = 1,
     sy_schedule = None, sy_enabled = True, sy_kind = Expression ''e''\<rparr>"

definition demo_xstate :: "session_manager \<Rightarrow> executor_state" where
  "demo_xstate sm =
     \<lparr>xs_assets = [demo_trade_asset], xs_strategies = [],
      xs_sizer = \<lparr>ps_global_formula = None, ps_global_parser = None, ps_asset_parsers = []\<rparr>,
      xs_orders = init_order_manager False sm, xs_accounts = \<lparr>am_account_states = [], am_balances = [(''CDC'', [(''USD'', \<lparr>ab_currency = ''USD'', ab_available_balance = 100\<rparr>), (''BTC'', \<lparr>ab_currency = ''BTC'', ab_available_balance = 3\<rparr>)])], am_last_balance_updates = [(''CDC'', [(''USD'', 5), (''BTC'', 5)])]\<rparr>, xs_fees = [],
      xs_markets = (new_market_manager True)\<lparr>mm_market_data := [(0, Some (demo_market_data 10 5))], mm_candles := [(0, [demo_bar 1])]\<rparr>,
      xs_consensus = \<lparr>cm_strategies = [(BUY, [demo_vote BUY]), (SELL, [demo_vote SELL])],
        cm_asset_factors = [(''BTC_USD'', \<lparr>cf_buy = 1, cf_sell = 1\<rparr>)], cm_has_event_bus = False\<rparr>,
      xs_protection = init_protection_manager,
      xs_risk = init_risk_manager [] default_portfolio_config None None,
      xs_health = create_monitor default_recovery_config TRADING 0, xs_activity = [], xs_decisions = [],
      xs_activity_queue = [], xs_outbox = [], xs_next_id = 0\<rparr>"

definition demo_holding :: session_manager where
  "demo_holding = modify_context 0
     (\<lambda>c. c\<lparr>tc_open_positions := [\<lparr>pe_price = 9, pe_quantity = 1, pe_timestamp = 1\<rparr>], tc_position_qty := 1\<rparr>) demo_session"


definition demo_decision :: "trade_action \<Rightarrow> consensus_decision" where
  "demo_decision act = \<lparr>dn_trade_action = act, dn_ticker_symbol = ''BTC_USD'', dn_votes = [(''v'', True)],
     dn_weights = [(''v'', 1)], dn_factor = 1\<rparr>"

lemma demo_vote_accepted:
  "consensus_evaluate (xv_utcoffset demo_xenv) (xv_expression demo_xenv)
     (xs_consensus (demo_xstate sm)) act (ticker_symbol demo_trade_asset) c
     (Some (demo_market_data 10 5)) [demo_bar 1] (xv_now demo_xenv) = Inr (demo_decision act, [])"
  by (cases act; hypsubst; code_simp)

lemma demo_quorum: "quorum (demo_decision act)"
  by (cases act; hypsubst; code_simp)

lemma demo_guards_agree:
  "protection_can_trade (xv_critical demo_xenv) (xs_protection (demo_xstate sm)) (key_of demo_xenv demo_trade_asset) act c md = Inr True"
  by (simp add: protection_can_trade_def demo_xstate_def init_protection_manager_def)

lemma demo_reads:
  "cached_balance (xs_accounts (demo_xstate sm)) (upper (a_exchange demo_trade_asset)) (upper (a_quote_ticker_symbol demo_trade_asset))
     = Some \<lparr>ab_currency = ''USD'', ab_available_balance = 100\<rparr>"
  "cached_balance (xs_accounts (demo_xstate sm)) (upper (a_exchange demo_trade_asset)) (upper (a_base_ticker_symbol demo_trade_asset))
     = Some \<lparr>ab_currency = ''BTC'', ab_available_balance = 3\<rparr>"
  "xv_now demo_xenv - last_update (xs_accounts (demo_xstate sm)) (upper (a_exchange demo_trade_asset))
     (upper (a_quote_ticker_symbol demo_trade_asset)) \<le> 60"
  "xv_now demo_xenv - last_update (xs_accounts (demo_xstate sm)) (upper (a_exchange demo_trade_asset))
     (upper (a_base_ticker_symbol demo_trade_asset)) \<le> 60"
  "stored_market_data (xs_markets (demo_xstate sm)) (key_of demo_xenv demo_trade_asset) = Some (demo_market_data 10 5)"
  "stored_candles (xs_markets (demo_xstate sm)) (key_of demo_xenv demo_trade_asset) = [demo_bar 1]"
  "get_instrument_fees (xv_instrument_fees demo_xenv) (xs_fees (demo_xstate sm)) (a_exchange demo_trade_asset)
     (ticker_symbol demo_trade_asset) = Inr \<lparr>fe_maker_fee_pct = 1, fe_taker_fee_pct = 1\<rparr>"
  "\<not> has_outstanding_intent (xv_load_db demo_xenv) (xs_orders (demo_xstate sm)) (ticker_symbol demo_trade_asset) (Some BUY)"
  "\<not> has_outstanding_intent (xv_load_db demo_xenv) (xs_orders (demo_xstate sm)) (ticker_symbol demo_trade_asset) (Some SELL)"
  "has_execution_edge (demo_market_data 10 5) \<lparr>fe_maker_fee_pct = 1, fe_taker_fee_pct = 1\<rparr>"
  "get_parser (xv_valid_formula demo_xenv) (xv_py_hash demo_xenv) (xs_sizer (demo_xstate sm)) demo_trade_asset = Inr None"
  "has_permission (xs_health (demo_xstate sm)) (asset_scope (ticker_symbol demo_trade_asset)) NEW_ORDERS
         (Some (a_exchange demo_trade_asset)) (Some (a_quote_ticker_symbol demo_trade_asset))"
  "\<not> om_synchronous (xs_orders (demo_xstate sm))"
  "calculate_price demo_trade_asset (demo_market_data 10 5) \<lparr>fe_maker_fee_pct = 1, fe_taker_fee_pct = 1\<rparr> = 101/10"
  "ta_min_quantity demo_trade_asset = 1" "xs_activity_queue (demo_xstate sm) = []"
  by (code_simp)+

lemma demo_contexts:
  "get_trading_context (session_of (demo_xstate demo_session)) (key_of demo_xenv demo_trade_asset)
     = Some (new_context ''BTC_USD'' ''CDC'' 100 None)"
  "get_trading_context (session_of (demo_xstate demo_holding)) (key_of demo_xenv demo_trade_asset)
     = Some ((new_context ''BTC_USD'' ''CDC'' 100 None)
         \<lparr>tc_open_positions := [\<lparr>pe_price = 9, pe_quantity = 1, pe_timestamp = 1\<rparr>], tc_position_qty := 1\<rparr>)"
  "tc_position_qty (new_context ''BTC_USD'' ''CDC'' 100 None) = 0"
  by code_simp+
lemma demo_risk:
  "fst (snd (risk_can_trade
        (risk_before_trade demo_trade_asset 100 (demo_market_data 10 5) 0 (xs_risk (demo_xstate sm))) (risk_asset.truncate demo_trade_asset) BUY
        (101/10) (Some (demo_market_data 10 5))
        (Some (rm_regime (detect default_detector [demo_bar 1] (Some (demo_market_data 10 5)) None)))))"
  by code_simp

lemma demo_buy:
  obtains t u where "process_buy_asset demo_xenv demo_trade_asset (demo_xstate demo_session)
      = submit_order demo_xenv demo_trade_asset BUY (101/10) 1 (demo_market_data 10 5) (demo_decision BUY) t u"
    "keeps (demo_xstate demo_session) u"
    "xs_risk u = fst (risk_can_trade
        (risk_before_trade demo_trade_asset 100 (demo_market_data 10 5) 0 (xs_risk (demo_xstate demo_session)))
        (risk_asset.truncate demo_trade_asset) BUY (101/10) (Some (demo_market_data 10 5))
        (Some (rm_regime (detect default_detector [demo_bar 1] (Some (demo_market_data 10 5)) None))))"
proof -
  have *: "0 < ab_available_balance \<lparr>ab_currency = ''USD'', ab_available_balance = 100\<rparr>" "[demo_bar 1] \<noteq> []"
    "calculate_price demo_trade_asset (demo_market_data 10 5) \<lparr>fe_maker_fee_pct = 1, fe_taker_fee_pct = 1\<rparr>
       * ta_min_quantity demo_trade_asset \<le> ab_available_balance \<lparr>ab_currency = ''USD'', ab_available_balance = 100\<rparr>"
    by (simp_all add: demo_reads)
  have r: "fst (snd (risk_can_trade
        (risk_before_trade demo_trade_asset (ab_available_balance \<lparr>ab_currency = ''USD'', ab_available_balance = 100\<rparr>)
          (demo_market_data 10 5) (tc_position_qty (new_context ''BTC_USD'' ''CDC'' 100 None)) (xs_risk (demo_xstate demo_session)))
        (risk_asset.truncate demo_trade_asset) BUY
        (calculate_price demo_trade_asset (demo_market_data 10 5) \<lparr>fe_maker_fee_pct = 1, fe_taker_fee_pct = 1\<rparr>
           * ta_min_quantity demo_trade_asset) (Some (demo_market_data 10 5))
        (Some (rm_regime (detect default_detector [demo_bar 1] (Some (demo_market_data 10 5)) None)))))"
    using demo_risk [of demo_session] by (simp only: demo_reads demo_contexts account_balance.simps mult_1_right)
  show ?thesis
    by (rule buy_reaches_submission [OF demo_contexts(1) demo_reads(1,3) *(1) demo_reads(5,6) *(2) demo_reads(7)
        demo_guards_agree demo_vote_accepted demo_quorum demo_reads(8,10,11) *(3) r demo_reads(12)])
      (rule that, simp_all only: demo_reads demo_contexts account_balance.simps mult_1_right)
qed

lemma demo_buy_queue:
  "\<exists>ord. xs_activity_queue (fst (process_buy_asset demo_xenv demo_trade_asset (demo_xstate demo_session))) = [ord] \<and>
    order_for demo_trade_asset BUY (101/10) 1 ord"
proof -
  obtain t u where 1: "process_buy_asset demo_xenv demo_trade_asset (demo_xstate demo_session)
      = submit_order demo_xenv demo_trade_asset BUY (101/10) 1 (demo_market_data 10 5) (demo_decision BUY) t u"
    "keeps (demo_xstate demo_session) u"
    by (rule demo_buy)
  show ?thesis using submit_order_kept [OF 1(2) demo_reads(13)] unfolding 1(1) by (simp add: demo_reads)
qed

lemma demo_sell_queue:
  "\<exists>ord. xs_activity_queue (fst (process_sell_asset demo_xenv demo_trade_asset (demo_xstate demo_holding))) = [ord] \<and>
    order_for demo_trade_asset SELL (101/10) 1 ord"
  using sell_goes_through [OF demo_contexts(2) _ demo_reads(1,3,2,4) _ demo_reads(5,6) _ demo_reads(7)
        demo_guards_agree demo_vote_accepted demo_quorum demo_reads(9,10,11,12,13)]
  by (simp add: demo_reads)

section \<open>Submitted orders\<close>

text \<open>C1.  When processing an asset for purchase submits an order, it is exactly one pending buy
  order for that asset, at the fee-inclusive price, not below the minimum quantity and affordable
  with the positive balance just read; trading was not paused and every guard agreed; the
  strategies reached quorum; no buy order for the ticker was in flight; execution costs were at
  most ten percent; the portfolio guard found no violation; and health granted new orders.\<close>

theorem submitted_buy_passed_all_checks:
  assumes "process_buy_asset env a s = (s', r)" and "xs_activity_queue s' \<noteq> xs_activity_queue s"
  shows "\<exists>ord s0 s1 s2 bal md cs fees ctx d evs regime rm.
    xs_activity_queue s' = xs_activity_queue s @ [ord] \<and>
    ensure_context env a s = (s0, True) \<and>
    prepare_trade_context env a s0 = (s1, Inr (bal, md, cs, fees)) \<and>
    order_for a BUY (calculate_price a md fees) (o_quantity ord) ord \<and>
    ta_min_quantity a \<le> o_quantity ord \<and>
    0 < ab_available_balance bal \<and> o_price ord * o_quantity ord \<le> ab_available_balance bal \<and>
    \<not> is_asset_paused (xs_protection s) (key_of env a) \<and>
    protection_can_trade (xv_critical env) (xs_protection s) (key_of env a) BUY ctx md = Inr True \<and>
    consensus_evaluate (xv_utcoffset env) (xv_expression env) (xs_consensus s) BUY (ticker_symbol a)
      ctx (Some md) cs (xv_now env) = Inr (d, evs) \<and> quorum d \<and>
    \<not> has_outstanding_intent (xv_load_db env) (xs_orders s) (ticker_symbol a) (Some BUY) \<and>
    execution_friction md fees \<le> 10 \<and> keeps s s2 \<and>
    risk_can_trade (xs_risk s2) (risk_asset.truncate a) BUY (o_price ord * o_quantity ord)
      (Some md) (Some regime) = (rm, True, []) \<and>
    has_permission (xs_health s) (asset_scope (ticker_symbol a)) NEW_ORDERS
      (Some (a_exchange a)) (Some (a_quote_ticker_symbol a))"
proof -
  have "submits s (process_buy_asset env a s)" using assms by (simp add: queue_submits)
  then obtain s0 s1 s2 bal md cs fees ctx d evs quantity regime t rm where
    1: "ensure_context env a s = (s0, True)"
      "prepare_trade_context env a s0 = (s1, Inr (bal, md, cs, fees))" "0 < ab_available_balance bal"
    and 2: "protection_can_trade (xv_critical env) (xs_protection s) (key_of env a) BUY ctx md = Inr True"
      "consensus_evaluate (xv_utcoffset env) (xv_expression env) (xs_consensus s) BUY (ticker_symbol a)
         ctx (Some md) cs (xv_now env) = Inr (d, evs)" "quorum d"
      "\<not> has_outstanding_intent (xv_load_db env) (xs_orders s) (ticker_symbol a) (Some BUY)"
      "has_execution_edge md fees" "ta_min_quantity a \<le> quantity"
      "calculate_price a md fees * quantity \<le> ab_available_balance bal"
      "risk_can_trade (xs_risk s2) (risk_asset.truncate a) BUY (calculate_price a md fees * quantity)
         (Some md) (Some regime) = (rm, True, [])"
      "has_permission (xs_health s) (asset_scope (ticker_symbol a)) NEW_ORDERS
         (Some (a_exchange a)) (Some (a_quote_ticker_symbol a))"
    and k: "keeps s s2"
    and eq: "process_buy_asset env a s
       = submit_order env a BUY (calculate_price a md fees) quantity md d t (s2\<lparr>xs_risk := rm\<rparr>)"
    by (rule submitted_buy)
  let ?u = "s2\<lparr>xs_risk := rm\<rparr>"
  have ku: "keeps s ?u" using k by simp
  have "xs_activity_queue (fst (submit_order env a BUY (calculate_price a md fees) quantity md d t ?u))
      \<noteq> xs_activity_queue ?u"
    using assms eq keeps_sel(5) [OF ku] by simp
  then obtain ord om where
    q: "xs_activity_queue (fst (submit_order env a BUY (calculate_price a md fees) quantity md d t ?u))
      = xs_activity_queue ?u @ [ord]" and o: "order_for a BUY (calculate_price a md fees) quantity ord"
    by (rule submit_order_ok)
  have q': "xs_activity_queue s' = xs_activity_queue s @ [ord]"
    using assms(1) eq q keeps_sel(5) [OF ku] by simp
  have pq: "o_quantity ord = quantity" "o_price ord = calculate_price a md fees"
    using o by (simp_all add: order_for_def)
  have edge: "execution_friction md fees \<le> 10" using 2(5) by (simp add: has_execution_edge_def)
  show ?thesis
    by (rule exI [of _ ord], rule exI [of _ s0], rule exI [of _ s1], rule exI [of _ s2], rule exI [of _ bal],
        rule exI [of _ md], rule exI [of _ cs], rule exI [of _ fees], rule exI [of _ ctx], rule exI [of _ d],
        rule exI [of _ evs], rule exI [of _ regime], rule exI [of _ rm],
        simp only: pq, intro conjI q' 1 o 2 edge k protection_not_paused [OF 2(1)])
qed

theorem submitted_buy_passed_all_checks_witness:
  "\<exists>ord s0 s1 s2 bal md cs fees ctx d evs regime rm.
    xs_activity_queue (fst (process_buy_asset demo_xenv demo_trade_asset (demo_xstate demo_session))) = [ord] \<and>
    ensure_context demo_xenv demo_trade_asset (demo_xstate demo_session) = (s0, True) \<and>
    prepare_trade_context demo_xenv demo_trade_asset s0 = (s1, Inr (bal, md, cs, fees)) \<and>
    order_for demo_trade_asset BUY (calculate_price demo_trade_asset md fees) (o_quantity ord) ord"
proof -
  have "xs_activity_queue (fst (process_buy_asset demo_xenv demo_trade_asset (demo_xstate demo_session)))
      \<noteq> xs_activity_queue (demo_xstate demo_session)"
    using demo_buy_queue by (auto simp: demo_reads)
  from submitted_buy_passed_all_checks [OF prod.collapse [symmetric] this]
  show ?thesis unfolding demo_reads append_Nil by blast
qed

text \<open>C5.  When processing an asset for sale submits an order, it is exactly one pending sell
  order for that asset; the asset had open positions and the base balance just read covers the
  quantity; trading was not paused and every guard agreed; the strategies reached quorum; no sell
  order for the ticker was in flight; execution costs were at most ten percent; and health granted
  reducing or closing positions or new orders.\<close>

theorem submitted_sell_passed_all_checks:
  assumes "process_sell_asset env a s = (s', r)" and "xs_activity_queue s' \<noteq> xs_activity_queue s"
  shows "\<exists>ord s0 s1 s2 bal md cs fees base ctx0 ctx d evs p.
    xs_activity_queue s' = xs_activity_queue s @ [ord] \<and>
    ensure_context env a s = (s0, True) \<and>
    get_trading_context (session_of s0) (key_of env a) = Some ctx0 \<and> tc_open_positions ctx0 \<noteq> [] \<and>
    prepare_trade_context env a s0 = (s1, Inr (bal, md, cs, fees)) \<and>
    base_balance env a s1 = (s2, Inr base) \<and>
    order_for a SELL (calculate_price a md fees) (o_quantity ord) ord \<and>
    ta_min_quantity a \<le> o_quantity ord \<and> o_quantity ord \<le> ab_available_balance base \<and>
    \<not> is_asset_paused (xs_protection s) (key_of env a) \<and>
    protection_can_trade (xv_critical env) (xs_protection s) (key_of env a) SELL ctx md = Inr True \<and>
    consensus_evaluate (xv_utcoffset env) (xv_expression env) (xs_consensus s) SELL (ticker_symbol a)
      ctx (Some md) cs (xv_now env) = Inr (d, evs) \<and> quorum d \<and>
    \<not> has_outstanding_intent (xv_load_db env) (xs_orders s) (ticker_symbol a) (Some SELL) \<and>
    execution_friction md fees \<le> 10 \<and>
    p \<in> {REDUCE_POSITIONS, CLOSE_POSITIONS, NEW_ORDERS} \<and>
    has_permission (xs_health s) (asset_scope (ticker_symbol a)) p
      (Some (a_exchange a)) (Some (a_quote_ticker_symbol a))"
proof -
  have "submits s (process_sell_asset env a s)" using assms by (simp add: queue_submits)
  then obtain s0 s1 s2 u bal md cs fees base ctx0 ctx d evs quantity t p where
    1: "ensure_context env a s = (s0, True)"
      "get_trading_context (session_of s0) (key_of env a) = Some ctx0" "tc_open_positions ctx0 \<noteq> []"
      "\<not> has_outstanding_intent (xv_load_db env) (xs_orders s) (ticker_symbol a) (Some SELL)"
      "prepare_trade_context env a s0 = (s1, Inr (bal, md, cs, fees))"
      "base_balance env a s1 = (s2, Inr base)"
    and 2: "protection_can_trade (xv_critical env) (xs_protection s) (key_of env a) SELL ctx md = Inr True"
      "consensus_evaluate (xv_utcoffset env) (xv_expression env) (xs_consensus s) SELL (ticker_symbol a)
         ctx (Some md) cs (xv_now env) = Inr (d, evs)" "quorum d"
      "has_execution_edge md fees" "ta_min_quantity a \<le> quantity" "quantity \<le> ab_available_balance base"
      "p \<in> {REDUCE_POSITIONS, CLOSE_POSITIONS, NEW_ORDERS}"
      "has_permission (xs_health s) (asset_scope (ticker_symbol a)) p
         (Some (a_exchange a)) (Some (a_quote_ticker_symbol a))"
    and k: "keeps s u"
    and eq: "process_sell_asset env a s = submit_order env a SELL (calculate_price a md fees) quantity md d t u"
    by (rule submitted_sell)
  have "xs_activity_queue (fst (submit_order env a SELL (calculate_price a md fees) quantity md d t u))
      \<noteq> xs_activity_queue u"
    using assms eq keeps_sel(5) [OF k] by simp
  then obtain ord om where
    q: "xs_activity_queue (fst (submit_order env a SELL (calculate_price a md fees) quantity md d t u))
      = xs_activity_queue u @ [ord]" and o: "order_for a SELL (calculate_price a md fees) quantity ord"
    by (rule submit_order_ok)
  have q': "xs_activity_queue s' = xs_activity_queue s @ [ord]"
    using assms(1) eq q keeps_sel(5) [OF k] by simp
  have pq: "o_quantity ord = quantity" using o by (simp add: order_for_def)
  have edge: "execution_friction md fees \<le> 10" using 2(4) by (simp add: has_execution_edge_def)
  show ?thesis
    by (rule exI [of _ ord], rule exI [of _ s0], rule exI [of _ s1], rule exI [of _ s2], rule exI [of _ bal],
        rule exI [of _ md], rule exI [of _ cs], rule exI [of _ fees], rule exI [of _ base], rule exI [of _ ctx0],
        rule exI [of _ ctx], rule exI [of _ d], rule exI [of _ evs], rule exI [of _ p],
        simp only: pq, intro conjI q' 1 o 2 edge protection_not_paused [OF 2(1)])
qed

theorem submitted_sell_passed_all_checks_witness:
  "\<exists>ord s0 s1 s2 bal md cs fees base.
    xs_activity_queue (fst (process_sell_asset demo_xenv demo_trade_asset (demo_xstate demo_holding))) = [ord] \<and>
    ensure_context demo_xenv demo_trade_asset (demo_xstate demo_holding) = (s0, True) \<and>
    prepare_trade_context demo_xenv demo_trade_asset s0 = (s1, Inr (bal, md, cs, fees)) \<and>
    base_balance demo_xenv demo_trade_asset s1 = (s2, Inr base) \<and>
    o_quantity ord \<le> ab_available_balance base"
proof -
  have "xs_activity_queue (fst (process_sell_asset demo_xenv demo_trade_asset (demo_xstate demo_holding)))
      \<noteq> xs_activity_queue (demo_xstate demo_holding)"
    using demo_sell_queue by (auto simp: demo_reads)
  from submitted_sell_passed_all_checks [OF prod.collapse [symmetric] this]
  show ?thesis unfolding demo_reads append_Nil by blast
qed

section \<open>One order in flight\<close>

text \<open>No two orders in flight have the same ticker and action.\<close>

definition one_intent :: "order_manager \<Rightarrow> bool" where
  "one_intent om \<longleftrightarrow> dict_wf (om_in_flight om) \<and> distinct (dict_values (om_in_flight om))"

lemma distinct_values_set:
  "distinct (dict_values d) \<Longrightarrow> v \<notin> set (dict_values d) \<Longrightarrow> distinct (dict_values (dict_set k v d))"
proof (induction d)
  case (Cons x d)
  have "set (dict_values (dict_set k v d)) \<subseteq> insert v (set (dict_values d))"
    by (rule dict_values_set_subset)
  with Cons show ?case by (cases x) auto
qed simp

lemma distinct_values_del: "distinct (dict_values d) \<Longrightarrow> distinct (dict_values (dict_del k d))"
  by (simp add: AList.delete_eq distinct_map_filter)

lemma one_intent_del: "one_intent om \<Longrightarrow> one_intent (om'\<lparr>om_in_flight := dict_del u (om_in_flight om)\<rparr>)"
  by (simp add: one_intent_def distinct_values_del)

lemma one_intent_cong: "om_in_flight om' = om_in_flight om \<Longrightarrow> one_intent om' = one_intent om"
  by (simp add: one_intent_def)

lemma execute_order_in_flight [simp]:
  "om_in_flight (fst (execute_order head ok db1 db2 om ord)) = om_in_flight om"
  by (simp add: execute_order_def store_order_def Let_def split: sum.split prod.split)

lemma open_order_in_flight:
  "om_in_flight (fst (open_order head ok db1 db2 om ord)) =
     dict_set (o_uuid ord) (o_ticker_symbol ord, o_trade_action ord) (om_in_flight om)"
  by (simp add: open_order_def Let_def)

lemma save_one_in_flight:
  "om_in_flight (fst (save_one uuid_of head om ord)) \<in> {om_in_flight om, dict_del (o_uuid ord) (om_in_flight om)}"
  by (simp add: save_one_def Let_def split_beta)

lemma one_intent_save_one: "one_intent om \<Longrightarrow> one_intent (fst (save_one uuid_of head om ord))"
  using save_one_in_flight [of uuid_of head om ord] by (auto simp: one_intent_def distinct_values_del)

lemma one_intent_save_loop: "one_intent om \<Longrightarrow> one_intent (fst (save_loop uuid_of head om ords))"
proof (induction ords arbitrary: om)
  case (Cons ord ords)
  have "one_intent (fst (save_one uuid_of head om ord))" by (rule one_intent_save_one [OF Cons.prems])
  then show ?case
    using Cons.IH [of "(fst (save_one uuid_of head om ord))\<lparr>om_orders := t\<rparr>" for t]
    by (auto simp: one_intent_def split: prod.split sum.split)
qed simp

lemma one_intent_save:
  "one_intent om \<Longrightarrow> one_intent (fst (save_orders_to_database uuid_of head db om ords))"
  using one_intent_save_loop [of om uuid_of head ords]
  by (auto simp: save_orders_to_database_def rollback_def one_intent_def split: prod.split sum.split)

lemma one_intent_process_next: "one_intent om \<Longrightarrow> one_intent (process_next head ok db1 db2 om)"
proof (cases "om_queue om")
  case (Cons ord rest)
  assume inv: "one_intent om"
  obtain om' ord' r where e: "execute_order head ok db1 db2 (om\<lparr>om_queue := rest\<rparr>) ord = (om', ord', r)"
    by (metis prod_cases3)
  then have f: "om_in_flight om' = om_in_flight om"
    using execute_order_in_flight [of head ok db1 db2 "om\<lparr>om_queue := rest\<rparr>" ord] by simp
  show ?thesis
    using inv Cons e f
    by (cases r) (simp_all add: process_next_def one_intent_def distinct_values_del)
qed (simp add: process_next_def)

lemma one_intent_reconcile:
  "one_intent om \<Longrightarrow> one_intent (reconcile_pending_orders uuid_of head load_db db reg fetch om)"
  by (auto simp: reconcile_pending_orders_def reconcile_one_def mark_reconciliation_required_def
      split: sum.split option.split intro!: foldl_invariant [where P = one_intent] one_intent_save)

lemma one_intent_order_step:
  assumes "one_intent om" and "\<And>head ok db1 db2 ord. op \<noteq> OpenOrder head ok db1 db2 ord"
  shows "one_intent (order_step uuid_of om op)"
proof (cases op)
  case (Shutdown head load_db db reg fetch ok)
  then show ?thesis by (simp add: order_step_def order_shutdown_def Let_def one_intent_def)
qed (use assms in \<open>simp_all add: order_step_def one_intent_process_next one_intent_save one_intent_reconcile\<close>)

text \<open>Opening an order that has no outstanding intent keeps the invariant.\<close>

lemma not_outstanding_values:
  assumes "\<not> has_outstanding_intent db om ticker (Some act)"
  shows "(ticker, act) \<notin> set (dict_values (om_in_flight om))"
proof
  assume "(ticker, act) \<in> set (dict_values (om_in_flight om))"
  then have "list_ex (\<lambda>(sym, b). sym = ticker \<and> (Some act = None \<or> Some act = Some b)) (dict_values (om_in_flight om))"
    by (force simp: list_ex_iff)
  with assms show False by (simp add: has_outstanding_intent_def)
qed

lemma submit_order_orders:
  "om_in_flight (xs_orders (fst (submit_order env a act price quantity md d t s))) =
     dict_set (xv_fresh env (xs_next_id s)) (ticker_symbol a, act) (om_in_flight (xs_orders s))"
proof -
  obtain om ord r where o: "open_order (xv_head env) (xv_place_ok env) (xv_db1 env) (xv_db2 env) (xs_orders s)
       (new_order env a act price quantity md d t s) = (om, ord, r)"
    by (metis prod_cases3)
  have f: "om_in_flight om = dict_set (xv_fresh env (xs_next_id s)) (ticker_symbol a, act) (om_in_flight (xs_orders s))"
    using open_order_in_flight [of "xv_head env" "xv_place_ok env" "xv_db1 env" "xv_db2 env" "xs_orders s"
        "new_order env a act price quantity md d t s"] o by (simp add: new_order_def)
  have pub: "om_in_flight (xs_orders (publish_event e x)) = om_in_flight (xs_orders x)"
    and rec: "om_in_flight (xs_orders (record_decision env dn x)) = om_in_flight (xs_orders x)" for e x dn
    using keeps_publish [of x e x] keeps_record_decision [of x env dn x] by (simp_all add: keeps_sel)
  show ?thesis
    using o f by (cases r) (simp_all add: submit_order_def Let_def pub rec)
qed

lemma one_intent_submit:
  assumes "keeps s t" and "one_intent (xs_orders s)"
    and "\<not> has_outstanding_intent db (xs_orders s) (ticker_symbol a) (Some act)"
  shows "one_intent (xs_orders (fst (submit_order env a act price quantity md d dn t)))"
  using assms(2) not_outstanding_values [OF assms(3)] keeps_sel(6) [OF assms(1)]
  by (simp add: one_intent_def submit_order_orders distinct_values_set)

lemma one_intent_buy: "one_intent (xs_orders s) \<Longrightarrow> one_intent (xs_orders (fst (process_buy_asset env a s)))"
proof (cases "submits s (process_buy_asset env a s)")
  case True
  assume inv: "one_intent (xs_orders s)"
  from True show ?thesis
  proof (rule submitted_buy)
    fix s2 md fees quantity d t rm
    assume "\<not> has_outstanding_intent (xv_load_db env) (xs_orders s) (ticker_symbol a) (Some BUY)"
      and k: "keeps s s2" and eq: "process_buy_asset env a s
       = submit_order env a BUY (calculate_price a md fees) quantity md d t (s2\<lparr>xs_risk := rm\<rparr>)"
    then show ?thesis using one_intent_submit [of s "s2\<lparr>xs_risk := rm\<rparr>"] inv by simp
  qed
next
  case False
  assume "one_intent (xs_orders s)"
  with False show ?thesis using keeps_sel(6) by (simp add: submits_def one_intent_def)
qed

lemma one_intent_sell: "one_intent (xs_orders s) \<Longrightarrow> one_intent (xs_orders (fst (process_sell_asset env a s)))"
proof (cases "submits s (process_sell_asset env a s)")
  case True
  assume inv: "one_intent (xs_orders s)"
  from True show ?thesis
  proof (rule submitted_sell)
    fix s2 md fees quantity d t
    assume "\<not> has_outstanding_intent (xv_load_db env) (xs_orders s) (ticker_symbol a) (Some SELL)"
      and k: "keeps s s2" and eq: "process_sell_asset env a s
       = submit_order env a SELL (calculate_price a md fees) quantity md d t s2"
    then show ?thesis using one_intent_submit [of s s2] inv by simp
  qed
next
  case False
  assume "one_intent (xs_orders s)"
  with False show ?thesis using keeps_sel(6) by (simp add: submits_def one_intent_def)
qed

text \<open>Only the executor opens orders: the order manager's own operations are the others.\<close>

fun opens_no_order :: "trading_op \<Rightarrow> bool" where
  "opens_no_order (OrderTraffic env uuid_of (OpenOrder head ok db1 db2 ord)) = False"
| "opens_no_order _ = True"

lemma on_order_event_in_flight: "om_in_flight (xs_orders (on_order_event env s e)) = om_in_flight (xs_orders s)"
proof (cases e)
  case (OrderRejected ticker ord)
  have "om_in_flight (xs_orders (publish_all es t)) = om_in_flight (xs_orders t)" for es t
    using keeps_publish_all [of t es t] by (simp add: keeps_sel)
  with OrderRejected show ?thesis by (simp add: split_beta)
qed simp_all

lemma one_intent_traffic:
  assumes "one_intent (xs_orders s)" and "opens_no_order (OrderTraffic env uuid_of op)"
  shows "one_intent (xs_orders (order_traffic env uuid_of op s))"
proof -
  let ?om = "order_step uuid_of (xs_orders s) op"
  have "\<And>head ok db1 db2 ord. op \<noteq> OpenOrder head ok db1 db2 ord" using assms(2) by auto
  then have "one_intent ?om" using assms(1) by (rule one_intent_order_step [rotated])
  moreover have "om_in_flight (xs_orders (foldl (on_order_event env) t evs)) = om_in_flight (xs_orders t)" for t evs
    by (induction evs arbitrary: t) (simp_all add: on_order_event_in_flight)
  ultimately show ?thesis by (simp add: order_traffic_def Let_def one_intent_def)
qed

text \<open>The log of submitted orders only grows.\<close>

lemma submit_order_queue: "prefix (xs_activity_queue s) (xs_activity_queue (fst (submit_order env a act price quantity md d t s)))"
proof (cases "xs_activity_queue (fst (submit_order env a act price quantity md d t s)) = xs_activity_queue s")
  case False
  then obtain ord om where "xs_activity_queue (fst (submit_order env a act price quantity md d t s)) = xs_activity_queue s @ [ord]"
    by (rule submit_order_ok)
  then show ?thesis by simp
qed simp

lemma process_buy_queue: "prefix (xs_activity_queue s) (xs_activity_queue (fst (process_buy_asset env a s)))"
proof (cases "submits s (process_buy_asset env a s)")
  case True
  then show ?thesis
  proof (rule submitted_buy)
    fix s2 md fees quantity d t rm
    assume k: "keeps s s2" and eq: "process_buy_asset env a s
       = submit_order env a BUY (calculate_price a md fees) quantity md d t (s2\<lparr>xs_risk := rm\<rparr>)"
    then show ?thesis
      using submit_order_queue [of "s2\<lparr>xs_risk := rm\<rparr>"] keeps_sel(5) [OF k] by simp
  qed
qed (simp add: submits_def keeps_sel)

lemma process_sell_queue: "prefix (xs_activity_queue s) (xs_activity_queue (fst (process_sell_asset env a s)))"
proof (cases "submits s (process_sell_asset env a s)")
  case True
  then show ?thesis
  proof (rule submitted_sell)
    fix s2 md fees quantity d t
    assume k: "keeps s s2" and eq: "process_sell_asset env a s
       = submit_order env a SELL (calculate_price a md fees) quantity md d t s2"
    then show ?thesis using submit_order_queue [of s2] keeps_sel(5) [OF k] by simp
  qed
qed (simp add: submits_def keeps_sel)

lemma order_traffic_queue: "xs_activity_queue (order_traffic env uuid_of op s) = xs_activity_queue s"
proof -
  have pub: "xs_activity_queue (publish_all es t) = xs_activity_queue t" for es t
    using keeps_publish_all [of t es t] by (simp add: keeps_sel)
  have "xs_activity_queue (on_order_event env t e) = xs_activity_queue t" for t e
    by (cases e) (simp_all add: pub split_beta)
  then have "xs_activity_queue (foldl (on_order_event env) t evs) = xs_activity_queue t" for t evs
    by (induction evs arbitrary: t) simp_all
  then show ?thesis by (simp add: order_traffic_def Let_def)
qed

interpretation submissions: append_only trading_step opens_no_order "\<lambda>s. one_intent (xs_orders s)"
  "\<lambda>s t. prefix (xs_activity_queue s) (xs_activity_queue t)"
proof
  fix s :: executor_state and op
  show "one_intent (xs_orders s) \<Longrightarrow> opens_no_order op \<Longrightarrow> one_intent (xs_orders (trading_step s op))"
    by (cases op) (simp_all add: one_intent_buy one_intent_sell one_intent_traffic)
  show "prefix (xs_activity_queue s) (xs_activity_queue (trading_step s op))"
    by (cases op) (simp_all add: process_buy_queue process_sell_queue order_traffic_queue)
qed simp_all



section \<open>Reserved cash\<close>

lemma reserve_first_present:
  assumes "dict_get d k = Some p" and "dict_get (qp_open_orders p) (o_uuid ord) = Some x"
  shows "dict_get (reserve_first ord cost d) k = Some p"
  using assms by (induction ord cost d rule: reserve_first.induct) (auto split: if_splits)

lemma get_put_portfolio [simp]: "get_portfolio (put_portfolio m ex qc p) ex qc = p"
  by (simp add: get_portfolio_def put_portfolio_def)

lemma guard_enabled_config:
  "pm_config m' = pm_config m \<Longrightarrow> pm_explicit_drawdown m' = pm_explicit_drawdown m \<Longrightarrow>
     pm_explicit_concentration m' = pm_explicit_concentration m \<Longrightarrow>
     gp_enabled (ec_guard (effective_policy m' a r')) = gp_enabled (ec_guard (effective_policy m a r))"
  by (simp add: effective_policy_def with_explicit_limits_def resolve_policy_def Let_def)

lemma risk_can_trade_enabled:
  assumes "risk_can_trade m a BUY cost (Some md) (Some regime) = (rm, True, [])"
    and "gp_enabled (ec_guard (effective_policy m a (Some regime)))"
  shows "cost \<le> available_cash (get_portfolio rm (a_exchange a) (a_quote_ticker_symbol a))"
proof -
  let ?p = "marked_portfolio m a (Some md)"
  have rm: "rm = put_portfolio m (a_exchange a) (a_quote_ticker_symbol a) ?p"
    and vs: "guard_evaluate cost (risk_metrics_of ?p (ticker_symbol a)) regime (effective_policy m a (Some regime)) = []"
    using assms(1) by (auto simp: risk_can_trade_def Let_def)
  have "\<not> cost > rk_available_cash (risk_metrics_of ?p (ticker_symbol a))"
    using vs assms(2) by (simp add: guard_evaluate_def Let_def split: if_splits)
  then show ?thesis by (simp add: rm risk_metrics_of_def Let_def)
qed

lemma risk_can_trade_config:
  assumes "risk_can_trade m a BUY cost md regime = (rm, r)"
  shows "pm_config rm = pm_config m" "pm_explicit_drawdown rm = pm_explicit_drawdown m"
    "pm_explicit_concentration rm = pm_explicit_concentration m"
  using assms by (auto simp: risk_can_trade_def Let_def put_portfolio_def)

lemma submitted_config:
  "pm_config (on_order_submitted (fst (reserve_order_cash rm a u c)) ord) = pm_config rm"
  "pm_explicit_drawdown (on_order_submitted (fst (reserve_order_cash rm a u c)) ord) = pm_explicit_drawdown rm"
  "pm_explicit_concentration (on_order_submitted (fst (reserve_order_cash rm a u c)) ord) = pm_explicit_concentration rm"
  by (simp_all add: on_order_submitted_def reserve_order_cash_def put_portfolio_def split_beta)

text \<open>The risk manager after a purchase was submitted.\<close>

lemma submit_buy_risk:
  assumes "xs_activity_queue (fst (submit_order env a BUY price quantity md d t s)) = xs_activity_queue s @ [ord]"
  shows "xs_risk (fst (submit_order env a BUY price quantity md d t s)) =
    on_order_submitted (fst (reserve_order_cash (xs_risk s) (risk_asset.truncate a) (o_uuid ord) (price * quantity))) ord"
proof -
  have queue: "xs_activity_queue (publish_event e x) = xs_activity_queue x"
    and queue': "xs_activity_queue (record_decision env dn x) = xs_activity_queue x" for e x dn
    using keeps_publish [of x e x] keeps_record_decision [of x env dn x] by (simp_all add: keeps_sel)
  have risk: "xs_risk (record_decision env dn x) = xs_risk x" for dn x
    by (simp add: record_decision_def publish_event_def Let_def)
  have risk': "xs_risk (publish_event (OrderSubmitted tk o1) x) = on_order_submitted (xs_risk x) o1" for tk o1 x
    by (simp add: publish_event_def Let_def)
  obtain om o1 r where o: "open_order (xv_head env) (xv_place_ok env) (xv_db1 env) (xv_db2 env) (xs_orders s)
       (new_order env a BUY price quantity md d t s) = (om, o1, r)"
    by (metis prod_cases3)
  show ?thesis
    using assms o
    by (cases r) (simp_all add: submit_order_def Let_def queue queue' risk risk')
qed

text \<open>C6.  When the portfolio guard is enabled, a submitted purchase has its full cost reserved in
  the quote portfolio of its exchange and currency, and the reservations of that portfolio do not
  exceed its cash: the next purchase cannot spend the same money.\<close>

theorem submitted_buy_is_reserved:
  assumes "process_buy_asset env a s = (s', r)" and "xs_activity_queue s' = xs_activity_queue s @ [ord]"
    and "0 < o_price ord * o_quantity ord"
    and "gp_enabled (ec_guard (effective_policy (xs_risk s') (risk_asset.truncate a) None))"
  shows "let p = get_portfolio (xs_risk s') (a_exchange a) (a_quote_ticker_symbol a)
    in dict_get (qp_open_orders p) (o_uuid ord) = Some (o_price ord * o_quantity ord) \<and>
       qp_reserved_cash p \<le> qp_total_cash p"
proof -
  have "submits s (process_buy_asset env a s)" using assms(1,2) by (intro queue_submits) simp
  then obtain s2 md fees d quantity regime t rm where
    risk: "risk_can_trade (xs_risk s2) (risk_asset.truncate a) BUY (calculate_price a md fees * quantity)
         (Some md) (Some regime) = (rm, True, [])" and k: "keeps s s2"
    and eq: "process_buy_asset env a s
       = submit_order env a BUY (calculate_price a md fees) quantity md d t (s2\<lparr>xs_risk := rm\<rparr>)"
    by (rule submitted_buy)
  let ?u = "s2\<lparr>xs_risk := rm\<rparr>" and ?c = "calculate_price a md fees * quantity"
  let ?a = "risk_asset.truncate a"
  have q: "xs_activity_queue (fst (submit_order env a BUY (calculate_price a md fees) quantity md d t ?u))
      = xs_activity_queue ?u @ [ord]"
    using assms(1,2) eq keeps_sel(5) [OF k] by simp
  then have "xs_activity_queue (fst (submit_order env a BUY (calculate_price a md fees) quantity md d t ?u))
      \<noteq> xs_activity_queue ?u" by simp
  then obtain ord' where "xs_activity_queue (fst (submit_order env a BUY (calculate_price a md fees) quantity md d t ?u))
      = xs_activity_queue ?u @ [ord']" "order_for a BUY (calculate_price a md fees) quantity ord'"
    by (rule submit_order_ok)
  with q have cost: "o_price ord * o_quantity ord = ?c" by (simp add: order_for_def)
  have s': "xs_risk s' = on_order_submitted (fst (reserve_order_cash rm ?a (o_uuid ord) ?c)) ord"
    using submit_buy_risk [OF q] assms(1) eq by simp
  have cfg: "pm_config (xs_risk s') = pm_config (xs_risk s2)"
    "pm_explicit_drawdown (xs_risk s') = pm_explicit_drawdown (xs_risk s2)"
    "pm_explicit_concentration (xs_risk s') = pm_explicit_concentration (xs_risk s2)"
    using risk_can_trade_config [OF risk] by (simp_all add: s' submitted_config)
  let ?p = "get_portfolio rm (a_exchange ?a) (a_quote_ticker_symbol ?a)"
  let ?p' = "?p\<lparr>qp_reserved_cash := qp_reserved_cash ?p + ?c, qp_open_orders := dict_set (o_uuid ord) ?c (qp_open_orders ?p)\<rparr>"
  have avail: "?c \<le> available_cash ?p"
    by (rule risk_can_trade_enabled [OF risk guard_enabled_config [OF cfg, THEN iffD1, OF assms(4)]])
  have pos: "0 < ?c" using assms(3) cost by simp
  have res: "reserve_cash (o_uuid ord) ?c ?p = (?p', True)"
    using avail pos by (simp add: reserve_cash_def)
  have reserved: "fst (reserve_order_cash rm ?a (o_uuid ord) ?c)
      = put_portfolio rm (a_exchange ?a) (a_quote_ticker_symbol ?a) ?p'"
    by (simp add: reserve_order_cash_def res)
  have "dict_get (pm_portfolios (xs_risk s')) (a_exchange ?a, a_quote_ticker_symbol ?a) = Some ?p'"
    unfolding s' reserved
    by (simp add: on_order_submitted_def put_portfolio_def reserve_first_present)
  then have "get_portfolio (xs_risk s') (a_exchange ?a) (a_quote_ticker_symbol ?a) = ?p'"
    by (simp add: get_portfolio_def)
  moreover have "a_exchange ?a = a_exchange a" "a_quote_ticker_symbol ?a = a_quote_ticker_symbol a"
    by (simp_all add: risk_asset.truncate_def)
  moreover have "qp_reserved_cash ?p + ?c \<le> qp_total_cash ?p"
    using avail pos by (simp add: available_cash_def max_def split: if_splits)
  ultimately show ?thesis by (simp add: Let_def cost)
qed

theorem submitted_buy_is_reserved_witness:
  "\<exists>ord. let s' = fst (process_buy_asset demo_xenv demo_trade_asset (demo_xstate demo_session));
       p = get_portfolio (xs_risk s') ''CDC'' ''USD''
   in xs_activity_queue s' = [ord] \<and> dict_get (qp_open_orders p) (o_uuid ord) = Some (101/10) \<and>
      qp_reserved_cash p \<le> qp_total_cash p"
proof -
  let ?s = "fst (process_buy_asset demo_xenv demo_trade_asset (demo_xstate demo_session))"
  obtain ord where q: "xs_activity_queue ?s = [ord]" and o: "order_for demo_trade_asset BUY (101/10) 1 ord"
    using demo_buy_queue by blast
  obtain t u where 1: "process_buy_asset demo_xenv demo_trade_asset (demo_xstate demo_session)
      = submit_order demo_xenv demo_trade_asset BUY (101/10) 1 (demo_market_data 10 5) (demo_decision BUY) t u"
    "keeps (demo_xstate demo_session) u"
    "xs_risk u = fst (risk_can_trade
        (risk_before_trade demo_trade_asset 100 (demo_market_data 10 5) 0 (xs_risk (demo_xstate demo_session)))
        (risk_asset.truncate demo_trade_asset) BUY (101/10) (Some (demo_market_data 10 5))
        (Some (rm_regime (detect default_detector [demo_bar 1] (Some (demo_market_data 10 5)) None))))"
    by (rule demo_buy)
  have q': "xs_activity_queue ?s = xs_activity_queue (demo_xstate demo_session) @ [ord]" using q by (simp add: demo_reads)
  have "xs_risk ?s = on_order_submitted (fst (reserve_order_cash (xs_risk u) (risk_asset.truncate demo_trade_asset)
      (o_uuid ord) (101/10 * 1))) ord"
    unfolding 1(1) by (rule submit_buy_risk) (use q' in \<open>simp add: 1(1) keeps_sel(5) [OF 1(2)]\<close>)
  then have cfg: "pm_config (xs_risk ?s) = pm_config (xs_risk u)"
    "pm_explicit_drawdown (xs_risk ?s) = pm_explicit_drawdown (xs_risk u)"
    "pm_explicit_concentration (xs_risk ?s) = pm_explicit_concentration (xs_risk u)"
    by (simp_all add: submitted_config)
  have "gp_enabled (ec_guard (effective_policy (xs_risk u) (risk_asset.truncate demo_trade_asset) None))"
    unfolding 1(3) by code_simp
  then have g: "gp_enabled (ec_guard (effective_policy (xs_risk ?s) (risk_asset.truncate demo_trade_asset) None))"
    using guard_enabled_config [OF cfg] by blast
  have pos: "0 < o_price ord * o_quantity ord" "o_price ord * o_quantity ord = 101/10"
    using o by (simp_all add: order_for_def)
  have a: "a_exchange demo_trade_asset = ''CDC''" "a_quote_ticker_symbol demo_trade_asset = ''USD''"
    by code_simp+
  from submitted_buy_is_reserved [OF prod.collapse [symmetric] q' pos(1) g]
  show ?thesis unfolding Let_def pos(2) a using q by blast
qed

end
