(* ===== verification/History.thy ===== *)
theory History
  imports Domain
begin

text \<open>
  Historical market data: \<open>HistoricalDataPoint\<close>
  (\<open>src/src/backtest/backtest_data_loader.py\<close>), the immutable data set with its time index
  (\<open>src/src/backtest/data/backtest_data_set.py\<close>), the integrity guard of walk-forward runs
  (\<open>src/src/walk_forward/data/dataset_integrity_guard.py\<close>) and the simulation clock
  (\<open>src/src/backtest/backtest_clock.py\<close>).

  The two searches of Python's \<open>bisect\<close> module are binary searches over the list.  What the users of
  the clock rely on is the locale \<open>timeline\<close>: the resolved time of a deadline is the first known
  time that is not before it.
\<close>

section \<open>Data points and data sets\<close>

record historical_data_point =
  hp_timestamp :: int
  hp_open_price :: decimal
  hp_high_price :: decimal
  hp_low_price :: decimal
  hp_close_price :: decimal
  hp_volume :: decimal
  hp_market_cap :: decimal

record backtest_data_set =
  ds_dataset_id :: string
  ds_ticker_symbol :: string
  ds_start_time :: timestamp
  ds_end_time :: timestamp
  ds_data_points :: "historical_data_point list"
  ds_index :: "(int, historical_data_point) dict"

definition ds_timestamps :: "backtest_data_set \<Rightarrow> int list" where
  "ds_timestamps ds = map hp_timestamp (ds_data_points ds)"

definition data_set_index :: "historical_data_point list \<Rightarrow> (int, historical_data_point) dict" where
  "data_set_index pts = foldl (\<lambda>d p. dict_set (hp_timestamp p) p d) [] pts"

text \<open>The constructor, with the checks of \<open>__post_init__\<close>.\<close>

definition make_data_set ::
  "string \<Rightarrow> string \<Rightarrow> timestamp \<Rightarrow> timestamp \<Rightarrow> historical_data_point list \<Rightarrow> backtest_data_set result" where
  "make_data_set dataset_id ticker start_time end_time pts =
     (let timestamps = map hp_timestamp pts
      in if timestamps \<noteq> sort timestamps then Inl ValueError
         else if length timestamps \<noteq> length (remdups timestamps) then Inl ValueError
         else Inr \<lparr>ds_dataset_id = dataset_id, ds_ticker_symbol = ticker, ds_start_time = start_time,
                   ds_end_time = end_time, ds_data_points = pts, ds_index = data_set_index pts\<rparr>)"

definition ds_get :: "backtest_data_set \<Rightarrow> int \<Rightarrow> historical_data_point option" where
  "ds_get ds timestamp = dict_get (ds_index ds) timestamp"

section \<open>Integrity guard\<close>

text \<open>
  The loop carries the previous time stamp and the number of points without volume.  Every
  \<open>DatasetIntegrityError\<close> is a \<open>ValueError\<close>.
\<close>

fun guard_points_loop :: "int \<Rightarrow> nat \<Rightarrow> historical_data_point list \<Rightarrow> nat result" where
  "guard_points_loop prev zero_volume [] = Inr zero_volume"
| "guard_points_loop prev zero_volume (p # ps) =
     (if hp_timestamp p \<le> prev then Inl ValueError
      else guard_points_loop (hp_timestamp p) (if hp_volume p \<le> 0 then zero_volume + 1 else zero_volume) ps)"

definition validate_historical_points ::
  "historical_data_point list \<Rightarrow> int \<Rightarrow> bool \<Rightarrow> unit result" where
  "validate_historical_points pts min_required_points require_volume =
     (if pts = [] then Inl ValueError
      else if int (length pts) < min_required_points then Inl ValueError
      else res_bind (guard_points_loop (- 1) 0 pts)
             (\<lambda>zero_volume. if require_volume \<and> zero_volume = length pts then Inl ValueError else Inr ()))"

fun guard_candles_loop :: "timestamp \<Rightarrow> candle list \<Rightarrow> unit result" where
  "guard_candles_loop prev [] = Inr ()"
| "guard_candles_loop prev (c # cs) =
     (if cd_start_time c \<le> prev then Inl ValueError else guard_candles_loop (cd_start_time c) cs)"

definition validate_candles :: "candle list \<Rightarrow> int \<Rightarrow> unit result" where
  "validate_candles cs min_required_candles =
     (if cs = [] then Inl ValueError
      else if int (length cs) < min_required_candles then Inl ValueError
      else guard_candles_loop (- 1) cs)"

section \<open>Binary search\<close>

text \<open>Both searches move the lower end past a middle element that lies \<open>below\<close> the target.\<close>

function bisect_loop :: "(int \<Rightarrow> bool) \<Rightarrow> int list \<Rightarrow> nat \<Rightarrow> nat \<Rightarrow> nat" where
  "bisect_loop below a lo hi =
     (if lo < hi
      then let mid = (lo + hi) div 2
           in if below (a ! mid) then bisect_loop below a (mid + 1) hi
              else bisect_loop below a lo mid
      else lo)"
  by pat_completeness auto
termination by (relation "measure (\<lambda>(below, a, lo, hi). hi - lo)") auto

declare bisect_loop.simps [simp del]

definition bisect_left :: "int list \<Rightarrow> rat \<Rightarrow> nat" where
  "bisect_left a x = bisect_loop (\<lambda>t. of_int t < x) a 0 (length a)"

definition bisect_right :: "int list \<Rightarrow> rat \<Rightarrow> nat" where
  "bisect_right a x = bisect_loop (\<lambda>t. \<not> x < of_int t) a 0 (length a)"

section \<open>Clock\<close>

record asset_clock_data =
  cl_current_index :: int
  cl_timestamps :: "int list"
  cl_is_complete :: bool

type_synonym backtest_clock = "(string, asset_clock_data) dict"

definition new_clock :: "(string, int list) dict \<Rightarrow> backtest_clock" where
  "new_clock timestamps =
     map (\<lambda>(key, ts). (key, \<lparr>cl_current_index = - 1, cl_timestamps = sort ts, cl_is_complete = False\<rparr>)) timestamps"

definition clock_reset :: "string \<Rightarrow> backtest_clock \<Rightarrow> backtest_clock result" where
  "clock_reset key c =
     (case dict_get c key of
        None \<Rightarrow> Inl ValueError
      | Some d \<Rightarrow> Inr (dict_set key (d\<lparr>cl_current_index := - 1, cl_is_complete := False\<rparr>) c))"

definition clock_tick :: "string \<Rightarrow> backtest_clock \<Rightarrow> (backtest_clock \<times> bool) result" where
  "clock_tick key c =
     (case dict_get c key of
        None \<Rightarrow> Inl KeyError
      | Some d \<Rightarrow>
          (let n = int (length (cl_timestamps d))
           in if cl_current_index d \<ge> n then Inr (dict_set key (d\<lparr>cl_is_complete := True\<rparr>) c, False)
              else Inr (dict_set key (d\<lparr>cl_current_index := cl_current_index d + 1\<rparr>) c,
                        cl_current_index d + 1 < n)))"

definition clock_now :: "string \<Rightarrow> backtest_clock \<Rightarrow> int result" where
  "clock_now key c =
     (case dict_get c key of
        None \<Rightarrow> Inl KeyError
      | Some d \<Rightarrow>
          (let n = int (length (cl_timestamps d))
           in if n = 0 then Inr 0
              else Inr (cl_timestamps d ! nat (max 0 (min (cl_current_index d) (n - 1))))))"

definition clock_is_complete :: "string \<Rightarrow> backtest_clock \<Rightarrow> bool result" where
  "clock_is_complete key c =
     (case dict_get c key of
        None \<Rightarrow> Inl KeyError
      | Some d \<Rightarrow> Inr (cl_current_index d \<ge> int (length (cl_timestamps d))))"

definition clock_progress :: "string \<Rightarrow> backtest_clock \<Rightarrow> rat result" where
  "clock_progress key c =
     (case dict_get c key of
        None \<Rightarrow> Inl KeyError
      | Some d \<Rightarrow>
          if cl_timestamps d = [] then Inl ZeroDivisionError
          else Inr (min (of_int (max 0 (cl_current_index d)) / of_nat (length (cl_timestamps d))) 1))"

definition clock_total_ticks :: "string \<Rightarrow> backtest_clock \<Rightarrow> nat result" where
  "clock_total_ticks key c =
     (case dict_get c key of None \<Rightarrow> Inl KeyError | Some d \<Rightarrow> Inr (length (cl_timestamps d)))"

definition next_timestamp_at_or_after :: "backtest_clock \<Rightarrow> string \<Rightarrow> rat \<Rightarrow> int option" where
  "next_timestamp_at_or_after c key target =
     (case dict_get c key of
        None \<Rightarrow> None
      | Some d \<Rightarrow>
          if cl_timestamps d = [] then None
          else let idx = bisect_left (cl_timestamps d) target
               in if idx \<ge> length (cl_timestamps d) then None else Some (cl_timestamps d ! idx))"

section \<open>Searching sorted times\<close>

definition cut_at :: "('a \<Rightarrow> bool) \<Rightarrow> 'a list \<Rightarrow> nat \<Rightarrow> bool" where
  "cut_at below a k \<longleftrightarrow> k \<le> length a \<and> (\<forall>i<k. below (a ! i)) \<and> (\<forall>i. k \<le> i \<and> i < length a \<longrightarrow> \<not> below (a ! i))"

lemma bisect_loop_cut:
  assumes "sorted a" and "\<And>t u. t \<le> u \<Longrightarrow> below u \<Longrightarrow> below t"
    and "hi \<le> length a" "lo \<le> hi" "\<And>i. i < lo \<Longrightarrow> below (a ! i)"
    "\<And>i. hi \<le> i \<Longrightarrow> i < length a \<Longrightarrow> \<not> below (a ! i)"
  shows "cut_at below a (bisect_loop below a lo hi)"
  using assms(3-)
proof (induction "hi - lo" arbitrary: lo hi rule: less_induct)
  case less
  show ?case
  proof (cases "lo < hi")
    case False
    then have "bisect_loop below a lo hi = lo" by (subst bisect_loop.simps) simp
    then show ?thesis using less.prems False by (simp add: cut_at_def)
  next
    case True
    define mid where "mid = (lo + hi) div 2"
    have mid: "lo \<le> mid" "mid < hi" "mid < length a" using True less.prems by (auto simp: mid_def)
    have step: "bisect_loop below a lo hi =
        (if below (a ! mid) then bisect_loop below a (mid + 1) hi else bisect_loop below a lo mid)"
      using True by (subst bisect_loop.simps) (simp add: mid_def Let_def)
    show ?thesis
    proof (cases "below (a ! mid)")
      case below: True
      have "below (a ! i)" if "i < mid + 1" for i
        using that mid(3) assms(1) by (intro assms(2) [OF _ below] sorted_nth_mono) auto
      then have "cut_at below a (bisect_loop below a (mid + 1) hi)"
        using less.prems mid by (intro less.hyps) auto
      with below step show ?thesis by simp
    next
      case above: False
      have "\<not> below (a ! i)" if "mid \<le> i" "i < length a" for i
        using that above assms(2) [OF sorted_nth_mono [OF assms(1) that]] by blast
      then have "cut_at below a (bisect_loop below a lo mid)"
        using less.prems mid by (intro less.hyps) auto
      with above step show ?thesis by simp
    qed
  qed
qed

lemma cut_at_filter:
  assumes "cut_at below a k"
  shows "filter below a = take k a" and "filter (\<lambda>t. \<not> below t) a = drop k a"
proof -
  have low: "\<forall>t \<in> set (take k a). below t" and high: "\<forall>t \<in> set (drop k a). \<not> below t"
    using assms by (auto simp: cut_at_def in_set_conv_nth)
  have "filter below (take k a @ drop k a) = take k a"
    using low high by (simp only: filter_append filter_True filter_False append_Nil2)
  then show "filter below a = take k a" by simp
  have "filter (\<lambda>t. \<not> below t) (take k a @ drop k a) = drop k a"
    using low high by (simp only: filter_append filter_True filter_False append_Nil not_not simp_thms)
  then show "filter (\<lambda>t. \<not> below t) a = drop k a" by simp
qed

lemma bisect_left_cut: "sorted a \<Longrightarrow> cut_at (\<lambda>t. of_int t < x) a (bisect_left a x)"
  unfolding bisect_left_def by (rule bisect_loop_cut) (auto simp: le_less_trans [OF of_int_le_iff [THEN iffD2]])

lemma bisect_right_cut: "sorted a \<Longrightarrow> cut_at (\<lambda>t. \<not> x < of_int t) a (bisect_right a x)"
  unfolding bisect_right_def
  by (rule bisect_loop_cut) (auto simp: not_less order_trans [OF of_int_le_iff [THEN iffD2]])

text \<open>
  The contract of a timeline for the code that schedules against it: the resolved time is known, not
  before the deadline, and no known time lies between the two; nothing is resolved exactly when all
  known times are over.
\<close>

locale timeline =
  fixes known :: "'c \<Rightarrow> 'k \<Rightarrow> int set"
    and resolve :: "'c \<Rightarrow> 'k \<Rightarrow> rat \<Rightarrow> int option"
    and ok :: "'c \<Rightarrow> bool"
  assumes resolve_Some: "ok c \<Longrightarrow> resolve c k x = Some t \<Longrightarrow>
      t \<in> known c k \<and> x \<le> of_int t \<and> (\<forall>u \<in> known c k. x \<le> of_int u \<longrightarrow> t \<le> u)"
    and resolve_None: "ok c \<Longrightarrow> resolve c k x = None \<longleftrightarrow> (\<forall>u \<in> known c k. of_int u < x)"
begin

lemma resolve_mono:
  assumes "ok c" "x \<le> y" "resolve c k x = Some t" "resolve c k y = Some u"
  shows "t \<le> u"
  using resolve_Some [OF assms(1,3)] resolve_Some [OF assms(1,4)] assms(2) order_trans by blast

lemma resolve_known:
  assumes "ok c" "t \<in> known c k"
  shows "resolve c k (of_int t) = Some t"
proof (cases "resolve c k (of_int t)")
  case None
  then show ?thesis using assms resolve_None by fastforce
next
  case (Some u)
  then show ?thesis using resolve_Some [OF assms(1) Some] assms(2) by (simp add: eq_iff)
qed

end

definition known_times :: "backtest_clock \<Rightarrow> string \<Rightarrow> int set" where
  "known_times c key = (case dict_get c key of None \<Rightarrow> {} | Some d \<Rightarrow> set (cl_timestamps d))"

definition clock_ok :: "backtest_clock \<Rightarrow> bool" where
  "clock_ok c \<longleftrightarrow> dict_all (\<lambda>d. sorted (cl_timestamps d) \<and> - 1 \<le> cl_current_index d) c"

lemma clock_ok_new [simp]: "clock_ok (new_clock timestamps)"
  by (induction timestamps) (auto simp: clock_ok_def new_clock_def)

lemma clock_ok_get: "clock_ok c \<Longrightarrow> dict_get c key = Some d \<Longrightarrow> sorted (cl_timestamps d) \<and> - 1 \<le> cl_current_index d"
  unfolding clock_ok_def by (rule dict_all_get)

lemma next_timestamp_spec:
  assumes "clock_ok c" "dict_get c key = Some d"
  shows "next_timestamp_at_or_after c key x =
    (let later = filter (\<lambda>t. x \<le> of_int t) (cl_timestamps d) in if later = [] then None else Some (hd later))"
proof -
  let ?k = "bisect_left (cl_timestamps d) x"
  have cut: "cut_at (\<lambda>t. of_int t < x) (cl_timestamps d) ?k"
    using clock_ok_get [OF assms] by (simp add: bisect_left_cut)
  have "filter (\<lambda>t. x \<le> of_int t) (cl_timestamps d) = drop ?k (cl_timestamps d)"
    using cut_at_filter(2) [OF cut] by (simp add: not_less)
  then show ?thesis
    by (auto simp: next_timestamp_at_or_after_def assms(2) Let_def hd_drop_conv_nth)
qed

interpretation tl: timeline known_times next_timestamp_at_or_after clock_ok
proof
  fix c key x t
  assume c: "clock_ok c" and r: "next_timestamp_at_or_after c key x = Some t"
  then obtain d where d: "dict_get c key = Some d"
    by (auto simp: next_timestamp_at_or_after_def split: option.splits)
  let ?later = "filter (\<lambda>t. x \<le> of_int t) (cl_timestamps d)"
  have t: "?later \<noteq> []" "t = hd ?later"
    using r next_timestamp_spec [OF c d] by (auto simp: Let_def split: if_splits)
  have "sorted ?later" using clock_ok_get [OF c d] sorted_filter [of "\<lambda>t. t" "cl_timestamps d" "\<lambda>t. x \<le> of_int t"] by simp
  then have "\<forall>u \<in> set ?later. t \<le> u" using t by (cases ?later) auto
  moreover have "t \<in> set ?later" using t hd_in_set by metis
  ultimately show "t \<in> known_times c key \<and> x \<le> of_int t \<and> (\<forall>u\<in>known_times c key. x \<le> of_int u \<longrightarrow> t \<le> u)"
    using d by (simp add: known_times_def)
next
  fix c key x
  assume c: "clock_ok c"
  show "(next_timestamp_at_or_after c key x = None) = (\<forall>u\<in>known_times c key. of_int u < x)"
  proof (cases "dict_get c key")
    case None then show ?thesis by (simp add: next_timestamp_at_or_after_def known_times_def)
  next
    case (Some d)
    then show ?thesis
      by (auto simp: next_timestamp_spec [OF c Some] known_times_def Let_def filter_empty_conv not_le)
  qed
qed

lemma data_set_index_get:
  assumes "distinct (map hp_timestamp pts)"
  shows "dict_get (data_set_index pts) t = Some p \<longleftrightarrow> p \<in> set pts \<and> hp_timestamp p = t"
proof -
  let ?kvs = "map (\<lambda>p. (hp_timestamp p, p)) pts"
  have "data_set_index pts = pd.put_all ?kvs []"
    by (simp add: data_set_index_def pd.put_all_def foldl_map)
  then have "dict_get (data_set_index pts) t = map_of (rev ?kvs) t"
    by (simp add: pd.get_put_all split: option.splits)
  moreover have "distinct (map fst (rev ?kvs))" using assms by (simp add: comp_def flip: rev_map)
  ultimately show ?thesis by (auto simp: map_of_eq_Some_iff)
qed

lemma make_data_set_Inr:
  assumes "make_data_set i ticker st en pts = Inr ds"
  shows "ds_data_points ds = pts" "sorted_wrt (<) (ds_timestamps ds)"
    and "ds_get ds t = Some p \<longleftrightarrow> p \<in> set pts \<and> hp_timestamp p = t"
proof -
  let ?ts = "map hp_timestamp pts"
  have ts: "?ts = sort ?ts" "length (remdups ?ts) = length ?ts"
    and ds: "ds_data_points ds = pts" "ds_index ds = data_set_index pts"
    using assms by (auto simp: make_data_set_def Let_def split: if_splits)
  from ts(2) have dist: "distinct ?ts" by (simp only: length_remdups_eq remdups_id_iff_distinct)
  show "ds_data_points ds = pts" by (rule ds)
  show "sorted_wrt (<) (ds_timestamps ds)"
    using ts(1) dist sorted_sort [of ?ts] by (simp add: ds_timestamps_def ds strict_sorted_iff)
  show "ds_get ds t = Some p \<longleftrightarrow> p \<in> set pts \<and> hp_timestamp p = t"
    using data_set_index_get [OF dist] by (simp add: ds_get_def ds)
qed

lemma guard_points_loop_sorted:
  "guard_points_loop prev z pts = Inr n \<Longrightarrow> sorted_wrt (<) (prev # map hp_timestamp pts)"
  by (induction prev z pts rule: guard_points_loop.induct) (auto split: if_splits intro: less_trans)

lemma validated_points_increasing:
  assumes "validate_historical_points pts n v = Inr ()"
  shows "sorted_wrt (<) (map hp_timestamp pts) \<and> (\<forall>t \<in> set (map hp_timestamp pts). 0 \<le> t)"
proof -
  obtain k where "guard_points_loop (- 1) 0 pts = Inr k"
    using assms by (auto simp: validate_historical_points_def res_bind_eq_Inr split: if_splits)
  from guard_points_loop_sorted [OF this] show ?thesis by auto
qed

end
