(* ===== verification/Backtest.thy ===== *)
theory Backtest
  imports History Sizing
begin

text \<open>
  The backtest: execution of simulated orders
  (\<open>src/src/backtest/execution/backtest_execution_engine.py\<close> with the latency, slippage and
  fee models beside it), the REST service the trading cycle talks to
  (\<open>src/src/backtest/backtest_rest_service.py\<close>), the schedule
  (\<open>src/src/backtest/backtest_trading_scheduler.py\<close>) and the simulator that replays history
  (\<open>src/src/backtest/backtest_simulator.py\<close>).

  The engine, the clock and the account are shared objects of these classes; the record
  \<open>bt_engine\<close> holds them.  Published events are returned in order.  A trading cycle is the
  list of requests it sends to the REST service, a parameter of the simulator: the theorems hold for
  every trading cycle.
\<close>

section \<open>Execution model\<close>

record execution_model =
  em_latency_ms :: rat
  em_slippage_ticks :: rat
  em_fee_rate :: rat

definition get_latency :: "execution_model \<Rightarrow> rat" where
  "get_latency m = em_latency_ms m / 1000"

definition slippage_apply :: "execution_model \<Rightarrow> trade_action \<Rightarrow> decimal \<Rightarrow> int \<Rightarrow> decimal" where
  "slippage_apply m action price quote_decimals =
     (let slippage = em_slippage_ticks m * quantum_of quote_decimals
      in if action = BUY then price + slippage else price - slippage)"

definition fee_calculate :: "execution_model \<Rightarrow> decimal \<Rightarrow> decimal" where
  "fee_calculate m notional = \<bar>notional\<bar> * em_fee_rate m"

section \<open>Engine state\<close>

record bt_account =
  bac_balance_usd :: decimal
  bac_positions :: "(string, decimal) dict"
  bac_orders :: "order list"

record pending_order =
  po_order_uuid :: string
  po_ticker_symbol :: string
  po_trade_action :: trade_action
  po_quantity :: decimal
  po_requested_price :: decimal
  po_signal_at :: timestamp
  po_submitted_at :: timestamp
  po_eligible_at :: timestamp
  po_commit_hash :: "string option"
  po_execution_timestamp :: "int option"

record execution_result =
  xr_order_uuid :: string
  xr_ticker_symbol :: string
  xr_trade_action :: trade_action
  xr_status :: order_status
  xr_requested_price :: decimal
  xr_market_price :: decimal
  xr_execution_price :: decimal
  xr_requested_quantity :: decimal
  xr_executed_quantity :: decimal
  xr_slippage_per_unit :: decimal
  xr_slippage_cost :: decimal
  xr_fee :: decimal
  xr_signal_at :: timestamp
  xr_submitted_at :: timestamp
  xr_eligible_at :: timestamp
  xr_executed_at :: timestamp
  xr_commit_hash :: "string option"

record bt_portfolio_snapshot =
  ps_timestamp :: int
  ps_cash :: decimal
  ps_positions :: "(string, decimal) dict"
  ps_equity :: decimal

datatype bt_event =
    TickEvent int
  | CandlesEvent "candle list" string
  | BtMarketDataEvent market_data string
  | OrderSubmittedEvent order
  | OrderFilledEvent order execution_result
  | OrderCancelledEvent order
  | BalanceUpdateEvent "account_balance list"
  | PortfolioSnapshotEvent bt_portfolio_snapshot string

datatype asset_schedule = EVERY_SECOND | EVERY_MINUTE | EVERY_HOUR | EVERY_DAY | EVERY_WEEK | EVERY_MONTH

record bt_asset = asset +
  ba_quote_decimals :: int
  ba_schedule :: asset_schedule

record bt_engine =
  be_clock :: backtest_clock
  be_datasets :: "(string, backtest_data_set) dict"
  be_model :: execution_model
  be_assets :: "(string, bt_asset) dict"
  be_account :: bt_account
  be_pending :: "(string, pending_order list) dict"
  be_results :: "execution_result list"

definition new_account :: "decimal \<Rightarrow> bt_account" where
  "new_account initial = \<lparr>bac_balance_usd = initial, bac_positions = [], bac_orders = []\<rparr>"

definition new_engine ::
  "backtest_clock \<Rightarrow> (string, backtest_data_set) dict \<Rightarrow> execution_model \<Rightarrow> (string, bt_asset) dict \<Rightarrow>
   decimal \<Rightarrow> bt_engine" where
  "new_engine clock datasets model assets initial =
     \<lparr>be_clock = clock, be_datasets = datasets, be_model = model, be_assets = assets,
      be_account = new_account initial, be_pending = [], be_results = []\<rparr>"

definition backtest_provider :: string where
  "backtest_provider = ''BACKTEST''"

definition find_order :: "string \<Rightarrow> bt_engine \<Rightarrow> order option" where
  "find_order uuid e = find (\<lambda>ord. o_uuid ord = uuid) (bac_orders (be_account e))"

text \<open>Assignments to the fields of the object \<open>_find_order\<close> returned.\<close>

fun update_order :: "string \<Rightarrow> (order \<Rightarrow> order) \<Rightarrow> order list \<Rightarrow> order list" where
  "update_order uuid f [] = []"
| "update_order uuid f (ord # os) = (if o_uuid ord = uuid then f ord # os else ord # update_order uuid f os)"

definition modify_order :: "string \<Rightarrow> (order \<Rightarrow> order) \<Rightarrow> bt_engine \<Rightarrow> bt_engine" where
  "modify_order uuid f e =
     e\<lparr>be_account := (be_account e)\<lparr>bac_orders := update_order uuid f (bac_orders (be_account e))\<rparr>\<rparr>"

definition bt_position :: "bt_account \<Rightarrow> string \<Rightarrow> decimal" where
  "bt_position acc ticker = opt_or (dict_get (bac_positions acc) ticker) 0"

definition pending_for :: "bt_engine \<Rightarrow> string \<Rightarrow> pending_order list" where
  "pending_for e ticker = opt_or (dict_get (be_pending e) ticker) []"

section \<open>Submission\<close>

definition pending_of :: "bt_engine \<Rightarrow> order \<Rightarrow> string \<Rightarrow> pending_order" where
  "pending_of e ord ticker =
     (let eligible_at = o_created_time ord + get_latency (be_model e)
      in \<lparr>po_order_uuid = o_uuid ord, po_ticker_symbol = ticker, po_trade_action = o_trade_action ord,
          po_quantity = o_quantity ord, po_requested_price = o_price ord,
          po_signal_at = o_created_time ord, po_submitted_at = o_created_time ord,
          po_eligible_at = eligible_at, po_commit_hash = o_commit_hash ord,
          po_execution_timestamp = next_timestamp_at_or_after (be_clock e) ticker eligible_at\<rparr>)"

definition submit :: "order \<Rightarrow> string \<Rightarrow> bt_engine \<Rightarrow> bt_engine \<times> bt_event list" where
  "submit ord ticker e =
     (let e1 = e\<lparr>be_pending := dict_set ticker (pending_for e ticker @ [pending_of e ord ticker]) (be_pending e)\<rparr>;
          e2 = (if find_order (o_uuid ord) e1 = None
                then e1\<lparr>be_account := (be_account e1)\<lparr>bac_orders := bac_orders (be_account e1) @ [ord]\<rparr>\<rparr>
                else e1)
      in (e2, [OrderSubmittedEvent ord]))"

section \<open>Filling\<close>

definition apply_to_account :: "pending_order \<Rightarrow> decimal \<Rightarrow> decimal \<Rightarrow> bt_account \<Rightarrow> bt_account option" where
  "apply_to_account p price fee acc =
     (let total = po_quantity p * price; position = bt_position acc (po_ticker_symbol p)
      in if po_trade_action p = BUY
         then if bac_balance_usd acc < total + fee then None
              else Some (acc\<lparr>bac_balance_usd := bac_balance_usd acc - (total + fee),
                             bac_positions := dict_set (po_ticker_symbol p) (position + po_quantity p) (bac_positions acc)\<rparr>)
         else if position < po_quantity p then None
              else Some (acc\<lparr>bac_positions := dict_set (po_ticker_symbol p) (position - po_quantity p) (bac_positions acc),
                             bac_balance_usd := bac_balance_usd acc + (total - fee)\<rparr>))"

definition make_cancelled_order :: "pending_order \<Rightarrow> order" where
  "make_cancelled_order p =
     \<lparr>o_uuid = po_order_uuid p, o_provider_name = backtest_provider, o_ticker_symbol = po_ticker_symbol p,
      o_price = po_requested_price p, o_quantity = po_quantity p, o_trade_action = po_trade_action p,
      o_created_time = po_signal_at p, o_commit_hash = po_commit_hash p, o_executed_time = None,
      o_status = Some CANCELLED, o_fees = None, o_fill_price = None, o_winning_strategy = None,
      o_strategy_votes = None, o_strategy_attributions = None, o_slippage = None, o_decision_id = None,
      o_regime = None\<rparr>"

definition cancel_pending :: "pending_order \<Rightarrow> bt_engine \<Rightarrow> bt_engine \<times> bt_event list" where
  "cancel_pending p e =
     (let e' = modify_order (po_order_uuid p) (\<lambda>ord. ord\<lparr>o_status := Some CANCELLED\<rparr>) e
      in (e', [OrderCancelledEvent (opt_or (find_order (po_order_uuid p) e') (make_cancelled_order p))]))"

definition get_balances_snapshot :: "bt_engine \<Rightarrow> account_balance list" where
  "get_balances_snapshot e =
     \<lparr>ab_currency = ''USD'', ab_available_balance = bac_balance_usd (be_account e)\<rparr> #
     map (\<lambda>(ticker, qty). \<lparr>ab_currency = takeWhile (\<lambda>c. c \<noteq> CHR ''_'') ticker, ab_available_balance = qty\<rparr>)
       (bac_positions (be_account e))"

definition result_of :: "pending_order \<Rightarrow> int \<Rightarrow> decimal \<Rightarrow> decimal \<Rightarrow> decimal \<Rightarrow> execution_result" where
  "result_of p ts market_price executed_price fee =
     \<lparr>xr_order_uuid = po_order_uuid p, xr_ticker_symbol = po_ticker_symbol p,
      xr_trade_action = po_trade_action p, xr_status = COMPLETED,
      xr_requested_price = po_requested_price p, xr_market_price = market_price,
      xr_execution_price = executed_price, xr_requested_quantity = po_quantity p,
      xr_executed_quantity = po_quantity p, xr_slippage_per_unit = executed_price - market_price,
      xr_slippage_cost = (executed_price - market_price) * po_quantity p, xr_fee = fee,
      xr_signal_at = po_signal_at p, xr_submitted_at = po_submitted_at p,
      xr_eligible_at = po_eligible_at p, xr_executed_at = of_int ts, xr_commit_hash = po_commit_hash p\<rparr>"

definition complete_order :: "int \<Rightarrow> decimal \<Rightarrow> decimal \<Rightarrow> order \<Rightarrow> order" where
  "complete_order ts fee price ord =
     ord\<lparr>o_status := Some COMPLETED, o_executed_time := Some (of_int ts), o_fees := Some fee,
         o_fill_price := Some price\<rparr>"

definition record_execution ::
  "pending_order \<Rightarrow> int \<Rightarrow> decimal \<Rightarrow> decimal \<Rightarrow> decimal \<Rightarrow> bt_account \<Rightarrow> bt_engine \<Rightarrow> bt_engine \<times> bt_event list" where
  "record_execution p ts market_price executed_price fee acc e =
     (let e1 = modify_order (po_order_uuid p) (complete_order ts fee executed_price) (e\<lparr>be_account := acc\<rparr>);
          result = result_of p ts market_price executed_price fee;
          e2 = e1\<lparr>be_results := be_results e1 @ [result]\<rparr>
      in (e2, (case find_order (po_order_uuid p) e2 of
                 Some ord \<Rightarrow> [OrderFilledEvent ord result]
               | None \<Rightarrow> []) @ [BalanceUpdateEvent (get_balances_snapshot e2)]))"

text \<open>The execution time of a due order is known, so \<open>ts\<close> is an argument.\<close>

definition fill_order :: "pending_order \<Rightarrow> int \<Rightarrow> bt_engine \<Rightarrow> bt_engine \<times> bt_event list" where
  "fill_order p ts e =
     (case Option.bind (dict_get (be_datasets e) (po_ticker_symbol p)) (\<lambda>ds. ds_get ds ts) of
        None \<Rightarrow> cancel_pending p e
      | Some data \<Rightarrow>
          (case dict_get (be_assets e) (po_ticker_symbol p) of
             None \<Rightarrow> cancel_pending p e
           | Some a \<Rightarrow>
               (let price = slippage_apply (be_model e) (po_trade_action p) (hp_close_price data) (ba_quote_decimals a);
                    fee = fee_calculate (be_model e) (po_quantity p * price)
                in case apply_to_account p price fee (be_account e) of
                     None \<Rightarrow> cancel_pending p e
                   | Some acc \<Rightarrow> record_execution p ts (hp_close_price data) price fee acc e)))"

definition is_due :: "int \<Rightarrow> pending_order \<Rightarrow> bool" where
  "is_due now p \<longleftrightarrow> (case po_execution_timestamp p of None \<Rightarrow> False | Some ts \<Rightarrow> ts \<le> now)"

definition fill_due :: "bt_engine \<Rightarrow> pending_order \<Rightarrow> bt_engine \<times> bt_event list" where
  "fill_due e p = (case po_execution_timestamp p of Some ts \<Rightarrow> fill_order p ts e | None \<Rightarrow> (e, []))"

definition process :: "string \<Rightarrow> int \<Rightarrow> bt_engine \<Rightarrow> bt_engine \<times> bt_event list" where
  "process ticker now e =
     (let pending_list = pending_for e ticker
      in run_events fill_due
           (e\<lparr>be_pending := dict_set ticker (filter (\<lambda>p. \<not> is_due now p) pending_list) (be_pending e)\<rparr>)
           (filter (is_due now) pending_list))"

definition get_pending_orders :: "string option \<Rightarrow> bt_engine \<Rightarrow> order list" where
  "get_pending_orders ticker e =
     concat (map (\<lambda>(symbol, ps).
       if truthy ticker \<and> Some symbol \<noteq> ticker then []
       else map (\<lambda>p. (make_cancelled_order p)\<lparr>o_status := Some PENDING\<rparr>) ps) (be_pending e))"

section \<open>REST service\<close>

definition handle_market_data :: "string \<Rightarrow> bt_engine \<Rightarrow> market_data result" where
  "handle_market_data ticker e =
     res_bind (clock_now ticker (be_clock e)) (\<lambda>current.
       case Option.bind (dict_get (be_datasets e) ticker) (\<lambda>ds. ds_get ds current) of
         None \<Rightarrow> Inl ValueError
       | Some data \<Rightarrow>
           Inr \<lparr>md_volume = hp_volume data, md_high_price = hp_high_price data, md_low_price = hp_low_price data,
                md_close_price = hp_close_price data, md_timestamp = of_int (hp_timestamp data),
                md_bid_price = None, md_ask_price = None\<rparr>)"

text \<open>The metadata of a new order; an outer \<open>None\<close> of the commit hash is an absent key.\<close>

record new_order_metadata =
  om_commit_hash :: "string option option"
  om_winning_strategy :: "string option"
  om_strategy_votes :: "votes option"
  om_strategy_attributions :: "attributions option"

record create_order_args =
  ca_uuid :: "string option"
  ca_ticker_symbol :: string
  ca_quantity :: decimal
  ca_price :: decimal
  ca_trade_action :: trade_action
  ca_created_time :: "timestamp option"
  ca_metadata :: "new_order_metadata option"

definition created_order :: "string \<Rightarrow> timestamp \<Rightarrow> create_order_args \<Rightarrow> order" where
  "created_order fresh executed_at args =
     (let meta = ca_metadata args
      in \<lparr>o_uuid = (case ca_uuid args of Some u \<Rightarrow> if u \<noteq> [] then u else fresh | None \<Rightarrow> fresh),
          o_provider_name = backtest_provider, o_ticker_symbol = ca_ticker_symbol args,
          o_price = ca_price args, o_quantity = ca_quantity args, o_trade_action = ca_trade_action args,
          o_created_time = executed_at,
          o_commit_hash = opt_or (Option.bind meta om_commit_hash) (Some ''HEAD''),
          o_executed_time = None, o_status = Some PENDING, o_fees = None, o_fill_price = None,
          o_winning_strategy = Option.bind meta om_winning_strategy,
          o_strategy_votes = Option.bind meta om_strategy_votes,
          o_strategy_attributions = Option.bind meta om_strategy_attributions,
          o_slippage = None, o_decision_id = None, o_regime = None\<rparr>)"

definition add_order :: "order \<Rightarrow> bt_engine \<Rightarrow> bt_engine" where
  "add_order ord e = e\<lparr>be_account := (be_account e)\<lparr>bac_orders := bac_orders (be_account e) @ [ord]\<rparr>\<rparr>"

definition handle_create_order ::
  "string \<Rightarrow> create_order_args \<Rightarrow> bt_engine \<Rightarrow> (bt_engine \<times> bt_event list) result" where
  "handle_create_order fresh args e =
     res_bind (case ca_created_time args of
                 Some t \<Rightarrow> Inr t
               | None \<Rightarrow> res_bind (clock_now (ca_ticker_symbol args) (be_clock e)) (\<lambda>t. Inr (of_int t)))
       (\<lambda>executed_at.
          let ord = created_order fresh executed_at args
          in Inr (submit ord (ca_ticker_symbol args) (add_order ord e)))"

definition handle_get_order :: "string \<Rightarrow> bt_engine \<Rightarrow> order result" where
  "handle_get_order uuid e =
     (case find_order uuid e of Some ord \<Rightarrow> Inr ord | None \<Rightarrow> Inl RuntimeWarning)"

definition handle_cancel_order :: "string \<Rightarrow> bt_engine \<Rightarrow> bt_engine" where
  "handle_cancel_order uuid e =
     e\<lparr>be_account := (be_account e)\<lparr>bac_orders :=
        map (\<lambda>ord. if o_uuid ord = uuid \<and> o_status ord = Some PENDING then ord\<lparr>o_status := Some CANCELLED\<rparr> else ord)
          (bac_orders (be_account e))\<rparr>\<rparr>"

definition candle_of :: "historical_data_point \<Rightarrow> candle" where
  "candle_of p =
     \<lparr>cd_open = hp_open_price p, cd_low = hp_low_price p, cd_high = hp_high_price p, cd_close = hp_close_price p,
      cd_start_time = of_int (hp_timestamp p), cd_volume = 0\<rparr>"

definition handle_candles :: "string \<Rightarrow> int \<Rightarrow> bt_engine \<Rightarrow> candle list result" where
  "handle_candles ticker limit e =
     (case dict_get (be_datasets e) ticker of
        None \<Rightarrow> Inr []
      | Some ds \<Rightarrow>
          if ds_data_points ds = [] then Inr []
          else res_bind (clock_now ticker (be_clock e)) (\<lambda>current.
            let idx = bisect_right (ds_timestamps ds) (of_int current);
                start_idx = (if limit \<noteq> 0 then nat (max 0 (int idx - limit)) else 0)
            in Inr (map candle_of (drop start_idx (take idx (ds_data_points ds))))))"

section \<open>Schedule\<close>

fun UNIT_SECONDS :: "asset_schedule \<Rightarrow> int" where
  "UNIT_SECONDS EVERY_SECOND = 1"
| "UNIT_SECONDS EVERY_MINUTE = 60"
| "UNIT_SECONDS EVERY_HOUR = 3600"
| "UNIT_SECONDS EVERY_DAY = 86400"
| "UNIT_SECONDS EVERY_WEEK = 86400 * 7"
| "UNIT_SECONDS EVERY_MONTH = 86400 * 7 * 4"

definition should_run :: "asset_schedule \<Rightarrow> int \<Rightarrow> int option \<Rightarrow> bool" where
  "should_run schedule current previous =
     (case previous of
        None \<Rightarrow> True
      | Some prev \<Rightarrow> current div UNIT_SECONDS schedule > prev div UNIT_SECONDS schedule)"

section \<open>Simulator\<close>

text \<open>
  What a trading cycle does to the simulation: orders and cancellations through the REST service, and
  stopping the run.  A request that raises leaves the engine as it was; the order manager logs it.
\<close>

datatype bt_action =
    CreateOrder string create_order_args
  | CancelOrder string
  | StopRun

record simulator =
  si_engine :: bt_engine
  si_candles :: "(string, candle list) dict"
  si_running :: bool
  si_warmup_cutoff :: "int option"
  si_last_execution :: "(string, int) dict"

type_synonym trading_cycle = "int \<Rightarrow> bt_engine \<Rightarrow> bt_asset \<Rightarrow> bt_action list"

fun act :: "simulator \<Rightarrow> bt_action \<Rightarrow> simulator \<times> bt_event list" where
  "act s (CreateOrder fresh args) =
     (case handle_create_order fresh args (si_engine s) of
        Inl e \<Rightarrow> (s, [])
      | Inr (e, ev) \<Rightarrow> (s\<lparr>si_engine := e\<rparr>, ev))"
| "act s (CancelOrder uuid) = (s\<lparr>si_engine := handle_cancel_order uuid (si_engine s)\<rparr>, [])"
| "act s StopRun = (s\<lparr>si_running := False\<rparr>, [])"

definition on_tick :: "trading_cycle \<Rightarrow> int \<Rightarrow> bt_asset \<Rightarrow> simulator \<Rightarrow> simulator \<times> bt_event list" where
  "on_tick cycle now a s =
     (if should_run (ba_schedule a) now (dict_get (si_last_execution s) (ticker_symbol a))
      then run_events act (s\<lparr>si_last_execution := dict_set (ticker_symbol a) now (si_last_execution s)\<rparr>)
             (cycle now (si_engine s) a)
      else (s, []))"

definition to_market_data :: "historical_data_point \<Rightarrow> market_data" where
  "to_market_data p =
     \<lparr>md_volume = hp_volume p, md_high_price = hp_high_price p, md_low_price = hp_low_price p,
      md_close_price = hp_close_price p, md_timestamp = of_int (hp_timestamp p),
      md_bid_price = None, md_ask_price = None\<rparr>"

definition snapshot :: "bt_asset \<Rightarrow> int \<Rightarrow> historical_data_point option \<Rightarrow> bt_account \<Rightarrow> bt_portfolio_snapshot" where
  "snapshot a now data acc =
     \<lparr>ps_timestamp = now, ps_cash = bac_balance_usd acc, ps_positions = bac_positions acc,
      ps_equity = bac_balance_usd acc +
        bt_position acc (ticker_symbol a) * (case data of Some p \<Rightarrow> hp_close_price p | None \<Rightarrow> 0)\<rparr>"

definition publish_data :: "string \<Rightarrow> historical_data_point option \<Rightarrow> simulator \<Rightarrow> simulator \<times> bt_event list" where
  "publish_data symbol data s =
     (let candles = opt_or (dict_get (si_candles s) symbol) []
      in case data of
           None \<Rightarrow> (s\<lparr>si_candles := dict_set symbol candles (si_candles s)\<rparr>, [])
         | Some p \<Rightarrow> (s\<lparr>si_candles := dict_set symbol (candles @ [candle_of p]) (si_candles s)\<rparr>,
                      [BtMarketDataEvent (to_market_data p) symbol, CandlesEvent [candle_of p] symbol]))"

definition sim_step :: "trading_cycle \<Rightarrow> bt_asset \<Rightarrow> int \<Rightarrow> simulator \<Rightarrow> simulator \<times> bt_event list" where
  "sim_step cycle a now s =
     (let symbol = ticker_symbol a;
          data = Option.bind (dict_get (be_datasets (si_engine s)) symbol) (\<lambda>ds. ds_get ds now);
          (s1, ev1) = publish_data symbol data s
      in if (case si_warmup_cutoff s of None \<Rightarrow> False | Some cutoff \<Rightarrow> now < cutoff)
         then (s1, ev1 @ [TickEvent now])
         else let (e2, ev2) = process symbol now (si_engine s1);
                  (s3, ev3) = on_tick cycle now a (s1\<lparr>si_engine := e2\<rparr>)
              in (s3, ev1 @ ev2 @ ev3 @
                      [PortfolioSnapshotEvent (snapshot a now data (be_account (si_engine s3))) symbol,
                       TickEvent now]))"

text \<open>
  The order book, the data and the account never touch the clock, so a tick brings the run closer to
  the end of history: the loop over the ticks of an asset terminates.
\<close>

lemma modify_order_sel [simp]:
  "be_clock (modify_order u f e) = be_clock e" "be_datasets (modify_order u f e) = be_datasets e"
  "be_model (modify_order u f e) = be_model e" "be_assets (modify_order u f e) = be_assets e"
  "be_pending (modify_order u f e) = be_pending e" "be_results (modify_order u f e) = be_results e"
  "bac_balance_usd (be_account (modify_order u f e)) = bac_balance_usd (be_account e)"
  "bac_positions (be_account (modify_order u f e)) = bac_positions (be_account e)"
  "bac_orders (be_account (modify_order u f e)) = update_order u f (bac_orders (be_account e))"
  by (simp_all add: modify_order_def)

definition same_world :: "bt_engine \<Rightarrow> bt_engine \<Rightarrow> bool" where
  "same_world e e' \<longleftrightarrow> be_clock e' = be_clock e \<and> be_datasets e' = be_datasets e \<and> be_model e' = be_model e \<and>
     be_assets e' = be_assets e"

lemma same_world_refl [simp]: "same_world e e"
  by (simp add: same_world_def)

lemma same_world_trans: "same_world e e1 \<Longrightarrow> same_world e1 e2 \<Longrightarrow> same_world e e2"
  by (simp add: same_world_def)

lemma same_world_fill: "same_world e (fst (fill_order p ts e))"
  by (simp add: fill_order_def cancel_pending_def record_execution_def same_world_def Let_def split: option.splits)

lemma same_world_process: "same_world e (fst (process ticker now e))"
proof -
  have "same_world e (fst (fill_due e' p))" if "same_world e e'" for e' p
    using same_world_trans [OF that same_world_fill] that by (simp add: fill_due_def split: option.split)
  then show ?thesis
    unfolding process_def Let_def
    by (intro run_events_invariant [where P = "same_world e"]) (simp add: same_world_def)
qed

lemma same_world_submit: "same_world e (fst (submit ord ticker e))"
  by (simp add: submit_def Let_def same_world_def)

lemma same_world_create:
  assumes "handle_create_order fresh args e = Inr (e', ev)"
  shows "same_world e e'"
proof -
  obtain ord where "e' = fst (submit ord (ca_ticker_symbol args) (add_order ord e))"
    using assms by (auto simp: handle_create_order_def res_bind_eq_Inr Let_def) (metis fst_conv)
  then show ?thesis
    using same_world_submit [of "add_order ord e" ord "ca_ticker_symbol args"]
    by (simp add: same_world_def add_order_def)
qed

lemma same_world_act: "same_world (si_engine s) (si_engine (fst (act s x)))"
  by (cases x) (auto simp: handle_cancel_order_def same_world_def [of _ "_ \<lparr>be_account := _\<rparr>"]
      split: sum.splits prod.splits intro: same_world_create)

lemma same_world_on_tick: "same_world (si_engine s) (si_engine (fst (on_tick cycle now a s)))"
  unfolding on_tick_def
  by (auto intro!: run_events_invariant [where P = "\<lambda>s'. same_world (si_engine s) (si_engine s')"]
      intro: same_world_trans [OF _ same_world_act])

lemma publish_data_sel [simp]:
  "si_engine (fst (publish_data symbol data s)) = si_engine s"
  "si_running (fst (publish_data symbol data s)) = si_running s"
  by (simp_all add: publish_data_def Let_def split: option.split)

lemma same_world_step: "same_world (si_engine s) (si_engine (fst (sim_step cycle a now s)))"
proof -
  have "same_world (si_engine s) (si_engine (fst (on_tick cycle now a (s'\<lparr>si_engine := fst (process k now (si_engine s))\<rparr>))))"
    for s' k
    by (rule same_world_trans [OF same_world_process])
      (use same_world_on_tick [of "s'\<lparr>si_engine := fst (process k now (si_engine s))\<rparr>"] in simp)
  then show ?thesis by (simp add: sim_step_def Let_def split_beta)
qed

definition ticks_left :: "string \<Rightarrow> simulator \<Rightarrow> nat" where
  "ticks_left key s = (case dict_get (be_clock (si_engine s)) key of
     None \<Rightarrow> 0
   | Some d \<Rightarrow> nat (int (length (cl_timestamps d)) - cl_current_index d))"

definition set_clock :: "backtest_clock \<Rightarrow> simulator \<Rightarrow> simulator" where
  "set_clock c s = s\<lparr>si_engine := (si_engine s)\<lparr>be_clock := c\<rparr>\<rparr>"

lemma step_ticks_left:
  assumes "clock_tick (ticker_symbol a) (be_clock (si_engine s)) = Inr (c, True)"
    and "sim_step cycle a now (set_clock c s) = (s1, ev1)"
  shows "ticks_left (ticker_symbol a) s1 < ticks_left (ticker_symbol a) s"
proof -
  let ?k = "ticker_symbol a"
  obtain d where d: "dict_get (be_clock (si_engine s)) ?k = Some d"
    "cl_current_index d + 1 < int (length (cl_timestamps d))"
    "c = dict_set ?k (d\<lparr>cl_current_index := cl_current_index d + 1\<rparr>) (be_clock (si_engine s))"
    using assms(1) by (auto simp: clock_tick_def Let_def split: option.splits if_splits)
  have "be_clock (si_engine s1) = c"
    using same_world_step [of "set_clock c s" cycle a now] by (simp add: same_world_def assms(2)) (simp add: set_clock_def)
  then show ?thesis using d by (simp add: ticks_left_def)
qed

function run_asset :: "trading_cycle \<Rightarrow> bt_asset \<Rightarrow> simulator \<Rightarrow> simulator \<times> bt_event list \<times> py_exc option" where
  "run_asset cycle a s =
     (if \<not> si_running s then (s, [], None)
      else case clock_tick (ticker_symbol a) (be_clock (si_engine s)) of
             Inl e \<Rightarrow> (s, [], Some e)
           | Inr (c, ticking) \<Rightarrow>
               if \<not> ticking then (set_clock c s, [], None)
               else case clock_now (ticker_symbol a) c of
                      Inl e \<Rightarrow> (set_clock c s, [], Some e)
                    | Inr now \<Rightarrow>
                        (case sim_step cycle a now (set_clock c s) of (s1, ev1) \<Rightarrow>
                         case run_asset cycle a s1 of (s2, ev2, err) \<Rightarrow> (s2, ev1 @ ev2, err)))"
  by pat_completeness auto
termination
  by (relation "measure (\<lambda>(cycle, a, s). ticks_left (ticker_symbol a) s)") (auto dest: step_ticks_left [OF _ sym])

declare run_asset.simps [simp del]

fun sim_run :: "trading_cycle \<Rightarrow> bt_asset list \<Rightarrow> simulator \<Rightarrow> simulator \<times> bt_event list \<times> py_exc option" where
  "sim_run cycle [] s = (s, [], None)"
| "sim_run cycle (a # as) s =
     (if \<not> si_running s then (s, [], None)
      else case clock_reset (ticker_symbol a) (be_clock (si_engine s)) of
             Inl e \<Rightarrow> (s, [], Some e)
           | Inr c \<Rightarrow>
               (case run_asset cycle a (set_clock c s) of
                  (s1, ev1, Some e) \<Rightarrow> (s1, ev1, Some e)
                | (s1, ev1, None) \<Rightarrow>
                    (case sim_run cycle as s1 of (s2, ev2, err) \<Rightarrow> (s2, ev1 @ ev2, err))))"

definition new_simulator :: "bt_engine \<Rightarrow> int option \<Rightarrow> simulator" where
  "new_simulator e warmup_cutoff =
     \<lparr>si_engine = e, si_candles = [], si_running = True, si_warmup_cutoff = warmup_cutoff, si_last_execution = []\<rparr>"

end
