(* ===== verification/Replay.thy ===== *)
theory Replay
  imports Backtest "HOL-Library.Multiset"
begin

text \<open>
  What a backtest guarantees, for every trading cycle: the account is solvent and is the result of
  the recorded executions, orders are filled at the first known time after their latency, and no
  order is filled twice.  The locale \<open>engine_invariant\<close> carries an invariant of the engine's
  operations through the simulation loop; each of the four invariants is an interpretation of it.
\<close>

section \<open>Rules for the engine's operations\<close>

abbreviation engine_of :: "simulator \<times> 'a \<Rightarrow> bt_engine" where
  "engine_of r \<equiv> si_engine (fst r)"

definition accept_order :: "order \<Rightarrow> string \<Rightarrow> bt_engine \<Rightarrow> bt_engine" where
  "accept_order ord ticker e = fst (submit ord ticker (add_order ord e))"

lemma create_order_cases:
  assumes "handle_create_order fresh args e = Inr (e', ev)"
  obtains t where "e' = accept_order (created_order fresh t args) (ca_ticker_symbol args) e"
  using assms by (auto simp: handle_create_order_def accept_order_def res_bind_eq_Inr Let_def) (metis fst_conv)

lemma find_order_added: "find_order (o_uuid ord) (add_order ord e) \<noteq> None"
  by (auto simp: find_order_def add_order_def find_None_iff)

lemma accept_order_sel [simp]:
  "be_clock (accept_order ord k e) = be_clock e" "be_datasets (accept_order ord k e) = be_datasets e"
  "be_model (accept_order ord k e) = be_model e" "be_assets (accept_order ord k e) = be_assets e"
  "be_results (accept_order ord k e) = be_results e"
  "bac_balance_usd (be_account (accept_order ord k e)) = bac_balance_usd (be_account e)"
  "bac_positions (be_account (accept_order ord k e)) = bac_positions (be_account e)"
  "bac_orders (be_account (accept_order ord k e)) = bac_orders (be_account e) @ [ord]"
  "be_pending (accept_order ord k e) = dict_set k (pending_for e k @ [pending_of e ord k]) (be_pending e)"
  using find_order_added [of ord e]
  by (auto simp: accept_order_def submit_def Let_def add_order_def find_order_def pending_for_def pending_of_def)

text \<open>
  Processing an asset: a due order is cancelled, or executed at the market price of its execution
  time when the account accepts it.  \<open>I ps e\<close> holds with the due orders \<open>ps\<close> still to be
  settled.
\<close>

lemma process_rule:
  assumes start: "I (filter (is_due now) (pending_for e ticker))
      (e\<lparr>be_pending := dict_set ticker (filter (\<lambda>p. \<not> is_due now p) (pending_for e ticker)) (be_pending e)\<rparr>)"
    and cancel: "\<And>p ps e. I (p # ps) e \<Longrightarrow>
      I ps (modify_order (po_order_uuid p) (\<lambda>ord. ord\<lparr>o_status := Some CANCELLED\<rparr>) e)"
    and execute: "\<And>p ps e ts ds data a price fee acc.
      \<lbrakk>I (p # ps) e; po_execution_timestamp p = Some ts;
       dict_get (be_datasets e) (po_ticker_symbol p) = Some ds; ds_get ds ts = Some data;
       dict_get (be_assets e) (po_ticker_symbol p) = Some a;
       price = slippage_apply (be_model e) (po_trade_action p) (hp_close_price data) (ba_quote_decimals a);
       fee = fee_calculate (be_model e) (po_quantity p * price);
       apply_to_account p price fee (be_account e) = Some acc\<rbrakk>
      \<Longrightarrow> I ps (fst (record_execution p ts (hp_close_price data) price fee acc e))"
  shows "I [] (fst (process ticker now e))"
proof -
  have settle: "I ps (fst (fill_due e p))" if I: "I (p # ps) e" and due: "is_due now p" for p ps e
  proof -
    obtain ts where ts: "po_execution_timestamp p = Some ts"
      using due by (auto simp: is_due_def split: option.splits)
    show ?thesis
      using cancel [OF I] execute [OF I ts]
      by (auto simp: fill_due_def ts fill_order_def cancel_pending_def Let_def split: option.split bind_splits)
  qed
  have "I [] (fst (run_events fill_due e ps))" if "I ps e" "\<forall>p \<in> set ps. is_due now p" for ps e
    using that by (induction ps arbitrary: e) (auto simp: split_beta Let_def settle)
  then show ?thesis using start by (simp add: process_def Let_def)
qed

lemma run_asset_cases:
  assumes "P (s, [], None)"
    and "\<And>e. P (s, [], Some e)"
    and "\<And>c b err. clock_tick (ticker_symbol a) (be_clock (si_engine s)) = Inr (c, b) \<Longrightarrow> P (set_clock c s, [], err)"
    and "\<And>c b now s1 ev1. clock_tick (ticker_symbol a) (be_clock (si_engine s)) = Inr (c, b) \<Longrightarrow>
      clock_now (ticker_symbol a) c = Inr now \<Longrightarrow>
      sim_step cycle a now (set_clock c s) = (s1, ev1) \<Longrightarrow>
      ticks_left (ticker_symbol a) s1 < ticks_left (ticker_symbol a) s \<Longrightarrow>
      P (case run_asset cycle a s1 of (s2, ev2, err) \<Rightarrow> (s2, ev1 @ ev2, err))"
  shows "P (run_asset cycle a s)"
proof -
  have "ticks_left (ticker_symbol a) s1 < ticks_left (ticker_symbol a) s"
    if "clock_tick (ticker_symbol a) (be_clock (si_engine s)) = Inr (c, True)"
      "sim_step cycle a now (set_clock c s) = (s1, ev1)" for c now s1 ev1
    using step_ticks_left that by blast
  then show ?thesis
    using assms by (subst run_asset.simps) (auto split: sum.split prod.split)
qed

fun admits :: "(create_order_args \<Rightarrow> bool) \<Rightarrow> bt_action \<Rightarrow> bool" where
  "admits adm (CreateOrder fresh args) \<longleftrightarrow> adm args"
| "admits adm _ \<longleftrightarrow> True"

lemma admits_True [simp]: "admits (\<lambda>args. True) x"
  by (cases x) simp_all

locale engine_invariant =
  fixes inv :: "bt_engine \<Rightarrow> bool"
    and adm :: "create_order_args \<Rightarrow> bool"
  assumes inv_accept: "inv e \<Longrightarrow> adm args \<Longrightarrow>
      inv (accept_order (created_order fresh t args) (ca_ticker_symbol args) e)"
    and inv_cancel: "inv e \<Longrightarrow> inv (handle_cancel_order u e)"
    and inv_process: "inv e \<Longrightarrow> inv (fst (process ticker now e))"
    and inv_reset: "inv e \<Longrightarrow> clock_reset k (be_clock e) = Inr c \<Longrightarrow> inv (e\<lparr>be_clock := c\<rparr>)"
    and inv_tick: "inv e \<Longrightarrow> clock_tick k (be_clock e) = Inr (c, b) \<Longrightarrow> inv (e\<lparr>be_clock := c\<rparr>)"
begin

lemma inv_act: "inv (si_engine s) \<Longrightarrow> admits adm x \<Longrightarrow> inv (engine_of (act s x))"
  by (cases x) (auto intro: inv_cancel inv_accept elim!: create_order_cases split: sum.split)

lemma inv_step:
  assumes "inv (si_engine s)" and "\<And>e. list_all (admits adm) (cycle now e a)"
  shows "inv (engine_of (sim_step cycle a now s))"
proof -
  have tick: "inv (engine_of (on_tick cycle now a s'))" if "inv (si_engine s')" for s'
    using that assms(2) unfolding on_tick_def
    by (auto intro!: run_events_invariant [where P = "\<lambda>s. inv (si_engine s)"] intro: inv_act simp: list_all_iff)
  have "inv (engine_of (on_tick cycle now a (s'\<lparr>si_engine := fst (process k now (si_engine s))\<rparr>)))" for s' k
    by (rule tick) (simp add: inv_process assms(1))
  then show ?thesis using assms(1) by (simp add: sim_step_def Let_def split_beta)
qed

lemma inv_run_asset:
  assumes "inv (si_engine s)" and cyc: "\<And>now e a. list_all (admits adm) (cycle now e a)"
  shows "inv (engine_of (run_asset cycle a s))"
  using assms(1)
proof (induction "ticks_left (ticker_symbol a) s" arbitrary: s rule: less_induct)
  case less
  have clock: "inv (si_engine (set_clock c s))"
    if "clock_tick (ticker_symbol a) (be_clock (si_engine s)) = Inr (c, b)" for c b
    using inv_tick [OF less.prems that] by (simp add: set_clock_def)
  show ?case
  proof (rule run_asset_cases [where P = "\<lambda>r. inv (engine_of r)"])
    fix c b now s1 ev1
    assume tick: "clock_tick (ticker_symbol a) (be_clock (si_engine s)) = Inr (c, b)"
      and step: "sim_step cycle a now (set_clock c s) = (s1, ev1)"
      and closer: "ticks_left (ticker_symbol a) s1 < ticks_left (ticker_symbol a) s"
    have "inv (si_engine s1)" using inv_step [where cycle = cycle and a = a and now = now, OF clock [OF tick] cyc] by (simp add: step)
    then show "inv (engine_of (case run_asset cycle a s1 of (s2, ev2, err) \<Rightarrow> (s2, ev1 @ ev2, err)))"
      using less.hyps [OF closer] by (simp add: split_beta)
  qed (use less.prems clock in simp_all)
qed

lemma inv_run:
  assumes "inv (si_engine s)" and "\<And>now e a. list_all (admits adm) (cycle now e a)"
  shows "inv (engine_of (sim_run cycle as s))"
  using assms(1)
proof (induction as arbitrary: s)
  case (Cons a as)
  have "inv (engine_of (run_asset cycle a (set_clock c s)))"
    if "clock_reset (ticker_symbol a) (be_clock (si_engine s)) = Inr c" for c
    using inv_run_asset [OF _ assms(2)] inv_reset [OF Cons.prems that] by (simp add: set_clock_def)
  then show ?case
    using Cons by (auto simp: split_beta split: sum.split option.split prod.split)
qed simp

end

section \<open>Solvency\<close>

text \<open>
  The assumptions on the market data and the execution model: a fee rate between zero and one, and a
  slippage that is not negative and does not exceed a price.
\<close>

definition fair_market :: "bt_engine \<Rightarrow> bool" where
  "fair_market e \<longleftrightarrow> 0 \<le> em_fee_rate (be_model e) \<and> em_fee_rate (be_model e) \<le> 1 \<and>
     (\<forall>k ds a ts p. dict_get (be_datasets e) k = Some ds \<longrightarrow> dict_get (be_assets e) k = Some a \<longrightarrow>
        ds_get ds ts = Some p \<longrightarrow> em_slippage_ticks (be_model e) * quantum_of (ba_quote_decimals a) \<le> hp_close_price p)"

definition solvent :: "bt_account \<Rightarrow> bool" where
  "solvent acc \<longleftrightarrow> 0 \<le> bac_balance_usd acc \<and> dict_all (\<lambda>q. 0 \<le> q) (bac_positions acc)"

definition solvency_inv :: "bt_engine \<Rightarrow> bool" where
  "solvency_inv e \<longleftrightarrow> fair_market e \<and> solvent (be_account e) \<and>
     dict_all (list_all (\<lambda>p. 0 \<le> po_quantity p)) (be_pending e)"

lemma solvent_position: "solvent acc \<Longrightarrow> 0 \<le> bt_position acc k"
  by (cases "dict_get (bac_positions acc) k") (auto simp: solvent_def bt_position_def dest: dict_all_get)

lemma sale_proceeds:
  assumes "0 \<le> em_fee_rate m" "em_fee_rate m \<le> 1" "0 \<le> (x::rat)"
  shows "0 \<le> x - fee_calculate m x"
  using mult_left_mono [OF assms(2,3)] assms(3) by (simp add: fee_calculate_def)

lemma apply_solvent:
  assumes "apply_to_account p price fee acc = Some acc'" "solvent acc" "0 \<le> po_quantity p"
    and "po_trade_action p = SELL \<Longrightarrow> 0 \<le> po_quantity p * price - fee"
  shows "solvent acc'"
  using assms solvent_position [OF assms(2), of "po_ticker_symbol p"]
  by (cases "po_trade_action p")
    (auto simp: apply_to_account_def Let_def solvent_def intro!: dict_all_set split: if_splits)

lemma solvency_process:
  assumes "solvency_inv e"
  shows "solvency_inv (fst (process ticker now e))"
proof (rule process_rule [where I = "\<lambda>ps e. solvency_inv e \<and> list_all (\<lambda>p. 0 \<le> po_quantity p) ps", THEN conjunct1])
  have "list_all (\<lambda>p. 0 \<le> po_quantity p) (pending_for e ticker)"
    using assms by (cases "dict_get (be_pending e) ticker") (auto simp: solvency_inv_def pending_for_def dest: dict_all_get)
  then show "solvency_inv (e\<lparr>be_pending := dict_set ticker (filter (\<lambda>p. \<not> is_due now p) (pending_for e ticker)) (be_pending e)\<rparr>)
      \<and> list_all (\<lambda>p. 0 \<le> po_quantity p) (filter (is_due now) (pending_for e ticker))"
    using assms by (auto simp: solvency_inv_def fair_market_def list_all_iff intro!: dict_all_set)
next
  fix p ps e
  assume "solvency_inv e \<and> list_all (\<lambda>p. 0 \<le> po_quantity p) (p # ps)"
  then show "solvency_inv (modify_order (po_order_uuid p) (\<lambda>ord. ord\<lparr>o_status := Some CANCELLED\<rparr>) e)
      \<and> list_all (\<lambda>p. 0 \<le> po_quantity p) ps"
    by (simp add: solvency_inv_def fair_market_def solvent_def)
next
  fix p ps e ts ds data a price fee acc
  assume I: "solvency_inv e \<and> list_all (\<lambda>p. 0 \<le> po_quantity p) (p # ps)"
    and data: "dict_get (be_datasets e) (po_ticker_symbol p) = Some ds" "ds_get ds ts = Some data"
      "dict_get (be_assets e) (po_ticker_symbol p) = Some a"
    and price: "price = slippage_apply (be_model e) (po_trade_action p) (hp_close_price data) (ba_quote_decimals a)"
    and fee: "fee = fee_calculate (be_model e) (po_quantity p * price)"
    and acc: "apply_to_account p price fee (be_account e) = Some acc"
  have fair: "fair_market e" and q: "0 \<le> po_quantity p" and s: "solvent (be_account e)"
    using I by (simp_all add: solvency_inv_def)
  have "0 \<le> po_quantity p * price - fee" if "po_trade_action p = SELL"
  proof -
    have "0 \<le> price" using fair data that by (auto simp: price slippage_apply_def Let_def fair_market_def)
    with q fair show ?thesis unfolding fee by (intro sale_proceeds) (auto simp: fair_market_def)
  qed
  from apply_solvent [OF acc s q this] I
  show "solvency_inv (fst (record_execution p ts (hp_close_price data) price fee acc e))
      \<and> list_all (\<lambda>p. 0 \<le> po_quantity p) ps"
    by (simp add: record_execution_def Let_def solvency_inv_def fair_market_def solvent_def)
qed

interpretation solvency: engine_invariant solvency_inv "\<lambda>args. 0 \<le> ca_quantity args"
proof
  fix e fresh t and args :: create_order_args
  assume "solvency_inv e" "0 \<le> ca_quantity args"
  then show "solvency_inv (accept_order (created_order fresh t args) (ca_ticker_symbol args) e)"
    by (cases "dict_get (be_pending e) (ca_ticker_symbol args)")
      (auto simp: solvency_inv_def fair_market_def solvent_def pending_for_def pending_of_def created_order_def Let_def
        intro!: dict_all_set dest: dict_all_get)
qed (auto simp: solvency_process, auto simp: solvency_inv_def fair_market_def solvent_def handle_cancel_order_def)

section \<open>Executions account for the account\<close>

definition signed_quantity :: "execution_result \<Rightarrow> decimal" where
  "signed_quantity r = (if xr_trade_action r = BUY then xr_executed_quantity r else - xr_executed_quantity r)"

text \<open>What an execution costs beyond the market price: the fee, and slippage against the trader.\<close>

definition trading_cost :: "execution_result \<Rightarrow> decimal" where
  "trading_cost r = xr_fee r + signed_quantity r * xr_slippage_per_unit r"

definition ledger_inv :: "decimal \<Rightarrow> bt_engine \<Rightarrow> bool" where
  "ledger_inv b e \<longleftrightarrow>
     bac_balance_usd (be_account e) =
       b - sum_list (map (\<lambda>r. signed_quantity r * xr_market_price r + trading_cost r) (be_results e)) \<and>
     (\<forall>k. bt_position (be_account e) k =
       sum_list (map signed_quantity (filter (\<lambda>r. xr_ticker_symbol r = k) (be_results e))))"

lemma ledger_record:
  assumes "apply_to_account p price fee (be_account e) = Some acc" "ledger_inv b e"
  shows "ledger_inv b (fst (record_execution p ts market price fee acc e))"
  using assms
  by (cases "po_trade_action p")
    (auto simp: ledger_inv_def record_execution_def result_of_def apply_to_account_def bt_position_def trading_cost_def
      signed_quantity_def Let_def algebra_simps split: if_splits)

lemma ledger_process: "ledger_inv b e \<Longrightarrow> ledger_inv b (fst (process ticker now e))"
  by (rule process_rule [where I = "\<lambda>ps e. ledger_inv b e"])
    (auto simp: ledger_record, auto simp: ledger_inv_def bt_position_def)

interpretation ledger: engine_invariant "ledger_inv b" "\<lambda>args. True" for b
  by unfold_locales (auto simp: ledger_process, auto simp: ledger_inv_def bt_position_def handle_cancel_order_def)

section \<open>Execution times\<close>

lemma clock_ok_set:
  "clock_ok c \<Longrightarrow> sorted (cl_timestamps d) \<Longrightarrow> - 1 \<le> cl_current_index d \<Longrightarrow> clock_ok (dict_set k d c)"
  by (simp add: clock_ok_def dict_all_set)

lemma known_times_set:
  "dict_get c k = Some d \<Longrightarrow> cl_timestamps d' = cl_timestamps d \<Longrightarrow> known_times (dict_set k d' c) k' = known_times c k'"
  by (simp add: known_times_def)

lemma clock_reset_same:
  assumes "clock_reset k c = Inr c'" "clock_ok c"
  shows "clock_ok c' \<and> known_times c' = known_times c"
  using assms clock_ok_get [OF assms(2)]
  by (auto simp: clock_reset_def fun_eq_iff intro!: clock_ok_set known_times_set split: option.splits)

lemma clock_tick_same:
  assumes "clock_tick k c = Inr (c', b)" "clock_ok c"
  shows "clock_ok c' \<and> known_times c' = known_times c"
  using assms clock_ok_get [OF assms(2)]
  by (force simp: clock_tick_def Let_def fun_eq_iff intro!: clock_ok_set known_times_set split: option.splits if_splits)

text \<open>\<open>t\<close> is the first known time of the asset that is not before the deadline \<open>x\<close>.\<close>

definition first_known :: "(string \<Rightarrow> int set) \<Rightarrow> string \<Rightarrow> rat \<Rightarrow> int \<Rightarrow> bool" where
  "first_known K k x t \<longleftrightarrow> t \<in> K k \<and> x \<le> of_int t \<and> (\<forall>u \<in> K k. x \<le> of_int u \<longrightarrow> t \<le> u)"

definition timed_pending :: "(string \<Rightarrow> int set) \<Rightarrow> rat \<Rightarrow> string \<Rightarrow> pending_order \<Rightarrow> bool" where
  "timed_pending K latency k p \<longleftrightarrow> po_ticker_symbol p = k \<and> po_eligible_at p = po_submitted_at p + latency \<and>
     (\<forall>t. po_execution_timestamp p = Some t \<longrightarrow> first_known K k (po_eligible_at p) t)"

definition timed_result :: "(string \<Rightarrow> int set) \<Rightarrow> rat \<Rightarrow> (string, backtest_data_set) dict \<Rightarrow> execution_result \<Rightarrow> bool" where
  "timed_result K latency D r \<longleftrightarrow> xr_eligible_at r = xr_submitted_at r + latency \<and>
     (\<exists>t. xr_executed_at r = of_int t \<and> first_known K (xr_ticker_symbol r) (xr_eligible_at r) t \<and>
        (\<exists>ds p. dict_get D (xr_ticker_symbol r) = Some ds \<and> ds_get ds t = Some p \<and> xr_market_price r = hp_close_price p))"

definition timing_inv :: "(string \<Rightarrow> int set) \<Rightarrow> rat \<Rightarrow> (string, backtest_data_set) dict \<Rightarrow> bt_engine \<Rightarrow> bool" where
  "timing_inv K latency D e \<longleftrightarrow> clock_ok (be_clock e) \<and> known_times (be_clock e) = K \<and>
     get_latency (be_model e) = latency \<and> be_datasets e = D \<and>
     (\<forall>k. list_all (timed_pending K latency k) (pending_for e k)) \<and>
     list_all (timed_result K latency D) (be_results e)"

lemma pending_for_set [simp]:
  "pending_for (e\<lparr>be_pending := dict_set k ps d\<rparr>) k' = (if k' = k then ps else opt_or (dict_get d k') [])"
  by (simp add: pending_for_def)

lemma timed_pending_of:
  assumes "clock_ok (be_clock e)"
  shows "timed_pending (known_times (be_clock e)) (get_latency (be_model e)) k (pending_of e ord k)"
  using tl.resolve_Some [OF assms]
  by (simp add: timed_pending_def pending_of_def Let_def first_known_def)

lemma timing_process:
  assumes "timing_inv K latency D e"
  shows "timing_inv K latency D (fst (process ticker now e))"
proof (rule process_rule [where I = "\<lambda>ps e. timing_inv K latency D e \<and> list_all (timed_pending K latency ticker) ps", THEN conjunct1])
  show "timing_inv K latency D (e\<lparr>be_pending := dict_set ticker (filter (\<lambda>p. \<not> is_due now p) (pending_for e ticker)) (be_pending e)\<rparr>)
      \<and> list_all (timed_pending K latency ticker) (filter (is_due now) (pending_for e ticker))"
    using assms by (auto simp: timing_inv_def list_all_iff simp flip: pending_for_def)
next
  fix p ps e
  assume "timing_inv K latency D e \<and> list_all (timed_pending K latency ticker) (p # ps)"
  then show "timing_inv K latency D (modify_order (po_order_uuid p) (\<lambda>ord. ord\<lparr>o_status := Some CANCELLED\<rparr>) e)
      \<and> list_all (timed_pending K latency ticker) ps"
    by (simp add: timing_inv_def pending_for_def)
next
  fix p ps e ts ds data a price fee acc
  assume I: "timing_inv K latency D e \<and> list_all (timed_pending K latency ticker) (p # ps)"
    and ts: "po_execution_timestamp p = Some ts"
    and data: "dict_get (be_datasets e) (po_ticker_symbol p) = Some ds" "ds_get ds ts = Some data"
  have "timed_result K latency D (result_of p ts (hp_close_price data) price fee)"
    using I ts data by (auto simp: timing_inv_def timed_pending_def timed_result_def result_of_def)
  then show "timing_inv K latency D (fst (record_execution p ts (hp_close_price data) price fee acc e))
      \<and> list_all (timed_pending K latency ticker) ps"
    using I by (simp add: record_execution_def Let_def timing_inv_def pending_for_def)
qed

interpretation timing: engine_invariant "timing_inv K latency D" "\<lambda>args. True" for K latency D
proof
  fix e fresh t and args :: create_order_args
  assume "timing_inv K latency D e"
  then show "timing_inv K latency D (accept_order (created_order fresh t args) (ca_ticker_symbol args) e)"
    using timed_pending_of [of e] by (auto simp: timing_inv_def pending_for_def)
next
  fix e k c
  assume "timing_inv K latency D e" "clock_reset k (be_clock e) = Inr c"
  then show "timing_inv K latency D (e\<lparr>be_clock := c\<rparr>)"
    using clock_reset_same by (auto simp: timing_inv_def pending_for_def)
next
  fix e k c b
  assume "timing_inv K latency D e" "clock_tick k (be_clock e) = Inr (c, b)"
  then show "timing_inv K latency D (e\<lparr>be_clock := c\<rparr>)"
    using clock_tick_same by (auto simp: timing_inv_def pending_for_def)
qed (auto simp: timing_process, auto simp: timing_inv_def pending_for_def handle_cancel_order_def)

section \<open>Every order is settled at most once\<close>

definition pending_uuids :: "bt_engine \<Rightarrow> string multiset" where
  "pending_uuids e = mset (map po_order_uuid (concat (dict_values (be_pending e))))"

definition settled_inv :: "bt_engine \<Rightarrow> bool" where
  "settled_inv e \<longleftrightarrow>
     mset (map xr_order_uuid (be_results e)) + pending_uuids e \<subseteq># mset (map o_uuid (bac_orders (be_account e)))"

lemma mset_concat_dict_set:
  "mset (concat (dict_values (dict_set k v d))) + mset (opt_or (dict_get d k) []) = mset (concat (dict_values d)) + mset v"
  by (induction d) auto

lemma pending_uuids_set:
  "pending_uuids (e\<lparr>be_pending := dict_set k ps (be_pending e)\<rparr>) + mset (map po_order_uuid (pending_for e k)) =
     pending_uuids e + mset (map po_order_uuid ps)"
  using arg_cong [OF mset_concat_dict_set [of k ps "be_pending e"], of "image_mset po_order_uuid"]
  by (simp add: pending_uuids_def pending_for_def)

lemma update_order_uuids: "(\<And>ord. o_uuid (f ord) = o_uuid ord) \<Longrightarrow> map o_uuid (update_order u f os) = map o_uuid os"
  by (induction os) auto

lemma mset_map_partition: "mset (map f xs) = mset (map f (filter (\<lambda>x. \<not> P x) xs)) + mset (map f (filter P xs))"
  by (induction xs) simp_all

lemma cancel_order_uuids:
  "map o_uuid (bac_orders (be_account (handle_cancel_order u e))) = map o_uuid (bac_orders (be_account e))"
  by (simp add: handle_cancel_order_def comp_def if_distrib [of o_uuid])

lemma settled_process:
  assumes "settled_inv e"
  shows "settled_inv (fst (process ticker now e))"
proof -
  let ?I = "\<lambda>(ps :: pending_order list) (e :: bt_engine). mset (map xr_order_uuid (be_results e)) + pending_uuids e + mset (map po_order_uuid ps)
    \<subseteq># mset (map o_uuid (bac_orders (be_account e)))"
  have "?I [] (fst (process ticker now e))"
  proof (rule process_rule [where I = ?I])
    let ?ps = "pending_for e ticker"
    have split: "mset (map po_order_uuid ?ps) =
        mset (map po_order_uuid (filter (\<lambda>p. \<not> is_due now p) ?ps)) + mset (map po_order_uuid (filter (is_due now) ?ps))"
      by (rule mset_map_partition)
    from pending_uuids_set [where e = e and k = ticker and ps = "filter (\<lambda>p. \<not> is_due now p) ?ps"]
    have "pending_uuids (e\<lparr>be_pending := dict_set ticker (filter (\<lambda>p. \<not> is_due now p) ?ps) (be_pending e)\<rparr>)
        + mset (map po_order_uuid (filter (is_due now) ?ps)) = pending_uuids e"
      unfolding split by (simp add: add.assoc [symmetric])
    then show "?I (filter (is_due now) ?ps) (e\<lparr>be_pending := dict_set ticker (filter (\<lambda>p. \<not> is_due now p) ?ps) (be_pending e)\<rparr>)"
      using assms by (simp add: settled_inv_def add.assoc)
  next
    fix p ps e
    assume "?I (p # ps) e"
    then have "?I ps e" by (rule subset_mset.order_trans [rotated]) (simp add: subset_mset.add_mono)
    then show "?I ps (modify_order (po_order_uuid p) (\<lambda>ord. ord\<lparr>o_status := Some CANCELLED\<rparr>) e)"
      by (simp add: pending_uuids_def update_order_uuids)
  next
    fix p ps e ts ds data a price fee acc
    assume "?I (p # ps) e" "apply_to_account p price fee (be_account e) = Some acc"
    moreover from this(2) have "bac_orders acc = bac_orders (be_account e)"
      by (auto simp: apply_to_account_def Let_def split: if_splits)
    ultimately show "?I ps (fst (record_execution p ts (hp_close_price data) price fee acc e))"
      by (simp add: record_execution_def Let_def pending_uuids_def update_order_uuids complete_order_def result_of_def)
  qed
  then show ?thesis by (simp add: settled_inv_def)
qed

interpretation settled: engine_invariant settled_inv "\<lambda>args. True"
proof
  fix e fresh t and args :: create_order_args
  assume inv: "settled_inv e"
  let ?ord = "created_order fresh t args" and ?k = "ca_ticker_symbol args"
  have "pending_uuids (accept_order ?ord ?k e) = pending_uuids e + {#o_uuid ?ord#}"
    using pending_uuids_set [where e = e and k = ?k and ps = "pending_for e ?k @ [pending_of e ?ord ?k]"]
    by (simp add: pending_uuids_def pending_of_def Let_def)
  then show "settled_inv (accept_order ?ord ?k e)" using inv by (simp add: settled_inv_def)
next
  fix e u
  assume "settled_inv e"
  then show "settled_inv (handle_cancel_order u e)"
    unfolding settled_inv_def cancel_order_uuids by (simp add: pending_uuids_def handle_cancel_order_def)
qed (auto simp: settled_process, auto simp: settled_inv_def pending_uuids_def)

section \<open>Replaying history\<close>

fun tick_of :: "bt_event \<Rightarrow> int option" where
  "tick_of (TickEvent t) = Some t"
| "tick_of _ = None"

abbreviation ticks :: "bt_event list \<Rightarrow> int list" where
  "ticks ev \<equiv> List.map_filter tick_of ev"

lemma fill_due_no_tick: "list_all (\<lambda>ev. tick_of ev = None) (snd (fill_due e p))"
  by (simp add: fill_due_def fill_order_def cancel_pending_def record_execution_def Let_def split: option.split)

lemma act_no_tick: "list_all (\<lambda>ev. tick_of ev = None) (snd (act s x))"
  by (cases x) (auto simp: handle_create_order_def submit_def res_bind_def Let_def split: sum.split option.split)

lemma map_filter_None: "list_all (\<lambda>x. f x = None) xs \<Longrightarrow> List.map_filter f xs = []"
  by (induction xs) (simp_all add: List.map_filter_def)

lemma map_filter_append: "List.map_filter f (xs @ ys) = List.map_filter f xs @ List.map_filter f ys"
  by (simp add: List.map_filter_def)

lemma map_filter_Cons: "List.map_filter f (x # xs) = (case f x of None \<Rightarrow> [] | Some y \<Rightarrow> [y]) @ List.map_filter f xs"
  by (simp add: List.map_filter_def split: option.split)

lemma step_ticks: "ticks (snd (sim_step cycle a now s)) = [now]"
proof -
  have proc: "ticks (snd (process k now e)) = []" for k e
    unfolding process_def Let_def by (intro map_filter_None run_events_snd_all fill_due_no_tick)
  have tick: "ticks (snd (on_tick cycle now a s')) = []" for s'
    unfolding on_tick_def by (auto intro!: map_filter_None run_events_snd_all act_no_tick)
  have pub: "ticks (snd (publish_data k data s)) = []" for k data
    by (simp add: publish_data_def Let_def map_filter_Cons List.map_filter_def split: option.split)
  show ?thesis
    by (simp add: sim_step_def Let_def split_beta map_filter_append map_filter_Cons proc tick pub)
qed

lemma step_running:
  assumes "\<And>e. StopRun \<notin> set (cycle now e a)" "si_running s"
  shows "si_running (fst (sim_step cycle a now s))"
proof -
  have act: "si_running (fst (act s x))" if "x \<noteq> StopRun" "si_running s" for s x
    using that by (cases x) (auto split: sum.split)
  have "si_running (fst (on_tick cycle now a s))" if "si_running s" for s
    using that assms(1) unfolding on_tick_def
    by (auto intro!: run_events_invariant [where P = si_running] act)
  then show ?thesis using assms(2) by (simp add: sim_step_def Let_def split_beta)
qed

lemma run_asset_ticks:
  assumes stop: "\<And>now e. StopRun \<notin> set (cycle now e a)"
    and "si_running s" "dict_get (be_clock (si_engine s)) (ticker_symbol a) = Some d" "- 1 \<le> cl_current_index d"
    "cl_current_index d < int (length (cl_timestamps d))"
  shows "\<exists>s' ev. run_asset cycle a s = (s', ev, None) \<and> ticks ev = drop (nat (cl_current_index d + 1)) (cl_timestamps d)"
  using assms(2-)
proof (induction "ticks_left (ticker_symbol a) s" arbitrary: s d rule: less_induct)
  case less
  let ?k = "ticker_symbol a" and ?n = "int (length (cl_timestamps d))" and ?i = "cl_current_index d + 1"
  let ?d = "d\<lparr>cl_current_index := ?i\<rparr>" and ?c = "dict_set (ticker_symbol a) (d\<lparr>cl_current_index := cl_current_index d + 1\<rparr>) (be_clock (si_engine s))"
  have tick: "clock_tick ?k (be_clock (si_engine s)) = Inr (?c, ?i < ?n)"
    using less.prems by (simp add: clock_tick_def Let_def)
  show ?case
  proof (cases "?i < ?n")
    case False
    then show ?thesis using less.prems by (subst run_asset.simps) (simp add: tick List.map_filter_def)
  next
    case True
    have now: "clock_now ?k ?c = Inr (cl_timestamps d ! nat ?i)"
      using True less.prems by (auto simp: clock_now_def Let_def min_def max_def)
    obtain s1 ev1 where step: "sim_step cycle a (cl_timestamps d ! nat ?i) (set_clock ?c s) = (s1, ev1)"
      by (meson surj_pair)
    have clock: "dict_get (be_clock (si_engine s1)) ?k = Some ?d"
      using same_world_step [of "set_clock ?c s" cycle a "cl_timestamps d ! nat ?i"]
      by (simp add: step same_world_def) (simp add: set_clock_def)
    have "si_running s1"
      using step_running [of cycle "cl_timestamps d ! nat ?i" a "set_clock ?c s"] stop less.prems(1) by (simp add: step) (simp add: set_clock_def)
    moreover have "ticks_left ?k s1 < ticks_left ?k s"
      using step_ticks_left [OF tick [unfolded True [THEN eqTrueI]] step] .
    ultimately obtain s2 ev2 where rec: "run_asset cycle a s1 = (s2, ev2, None)" "ticks ev2 = drop (nat (?i + 1)) (cl_timestamps d)"
      using less.hyps [of s1 ?d] clock True less.prems by auto
    have "ticks ev1 = [cl_timestamps d ! nat ?i]"
      using step_ticks [of cycle a "cl_timestamps d ! nat ?i" "set_clock ?c s"] by (simp add: step)
    moreover have "drop (nat ?i) (cl_timestamps d) = cl_timestamps d ! nat ?i # drop (nat (?i + 1)) (cl_timestamps d)"
      using True less.prems by (subst Cons_nth_drop_Suc [symmetric]) (auto simp: Suc_nat_eq_nat_zadd1 algebra_simps)
    ultimately show ?thesis
      using True less.prems
      by (subst run_asset.simps) (simp add: tick now step rec map_filter_append)
  qed
qed

section \<open>Cancellation\<close>

text \<open>The engine with its orders replaced: two engines with the same \<open>money\<close> differ in their
  orders only.\<close>

definition set_orders :: "order list \<Rightarrow> bt_engine \<Rightarrow> bt_engine" where
  "set_orders os e = e\<lparr>be_account := (be_account e)\<lparr>bac_orders := os\<rparr>\<rparr>"

abbreviation money :: "bt_engine \<Rightarrow> bt_engine" where
  "money e \<equiv> set_orders [] e"

lemma set_orders_sel [simp]:
  "be_clock (set_orders os e) = be_clock e" "be_datasets (set_orders os e) = be_datasets e"
  "be_model (set_orders os e) = be_model e" "be_assets (set_orders os e) = be_assets e"
  "be_pending (set_orders os e) = be_pending e" "be_results (set_orders os e) = be_results e"
  "be_account (set_orders os e) = (be_account e)\<lparr>bac_orders := os\<rparr>"
  by (simp_all add: set_orders_def)

lemma money_modify [simp]: "money (modify_order u f e) = money e"
  by (simp add: set_orders_def modify_order_def)

lemma money_eq_iff: "money e = money e' \<longleftrightarrow> (\<exists>os. e' = set_orders os e)"
proof
  assume "money e = money e'"
  then have "e' = set_orders (bac_orders (be_account e')) e"
    by (cases e; cases e'; cases "be_account e"; cases "be_account e'") (simp add: set_orders_def)
  then show "\<exists>os. e' = set_orders os e" by blast
qed (auto simp: set_orders_def)

lemma apply_set_orders:
  "apply_to_account p price fee (acc\<lparr>bac_orders := os\<rparr>) = map_option (\<lambda>a. a\<lparr>bac_orders := os\<rparr>) (apply_to_account p price fee acc)"
  by (simp add: apply_to_account_def bt_position_def Let_def)

lemma money_fill: "money (fst (fill_due (set_orders os e) p)) = money (fst (fill_due e p))"
proof -
  have cancel: "money (fst (cancel_pending p (set_orders os e))) = money (fst (cancel_pending p e))"
    by (simp add: cancel_pending_def Let_def set_orders_def modify_order_def)
  have executed: "money (fst (record_execution p ts m price fee (acc\<lparr>bac_orders := os\<rparr>) (set_orders os e))) =
      money (fst (record_execution p ts m price fee acc e))" for ts m price fee acc
    by (simp add: record_execution_def Let_def set_orders_def modify_order_def)
  show ?thesis
    by (simp add: fill_due_def fill_order_def apply_set_orders cancel executed Let_def split: option.split)
qed

lemma money_process: "money (fst (process ticker now (set_orders os e))) = money (fst (process ticker now e))"
proof -
  have fills: "money (fst (run_events fill_due (set_orders os e) ps)) = money (fst (run_events fill_due e ps))" for os e ps
  proof (induction ps arbitrary: os e)
    case (Cons p ps)
    obtain os' where "fst (fill_due (set_orders os e) p) = set_orders os' (fst (fill_due e p))"
      using money_fill [of os e p, symmetric] by (auto simp: money_eq_iff)
    with Cons show ?case by (simp add: split_beta Let_def)
  qed (simp add: set_orders_def)
  have swap: "(set_orders os e)\<lparr>be_pending := d\<rparr> = set_orders os (e\<lparr>be_pending := d\<rparr>)" for d
    by (simp add: set_orders_def)
  show ?thesis
    using fills [of os "e\<lparr>be_pending := dict_set ticker (filter (\<lambda>p. \<not> is_due now p) (pending_for e ticker)) (be_pending e)\<rparr>"]
    unfolding process_def Let_def swap by (simp add: pending_for_def)
qed

section \<open>Demonstration run\<close>

definition replay_asset :: bt_asset where
  "replay_asset = \<lparr>a_base_ticker_symbol = ''BTC'', a_quote_ticker_symbol = ''USD'', a_exchange = ''BACKTEST'',
     a_separator = None, a_enabled = True, ba_quote_decimals = 0, ba_schedule = EVERY_SECOND\<rparr>"

definition replay_point :: "int \<Rightarrow> decimal \<Rightarrow> historical_data_point" where
  "replay_point t price = \<lparr>hp_timestamp = t, hp_open_price = price, hp_high_price = price, hp_low_price = price,
     hp_close_price = price, hp_volume = 1, hp_market_cap = 0\<rparr>"

definition replay_points :: "historical_data_point list" where
  "replay_points = [replay_point 10 100, replay_point 20 110, replay_point 30 120]"

definition replay_data :: backtest_data_set where
  "replay_data = \<lparr>ds_dataset_id = ''d'', ds_ticker_symbol = ''BTC_USD'', ds_start_time = 10, ds_end_time = 30,
     ds_data_points = replay_points, ds_index = data_set_index replay_points\<rparr>"

definition replay_model :: execution_model where
  "replay_model = \<lparr>em_latency_ms = 5000, em_slippage_ticks = 1, em_fee_rate = 1/10\<rparr>"

definition replay_cycle :: trading_cycle where
  "replay_cycle now e a =
     (if now = 10 then [CreateOrder ''x'' \<lparr>ca_uuid = Some ''u1'', ca_ticker_symbol = ''BTC_USD'', ca_quantity = 2,
        ca_price = 100, ca_trade_action = BUY, ca_created_time = Some 10, ca_metadata = None\<rparr>]
      else if now = 20 then [CreateOrder ''x'' \<lparr>ca_uuid = Some ''u2'', ca_ticker_symbol = ''BTC_USD'', ca_quantity = 1,
        ca_price = 110, ca_trade_action = SELL, ca_created_time = Some 20, ca_metadata = None\<rparr>]
      else [])"

definition replay_sim :: simulator where
  "replay_sim = new_simulator (new_engine (new_clock [(''BTC_USD'', [10, 20, 30])]) [(''BTC_USD'', replay_data)] replay_model
     [(''BTC_USD'', replay_asset)] 1000) None"

section \<open>Candles\<close>

lemma cut_at_map: "cut_at P (map f xs) k \<Longrightarrow> cut_at (\<lambda>x. P (f x)) xs k"
  by (auto simp: cut_at_def)

lemma known_points:
  assumes "sorted (ds_timestamps ds)"
  shows "take (bisect_right (ds_timestamps ds) (of_int now)) (ds_data_points ds) =
    filter (\<lambda>p. hp_timestamp p \<le> now) (ds_data_points ds)"
  using cut_at_filter(1) [OF cut_at_map [OF bisect_right_cut [OF assms, unfolded ds_timestamps_def]], of "of_int now"]
  by (simp add: ds_timestamps_def not_less)

section \<open>Properties\<close>

text \<open>A deadline is resolved by binary search to the first historical time that is not before it,
  as a search from the front would find it, and to nothing exactly when there is none.\<close>

theorem deadline_resolution_exact:
  assumes "dict_get timestamps key = Some ts"
  shows "next_timestamp_at_or_after (new_clock timestamps) key x = find (\<lambda>t. x \<le> of_int t) (sort ts)"
proof -
  let ?d = "\<lparr>cl_current_index = - 1, cl_timestamps = sort ts, cl_is_complete = False\<rparr>"
  have "dict_get (new_clock timestamps) key = Some ?d"
    using assms by (induction timestamps) (auto simp: new_clock_def split: if_splits)
  moreover have "(let l = filter P xs in if l = [] then None else Some (hd l)) = find P xs" for P and xs :: "int list"
    by (induction xs) (auto simp: Let_def split: if_splits)
  ultimately show ?thesis by (simp add: next_timestamp_spec [OF clock_ok_new])
qed

theorem deadline_resolution_exact_witness:
  "next_timestamp_at_or_after (new_clock [(''BTC_USD'', [30, 10, 20])]) ''BTC_USD'' (25/2) = Some 20"
  using deadline_resolution_exact [of "[(''BTC_USD'', [30, 10, 20])]" "''BTC_USD''" "[30, 10, 20]" "25/2"] by simp

text \<open>The candles a trading cycle receives are the newest \<open>limit\<close> of the data set that are
  known at the current time of the clock: nothing from the future is served.\<close>

theorem candles_served_are_known:
  assumes "make_data_set i k st en pts = Inr ds" "dict_get (be_datasets e) k = Some ds"
    and "clock_now k (be_clock e) = Inr now" "0 < limit"
  shows "handle_candles k limit e =
    Inr (let known = filter (\<lambda>p. hp_timestamp p \<le> now) pts in map candle_of (drop (length known - nat limit) known))"
proof -
  have pts: "ds_data_points ds = pts" and sorted: "sorted (ds_timestamps ds)"
    using make_data_set_Inr(1,2) [OF assms(1)] by (auto simp: strict_sorted_iff)
  let ?k = "bisect_right (ds_timestamps ds) (of_int now)"
  have "?k \<le> length (ds_timestamps ds)" using bisect_right_cut [OF sorted] by (auto simp: cut_at_def)
  then have "length (take ?k pts) = ?k" by (simp add: ds_timestamps_def pts)
  then have "length (filter (\<lambda>p. hp_timestamp p \<le> now) pts) = ?k"
    unfolding known_points [OF sorted, of now, unfolded pts] .
  moreover have "nat (max 0 (int n - limit)) = n - nat limit" for n using assms(4) by auto
  ultimately show ?thesis
    using assms(2-) known_points [OF sorted, of now] by (simp add: handle_candles_def pts Let_def)
qed

theorem candles_served_are_known_witness:
  "handle_candles ''BTC_USD'' 2 (be_clock_update (\<lambda>_. [(''BTC_USD'', \<lparr>cl_current_index = 2, cl_timestamps = [10, 20, 30],
      cl_is_complete = False\<rparr>)]) (si_engine replay_sim)) = Inr [candle_of (replay_point 20 110), candle_of (replay_point 30 120)]"
proof -
  let ?c = "[(''BTC_USD'', \<lparr>cl_current_index = 2, cl_timestamps = [10, 20, 30], cl_is_complete = False\<rparr>)]"
  have "make_data_set ''d'' ''BTC_USD'' 10 30 replay_points = Inr replay_data"
    by (simp add: make_data_set_def replay_points_def replay_point_def replay_data_def)
  moreover have "dict_get (be_datasets ((si_engine replay_sim)\<lparr>be_clock := ?c\<rparr>)) ''BTC_USD'' = Some replay_data"
    by (simp add: replay_sim_def new_simulator_def new_engine_def)
  moreover have "clock_now ''BTC_USD'' (be_clock ((si_engine replay_sim)\<lparr>be_clock := ?c\<rparr>)) = Inr 30"
    by (simp add: clock_now_def)
  ultimately show ?thesis
    using candles_served_are_known [of "''d''" "''BTC_USD''" 10 30 replay_points replay_data "(si_engine replay_sim)\<lparr>be_clock := ?c\<rparr>" 30 2]
    by (simp add: replay_points_def replay_point_def)
qed

text \<open>C26.  However the trading cycles trade, with orders of non-negative quantity, a fee rate of at most
  one and prices that cover the slippage, the simulated account never goes negative, neither in cash nor
  in any position.\<close>

theorem backtest_account_solvent:
  assumes "fair_market (new_engine clock datasets model assets b)" "0 \<le> b"
    and "\<forall>now e a. list_all (admits (\<lambda>args. 0 \<le> ca_quantity args)) (cycle now e a)"
  shows "solvent (be_account (engine_of (sim_run cycle as (new_simulator (new_engine clock datasets model assets b) cutoff))))"
proof -
  have "solvency_inv (new_engine clock datasets model assets b)"
    using assms(1,2) by (simp add: solvency_inv_def solvent_def new_engine_def new_account_def)
  from solvency.inv_run [of "new_simulator (new_engine clock datasets model assets b) cutoff" cycle as] this assms(3)
  show ?thesis by (simp add: new_simulator_def solvency_inv_def)
qed

theorem backtest_account_solvent_witness:
  "solvent (be_account (engine_of (sim_run replay_cycle [replay_asset] replay_sim))) \<and>
   map xr_order_uuid (be_results (engine_of (sim_run replay_cycle [replay_asset] replay_sim))) = [''u1'', ''u2'']"
proof
  have "ds_get replay_data ts = Some p \<Longrightarrow> 1 \<le> hp_close_price p" for ts p
    by (auto simp: ds_get_def replay_data_def data_set_index_def replay_points_def replay_point_def split: if_splits)
  then have "fair_market (new_engine (new_clock [(''BTC_USD'', [10, 20, 30])]) [(''BTC_USD'', replay_data)] replay_model
      [(''BTC_USD'', replay_asset)] 1000)"
    by (auto simp: fair_market_def new_engine_def replay_model_def replay_asset_def quantum_of_def split: if_splits)
  then show "solvent (be_account (engine_of (sim_run replay_cycle [replay_asset] replay_sim)))"
    unfolding replay_sim_def by (intro backtest_account_solvent) (simp_all add: replay_cycle_def)
  show "map xr_order_uuid (be_results (engine_of (sim_run replay_cycle [replay_asset] replay_sim))) = [''u1'', ''u2'']"
    by code_simp
qed

text \<open>C27.  The account of a backtest is explained by its execution results: the cash is the initial
  balance less the market value of everything bought (plus that of everything sold) and less the fee and the
  slippage of each execution; every position is the sum of the signed executed quantities.\<close>

theorem executions_explain_account:
  "let e = engine_of (sim_run cycle as (new_simulator (new_engine clock datasets model assets b) cutoff))
   in bac_balance_usd (be_account e) =
        b - sum_list (map (\<lambda>r. signed_quantity r * xr_market_price r + trading_cost r) (be_results e)) \<and>
      bt_position (be_account e) k =
        sum_list (map signed_quantity (filter (\<lambda>r. xr_ticker_symbol r = k) (be_results e)))"
  using ledger.inv_run [of b "new_simulator (new_engine clock datasets model assets b) cutoff" cycle as]
  by (simp add: new_simulator_def new_engine_def new_account_def ledger_inv_def bt_position_def list_all_iff)

text \<open>C28.  Every execution happens at the first historical time at or after the submission time plus the
  latency, at the closing price of that time.\<close>

theorem executions_on_time:
  assumes "r \<in> set (be_results (engine_of (sim_run cycle as
      (new_simulator (new_engine (new_clock timestamps) datasets model assets b) cutoff))))"
  shows "timed_result (known_times (new_clock timestamps)) (em_latency_ms model / 1000) datasets r"
proof -
  let ?s = "new_simulator (new_engine (new_clock timestamps) datasets model assets b) cutoff"
  let ?K = "known_times (new_clock timestamps)" and ?l = "em_latency_ms model / 1000"
  have "timing_inv ?K ?l datasets (si_engine ?s)"
    by (simp add: timing_inv_def new_simulator_def new_engine_def pending_for_def get_latency_def)
  then have "timing_inv ?K ?l datasets (engine_of (sim_run cycle as ?s))"
    by (rule timing.inv_run) (simp add: list_all_iff admits_True)
  with assms show ?thesis by (auto simp: timing_inv_def list_all_iff)
qed

theorem executions_on_time_witness:
  "timed_result (known_times (new_clock [(''BTC_USD'', [10, 20, 30])])) 5 [(''BTC_USD'', replay_data)]
     (hd (be_results (engine_of (sim_run replay_cycle [replay_asset] replay_sim))))"
proof -
  have "be_results (engine_of (sim_run replay_cycle [replay_asset] replay_sim)) \<noteq> []"
    by code_simp
  then have "hd (be_results (engine_of (sim_run replay_cycle [replay_asset] replay_sim))) \<in>
      set (be_results (engine_of (sim_run replay_cycle [replay_asset] replay_sim)))" by (rule hd_in_set)
  from executions_on_time [OF this [unfolded replay_sim_def]]
  have "timed_result (known_times (new_clock [(''BTC_USD'', [10, 20, 30])])) (em_latency_ms replay_model / 1000)
      [(''BTC_USD'', replay_data)] (hd (be_results (engine_of (sim_run replay_cycle [replay_asset] replay_sim))))"
    unfolding replay_sim_def .
  moreover have "em_latency_ms replay_model / 1000 = 5" by (simp add: replay_model_def)
  ultimately show ?thesis by (simp only:)
qed

text \<open>No order is filled more often than it was created: for every identifier the number of executions is
  at most the number of orders with it.\<close>

theorem orders_filled_at_most_once:
  "let e = engine_of (sim_run cycle as (new_simulator (new_engine clock datasets model assets b) cutoff))
   in count (mset (map xr_order_uuid (be_results e))) u \<le> count (mset (map o_uuid (bac_orders (be_account e)))) u"
proof -
  let ?s = "new_simulator (new_engine clock datasets model assets b) cutoff"
  have "settled_inv (si_engine ?s)" by (simp add: settled_inv_def new_simulator_def new_engine_def pending_uuids_def)
  then have "settled_inv (engine_of (sim_run cycle as ?s))"
    by (rule settled.inv_run) (simp add: list_all_iff admits_True)
  then show ?thesis
    by (auto simp: settled_inv_def Let_def intro: mset_subset_eq_count [OF subset_mset.order_trans [OF mset_subset_eq_add_left]])
qed



text \<open>Cancelling an order through the REST service does not keep it from being executed: whatever the
  engine executes, and the money it moves, is the same with and without the cancellation.\<close>

theorem cancelled_orders_still_execute:
  "let e1 = fst (process ticker now (handle_cancel_order u e)); e2 = fst (process ticker now e)
   in be_results e1 = be_results e2 \<and> bac_balance_usd (be_account e1) = bac_balance_usd (be_account e2) \<and>
      bac_positions (be_account e1) = bac_positions (be_account e2)"
proof -
  obtain os where "handle_cancel_order u e = set_orders os e" by (auto simp: handle_cancel_order_def set_orders_def)
  then have "money (fst (process ticker now (handle_cancel_order u e))) = money (fst (process ticker now e))"
    by (simp add: money_process)
  then show ?thesis
    unfolding Let_def money_eq_iff by (elim exE) simp
qed

text \<open>
  The recorded slippage cost of a sale is negative although the sale is made below the market price, so
  that summing the costs over a round trip reports no slippage at all.
\<close>

lemma round_trip_slippage_cancels:
  assumes "po_trade_action p = BUY" "po_trade_action p' = SELL" "po_quantity p' = po_quantity p"
  shows "xr_slippage_cost (result_of p t m (slippage_apply md (po_trade_action p) m n) fee) +
    xr_slippage_cost (result_of p' t' m' (slippage_apply md (po_trade_action p') m' n) fee') = 0"
  using assms by (simp add: result_of_def slippage_apply_def Let_def algebra_simps)

text \<open>An order of the last tick has no execution time left: it is neither executed nor cancelled.\<close>

lemma last_tick_order_unsettled:
  "let cycle = (\<lambda>now e a. if now = 30 then [CreateOrder ''x'' \<lparr>ca_uuid = Some ''u3'', ca_ticker_symbol = ''BTC_USD'',
        ca_quantity = 2, ca_price = 100, ca_trade_action = BUY, ca_created_time = Some 30, ca_metadata = None\<rparr>] else []);
       e = engine_of (sim_run cycle [replay_asset] replay_sim)
   in be_results e = [] \<and> map o_status (bac_orders (be_account e)) = [Some PENDING]"
  by code_simp

end
