(* ===== verification/WalkForward.thy ===== *)
theory WalkForward
  imports History Indicators Sizing
begin

text \<open>
  Walk-forward analysis: the folds of a run
  (\<open>src/src/walk_forward/generator/fold_generator.py\<close>), the aggregation of their results
  (\<open>src/src/walk_forward/analysis/aggregator.py\<close>) and the weights of the compared assets
  (\<open>src/src/walk_forward/runner/walk_forward_runner.py\<close>).

  Dates are seconds since 1970.  The loop that generates folds is a \<open>partial_function\<close>: its
  step is configured and may be negative, so that its end is a theorem and not a structural fact.
\<close>

section \<open>Windows and folds\<close>

datatype window_mode = ROLLING | EXPANDING

record window_spec =
  ws_train_duration_days :: "int option"
  ws_train_candle_count :: "int option"
  ws_test_duration_days :: "int option"
  ws_test_candle_count :: "int option"
  ws_step_size_days :: "int option"
  ws_step_size_candles :: "int option"
  ws_warmup_candle_count :: int
  ws_window_mode :: window_mode

record wf_fold =
  fo_fold_index :: nat
  fo_warmup_start :: "timestamp option"
  fo_warmup_end :: "timestamp option"
  fo_train_start :: timestamp
  fo_train_end :: timestamp
  fo_test_start :: timestamp
  fo_test_end :: timestamp
  fo_test_warmup_start :: "timestamp option"
  fo_status :: string

text \<open>
  \<open>datetime.fromtimestamp\<close> in UTC: beyond the years 1 to 9999 it raises \<open>ValueError\<close>, beyond
  the platform's 64-bit seconds \<open>OverflowError\<close>.
\<close>

definition timestamp_to_datetime :: "int \<Rightarrow> timestamp result" where
  "timestamp_to_datetime t =
     (let ts = (if t > 100000000000 then of_int t / 1000 else of_int t :: rat)
      in if ts \<ge> 2 ^ 63 \<or> ts < - (2 ^ 63) then Inl OverflowError
         else if ts < - 62135596800 \<or> ts \<ge> 253402300800 then Inl ValueError
         else Inr ts)"

text \<open>Python's indexing: a negative index counts from the end.\<close>

definition py_nth :: "'a list \<Rightarrow> int \<Rightarrow> 'a result" where
  "py_nth xs i =
     (let n = int (length xs); j = (if i < 0 then i + n else i)
      in if 0 \<le> j \<and> j < n then Inr (xs ! nat j) else Inl IndexError)"

definition date_at :: "int list \<Rightarrow> int \<Rightarrow> timestamp result" where
  "date_at timestamps i = res_bind (py_nth timestamps i) timestamp_to_datetime"

definition optional_date :: "bool \<Rightarrow> int list \<Rightarrow> int \<Rightarrow> timestamp option result" where
  "optional_date present timestamps i =
     (if present then res_bind (date_at timestamps i) (\<lambda>d. Inr (Some d)) else Inr None)"

definition create_fold ::
  "nat \<Rightarrow> int list \<Rightarrow> int \<Rightarrow> int \<Rightarrow> int \<Rightarrow> int \<Rightarrow> int \<Rightarrow> wf_fold result" where
  "create_fold fold_idx timestamps train_start_idx train_end_idx test_start_idx test_end_idx warmup_count =
     (let warmup_start_idx = max 0 (train_start_idx - warmup_count);
          has_warmup = (train_start_idx > warmup_start_idx);
          test_warmup_start_idx = max 0 (test_start_idx - warmup_count)
      in res_bind (optional_date has_warmup timestamps warmup_start_idx) (\<lambda>warmup_start.
         res_bind (optional_date has_warmup timestamps (train_start_idx - 1)) (\<lambda>warmup_end.
         res_bind (optional_date (test_start_idx > test_warmup_start_idx) timestamps test_warmup_start_idx)
           (\<lambda>test_warmup_start.
         res_bind (date_at timestamps train_start_idx) (\<lambda>train_start.
         res_bind (date_at timestamps train_end_idx) (\<lambda>train_end.
         res_bind (date_at timestamps test_start_idx) (\<lambda>test_start.
         res_bind (date_at timestamps test_end_idx) (\<lambda>test_end.
           Inr \<lparr>fo_fold_index = fold_idx, fo_warmup_start = warmup_start, fo_warmup_end = warmup_end,
                fo_train_start = train_start, fo_train_end = train_end, fo_test_start = test_start,
                fo_test_end = test_end, fo_test_warmup_start = test_warmup_start,
                fo_status = ''PENDING''\<rparr>))))))))"

section \<open>Window sizes\<close>

definition given :: "int option \<Rightarrow> bool" where
  "given n \<longleftrightarrow> (case n of None \<Rightarrow> False | Some k \<Rightarrow> k \<noteq> 0)"

definition candle_gaps :: "int list \<Rightarrow> rat list" where
  "candle_gaps timestamps =
     filter (\<lambda>d. d > 0)
       (map (\<lambda>i. let diff = \<bar>timestamps ! Suc i - timestamps ! i\<bar>
                  in if diff > 100000000000 then of_int diff / 1000 else of_int diff)
          [0..<min (length timestamps - 1) 50])"

definition estimate_candle_interval_seconds :: "int list \<Rightarrow> rat" where
  "estimate_candle_interval_seconds timestamps =
     (if length timestamps < 2 then 86400
      else let diffs = sort (candle_gaps timestamps)
           in if diffs = [] then 86400 else diffs ! (length diffs div 2))"

definition candles_per_day :: "int list \<Rightarrow> int" where
  "candles_per_day timestamps = max 1 (round_half_even (86400 / estimate_candle_interval_seconds timestamps))"

definition resolve_window_sizes :: "window_spec \<Rightarrow> int list \<Rightarrow> int \<times> int \<times> int" where
  "resolve_window_sizes spec timestamps =
     (if given (ws_train_candle_count spec) \<and> given (ws_test_candle_count spec)
      then let train = the (ws_train_candle_count spec); test = the (ws_test_candle_count spec)
           in (train, test, if given (ws_step_size_candles spec) then the (ws_step_size_candles spec) else test)
      else if given (ws_train_duration_days spec) \<and> given (ws_test_duration_days spec)
      then let per_day = candles_per_day timestamps;
               train = the (ws_train_duration_days spec) * per_day;
               test = the (ws_test_duration_days spec) * per_day;
               step = (if given (ws_step_size_days spec) then the (ws_step_size_days spec) * per_day else test)
           in (max 2 train, max 2 test, max 1 step)
      else let total = int (length timestamps);
               train = max 2 (total * 6 div 10); test = max 2 (total * 2 div 10)
           in (train, test, max 1 test))"

section \<open>Fold generation\<close>

partial_function (option) fold_loop ::
  "window_mode \<Rightarrow> int \<Rightarrow> int list \<Rightarrow> int \<Rightarrow> int \<Rightarrow> int \<Rightarrow> nat \<Rightarrow> int \<Rightarrow> wf_fold list result option" where
  "fold_loop mode warmup timestamps train test step fold_idx offset =
     (if offset + train + test \<le> int (length timestamps)
      then case create_fold fold_idx timestamps (if mode = ROLLING then offset else 0) (offset + train - 1)
                  (offset + train) (offset + train + test - 1) warmup of
             Inl e \<Rightarrow> Some (Inl e)
           | Inr fo \<Rightarrow>
               Option.bind (fold_loop mode warmup timestamps train test step (Suc fold_idx) (offset + step))
                 (\<lambda>r. Some (res_bind r (\<lambda>folds. Inr (fo # folds))))
      else Some (Inr []))"

declare fold_loop.simps [code]

definition generate_folds :: "window_spec \<Rightarrow> int list \<Rightarrow> wf_fold list result option" where
  "generate_folds spec timestamps =
     (if length timestamps < 4 then Some (Inr [])
      else case resolve_window_sizes spec timestamps of
             (train, test, step) \<Rightarrow>
               if train + test > int (length timestamps) then Some (Inr [])
               else fold_loop (ws_window_mode spec) (max 0 (ws_warmup_candle_count spec)) timestamps train test step 0 0)"

section \<open>Aggregation\<close>

record fold_metrics =
  fm_fold_index :: nat
  fm_train_return_pct :: rat
  fm_test_return_pct :: rat
  fm_test_max_drawdown_pct :: rat
  fm_test_trades_count :: int
  fm_test_win_rate_pct :: rat
  fm_test_profit_factor :: rat
  fm_baseline_test_return_pct :: "rat option"
  fm_equal_weight_test_return_pct :: "rat option"
  fm_in_sample_trades :: "int option"
  fm_out_of_sample_trades :: "int option"
  fm_out_of_sample_win_rate_pct :: "rat option"
  fm_out_of_sample_profit_factor :: "rat option"

text \<open>The fields of the summary that only pass through are one field here.\<close>

record wf_provenance =
  wp_vcs_commit_hash :: "string option"
  wp_dataset_identity :: "string option"
  wp_execution_assumptions :: "pyval option"
  wp_strategy_weights :: "pyval option"
  wp_candidate_weights :: "(string, rat) dict option"
  wp_baseline_weights :: "(string, rat) dict option"
  wp_software_version :: "string option"

record wf_summary =
  sm_run_id :: string
  sm_ticker_symbol :: string
  sm_total_folds :: nat
  sm_profitable_folds :: nat
  sm_profitable_fold_ratio :: rat
  sm_aggregate_oos_return_pct :: rat
  sm_max_oos_drawdown_pct :: rat
  sm_walk_forward_efficiency :: rat
  sm_fold_results :: "fold_metrics list"
  sm_verdict :: string
  sm_stability_classification :: "string option"
  sm_in_sample_return_pct :: "rat option"
  sm_provenance :: wf_provenance

fun drawdown_loop :: "rat \<times> rat \<times> rat \<Rightarrow> rat list \<Rightarrow> rat \<times> rat \<times> rat" where
  "drawdown_loop st [] = st"
| "drawdown_loop (cum, peak, max_dd) (r # rs) =
     (let cum' = cum * (1 + r / 100);
          peak' = max peak cum';
          dd = (if peak' > 0 then (peak' - cum') / peak' else 0)
      in drawdown_loop (cum', peak', max max_dd dd) rs)"

definition calculate_drawdowns :: "fold_metrics list \<Rightarrow> rat \<times> rat" where
  "calculate_drawdowns fs =
     (case drawdown_loop (1, 1, 0) (map fm_test_return_pct fs) of
        (cum, peak, max_dd) \<Rightarrow> (round_digits 2 ((cum - 1) * 100), round_digits 2 (max_dd * 100)))"

definition determine_verdict :: "rat \<Rightarrow> rat \<Rightarrow> rat \<Rightarrow> string \<times> string" where
  "determine_verdict ratio oos_ret wfe =
     (if ratio \<ge> 6/10 \<and> oos_ret > 0 \<and> wfe \<ge> 1/2
      then (''ROBUST'', ''ROBUST: Strategy demonstrates consistent out-of-sample edge across evaluation folds.'')
      else if oos_ret > 0
      then (''UNSTABLE'', ''UNSTABLE: Aggregate return is positive but driven by minority of folds; high regime sensitivity.'')
      else (''DETERIORATING'', ''DETERIORATING: Strategy fails to generalize out-of-sample or exhibits severe degradation.''))"

definition populate_compatibility :: "fold_metrics \<Rightarrow> fold_metrics" where
  "populate_compatibility f =
     f\<lparr>fm_out_of_sample_trades := Some (opt_or (fm_out_of_sample_trades f) (fm_test_trades_count f)),
       fm_out_of_sample_win_rate_pct := Some (opt_or (fm_out_of_sample_win_rate_pct f) (fm_test_win_rate_pct f)),
       fm_out_of_sample_profit_factor := Some (opt_or (fm_out_of_sample_profit_factor f) (fm_test_profit_factor f)),
       fm_in_sample_trades := Some (opt_or (fm_in_sample_trades f) 0)\<rparr>"

definition efficiency :: "rat \<Rightarrow> rat \<Rightarrow> rat" where
  "efficiency avg_is avg_oos =
     (if avg_is > 0 then round_digits 2 (avg_oos / avg_is)
      else if avg_is = 0 \<and> avg_oos > 0 then 1 else 0)"

definition aggregate :: "string \<Rightarrow> string \<Rightarrow> fold_metrics list \<Rightarrow> wf_provenance \<Rightarrow> wf_summary" where
  "aggregate run_id ticker fs prov =
     (if fs = []
      then \<lparr>sm_run_id = run_id, sm_ticker_symbol = ticker, sm_total_folds = 0, sm_profitable_folds = 0,
            sm_profitable_fold_ratio = 0, sm_aggregate_oos_return_pct = 0, sm_max_oos_drawdown_pct = 0,
            sm_walk_forward_efficiency = 0, sm_fold_results = [], sm_verdict = ''NO_FOLDS_EVALUATED'',
            sm_stability_classification = None, sm_in_sample_return_pct = None, sm_provenance = prov\<rparr>
      else let total = length fs;
               profitable = length (filter (\<lambda>f. fm_test_return_pct f > 0) fs);
               ratio = round_digits 3 (of_nat profitable / of_nat total);
               avg_is = sum_list (map fm_train_return_pct fs) / of_nat total;
               avg_oos = sum_list (map fm_test_return_pct fs) / of_nat total;
               wfe = efficiency avg_is avg_oos
           in case calculate_drawdowns fs of (oos_return, oos_drawdown) \<Rightarrow>
              case determine_verdict ratio oos_return wfe of (classification, verdict) \<Rightarrow>
              \<lparr>sm_run_id = run_id, sm_ticker_symbol = ticker, sm_total_folds = total,
               sm_profitable_folds = profitable, sm_profitable_fold_ratio = ratio,
               sm_aggregate_oos_return_pct = oos_return, sm_max_oos_drawdown_pct = oos_drawdown,
               sm_walk_forward_efficiency = wfe, sm_fold_results = map populate_compatibility fs,
               sm_verdict = verdict, sm_stability_classification = Some classification,
               sm_in_sample_return_pct = Some (round_digits 2 avg_is), sm_provenance = prov\<rparr>)"

section \<open>Weights of the compared assets\<close>

definition apply_weights_to_asset :: "trade_asset \<Rightarrow> (string, rat) dict \<Rightarrow> trade_asset" where
  "apply_weights_to_asset a weights =
     (if \<not> truthy (ta_strategies a) \<or> weights = [] then a
      else a\<lparr>ta_strategies := map_option (map (\<lambda>s. if cf_name s \<noteq> []
        then (case dict_get weights (cf_name s) of Some w \<Rightarrow> s\<lparr>cf_weight := w\<rparr> | None \<Rightarrow> s) else s)) (ta_strategies a)\<rparr>)"

definition build_equal_weight_asset :: "trade_asset \<Rightarrow> trade_asset" where
  "build_equal_weight_asset a =
     (if \<not> truthy (ta_strategies a) then a
      else a\<lparr>ta_strategies := map_option (map (\<lambda>s. s\<lparr>cf_weight := 1\<rparr>)) (ta_strategies a)\<rparr>)"

section \<open>The generation ends\<close>

lemma res_bind_Inl_iff: "(\<exists>e. res_bind r f = Inl e) \<longleftrightarrow> (\<exists>e. r = Inl e) \<or> (\<exists>x e. r = Inr x \<and> f x = Inl e)"
  by (cases r) auto

lemma create_fold_before_start:
  assumes "train_end_idx < - int (length ts)"
  shows "\<exists>e. create_fold k ts a train_end_idx c d w = Inl e"
proof -
  have "date_at ts train_end_idx = Inl IndexError" using assms by (simp add: date_at_def py_nth_def Let_def)
  then show ?thesis by (auto simp: create_fold_def Let_def res_bind_def split: sum.split)
qed

lemma fold_loop_returns:
  assumes "step \<noteq> 0"
  shows "\<exists>r. fold_loop mode warmup ts train test step k offset = Some r"
proof -
  define m where "m offset = (if step > 0 then nat (int (length ts) + 1 - (offset + train + test))
    else nat (offset + train + int (length ts)))" for offset
  show ?thesis
  proof (induction "m offset" arbitrary: k offset rule: less_induct)
    case less
    show ?case
    proof (cases "offset + train + test \<le> int (length ts)")
      case False
      then show ?thesis by (subst fold_loop.simps) simp
    next
      case True
      show ?thesis
      proof (cases "create_fold k ts (if mode = ROLLING then offset else 0) (offset + train - 1)
          (offset + train) (offset + train + test - 1) warmup")
        case (Inl e)
        with True show ?thesis by (subst fold_loop.simps) simp
      next
        case (Inr f)
        with create_fold_before_start have "- int (length ts) \<le> offset + train - 1" by (metis not_less sum.distinct(1))
        then have "m (offset + step) < m offset" using True assms by (auto simp: m_def)
        from less [OF this, of "Suc k"] Inr True show ?thesis by (subst fold_loop.simps) auto
      qed
    qed
  qed
qed

lemma step_not_zero: "resolve_window_sizes spec ts = (train, test, step) \<Longrightarrow> step \<noteq> 0"
  by (auto simp: resolve_window_sizes_def given_def Let_def split: if_splits option.splits)

section \<open>Folds of ordered data\<close>

definition wf_date :: "int \<Rightarrow> rat" where
  "wf_date t = (if t > 100000000000 then of_int t / 1000 else of_int t)"

text \<open>All times are in seconds, or all in milliseconds, within the years a date can have.\<close>

definition one_unit :: "int list \<Rightarrow> bool" where
  "one_unit ts \<longleftrightarrow> list_all (\<lambda>t. 0 \<le> t \<and> t \<le> 100000000000) ts \<or>
     list_all (\<lambda>t. 100000000000 < t \<and> t < 253402300800000) ts"

definition no_look_ahead :: "wf_fold \<Rightarrow> bool" where
  "no_look_ahead f \<longleftrightarrow>
     fo_train_start f \<le> fo_train_end f \<and> fo_train_end f < fo_test_start f \<and> fo_test_start f \<le> fo_test_end f \<and>
     (case (fo_warmup_start f, fo_warmup_end f) of
        (None, None) \<Rightarrow> True
      | (Some a, Some b) \<Rightarrow> a \<le> b \<and> b < fo_train_start f
      | _ \<Rightarrow> False) \<and>
     (case fo_test_warmup_start f of None \<Rightarrow> True | Some a \<Rightarrow> a < fo_test_start f)"

lemma date_at_ok:
  assumes "one_unit ts" "0 \<le> i" "i < int (length ts)"
  shows "date_at ts i = Inr (wf_date (ts ! nat i))"
proof -
  have "ts ! nat i \<in> set ts" using assms(2,3) by simp
  then have "(0 \<le> ts ! nat i \<and> ts ! nat i \<le> 100000000000) \<or> (100000000000 < ts ! nat i \<and> ts ! nat i < 253402300800000)"
    using assms(1) by (auto simp: one_unit_def list_all_iff)
  then have "timestamp_to_datetime (ts ! nat i) = Inr (wf_date (ts ! nat i))"
  proof
    assume t: "0 \<le> ts ! nat i \<and> ts ! nat i \<le> 100000000000"
    then have "0 \<le> rat_of_int (ts ! nat i)" "rat_of_int (ts ! nat i) \<le> 100000000000"
      by (metis of_int_0_le_iff, metis of_int_le_iff of_int_numeral)
    with t show ?thesis by (simp add: timestamp_to_datetime_def wf_date_def)
  next
    assume t: "100000000000 < ts ! nat i \<and> ts ! nat i < 253402300800000"
    then have "100000000000 < rat_of_int (ts ! nat i)" "rat_of_int (ts ! nat i) < 253402300800000"
      by (metis of_int_less_iff of_int_numeral)+
    with t show ?thesis by (simp add: timestamp_to_datetime_def wf_date_def)
  qed
  with assms(2,3) show ?thesis by (simp add: date_at_def py_nth_def)
qed

lemma wf_date_mono:
  assumes "one_unit ts" "sorted_wrt (<) ts" "0 \<le> i" "i < j" "j < int (length ts)"
  shows "wf_date (ts ! nat i) < wf_date (ts ! nat j)"
proof -
  have "ts ! nat i < ts ! nat j" using assms(2-) sorted_wrt_nth_less [of "(<)" ts "nat i" "nat j"] by auto
  moreover have "(ts ! nat i > 100000000000) = (ts ! nat j > 100000000000)"
  proof -
    have "ts ! nat i \<in> set ts" "ts ! nat j \<in> set ts" using assms(3-) by auto
    then show ?thesis using assms(1) unfolding one_unit_def list_all_iff by force
  qed
  ultimately show ?thesis by (simp add: wf_date_def divide_strict_right_mono)
qed

lemma wf_date_mono_le:
  assumes "one_unit ts" "sorted_wrt (<) ts" "0 \<le> i" "i \<le> j" "j < int (length ts)"
  shows "wf_date (ts ! nat i) \<le> wf_date (ts ! nat j)"
  using wf_date_mono [OF assms(1-3), of j] assms(4,5) by (cases "i = j") auto

lemma create_fold_ok:
  assumes ts: "one_unit ts" "sorted_wrt (<) ts"
    and idx: "0 \<le> a" "a \<le> b" "b < c" "c \<le> d" "d < int (length ts)" and w: "0 \<le> w"
  shows "\<exists>f. create_fold k ts a b c d w = Inr f \<and> no_look_ahead f \<and> fo_fold_index f = k \<and>
    fo_test_start f = wf_date (ts ! nat c) \<and> fo_test_end f = wf_date (ts ! nat d)"
proof -
  let ?D = "\<lambda>i. wf_date (ts ! nat i)"
  have d: "date_at ts i = Inr (?D i)" if "0 \<le> i" "i < int (length ts)" for i
    using date_at_ok [OF ts(1) that] .
  have opt: "optional_date p ts i = Inr (if p then Some (?D i) else None)" if "p \<Longrightarrow> 0 \<le> i \<and> i < int (length ts)" for p i
    using that d by (simp add: optional_date_def)
  define ws where "ws = max 0 (a - w)" define tw where "tw = max 0 (c - w)"
  have bounds: "0 \<le> ws" "0 \<le> tw" "ws \<le> a" "tw \<le> c" using idx w by (auto simp: ws_def tw_def)
  have lt: "?D i < ?D j" if "0 \<le> i" "i < j" "j < int (length ts)" for i j using wf_date_mono [OF ts that] .
  have le: "?D i \<le> ?D j" if "0 \<le> i" "i \<le> j" "j < int (length ts)" for i j using wf_date_mono_le [OF ts that] .
  show ?thesis
    using idx bounds
    by (auto simp: create_fold_def Let_def ws_def [symmetric] tw_def [symmetric] opt d no_look_ahead_def intro: lt le)
qed

lemma fold_loop_ordered:
  assumes ts: "one_unit ts" "sorted_wrt (<) ts"
    and size: "0 < train" "0 < test" "0 < step" "0 \<le> warmup" "0 \<le> offset"
  shows "\<exists>folds. fold_loop mode warmup ts train test step k offset = Some (Inr folds) \<and>
    list_all no_look_ahead folds \<and> map fo_fold_index folds = [k..<k + length folds] \<and>
    (\<forall>i < length folds. fo_test_start (folds ! i) = wf_date (ts ! nat (offset + train + int i * step)) \<and>
        fo_test_end (folds ! i) = wf_date (ts ! nat (offset + train + int i * step + test - 1))) \<and>
    length folds = (if offset + train + test \<le> int (length ts)
      then nat ((int (length ts) - offset - train - test) div step) + 1 else 0)"
  using size(5)
proof (induction "nat (int (length ts) + 1 - (offset + train + test))" arbitrary: k offset rule: less_induct)
  case less
  let ?n = "int (length ts)"
  show ?case
  proof (cases "offset + train + test \<le> ?n")
    case False
    then show ?thesis by (subst fold_loop.simps) simp
  next
    case True
    have a: "0 \<le> (if mode = ROLLING then offset else 0)" "(if mode = ROLLING then offset else 0) \<le> offset + train - 1"
      using size less.prems by auto
    obtain f where f: "create_fold k ts (if mode = ROLLING then offset else 0) (offset + train - 1)
        (offset + train) (offset + train + test - 1) warmup = Inr f" "no_look_ahead f" "fo_fold_index f = k"
      "fo_test_start f = wf_date (ts ! nat (offset + train))" "fo_test_end f = wf_date (ts ! nat (offset + train + test - 1))"
      using create_fold_ok [OF ts a, of "offset + train" "offset + train + test - 1" warmup k] True size by auto
    have "nat (?n + 1 - (offset + step + train + test)) < nat (?n + 1 - (offset + train + test))"
      "0 \<le> offset + step" using True size(3) less.prems by auto
    from less.hyps [OF this, of "Suc k"] obtain fs where
      fs: "fold_loop mode warmup ts train test step (Suc k) (offset + step) = Some (Inr fs)" "list_all no_look_ahead fs"
        "map fo_fold_index fs = [Suc k..<Suc k + length fs]"
        "\<And>i. i < length fs \<Longrightarrow> fo_test_start (fs ! i) = wf_date (ts ! nat (offset + step + train + int i * step)) \<and>
          fo_test_end (fs ! i) = wf_date (ts ! nat (offset + step + train + int i * step + test - 1))"
      and len: "length fs = (if offset + step + train + test \<le> ?n then nat ((?n - (offset + step) - train - test) div step) + 1 else 0)"
      by blast
    have "(?n - offset - train - test) div step = (?n - (offset + step) - train - test) div step + 1"
      using div_add_self2 [of step "?n - (offset + step) - train - test"] size(3) by (simp add: algebra_simps)
    moreover have "(?n - offset - train - test) div step = 0" if "\<not> offset + step + train + test \<le> ?n"
      using that True size(3) by (intro div_pos_pos_trivial) auto
    ultimately have "length (f # fs) = nat ((?n - offset - train - test) div step) + 1"
      using len size(3) by (auto simp: nat_add_distrib pos_imp_zdiv_nonneg_iff)
    moreover have "fo_test_start ((f # fs) ! i) = wf_date (ts ! nat (offset + train + int i * step)) \<and>
        fo_test_end ((f # fs) ! i) = wf_date (ts ! nat (offset + train + int i * step + test - 1))" if "i < length (f # fs)" for i
      using that f(4,5) fs(4) [of "i - 1"] by (cases i) (simp_all add: algebra_simps)
    moreover have "map fo_fold_index (f # fs) = [k..<k + length (f # fs)]"
      using f(3) fs(3) by (simp add: upt_rec)
    ultimately show ?thesis
      using True f(1,2) fs(1,2) by (subst fold_loop.simps) simp
  qed
qed

section \<open>Drawdown\<close>

text \<open>The course of the compounded value, and the worst relative decline from an earlier to a later value.\<close>

fun value_course :: "rat \<Rightarrow> rat list \<Rightarrow> rat list" where
  "value_course v [] = [v]"
| "value_course v (r # rs) = v # value_course (v * (1 + r / 100)) rs"

definition declines :: "rat list \<Rightarrow> rat set" where
  "declines xs = {(xs ! i - xs ! j) / xs ! i | i j. i \<le> j \<and> j < length xs}"

definition worst_decline :: "rat list \<Rightarrow> rat" where
  "worst_decline xs = Max (declines xs)"

lemma declinesI: "i \<le> j \<Longrightarrow> j < length xs \<Longrightarrow> d = (xs ! i - xs ! j) / xs ! i \<Longrightarrow> d \<in> declines xs"
  unfolding declines_def by blast

lemma declinesE:
  assumes "d \<in> declines xs"
  obtains i j where "i \<le> j" "j < length xs" "d = (xs ! i - xs ! j) / xs ! i"
  using assms unfolding declines_def by blast

lemma zero_decline: "xs \<noteq> [] \<Longrightarrow> 0 \<in> declines xs"
  by (rule declinesI [of 0 0]) simp_all

lemma finite_declines: "finite (declines xs)"
proof (rule finite_subset)
  show "declines xs \<subseteq> (\<lambda>(i, j). (xs ! i - xs ! j) / xs ! i) ` ({..<length xs} \<times> {..<length xs})"
    by (auto elim!: declinesE)
qed simp

lemma declines_snoc: "declines (xs @ [y]) = declines xs \<union> (\<lambda>x. (x - y) / x) ` set (xs @ [y])" (is "?L = ?A \<union> ?B")
proof
  show "?L \<subseteq> ?A \<union> ?B"
  proof
    fix d assume "d \<in> ?L"
    then obtain i j where ij: "i \<le> j" "j < length (xs @ [y])" and d: "d = ((xs @ [y]) ! i - (xs @ [y]) ! j) / (xs @ [y]) ! i"
      by (rule declinesE)
    show "d \<in> ?A \<union> ?B"
    proof (cases "j < length xs")
      case True
      then show ?thesis using d ij by (intro UnI1 declinesI [of i j]) (auto simp: nth_append)
    next
      case False
      have "(xs @ [y]) ! i \<in> set (xs @ [y])" using ij by (intro nth_mem) simp
      moreover have "(xs @ [y]) ! j = y" using False ij by (simp add: nth_append)
      ultimately show ?thesis by (intro UnI2 image_eqI [where x = "(xs @ [y]) ! i"]) (simp_all add: d)
    qed
  qed
  have "?A \<subseteq> ?L"
  proof
    fix d assume "d \<in> ?A"
    then obtain i j where "i \<le> j" "j < length xs" "d = (xs ! i - xs ! j) / xs ! i" by (rule declinesE)
    then show "d \<in> ?L" by (intro declinesI [of i j]) (auto simp: nth_append)
  qed
  moreover have "(x - y) / x \<in> ?L" if x: "x \<in> set (xs @ [y])" for x
  proof -
    obtain i where "i < length (xs @ [y])" "x = (xs @ [y]) ! i" using x by (metis in_set_conv_nth)
    then show ?thesis by (intro declinesI [of i "length xs"]) (auto simp: nth_append)
  qed
  ultimately show "?A \<union> ?B \<subseteq> ?L" by blast
qed

lemma worst_decline_snoc:
  assumes "xs \<noteq> []" "\<forall>x \<in> set xs. 0 \<le> x" "0 \<le> y" "p = Max (set (xs @ [y]))" "0 < p"
  shows "worst_decline (xs @ [y]) = max (worst_decline xs) ((p - y) / p)"
proof -
  let ?B = "(\<lambda>x. (x - y) / x) ` set (xs @ [y])"
  have p: "p \<in> set (xs @ [y])" unfolding assms(4) by (rule Max_in) simp_all
  have le: "(x - y) / x \<le> (p - y) / p" if "x \<in> set (xs @ [y])" for x
  proof (cases "x = 0")
    case True
    have "y \<le> p" unfolding assms(4) by simp
    with True assms(5) show ?thesis by simp
  next
    case False
    then have "0 < x" "x \<le> p" using that assms(2,3) unfolding assms(4) by (auto simp: less_le)
    then have "y / p \<le> y / x" using assms(3) by (intro divide_left_mono) auto
    then show ?thesis using False assms(5) by (simp add: diff_divide_distrib)
  qed
  have "Max ?B = (p - y) / p"
  proof (rule Max_eqI)
    show "(p - y) / p \<in> ?B" using p by (rule imageI)
    show "b \<le> (p - y) / p" if "b \<in> ?B" for b using that le by blast
  qed simp
  then show ?thesis
    unfolding worst_decline_def declines_snoc
    using zero_decline [OF assms(1)] finite_declines by (subst Max_Un) auto
qed

lemma drawdown_loop_worst:
  assumes "xs \<noteq> []" "\<forall>x \<in> set xs. 0 \<le> x" "last xs = cum" "peak = Max (set xs)" "0 < peak"
    and "max_dd = worst_decline xs" "\<forall>r \<in> set rs. - 100 \<le> r"
  shows "\<exists>c p. drawdown_loop (cum, peak, max_dd) rs = (c, p, worst_decline (xs @ tl (value_course cum rs)))"
  using assms
proof (induction rs arbitrary: xs cum peak max_dd)
  case (Cons r rs)
  let ?y = "cum * (1 + r / 100)"
  have "0 \<le> cum" using Cons.prems(1-3) by (metis last_in_set)
  then have y: "0 \<le> ?y" using Cons.prems(7) by (intro mult_nonneg_nonneg) auto
  have peak: "max peak ?y = Max (set (xs @ [?y]))" using Cons.prems(1,4) by (simp add: max.commute)
  have pos: "0 < max peak ?y" using Cons.prems(5) by simp
  have "max max_dd ((max peak ?y - ?y) / max peak ?y) = worst_decline (xs @ [?y])"
    unfolding Cons.prems(6) using worst_decline_snoc [OF Cons.prems(1,2) y peak pos] by simp
  moreover have "\<exists>c p. drawdown_loop (?y, max peak ?y, worst_decline (xs @ [?y])) rs =
      (c, p, worst_decline ((xs @ [?y]) @ tl (value_course ?y rs)))"
    by (rule Cons.IH [OF _ _ _ peak pos]) (use Cons.prems y in auto)
  moreover have "(xs @ [?y]) @ tl (value_course ?y rs) = xs @ tl (value_course cum (r # rs))" by (cases rs) simp_all
  ultimately show ?case using pos by (simp add: Let_def)
qed simp

lemma worst_decline_bounds:
  assumes "xs \<noteq> []" "\<forall>x \<in> set xs. 0 \<le> x"
  shows "0 \<le> worst_decline xs \<and> worst_decline xs \<le> 1"
proof -
  have "d \<le> 1" if "d \<in> declines xs" for d
  proof -
    obtain i j where ij: "i \<le> j" "j < length xs" and d: "d = (xs ! i - xs ! j) / xs ! i" using \<open>d \<in> declines xs\<close> by (rule declinesE)
    have "0 \<le> xs ! i" "0 \<le> xs ! j" using assms(2) ij by auto
    then show ?thesis unfolding d by (cases "xs ! i = 0") (auto simp: divide_le_eq_1)
  qed
  then show ?thesis
    unfolding worst_decline_def using zero_decline [OF assms(1)] finite_declines [of xs]
    by (intro conjI Max_ge Max.boundedI) auto
qed

lemma value_course_nonneg: "0 \<le> v \<Longrightarrow> \<forall>r \<in> set rs. - 100 \<le> r \<Longrightarrow> \<forall>x \<in> set (value_course v rs). 0 \<le> x"
proof (induction v rs rule: value_course.induct)
  case (2 v r rs)
  have "0 \<le> 1 + r / 100" using 2(3) by simp
  with 2(2) have "0 \<le> v * (1 + r / 100)" by (rule mult_nonneg_nonneg)
  with 2 show ?case by auto
qed simp

lemma folds_disjoint:
  assumes ts: "one_unit ts" "sorted_wrt (<) ts" and size: "0 < train" "0 < test" "0 < step" "test \<le> step"
    and len: "length folds = (if train + test \<le> int (length ts) then nat ((int (length ts) - train - test) div step) + 1 else 0)"
    and dates: "\<And>i. i < length folds \<Longrightarrow> fo_test_start (folds ! i) = wf_date (ts ! nat (train + int i * step)) \<and>
      fo_test_end (folds ! i) = wf_date (ts ! nat (train + int i * step + test - 1))"
  shows "sorted_wrt (\<lambda>f g. fo_test_end f < fo_test_start g) folds"
  unfolding sorted_wrt_iff_nth_less
proof (intro allI impI)
  fix i j assume ij: "i < j" "j < length folds"
  let ?n = "int (length ts)"
  have "train + test \<le> ?n" using ij len by (auto split: if_splits)
  then have "int j \<le> (?n - train - test) div step" using ij len size(3) by (auto simp: pos_imp_zdiv_nonneg_iff)
  then have "int j * step \<le> (?n - train - test) div step * step" using size(3) by (intro mult_right_mono) auto
  also have "\<dots> \<le> ?n - train - test" using pos_mod_sign [OF size(3), of "?n - train - test"] div_mult_mod_eq [of "?n - train - test" step] by linarith
  finally have j: "train + int j * step < ?n" using size(2) by simp
  have "int i * step + step \<le> int j * step"
    using mult_right_mono [of "int i + 1" "int j" step] ij(1) size(3) by (simp add: algebra_simps)
  then have "train + int i * step + test - 1 < train + int j * step" using size(4) by simp
  moreover have "0 \<le> int i * step" using size(3) by (intro mult_nonneg_nonneg) simp_all
  then have "0 \<le> train + int i * step + test - 1" using size(1,2) by linarith
  ultimately show "fo_test_end (folds ! i) < fo_test_start (folds ! j)"
    using wf_date_mono [OF ts _ _ j] dates ij by simp
qed

lemma drawdown_loop_start:
  assumes "\<forall>r \<in> set rs. - 100 \<le> r"
  shows "\<exists>c p. drawdown_loop (1, 1, 0) rs = (c, p, worst_decline (value_course 1 rs))"
proof -
  have "declines [1] = {0}" by (auto elim: declinesE intro: zero_decline)
  then have "worst_decline [1] = 0" by (simp add: worst_decline_def)
  moreover have "[1] @ tl (value_course 1 rs) = value_course 1 rs" by (cases rs) simp_all
  ultimately show ?thesis using drawdown_loop_worst [of "[1]" 1 1 0 rs] assms by simp
qed

section \<open>Properties\<close>

text \<open>C30.  Generating folds always returns, for every window specification and every sequence of times: the step
  is never zero, and a negative step runs into an index error.\<close>

theorem fold_generation_returns: "\<exists>r. generate_folds spec ts = Some r"
  using fold_loop_returns [OF step_not_zero] by (simp add: generate_folds_def split: prod.split)

text \<open>C31.  On data the integrity guard accepts, with all times in one unit and positive window sizes, every fold
  trains on data that ends before its test window begins, its warm-up ends before its training data, the number of folds is
  as many as fit, and with a step of at least the test window no observation is tested twice.\<close>

theorem folds_never_look_ahead:
  assumes "validate_historical_points pts n v = Inr ()" "one_unit (map hp_timestamp pts)" "4 \<le> length pts"
    and "resolve_window_sizes spec (map hp_timestamp pts) = (train, test, step)" "0 < train" "0 < test" "0 < step"
  shows "\<exists>folds. generate_folds spec (map hp_timestamp pts) = Some (Inr folds) \<and> list_all no_look_ahead folds \<and>
    map fo_fold_index folds = [0..<length folds] \<and>
    length folds = (if train + test \<le> int (length pts) then nat ((int (length pts) - train - test) div step) + 1 else 0) \<and>
    (test \<le> step \<longrightarrow> sorted_wrt (\<lambda>f g. fo_test_end f < fo_test_start g) folds)"
proof (cases "train + test \<le> int (length pts)")
  case False
  then show ?thesis using assms(3,4) by (simp add: generate_folds_def)
next
  case True
  let ?ts = "map hp_timestamp pts"
  have sorted: "sorted_wrt (<) ?ts" using validated_points_increasing [OF assms(1)] by simp
  obtain folds where folds: "fold_loop (ws_window_mode spec) (max 0 (ws_warmup_candle_count spec)) ?ts train test step 0 0 = Some (Inr folds)"
      "list_all no_look_ahead folds" "map fo_fold_index folds = [0..<0 + length folds]"
    and dates: "\<And>i. i < length folds \<Longrightarrow> fo_test_start (folds ! i) = wf_date (?ts ! nat (train + int i * step)) \<and>
        fo_test_end (folds ! i) = wf_date (?ts ! nat (train + int i * step + test - 1))"
    and len: "length folds = (if train + test \<le> int (length ?ts) then nat ((int (length ?ts) - train - test) div step) + 1 else 0)"
    using fold_loop_ordered [OF assms(2) sorted assms(5-7), of "max 0 (ws_warmup_candle_count spec)" 0 "ws_window_mode spec" 0] by auto
  have "generate_folds spec ?ts = Some (Inr folds)"
    using folds(1) assms(3,4) True by (simp add: generate_folds_def)
  moreover have "sorted_wrt (\<lambda>f g. fo_test_end f < fo_test_start g) folds" if "test \<le> step"
    using folds_disjoint [OF assms(2) sorted assms(5-7) that len dates] .
  ultimately show ?thesis using folds(2,3) len by auto
qed

definition demo_hourly :: "historical_data_point list" where
  "demo_hourly = map (\<lambda>i. \<lparr>hp_timestamp = 3600 * i, hp_open_price = 1, hp_high_price = 1, hp_low_price = 1, hp_close_price = 1,
     hp_volume = 1, hp_market_cap = 0\<rparr>) [0..11]"

definition demo_windows :: window_spec where
  "demo_windows = \<lparr>ws_train_duration_days = None, ws_train_candle_count = Some 4, ws_test_duration_days = None,
     ws_test_candle_count = Some 2, ws_step_size_days = None, ws_step_size_candles = None, ws_warmup_candle_count = 3,
     ws_window_mode = ROLLING\<rparr>"

theorem folds_never_look_ahead_witness:
  "\<exists>folds. generate_folds demo_windows (map hp_timestamp demo_hourly) = Some (Inr folds) \<and> length folds = 4 \<and>
     list_all no_look_ahead folds \<and> sorted_wrt (\<lambda>f g. fo_test_end f < fo_test_start g) folds"
proof -
  have "validate_historical_points demo_hourly 10 False = Inr ()" by code_simp
  moreover have "one_unit (map hp_timestamp demo_hourly)" by code_simp
  moreover have "4 \<le> length demo_hourly" "length demo_hourly = 12" by code_simp+
  moreover have "resolve_window_sizes demo_windows (map hp_timestamp demo_hourly) = (4, 2, 2)" by code_simp
  ultimately show ?thesis
    using folds_never_look_ahead [of demo_hourly 10 False demo_windows 4 2 2] by auto
qed

text \<open>C32.  The reported out-of-sample drawdown, computed with a running peak, is the worst relative decline between any
  two points of the compounded value, between 0 and 100 percent, and the share of profitable folds is between 0 and 1.\<close>

theorem aggregate_drawdown_exact:
  assumes "fs \<noteq> []" "\<forall>f \<in> set fs. - 100 \<le> fm_test_return_pct f"
  shows "let worst = worst_decline (value_course 1 (map fm_test_return_pct fs)); s = aggregate run_id ticker fs prov
    in sm_max_oos_drawdown_pct s = round_digits 2 (worst * 100) \<and> 0 \<le> worst \<and> worst \<le> 1 \<and>
       0 \<le> sm_profitable_fold_ratio s \<and> sm_profitable_fold_ratio s \<le> 1"
proof -
  let ?rs = "map fm_test_return_pct fs" and ?k = "length (filter (\<lambda>f. fm_test_return_pct f > 0) fs)"
  obtain c p where loop: "drawdown_loop (1, 1, 0) ?rs = (c, p, worst_decline (value_course 1 ?rs))"
    using drawdown_loop_start [of ?rs] assms(2) by auto
  have dd: "sm_max_oos_drawdown_pct (aggregate run_id ticker fs prov) = round_digits 2 (worst_decline (value_course 1 ?rs) * 100)"
    using assms(1) loop by (simp add: aggregate_def calculate_drawdowns_def Let_def split_beta)
  have ratio: "sm_profitable_fold_ratio (aggregate run_id ticker fs prov) = round_digits 3 (of_nat ?k / of_nat (length fs))"
    using assms(1) by (simp add: aggregate_def Let_def split_beta)
  have "value_course 1 ?rs \<noteq> []" by (cases ?rs) simp_all
  moreover have "\<forall>x \<in> set (value_course 1 ?rs). 0 \<le> x" using assms(2) by (intro value_course_nonneg) auto
  ultimately have "0 \<le> worst_decline (value_course 1 ?rs) \<and> worst_decline (value_course 1 ?rs) \<le> 1"
    by (rule worst_decline_bounds)
  moreover have "0 \<le> round_digits 3 (of_nat ?k / of_nat (length fs))" "round_digits 3 (of_nat ?k / of_nat (length fs)) \<le> 1"
  proof -
    have "?k \<le> length fs" by simp
    then have "rat_of_int 0 \<le> of_nat ?k / of_nat (length fs) * 1000" "of_nat ?k / of_nat (length fs) * 1000 \<le> rat_of_int 1000"
      by (simp_all add: divide_le_eq)
    from round_half_even_bounds [OF this] show "0 \<le> round_digits 3 (of_nat ?k / of_nat (length fs))"
      "round_digits 3 (of_nat ?k / of_nat (length fs)) \<le> 1"
      by (simp_all add: round_digits_def)
  qed
  ultimately show ?thesis by (simp add: dd ratio Let_def)
qed

definition demo_metrics :: "rat \<Rightarrow> fold_metrics" where
  "demo_metrics r = \<lparr>fm_fold_index = 0, fm_train_return_pct = 5, fm_test_return_pct = r, fm_test_max_drawdown_pct = 0,
     fm_test_trades_count = 1, fm_test_win_rate_pct = 0, fm_test_profit_factor = 0, fm_baseline_test_return_pct = None,
     fm_equal_weight_test_return_pct = None, fm_in_sample_trades = None, fm_out_of_sample_trades = None,
     fm_out_of_sample_win_rate_pct = None, fm_out_of_sample_profit_factor = None\<rparr>"

definition demo_provenance :: wf_provenance where
  "demo_provenance = \<lparr>wp_vcs_commit_hash = None, wp_dataset_identity = None, wp_execution_assumptions = None,
     wp_strategy_weights = None, wp_candidate_weights = None, wp_baseline_weights = None, wp_software_version = None\<rparr>"

theorem aggregate_drawdown_exact_witness:
  "round_digits 2 (worst_decline (value_course 1 [10, - 20, 5]) * 100) = 20"
proof -
  let ?fs = "map demo_metrics [10, - 20, 5]"
  have "sm_max_oos_drawdown_pct (aggregate [] [] ?fs demo_provenance) = 20" by code_simp
  moreover have "map fm_test_return_pct ?fs = [10, - 20, 5]" "\<forall>f \<in> set ?fs. - 100 \<le> fm_test_return_pct f"
    by (simp_all add: demo_metrics_def)
  ultimately show ?thesis
    using aggregate_drawdown_exact [of ?fs "[]" "[]" demo_provenance] by (simp add: Let_def)
qed

text \<open>
  The millisecond threshold is meant for times but is applied to differences of times: hourly candles in milliseconds
  count as one candle per day, hourly candles in seconds as twenty-four.
\<close>

lemma millisecond_candles_per_day:
  "candles_per_day (map (\<lambda>i. 1700000000000 + 3600000 * i) [0..9]) = 1" "candles_per_day (map (\<lambda>i. 1700000000 + 3600 * i) [0..9]) = 24"
  by code_simp+

end
