(* ===== verification/Simulation.thy ===== *)
theory Simulation
  imports Orders
begin

text \<open>
  The simulated exchange account of paper trading (\<open>src/src/simulation/simulated_account.py\<close>) and the
  REST manager in front of it (\<open>src/src/simulation/simulated_rest_manager.py\<close>).  An order is
  executed when it is placed; the order object is shared between caller and account, so the account's
  dictionary holds it.
\<close>

record simulated_account =
  sac_balances :: "(string, decimal) dict"
  sac_orders :: "(string, order) dict"

definition new_simulated_account :: "decimal \<Rightarrow> simulated_account" where
  "new_simulated_account initial = \<lparr>sac_balances = [(''USD'', initial), (''USDT'', initial)], sac_orders = []\<rparr>"

definition simulated_balance :: "simulated_account \<Rightarrow> string \<Rightarrow> decimal" where
  "simulated_balance acc currency = opt_or (dict_get (sac_balances acc) currency) 0"

definition put_balance :: "string \<Rightarrow> decimal \<Rightarrow> simulated_account \<Rightarrow> simulated_account" where
  "put_balance currency amount acc = acc\<lparr>sac_balances := dict_set currency amount (sac_balances acc)\<rparr>"

definition change_balance :: "string \<Rightarrow> decimal \<Rightarrow> simulated_account \<Rightarrow> simulated_account" where
  "change_balance currency delta acc = put_balance currency (simulated_balance acc currency + delta) acc"

definition lock_funds :: "string \<Rightarrow> decimal \<Rightarrow> simulated_account \<Rightarrow> simulated_account result" where
  "lock_funds currency amount acc =
     (let current = simulated_balance acc currency
      in if current \<ge> amount then Inr (put_balance currency (current - amount) acc) else Inl ValueError)"

definition add_simulated_order :: "order \<Rightarrow> simulated_account \<Rightarrow> simulated_account" where
  "add_simulated_order ord acc = acc\<lparr>sac_orders := dict_set (o_uuid ord) ord (sac_orders acc)\<rparr>"

definition get_simulated_order :: "string \<Rightarrow> simulated_account \<Rightarrow> order option" where
  "get_simulated_order uuid acc = dict_get (sac_orders acc) uuid"

definition open_simulated_orders :: "string option \<Rightarrow> simulated_account \<Rightarrow> order list" where
  "open_simulated_orders ticker acc =
     (let open_orders = filter (\<lambda>ord. o_status ord = Some PENDING) (dict_values (sac_orders acc))
      in if truthy ticker then filter (\<lambda>ord. Some (o_ticker_symbol ord) = ticker) open_orders else open_orders)"

definition cancel_simulated_order :: "string \<Rightarrow> simulated_account \<Rightarrow> simulated_account" where
  "cancel_simulated_order uuid acc =
     (case dict_get (sac_orders acc) uuid of
        None \<Rightarrow> acc
      | Some ord \<Rightarrow> if o_status ord = Some PENDING
                    then acc\<lparr>sac_orders := dict_set uuid (ord\<lparr>o_status := Some CANCELLED\<rparr>) (sac_orders acc)\<rparr>
                    else acc)"

text \<open>\<open>str.split\<close> with a separator character.\<close>

fun split_on :: "char \<Rightarrow> string \<Rightarrow> string list" where
  "split_on c [] = [[]]"
| "split_on c (x # xs) =
     (if x = c then [] # split_on c xs
      else case split_on c xs of [] \<Rightarrow> [[x]] | p # ps \<Rightarrow> (x # p) # ps)"

definition ticker_parts :: "string \<Rightarrow> (string \<times> string) result" where
  "ticker_parts ticker =
     (let delimiter = (if CHR ''_'' \<in> set ticker then Some (CHR ''_'')
                       else if CHR ''-'' \<in> set ticker then Some (CHR ''-'')
                       else if CHR ''/'' \<in> set ticker then Some (CHR ''/'') else None)
      in case delimiter of
           None \<Rightarrow> Inl ValueError
         | Some c \<Rightarrow> (case split_on c ticker of [base, quote] \<Rightarrow> Inr (base, quote) | _ \<Rightarrow> Inl ValueError))"

text \<open>
  A failure leaves the account as it was at that point: the first of the two balance changes is the
  one that can fail.
\<close>

definition exchange_funds :: "order \<Rightarrow> string \<Rightarrow> string \<Rightarrow> simulated_account \<Rightarrow> simulated_account result" where
  "exchange_funds ord base quote acc =
     (let quantity = o_quantity ord; total_quote = quantity * o_price ord
      in if o_trade_action ord = BUY
         then res_bind (lock_funds quote total_quote acc) (\<lambda>acc1. Inr (change_balance base quantity acc1))
         else res_bind (lock_funds base quantity acc) (\<lambda>acc1. Inr (change_balance quote total_quote acc1)))"

definition execute_simulated_order :: "timestamp \<Rightarrow> order \<Rightarrow> simulated_account \<Rightarrow> simulated_account result" where
  "execute_simulated_order now ord acc =
     res_bind (ticker_parts (o_ticker_symbol ord)) (\<lambda>(base, quote).
     res_bind (exchange_funds ord base quote acc) (\<lambda>acc1.
       Inr (acc1\<lparr>sac_orders := dict_set (o_uuid ord)
              (ord\<lparr>o_status := Some COMPLETED, o_executed_time := Some now\<rparr>) (sac_orders acc1)\<rparr>)))"

text \<open>\<open>place_order\<close> builds the order from its arguments, here the argument \<open>ord\<close>; it registers the order before it executes it; the error is raised after that.\<close>

definition place_simulated_order :: "timestamp \<Rightarrow> order \<Rightarrow> simulated_account \<Rightarrow> simulated_account \<times> py_exc option" where
  "place_simulated_order now ord acc =
     (let acc1 = add_simulated_order (ord\<lparr>o_status := Some PENDING\<rparr>) acc
      in case execute_simulated_order now (ord\<lparr>o_status := Some PENDING\<rparr>) acc1 of
           Inl e \<Rightarrow> (acc1, Some e)
         | Inr acc2 \<Rightarrow> (acc2, None))"

datatype simulation_op =
    PlaceOrder timestamp order
  | CancelSimulated string

fun simulation_step :: "simulated_account \<Rightarrow> simulation_op \<Rightarrow> simulated_account" where
  "simulation_step acc (PlaceOrder now ord) = fst (place_simulated_order now ord acc)"
| "simulation_step acc (CancelSimulated uuid) = cancel_simulated_order uuid acc"

section \<open>Balances\<close>

lemma simulated_balance_set [simp]:
  "simulated_balance (put_balance c x acc) c' = (if c' = c then x else simulated_balance acc c')"
  by (simp add: simulated_balance_def put_balance_def)

lemma simulated_balance_orders [simp]: "simulated_balance (acc\<lparr>sac_orders := d\<rparr>) c = simulated_balance acc c"
  by (simp add: simulated_balance_def)

lemma put_balance_sel [simp]: "sac_orders (put_balance c x acc) = sac_orders acc"
  by (simp add: put_balance_def)

definition trade_flow :: "order \<Rightarrow> string \<Rightarrow> string \<Rightarrow> string \<Rightarrow> decimal" where
  "trade_flow ord base quote c =
     (let sign = (if o_trade_action ord = BUY then 1 else - 1)
      in (if c = base then sign * o_quantity ord else 0) -
         (if c = quote then sign * (o_quantity ord * o_price ord) else 0))"

lemma exchange_funds_flow:
  assumes "exchange_funds ord base quote acc = Inr acc'"
  shows "simulated_balance acc' c = simulated_balance acc c + trade_flow ord base quote c"
  using assms
  by (cases "o_trade_action ord")
    (auto simp: exchange_funds_def lock_funds_def change_balance_def trade_flow_def Let_def split: if_splits)

lemma exchange_funds_orders: "exchange_funds ord base quote acc = Inr acc' \<Longrightarrow> sac_orders acc' = sac_orders acc"
  by (auto simp: exchange_funds_def lock_funds_def change_balance_def Let_def res_bind_eq_Inr split: if_splits)

lemma exchange_funds_nonneg:
  assumes "exchange_funds ord base quote acc = Inr acc'" "\<And>c. 0 \<le> simulated_balance acc c" "0 \<le> o_quantity ord" "0 \<le> o_price ord"
  shows "0 \<le> simulated_balance acc' c"
  using assms mult_nonneg_nonneg [OF assms(3,4)]
  by (cases "o_trade_action ord")
    (auto simp: exchange_funds_def lock_funds_def change_balance_def Let_def split: if_splits)

text \<open>Every placed order either trades at its price or is refused, and in each case the orders other than it are kept.\<close>

lemma execute_order_cases:
  "(\<exists>base quote acc'. ticker_parts (o_ticker_symbol ord) = Inr (base, quote) \<and> exchange_funds ord base quote acc = Inr acc' \<and>
      execute_simulated_order now ord acc = Inr (acc'\<lparr>sac_orders := dict_set (o_uuid ord)
        (ord\<lparr>o_status := Some COMPLETED, o_executed_time := Some now\<rparr>) (sac_orders acc')\<rparr>)) \<or>
   execute_simulated_order now ord acc = Inl ValueError"
proof -
  have parts: "ticker_parts t = Inl ValueError \<or> (\<exists>b q. ticker_parts t = Inr (b, q))" for t
    by (auto simp: ticker_parts_def Let_def split: option.splits list.splits)
  have funds: "exchange_funds ord b q acc = Inl ValueError \<or> (\<exists>a. exchange_funds ord b q acc = Inr a)" for b q
    by (auto simp: exchange_funds_def lock_funds_def Let_def)
  from parts [of "o_ticker_symbol ord"] show ?thesis
  proof (elim disjE exE)
    fix b q assume "ticker_parts (o_ticker_symbol ord) = Inr (b, q)"
    with funds [of b q] show ?thesis by (auto simp: execute_simulated_order_def)
  qed (simp add: execute_simulated_order_def)
qed

abbreviation all_covered :: "simulated_account \<Rightarrow> bool" where
  "all_covered acc \<equiv> \<forall>c. 0 \<le> simulated_balance acc c"

fun op_sound :: "simulation_op \<Rightarrow> bool" where
  "op_sound (PlaceOrder now ord) \<longleftrightarrow> 0 \<le> o_quantity ord \<and> 0 \<le> o_price ord"
| "op_sound (CancelSimulated uuid) \<longleftrightarrow> True"

definition orders_kept :: "simulated_account \<Rightarrow> simulated_account \<Rightarrow> bool" where
  "orders_kept acc acc' \<longleftrightarrow> dom (map_of (sac_orders acc)) \<subseteq> dom (map_of (sac_orders acc'))"

lemma place_covered:
  assumes "all_covered acc" "0 \<le> o_quantity ord" "0 \<le> o_price ord"
  shows "0 \<le> simulated_balance (fst (place_simulated_order now ord acc)) c"
proof -
  let ?ord = "ord\<lparr>o_status := Some PENDING\<rparr>"
  let ?acc = "add_simulated_order ?ord acc"
  have cov: "0 \<le> simulated_balance ?acc c" for c using assms(1) by (simp add: add_simulated_order_def)
  have "0 \<le> simulated_balance acc' c" if "exchange_funds ?ord b q ?acc = Inr acc'" for b q acc'
    using exchange_funds_nonneg [OF that cov] assms(2,3) by simp
  then show ?thesis
    using execute_order_cases [of ?ord ?acc now] cov
    by (auto simp: place_simulated_order_def Let_def)
qed

lemma place_kept: "orders_kept acc (fst (place_simulated_order now ord acc))"
  using execute_order_cases [of "ord\<lparr>o_status := Some PENDING\<rparr>" "add_simulated_order (ord\<lparr>o_status := Some PENDING\<rparr>) acc" now]
  by (auto simp: place_simulated_order_def Let_def orders_kept_def add_simulated_order_def dest!: exchange_funds_orders
      split: if_splits)

interpretation paper: append_only simulation_step op_sound all_covered orders_kept
proof
  fix acc op
  show "orders_kept acc (simulation_step acc op)"
    by (cases op) (auto simp: place_kept, auto simp: orders_kept_def cancel_simulated_order_def split: option.splits if_splits)
  assume "all_covered acc" "op_sound op"
  then show "all_covered (simulation_step acc op)"
    by (cases op) (auto simp: place_covered cancel_simulated_order_def split: option.split)
qed (auto simp: orders_kept_def)

section \<open>Properties\<close>

definition demo_paper_order :: "string \<Rightarrow> decimal \<Rightarrow> order" where
  "demo_paper_order uuid quantity =
     \<lparr>o_uuid = uuid, o_provider_name = ''SIM'', o_ticker_symbol = ''BTC_USD'', o_price = 100, o_quantity = quantity,
      o_trade_action = BUY, o_created_time = 1, o_commit_hash = None, o_executed_time = None, o_status = None, o_fees = None,
      o_fill_price = None, o_winning_strategy = None, o_strategy_votes = None, o_strategy_attributions = None,
      o_slippage = None, o_decision_id = None, o_regime = None\<rparr>"

text \<open>However orders are placed and cancelled, with prices and quantities that are not negative, no balance of the
  simulated account becomes negative and no order is forgotten.\<close>

theorem simulated_balances_covered:
  assumes "0 \<le> initial" "list_all op_sound ops"
  shows "0 \<le> simulated_balance (foldl simulation_step (new_simulated_account initial) ops) c" and
    "orders_kept (foldl simulation_step (new_simulated_account initial) ops)
      (foldl simulation_step (new_simulated_account initial) (ops @ ops'))"
proof -
  have "all_covered (new_simulated_account initial)"
    using assms(1) by (simp add: new_simulated_account_def simulated_balance_def)
  from paper.inv_run [OF this assms(2)]
  show "0 \<le> simulated_balance (foldl simulation_step (new_simulated_account initial) ops) c" by simp
qed (rule paper.extends_later)

theorem simulated_balances_covered_witness:
  "0 \<le> simulated_balance (foldl simulation_step (new_simulated_account 1000)
     [PlaceOrder 1 (demo_paper_order ''u1'' 3), PlaceOrder 2 (demo_paper_order ''u2'' 8), CancelSimulated ''u2'']) ''USD'' \<and>
   simulated_balance (foldl simulation_step (new_simulated_account 1000)
     [PlaceOrder 1 (demo_paper_order ''u1'' 3), PlaceOrder 2 (demo_paper_order ''u2'' 8), CancelSimulated ''u2'']) ''BTC'' = 3"
proof
  show "0 \<le> simulated_balance (foldl simulation_step (new_simulated_account 1000)
     [PlaceOrder 1 (demo_paper_order ''u1'' 3), PlaceOrder 2 (demo_paper_order ''u2'' 8), CancelSimulated ''u2'']) ''USD''"
    by (rule simulated_balances_covered) (simp_all add: demo_paper_order_def)
qed code_simp

text \<open>C33.  Placing an order either trades exactly its quantity at its price between the two currencies of its ticker and completes
  it, or raises \<open>ValueError\<close>; then no balance changes, but the order stays in the account as an open order.\<close>

theorem placed_order_trades_or_stays_open:
  "case place_simulated_order now ord acc of
     (acc', None) \<Rightarrow> (\<exists>base quote. ticker_parts (o_ticker_symbol ord) = Inr (base, quote) \<and>
        (\<forall>c. simulated_balance acc' c = simulated_balance acc c + trade_flow ord base quote c) \<and>
        map_option o_status (get_simulated_order (o_uuid ord) acc') = Some (Some COMPLETED))
   | (acc', Some e) \<Rightarrow> e = ValueError \<and> (\<forall>c. simulated_balance acc' c = simulated_balance acc c) \<and>
        ord\<lparr>o_status := Some PENDING\<rparr> \<in> set (open_simulated_orders None acc')"
proof -
  let ?ord = "ord\<lparr>o_status := Some PENDING\<rparr>"
  let ?acc = "add_simulated_order ?ord acc"
  have "?ord \<in> set (dict_values (dict_set (o_uuid ord) ?ord d))" for d
    by (induction d) auto
  then have "?ord \<in> set (open_simulated_orders None ?acc)"
    by (simp add: open_simulated_orders_def add_simulated_order_def truthy_def)
  moreover have "simulated_balance acc' c = simulated_balance acc c + trade_flow ord b q c"
    if "exchange_funds ?ord b q ?acc = Inr acc'" for b q acc' c
    using exchange_funds_flow [OF that, of c] by (simp add: trade_flow_def add_simulated_order_def)
  moreover have "simulated_balance ?acc c = simulated_balance acc c" for c by (simp add: add_simulated_order_def)
  ultimately show ?thesis
    using execute_order_cases [of ?ord ?acc now]
    by (auto simp: place_simulated_order_def Let_def get_simulated_order_def)
qed

end
