(* ===== verification/Attribution.thy ===== *)
theory Attribution
  imports Indicators
begin

text \<open>
  Attribution of closed trades
  (\<open>src/src/trading/analytics/trade_attribution_service.py\<close>): metrics of a group of trades, the
  groupings by commit, symbol, regime and strategy, the proportional attribution, and the matrix of
  strategies that vote together.

  Python sets of names are lists without repetition; their order shows only in the order of the keys
  of a result.  The votes of a trade are texts.
\<close>

section \<open>Metrics\<close>

record attribution_metrics =
  am_total_trades :: nat
  am_winning_trades :: nat
  am_losing_trades :: nat
  am_break_even_trades :: nat
  am_win_rate_pct :: rat
  am_gross_pnl :: decimal
  am_total_fees :: decimal
  am_total_slippage :: decimal
  am_net_pnl :: decimal
  am_profit_factor :: rat
  am_avg_return_pct :: rat
  am_avg_duration_seconds :: rat
  am_max_win :: decimal
  am_max_loss :: decimal

definition empty_metrics :: attribution_metrics where
  "empty_metrics =
     \<lparr>am_total_trades = 0, am_winning_trades = 0, am_losing_trades = 0, am_break_even_trades = 0,
      am_win_rate_pct = 0, am_gross_pnl = 0, am_total_fees = 0, am_total_slippage = 0, am_net_pnl = 0,
      am_profit_factor = 0, am_avg_return_pct = 0, am_avg_duration_seconds = 0, am_max_win = 0, am_max_loss = 0\<rparr>"

definition compute_outcome_counts :: "trade list \<Rightarrow> nat \<Rightarrow> nat \<times> nat \<times> nat \<times> rat" where
  "compute_outcome_counts trades n_trades =
     (let wins = length (filter (\<lambda>t. tr_net_pnl t > 0) trades);
          losses = length (filter (\<lambda>t. tr_net_pnl t < 0) trades);
          break_even = length (filter (\<lambda>t. tr_net_pnl t = 0) trades)
      in (wins, losses, break_even,
          round_digits 2 (if n_trades > 0 then of_nat wins / of_nat n_trades * 100 else 0)))"

definition compute_pnl_totals :: "trade list \<Rightarrow> decimal \<times> decimal \<times> decimal \<times> decimal" where
  "compute_pnl_totals trades =
     (sum_list (map tr_gross_pnl trades), sum_list (map tr_fees trades), sum_list (map tr_slippage trades),
      sum_list (map tr_net_pnl trades))"

definition profit_factor_of :: "decimal \<Rightarrow> decimal \<Rightarrow> rat" where
  "profit_factor_of gross_wins gross_losses =
     (if gross_losses > 0 then round_digits 2 (gross_wins / gross_losses)
      else if gross_wins > 0 then 99999/100 else 0)"

definition compute_profit_factor :: "trade list \<Rightarrow> rat" where
  "compute_profit_factor trades =
     profit_factor_of (sum_list (map tr_net_pnl (filter (\<lambda>t. tr_net_pnl t > 0) trades)))
       \<bar>sum_list (map tr_net_pnl (filter (\<lambda>t. tr_net_pnl t < 0) trades))\<bar>"

fun extreme_of :: "(rat \<Rightarrow> rat \<Rightarrow> rat) \<Rightarrow> rat list \<Rightarrow> rat" where
  "extreme_of f [] = 0"
| "extreme_of f (x # xs) = foldl f x xs"

definition compute_summary_stats :: "trade list \<Rightarrow> nat \<Rightarrow> rat \<times> rat \<times> decimal \<times> decimal" where
  "compute_summary_stats trades n_trades =
     (round_digits 4 (sum_list (map tr_return_pct trades) / of_nat n_trades),
      round_digits 2 (sum_list (map tr_duration_seconds trades) / of_nat n_trades),
      extreme_of max (map tr_net_pnl trades), extreme_of min (map tr_net_pnl trades))"

definition calculate_metrics :: "trade list \<Rightarrow> attribution_metrics" where
  "calculate_metrics trades =
     (if trades = [] then empty_metrics
      else let n_trades = length trades;
               (wins, losses, break_even, win_rate) = compute_outcome_counts trades n_trades;
               (gross, fees, slippage, net) = compute_pnl_totals trades;
               (avg_ret, avg_dur, max_win, max_loss) = compute_summary_stats trades n_trades
           in \<lparr>am_total_trades = n_trades, am_winning_trades = wins, am_losing_trades = losses,
               am_break_even_trades = break_even, am_win_rate_pct = win_rate, am_gross_pnl = gross,
               am_total_fees = fees, am_total_slippage = slippage, am_net_pnl = net,
               am_profit_factor = compute_profit_factor trades, am_avg_return_pct = avg_ret,
               am_avg_duration_seconds = avg_dur, am_max_win = max_win, am_max_loss = max_loss\<rparr>)"

section \<open>Groups\<close>

text \<open>\<open>grouped[key].append(value)\<close> on a \<open>defaultdict(list)\<close>.\<close>

definition group_add :: "'k \<Rightarrow> 'v \<Rightarrow> ('k, 'v list) dict \<Rightarrow> ('k, 'v list) dict" where
  "group_add k v d = dict_set k (opt_or (dict_get d k) [] @ [v]) d"

definition group_each :: "('v \<Rightarrow> ('k \<times> 'w) list) \<Rightarrow> 'v list \<Rightarrow> ('k, 'w list) dict" where
  "group_each entries xs = foldl (\<lambda>d x. foldl (\<lambda>d (k, w). group_add k w d) d (entries x)) [] xs"

definition dict_map :: "('v \<Rightarrow> 'w) \<Rightarrow> ('k, 'v) dict \<Rightarrow> ('k, 'w) dict" where
  "dict_map f d = map (\<lambda>(k, v). (k, f v)) d"

definition or_unknown :: "string option \<Rightarrow> string" where
  "or_unknown s = (if truthy s then the s else ''UNKNOWN'')"

definition attribute_by_commit :: "trade list \<Rightarrow> (string, attribution_metrics) dict" where
  "attribute_by_commit trades = dict_map calculate_metrics (group_each (\<lambda>t. [(or_unknown (tr_commit_hash t), t)]) trades)"

definition attribute_by_symbol :: "trade list \<Rightarrow> (string, attribution_metrics) dict" where
  "attribute_by_symbol trades = dict_map calculate_metrics (group_each (\<lambda>t. [(tr_ticker_symbol t, t)]) trades)"

definition trade_regime :: "trade \<Rightarrow> string" where
  "trade_regime t = or_unknown (py_or (tr_entry_regime t) (tr_exit_regime t))"

definition attribute_by_regime :: "trade list \<Rightarrow> (string, attribution_metrics) dict" where
  "attribute_by_regime trades = dict_map calculate_metrics (group_each (\<lambda>t. [(trade_regime t, t)]) trades)"

definition leg_strategies :: "attributions option \<Rightarrow> string option \<Rightarrow> string list" where
  "leg_strategies attributions winner =
     (if truthy attributions then map fst (filter (\<lambda>(s, w). w > 0) (the attributions))
      else if truthy winner then [the winner] else [])"

definition trade_strategies :: "trade \<Rightarrow> string list" where
  "trade_strategies t =
     (let strats = remdups (leg_strategies (tr_entry_strategy_attributions t) (tr_winning_strategy t) @
                            leg_strategies (tr_exit_strategy_attributions t) (tr_exit_winning_strategy t))
      in if strats = [] then [''UNKNOWN''] else strats)"

definition attribute_by_strategy :: "trade list \<Rightarrow> (string, attribution_metrics) dict" where
  "attribute_by_strategy trades =
     dict_map calculate_metrics (group_each (\<lambda>t. map (\<lambda>s. (s, t)) (trade_strategies t)) trades)"

section \<open>Proportional attribution\<close>

type_synonym share = "trade \<times> rat"

definition weighted_shares :: "trade \<Rightarrow> attributions \<Rightarrow> rat \<Rightarrow> (string \<times> share) list" where
  "weighted_shares t attributions scale =
     map (\<lambda>(s, w). (s, (t, w * scale))) (filter (\<lambda>(s, w). w > 0) attributions)"

definition single_leg_shares :: "trade \<Rightarrow> attributions \<Rightarrow> (string \<times> share) list" where
  "single_leg_shares t attributions =
     (let allocated = sum_list (dict_values attributions)
      in map (\<lambda>(s, w). (s, (t, w))) (filter (\<lambda>(s, w). w > 0) attributions) @
         (if allocated < 9999/10000 then [(''UNATTRIBUTED'', (t, max 0 (1 - allocated)))] else []))"

definition trade_shares :: "trade \<Rightarrow> (string \<times> share) list" where
  "trade_shares t =
     (let entry = tr_entry_strategy_attributions t; exit = tr_exit_strategy_attributions t
      in if truthy entry \<and> truthy exit
         then weighted_shares t (the entry) (1/2) @ weighted_shares t (the exit) (1/2)
         else if truthy entry then single_leg_shares t (the entry)
         else if truthy exit then single_leg_shares t (the exit)
         else let winning = py_or (tr_winning_strategy t) (tr_exit_winning_strategy t)
              in [(if truthy winning then the winning else ''UNATTRIBUTED'', (t, 1))])"

definition calculate_proportional_metrics :: "share list \<Rightarrow> attribution_metrics" where
  "calculate_proportional_metrics shares =
     (if shares = [] then empty_metrics
      else let nets = map (\<lambda>(t, w). tr_net_pnl t * w) shares;
               total_weight = sum_list (map snd shares);
               gross_wins = sum_list (filter (\<lambda>n. n > 0) nets);
               gross_losses = sum_list (map abs (filter (\<lambda>n. n < 0) nets));
               weighted_wins = sum_list (map snd (filter (\<lambda>(t, w). tr_net_pnl t * w > 0) shares))
           in \<lparr>am_total_trades = length shares,
               am_winning_trades = length (filter (\<lambda>n. n > 0) nets),
               am_losing_trades = length (filter (\<lambda>n. n < 0) nets),
               am_break_even_trades = length (filter (\<lambda>n. \<not> n > 0 \<and> \<not> n < 0) nets),
               am_win_rate_pct = round_digits 2 (if total_weight > 0 then weighted_wins / total_weight * 100 else 0),
               am_gross_pnl = sum_list (map (\<lambda>(t, w). tr_gross_pnl t * w) shares),
               am_total_fees = sum_list (map (\<lambda>(t, w). tr_fees t * w) shares),
               am_total_slippage = sum_list (map (\<lambda>(t, w). tr_slippage t * w) shares),
               am_net_pnl = sum_list nets,
               am_profit_factor = profit_factor_of gross_wins gross_losses,
               am_avg_return_pct = (if total_weight > 0
                 then round_digits 4 (sum_list (map (\<lambda>(t, w). tr_return_pct t * w) shares) / total_weight) else 0),
               am_avg_duration_seconds = (if total_weight > 0
                 then round_digits 2 (sum_list (map (\<lambda>(t, w). tr_duration_seconds t * w) shares) / total_weight) else 0),
               am_max_win = foldl max 0 (filter (\<lambda>n. n > 0) nets),
               am_max_loss = foldl min 0 (filter (\<lambda>n. n < 0) nets)\<rparr>)"

definition attribute_by_strategy_proportional :: "trade list \<Rightarrow> (string, attribution_metrics) dict" where
  "attribute_by_strategy_proportional trades = dict_map calculate_proportional_metrics (group_each trade_shares trades)"

definition attribute_strategy_by_regime :: "trade list \<Rightarrow> (string, (string, attribution_metrics) dict) dict" where
  "attribute_strategy_by_regime trades =
     foldl (\<lambda>result (regime, group).
        foldl (\<lambda>result (strat, metrics). dict_set strat (dict_set regime metrics (opt_or (dict_get result strat) [])) result)
          result (attribute_by_strategy_proportional group))
       [] (group_each (\<lambda>t. [(trade_regime t, t)]) trades)"

section \<open>Participation\<close>

definition normalize_vote :: "string \<Rightarrow> string" where
  "normalize_vote vote =
     (let s = upper (strip vote)
      in if s \<in> {''TRUE'', ''1'', ''YES'', ''BUY'', ''TRADEACTION.BUY''} then ''BUY''
         else if s \<in> {''SELL'', ''-1'', ''TRADEACTION.SELL''} then ''SELL'' else ''HOLD'')"

definition leg_participants :: "attributions option \<Rightarrow> votes option \<Rightarrow> string option \<Rightarrow> string list" where
  "leg_participants attributions votes winner =
     (if truthy attributions then dict_keys (the attributions)
      else if truthy votes then map fst (filter (\<lambda>(s, v). normalize_vote v \<in> {''BUY'', ''SELL''}) (the votes))
      else if truthy winner then [the winner] else [])"

definition trade_participants :: "trade \<Rightarrow> string list" where
  "trade_participants t =
     remdups (leg_participants (tr_entry_strategy_attributions t) (tr_strategy_votes t) (tr_winning_strategy t) @
              leg_participants (tr_exit_strategy_attributions t) (tr_exit_strategy_votes t) (tr_exit_winning_strategy t))"

definition attribute_by_participation :: "trade list \<Rightarrow> (string, attribution_metrics) dict" where
  "attribute_by_participation trades =
     dict_map calculate_metrics (group_each (\<lambda>t. map (\<lambda>s. (s, t)) (trade_participants t)) trades)"

definition leg_names :: "attributions option \<Rightarrow> string option \<Rightarrow> string list" where
  "leg_names attributions winner =
     (if truthy attributions then dict_keys (the attributions) else if truthy winner then [the winner] else [])"

definition attribute_by_entry_vs_exit ::
  "trade list \<Rightarrow> (string, attribution_metrics) dict \<times> (string, attribution_metrics) dict" where
  "attribute_by_entry_vs_exit trades =
     (let names = (\<lambda>attributions winner. let ns = leg_names attributions winner in if ns = [] then [''UNKNOWN''] else ns)
      in (dict_map calculate_metrics (group_each (\<lambda>t. map (\<lambda>s. (s, t))
            (names (tr_entry_strategy_attributions t) (tr_winning_strategy t))) trades),
          dict_map calculate_metrics (group_each (\<lambda>t. map (\<lambda>s. (s, t))
            (names (tr_exit_strategy_attributions t) (tr_exit_winning_strategy t))) trades)))"

section \<open>Voting together\<close>

type_synonym pair_counts = "(string, (string, nat) dict) dict"

definition pair_count :: "pair_counts \<Rightarrow> string \<Rightarrow> string \<Rightarrow> nat" where
  "pair_count d a b = opt_or (Option.bind (dict_get d a) (\<lambda>e. dict_get e b)) 0"

definition count_pair :: "string \<times> string \<Rightarrow> pair_counts \<Rightarrow> pair_counts" where
  "count_pair ab d = (case ab of (a, b) \<Rightarrow>
     dict_set a (dict_set b (pair_count d a b + 1) (opt_or (dict_get d a) [])) d)"

definition leg_vote_set :: "string \<Rightarrow> votes option \<Rightarrow> attributions option \<Rightarrow> string option \<Rightarrow> votes list" where
  "leg_vote_set side votes attributions winner =
     (if truthy votes then [dict_map normalize_vote (the votes)]
      else if truthy attributions then [map (\<lambda>(s, w). (s, side)) (the attributions)]
      else if truthy winner then [[(the winner, side)]] else [])"

definition extract_trade_vote_sets :: "trade \<Rightarrow> votes list" where
  "extract_trade_vote_sets t =
     leg_vote_set ''BUY'' (tr_strategy_votes t) (tr_entry_strategy_attributions t) (tr_winning_strategy t) @
     leg_vote_set ''SELL'' (tr_exit_strategy_votes t) (tr_exit_strategy_attributions t) (tr_exit_winning_strategy t)"

text \<open>The pairs the two accumulation loops count for a trade: as aligned, and as agreed.\<close>

definition vote_pairs :: "(string \<times> string) list \<Rightarrow> (bool \<times> string \<times> string) list" where
  "vote_pairs votes = concat (map (\<lambda>(s1, v1). map (\<lambda>(s2, v2). (v1 = v2, s1, s2)) votes) votes)"

definition synergy_pairs :: "trade \<Rightarrow> (bool \<times> string \<times> string) list" where
  "synergy_pairs t =
     concat (map (\<lambda>s_in. concat (map (\<lambda>s_out.
         [(tr_net_pnl t > 0, s_in, s_out), (tr_net_pnl t > 0, s_out, s_in)])
       (leg_names (tr_exit_strategy_attributions t) (tr_exit_winning_strategy t))))
       (leg_names (tr_entry_strategy_attributions t) (tr_winning_strategy t)))"

definition trade_pairs :: "trade \<Rightarrow> (bool \<times> string \<times> string) list" where
  "trade_pairs t = concat (map (\<lambda>vs. vote_pairs (sort_key fst vs)) (extract_trade_vote_sets t)) @ synergy_pairs t"

definition compute_co_voting_details ::
  "trade list \<Rightarrow> (string, (string, rat) dict) dict \<times> pair_counts" where
  "compute_co_voting_details trades =
     (let pairs = concat (map trade_pairs trades);
          aligned = foldl (\<lambda>d (agree, p). count_pair p d) [] pairs;
          agreed = foldl (\<lambda>d (agree, p). if agree then count_pair p d else d) [] pairs
      in (map (\<lambda>(s1, targets). (s1, map (\<lambda>(s2, n). (s2,
            if n > 0 then round_digits 4 (of_nat (pair_count agreed s1 s2) / of_nat n) else 0)) targets)) aligned,
          aligned))"

lemma round_digits_unit:
  assumes "0 \<le> x" "x \<le> 1"
  shows "0 \<le> round_digits 4 x \<and> round_digits 4 x \<le> 1"
proof -
  have "rat_of_int 0 \<le> x * 10000" "x * 10000 \<le> rat_of_int 10000" using assms by auto
  from round_half_even_bounds [OF this] show ?thesis by (simp add: round_digits_def)
qed

section \<open>Sums over groups\<close>

text \<open>
  Grouping is a finite partition of the entries: what is added up per group and then over the groups is
  what is added up over the entries.
\<close>

lemma sum_group_add:
  fixes f :: "'v \<Rightarrow> 'a::ab_group_add"
  assumes "dict_wf d"
  shows "sum_list (map (\<lambda>(k, vs). sum_list (map f vs)) (group_add k v d)) = sum_list (map (\<lambda>(k, vs). sum_list (map f vs)) d) + f v"
  using assms
proof (induction d)
  case (Cons kv d)
  obtain k' vs where kv: "kv = (k', vs)" by (cases kv)
  show ?case
  proof (cases "k' = k")
    case True
    then show ?thesis by (simp add: kv group_add_def algebra_simps)
  next
    case False
    have "group_add k v (kv # d) = kv # group_add k v d" using False by (simp add: kv group_add_def)
    with Cons show ?thesis by (simp add: dict_wf_def algebra_simps)
  qed
qed (simp add: group_add_def)

lemma group_add_wf: "dict_wf d \<Longrightarrow> dict_wf (group_add k v d)"
  by (simp add: group_add_def)

lemma group_add_nonempty: "dict_all (\<lambda>vs. vs \<noteq> []) d \<Longrightarrow> dict_all (\<lambda>vs. vs \<noteq> []) (group_add k v d)"
  unfolding group_add_def by (rule dict_all_set) simp_all

lemma sum_group_entries:
  fixes f :: "'w \<Rightarrow> 'a::ab_group_add"
  assumes "dict_wf d" "dict_all (\<lambda>vs. vs \<noteq> []) d"
  shows "dict_wf (foldl (\<lambda>d (k, w). group_add k w d) d es) \<and> dict_all (\<lambda>vs. vs \<noteq> []) (foldl (\<lambda>d (k, w). group_add k w d) d es) \<and>
    sum_list (map (\<lambda>(k, vs). sum_list (map f vs)) (foldl (\<lambda>d (k, w). group_add k w d) d es)) =
      sum_list (map (\<lambda>(k, vs). sum_list (map f vs)) d) + sum_list (map (\<lambda>(k, w). f w) es)"
  using assms
proof (induction es arbitrary: d)
  case (Cons e es)
  obtain k w where e: "e = (k, w)" by (cases e)
  from Cons.IH [OF group_add_wf [OF Cons.prems(1), of k w] group_add_nonempty [OF Cons.prems(2)]]
  show ?case by (simp add: e sum_group_add [OF Cons.prems(1)] add.assoc)
qed simp

lemma sum_group_each:
  fixes f :: "'w \<Rightarrow> 'a::ab_group_add"
  shows "dict_wf (group_each entries xs) \<and> dict_all (\<lambda>vs. vs \<noteq> []) (group_each entries xs) \<and>
    sum_list (map (\<lambda>(k, vs). sum_list (map f vs)) (group_each entries xs)) =
      sum_list (map (\<lambda>x. sum_list (map (\<lambda>(k, w). f w) (entries x))) xs)"
proof -
  have "dict_wf (foldl (\<lambda>d x. foldl (\<lambda>d (k, w). group_add k w d) d (entries x)) d xs) \<and>
      dict_all (\<lambda>vs. vs \<noteq> []) (foldl (\<lambda>d x. foldl (\<lambda>d (k, w). group_add k w d) d (entries x)) d xs) \<and>
      sum_list (map (\<lambda>(k, vs). sum_list (map f vs)) (foldl (\<lambda>d x. foldl (\<lambda>d (k, w). group_add k w d) d (entries x)) d xs)) =
      sum_list (map (\<lambda>(k, vs). sum_list (map f vs)) d) + sum_list (map (\<lambda>x. sum_list (map (\<lambda>(k, w). f w) (entries x))) xs)"
    if "dict_wf d" "dict_all (\<lambda>vs. vs \<noteq> []) d" for d
    using that
  proof (induction xs arbitrary: d)
    case (Cons x xs)
    from sum_group_entries [OF Cons.prems, where f = f and es = "entries x"] Cons.IH [of "foldl (\<lambda>d (k, w). group_add k w d) d (entries x)"]
    show ?case by (simp add: add.assoc)
  qed simp
  from this [of "[]"] show ?thesis by (simp add: group_each_def)
qed

text \<open>
  A metric that adds up: its value for a group is the sum of the amounts of the group's members.  Then it adds
  up over the groups to the sum over all entries.
\<close>

locale additive_metric =
  fixes metrics :: "'w list \<Rightarrow> 'm"
    and value_of :: "'m \<Rightarrow> rat"
    and amount :: "'w \<Rightarrow> rat"
  assumes group_value: "vs \<noteq> [] \<Longrightarrow> value_of (metrics vs) = sum_list (map amount vs)"
begin

lemma groups_sum:
  "sum_list (map value_of (dict_values (dict_map metrics (group_each entries xs)))) =
    sum_list (map (\<lambda>x. sum_list (map (\<lambda>(k, w). amount w) (entries x))) xs)"
proof -
  let ?G = "group_each entries xs"
  have "dict_all (\<lambda>vs. vs \<noteq> []) ?G" using sum_group_each [of entries xs amount] by simp
  then have "map value_of (dict_values (dict_map metrics ?G)) = map (\<lambda>(k, vs). sum_list (map amount vs)) ?G"
    by (auto simp: dict_map_def dict_all_def list_all_iff group_value)
  then show ?thesis using sum_group_each [of entries xs amount] by simp
qed

lemma partition_sum:
  "sum_list (map value_of (dict_values (dict_map metrics (group_each (\<lambda>x. [(key x, f x)]) xs)))) = sum_list (map (\<lambda>x. amount (f x)) xs)"
  unfolding groups_sum by simp

end

interpretation trade_count: additive_metric calculate_metrics "\<lambda>m. of_nat (am_total_trades m)" "\<lambda>t. 1"
  by unfold_locales (simp add: calculate_metrics_def Let_def split_beta sum_list_triv)

interpretation trade_net: additive_metric calculate_metrics am_net_pnl tr_net_pnl
  by unfold_locales (simp add: calculate_metrics_def compute_pnl_totals_def Let_def split_beta)

interpretation trade_fees: additive_metric calculate_metrics am_total_fees tr_fees
  by unfold_locales (simp add: calculate_metrics_def compute_pnl_totals_def Let_def split_beta)

interpretation share_net: additive_metric calculate_proportional_metrics am_net_pnl "\<lambda>(t, w). tr_net_pnl t * w"
  by unfold_locales (simp add: calculate_proportional_metrics_def Let_def)

interpretation share_gross: additive_metric calculate_proportional_metrics am_gross_pnl "\<lambda>(t, w). tr_gross_pnl t * w"
  by unfold_locales (simp add: calculate_proportional_metrics_def Let_def)

interpretation share_fees: additive_metric calculate_proportional_metrics am_total_fees "\<lambda>(t, w). tr_fees t * w"
  by unfold_locales (simp add: calculate_proportional_metrics_def Let_def)

section \<open>Shares of a trade\<close>

definition shares_ok :: "attributions \<Rightarrow> bool" where
  "shares_ok a \<longleftrightarrow> list_all (\<lambda>w. 0 \<le> w) (dict_values a) \<and> sum_list (dict_values a) = 1"

text \<open>A trade whose attributions are shares: whole ones when both legs are attributed or the single leg's rest is below the threshold.\<close>

definition attributed :: "trade \<Rightarrow> bool" where
  "attributed t \<longleftrightarrow>
     (let entry = tr_entry_strategy_attributions t; exit = tr_exit_strategy_attributions t
      in if truthy entry \<and> truthy exit then shares_ok (the entry) \<and> shares_ok (the exit)
         else list_all (\<lambda>a. list_all (\<lambda>w. 0 \<le> w) (dict_values a) \<and>
                (sum_list (dict_values a) = 1 \<or> sum_list (dict_values a) < 9999/10000))
              (filter (\<lambda>a. a \<noteq> []) (List.map_filter id [entry, exit])))"

lemma positive_shares:
  "list_all (\<lambda>w. 0 \<le> w) (dict_values a) \<Longrightarrow>
    sum_list (map (\<lambda>x. c * (snd x * k)) (filter (\<lambda>(s, w). w > (0::rat)) a)) = c * (sum_list (dict_values a) * k)"
  by (induction a) (auto simp: algebra_simps)

lemma weighted_shares_sum:
  assumes "list_all (\<lambda>w. 0 \<le> w) (dict_values a)"
  shows "sum_list (map (\<lambda>(k, t, w). c * w) (weighted_shares t a scale)) = c * (sum_list (dict_values a) * scale)"
  using positive_shares [OF assms, of c scale] by (simp add: weighted_shares_def comp_def split_beta)

lemma single_leg_sum:
  assumes "list_all (\<lambda>w. 0 \<le> w) (dict_values a)" "sum_list (dict_values a) = 1 \<or> sum_list (dict_values a) < 9999/10000"
  shows "sum_list (map (\<lambda>(k, t, w). c * w) (single_leg_shares t a)) = c"
  using positive_shares [OF assms(1), of c 1] assms(2)
  by (auto simp: single_leg_shares_def Let_def comp_def split_beta max_def algebra_simps)

lemma trade_shares_sum:
  assumes "attributed t"
  shows "sum_list (map (\<lambda>(k, t', w). c * w) (trade_shares t)) = (c::rat)"
proof -
  let ?en = "tr_entry_strategy_attributions t" and ?ex = "tr_exit_strategy_attributions t"
  consider (both) a b where "?en = Some a" "a \<noteq> []" "?ex = Some b" "b \<noteq> []"
    | (entry) a where "?en = Some a" "a \<noteq> []" "\<not> truthy ?ex"
    | (exit) b where "?ex = Some b" "b \<noteq> []" "\<not> truthy ?en"
    | (none) "\<not> truthy ?en" "\<not> truthy ?ex"
    by (cases ?en; cases ?ex) (auto simp: truthy_def)
  then show ?thesis
  proof cases
    case both
    then show ?thesis
      using assms by (simp add: trade_shares_def attributed_def truthy_def shares_ok_def weighted_shares_sum Let_def)
  next
    case entry
    then show ?thesis
      using assms single_leg_sum [of a c t]
      by (simp add: trade_shares_def attributed_def truthy_def Let_def List.map_filter_def split: option.splits if_splits)
  next
    case exit
    then show ?thesis
      using assms single_leg_sum [of b c t]
      by (simp add: trade_shares_def attributed_def truthy_def Let_def List.map_filter_def split: option.splits if_splits)
  next
    case none
    then show ?thesis by (simp add: trade_shares_def Let_def)
  qed
qed

section \<open>Counts of pairs\<close>

definition pair_entry :: "(string, (string, 'a) dict) dict \<Rightarrow> string \<Rightarrow> string \<Rightarrow> 'a option" where
  "pair_entry d a b = Option.bind (dict_get d a) (\<lambda>e. dict_get e b)"

definition occurrences :: "('a \<Rightarrow> bool) \<Rightarrow> 'a list \<Rightarrow> nat" where
  "occurrences P xs = sum_list (map (\<lambda>x. if P x then 1 else 0) xs)"

lemma occurrences_simps [simp]:
  "occurrences P [] = 0" "occurrences P (x # xs) = (if P x then 1 else 0) + occurrences P xs"
  "occurrences P (xs @ ys) = occurrences P xs + occurrences P ys"
  by (simp_all add: occurrences_def)

lemma occurrences_concat: "occurrences P (concat (map f xs)) = sum_list (map (\<lambda>x. occurrences P (f x)) xs)"
  by (induction xs) simp_all

lemma occurrences_mono: "(\<And>x. P x \<Longrightarrow> Q x) \<Longrightarrow> occurrences P xs \<le> occurrences Q xs"
  by (induction xs) (auto simp: le_SucI)

lemma count_pair_entry:
  "pair_entry (count_pair p d) a b = (if p = (a, b) then Some (pair_count d a b + 1) else pair_entry d a b)"
  by (cases p; cases "dict_get d (fst p)") (auto simp: pair_entry_def count_pair_def pair_count_def)

lemma pair_count_entry: "pair_count d a b = opt_or (pair_entry d a b) 0"
  by (simp add: pair_count_def pair_entry_def)

definition counted :: "nat \<Rightarrow> nat option" where
  "counted n = (if n = 0 then None else Some n)"

lemma fold_pair_entry:
  assumes "pair_entry d a b = counted n"
  shows "pair_entry (foldl (\<lambda>d (x, p). if sel x then count_pair p d else d) d ps) a b =
    counted (n + occurrences (\<lambda>(x, p). sel x \<and> p = (a, b)) ps)"
  using assms
proof (induction ps arbitrary: d n)
  case (Cons q ps)
  obtain x p where q: "q = (x, p)" by (cases q)
  let ?k = "if sel x \<and> p = (a, b) then 1 else 0 :: nat"
  have "pair_entry (if sel x then count_pair p d else d) a b = counted (n + ?k)"
    using Cons.prems by (auto simp: count_pair_entry pair_count_entry counted_def)
  from Cons.IH [OF this] show ?case by (simp add: q add.assoc)
qed simp

abbreviation swapped :: "('b \<times> string \<times> string \<Rightarrow> bool) \<Rightarrow> 'b \<times> string \<times> string \<Rightarrow> bool" where
  "swapped P \<equiv> \<lambda>(x, a, b). P (x, b, a)"

lemma sum_list_swap:
  fixes f :: "'a \<Rightarrow> 'b \<Rightarrow> nat"
  shows "sum_list (map (\<lambda>x. sum_list (map (f x) ys)) xs) = sum_list (map (\<lambda>y. sum_list (map (\<lambda>x. f x y) xs)) ys)"
  by (induction xs) (simp_all add: sum_list_addf)

lemma vote_pairs_swap: "occurrences (swapped P) (vote_pairs vs) = occurrences P (vote_pairs vs)"
proof -
  have "occurrences Q (vote_pairs vs) =
      sum_list (map (\<lambda>x. sum_list (map (\<lambda>y. if Q (snd x = snd y, fst x, fst y) then 1 else 0) vs)) vs)" for Q
    unfolding vote_pairs_def occurrences_concat by (simp add: occurrences_def comp_def split_beta)
  then show ?thesis
    using sum_list_swap [of "\<lambda>x y. if P (snd x = snd y, fst x, fst y) then 1 else 0" vs vs]
    by (simp add: eq_commute)
qed

lemma trade_pairs_swap: "occurrences (swapped P) (trade_pairs t) = occurrences P (trade_pairs t)"
proof -
  have "occurrences (swapped P) (synergy_pairs t) = occurrences P (synergy_pairs t)"
    unfolding synergy_pairs_def occurrences_concat by (simp add: add.commute)
  then show ?thesis
    by (simp add: trade_pairs_def occurrences_concat vote_pairs_swap)
qed

lemma pairs_swap: "occurrences (swapped P) (concat (map trade_pairs ts)) = occurrences P (concat (map trade_pairs ts))"
  by (simp add: occurrences_concat trade_pairs_swap)

lemma map_of_keyed: "map_of (map (\<lambda>(k, v). (k, f k v)) d) k = map_option (f k) (map_of d k)"
  by (induction d) auto

lemma co_voting_entries:
  fixes trades :: "trade list"
  defines "pairs \<equiv> concat (map trade_pairs trades)"
  defines "n \<equiv> \<lambda>a b. occurrences (\<lambda>(x, p). p = (a, b)) pairs"
    and "m \<equiv> \<lambda>a b. occurrences (\<lambda>(x, p). x \<and> p = (a, b)) pairs"
  shows "pair_entry (snd (compute_co_voting_details trades)) a b = counted (n a b)"
    and "pair_entry (fst (compute_co_voting_details trades)) a b =
      map_option (\<lambda>k. round_digits 4 (of_nat (m a b) / of_nat k)) (counted (n a b))"
proof -
  let ?al = "foldl (\<lambda>d (agree, p). count_pair p d) [] pairs"
  let ?ag = "foldl (\<lambda>d (agree, p). if agree then count_pair p d else d) [] pairs"
  have zero: "pair_entry [] a b = counted 0" by (simp add: pair_entry_def counted_def)
  have al: "pair_entry ?al a b = counted (n a b)"
    using fold_pair_entry [OF zero, of "\<lambda>_. True" pairs] by (simp add: n_def)
  have "pair_entry ?ag a b = counted (m a b)"
    using fold_pair_entry [OF zero, of "\<lambda>x. x" pairs] by (simp add: m_def)
  then have ag: "pair_count ?ag a b = m a b" by (simp add: pair_count_entry counted_def)
  show "pair_entry (snd (compute_co_voting_details trades)) a b = counted (n a b)"
    using al by (simp add: compute_co_voting_details_def Let_def pairs_def)
  have "pair_entry (fst (compute_co_voting_details trades)) a b =
      map_option (\<lambda>k. if k > 0 then round_digits 4 (of_nat (pair_count ?ag a b) / of_nat k) else 0) (pair_entry ?al a b)"
    by (simp add: compute_co_voting_details_def Let_def pairs_def [symmetric] pair_entry_def map_of_keyed split: option.split
        cong: bind_option_cong) (auto simp: map_of_keyed split: bind_splits)
  then show "pair_entry (fst (compute_co_voting_details trades)) a b =
      map_option (\<lambda>k. round_digits 4 (of_nat (m a b) / of_nat k)) (counted (n a b))"
    by (simp add: al ag counted_def)
qed

section \<open>Properties\<close>

definition demo_trade :: "decimal \<Rightarrow> attributions \<Rightarrow> attributions \<Rightarrow> trade" where
  "demo_trade net entry exit =
     \<lparr>tr_trade_id = ''t'', tr_ticker_symbol = ''BTC_USD'', tr_entry_order_uuid = ''e'', tr_exit_order_uuid = ''x'',
      tr_entry_price = 100, tr_exit_price = 110, tr_quantity = 1, tr_gross_pnl = net + 1, tr_fees = 1, tr_net_pnl = net,
      tr_return_pct = net, tr_duration_seconds = 60, tr_entry_timestamp = 0, tr_exit_timestamp = 60, tr_slippage = 0,
      tr_commit_hash = None, tr_winning_strategy = Some ''a'', tr_strategy_votes = None,
      tr_entry_strategy_attributions = Some entry, tr_exit_strategy_attributions = Some exit, tr_exit_winning_strategy = None,
      tr_exit_strategy_votes = None, tr_entry_regime = Some ''BULL'', tr_exit_regime = None\<rparr>"

definition demo_trades :: "trade list" where
  "demo_trades = [demo_trade 9 [(''a'', 1/2), (''b'', 1/2)] [(''c'', 1)], demo_trade (- 3) [(''a'', 3/4)] []]"

text \<open>Grouping by commit, by symbol or by regime is a partition: the numbers of trades, the net results and the fees of the
  groups add up to those of all trades.\<close>

theorem attribution_partitions_trades:
  assumes "by_key \<in> {attribute_by_commit, attribute_by_symbol, attribute_by_regime}"
  shows "sum_list (map (\<lambda>m. of_nat (am_total_trades m)) (dict_values (by_key trades))) = (of_nat (length trades) :: rat) \<and>
    sum_list (map am_net_pnl (dict_values (by_key trades))) = sum_list (map tr_net_pnl trades) \<and>
    sum_list (map am_total_fees (dict_values (by_key trades))) = sum_list (map tr_fees trades)"
proof -
  obtain key where key: "\<And>ts. by_key ts = dict_map calculate_metrics (group_each (\<lambda>t. [(key t, t)]) ts)"
    using assms by (auto simp: attribute_by_commit_def attribute_by_symbol_def attribute_by_regime_def)
  show ?thesis
    unfolding key trade_count.partition_sum trade_net.partition_sum trade_fees.partition_sum
    by (simp add: sum_list_triv)
qed

theorem attribution_partitions_trades_witness:
  "sum_list (map am_net_pnl (dict_values (attribute_by_regime demo_trades))) = 6 \<and>
   map fst (attribute_by_regime demo_trades) = [''BULL'']"
proof
  have "sum_list (map am_net_pnl (dict_values (attribute_by_regime demo_trades))) = sum_list (map tr_net_pnl demo_trades)"
    using attribution_partitions_trades [of attribute_by_regime demo_trades] by simp
  also have "\<dots> = 6" by (simp add: demo_trades_def demo_trade_def)
  finally show "sum_list (map am_net_pnl (dict_values (attribute_by_regime demo_trades))) = 6" .
qed code_simp

text \<open>C34.  Proportional attribution conserves money: for trades whose attributions are shares, the gross and net results and the
  fees credited to the strategies add up to those of the trades.\<close>

theorem proportional_attribution_conserves:
  assumes "list_all attributed trades"
  shows "sum_list (map am_net_pnl (dict_values (attribute_by_strategy_proportional trades))) = sum_list (map tr_net_pnl trades) \<and>
    sum_list (map am_gross_pnl (dict_values (attribute_by_strategy_proportional trades))) = sum_list (map tr_gross_pnl trades) \<and>
    sum_list (map am_total_fees (dict_values (attribute_by_strategy_proportional trades))) = sum_list (map tr_fees trades)"
proof -
  have shares: "map (\<lambda>x. sum_list (map (\<lambda>(k, w). (\<lambda>(t, w). f t * w) w) (trade_shares x))) trades = map f trades" for f :: "trade \<Rightarrow> rat"
  proof (rule map_cong [OF refl])
    fix x assume "x \<in> set trades"
    then have att: "attributed x" using assms by (simp add: list_all_iff)
    have same: "map (\<lambda>(k, w). (\<lambda>(t, w). f t * w) w) (trade_shares x) = map (\<lambda>(k, t', w). f x * w) (trade_shares x)"
      by (rule map_cong [OF refl])
        (auto simp: trade_shares_def weighted_shares_def single_leg_shares_def Let_def split: if_splits)
    show "sum_list (map (\<lambda>(k, w). (\<lambda>(t, w). f t * w) w) (trade_shares x)) = f x"
      unfolding same by (rule trade_shares_sum [OF att])
  qed
  show ?thesis
    unfolding attribute_by_strategy_proportional_def share_net.groups_sum share_gross.groups_sum share_fees.groups_sum shares
    by simp
qed

theorem proportional_attribution_conserves_witness:
  "sum_list (map am_net_pnl (dict_values (attribute_by_strategy_proportional demo_trades))) = 6 \<and>
   map fst (attribute_by_strategy_proportional demo_trades) = [''a'', ''b'', ''c'', ''UNATTRIBUTED'']"
proof
  have "list_all attributed demo_trades" by code_simp
  then have "sum_list (map am_net_pnl (dict_values (attribute_by_strategy_proportional demo_trades))) = sum_list (map tr_net_pnl demo_trades)"
    using proportional_attribution_conserves by blast
  also have "\<dots> = 6" by (simp add: demo_trades_def demo_trade_def)
  finally show "sum_list (map am_net_pnl (dict_values (attribute_by_strategy_proportional demo_trades))) = 6" .
qed code_simp

text \<open>The matrix of strategies that vote together and its counts are symmetric, and every entry is between 0 and 1.\<close>

theorem co_voting_symmetric:
  "let (matrix, counts) = compute_co_voting_details trades
   in pair_entry matrix a b = pair_entry matrix b a \<and> pair_entry counts a b = pair_entry counts b a \<and>
      (case pair_entry matrix a b of None \<Rightarrow> True | Some r \<Rightarrow> 0 \<le> r \<and> r \<le> 1)"
proof -
  let ?ps = "concat (map trade_pairs trades)"
  let ?n = "\<lambda>a b. occurrences (\<lambda>(x, p). p = (a, b)) ?ps" and ?m = "\<lambda>a b. occurrences (\<lambda>(x, p). x \<and> p = (a, b)) ?ps"
  have n: "?n a b = ?n b a" using pairs_swap [of "\<lambda>(x, p). p = (a, b)" trades] by (simp add: split_def prod_eq_iff conj_commute conj_left_commute)
  have m: "?m a b = ?m b a" using pairs_swap [of "\<lambda>(x, p). x \<and> p = (a, b)" trades] by (simp add: split_def prod_eq_iff conj_commute conj_left_commute)
  have "?m a b \<le> ?n a b" by (rule occurrences_mono) auto
  then have "0 \<le> round_digits 4 (of_nat (?m a b) / of_nat (?n a b)) \<and> round_digits 4 (of_nat (?m a b) / of_nat (?n a b)) \<le> 1"
    by (intro round_digits_unit) (auto simp: divide_le_eq_1)
  then show ?thesis
    using co_voting_entries [of trades a b] co_voting_entries [of trades b a] n m
    by (auto simp: split_beta Let_def counted_def)
qed

text \<open>
  With attributions on both legs a missing share is lost instead of being credited to \<open>UNATTRIBUTED\<close>, as it is with a single leg.
\<close>

lemma two_leg_rest_lost:
  "sum_list (map am_net_pnl (dict_values (attribute_by_strategy_proportional [demo_trade 8 [(''a'', 1/2)] [(''b'', 1/2)]]))) = 4"
  "sum_list (map am_net_pnl (dict_values (attribute_by_strategy_proportional [demo_trade 8 [(''a'', 1/2)] []]))) = 8"
  by code_simp+

end
