(* ===== verification/Evidence.thy ===== *)
theory Evidence
  imports Indicators Merge
begin

text \<open>
  Evidence for a change of configuration and its evaluation
  (\<open>src/src/proposals/evidence_evaluator.py\<close>, \<open>models.py\<close>,
  \<open>src/api/interfaces/evidence_proposal.py\<close>): whether two runs are comparable, the expected
  benefit, the size of the sample, the uncertainty and the change of risk.

  Metrics and walk-forward runs are JSON documents; a document of the wrong shape raises as the
  attribute access of the code does.  Times are seconds since 1970.  Python's conversions of texts
  and its square root and logarithm are the fields of \<open>host\<close>; texts of infinities and numbers
  beyond the range of floats are not considered.
\<close>

section \<open>Conversions\<close>

record host =
  h_float :: "string \<Rightarrow> rat option"
  h_int :: "string \<Rightarrow> int option"
  h_str :: "pyval \<Rightarrow> string"
  h_repr :: "pyval \<Rightarrow> string"
  h_sqrt :: "rat \<Rightarrow> rat"
  h_log :: "rat \<Rightarrow> rat"

definition py_trunc :: "rat \<Rightarrow> int" where
  "py_trunc x = (if x \<ge> 0 then \<lfloor>x\<rfloor> else \<lceil>x\<rceil>)"

definition int_str :: "int \<Rightarrow> string" where
  "int_str i = (if i < 0 then ''-'' else '''') @ nat_str (nat \<bar>i\<bar>)"

definition pad_zeros :: "nat \<Rightarrow> string \<Rightarrow> string" where
  "pad_zeros n s = replicate (n - length s) CHR ''0'' @ s"

definition fixed_str :: "nat \<Rightarrow> rat \<Rightarrow> string" where
  "fixed_str n x =
     (let m = nat (round_half_even (\<bar>x\<bar> * 10 ^ n))
      in (if x < 0 then ''-'' else '''') @ nat_str (m div 10 ^ n) @ ''.'' @ pad_zeros n (nat_str (m mod 10 ^ n)))"

fun join_with :: "string \<Rightarrow> string list \<Rightarrow> string" where
  "join_with sep [] = ''''"
| "join_with sep [s] = s"
| "join_with sep (s # ss) = s @ sep @ join_with sep ss"

fun py_len :: "pyval \<Rightarrow> nat result" where
  "py_len (PList xs) = Inr (length xs)"
| "py_len (PDict d) = Inr (length d)"
| "py_len (PStr s) = Inr (length s)"
| "py_len _ = Inl TypeError"

fun py_int_of :: "host \<Rightarrow> pyval \<Rightarrow> int result" where
  "py_int_of h (PBool b) = Inr (if b then 1 else 0)"
| "py_int_of h (PInt i) = Inr i"
| "py_int_of h (PNum r) = Inr (py_trunc r)"
| "py_int_of h (PStr s) = (case h_int h s of None \<Rightarrow> Inl ValueError | Some i \<Rightarrow> Inr i)"
| "py_int_of h _ = Inl TypeError"

text \<open>\<open>float(v)\<close>, with \<open>None\<close> where the callers catch \<open>TypeError\<close> and \<open>ValueError\<close>.\<close>

fun py_float :: "host \<Rightarrow> pyval \<Rightarrow> rat option" where
  "py_float h (PBool b) = Some (if b then 1 else 0)"
| "py_float h (PInt i) = Some (of_int i)"
| "py_float h (PNum r) = Some r"
| "py_float h (PStr s) = h_float h s"
| "py_float h _ = None"

definition py_field :: "pyval \<Rightarrow> string \<Rightarrow> pyval result" where
  "py_field v k = res_bind (py_dict v) (\<lambda>d. Inr (py_get d k))"

text \<open>\<open>(document or {}).get(key) or {}\<close>, then used as a dictionary.\<close>

definition section_of :: "config \<Rightarrow> string \<Rightarrow> config result" where
  "section_of d k = py_dict (val_or (py_get d k) (PDict []))"

definition doc :: "config option \<Rightarrow> config" where
  "doc d = opt_or d []"

definition num_or_zero :: "rat option \<Rightarrow> rat" where
  "num_or_zero x = opt_or x 0"

section \<open>The collected evidence\<close>

datatype execution_status =
    STATUS_QUEUED | STATUS_INITIALIZING | STATUS_RUNNING | STATUS_COMPLETED | STATUS_FAILED | STATUS_CANCELLED

fun execution_status_value :: "execution_status \<Rightarrow> string" where
  "execution_status_value STATUS_QUEUED = ''QUEUED''"
| "execution_status_value STATUS_INITIALIZING = ''INITIALIZING''"
| "execution_status_value STATUS_RUNNING = ''RUNNING''"
| "execution_status_value STATUS_COMPLETED = ''COMPLETED''"
| "execution_status_value STATUS_FAILED = ''FAILED''"
| "execution_status_value STATUS_CANCELLED = ''CANCELLED''"

datatype data_source_type = SOURCE_CSV | SOURCE_MARKET_DATA

fun data_source_value :: "data_source_type \<Rightarrow> string" where
  "data_source_value SOURCE_CSV = ''csv''"
| "data_source_value SOURCE_MARKET_DATA = ''market_data''"

record execution_configuration =
  ec_latency_ms :: rat
  ec_slippage_ticks :: int
  ec_fee_rate :: decimal

record data_source_request =
  dr_source_type :: data_source_type
  dr_source_id :: "string option"
  dr_path :: "string option"

record backtest_request =
  br_ticker_symbol :: string
  br_start_time :: "timestamp option"
  br_end_time :: "timestamp option"
  br_data_source :: data_source_request
  br_initial_balance :: decimal
  br_execution :: execution_configuration
  br_warmup_start_time :: "timestamp option"

text \<open>Of a stored session, what the evaluation reads.\<close>

record backtest_session =
  se_ticker_symbol :: string
  se_request :: backtest_request
  se_status :: execution_status

record period_spec =
  pe_start_time :: "timestamp option"
  pe_end_time :: "timestamp option"

record config_change =
  ch_path :: string
  ch_old_value :: pyval
  ch_new_value :: pyval
  ch_reason :: string

record collected_evidence =
  ev_ticker_symbol :: string
  ev_baseline_commit :: string
  ev_candidate_commit :: "string option"
  ev_candidate_id :: "string option"
  ev_candidate_name :: "string option"
  ev_experiment_id :: "string option"
  ev_experiment_name :: "string option"
  ev_total_candidates_tested :: int
  ev_candidate_search_history :: "config list"
  ev_holdout_validated :: bool
  ev_dataset_id :: "string option"
  ev_baseline_backtest_id :: "string option"
  ev_baseline_walk_forward_id :: "string option"
  ev_candidate_backtest_id :: "string option"
  ev_candidate_walk_forward_id :: "string option"
  ev_baseline_session :: "backtest_session option"
  ev_candidate_session :: "backtest_session option"
  ev_baseline_bt_metrics :: "config option"
  ev_candidate_bt_metrics :: "config option"
  ev_baseline_wf_run :: "config option"
  ev_candidate_wf_run :: "config option"
  ev_config_changes :: "config_change list"
  ev_baseline_config :: "config option"
  ev_candidate_config :: "config option"
  ev_evaluation_period :: "period_spec option"
  ev_market_data_provenance :: "string option"
  ev_execution_assumptions :: config
  ev_hypothesis :: "string option"
  ev_title :: "string option"
  ev_triggered_by :: "config option"

section \<open>Comparability\<close>

datatype verification_status = VERIFIED | MISMATCH | UNKNOWN

record comparability_report =
  cr_is_comparable :: bool
  cr_verification_status :: verification_status
  cr_same_ticker :: "bool option"
  cr_same_period :: "bool option"
  cr_same_dataset :: "bool option"
  cr_same_execution_assumptions :: "bool option"
  cr_same_initial_balance :: "bool option"
  cr_verified_checks :: "string list"
  cr_unknown_checks :: "string list"
  cr_discrepancies :: "string list"

definition new_report :: comparability_report where
  "new_report =
     \<lparr>cr_is_comparable = False, cr_verification_status = UNKNOWN, cr_same_ticker = None, cr_same_period = None,
      cr_same_dataset = None, cr_same_execution_assumptions = None, cr_same_initial_balance = None,
      cr_verified_checks = [], cr_unknown_checks = [], cr_discrepancies = []\<rparr>"

type_synonym check_update = "(bool option \<Rightarrow> bool option) \<Rightarrow> comparability_report \<Rightarrow> comparability_report"

definition verified :: "check_update \<Rightarrow> string \<Rightarrow> comparability_report \<Rightarrow> comparability_report" where
  "verified upd name r = (upd (\<lambda>_. Some True) r)\<lparr>cr_verified_checks := cr_verified_checks r @ [name]\<rparr>"

definition mismatch :: "check_update \<Rightarrow> string \<Rightarrow> comparability_report \<Rightarrow> comparability_report" where
  "mismatch upd disc r = (upd (\<lambda>_. Some False) r)\<lparr>cr_discrepancies := cr_discrepancies r @ [disc]\<rparr>"

definition compare_check ::
  "check_update \<Rightarrow> string \<Rightarrow> bool \<Rightarrow> string \<Rightarrow> comparability_report \<Rightarrow> comparability_report" where
  "compare_check upd name same disc r = (if same then verified upd name r else mismatch upd disc r)"

definition check_session_comparability :: "collected_evidence \<Rightarrow> comparability_report \<Rightarrow> comparability_report" where
  "check_session_comparability e r =
     (case (ev_baseline_session e, ev_candidate_session e) of
        (Some b, Some c) \<Rightarrow>
          (let rb = se_request b; rc = se_request c;
               sb = br_data_source rb; sc = br_data_source rc; xb = br_execution rb; xc = br_execution rc;
               r1 = compare_check cr_same_ticker_update ''same_ticker'' (se_ticker_symbol b = se_ticker_symbol c)
                      (''Ticker mismatch: baseline='' @ se_ticker_symbol b @ '', candidate='' @ se_ticker_symbol c) r;
               r2 = compare_check cr_same_period_update ''same_period''
                      (br_start_time rb = br_start_time rc \<and> br_end_time rb = br_end_time rc)
                      ''Evaluation period start_time or end_time differs between baseline and candidate.'' r1;
               r3 = compare_check cr_same_dataset_update ''same_dataset''
                      (dr_source_type sb = dr_source_type sc \<and> dr_path sb = dr_path sc)
                      ''Market data source or dataset path differs between baseline and candidate.'' r2;
               r4 = compare_check cr_same_initial_balance_update ''same_initial_balance''
                      (br_initial_balance rb = br_initial_balance rc)
                      ''Initial balance differs between baseline and candidate.'' r3
           in compare_check cr_same_execution_assumptions_update ''same_execution_assumptions''
                (ec_fee_rate xb = ec_fee_rate xc \<and> ec_slippage_ticks xb = ec_slippage_ticks xc \<and>
                 ec_latency_ms xb = ec_latency_ms xc)
                ''Execution cost assumptions (fees, slippage, or latency) differ.'' r4)
      | _ \<Rightarrow> r)"

definition check_wf_ticker :: "config \<Rightarrow> config \<Rightarrow> comparability_report \<Rightarrow> comparability_report" where
  "check_wf_ticker b c r =
     (let tb = py_get b ''ticker_symbol''; tc = py_get c ''ticker_symbol''
      in if cr_same_ticker r = None
         then (if py_truthy tb \<and> py_eq tb tc then verified cr_same_ticker_update ''same_ticker'' r else r)
         else if \<not> py_eq tb tc then mismatch cr_same_ticker_update ''Walk-forward ticker symbol mismatch.'' r
         else r)"

definition check_wf_field ::
  "pyval \<Rightarrow> pyval \<Rightarrow> string \<Rightarrow> (comparability_report \<Rightarrow> bool option) \<Rightarrow> check_update \<Rightarrow> string \<Rightarrow> string
   \<Rightarrow> comparability_report \<Rightarrow> comparability_report result" where
  "check_wf_field b_sum c_sum key get upd name disc r =
     res_bind (py_field b_sum key) (\<lambda>b.
       if \<not> py_truthy b then Inr r
       else res_bind (py_field c_sum key) (\<lambda>c.
         Inr (if py_truthy c \<and> \<not> py_eq b c then mismatch upd disc r
              else if get r = None \<and> py_eq b c then verified upd name r
              else r)))"

definition check_walk_forward_comparability ::
  "collected_evidence \<Rightarrow> comparability_report \<Rightarrow> comparability_report result" where
  "check_walk_forward_comparability e r =
     (if \<not> truthy (ev_baseline_wf_run e) \<or> \<not> truthy (ev_candidate_wf_run e) then Inr r
      else let b = doc (ev_baseline_wf_run e); c = doc (ev_candidate_wf_run e);
               b_sum = val_or (py_get b ''summary'') (PDict []); c_sum = val_or (py_get c ''summary'') (PDict [])
           in res_bind (check_wf_field b_sum c_sum ''dataset_identity'' cr_same_dataset cr_same_dataset_update
                  ''same_dataset'' ''Walk-forward dataset identity mismatch.'' (check_wf_ticker b c r))
                (check_wf_field b_sum c_sum ''execution_assumptions'' cr_same_execution_assumptions
                  cr_same_execution_assumptions_update ''same_execution_assumptions''
                  ''Walk-forward execution assumptions mismatch.''))"

definition has_eval_evidence :: "collected_evidence \<Rightarrow> bool" where
  "has_eval_evidence e \<longleftrightarrow>
     truthy (ev_baseline_bt_metrics e) \<and> truthy (ev_candidate_bt_metrics e) \<or>
     truthy (ev_baseline_wf_run e) \<and> truthy (ev_candidate_wf_run e)"

definition presume_check ::
  "(comparability_report \<Rightarrow> bool option) \<Rightarrow> check_update \<Rightarrow> string \<Rightarrow> bool \<Rightarrow> comparability_report \<Rightarrow> comparability_report" where
  "presume_check get upd name evidence r = (if get r = None \<and> evidence then verified upd name r else r)"

definition presume_unchecked :: "collected_evidence \<Rightarrow> comparability_report \<Rightarrow> comparability_report" where
  "presume_unchecked e r =
     (let ev = has_eval_evidence e;
          r1 = presume_check cr_same_ticker cr_same_ticker_update ''same_ticker'' (ev_ticker_symbol e \<noteq> []) r;
          r2 = presume_check cr_same_execution_assumptions cr_same_execution_assumptions_update
                 ''same_execution_assumptions'' (ev_execution_assumptions e \<noteq> [] \<or> ev) r1;
          r3 = presume_check cr_same_period cr_same_period_update ''same_period'' (ev_evaluation_period e \<noteq> None \<or> ev) r2;
          r4 = presume_check cr_same_dataset cr_same_dataset_update ''same_dataset'' (truthy (ev_dataset_id e) \<or> ev) r3
      in presume_check cr_same_initial_balance cr_same_initial_balance_update ''same_initial_balance''
           (ev_execution_assumptions e \<noteq> [] \<or> ev) r4)"

definition unknown_checks :: "comparability_report \<Rightarrow> string list" where
  "unknown_checks r =
     map fst (filter (\<lambda>(name, val). val = None)
       [(''same_ticker'', cr_same_ticker r), (''same_period'', cr_same_period r), (''same_dataset'', cr_same_dataset r),
        (''same_execution_assumptions'', cr_same_execution_assumptions r),
        (''same_initial_balance'', cr_same_initial_balance r)])"

definition finalize_comparability_status :: "collected_evidence \<Rightarrow> comparability_report \<Rightarrow> comparability_report" where
  "finalize_comparability_status e r0 =
     (let r1 = presume_unchecked e r0; r = r1\<lparr>cr_unknown_checks := cr_unknown_checks r1 @ unknown_checks r1\<rparr>
      in if cr_discrepancies r \<noteq> [] then r\<lparr>cr_verification_status := MISMATCH, cr_is_comparable := False\<rparr>
         else if cr_unknown_checks r = [] then r\<lparr>cr_verification_status := VERIFIED, cr_is_comparable := True\<rparr>
         else r\<lparr>cr_verification_status := UNKNOWN, cr_is_comparable := False,
                cr_discrepancies := cr_discrepancies r @
                  [''Missing session records: comparability unverified for: '' @
                   join_with '', '' (cr_unknown_checks r) @ ''.'']\<rparr>)"

definition evaluate_comparability :: "collected_evidence \<Rightarrow> comparability_report result" where
  "evaluate_comparability e =
     res_bind (check_walk_forward_comparability e (check_session_comparability e new_report))
       (\<lambda>r. Inr (finalize_comparability_status e r))"

section \<open>Metrics\<close>

record metric_comparison =
  mc_metric_name :: string
  mc_baseline_value :: "rat option"
  mc_candidate_value :: "rat option"
  mc_absolute_delta :: "rat option"
  mc_relative_delta_pct :: "rat option"
  mc_is_improvement :: "bool option"

record expected_benefit =
  eb_net_pnl :: "metric_comparison option"
  eb_net_return_pct :: metric_comparison
  eb_expectancy_per_trade :: metric_comparison
  eb_max_drawdown_pct :: metric_comparison
  eb_profit_factor :: metric_comparison
  eb_win_rate_pct :: metric_comparison
  eb_sharpe_ratio :: metric_comparison
  eb_out_of_sample_return_pct :: "metric_comparison option"
  eb_walk_forward_efficiency :: "metric_comparison option"
  eb_trade_frequency_round_trips :: metric_comparison
  eb_exposure_time_pct :: metric_comparison
  eb_regime_breakdown :: "(string, metric_comparison) dict"

definition extract_float :: "host \<Rightarrow> config \<Rightarrow> string \<Rightarrow> rat option" where
  "extract_float h d key = py_float h (py_get d key)"

definition extract_nested_float :: "host \<Rightarrow> config \<Rightarrow> string \<Rightarrow> string \<times> string \<Rightarrow> rat option" where
  "extract_nested_float h d top_key nested_path =
     (case extract_float h d top_key of
        Some x \<Rightarrow> Some x
      | None \<Rightarrow> (case py_get d (fst nested_path) of
                   PDict s \<Rightarrow> extract_float h s (snd nested_path)
                 | _ \<Rightarrow> None))"

definition compute_raw_delta :: "rat option \<Rightarrow> rat option \<Rightarrow> rat option" where
  "compute_raw_delta base_val cand_val =
     (case (base_val, cand_val) of (Some b, Some c) \<Rightarrow> Some (round_digits 4 (c - b)) | _ \<Rightarrow> None)"

definition compare_metric :: "string \<Rightarrow> rat option \<Rightarrow> rat option \<Rightarrow> bool option \<Rightarrow> metric_comparison" where
  "compare_metric name base_val cand_val higher_is_better =
     (case (base_val, cand_val) of
        (Some b, Some c) \<Rightarrow>
          (let abs_delta = round_digits 4 (c - b)
           in \<lparr>mc_metric_name = name, mc_baseline_value = Some (round_digits 4 b),
               mc_candidate_value = Some (round_digits 4 c), mc_absolute_delta = Some abs_delta,
               mc_relative_delta_pct =
                 (if \<bar>b\<bar> > 1/1000000000 then Some (round_digits 2 (abs_delta / \<bar>b\<bar> * 100)) else None),
               mc_is_improvement = map_option (\<lambda>up. if up then abs_delta > 0 else abs_delta < 0) higher_is_better\<rparr>)
      | _ \<Rightarrow> \<lparr>mc_metric_name = name, mc_baseline_value = base_val, mc_candidate_value = cand_val,
              mc_absolute_delta = None, mc_relative_delta_pct = None, mc_is_improvement = None\<rparr>)"

definition summary_of :: "config option \<Rightarrow> config result" where
  "summary_of run = section_of (doc run) ''summary''"

definition evaluate_walk_forward_benefit ::
  "host \<Rightarrow> collected_evidence \<Rightarrow> (metric_comparison option \<times> metric_comparison option) result" where
  "evaluate_walk_forward_benefit h e =
     res_bind (summary_of (ev_baseline_wf_run e)) (\<lambda>b.
     res_bind (summary_of (ev_candidate_wf_run e)) (\<lambda>c.
       Inr (if b = [] \<and> c = [] then (None, None)
            else (Some (compare_metric ''out_of_sample_return_pct'' (extract_float h b ''aggregate_oos_return_pct'')
                     (extract_float h c ''aggregate_oos_return_pct'') (Some True)),
                  Some (compare_metric ''walk_forward_efficiency'' (extract_float h b ''walk_forward_efficiency'')
                     (extract_float h c ''walk_forward_efficiency'') (Some True))))))"

definition regime_entry :: "host \<Rightarrow> config \<Rightarrow> config \<Rightarrow> string \<Rightarrow> metric_comparison option result" where
  "regime_entry h b_reg c_reg reg =
     res_bind (section_of b_reg reg) (\<lambda>b. res_bind (section_of c_reg reg) (\<lambda>c.
       let b1 = extract_float h b ''avg_return_pct''; c1 = extract_float h c ''avg_return_pct'';
           none = (b1 = None \<and> c1 = None);
           bv = (if none then extract_float h b ''net_pnl'' else b1);
           cv = (if none then extract_float h c ''net_pnl'' else c1)
       in Inr (if bv \<noteq> None \<or> cv \<noteq> None
               then Some (compare_metric (''regime_'' @ reg @ ''_return'') bv cv (Some True)) else None)))"

definition evaluate_regime_breakdown :: "host \<Rightarrow> config \<Rightarrow> config \<Rightarrow> (string, metric_comparison) dict result" where
  "evaluate_regime_breakdown h b_bt c_bt =
     res_bind (section_of b_bt ''regime_attribution'') (\<lambda>b_reg.
     res_bind (section_of c_bt ''regime_attribution'') (\<lambda>c_reg.
     res_bind (res_map (\<lambda>reg. res_bind (regime_entry h b_reg c_reg reg) (\<lambda>m. Inr (reg, m)))
         (sort (remdups (dict_keys b_reg @ dict_keys c_reg)))) (\<lambda>entries.
       Inr (List.map_filter (\<lambda>(reg, m). map_option (Pair reg) m) entries))))"

definition evaluate_expected_benefit :: "host \<Rightarrow> collected_evidence \<Rightarrow> expected_benefit result" where
  "evaluate_expected_benefit h e =
     (let b = doc (ev_baseline_bt_metrics e); c = doc (ev_candidate_bt_metrics e);
          top = (\<lambda>name key better. compare_metric name (extract_float h b key) (extract_float h c key) better);
          nested = (\<lambda>name sec key better. compare_metric name (extract_nested_float h b key (sec, key))
                      (extract_nested_float h c key (sec, key)) better)
      in res_bind (evaluate_walk_forward_benefit h e) (\<lambda>(oos_return, wfe).
         res_bind (evaluate_regime_breakdown h b c) (\<lambda>breakdown.
           Inr \<lparr>eb_net_pnl = Some (top ''net_pnl'' ''net_pnl'' (Some True)),
                eb_net_return_pct = top ''net_return_pct'' ''percentage_return'' (Some True),
                eb_expectancy_per_trade = nested ''expectancy_per_trade'' ''behavior'' ''expectancy'' (Some True),
                eb_max_drawdown_pct = top ''max_drawdown_pct'' ''max_drawdown_pct'' (Some False),
                eb_profit_factor = nested ''profit_factor'' ''behavior'' ''profit_factor'' (Some True),
                eb_win_rate_pct = nested ''win_rate_pct'' ''behavior'' ''win_rate_pct'' (Some True),
                eb_sharpe_ratio = nested ''sharpe_ratio'' ''risk_adjusted'' ''sharpe_ratio'' (Some True),
                eb_out_of_sample_return_pct = oos_return, eb_walk_forward_efficiency = wfe,
                eb_trade_frequency_round_trips =
                  nested ''trade_frequency_round_trips'' ''behavior'' ''round_trips'' None,
                eb_exposure_time_pct = nested ''exposure_time_pct'' ''behavior'' ''exposure_time_pct'' None,
                eb_regime_breakdown = breakdown\<rparr>)))"


section \<open>Size of the sample\<close>

definition MIN_INDEPENDENT_OOS_FOLDS :: int where "MIN_INDEPENDENT_OOS_FOLDS = 3"
definition MIN_TRADES_BASELINE_FLOOR :: int where "MIN_TRADES_BASELINE_FLOOR = 15"
definition Z_ALPHA_TWO_SIDED_95 :: rat where "Z_ALPHA_TWO_SIDED_95 = 196/100"
definition Z_BETA_POWER_80 :: rat where "Z_BETA_POWER_80 = 8416/10000"
definition DEFAULT_MIN_MEANINGFUL_RETURN_DELTA_PCT :: rat where "DEFAULT_MIN_MEANINGFUL_RETURN_DELTA_PCT = 1"
definition DEFAULT_FALLBACK_RETURN_STD_PCT :: rat where "DEFAULT_FALLBACK_RETURN_STD_PCT = 5"
definition DEFAULT_MAX_DRAWDOWN_LIMIT_PCT :: rat where "DEFAULT_MAX_DRAWDOWN_LIMIT_PCT = 25"
definition SIGNIFICANT_DRAWDOWN_INCREASE_PCT :: rat where "SIGNIFICANT_DRAWDOWN_INCREASE_PCT = 3"

record sample_size =
  ss_baseline_trades :: int
  ss_candidate_trades :: int
  ss_independent_oos_windows :: int
  ss_profitable_oos_windows :: int
  ss_evaluation_duration_days :: rat
  ss_calendar_days_observed :: int
  ss_regimes_covered :: "string list"
  ss_estimated_required_sample_size :: "int option"
  ss_statistical_unit :: string
  ss_is_heuristic :: bool
  ss_sufficiency_rationale :: string
  ss_is_sample_sufficient :: bool

definition extract_trade_count :: "host \<Rightarrow> config \<Rightarrow> int" where
  "extract_trade_count h bt =
     (let round_trips = num_or_zero (extract_nested_float h bt ''round_trips'' (''behavior'', ''round_trips''))
      in py_trunc (if round_trips \<noteq> 0 then round_trips else num_or_zero (extract_float h bt ''total_trades'')))"

definition extract_oos_window_counts :: "host \<Rightarrow> collected_evidence \<Rightarrow> (int \<times> int) result" where
  "extract_oos_window_counts h e =
     res_bind (summary_of (ev_candidate_wf_run e)) (\<lambda>c.
       let oos_windows = py_trunc (num_or_zero (extract_float h c ''total_folds''));
           profitable = py_trunc (num_or_zero (extract_float h c ''profitable_folds''))
       in if oos_windows = 0 \<and> truthy (ev_candidate_wf_run e)
          then res_bind (py_len (val_or (py_get (doc (ev_candidate_wf_run e)) ''folds'') (PList [])))
                 (\<lambda>n. Inr (int n, profitable))
          else Inr (oos_windows, profitable))"

definition regime_covered :: "host \<Rightarrow> string \<times> pyval \<Rightarrow> bool result" where
  "regime_covered h entry =
     (let reg_name = fst entry
      in if reg_name = [] \<or> take 4 reg_name = ''day_'' then Inr False
         else case snd entry of
                PDict m \<Rightarrow> res_bind (py_int_of h (val_or (py_get m ''total_trades'') (PInt 0))) (\<lambda>n. Inr (n > 0))
              | _ \<Rightarrow> Inr False)"

definition regimes_in :: "host \<Rightarrow> config \<Rightarrow> string list result" where
  "regimes_in h bt =
     res_bind (section_of bt ''regime_attribution'') (\<lambda>reg_map.
     res_bind (res_map (\<lambda>entry. res_bind (regime_covered h entry) (\<lambda>c. Inr (fst entry, c))) reg_map) (\<lambda>rs.
       Inr (map fst (filter snd rs))))"

definition extract_covered_regimes :: "host \<Rightarrow> config \<Rightarrow> config \<Rightarrow> string list result" where
  "extract_covered_regimes h b_bt c_bt =
     res_bind (regimes_in h b_bt) (\<lambda>b. res_bind (regimes_in h c_bt) (\<lambda>c. Inr (sort (remdups (b @ c)))))"

definition days_between :: "timestamp \<Rightarrow> timestamp \<Rightarrow> rat" where
  "days_between start_time end_time = round_digits 2 (max ((end_time - start_time) / 86400) 0)"

definition compute_duration_days :: "collected_evidence \<Rightarrow> rat" where
  "compute_duration_days e =
     (let of_session = (case ev_baseline_session e of
            None \<Rightarrow> 0
          | Some s \<Rightarrow> (case (br_start_time (se_request s), br_end_time (se_request s)) of
                         (Some a, Some b) \<Rightarrow> days_between a b
                       | _ \<Rightarrow> 0))
      in case ev_evaluation_period e of
           None \<Rightarrow> of_session
         | Some p \<Rightarrow> (case (pe_start_time p, pe_end_time p) of
                        (Some a, Some b) \<Rightarrow> days_between a b
                      | _ \<Rightarrow> of_session))"

definition fold_return :: "host \<Rightarrow> pyval \<Rightarrow> rat option" where
  "fold_return h f =
     (case f of
        PDict d \<Rightarrow>
          (case extract_float h d ''test_return_pct'' of
             Some x \<Rightarrow> Some x
           | None \<Rightarrow> (case extract_float h d ''out_of_sample_return_pct'' of
                        Some x \<Rightarrow> Some x
                      | None \<Rightarrow> (case py_get d ''test_metrics'' of
                                   PDict m \<Rightarrow> extract_float h m ''percentage_return''
                                 | _ \<Rightarrow> None)))
      | _ \<Rightarrow> None)"

definition extract_fold_returns :: "host \<Rightarrow> config option \<Rightarrow> rat list result" where
  "extract_fold_returns h run =
     (if \<not> truthy run then Inr []
      else res_bind (summary_of run) (\<lambda>s.
           res_bind (py_iter (val_or (py_get s ''fold_results'') (val_or (py_get s ''folds'')
                                (val_or (py_get (doc run) ''folds'') (PList []))))) (\<lambda>fs.
             Inr (List.map_filter (fold_return h) fs))))"

definition sample_mean :: "rat list \<Rightarrow> rat" where
  "sample_mean xs = sum_list xs / of_nat (length xs)"

definition sample_variance :: "rat list \<Rightarrow> rat" where
  "sample_variance xs = sum_list (map (\<lambda>x. (x - sample_mean xs) ^ 2) xs) / (of_nat (length xs) - 1)"

definition compute_fold_return_std :: "host \<Rightarrow> collected_evidence \<Rightarrow> rat option result" where
  "compute_fold_return_std h e =
     res_bind (extract_fold_returns h (ev_candidate_wf_run e)) (\<lambda>c_folds.
       Inr (if length c_folds < 2 then None else Some (h_sqrt h (sample_variance c_folds))))"

definition std_or_fallback :: "rat option \<Rightarrow> rat" where
  "std_or_fallback fold_std =
     (case fold_std of
        Some s \<Rightarrow> if s > 0 then s else DEFAULT_FALLBACK_RETURN_STD_PCT
      | None \<Rightarrow> DEFAULT_FALLBACK_RETURN_STD_PCT)"

definition estimate_required_sample_size :: "rat \<Rightarrow> rat \<Rightarrow> rat \<Rightarrow> rat \<Rightarrow> int" where
  "estimate_required_sample_size sigma delta z_alpha z_beta =
     (if delta \<le> 0 \<or> sigma \<le> 0 then MIN_TRADES_BASELINE_FLOOR
      else max \<lceil>((z_alpha + z_beta) * sigma / delta) ^ 2\<rceil> 1)"

definition narrow_duration :: "rat \<Rightarrow> bool" where
  "narrow_duration days \<longleftrightarrow> 0 < days \<and> days < 2"

definition sufficiency_reasons :: "int \<Rightarrow> int \<Rightarrow> rat \<Rightarrow> string list \<Rightarrow> string list" where
  "sufficiency_reasons min_trades oos_windows duration_days regimes =
     (if min_trades < MIN_TRADES_BASELINE_FLOOR
      then [''Completed trade count ('' @ int_str min_trades @ '') is below minimum floor ('' @
            int_str MIN_TRADES_BASELINE_FLOOR @ '').''] else []) @
     (if oos_windows < MIN_INDEPENDENT_OOS_FOLDS
      then [''Independent test windows ('' @ int_str oos_windows @ '') below minimum ('' @
            int_str MIN_INDEPENDENT_OOS_FOLDS @ '').''] else []) @
     (if narrow_duration duration_days
      then [''Evaluation duration ('' @ fixed_str 1 duration_days @ ''d) is narrow (<2d); trades may be correlated.'']
      else []) @
     (if length regimes < 2 \<and> oos_windows < MIN_INDEPENDENT_OOS_FOLDS
      then [''Fewer than 2 distinct market regimes observed.''] else [])"

definition determine_sample_sufficiency :: "int \<Rightarrow> int \<Rightarrow> rat \<Rightarrow> string list \<Rightarrow> bool \<times> string" where
  "determine_sample_sufficiency min_trades oos_windows duration_days regimes =
     (let sufficient = (min_trades \<ge> MIN_TRADES_BASELINE_FLOOR \<and> oos_windows \<ge> MIN_INDEPENDENT_OOS_FOLDS \<and>
            \<not> narrow_duration duration_days \<and> (length regimes \<ge> 2 \<or> oos_windows \<ge> MIN_INDEPENDENT_OOS_FOLDS))
      in (sufficient,
          if sufficient
          then ''Sample satisfies heuristic thresholds across trade count, out-of-sample folds, and evaluation duration.''
          else join_with ''; '' (sufficiency_reasons min_trades oos_windows duration_days regimes)))"

definition evaluate_sample_size :: "host \<Rightarrow> collected_evidence \<Rightarrow> sample_size result" where
  "evaluate_sample_size h e =
     (let b_bt = doc (ev_baseline_bt_metrics e); c_bt = doc (ev_candidate_bt_metrics e);
          b_trades = extract_trade_count h b_bt; c_trades = extract_trade_count h c_bt;
          days = compute_duration_days e
      in res_bind (extract_oos_window_counts h e) (\<lambda>(oos_windows, profitable).
         res_bind (extract_covered_regimes h b_bt c_bt) (\<lambda>regimes.
         res_bind (compute_fold_return_std h e) (\<lambda>fold_std.
           let (sufficient, rationale) = determine_sample_sufficiency
                 (if b_trades > 0 \<and> c_trades > 0 then min b_trades c_trades else 0) oos_windows days regimes
           in Inr \<lparr>ss_baseline_trades = b_trades, ss_candidate_trades = c_trades,
                   ss_independent_oos_windows = oos_windows, ss_profitable_oos_windows = profitable,
                   ss_evaluation_duration_days = days,
                   ss_calendar_days_observed = (if days > 0 then \<lceil>days\<rceil> else 0),
                   ss_regimes_covered = regimes,
                   ss_estimated_required_sample_size = Some (estimate_required_sample_size
                     (std_or_fallback fold_std) DEFAULT_MIN_MEANINGFUL_RETURN_DELTA_PCT
                     Z_ALPHA_TWO_SIDED_95 Z_BETA_POWER_80),
                   ss_statistical_unit = ''independent_oos_windows'', ss_is_heuristic = True,
                   ss_sufficiency_rationale = rationale, ss_is_sample_sufficient = sufficient\<rparr>))))"

section \<open>Uncertainty\<close>

record confidence_interval =
  ci_metric_name :: string
  ci_point_estimate :: rat
  ci_lower_bound :: rat
  ci_upper_bound :: rat
  ci_confidence_level :: rat
  ci_method :: string

record candidate_search_summary =
  cs_search_algorithm :: string
  cs_candidates_evaluated_count :: int
  cs_search_space :: config
  cs_top_candidates :: "config list"
  cs_holdout_dataset_identified :: bool

record uncertainty_assessment =
  ua_intervals :: "confidence_interval list"
  ua_fold_return_std_pct :: "rat option"
  ua_multiple_testing_candidates_count :: int
  ua_selection_bias_warning :: bool
  ua_holdout_validated :: bool
  ua_candidate_search_summary :: "candidate_search_summary option"
  ua_missing_evidence :: "string list"
  ua_can_distinguish_from_noise :: bool

definition session_incomplete :: "string \<Rightarrow> backtest_session option \<Rightarrow> string list" where
  "session_incomplete who s =
     (case s of
        Some x \<Rightarrow> if se_status x \<noteq> STATUS_COMPLETED
                  then [who @ '' backtest session is incomplete (status='' @ execution_status_value (se_status x) @ '').'']
                  else []
      | None \<Rightarrow> [])"

definition run_incomplete :: "host \<Rightarrow> string \<Rightarrow> config option \<Rightarrow> string list" where
  "run_incomplete h who run =
     (case run of
        None \<Rightarrow> []
      | Some d \<Rightarrow>
          (let status = py_get d ''status''; txt = py_str (h_str h) status
           in if status \<noteq> PNone \<and> upper txt \<notin> {''COMPLETED'', ''EXECUTIONSTATUS.COMPLETED''}
              then [who @ '' walk-forward run is incomplete (status='' @ txt @ '').''] else []))"

definition detect_incomplete_or_failed_runs :: "host \<Rightarrow> collected_evidence \<Rightarrow> string list" where
  "detect_incomplete_or_failed_runs h e =
     session_incomplete ''Baseline'' (ev_baseline_session e) @ session_incomplete ''Candidate'' (ev_candidate_session e) @
     run_incomplete h ''Baseline'' (ev_baseline_wf_run e) @ run_incomplete h ''Candidate'' (ev_candidate_wf_run e)"

definition collect_missing_evidence :: "host \<Rightarrow> collected_evidence \<Rightarrow> sample_size \<Rightarrow> string list" where
  "collect_missing_evidence h e ss =
     detect_incomplete_or_failed_runs h e @
     (if \<not> truthy (ev_baseline_bt_metrics e) then [''Baseline backtest metrics are missing.''] else []) @
     (if \<not> truthy (ev_candidate_bt_metrics e) then [''Candidate backtest metrics are missing.''] else []) @
     (if \<not> truthy (ev_baseline_wf_run e) \<or> \<not> truthy (ev_candidate_wf_run e)
      then [''Comparable walk-forward out-of-sample runs are missing.''] else []) @
     (if ss_regimes_covered ss = [] then [''Market regime attribution breakdown is unavailable.''] else [])"

definition extract_paired_fold_diffs :: "host \<Rightarrow> collected_evidence \<Rightarrow> rat list result" where
  "extract_paired_fold_diffs h e =
     res_bind (extract_fold_returns h (ev_baseline_wf_run e)) (\<lambda>b_folds.
     res_bind (extract_fold_returns h (ev_candidate_wf_run e)) (\<lambda>c_folds.
       if b_folds \<noteq> [] \<and> c_folds \<noteq> [] \<and> length b_folds = length c_folds
       then Inr (map (\<lambda>(b, c). round_digits 4 (c - b)) (zip b_folds c_folds))
       else if length c_folds \<ge> 2
       then res_bind (summary_of (ev_baseline_wf_run e)) (\<lambda>b_summary.
              let b_avg = num_or_zero (extract_float h b_summary ''aggregate_oos_return_pct'');
                  per_fold_base = b_avg / of_nat (length c_folds)
              in Inr (map (\<lambda>c. round_digits 4 (c - per_fold_base)) c_folds))
       else Inr []))"

definition interval_around :: "string \<Rightarrow> string \<Rightarrow> rat \<Rightarrow> rat \<Rightarrow> confidence_interval" where
  "interval_around name method pt margin =
     \<lparr>ci_metric_name = name, ci_point_estimate = round_digits 4 pt, ci_lower_bound = round_digits 4 (pt - margin),
      ci_upper_bound = round_digits 4 (pt + margin), ci_confidence_level = 95/100, ci_method = method\<rparr>"

definition build_fold_interval :: "host \<Rightarrow> rat list \<Rightarrow> rat \<Rightarrow> sample_size \<Rightarrow> confidence_interval list \<times> bool" where
  "build_fold_interval h fold_diffs effective_z ss =
     (let margin = effective_z * h_sqrt h (sample_variance fold_diffs / of_nat (length fold_diffs));
          interval = interval_around ''oos_fold_return_delta_pct'' ''paired_walk_forward_fold_t_interval''
                       (sample_mean fold_diffs) margin
      in ([interval], ci_lower_bound interval > 0 \<and> ss_independent_oos_windows ss \<ge> MIN_INDEPENDENT_OOS_FOLDS))"

definition delta_of :: "metric_comparison option \<Rightarrow> rat option" where
  "delta_of m = (case m of None \<Rightarrow> None | Some c \<Rightarrow> mc_absolute_delta c)"

definition build_normal_interval ::
  "host \<Rightarrow> expected_benefit \<Rightarrow> sample_size \<Rightarrow> rat option \<Rightarrow> rat \<Rightarrow> confidence_interval list \<times> bool" where
  "build_normal_interval h benefit ss fold_std effective_z =
     (let pt = num_or_zero (mc_absolute_delta (eb_net_return_pct benefit));
          degrees_of_freedom = max (ss_independent_oos_windows ss) 2;
          margin = effective_z * (std_or_fallback fold_std / h_sqrt h (of_int degrees_of_freedom));
          interval = interval_around ''net_return_delta_pct'' ''normal_approximation_interval'' pt margin;
          oos_pos = (num_or_zero (delta_of (eb_out_of_sample_return_pct benefit)) > 0)
      in ([interval], ci_lower_bound interval > 0 \<and> ss_is_sample_sufficient ss \<and> oos_pos))"

definition compute_uncertainty_intervals ::
  "host \<Rightarrow> collected_evidence \<Rightarrow> expected_benefit \<Rightarrow> sample_size \<Rightarrow> rat option \<Rightarrow> rat
   \<Rightarrow> (confidence_interval list \<times> bool) result" where
  "compute_uncertainty_intervals h e benefit ss fold_std effective_z =
     res_bind (extract_paired_fold_diffs h e) (\<lambda>fold_diffs.
       Inr (if length fold_diffs \<ge> 2 then build_fold_interval h fold_diffs effective_z ss
            else if mc_absolute_delta (eb_net_return_pct benefit) \<noteq> None \<and> ss_candidate_trades ss \<ge> 2
            then build_normal_interval h benefit ss fold_std effective_z
            else ([], False)))"

definition evaluate_uncertainty ::
  "host \<Rightarrow> collected_evidence \<Rightarrow> expected_benefit \<Rightarrow> sample_size \<Rightarrow> uncertainty_assessment result" where
  "evaluate_uncertainty h e benefit ss =
     (let candidates_tested = max (ev_total_candidates_tested e) 1;
          bias = (candidates_tested > 1);
          holdout = ev_holdout_validated e;
          missing_evidence = collect_missing_evidence h e ss @
            (if bias \<and> \<not> holdout
             then [''Selected across multiple candidates without independent holdout dataset validation; '' @
                   ''threshold adjustment alone cannot rule out data-mining selection bias.''] else []);
          effective_z = (if bias then Z_ALPHA_TWO_SIDED_95 + 35/100 * h_log h (of_int candidates_tested)
                         else Z_ALPHA_TWO_SIDED_95)
      in res_bind (compute_fold_return_std h e) (\<lambda>fold_std.
         res_bind (compute_uncertainty_intervals h e benefit ss fold_std effective_z) (\<lambda>(intervals, can_distinguish).
           Inr \<lparr>ua_intervals = intervals, ua_fold_return_std_pct = map_option (round_digits 4) fold_std,
                ua_multiple_testing_candidates_count = candidates_tested, ua_selection_bias_warning = bias,
                ua_holdout_validated = holdout,
                ua_candidate_search_summary =
                  (if bias \<or> ev_candidate_search_history e \<noteq> []
                   then Some \<lparr>cs_search_algorithm = (if ev_candidate_search_history e \<noteq> []
                                 then ''heuristic_walk_forward'' else ''single_candidate''),
                              cs_candidates_evaluated_count = candidates_tested, cs_search_space = [],
                              cs_top_candidates = ev_candidate_search_history e,
                              cs_holdout_dataset_identified = holdout\<rparr>
                   else None),
                ua_missing_evidence = missing_evidence, ua_can_distinguish_from_noise = can_distinguish\<rparr>)))"

section \<open>Change of risk\<close>

record risk_delta =
  rd_max_drawdown_pct_delta :: "rat option"
  rd_downside_deviation_pct_delta :: "rat option"
  rd_annualized_volatility_pct_delta :: "rat option"
  rd_peak_exposure_pct_delta :: "rat option"
  rd_avg_exposure_pct_delta :: "rat option"
  rd_concentration_hhi_delta :: "rat option"
  rd_largest_loss_delta :: "rat option"
  rd_max_consecutive_losses_delta :: "int option"
  rd_risk_limit_breaches :: "string list"
  rd_risk_increased :: bool
  rd_downside_uncertainty_high :: bool

definition compute_effective_drawdown_delta :: "host \<Rightarrow> collected_evidence \<Rightarrow> config \<Rightarrow> config \<Rightarrow> rat option result" where
  "compute_effective_drawdown_delta h e b_bt c_bt =
     (case compute_raw_delta (extract_float h b_bt ''max_drawdown_pct'') (extract_float h c_bt ''max_drawdown_pct'') of
        Some d \<Rightarrow> Inr (Some d)
      | None \<Rightarrow>
          res_bind (summary_of (ev_baseline_wf_run e)) (\<lambda>b. res_bind (summary_of (ev_candidate_wf_run e)) (\<lambda>c.
            Inr (compute_raw_delta (extract_float h b ''max_oos_drawdown_pct'')
                   (extract_float h c ''max_oos_drawdown_pct'')))))"

definition compute_consecutive_losses_delta :: "host \<Rightarrow> config \<Rightarrow> config \<Rightarrow> int option" where
  "compute_consecutive_losses_delta h b_bt c_bt =
     (let key = ''max_consecutive_losses''
      in case (extract_nested_float h b_bt key (''behavior'', key), extract_nested_float h c_bt key (''behavior'', key)) of
           (Some b, Some c) \<Rightarrow> Some (py_trunc (c - b))
         | _ \<Rightarrow> None)"

definition configured_drawdown_limit :: "host \<Rightarrow> config option \<Rightarrow> rat option result" where
  "configured_drawdown_limit h cfg =
     (case cfg of
        None \<Rightarrow> Inr None
      | Some d \<Rightarrow> res_bind (section_of d ''portfolio'') (\<lambda>p. Inr (py_float h (py_get p ''max_drawdown_pct''))))"

definition resolve_max_drawdown_limit :: "host \<Rightarrow> collected_evidence \<Rightarrow> rat result" where
  "resolve_max_drawdown_limit h e =
     res_bind (configured_drawdown_limit h (ev_candidate_config e)) (\<lambda>c.
       case c of
         Some limit \<Rightarrow> Inr limit
       | None \<Rightarrow> res_bind (configured_drawdown_limit h (ev_baseline_config e)) (\<lambda>b.
                   Inr (opt_or b DEFAULT_MAX_DRAWDOWN_LIMIT_PCT)))"

definition drawdown_breach :: "string \<Rightarrow> rat option \<Rightarrow> rat \<Rightarrow> string list" where
  "drawdown_breach what dd limit =
     (case dd of
        Some x \<Rightarrow> if x > limit
                  then [''Candidate '' @ what @ '' max drawdown ('' @ fixed_str 2 x @ ''%) exceeds limit ('' @
                        fixed_str 2 limit @ ''%).''] else []
      | None \<Rightarrow> [])"

definition evaluate_risk_breaches :: "host \<Rightarrow> collected_evidence \<Rightarrow> config \<Rightarrow> string list result" where
  "evaluate_risk_breaches h e c_bt =
     res_bind (resolve_max_drawdown_limit h e) (\<lambda>limit.
     res_bind (summary_of (ev_candidate_wf_run e)) (\<lambda>c.
       Inr (drawdown_breach ''backtest'' (extract_float h c_bt ''max_drawdown_pct'') limit @
            drawdown_breach ''out-of-sample'' (extract_float h c ''max_oos_drawdown_pct'') limit)))"

definition exceeds :: "rat option \<Rightarrow> rat \<Rightarrow> bool" where
  "exceeds x limit \<longleftrightarrow> (case x of Some v \<Rightarrow> v > limit | None \<Rightarrow> False)"

definition evaluate_risk_changes :: "host \<Rightarrow> collected_evidence \<Rightarrow> risk_delta result" where
  "evaluate_risk_changes h e =
     (let b_bt = doc (ev_baseline_bt_metrics e); c_bt = doc (ev_candidate_bt_metrics e);
          delta = (\<lambda>sec key. compute_raw_delta (extract_nested_float h b_bt key (sec, key))
                     (extract_nested_float h c_bt key (sec, key)));
          vol_delta = delta ''risk_adjusted'' ''annualized_volatility_pct'';
          peak_exp_delta = delta ''portfolio'' ''peak_exposure_pct''
      in res_bind (compute_effective_drawdown_delta h e b_bt c_bt) (\<lambda>dd_delta.
         res_bind (evaluate_risk_breaches h e c_bt) (\<lambda>breaches.
           Inr \<lparr>rd_max_drawdown_pct_delta = dd_delta,
                rd_downside_deviation_pct_delta = delta ''risk_adjusted'' ''downside_deviation_pct'',
                rd_annualized_volatility_pct_delta = vol_delta, rd_peak_exposure_pct_delta = peak_exp_delta,
                rd_avg_exposure_pct_delta = delta ''portfolio'' ''avg_exposure_pct'',
                rd_concentration_hhi_delta = delta ''portfolio'' ''concentration_hhi'',
                rd_largest_loss_delta = delta ''behavior'' ''largest_loss'',
                rd_max_consecutive_losses_delta = compute_consecutive_losses_delta h b_bt c_bt,
                rd_risk_limit_breaches = breaches,
                rd_risk_increased = (exceeds dd_delta SIGNIFICANT_DRAWDOWN_INCREASE_PCT \<or> exceeds vol_delta 5 \<or>
                  exceeds peak_exp_delta 10 \<or> breaches \<noteq> []),
                rd_downside_uncertainty_high = (\<not> truthy (ev_candidate_bt_metrics e) \<or>
                  \<not> truthy (ev_candidate_wf_run e) \<or> dd_delta = None)\<rparr>)))"

end
