(* ===== verification/Proposals.thy ===== *)
theory Proposals
  imports Evidence
begin

text \<open>
  Proposals from evidence: the validator (\<open>src/src/proposals/proposal_validator.py\<close>) and the
  collection of the evidence (\<open>src/src/proposals/evidence_collector.py\<close>).

  What the database and the version store return are arguments.  The rendered narrative of a
  proposal is left out.  The theorems say what a proposal has shown when it is promoted, and
  that a proposal from an experiment with several candidates never is.
\<close>

section \<open>The validator\<close>

datatype evidence_status = SUFFICIENT | WEAK | INSUFFICIENT | INCONCLUSIVE | INCOMPARABLE

datatype proposal_recommendation = ACCEPT_FOR_TESTING | PROMOTE_TO_APPROVAL | REJECT | INSUFFICIENT_EVIDENCE

record evidence_reference =
  er_experiment_id :: "string option"
  er_baseline_backtest_id :: "string option"
  er_candidate_backtest_id :: "string option"
  er_baseline_walk_forward_id :: "string option"
  er_candidate_walk_forward_id :: "string option"
  er_dataset_id :: "string option"

record evidence_based_proposal =
  pr_id :: string
  pr_title :: string
  pr_ticker_symbol :: string
  pr_hypothesis :: string
  pr_proposed_changes_summary :: string
  pr_baseline_commit :: string
  pr_candidate_commit :: "string option"
  pr_candidate_id :: "string option"
  pr_evidence_refs :: evidence_reference
  pr_evaluation_period :: "period_spec option"
  pr_market_data_provenance :: "string option"
  pr_execution_assumptions :: config
  pr_comparability :: comparability_report
  pr_expected_benefit :: expected_benefit
  pr_sample_size :: sample_size
  pr_uncertainty :: uncertainty_assessment
  pr_risk_changes :: risk_delta
  pr_limitations :: "string list"
  pr_evidence_status :: evidence_status
  pr_recommendation :: proposal_recommendation
  pr_validation_plan :: "string list"
  pr_calculation_version :: string
  pr_triggered_by :: "config option"

definition to_id_list :: "evidence_reference \<Rightarrow> string list" where
  "to_id_list r =
     map the (filter truthy
       [er_experiment_id r, er_baseline_backtest_id r, er_candidate_backtest_id r,
        er_baseline_walk_forward_id r, er_candidate_walk_forward_id r, er_dataset_id r])"

definition build_evidence_refs :: "collected_evidence \<Rightarrow> evidence_reference" where
  "build_evidence_refs e =
     \<lparr>er_experiment_id = ev_experiment_id e, er_baseline_backtest_id = ev_baseline_backtest_id e,
      er_candidate_backtest_id = ev_candidate_backtest_id e,
      er_baseline_walk_forward_id = ev_baseline_walk_forward_id e,
      er_candidate_walk_forward_id = ev_candidate_walk_forward_id e, er_dataset_id = ev_dataset_id e\<rparr>"

definition noted :: "bool \<Rightarrow> string \<Rightarrow> string list" where
  "noted c note = (if c then [note] else [])"

definition narrow_period :: "sample_size \<Rightarrow> bool" where
  "narrow_period ss \<longleftrightarrow> narrow_duration (ss_evaluation_duration_days ss)"

definition required_or :: "sample_size \<Rightarrow> int \<Rightarrow> int" where
  "required_or ss dflt =
     (case ss_estimated_required_sample_size ss of Some n \<Rightarrow> if n \<noteq> 0 then n else dflt | None \<Rightarrow> dflt)"

definition build_limitations ::
  "collected_evidence \<Rightarrow> comparability_report \<Rightarrow> expected_benefit \<Rightarrow> sample_size \<Rightarrow> uncertainty_assessment
   \<Rightarrow> risk_delta \<Rightarrow> string list" where
  "build_limitations e report benefit ss unc risk =
     map (\<lambda>d. ''Comparability discrepancy: '' @ d) (cr_discrepancies report) @
     ua_missing_evidence unc @
     noted (ss_independent_oos_windows ss < MIN_INDEPENDENT_OOS_FOLDS)
       (''Insufficient out-of-sample walk-forward windows ('' @ int_str (ss_independent_oos_windows ss) @
        '' observed vs. '' @ int_str MIN_INDEPENDENT_OOS_FOLDS @ '' required).'') @
     noted (\<not> ss_is_sample_sufficient ss)
       (''Sample size ('' @ int_str (ss_candidate_trades ss) @ '' candidate trades across '' @
        int_str (ss_independent_oos_windows ss) @ '' windows) is below the estimated threshold ('' @
        int_str (required_or ss 15) @ (if ss_statistical_unit ss \<noteq> [] then '' '' @ ss_statistical_unit ss else []) @
        '') needed to distinguish the expected improvement from noise.'') @
     noted (length (ss_regimes_covered ss) < 2)
       ''Evaluation covers fewer than 2 distinct market regimes; performance may be regime-dependent.'' @
     noted (narrow_period ss)
       (''Evaluation spans a narrow market period (< 2 days); trades are likely correlated '' @
        ''within a single market episode.'') @
     noted (ua_selection_bias_warning unc)
       (''Multiple strategy candidates ('' @ int_str (ua_multiple_testing_candidates_count unc) @
        '') were evaluated in this experiment; selection bias and overfitting risk are elevated.'') @
     noted (rd_risk_increased risk \<and> exceeds (mc_absolute_delta (eb_net_return_pct benefit)) 0)
       (''Higher candidate return is accompanied by increased drawdown or exposure; '' @
        ''return gain may be driven by higher risk rather than superior edge.'') @
     map (\<lambda>b. ''Risk limit breach: '' @ b) (rd_risk_limit_breaches risk) @
     noted (ev_execution_assumptions e = [])
       ''Explicit fee, slippage, and latency assumptions were not recorded on the specification.''"

definition evaluate_oos_sample_verdict ::
  "sample_size \<Rightarrow> uncertainty_assessment \<Rightarrow> rat option \<Rightarrow> rat option \<Rightarrow> evidence_status \<times> proposal_recommendation" where
  "evaluate_oos_sample_verdict ss unc bt_delta oos_delta =
     (if ss_independent_oos_windows ss < MIN_INDEPENDENT_OOS_FOLDS
      then if \<not> narrow_period ss \<and> exceeds bt_delta 0 \<and> ss_candidate_trades ss \<ge> 15
           then (WEAK, ACCEPT_FOR_TESTING)
           else (INSUFFICIENT, INSUFFICIENT_EVIDENCE)
      else if \<not> ss_is_sample_sufficient ss \<or> \<not> ua_can_distinguish_from_noise unc
      then if num_or_zero oos_delta > 0 \<and> num_or_zero bt_delta > 0
           then (WEAK, ACCEPT_FOR_TESTING)
           else (INSUFFICIENT, INSUFFICIENT_EVIDENCE)
      else (SUFFICIENT, PROMOTE_TO_APPROVAL))"

definition graded :: "sample_size \<Rightarrow> evidence_status" where
  "graded ss = (if ss_is_sample_sufficient ss then SUFFICIENT else WEAK)"

definition not_above_zero :: "rat option \<Rightarrow> bool" where
  "not_above_zero x \<longleftrightarrow> (case x of Some v \<Rightarrow> v \<le> 0 | None \<Rightarrow> False)"

definition determine_proposal_verdict ::
  "host \<Rightarrow> collected_evidence \<Rightarrow> comparability_report \<Rightarrow> expected_benefit \<Rightarrow> sample_size \<Rightarrow> uncertainty_assessment
   \<Rightarrow> risk_delta \<Rightarrow> evidence_status \<times> proposal_recommendation" where
  "determine_proposal_verdict h e report benefit ss unc risk =
     (let bt_delta = mc_absolute_delta (eb_net_return_pct benefit);
          oos_delta = delta_of (eb_out_of_sample_return_pct benefit)
      in if cr_verification_status report = MISMATCH then (INCOMPARABLE, INSUFFICIENT_EVIDENCE)
         else if detect_incomplete_or_failed_runs h e \<noteq> [] then (INSUFFICIENT, INSUFFICIENT_EVIDENCE)
         else if rd_risk_limit_breaches risk \<noteq> [] then (graded ss, REJECT)
         else if \<not> cr_is_comparable report \<or> cr_verification_status report = UNKNOWN
         then (INSUFFICIENT, INSUFFICIENT_EVIDENCE)
         else if \<not> truthy (ev_baseline_bt_metrics e) \<or> \<not> truthy (ev_candidate_bt_metrics e)
         then (INSUFFICIENT, INSUFFICIENT_EVIDENCE)
         else if not_above_zero bt_delta \<and> (oos_delta = None \<or> not_above_zero oos_delta) then (graded ss, REJECT)
         else if (case oos_delta of Some d \<Rightarrow> d < 0 | None \<Rightarrow> False) then (WEAK, REJECT)
         else if rd_risk_increased risk \<or> ua_selection_bias_warning unc \<and> \<not> ua_holdout_validated unc
         then (WEAK, ACCEPT_FOR_TESTING)
         else evaluate_oos_sample_verdict ss unc bt_delta oos_delta)"

definition approval_step :: string where
  "approval_step =
     ''Require explicit human approval via Rio's configuration approval workflow before applying any change to live trading.''"

definition build_validation_plan ::
  "evidence_status \<Rightarrow> proposal_recommendation \<Rightarrow> sample_size \<Rightarrow> uncertainty_assessment \<Rightarrow> risk_delta \<Rightarrow> string list" where
  "build_validation_plan status recommendation ss unc risk =
     (if status = INCOMPARABLE
      then [''Re-run baseline and candidate backtests on the exact same dataset, date range, '' @
            ''initial balance, and fee/slippage settings.'']
      else if recommendation = REJECT
      then [''Do not promote candidate configuration; archive experiment findings and '' @
            ''revise strategy parameters to respect drawdown and risk constraints.'']
      else noted (ss_independent_oos_windows ss < MIN_INDEPENDENT_OOS_FOLDS)
             (''Run a walk-forward evaluation with at least '' @ int_str MIN_INDEPENDENT_OOS_FOLDS @
              '' independent out-of-sample folds using identical fee and slippage assumptions.'') @
           noted (\<not> ss_is_sample_sufficient ss)
             (''Extend the historical evaluation window to capture at least '' @ int_str (required_or ss 30) @
              '' completed trades across multiple market regimes.'') @
           noted (ua_selection_bias_warning unc)
             (''Validate the top candidate on a held-out time period not used during '' @
              ''multi-candidate weight selection.'') @
           noted (rd_downside_uncertainty_high risk \<or> rd_risk_increased risk)
             ''Verify stop-loss and portfolio exposure guardrails remain active before any live test.'' @
           [approval_step])"

definition text_or :: "string option \<Rightarrow> string \<Rightarrow> string" where
  "text_or t dflt = (if truthy t then the t else dflt)"

definition default_title :: "collected_evidence \<Rightarrow> string" where
  "default_title e =
     ''Adjust '' @ ev_ticker_symbol e @ '' strategy configuration ('' @
     text_or (py_or (ev_candidate_name e) (ev_candidate_id e)) ''Candidate'' @ '')''"

definition default_hypothesis :: "collected_evidence \<Rightarrow> string" where
  "default_hypothesis e =
     (if ev_config_changes e \<noteq> []
      then ''Modifying '' @ join_with '', '' (map ch_path (take 3 (ev_config_changes e))) @ '' on '' @ ev_ticker_symbol e @
           '' may improve risk-adjusted net expectancy and out-of-sample stability compared to baseline commit '' @
           take 8 (ev_baseline_commit e) @ ''.''
      else ''Applying candidate configuration to '' @ ev_ticker_symbol e @
           '' may improve net expectancy and reduce drawdown relative to baseline '' @
           take 8 (ev_baseline_commit e) @ ''.'')"

definition summarize_changes :: "host \<Rightarrow> collected_evidence \<Rightarrow> string" where
  "summarize_changes h e =
     (if ev_config_changes e = [] then ''No explicit configuration diff resolved.''
      else join_with ''; '' (map (\<lambda>c. ch_path c @ '': '' @ h_repr h (ch_old_value c) @ '' -> '' @ h_repr h (ch_new_value c))
             (take 5 (ev_config_changes e))))"

definition build_and_validate_proposal ::
  "host \<Rightarrow> string \<Rightarrow> collected_evidence \<Rightarrow> string option \<Rightarrow> evidence_based_proposal result" where
  "build_and_validate_proposal h fresh_id e proposal_id =
     res_bind (evaluate_comparability e) (\<lambda>report.
     res_bind (evaluate_expected_benefit h e) (\<lambda>benefit.
     res_bind (evaluate_sample_size h e) (\<lambda>ss.
     res_bind (evaluate_uncertainty h e benefit ss) (\<lambda>unc.
     res_bind (evaluate_risk_changes h e) (\<lambda>risk.
       let (status, recommendation) = determine_proposal_verdict h e report benefit ss unc risk
       in Inr \<lparr>pr_id = text_or proposal_id (''prop_val_'' @ take 10 fresh_id),
               pr_title = text_or (ev_title e) (default_title e), pr_ticker_symbol = ev_ticker_symbol e,
               pr_hypothesis = text_or (ev_hypothesis e) (default_hypothesis e),
               pr_proposed_changes_summary = summarize_changes h e,
               pr_baseline_commit = ev_baseline_commit e, pr_candidate_commit = ev_candidate_commit e,
               pr_candidate_id = ev_candidate_id e, pr_evidence_refs = build_evidence_refs e,
               pr_evaluation_period = ev_evaluation_period e,
               pr_market_data_provenance = ev_market_data_provenance e,
               pr_execution_assumptions = ev_execution_assumptions e, pr_comparability = report,
               pr_expected_benefit = benefit, pr_sample_size = ss, pr_uncertainty = unc, pr_risk_changes = risk,
               pr_limitations = build_limitations e report benefit ss unc risk, pr_evidence_status = status,
               pr_recommendation = recommendation,
               pr_validation_plan = build_validation_plan status recommendation ss unc risk,
               pr_calculation_version = ''1.0.0'', pr_triggered_by = ev_triggered_by e\<rparr>)))))"

section \<open>Collecting evidence\<close>

text \<open>
  \<open>sr_experiment\<close>, \<open>sr_session\<close>, \<open>sr_metrics\<close> and \<open>sr_run\<close> are the reads of the repositories,
  \<open>sr_checkout\<close> and \<open>sr_diff\<close> those of the version store when one is configured, and \<open>sr_datetime\<close>
  the conversion of a JSON value to a date.  An experiment's \<open>execution\<close> is a dictionary or absent.
\<close>

record stored_runs =
  sr_experiment :: "string \<Rightarrow> config option"
  sr_session :: "pyval \<Rightarrow> backtest_session option"
  sr_metrics :: "pyval \<Rightarrow> config option"
  sr_run :: "pyval \<Rightarrow> config option"
  sr_vcs :: bool
  sr_checkout :: "string \<Rightarrow> config result"
  sr_diff :: "string \<Rightarrow> string \<Rightarrow> config_change list result"
  sr_datetime :: "pyval \<Rightarrow> timestamp option result"

record run_records =
  rr_base_session :: "backtest_session option"
  rr_cand_session :: "backtest_session option"
  rr_base_bt_metrics :: "config option"
  rr_cand_bt_metrics :: "config option"
  rr_base_wf_run :: "config option"
  rr_cand_wf_run :: "config option"

definition BASELINE_CANDIDATE_ID :: string where "BASELINE_CANDIDATE_ID = ''cand_current''"

definition fetch_experiment_dict :: "stored_runs \<Rightarrow> string \<Rightarrow> config result" where
  "fetch_experiment_dict st experiment_id =
     (if truthy (sr_experiment st experiment_id) then Inr (the (sr_experiment st experiment_id)) else Inl ValueError)"

definition load_if :: "(pyval \<Rightarrow> 'a option) \<Rightarrow> pyval \<Rightarrow> 'a option" where
  "load_if f i = (if py_truthy i then f i else None)"

definition load_run_records :: "stored_runs \<Rightarrow> pyval \<Rightarrow> pyval \<Rightarrow> pyval \<Rightarrow> pyval \<Rightarrow> run_records" where
  "load_run_records st base_bt_id cand_bt_id base_wf_id cand_wf_id =
     \<lparr>rr_base_session = load_if (sr_session st) base_bt_id, rr_cand_session = load_if (sr_session st) cand_bt_id,
      rr_base_bt_metrics = load_if (sr_metrics st) base_bt_id, rr_cand_bt_metrics = load_if (sr_metrics st) cand_bt_id,
      rr_base_wf_run = load_if (sr_run st) base_wf_id, rr_cand_wf_run = load_if (sr_run st) cand_wf_id\<rparr>"

definition extract_session_metadata ::
  "host \<Rightarrow> backtest_session option \<Rightarrow> period_spec option \<times> config \<times> string option" where
  "extract_session_metadata h s =
     (case s of
        None \<Rightarrow> (None, [], None)
      | Some x \<Rightarrow>
          (let rq = se_request x; ex = br_execution rq; src = br_data_source rq
           in (Some \<lparr>pe_start_time = br_start_time rq, pe_end_time = br_end_time rq\<rparr>,
               [(''latency_ms'', PNum (ec_latency_ms ex)), (''slippage_ticks'', PInt (ec_slippage_ticks ex)),
                (''fee_rate'', PStr (h_str h (PNum (ec_fee_rate ex))))],
               Some (text_or (dr_path src) (data_source_value (dr_source_type src))))))"

text \<open>The first entry of a list of dictionaries with the given \<open>candidate_id\<close>.\<close>

fun find_candidate :: "pyval list \<Rightarrow> string \<Rightarrow> config option result" where
  "find_candidate [] cid = Inr None"
| "find_candidate (b # bs) cid =
     res_bind (py_dict b) (\<lambda>d. if py_eq (py_get d ''candidate_id'') (PStr cid) then Inr (Some d) else find_candidate bs cid)"

definition list_field :: "config \<Rightarrow> string \<Rightarrow> pyval" where
  "list_field d k = val_or (py_get d k) (PList [])"

definition find_in :: "config \<Rightarrow> string \<Rightarrow> string \<Rightarrow> config result" where
  "find_in d k cid =
     res_bind (py_iter (list_field d k)) (\<lambda>xs. res_bind (find_candidate xs cid) (\<lambda>r. Inr (doc r)))"

definition extract_dataset_id :: "config \<Rightarrow> pyval result" where
  "extract_dataset_id spec =
     res_bind (section_of spec ''data_source'') (\<lambda>ds. Inr (val_or (py_get ds ''dataset_id'') (py_get ds ''path'')))"

definition extract_provenance :: "host \<Rightarrow> config \<Rightarrow> string option result" where
  "extract_provenance h spec =
     res_bind (section_of spec ''data_source'') (\<lambda>ds. res_bind (extract_dataset_id spec) (\<lambda>i.
       let v = val_or i (py_get ds ''source_type'')
       in Inr (if py_truthy v then Some (py_str (h_str h) v) else None)))"

definition parse_period :: "stored_runs \<Rightarrow> pyval \<Rightarrow> period_spec option result" where
  "parse_period st raw =
     (if \<not> py_truthy raw then Inr None
      else res_bind (py_dict raw) (\<lambda>p.
           res_bind (sr_datetime st (py_get p ''start_time'')) (\<lambda>start.
           res_bind (sr_datetime st (py_get p ''end_time'')) (\<lambda>stop.
             Inr (Some \<lparr>pe_start_time = start, pe_end_time = stop\<rparr>)))))"

definition ok_or_none :: "'a result \<Rightarrow> 'a option" where
  "ok_or_none r = (case r of Inl _ \<Rightarrow> None | Inr x \<Rightarrow> Some x)"

definition weight_changes :: "config \<Rightarrow> config_change list" where
  "weight_changes weights =
     map (\<lambda>(name, w). \<lparr>ch_path = ''strategies.'' @ name @ ''.weight'', ch_old_value = PNone, ch_new_value = w,
                      ch_reason = ''Candidate weight adjustment for '' @ name\<rparr>) weights"

definition resolve_vcs_configs ::
  "stored_runs \<Rightarrow> string \<Rightarrow> string option \<Rightarrow> config option
   \<Rightarrow> (config option \<times> config option \<times> config_change list) result" where
  "resolve_vcs_configs st baseline_commit candidate_commit candidate_spec =
     (let vcs = sr_vcs st; cand = truthy candidate_commit;
          baseline_cfg = (if vcs then ok_or_none (sr_checkout st baseline_commit) else None);
          candidate_cfg = (if vcs \<and> cand then ok_or_none (sr_checkout st (the candidate_commit)) else None);
          changes = (if vcs \<and> baseline_commit \<noteq> [] \<and> cand \<and> Some baseline_commit \<noteq> candidate_commit
                     then opt_or (ok_or_none (sr_diff st baseline_commit (the candidate_commit))) [] else []);
          weights = py_get (doc candidate_spec) ''strategy_weights''
      in if changes = [] \<and> truthy candidate_spec \<and> py_truthy weights
         then res_bind (py_dict weights) (\<lambda>ws. Inr (baseline_cfg, candidate_cfg, weight_changes ws))
         else Inr (baseline_cfg, candidate_cfg, changes))"

text \<open>The validation of the model: a text field takes texts only.\<close>

fun text_field :: "pyval \<Rightarrow> string result" where
  "text_field (PStr s) = Inr s"
| "text_field _ = Inl ValueError"

fun optional_text :: "pyval \<Rightarrow> string option result" where
  "optional_text PNone = Inr None"
| "optional_text (PStr s) = Inr (Some s)"
| "optional_text _ = Inl ValueError"

fun optional_doc :: "pyval \<Rightarrow> config option result" where
  "optional_doc PNone = Inr None"
| "optional_doc (PDict d) = Inr (Some d)"
| "optional_doc _ = Inl ValueError"

definition text_or_value :: "string option \<Rightarrow> pyval \<Rightarrow> pyval" where
  "text_or_value t v = (if truthy t then PStr (the t) else v)"

definition candidates_tested :: "config \<Rightarrow> config \<Rightarrow> int result" where
  "candidates_tested spec exp_dict =
     res_bind (py_len (list_field spec ''candidates'')) (\<lambda>n. res_bind (py_len (list_field exp_dict ''run_bindings'')) (\<lambda>m.
       Inr (max (max (int n) (int m)) 1)))"

definition base_commit_of :: "config \<Rightarrow> config \<Rightarrow> pyval" where
  "base_commit_of exp_dict spec =
     val_or (val_or (py_get exp_dict ''base_commit_hash'') (py_get spec ''base_commit_hash'')) (PStr ''HEAD'')"

definition collect_from_experiment ::
  "host \<Rightarrow> stored_runs \<Rightarrow> string \<Rightarrow> string \<Rightarrow> string option \<Rightarrow> string option \<Rightarrow> config option \<Rightarrow> collected_evidence result" where
  "collect_from_experiment h st experiment_id candidate_id hypothesis title triggered_by =
     res_bind (fetch_experiment_dict st experiment_id) (\<lambda>exp_dict.
     res_bind (section_of exp_dict ''spec'') (\<lambda>spec.
     res_bind (find_in exp_dict ''run_bindings'' BASELINE_CANDIDATE_ID) (\<lambda>base_bind.
     res_bind (find_in exp_dict ''run_bindings'' candidate_id) (\<lambda>cand_bind.
     res_bind (find_in spec ''candidates'' candidate_id) (\<lambda>cand_spec.
     let base_bt = py_get base_bind ''backtest_session_id''; cand_bt = py_get cand_bind ''backtest_session_id'';
         base_wf = py_get base_bind ''walk_forward_run_id''; cand_wf = py_get cand_bind ''walk_forward_run_id'';
         rr = load_run_records st base_bt cand_bt base_wf cand_wf
     in res_bind (text_field (base_commit_of exp_dict spec)) (\<lambda>base_commit.
     res_bind (optional_text (py_get cand_spec ''candidate_commit_hash'')) (\<lambda>cand_commit.
     res_bind (resolve_vcs_configs st base_commit cand_commit (Some cand_spec)) (\<lambda>(base_cfg, cand_cfg, changes).
     res_bind (text_field (get_or exp_dict ''ticker_symbol'' (PStr ''UNKNOWN''))) (\<lambda>ticker.
     res_bind (optional_text (val_or (py_get cand_spec ''name'') (PStr candidate_id))) (\<lambda>cand_name.
     res_bind (optional_text (py_get exp_dict ''name'')) (\<lambda>exp_name.
     res_bind (candidates_tested spec exp_dict) (\<lambda>total_tested.
     res_bind (optional_text base_bt) (\<lambda>base_bt_id. res_bind (optional_text cand_bt) (\<lambda>cand_bt_id.
     res_bind (optional_text base_wf) (\<lambda>base_wf_id. res_bind (optional_text cand_wf) (\<lambda>cand_wf_id.
     res_bind (extract_dataset_id spec) (\<lambda>ds. res_bind (optional_text ds) (\<lambda>dataset.
     res_bind (parse_period st (py_get spec ''period'')) (\<lambda>eval_period.
     res_bind (extract_provenance h spec) (\<lambda>provenance.
     res_bind (section_of spec ''execution'') (\<lambda>execution.
     res_bind (optional_text (text_or_value hypothesis (py_get cand_spec ''description''))) (\<lambda>hyp.
     res_bind (if truthy triggered_by then Inr triggered_by else optional_doc (py_get spec ''triggered_by'')) (\<lambda>trigger.
       Inr \<lparr>ev_ticker_symbol = ticker, ev_baseline_commit = base_commit, ev_candidate_commit = cand_commit,
            ev_candidate_id = Some candidate_id, ev_candidate_name = cand_name,
            ev_experiment_id = Some experiment_id, ev_experiment_name = exp_name,
            ev_total_candidates_tested = total_tested, ev_candidate_search_history = [],
            ev_holdout_validated = False, ev_dataset_id = dataset, ev_baseline_backtest_id = base_bt_id,
            ev_baseline_walk_forward_id = base_wf_id, ev_candidate_backtest_id = cand_bt_id,
            ev_candidate_walk_forward_id = cand_wf_id, ev_baseline_session = rr_base_session rr,
            ev_candidate_session = rr_cand_session rr, ev_baseline_bt_metrics = rr_base_bt_metrics rr,
            ev_candidate_bt_metrics = rr_cand_bt_metrics rr, ev_baseline_wf_run = rr_base_wf_run rr,
            ev_candidate_wf_run = rr_cand_wf_run rr, ev_config_changes = changes, ev_baseline_config = base_cfg,
            ev_candidate_config = cand_cfg, ev_evaluation_period = eval_period,
            ev_market_data_provenance = provenance, ev_execution_assumptions = execution,
            ev_hypothesis = hyp, ev_title = title, ev_triggered_by = trigger\<rparr>)))))))))))))))))))))))"

record commit_proposal_request =
  cq_ticker_symbol :: string
  cq_baseline_commit :: string
  cq_candidate_commit :: "string option"
  cq_hypothesis :: "string option"
  cq_title :: "string option"
  cq_baseline_backtest_id :: "string option"
  cq_candidate_backtest_id :: "string option"
  cq_baseline_walk_forward_id :: "string option"
  cq_candidate_walk_forward_id :: "string option"
  cq_triggered_by :: "config option"

definition text_value :: "string option \<Rightarrow> pyval" where
  "text_value t = (case t of None \<Rightarrow> PNone | Some s \<Rightarrow> PStr s)"

definition collect_from_commits ::
  "host \<Rightarrow> stored_runs \<Rightarrow> commit_proposal_request \<Rightarrow> collected_evidence result" where
  "collect_from_commits h st req =
     (let rr = load_run_records st (text_value (cq_baseline_backtest_id req)) (text_value (cq_candidate_backtest_id req))
            (text_value (cq_baseline_walk_forward_id req)) (text_value (cq_candidate_walk_forward_id req));
          (eval_period, assumptions, provenance) = extract_session_metadata h (rr_base_session rr)
      in res_bind (resolve_vcs_configs st (cq_baseline_commit req) (cq_candidate_commit req) None)
           (\<lambda>(base_cfg, cand_cfg, changes).
         Inr \<lparr>ev_ticker_symbol = cq_ticker_symbol req, ev_baseline_commit = cq_baseline_commit req,
              ev_candidate_commit = cq_candidate_commit req, ev_candidate_id = None, ev_candidate_name = None,
              ev_experiment_id = None, ev_experiment_name = None, ev_total_candidates_tested = 1,
              ev_candidate_search_history = [], ev_holdout_validated = False, ev_dataset_id = None,
              ev_baseline_backtest_id = cq_baseline_backtest_id req,
              ev_baseline_walk_forward_id = cq_baseline_walk_forward_id req,
              ev_candidate_backtest_id = cq_candidate_backtest_id req,
              ev_candidate_walk_forward_id = cq_candidate_walk_forward_id req,
              ev_baseline_session = rr_base_session rr, ev_candidate_session = rr_cand_session rr,
              ev_baseline_bt_metrics = rr_base_bt_metrics rr, ev_candidate_bt_metrics = rr_cand_bt_metrics rr,
              ev_baseline_wf_run = rr_base_wf_run rr, ev_candidate_wf_run = rr_cand_wf_run rr,
              ev_config_changes = changes, ev_baseline_config = base_cfg, ev_candidate_config = cand_cfg,
              ev_evaluation_period = eval_period, ev_market_data_provenance = provenance,
              ev_execution_assumptions = assumptions, ev_hypothesis = cq_hypothesis req, ev_title = cq_title req,
              ev_triggered_by = cq_triggered_by req\<rparr>))"

section \<open>What a promotion has shown\<close>

definition same_setup :: "backtest_session \<Rightarrow> backtest_session \<Rightarrow> bool" where
  "same_setup b c \<longleftrightarrow>
     se_ticker_symbol b = se_ticker_symbol c \<and>
     br_start_time (se_request b) = br_start_time (se_request c) \<and>
     br_end_time (se_request b) = br_end_time (se_request c) \<and>
     dr_source_type (br_data_source (se_request b)) = dr_source_type (br_data_source (se_request c)) \<and>
     dr_path (br_data_source (se_request b)) = dr_path (br_data_source (se_request c)) \<and>
     br_initial_balance (se_request b) = br_initial_balance (se_request c) \<and>
     br_execution (se_request b) = br_execution (se_request c)"

lemma check_sel:
  "cr_discrepancies (verified cr_same_ticker_update n r) = cr_discrepancies r"
  "cr_discrepancies (verified cr_same_period_update n r) = cr_discrepancies r"
  "cr_discrepancies (verified cr_same_dataset_update n r) = cr_discrepancies r"
  "cr_discrepancies (verified cr_same_execution_assumptions_update n r) = cr_discrepancies r"
  "cr_discrepancies (verified cr_same_initial_balance_update n r) = cr_discrepancies r"
  "cr_discrepancies (mismatch upd d r) = cr_discrepancies r @ [d]"
  by (simp_all add: verified_def mismatch_def)

lemma session_check_clean:
  assumes "ev_baseline_session e = Some b" "ev_candidate_session e = Some c"
    and "cr_discrepancies (check_session_comparability e r) = []"
  shows "same_setup b c"
  using assms
  by (auto simp: check_session_comparability_def compare_check_def check_sel same_setup_def Let_def
      intro: execution_configuration.equality split: if_splits)

lemma wf_field_keeps:
  assumes "check_wf_field x y key get upd name disc r = Inr r'" "upd \<in> {cr_same_dataset_update, cr_same_execution_assumptions_update}"
    and "cr_discrepancies r' = []"
  shows "cr_discrepancies r = []"
  using assms by (auto simp: check_wf_field_def check_sel res_bind_def split: sum.splits if_splits)

lemma wf_ticker_keeps:
  assumes "cr_discrepancies (check_wf_ticker b c r) = []"
  shows "cr_discrepancies r = []"
  using assms by (auto simp: check_wf_ticker_def check_sel Let_def split: if_splits)

lemma presume_check_keeps:
  "cr_discrepancies (presume_check get cr_same_ticker_update n ev r) = cr_discrepancies r"
  "cr_discrepancies (presume_check get cr_same_period_update n ev r) = cr_discrepancies r"
  "cr_discrepancies (presume_check get cr_same_dataset_update n ev r) = cr_discrepancies r"
  "cr_discrepancies (presume_check get cr_same_execution_assumptions_update n ev r) = cr_discrepancies r"
  "cr_discrepancies (presume_check get cr_same_initial_balance_update n ev r) = cr_discrepancies r"
  by (simp_all add: presume_check_def check_sel)

lemma presume_keeps: "cr_discrepancies (presume_unchecked e r) = cr_discrepancies r"
  by (simp add: presume_unchecked_def presume_check_keeps Let_def)

lemma finalize_clean:
  assumes "cr_verification_status (finalize_comparability_status e r) \<noteq> MISMATCH"
  shows "cr_discrepancies r = []"
  using assms by (auto simp: finalize_comparability_status_def presume_keeps Let_def split: if_splits)

lemma finalize_comparable:
  assumes "cr_is_comparable (finalize_comparability_status e r)"
  shows "cr_verification_status (finalize_comparability_status e r) = VERIFIED"
    "cr_discrepancies (finalize_comparability_status e r) = []"
  using assms by (auto simp: finalize_comparability_status_def Let_def split: if_splits)

lemma comparability_sound:
  assumes "evaluate_comparability e = Inr r" "cr_is_comparable r"
  shows "cr_verification_status r = VERIFIED" "cr_discrepancies r = []"
    and "ev_baseline_session e = Some b \<Longrightarrow> ev_candidate_session e = Some c \<Longrightarrow> same_setup b c"
proof -
  from assms(1) obtain q where q: "check_walk_forward_comparability e (check_session_comparability e new_report) = Inr q"
    and r: "r = finalize_comparability_status e q"
    by (auto simp: evaluate_comparability_def res_bind_def split: sum.splits)
  show v: "cr_verification_status r = VERIFIED" and "cr_discrepancies r = []"
    using finalize_comparable assms(2) unfolding r by auto
  have "cr_discrepancies q = []" using finalize_clean [of e q] v unfolding r by simp
  with q have "cr_discrepancies (check_session_comparability e new_report) = []"
    by (auto simp: check_walk_forward_comparability_def Let_def res_bind_def split: if_splits sum.splits
        dest!: wf_field_keeps wf_ticker_keeps)
  then show "ev_baseline_session e = Some b \<Longrightarrow> ev_candidate_session e = Some c \<Longrightarrow> same_setup b c"
    by (rule session_check_clean [rotated 2])
qed

lemma drawdown_breach_none: "drawdown_breach what dd limit = [] \<longleftrightarrow> \<not> exceeds dd limit"
  by (auto simp: drawdown_breach_def exceeds_def split: option.splits)

lemma risk_clean:
  assumes "evaluate_risk_changes h e = Inr risk" "\<not> rd_risk_increased risk"
  obtains limit s where "resolve_max_drawdown_limit h e = Inr limit" "summary_of (ev_candidate_wf_run e) = Inr s"
    "\<not> exceeds (extract_float h (doc (ev_candidate_bt_metrics e)) ''max_drawdown_pct'') limit"
    "\<not> exceeds (extract_float h s ''max_oos_drawdown_pct'') limit"
    "\<not> exceeds (rd_max_drawdown_pct_delta risk) 3"
  using assms
  by (auto simp: evaluate_risk_changes_def evaluate_risk_breaches_def Let_def drawdown_breach_none res_bind_def
      SIGNIFICANT_DRAWDOWN_INCREASE_PCT_def split: sum.splits)

lemma sample_clean:
  assumes "evaluate_sample_size h e = Inr ss" "ss_is_sample_sufficient ss"
  shows "15 \<le> extract_trade_count h (doc (ev_baseline_bt_metrics e))"
    "15 \<le> extract_trade_count h (doc (ev_candidate_bt_metrics e))"
    "3 \<le> ss_independent_oos_windows ss" "\<not> narrow_duration (compute_duration_days e)"
  using assms
  by (auto simp: evaluate_sample_size_def determine_sample_sufficiency_def res_bind_def Let_def
      MIN_TRADES_BASELINE_FLOOR_def MIN_INDEPENDENT_OOS_FOLDS_def split: sum.splits if_splits)

lemma uncertainty_sel:
  assumes "evaluate_uncertainty h e benefit ss = Inr unc"
  shows "ua_selection_bias_warning unc \<longleftrightarrow> ev_total_candidates_tested e > 1"
    "ua_holdout_validated unc \<longleftrightarrow> ev_holdout_validated e"
    "ua_can_distinguish_from_noise unc \<Longrightarrow> \<exists>i. ua_intervals unc = [i] \<and> ci_lower_bound i > 0"
  using assms
  by (auto simp: evaluate_uncertainty_def compute_uncertainty_intervals_def build_fold_interval_def
      build_normal_interval_def Let_def res_bind_def split: sum.splits if_splits)

lemma promotion_verdict:
  assumes "snd (determine_proposal_verdict h e report benefit ss unc risk) = PROMOTE_TO_APPROVAL"
  shows "detect_incomplete_or_failed_runs h e = []" "cr_is_comparable report" "\<not> rd_risk_increased risk"
    "truthy (ev_baseline_bt_metrics e)" "truthy (ev_candidate_bt_metrics e)"
    "ua_selection_bias_warning unc \<Longrightarrow> ua_holdout_validated unc"
    "ss_is_sample_sufficient ss" "ua_can_distinguish_from_noise unc"
    "exceeds (mc_absolute_delta (eb_net_return_pct benefit)) 0 \<or> mc_absolute_delta (eb_net_return_pct benefit) = None
     \<or> exceeds (delta_of (eb_out_of_sample_return_pct benefit)) 0"
    "fst (determine_proposal_verdict h e report benefit ss unc risk) = SUFFICIENT"
  using assms
  by (auto simp: determine_proposal_verdict_def evaluate_oos_sample_verdict_def Let_def not_above_zero_def
      exceeds_def not_le split: if_splits option.splits)

lemma built_proposal:
  assumes "build_and_validate_proposal h i e pid = Inr p"
  obtains report benefit ss unc risk where
    "evaluate_comparability e = Inr report" "evaluate_sample_size h e = Inr ss"
    "evaluate_expected_benefit h e = Inr benefit"
    "evaluate_uncertainty h e benefit ss = Inr unc" "evaluate_risk_changes h e = Inr risk"
    "pr_comparability p = report" "pr_expected_benefit p = benefit" "pr_sample_size p = ss" "pr_uncertainty p = unc"
    "pr_risk_changes p = risk"
    "(pr_evidence_status p, pr_recommendation p) = determine_proposal_verdict h e report benefit ss unc risk"
    "pr_validation_plan p = build_validation_plan (pr_evidence_status p) (pr_recommendation p) ss unc risk"
  using assms
  by (auto simp: build_and_validate_proposal_def res_bind_def Let_def split: sum.splits prod.splits)

lemma sessions_completed:
  assumes "detect_incomplete_or_failed_runs h e = []"
  shows "ev_baseline_session e = Some b \<Longrightarrow> se_status b = STATUS_COMPLETED"
    "ev_candidate_session e = Some c \<Longrightarrow> se_status c = STATUS_COMPLETED"
  using assms
  by (auto simp: detect_incomplete_or_failed_runs_def session_incomplete_def split: if_splits option.splits)


lemma collected_from_experiment:
  assumes "collect_from_experiment h st eid cid hyp title trig = Inr e" "sr_experiment st eid = Some x"
    and "py_get x ''run_bindings'' = PList bindings" "bindings \<noteq> []"
  shows "int (length bindings) \<le> ev_total_candidates_tested e" "\<not> ev_holdout_validated e"
proof -
  have total: "int (length bindings) \<le> n" if "candidates_tested spec x = Inr n" for spec n
    using that assms(3,4) by (auto simp: candidates_tested_def list_field_def val_or_def elim!: res_bind_InrE)
  have fetched: "x' = x" if "fetch_experiment_dict st eid = Inr x'" for x'
    using that assms(2) by (auto simp: fetch_experiment_dict_def truthy_def split: if_splits)
  show "int (length bindings) \<le> ev_total_candidates_tested e" "\<not> ev_holdout_validated e"
    using assms(1) unfolding collect_from_experiment_def Let_def
    by (auto elim!: res_bind_InrE dest!: fetched dest: total split: prod.splits)
qed

text \<open>Evidence collected from an experiment with at least two run bindings, such as one for the
  baseline and one for the candidate, never yields a recommendation for approval: the bindings
  count as tested candidates, and nothing collected marks a validation on held-out data.\<close>

theorem experiments_never_promoted:
  assumes "sr_experiment st eid = Some x" "py_get x ''run_bindings'' = PList bindings" "2 \<le> length bindings"
    and "collect_from_experiment h st eid cid hyp title trig = Inr e"
    and "build_and_validate_proposal h i e pid = Inr p"
  shows "pr_recommendation p \<noteq> PROMOTE_TO_APPROVAL"
proof
  assume promoted: "pr_recommendation p = PROMOTE_TO_APPROVAL"
  from assms(5) obtain report benefit ss unc risk where
    unc: "evaluate_uncertainty h e benefit ss = Inr unc"
    and verdict: "(pr_evidence_status p, pr_recommendation p) = determine_proposal_verdict h e report benefit ss unc risk"
    by (rule built_proposal)
  from verdict promoted have "snd (determine_proposal_verdict h e report benefit ss unc risk) = PROMOTE_TO_APPROVAL"
    by (metis snd_conv)
  note v = promotion_verdict(6) [OF this]
  have "bindings \<noteq> []" using assms(3) by auto
  from collected_from_experiment [OF assms(4,1,2) this] assms(3)
  have "ev_total_candidates_tested e > 1" "\<not> ev_holdout_validated e" by simp_all
  with v uncertainty_sel(1,2) [OF unc] show False by simp
qed

section \<open>Examples\<close>

definition demo_host :: host where
  "demo_host = \<lparr>h_float = (\<lambda>_. None), h_int = (\<lambda>_. None), h_str = (\<lambda>_. []), h_repr = (\<lambda>_. []),
                h_sqrt = (\<lambda>x. x), h_log = (\<lambda>_. 1)\<rparr>"

definition demo_metrics :: "rat \<Rightarrow> config" where
  "demo_metrics ret = [(''percentage_return'', PNum ret), (''round_trips'', PInt 20)]"

definition demo_run :: "string \<Rightarrow> rat \<Rightarrow> config" where
  "demo_run ticker ret =
     [(''ticker_symbol'', PStr ticker), (''status'', PStr ''completed''),
      (''folds'', PList (replicate 3 (PDict [(''test_return_pct'', PNum ret)])))]"

definition demo_evidence :: "string \<Rightarrow> collected_evidence" where
  "demo_evidence ticker =
     \<lparr>ev_ticker_symbol = ''BTC_USD'', ev_baseline_commit = ''c1'', ev_candidate_commit = Some ''c2'',
      ev_candidate_id = None, ev_candidate_name = None, ev_experiment_id = None, ev_experiment_name = None,
      ev_total_candidates_tested = 1, ev_candidate_search_history = [], ev_holdout_validated = False,
      ev_dataset_id = None, ev_baseline_backtest_id = None, ev_baseline_walk_forward_id = None,
      ev_candidate_backtest_id = None, ev_candidate_walk_forward_id = None, ev_baseline_session = None,
      ev_candidate_session = None, ev_baseline_bt_metrics = Some (demo_metrics 1),
      ev_candidate_bt_metrics = Some (demo_metrics 3), ev_baseline_wf_run = Some (demo_run ''BTC_USD'' 1),
      ev_candidate_wf_run = Some (demo_run ticker 2), ev_config_changes = [], ev_baseline_config = None,
      ev_candidate_config = None, ev_evaluation_period = None, ev_market_data_provenance = None,
      ev_execution_assumptions = [], ev_hypothesis = None, ev_title = Some ''t'', ev_triggered_by = None\<rparr>"

definition demo_proposal :: "string \<Rightarrow> evidence_based_proposal" where
  "demo_proposal ticker =
     projr (build_and_validate_proposal demo_host ''0'' (demo_evidence ticker) (Some ''p''))"

lemma demo_built: "build_and_validate_proposal demo_host ''0'' (demo_evidence ''BTC_USD'') (Some ''p'') = Inr (demo_proposal ''BTC_USD'')"
  by code_simp

lemma demo_promoted: "pr_recommendation (demo_proposal ''BTC_USD'') = PROMOTE_TO_APPROVAL"
  by code_simp


text \<open>The drawdown of the candidate need not be known: its uncertainty is reported as high, and the
  proposal is recommended for approval all the same.\<close>

lemma promoted_with_unknown_drawdown:
  "pr_recommendation (demo_proposal ''BTC_USD'') = PROMOTE_TO_APPROVAL \<and>
   rd_downside_uncertainty_high (pr_risk_changes (demo_proposal ''BTC_USD'')) \<and>
   rd_max_drawdown_pct_delta (pr_risk_changes (demo_proposal ''BTC_USD'')) = None"
  by code_simp

text \<open>Two walk-forward runs of different tickers without recorded sessions pass as comparable.\<close>

lemma walk_forward_ticker_mismatch_verified:
  "py_get (doc (ev_baseline_wf_run (demo_evidence ''ETH_USD''))) ''ticker_symbol'' = PStr ''BTC_USD'' \<and>
   py_get (doc (ev_candidate_wf_run (demo_evidence ''ETH_USD''))) ''ticker_symbol'' = PStr ''ETH_USD'' \<and>
   cr_verified_checks (pr_comparability (demo_proposal ''ETH_USD'')) =
     [''same_ticker'', ''same_execution_assumptions'', ''same_period'', ''same_dataset'', ''same_initial_balance''] \<and>
   pr_recommendation (demo_proposal ''ETH_USD'') = PROMOTE_TO_APPROVAL"
  by code_simp

definition demo_binding :: "string \<Rightarrow> string \<Rightarrow> pyval" where
  "demo_binding cid run =
     PDict [(''candidate_id'', PStr cid), (''backtest_session_id'', PStr run), (''walk_forward_run_id'', PStr run)]"

definition demo_runs :: stored_runs where
  "demo_runs =
     \<lparr>sr_experiment = (\<lambda>_. Some [(''ticker_symbol'', PStr ''BTC_USD''),
        (''run_bindings'', PList [demo_binding ''cand_current'' ''r1'', demo_binding ''cand_a'' ''r2''])]),
      sr_session = (\<lambda>_. None),
      sr_metrics = (\<lambda>i. Some (demo_metrics (if i = PStr ''r1'' then 1 else 3))),
      sr_run = (\<lambda>i. Some (demo_run ''BTC_USD'' (if i = PStr ''r1'' then 1 else 2))),
      sr_vcs = False, sr_checkout = (\<lambda>_. Inl ValueError), sr_diff = (\<lambda>_ _. Inl ValueError),
      sr_datetime = (\<lambda>_. Inr None)\<rparr>"

definition demo_collected :: "collected_evidence result" where
  "demo_collected = collect_from_experiment demo_host demo_runs ''x'' ''cand_a'' None (Some ''t'') None"

definition demo_assessed :: "evidence_based_proposal result" where
  "demo_assessed = build_and_validate_proposal demo_host ''0'' (projr demo_collected) (Some ''p'')"

lemma demo_collected_ok:
  "collect_from_experiment demo_host demo_runs ''x'' ''cand_a'' None (Some ''t'') None = Inr (projr demo_collected)"
  by code_simp

lemma demo_assessed_ok:
  "build_and_validate_proposal demo_host ''0'' (projr demo_collected) (Some ''p'') = Inr (projr demo_assessed)"
  by code_simp

theorem experiments_never_promoted_witness:
  "sr_experiment demo_runs ''x'' \<noteq> None \<and> pr_recommendation (projr demo_assessed) \<noteq> PROMOTE_TO_APPROVAL"
proof -
  obtain x where x: "sr_experiment demo_runs ''x'' = Some x"
    "py_get x ''run_bindings'' = PList [demo_binding ''cand_current'' ''r1'', demo_binding ''cand_a'' ''r2'']"
    by (simp add: demo_runs_def get_or_def opt_or_def)
  show ?thesis
    using experiments_never_promoted [OF x _ demo_collected_ok demo_assessed_ok] x(1) by simp
qed

end
