(* ===== verification/Optimizer.thy ===== *)
theory Optimizer
  imports Attribution Strategies Evidence "HOL-Library.Product_Lexorder"
begin

text \<open>
  Calibration of strategies from closed trades
  (\<open>src/src/trading/analytics/strategy_optimizer.py\<close>): weights, trading windows, redundant
  strategies, and the comparison of the calibrated weights with the current ones on trades the
  calibration has not seen.

  Weekdays are 0 (Monday) to 6, times of a day are seconds.  \<open>offset\<close> is the offset of the time zone
  at an instant.  The square root is the field \<open>h_sqrt\<close> of \<open>host\<close>.  The names
  in a configuration are texts.
\<close>

section \<open>Weights\<close>

record calibration =
  cal_strategy_name :: string
  cal_current_weight :: rat
  cal_recommended_weight :: rat
  cal_profit_factor :: rat
  cal_win_rate_pct :: rat
  cal_total_trades :: nat
  cal_rationale :: string
  cal_confidence_level :: string
  cal_sample_margin_of_error_pct :: rat
  cal_independent_windows :: nat
  cal_evidence_status :: string

definition strategy_score :: "host \<Rightarrow> attribution_metrics option \<Rightarrow> rat" where
  "strategy_score h metrics =
     (case metrics of
        None \<Rightarrow> 1
      | Some m \<Rightarrow>
          if am_total_trades m = 0 then 1
          else let win_rate_score = max (1/5) (am_win_rate_pct m / 50);
                   pf = (if am_profit_factor m > 0 then min 5 (am_profit_factor m) else 1/2)
               in round_digits 3 (win_rate_score * h_sqrt h pf))"

definition compute_baseline_scores ::
  "host \<Rightarrow> (string, rat) dict \<Rightarrow> (string, attribution_metrics) dict \<Rightarrow> (string, rat) dict \<times> rat" where
  "compute_baseline_scores h weights attr_metrics =
     (let scores = map (\<lambda>(name, _). (name, strategy_score h (dict_get attr_metrics name))) weights
      in (scores, if scores \<noteq> [] then sum_list (dict_values scores) / of_nat (length scores) else 1))"

definition calculate_sample_uncertainty :: "host \<Rightarrow> nat \<Rightarrow> rat \<Rightarrow> nat option \<Rightarrow> string \<times> rat" where
  "calculate_sample_uncertainty h total_trades win_rate_pct independent_windows =
     (if total_trades = 0 then (''LOW'', 0)
      else let p = win_rate_pct / 100;
               variance = max 0 (p * (1 - p));
               margin = round_digits 1 (196/100 * h_sqrt h (variance / of_nat total_trades) * 100);
               windows = opt_or independent_windows (if total_trades \<ge> 20 then 3 else if total_trades \<ge> 5 then 2 else 1)
           in (if total_trades < 5 \<or> windows < 2 then ''LOW''
               else if total_trades \<ge> 20 \<and> windows \<ge> 3 \<and> margin \<le> 22 then ''HIGH''
               else ''MEDIUM'', margin))"

definition classify_evidence_status :: "nat \<Rightarrow> nat \<Rightarrow> rat \<Rightarrow> string" where
  "classify_evidence_status total_trades independent_windows margin =
     (if total_trades < 5 \<or> independent_windows < 2 then ''INSUFFICIENT''
      else if total_trades \<ge> 20 \<and> independent_windows \<ge> 3 \<and> margin \<le> 22 then ''SUFFICIENT''
      else ''WEAK'')"

definition entry_of_strategy :: "string \<Rightarrow> trade \<Rightarrow> bool" where
  "entry_of_strategy name t \<longleftrightarrow>
     name \<in> set (dict_keys (opt_or (tr_entry_strategy_attributions t) [])) \<or> tr_winning_strategy t = Some name"

definition count_strategy_independent_windows :: "trade list \<Rightarrow> string \<Rightarrow> nat" where
  "count_strategy_independent_windows trades name =
     length (remdups (map (\<lambda>t. dt_day (tr_entry_timestamp t)) (filter (entry_of_strategy name) trades)))"

definition calculate_adjusted_weight :: "rat \<Rightarrow> rat \<Rightarrow> rat \<Rightarrow> nat \<Rightarrow> rat \<Rightarrow> rat \<Rightarrow> rat" where
  "calculate_adjusted_weight current_w score avg_score total_trades min_weight max_weight =
     (if total_trades < 3 then current_w
      else let ratio = (if avg_score > 0 then score / avg_score else 1);
               effective_ratio = (if total_trades < 10 then 1 + (ratio - 1) * (of_nat total_trades / 10) else ratio)
           in max min_weight (min max_weight (round_digits 2 (current_w * effective_ratio))))"

definition calibration_rationale :: "rat \<Rightarrow> rat \<Rightarrow> rat \<Rightarrow> rat \<Rightarrow> rat \<Rightarrow> string \<Rightarrow> nat \<Rightarrow> nat \<Rightarrow> string" where
  "calibration_rationale current_w rec_weight wr moe pf confidence total_trades windows =
     (if total_trades < 3
      then ''Insufficient sample size ('' @ nat_str total_trades @ '' trades); maintaining weight at '' @
           fixed_str 2 current_w @ '' (Confidence: '' @ confidence @ '').''
      else let prefix = ''(Win Rate: '' @ fixed_str 1 wr @ ''% '' @ [CHR 0xB1] @ '' '' @ fixed_str 1 moe @ ''%, PF: '' @
                 fixed_str 2 pf @ '', Confidence: '' @ confidence @
                 (if windows < 2 \<and> total_trades \<ge> 5 then '', Windows: '' @ nat_str windows else []) @ '')''
           in if rec_weight > current_w
              then ''Strong performance '' @ prefix @ ''; recommended increase by +'' @
                   fixed_str 2 (rec_weight - current_w) @ '' to '' @ fixed_str 2 rec_weight @ ''.''
              else if rec_weight < current_w
              then ''Subpar performance '' @ prefix @ ''; recommended reduction by -'' @
                   fixed_str 2 (current_w - rec_weight) @ '' to '' @ fixed_str 2 rec_weight @ ''.''
              else ''Balanced performance '' @ prefix @ ''; optimal weight is '' @ fixed_str 2 current_w @ ''.'')"

definition create_calibration ::
  "host \<Rightarrow> string \<Rightarrow> rat \<Rightarrow> rat \<Rightarrow> rat \<Rightarrow> attribution_metrics option \<Rightarrow> rat \<Rightarrow> rat \<Rightarrow> nat \<Rightarrow> calibration" where
  "create_calibration h name current_w score avg_score metrics min_weight max_weight windows =
     (let total_trades = (case metrics of None \<Rightarrow> 0 | Some m \<Rightarrow> am_total_trades m);
          pf = (case metrics of None \<Rightarrow> 0 | Some m \<Rightarrow> am_profit_factor m);
          wr = (case metrics of None \<Rightarrow> 0 | Some m \<Rightarrow> am_win_rate_pct m);
          (confidence, moe) = calculate_sample_uncertainty h total_trades wr (Some windows);
          rec_weight = calculate_adjusted_weight current_w score avg_score total_trades min_weight max_weight
      in \<lparr>cal_strategy_name = name, cal_current_weight = current_w, cal_recommended_weight = rec_weight,
          cal_profit_factor = pf, cal_win_rate_pct = wr, cal_total_trades = total_trades,
          cal_rationale = calibration_rationale current_w rec_weight wr moe pf confidence total_trades windows,
          cal_confidence_level = confidence, cal_sample_margin_of_error_pct = moe,
          cal_independent_windows = windows,
          cal_evidence_status = classify_evidence_status total_trades windows moe\<rparr>)"

definition calibrate_strategy_weights ::
  "host \<Rightarrow> trade list \<Rightarrow> (string, rat) dict \<Rightarrow> rat \<Rightarrow> rat \<Rightarrow> calibration list" where
  "calibrate_strategy_weights h trades weights min_weight max_weight =
     (if trades = [] \<or> weights = [] then []
      else let attr_metrics = attribute_by_strategy_proportional trades;
               (scores, avg_score) = compute_baseline_scores h weights attr_metrics
           in map (\<lambda>(name, w). create_calibration h name w (opt_or (dict_get scores name) 1) avg_score
                     (dict_get attr_metrics name) min_weight max_weight
                     (count_strategy_independent_windows trades name)) weights)"

section \<open>Trading windows\<close>

record hourly_profile =
  hw_weekday :: int
  hw_hour :: int
  hw_total_trades :: nat
  hw_winning_trades :: nat
  hw_win_rate_pct :: rat
  hw_net_pnl :: decimal
  hw_gross_pnl :: decimal
  hw_profit_factor :: rat

definition local_slot :: "(rat \<Rightarrow> rat) \<Rightarrow> timestamp \<Rightarrow> int \<times> int" where
  "local_slot offset t = (let l = t + offset t in (dt_weekday l, \<lfloor>dt_seconds l / 3600\<rfloor>))"

definition profile_hourly_profitability :: "(rat \<Rightarrow> rat) \<Rightarrow> trade list \<Rightarrow> hourly_profile list" where
  "profile_hourly_profitability offset trades =
     map (\<lambda>((weekday, hour), bucket).
            let m = calculate_metrics bucket
            in \<lparr>hw_weekday = weekday, hw_hour = hour, hw_total_trades = am_total_trades m,
                hw_winning_trades = am_winning_trades m, hw_win_rate_pct = am_win_rate_pct m,
                hw_net_pnl = am_net_pnl m, hw_gross_pnl = am_gross_pnl m, hw_profit_factor = am_profit_factor m\<rparr>)
       (sort_key fst (group_each (\<lambda>t. [(local_slot offset (tr_entry_timestamp t), t)]) trades))"

text \<open>The loop over the sorted hours of a day, from the start of the current range and the previous hour.\<close>

fun hour_ranges :: "int \<Rightarrow> int \<Rightarrow> int list \<Rightarrow> (int \<times> int) list" where
  "hour_ranges start_h prev_h [] = [(start_h, prev_h + 1)]"
| "hour_ranges start_h prev_h (h # hs) =
     (if h = prev_h + 1 then hour_ranges start_h h hs
      else (start_h, prev_h + 1) # hour_ranges h h hs)"

definition extract_contiguous_day_ranges :: "(int, int list) dict \<Rightarrow> (int, (int \<times> int) list) dict" where
  "extract_contiguous_day_ranges slots =
     List.map_filter (\<lambda>(weekday, hours).
         case sort hours of [] \<Rightarrow> None | h # hs \<Rightarrow> Some (weekday, hour_ranges h h hs))
       (sort_key fst slots)"

definition range_window :: "int \<times> int \<Rightarrow> int list \<Rightarrow> trading_window result" where
  "range_window r days =
     make_window days (of_int (fst r) * 3600) (if snd r \<ge> 24 then 86399 else of_int (snd r) * 3600)"

definition build_trading_windows_from_ranges :: "(int, (int \<times> int) list) dict \<Rightarrow> trading_window list result" where
  "build_trading_windows_from_ranges day_ranges =
     res_map (\<lambda>(r, days). range_window r days)
       (sort_key fst (group_each (\<lambda>(weekday, ranges). map (\<lambda>r. (r, weekday)) ranges) day_ranges))"

definition set_add :: "int \<Rightarrow> int \<Rightarrow> (int, int list) dict \<Rightarrow> (int, int list) dict" where
  "set_add k v d = dict_set k (List.insert v (opt_or (dict_get d k) [])) d"

definition profitable :: "nat \<Rightarrow> rat \<Rightarrow> hourly_profile \<Rightarrow> bool" where
  "profitable min_trades min_win_rate p \<longleftrightarrow>
     hw_total_trades p \<ge> min_trades \<and> hw_win_rate_pct p \<ge> min_win_rate \<and> hw_net_pnl p > 0"

definition optimize_trading_windows ::
  "(rat \<Rightarrow> rat) \<Rightarrow> trade list \<Rightarrow> nat \<Rightarrow> rat \<Rightarrow> trading_window list result" where
  "optimize_trading_windows offset trades min_trades min_win_rate =
     (let slots = foldl (\<lambda>d p. if profitable min_trades min_win_rate p then set_add (hw_weekday p) (hw_hour p) d else d)
            [] (profile_hourly_profitability offset trades)
      in if slots = [] then Inr []
         else build_trading_windows_from_ranges (extract_contiguous_day_ranges slots))"

definition optimize_strategy_trading_windows ::
  "(rat \<Rightarrow> rat) \<Rightarrow> trade list \<Rightarrow> string \<Rightarrow> nat \<Rightarrow> rat \<Rightarrow> trading_window list result" where
  "optimize_strategy_trading_windows offset trades name min_trades min_win_rate =
     (let strategy_trades = filter (entry_of_strategy name) trades
      in if strategy_trades = [] then Inr []
         else optimize_trading_windows offset strategy_trades min_trades min_win_rate)"

section \<open>Redundant strategies\<close>

record redundancy =
  red_strategy_a :: string
  red_strategy_b :: string
  red_agreement_rate_pct :: rat
  red_co_sponsored_trades :: nat
  red_recommendation :: string
  red_aligned_decisions :: nat

definition evaluate_pair_redundancy ::
  "host \<Rightarrow> string \<Rightarrow> string \<Rightarrow> trade list \<Rightarrow> (string, (string, rat) dict) dict \<Rightarrow> (string, (string, nat) dict) dict
   \<Rightarrow> rat \<Rightarrow> nat \<Rightarrow> redundancy option" where
  "evaluate_pair_redundancy h s1 s2 trades matrix counts threshold min_sample =
     (let aligned_n = opt_or (dict_get (opt_or (dict_get counts s1) []) s2) 0;
          rate = (\<lambda>a b. opt_or (dict_get (opt_or (dict_get matrix a) []) b) 0);
          avg_rate = (rate s1 s2 + rate s2 s1) / 2;
          pct = round_digits 1 (avg_rate * 100);
          sponsored = (\<lambda>t. let a = dict_keys (opt_or (tr_entry_strategy_attributions t) []) in s1 \<in> set a \<and> s2 \<in> set a)
      in if aligned_n < min_sample \<or> avg_rate < threshold then None
         else Some \<lparr>red_strategy_a = s1, red_strategy_b = s2, red_agreement_rate_pct = pct,
                    red_co_sponsored_trades = length (filter sponsored trades),
                    red_recommendation = ''Observed high co-voting alignment ('' @ h_str h (PNum pct) @
                      ''% agreement over '' @ nat_str aligned_n @ '' aligned decisions). '' @
                      ''Investigate signal overlap and regime specialization before making allocation changes.'',
                    red_aligned_decisions = aligned_n\<rparr>)"

fun ordered_pairs :: "'a list \<Rightarrow> ('a \<times> 'a) list" where
  "ordered_pairs [] = []"
| "ordered_pairs (x # xs) = map (Pair x) xs @ ordered_pairs xs"

definition detect_strategy_redundancies :: "host \<Rightarrow> trade list \<Rightarrow> rat \<Rightarrow> nat \<Rightarrow> redundancy list" where
  "detect_strategy_redundancies h trades threshold min_sample =
     (let (matrix, counts) = compute_co_voting_details trades
      in List.map_filter (\<lambda>(s1, s2). evaluate_pair_redundancy h s1 s2 trades matrix counts threshold min_sample)
           (ordered_pairs (sort (dict_keys matrix))))"

section \<open>Weighted performance\<close>

record comparison_metrics =
  bm_net_pnl :: decimal
  bm_gross_wins :: decimal
  bm_gross_losses :: decimal
  bm_profit_factor :: rat
  bm_win_rate_pct :: rat
  bm_trades_count :: nat
  bm_max_drawdown :: decimal
  bm_worst_trade_loss :: decimal
  bm_return_volatility :: rat

definition is_trade_within_windows :: "(rat \<Rightarrow> rat) \<Rightarrow> timestamp \<Rightarrow> trading_window list \<Rightarrow> bool" where
  "is_trade_within_windows offset t windows =
     (windows = [] \<or>
      (let l = t + offset t
       in list_ex (\<lambda>w. dt_weekday l \<in> set (tw_days w) \<and> tw_start_time w \<le> dt_seconds l \<and> dt_seconds l \<le> tw_end_time w)
            windows))"

type_synonym strategy_windows = "(string, trading_window list) dict"

definition strategy_active :: "(rat \<Rightarrow> rat) \<Rightarrow> strategy_windows option \<Rightarrow> trade \<Rightarrow> string \<Rightarrow> bool" where
  "strategy_active offset windows t strat =
     (case dict_get (opt_or windows []) strat of
        None \<Rightarrow> True
      | Some ws \<Rightarrow> is_trade_within_windows offset (tr_entry_timestamp t) ws)"

definition calculate_trade_weighted_net ::
  "(rat \<Rightarrow> rat) \<Rightarrow> trade \<Rightarrow> (string, rat) dict \<Rightarrow> rat \<Rightarrow> strategy_windows option \<Rightarrow> decimal option" where
  "calculate_trade_weighted_net offset t weights avg_w windows =
     (let attributions = (if truthy (tr_entry_strategy_attributions t) then the (tr_entry_strategy_attributions t)
            else [(if truthy (tr_winning_strategy t) then the (tr_winning_strategy t) else ''UNATTRIBUTED'', 1)]);
          active = filter (\<lambda>(strat, _). strategy_active offset windows t strat) attributions;
          strat_mult = sum_list (map (\<lambda>(strat, share). opt_or (dict_get weights strat) 1 * share) active);
          norm_factor = (if avg_w > 0 then strat_mult / avg_w else 1)
      in if active = [] then None else Some (tr_net_pnl t * round_digits 6 norm_factor))"

text \<open>The running total, its peak and the largest decline.\<close>

fun pnl_drawdown :: "decimal \<times> decimal \<times> decimal \<Rightarrow> decimal list \<Rightarrow> decimal \<times> decimal \<times> decimal" where
  "pnl_drawdown st [] = st"
| "pnl_drawdown (cum, peak, dd) (x # xs) =
     (let cum' = cum + x; peak' = max peak cum' in pnl_drawdown (cum', peak', max dd (peak' - cum')) xs)"

definition calculate_return_volatility :: "host \<Rightarrow> rat list \<Rightarrow> rat" where
  "calculate_return_volatility h pnls = (if length pnls < 2 then 0 else round_digits 4 (h_sqrt h (sample_variance pnls)))"

definition simulate_weighted_performance ::
  "host \<Rightarrow> (rat \<Rightarrow> rat) \<Rightarrow> trade list \<Rightarrow> (string, rat) dict \<Rightarrow> strategy_windows option \<Rightarrow> comparison_metrics" where
  "simulate_weighted_performance h offset trades weights windows =
     (let total_w = sum_list (map (max 0) (dict_values weights));
          avg_w = (if weights \<noteq> [] \<and> total_w > 0 then total_w / of_nat (length weights) else 1);
          nets = List.map_filter (\<lambda>t. calculate_trade_weighted_net offset t weights avg_w windows) trades;
          wins = filter (\<lambda>n. n > 0) nets;
          losses = map abs (filter (\<lambda>n. n < 0) nets);
          (_, _, max_drawdown) = pnl_drawdown (0, 0, 0) nets
      in \<lparr>bm_net_pnl = sum_list nets, bm_gross_wins = sum_list wins, bm_gross_losses = sum_list losses,
          bm_profit_factor = profit_factor_of (sum_list wins) (sum_list losses),
          bm_win_rate_pct = (if nets \<noteq> [] then round_digits 2 (of_nat (length wins) / of_nat (length nets) * 100) else 0),
          bm_trades_count = length nets, bm_max_drawdown = round_digits 4 max_drawdown,
          bm_worst_trade_loss = round_digits 4 (foldl max 0 losses),
          bm_return_volatility = calculate_return_volatility h nets\<rparr>)"

section \<open>Comparison with the current weights\<close>

record comparison_result =
  bc_baseline_metrics :: comparison_metrics
  bc_proposed_metrics :: comparison_metrics
  bc_equal_weight_metrics :: comparison_metrics
  bc_pnl_delta :: decimal
  bc_pnl_improvement_pct :: rat
  bc_in_sample_trades_count :: nat
  bc_out_of_sample_trades_count :: nat
  bc_demonstrates_improvement :: bool
  bc_verdict :: string
  bc_drawdown_delta :: decimal
  bc_risk_increased :: bool

definition split_trades_chronologically :: "trade list \<Rightarrow> rat \<Rightarrow> trade list \<times> trade list" where
  "split_trades_chronologically trades train_ratio =
     (let sorted_trades = sort_key tr_exit_timestamp trades;
          n = int (length sorted_trades);
          split_idx = nat (max 2 (min (n - 1) (py_trunc (of_int n * train_ratio))))
      in (take split_idx sorted_trades, drop split_idx sorted_trades))"

definition calculate_pnl_improvement :: "decimal \<Rightarrow> decimal \<Rightarrow> rat" where
  "calculate_pnl_improvement pnl_delta base_net_pnl =
     (if \<bar>base_net_pnl\<bar> > 1/1000000 then round_digits 2 (pnl_delta / \<bar>base_net_pnl\<bar> * 100)
      else if pnl_delta > 0 then 100 else 0)"

definition check_risk_increased :: "comparison_metrics \<Rightarrow> decimal \<Rightarrow> decimal \<Rightarrow> bool" where
  "check_risk_increased base pnl_delta drawdown_delta =
     (if drawdown_delta \<le> 0 then False
      else if drawdown_delta > max 5 (bm_max_drawdown base * (1/4)) then True
      else drawdown_delta > pnl_delta \<and> pnl_delta > 0)"

definition check_demonstrates_improvement :: "comparison_metrics \<Rightarrow> comparison_metrics \<Rightarrow> bool \<Rightarrow> bool" where
  "check_demonstrates_improvement prop base risk_increased =
     (if risk_increased then False
      else if bm_net_pnl prop > bm_net_pnl base then True
      else bm_net_pnl prop = bm_net_pnl base \<and> bm_profit_factor prop \<ge> bm_profit_factor base)"

definition signed_fixed :: "nat \<Rightarrow> rat \<Rightarrow> string" where
  "signed_fixed n x = (if x < 0 then fixed_str n x else ''+'' @ fixed_str n x)"

definition build_baseline_verdict ::
  "bool \<Rightarrow> decimal \<Rightarrow> rat \<Rightarrow> comparison_metrics \<Rightarrow> comparison_metrics \<Rightarrow> decimal \<Rightarrow> bool \<Rightarrow> string" where
  "build_baseline_verdict improves pnl_delta pct prop base drawdown_delta risk_increased =
     (if pnl_delta > 0 \<and> risk_increased
      then ''Proposed configuration increased P&L (+'' @ fixed_str 2 pnl_delta @ '', '' @ signed_fixed 1 pct @
           ''%) but materially increased max drawdown (+'' @ fixed_str 2 drawdown_delta @ '' to '' @
           fixed_str 2 (bm_max_drawdown prop) @ '' vs '' @ fixed_str 2 (bm_max_drawdown base) @
           '' baseline). Higher return is accompanied by elevated downside risk; '' @
           ''retaining current configuration or running full walk-forward validation recommended.''
      else if improves \<and> pnl_delta > 0
      then ''Proposed weights demonstrated out-of-sample outperformance: +'' @ fixed_str 2 pnl_delta @ '' P&L ('' @
           signed_fixed 1 pct @ ''%), max drawdown '' @ fixed_str 2 (bm_max_drawdown prop) @ '' (vs '' @
           fixed_str 2 (bm_max_drawdown base) @ '' baseline) over unchanged baseline.''
      else if bm_net_pnl prop = bm_net_pnl base
      then ''Proposed weights matched unchanged baseline performance out-of-sample.''
      else ''Proposed weights underperformed unchanged baseline out-of-sample: '' @ fixed_str 2 pnl_delta @ '' P&L ('' @
           signed_fixed 1 pct @ ''%). Retaining current configuration recommended.'')"

definition evaluate_out_of_sample_comparison ::
  "host \<Rightarrow> (rat \<Rightarrow> rat) \<Rightarrow> trade list \<Rightarrow> (string, rat) dict \<Rightarrow> (string, rat) dict \<Rightarrow> nat \<Rightarrow> strategy_windows option
   \<Rightarrow> comparison_result" where
  "evaluate_out_of_sample_comparison h offset out_of_sample current proposed in_sample_count windows =
     (let base = simulate_weighted_performance h offset out_of_sample current None;
          prop = simulate_weighted_performance h offset out_of_sample proposed windows;
          pnl_delta = bm_net_pnl prop - bm_net_pnl base;
          drawdown_delta = bm_max_drawdown prop - bm_max_drawdown base;
          pct = calculate_pnl_improvement pnl_delta (bm_net_pnl base);
          risk_increased = check_risk_increased base pnl_delta drawdown_delta;
          improves = check_demonstrates_improvement prop base risk_increased
      in \<lparr>bc_baseline_metrics = base, bc_proposed_metrics = prop,
          bc_equal_weight_metrics = simulate_weighted_performance h offset out_of_sample (map (\<lambda>(s, _). (s, 1)) current) None,
          bc_pnl_delta = pnl_delta, bc_pnl_improvement_pct = pct, bc_in_sample_trades_count = in_sample_count,
          bc_out_of_sample_trades_count = length out_of_sample, bc_demonstrates_improvement = improves,
          bc_verdict = build_baseline_verdict improves pnl_delta pct prop base drawdown_delta risk_increased,
          bc_drawdown_delta = drawdown_delta, bc_risk_increased = risk_increased\<rparr>)"

definition recommended_weights :: "calibration list \<Rightarrow> (string, rat) dict" where
  "recommended_weights cs = foldl (\<lambda>d c. dict_set (cal_strategy_name c) (cal_recommended_weight c) d) [] cs"

definition evaluate_split_sample_baseline ::
  "host \<Rightarrow> (rat \<Rightarrow> rat) \<Rightarrow> trade list \<Rightarrow> (string, rat) dict \<Rightarrow> (string, rat) dict option \<Rightarrow> rat \<Rightarrow> strategy_windows option
   \<Rightarrow> comparison_result option" where
  "evaluate_split_sample_baseline h offset trades current proposed train_ratio windows =
     (if trades = [] \<or> current = [] \<or> length trades < 4 then None
      else let (in_sample, out_of_sample) = split_trades_chronologically trades train_ratio;
               weights = (case proposed of Some w \<Rightarrow> w
                          | None \<Rightarrow> recommended_weights (calibrate_strategy_weights h in_sample current (1/10) 2))
           in if out_of_sample = [] \<or> weights = [] then None
              else Some (evaluate_out_of_sample_comparison h offset out_of_sample current weights
                           (length in_sample) windows))"

section \<open>The proposal\<close>

definition clock_text :: "rat \<Rightarrow> string" where
  "clock_text t =
     (let s = nat \<lfloor>t\<rfloor>; two = (\<lambda>n. pad_zeros 2 (nat_str n))
      in two (s div 3600) @ '':'' @ two (s div 60 mod 60) @ '':'' @ two (s mod 60))"

definition format_windows_payload :: "trading_window list \<Rightarrow> pyval" where
  "format_windows_payload windows =
     PList (map (\<lambda>w. PDict [(''days'', PList (map PInt (tw_days w))), (''start_time'', PStr (clock_text (tw_start_time w))),
                           (''end_time'', PStr (clock_text (tw_end_time w)))]) windows)"

definition strat_name :: "config \<Rightarrow> string" where
  "strat_name strat = (case py_get strat ''name'' of PStr s \<Rightarrow> s | _ \<Rightarrow> [])"

definition effective_windows :: "trading_window list \<Rightarrow> trading_window list \<Rightarrow> bool \<Rightarrow> trading_window list" where
  "effective_windows strat_windows suggested allow_fallback =
     (if strat_windows \<noteq> [] then strat_windows else if allow_fallback then suggested else [])"

definition build_strategy_schedule_change ::
  "(rat \<Rightarrow> rat) \<Rightarrow> string \<Rightarrow> config \<Rightarrow> trading_window list \<Rightarrow> trade list \<Rightarrow> bool \<Rightarrow> config_change option result" where
  "build_strategy_schedule_change offset ticker strat suggested trades allow_fallback =
     (let sname = strat_name strat
      in if sname = [] then Inr None
         else res_bind (if trades = [] then Inr [] else optimize_strategy_trading_windows offset trades sname 2 50)
           (\<lambda>strat_windows.
             let ws = effective_windows strat_windows suggested allow_fallback;
                 payload = format_windows_payload ws;
                 current = (case py_get strat ''schedule'' of PDict d \<Rightarrow> get_or d ''windows'' (PList []) | _ \<Rightarrow> PList [])
             in Inr (if ws = [] \<or> py_eq payload current then None
                     else Some \<lparr>ch_path = ''assets.'' @ ticker @ ''.strategies.'' @ sname @ ''.schedule.windows'',
                                ch_old_value = current, ch_new_value = payload,
                                ch_reason = (if strat_windows \<noteq> []
                                  then ''Empirically optimized active trading windows based on '' @ sname @ ''-specific trades.''
                                  else ''Applied aggregate asset-level trading windows fallback for '' @ sname @ ''.'')\<rparr>)))"

definition build_schedule_changes ::
  "(rat \<Rightarrow> rat) \<Rightarrow> string \<Rightarrow> config list \<Rightarrow> trading_window list \<Rightarrow> trade list \<Rightarrow> bool \<Rightarrow> config_change list result" where
  "build_schedule_changes offset ticker strategies suggested trades allow_fallback =
     res_bind (res_map (\<lambda>s. build_strategy_schedule_change offset ticker s suggested trades allow_fallback) strategies)
       (\<lambda>cs. Inr (List.map_filter id cs))"

definition build_weight_changes :: "string \<Rightarrow> calibration list \<Rightarrow> config_change list" where
  "build_weight_changes ticker calibrations =
     map (\<lambda>c. \<lparr>ch_path = ''assets.'' @ ticker @ ''.strategies.'' @ cal_strategy_name c @ ''.weight'',
               ch_old_value = PNum (cal_current_weight c), ch_new_value = PNum (cal_recommended_weight c),
               ch_reason = cal_rationale c\<rparr>)
       (filter (\<lambda>c. cal_recommended_weight c \<noteq> cal_current_weight c) calibrations)"

fun float_value :: "host \<Rightarrow> pyval \<Rightarrow> rat result" where
  "float_value h (PStr s) = (case h_float h s of None \<Rightarrow> Inl ValueError | Some x \<Rightarrow> Inr x)"
| "float_value h v = (case py_float h v of None \<Rightarrow> Inl TypeError | Some x \<Rightarrow> Inr x)"

definition extract_current_weights :: "host \<Rightarrow> config list \<Rightarrow> (string, rat) dict result" where
  "extract_current_weights h strategies =
     foldl (\<lambda>acc s. res_bind acc (\<lambda>d. if strat_name s = [] then Inr d
        else res_bind (float_value h (get_or s ''weight'' (PNum 1))) (\<lambda>w. Inr (dict_set (strat_name s) w d))))
       (Inr []) strategies"

definition extract_candidate_strategy_windows ::
  "(rat \<Rightarrow> rat) \<Rightarrow> config list \<Rightarrow> trading_window list \<Rightarrow> trade list \<Rightarrow> bool \<Rightarrow> strategy_windows result" where
  "extract_candidate_strategy_windows offset strategies suggested in_sample allow_fallback =
     foldl (\<lambda>acc s. res_bind acc (\<lambda>d. if strat_name s = [] then Inr d
        else res_bind (optimize_strategy_trading_windows offset in_sample (strat_name s) 2 50) (\<lambda>strat_windows.
          let ws = effective_windows strat_windows suggested allow_fallback
          in Inr (if ws = [] then d else dict_set (strat_name s) ws d))))
       (Inr []) strategies"

definition in_sample_trades :: "trade list \<Rightarrow> rat \<Rightarrow> trade list" where
  "in_sample_trades trades train_ratio =
     (if length trades \<ge> 4 then fst (split_trades_chronologically trades train_ratio) else trades)"

definition strategies_of :: "config \<Rightarrow> config list result" where
  "strategies_of asset_config =
     res_bind (py_iter (get_or asset_config ''strategies'' (PList []))) (\<lambda>xs. res_map py_dict xs)"

definition evaluate_candidate_diagnostics ::
  "host \<Rightarrow> (rat \<Rightarrow> rat) \<Rightarrow> config \<Rightarrow> trade list \<Rightarrow> bool \<Rightarrow> rat
   \<Rightarrow> (calibration list \<times> trading_window list \<times> comparison_result option) result" where
  "evaluate_candidate_diagnostics h offset asset_config trades allow_fallback train_ratio =
     (let in_sample = in_sample_trades trades train_ratio
      in res_bind (strategies_of asset_config) (\<lambda>strategies.
         res_bind (extract_current_weights h strategies) (\<lambda>current.
         res_bind (optimize_trading_windows offset in_sample 2 50) (\<lambda>suggested.
         res_bind (extract_candidate_strategy_windows offset strategies suggested in_sample allow_fallback) (\<lambda>windows.
           let calibrations = calibrate_strategy_weights h in_sample current (1/10) 2
           in Inr (calibrations, suggested,
                   evaluate_split_sample_baseline h offset trades current (Some (recommended_weights calibrations))
                     train_ratio (if windows = [] then None else Some windows)))))))"

text \<open>The time of creation and the time to live keep their defaults.\<close>

record configuration_proposal =
  cp_summary :: string
  cp_changes :: "config_change list"
  cp_risks :: "string list"
  cp_expected_effect :: string
  cp_base_commit_hash :: "string option"

definition build_proposal_narrative ::
  "string \<Rightarrow> calibration list \<Rightarrow> trading_window list \<Rightarrow> comparison_result option \<Rightarrow> string \<times> string list \<times> string" where
  "build_proposal_narrative ticker calibrations windows baseline_eval =
     (''Autonomous calibration for '' @ ticker @ '': '' @ nat_str (length calibrations) @
        '' strategy weight(s) evaluated and '' @ nat_str (length windows) @ '' optimal trading window(s) discovered.'',
      [''Calibrated weights are preliminary empirical heuristics based on in-sample trade attribution.'',
       ''Narrowed trading windows will prevent signals during historically low-win-rate intervals.'',
       ''Full backtest and multi-fold walk-forward execution is required before live promotion.''] @
      (case baseline_eval of
         None \<Rightarrow> []
       | Some b \<Rightarrow>
           (if bc_risk_increased b
            then [''Measured risk trade-off: out-of-sample max drawdown increased by +'' @ fixed_str 2 (bc_drawdown_delta b) @
                  '' (candidate '' @ fixed_str 2 (bm_max_drawdown (bc_proposed_metrics b)) @ '' vs baseline '' @
                  fixed_str 2 (bm_max_drawdown (bc_baseline_metrics b)) @ '').''] else []) @
           (if \<not> bc_demonstrates_improvement b
            then [''Out-of-sample validation caution: '' @ bc_verdict b @ '' Review recommended before applying.'']
            else [])) @
      (if list_ex (\<lambda>c. cal_evidence_status c = ''INSUFFICIENT'') calibrations
       then [''One or more strategies have insufficient independent sample size or narrow window coverage.''] else []),
      case baseline_eval of
        Some b \<Rightarrow> ''Preliminary attribution diagnostic (in-sample calibration vs unseen out-of-sample split): '' @ bc_verdict b
      | None \<Rightarrow> ''Preliminary attribution heuristic; insufficient trade count (<4) for out-of-sample split comparison.'')"

definition generate_optimization_proposal ::
  "host \<Rightarrow> (rat \<Rightarrow> rat) \<Rightarrow> string \<Rightarrow> config \<Rightarrow> trade list \<Rightarrow> string option \<Rightarrow> bool \<Rightarrow> rat \<Rightarrow> configuration_proposal result" where
  "generate_optimization_proposal h offset ticker asset_config trades base_commit allow_fallback train_ratio =
     res_bind (evaluate_candidate_diagnostics h offset asset_config trades allow_fallback train_ratio)
       (\<lambda>(calibrations, suggested, baseline_eval).
     res_bind (strategies_of asset_config) (\<lambda>strategies.
     res_bind (build_schedule_changes offset ticker strategies suggested (in_sample_trades trades train_ratio) allow_fallback)
       (\<lambda>schedule_changes.
         let (summary, risks, effect) = build_proposal_narrative ticker calibrations suggested baseline_eval
         in Inr \<lparr>cp_summary = summary, cp_changes = build_weight_changes ticker calibrations @ schedule_changes,
                 cp_risks = risks, cp_expected_effect = effect, cp_base_commit_hash = base_commit\<rparr>)))"

section \<open>Groups and their members\<close>

definition members :: "('v \<Rightarrow> ('k \<times> 'w) list) \<Rightarrow> 'v list \<Rightarrow> 'k \<Rightarrow> 'w list" where
  "members entries xs k = map snd (filter (\<lambda>e. fst e = k) (concat (map entries xs)))"

lemma group_entries_get:
  "dict_get (foldl (\<lambda>d (k, w). group_add k w d) d es) k =
     (case map snd (filter (\<lambda>e. fst e = k) es) of [] \<Rightarrow> dict_get d k | ws \<Rightarrow> Some (opt_or (dict_get d k) [] @ ws))"
proof (induction es arbitrary: d)
  case (Cons e es)
  obtain k' w where e: "e = (k', w)" by (cases e)
  show ?case
    unfolding foldl_Cons e prod.case Cons.IH
    by (auto simp: group_add_def opt_or_def AList.update_conv' split: list.splits option.splits)
qed simp

lemma group_each_get:
  "dict_get (group_each entries xs) k = (if members entries xs k = [] then None else Some (members entries xs k))"
proof -
  have fuse: "foldl (\<lambda>d x. foldl (\<lambda>d (k, w). group_add k w d) d (entries x)) d xs =
      foldl (\<lambda>d (k, w). group_add k w d) d (concat (map entries xs))" for d
    by (induction xs arbitrary: d) auto
  show ?thesis
    unfolding group_each_def fuse group_entries_get
    by (auto simp: members_def opt_or_def split: list.splits)
qed

lemma group_each_wf: "dict_wf (group_each entries xs)"
proof -
  have "dict_wf d \<Longrightarrow> dict_wf (foldl (\<lambda>d (k, w). group_add k w d) d es)" for d es
    by (induction es arbitrary: d) (auto simp: group_add_wf)
  then have "dict_wf d \<Longrightarrow> dict_wf (foldl (\<lambda>d x. foldl (\<lambda>d (k, w). group_add k w d) d (entries x)) d xs)" for d
    by (induction xs arbitrary: d) auto
  then show ?thesis by (simp add: group_each_def dict_wf_def)
qed

lemma group_each_set:
  "(k, ws) \<in> set (group_each entries xs) \<longleftrightarrow> ws = members entries xs k \<and> ws \<noteq> []"
proof -
  have "(k, ws) \<in> set (group_each entries xs) \<longleftrightarrow> dict_get (group_each entries xs) k = Some ws"
    using group_each_wf [of entries xs] by (auto simp: dict_wf_def)
  then show ?thesis by (auto simp: group_each_get)
qed

section \<open>Ranges of hours\<close>

lemma hour_ranges_cover:
  assumes "sorted_wrt (<) (p # hs)" "s \<le> p"
  shows "(\<exists>r \<in> set (hour_ranges s p hs). fst r \<le> x \<and> x < snd r) \<longleftrightarrow> (s \<le> x \<and> x \<le> p) \<or> x \<in> set hs"
  using assms
proof (induction s p hs rule: hour_ranges.induct)
  case (2 s p h hs)
  show ?case
  proof (cases "h = p + 1")
    case True
    have "sorted_wrt (<) (h # hs)" "s \<le> h" using 2 True by auto
    from "2.IH"(1) [OF True this] True "2.prems" show ?thesis by auto
  next
    case False
    have "sorted_wrt (<) (h # hs)" "h \<le> h" using 2 by auto
    from "2.IH"(2) [OF False this] False "2.prems" show ?thesis by auto
  qed
qed auto

lemma hour_ranges_bounds:
  assumes "sorted_wrt (<) (p # hs)" "s \<le> p" "r \<in> set (hour_ranges s p hs)"
  shows "s \<le> fst r \<and> fst r < snd r \<and> snd r \<le> last (p # hs) + 1"
  using assms
proof (induction s p hs rule: hour_ranges.induct)
  case (2 s p h hs)
  have sorted: "sorted_wrt (<) (h # hs)" using "2.prems" by auto
  have top: "p < last (h # hs)" using "2.prems"(1) last_in_set [of "h # hs"] by auto
  show ?case
  proof (cases "h = p + 1")
    case True
    from "2.IH"(1) [OF True sorted] "2.prems" True show ?thesis by auto
  next
    case False
    from "2.IH"(2) [OF False sorted] "2.prems" False top show ?thesis by fastforce
  qed
qed auto

definition hour_in :: "(int \<times> int) list \<Rightarrow> int \<Rightarrow> bool" where
  "hour_in rs x \<longleftrightarrow> (\<exists>r \<in> set rs. fst r \<le> x \<and> x < snd r)"

lemma day_ranges_exact:
  assumes "dict_wf slots" "dict_all (\<lambda>hs. distinct hs \<and> (\<forall>h \<in> set hs. 0 \<le> h \<and> h \<le> 23)) slots"
  shows "(\<exists>rs. (d, rs) \<in> set (extract_contiguous_day_ranges slots) \<and> hour_in rs x) \<longleftrightarrow>
      x \<in> set (opt_or (dict_get slots d) [])"
    and "(d, rs) \<in> set (extract_contiguous_day_ranges slots) \<Longrightarrow> r \<in> set rs \<Longrightarrow>
      0 \<le> fst r \<and> fst r < snd r \<and> snd r \<le> 24"
proof -
  have entry: "(d, rs) \<in> set (extract_contiguous_day_ranges slots) \<longleftrightarrow>
      (\<exists>hours h hs. (d, hours) \<in> set slots \<and> sort hours = h # hs \<and> rs = hour_ranges h h hs)" for d rs
    by (force simp: extract_contiguous_day_ranges_def map_filter_def split: list.splits)
  have strict: "sorted_wrt (<) (h # hs)" if "(d, hours) \<in> set slots" "sort hours = h # hs" for d hours h hs
  proof -
    have "distinct hours" using assms(2) that(1) by (fastforce simp: dict_all_def list_all_iff)
    then have "distinct (h # hs)" "sorted (h # hs)" using that(2) by (metis distinct_sort, metis sorted_sort)
    then show ?thesis using strict_sorted_iff by blast
  qed
  have get: "dict_get slots d = Some hours \<longleftrightarrow> (d, hours) \<in> set slots" for d hours
    using assms(1) by (simp add: dict_wf_def)
  show "(\<exists>rs. (d, rs) \<in> set (extract_contiguous_day_ranges slots) \<and> hour_in rs x) \<longleftrightarrow>
      x \<in> set (opt_or (dict_get slots d) [])"
  proof (cases "dict_get slots d")
    case None
    then have "(d, hours) \<notin> set slots" for hours using get [of d hours] by simp
    then show ?thesis using None by (auto simp: entry opt_or_def)
  next
    case (Some hours)
    with get have h: "(d, hours') \<in> set slots \<longleftrightarrow> hours' = hours" for hours' by (metis option.inject)
    have red: "(\<exists>rs. (d, rs) \<in> set (extract_contiguous_day_ranges slots) \<and> hour_in rs x) \<longleftrightarrow>
        (\<exists>k ks. sort hours = k # ks \<and> hour_in (hour_ranges k k ks) x)"
      unfolding entry h by blast
    have hours: "opt_or (dict_get slots d) [] = hours" by (simp add: Some opt_or_def)
    show ?thesis
    proof (cases "sort hours")
      case Nil
      then have "hours = []" by (metis set_sort set_empty)
      then show ?thesis unfolding red hours by simp
    next
      case (Cons k ks)
      have "sorted_wrt (<) (k # ks)" using strict [of d hours k ks] h Cons by blast
      then have "hour_in (hour_ranges k k ks) x \<longleftrightarrow> x \<in> set (k # ks)"
        unfolding hour_in_def using hour_ranges_cover [of k ks k x] by auto
      also have "set (k # ks) = set hours" using Cons by (metis set_sort)
      finally show ?thesis unfolding red hours Cons by simp
    qed
  qed
  show "0 \<le> fst r \<and> fst r < snd r \<and> snd r \<le> 24"
    if "(d, rs) \<in> set (extract_contiguous_day_ranges slots)" "r \<in> set rs"
  proof -
    from that obtain hours h hs where e: "(d, hours) \<in> set slots" "sort hours = h # hs" "r \<in> set (hour_ranges h h hs)"
      unfolding entry by auto
    have "set (h # hs) = set hours" using e(2) by (metis set_sort)
    then have "0 \<le> h" "last (h # hs) \<le> 23" using assms(2) e(1) last_in_set [of "h # hs"]
      by (fastforce simp: dict_all_def list_all_iff)+
    with hour_ranges_bounds [OF strict [OF e(1,2)] order_refl e(3)] show ?thesis by auto
  qed
qed

section \<open>Windows\<close>

lemma res_map_total:
  assumes "\<And>x. x \<in> set xs \<Longrightarrow> f x = Inr (g x)"
  shows "res_map f xs = Inr (map g xs)"
  using assms by (induction xs) auto

definition window_of :: "(int \<times> int) \<times> int list \<Rightarrow> trading_window" where
  "window_of e =
     \<lparr>tw_days = sorted_list_of_set (set (snd e)), tw_start_time = of_int (fst (fst e)) * 3600,
      tw_end_time = (if snd (fst e) \<ge> 24 then 86399 else of_int (snd (fst e)) * 3600)\<rparr>"

lemma range_window_ok:
  assumes "0 \<le> fst r" "fst r < snd r" "snd r \<le> 24" "days \<noteq> []"
  shows "range_window r days = Inr (window_of (r, days))"
proof -
  have "fst r * 3600 \<noteq> (if snd r \<ge> 24 then 86399 else snd r * 3600)" using assms by auto
  then have "rat_of_int (fst r * 3600) \<noteq> of_int (if snd r \<ge> 24 then 86399 else snd r * 3600)" unfolding of_int_eq_iff .
  also have "rat_of_int (if snd r \<ge> 24 then 86399 else snd r * 3600) = (if snd r \<ge> 24 then 86399 else of_int (snd r) * 3600)"
    by (rule trans [OF if_distrib]) (simp only: of_int_mult of_int_numeral)
  finally show ?thesis using assms(4) by (simp add: range_window_def make_window_def window_of_def)
qed

lemma within_hours:
  fixes s :: rat
  assumes "0 \<le> s" "s < 86399" "0 \<le> a" "b \<le> 24"
  shows "(of_int a * 3600 \<le> s \<and> s < (if b \<ge> 24 then 86399 else of_int b * 3600)) \<longleftrightarrow>
    a \<le> \<lfloor>s / 3600\<rfloor> \<and> \<lfloor>s / 3600\<rfloor> < b"
proof -
  have "of_int a * 3600 \<le> s \<longleftrightarrow> a \<le> \<lfloor>s / 3600\<rfloor>" by (simp add: le_floor_iff field_simps)
  moreover have "s < of_int b * 3600 \<longleftrightarrow> \<lfloor>s / 3600\<rfloor> < b" by (simp add: floor_less_iff field_simps)
  moreover have "\<lfloor>s / 3600\<rfloor> < 24" using assms(2) by (simp add: floor_less_iff)
  ultimately show ?thesis using assms by (cases "b \<ge> 24") auto
qed

lemma bex_pair: "(\<exists>e \<in> S. P e) \<longleftrightarrow> (\<exists>a b. (a, b) \<in> S \<and> P (a, b))"
  by force

definition covers :: "trading_window list \<Rightarrow> int \<Rightarrow> rat \<Rightarrow> bool" where
  "covers ws d s \<longleftrightarrow> (\<exists>w \<in> set ws. d \<in> set (tw_days w) \<and> tw_start_time w \<le> s \<and> s < tw_end_time w)"

lemma windows_from_ranges:
  assumes bounds: "\<And>d rs r. (d, rs) \<in> set day_ranges \<Longrightarrow> r \<in> set rs \<Longrightarrow> 0 \<le> fst r \<and> fst r < snd r \<and> snd r \<le> 24"
  obtains ws where "build_trading_windows_from_ranges day_ranges = Inr ws"
    "\<And>d s. 0 \<le> s \<Longrightarrow> s < 86399 \<Longrightarrow> covers ws d s \<longleftrightarrow> (\<exists>rs. (d, rs) \<in> set day_ranges \<and> hour_in rs \<lfloor>s / 3600\<rfloor>)"
proof -
  define entries :: "int \<times> (int \<times> int) list \<Rightarrow> ((int \<times> int) \<times> int) list"
    where "entries = (\<lambda>(weekday, ranges). map (\<lambda>r. (r, weekday)) ranges)"
  let ?groups = "sort_key fst (group_each entries day_ranges)"
  have mem: "d \<in> set (members entries day_ranges r) \<longleftrightarrow> (\<exists>rs. (d, rs) \<in> set day_ranges \<and> r \<in> set rs)" for d r
    by (force simp: members_def entries_def)
  have group: "(r, days) \<in> set ?groups \<longleftrightarrow> days = members entries day_ranges r \<and> days \<noteq> []" for r days
    by (simp add: group_each_set)
  have ok: "0 \<le> fst r \<and> fst r < snd r \<and> snd r \<le> 24" if "(r, days) \<in> set ?groups" for r days
  proof -
    from that have "members entries day_ranges r \<noteq> []" unfolding group by blast
    then have "hd (members entries day_ranges r) \<in> set (members entries day_ranges r)" by (rule hd_in_set)
    then show ?thesis using bounds unfolding mem by blast
  qed
  have "(\<lambda>(r, days). range_window r days) e = Inr (window_of e)" if "e \<in> set ?groups" for e
  proof -
    obtain r days where e: "e = (r, days)" by (rule prod.exhaust)
    with that have g: "(r, days) \<in> set ?groups" by simp
    then have "days \<noteq> []" unfolding group by blast
    with range_window_ok [of r days] ok [OF g] show ?thesis unfolding e by simp
  qed
  from res_map_total [of ?groups, OF this]
  have built: "build_trading_windows_from_ranges day_ranges = Inr (map window_of ?groups)"
    unfolding build_trading_windows_from_ranges_def entries_def .
  show thesis
  proof (rule that [OF built])
    fix d :: int and s :: rat
    assume s: "0 \<le> s" "s < 86399"
    have "covers (map window_of ?groups) d s \<longleftrightarrow>
        (\<exists>r days. (r, days) \<in> set ?groups \<and> d \<in> set days \<and> fst r \<le> \<lfloor>s / 3600\<rfloor> \<and> \<lfloor>s / 3600\<rfloor> < snd r)"
    proof -
      have one: "(d \<in> set (tw_days (window_of (r, days))) \<and> tw_start_time (window_of (r, days)) \<le> s \<and>
          s < tw_end_time (window_of (r, days))) \<longleftrightarrow> d \<in> set days \<and> fst r \<le> \<lfloor>s / 3600\<rfloor> \<and> \<lfloor>s / 3600\<rfloor> < snd r"
        if "(r, days) \<in> set ?groups" for r days
        using within_hours [OF s, of "fst r" "snd r"] ok [OF that] by (auto simp: window_of_def)
      show ?thesis
        unfolding covers_def set_map bex_simps bex_pair by (intro iff_exI conj_cong [OF refl], rule one)
    qed
    also have "\<dots> \<longleftrightarrow> (\<exists>r. d \<in> set (members entries day_ranges r) \<and> fst r \<le> \<lfloor>s / 3600\<rfloor> \<and> \<lfloor>s / 3600\<rfloor> < snd r)"
      unfolding group by (intro iff_exI) auto
    also have "\<dots> \<longleftrightarrow> (\<exists>rs. (d, rs) \<in> set day_ranges \<and> hour_in rs \<lfloor>s / 3600\<rfloor>)"
      unfolding mem hour_in_def by blast
    finally show "covers (map window_of ?groups) d s \<longleftrightarrow> (\<exists>rs. (d, rs) \<in> set day_ranges \<and> hour_in rs \<lfloor>s / 3600\<rfloor>)" .
  qed
qed

section \<open>Slots\<close>

definition profitable_slot :: "(rat \<Rightarrow> rat) \<Rightarrow> trade list \<Rightarrow> nat \<Rightarrow> rat \<Rightarrow> int \<Rightarrow> int \<Rightarrow> bool" where
  "profitable_slot offset trades min_trades min_win_rate weekday hour \<longleftrightarrow>
     (let m = calculate_metrics (filter (\<lambda>t. local_slot offset (tr_entry_timestamp t) = (weekday, hour)) trades)
      in am_total_trades m \<ge> min_trades \<and> am_win_rate_pct m \<ge> min_win_rate \<and> am_net_pnl m > 0)"

lemma members_keyed: "members (\<lambda>t. [(f t, t)]) xs k = filter (\<lambda>t. f t = k) xs"
  by (induction xs) (simp_all add: members_def)

lemma profitable_profile:
  "(\<exists>p \<in> set (profile_hourly_profitability offset trades). profitable k r p \<and> hw_weekday p = d \<and> hw_hour p = h) \<longleftrightarrow>
   profitable_slot offset trades k r d h"
proof -
  let ?bucket = "filter (\<lambda>t. local_slot offset (tr_entry_timestamp t) = (d, h)) trades"
  have "(\<exists>p \<in> set (profile_hourly_profitability offset trades). profitable k r p \<and> hw_weekday p = d \<and> hw_hour p = h) \<longleftrightarrow>
      (\<exists>bucket. ((d, h), bucket) \<in> set (group_each (\<lambda>t. [(local_slot offset (tr_entry_timestamp t), t)]) trades) \<and>
        am_total_trades (calculate_metrics bucket) \<ge> k \<and> am_win_rate_pct (calculate_metrics bucket) \<ge> r \<and>
        am_net_pnl (calculate_metrics bucket) > 0)"
    by (force simp: profile_hourly_profitability_def profitable_def Let_def)
  also have "\<dots> \<longleftrightarrow> ?bucket \<noteq> [] \<and> profitable_slot offset trades k r d h"
    unfolding group_each_set members_keyed profitable_slot_def Let_def by blast
  also have "\<dots> \<longleftrightarrow> profitable_slot offset trades k r d h"
    by (auto simp: profitable_slot_def calculate_metrics_def empty_metrics_def)
  finally show ?thesis .
qed

lemma slot_bounds: "0 \<le> snd (local_slot offset t) \<and> snd (local_slot offset t) \<le> 23"
proof -
  let ?l = "t + offset t"
  have "of_int (dt_day ?l) \<le> ?l / 86400" "?l / 86400 < of_int (dt_day ?l) + 1"
    unfolding dt_day_def day_seconds_def by linarith+
  then have "0 \<le> dt_seconds ?l" "dt_seconds ?l < 86400" by (simp_all add: dt_seconds_def day_seconds_def field_simps)
  then have "0 \<le> \<lfloor>dt_seconds ?l / 3600\<rfloor>" "\<lfloor>dt_seconds ?l / 3600\<rfloor> < 24" by (simp_all add: floor_less_iff)
  then show ?thesis unfolding local_slot_def Let_def snd_conv by linarith
qed

lemma profile_hour_bounds:
  assumes "p \<in> set (profile_hourly_profitability offset trades)"
  shows "0 \<le> hw_hour p \<and> hw_hour p \<le> 23"
proof -
  from assms obtain d h bucket where p: "hw_hour p = h"
    and g: "((d, h), bucket) \<in> set (group_each (\<lambda>t. [(local_slot offset (tr_entry_timestamp t), t)]) trades)"
    by (auto simp: profile_hourly_profitability_def Let_def)
  then have "hd bucket \<in> set bucket" unfolding group_each_set by (metis hd_in_set)
  then have "local_slot offset (tr_entry_timestamp (hd bucket)) = (d, h)"
    using g unfolding group_each_set members_keyed by auto
  with slot_bounds [of offset "tr_entry_timestamp (hd bucket)"] p show ?thesis by simp
qed

definition slots_of :: "nat \<Rightarrow> rat \<Rightarrow> hourly_profile list \<Rightarrow> (int, int list) dict" where
  "slots_of k r ps = foldl (\<lambda>d p. if profitable k r p then set_add (hw_weekday p) (hw_hour p) d else d) [] ps"

lemma slots_exact:
  "dict_wf (slots_of k r ps)"
  "set (opt_or (dict_get (slots_of k r ps) d) []) = hw_hour ` {p \<in> set ps. profitable k r p \<and> hw_weekday p = d}"
  "dict_all distinct (slots_of k r ps)"
proof (induction ps arbitrary: d rule: rev_induct)
  case (snoc p ps)
  case 1 show ?case using snoc(1) by (simp add: slots_of_def set_add_def)
  case 2 show ?case using snoc(2) [of d] by (auto simp: slots_of_def set_add_def opt_or_def AList.update_conv')
  case 3
  have "distinct (opt_or (dict_get (slots_of k r ps) (hw_weekday p)) [])"
    using snoc(3) by (cases "dict_get (slots_of k r ps) (hw_weekday p)")
      (auto simp: opt_or_def dict_all_def list_all_iff dest!: map_of_SomeD)
  then show ?case using snoc(3) by (auto simp: slots_of_def set_add_def intro!: dict_all_set)
qed (simp_all add: slots_of_def opt_or_def dict_wf_def)

lemma optimize_windows:
  "\<exists>ws. optimize_trading_windows offset trades min_trades min_win_rate = Inr ws \<and>
     (\<forall>d s. 0 \<le> s \<and> s < 86399 \<longrightarrow>
        covers ws d s = profitable_slot offset trades min_trades min_win_rate d \<lfloor>s / 3600\<rfloor>)"
proof -
  let ?ps = "profile_hourly_profitability offset trades"
  let ?slots = "slots_of min_trades min_win_rate ?ps"
  have opt: "optimize_trading_windows offset trades min_trades min_win_rate =
      (if ?slots = [] then Inr [] else build_trading_windows_from_ranges (extract_contiguous_day_ranges ?slots))"
    by (simp add: optimize_trading_windows_def slots_of_def)
  have slot: "x \<in> set (opt_or (dict_get ?slots d) []) \<longleftrightarrow> profitable_slot offset trades min_trades min_win_rate d x" for d x
    unfolding slots_exact(2) profitable_profile [symmetric] by blast
  have "dict_all (\<lambda>hs. distinct hs \<and> (\<forall>h \<in> set hs. 0 \<le> h \<and> h \<le> 23)) ?slots"
    unfolding dict_all_def list_all_iff
  proof safe
    fix d hs h assume e: "(d, hs) \<in> set ?slots"
    then show "distinct (snd (d, hs))" using slots_exact(3) by (fastforce simp: dict_all_def list_all_iff)
    assume "h \<in> set (snd (d, hs))"
    moreover have "dict_get ?slots d = Some hs" using slots_exact(1) e by (simp add: dict_wf_def)
    ultimately have "h \<in> hw_hour ` {p \<in> set ?ps. profitable min_trades min_win_rate p \<and> hw_weekday p = d}"
      unfolding slots_exact(2) [symmetric] by (simp add: opt_or_def)
    then show "0 \<le> h" "h \<le> 23" using profile_hour_bounds by auto
  qed
  note ranges = day_ranges_exact [OF slots_exact(1) this]
  show ?thesis
  proof (cases "?slots = []")
    case True
    then have "\<not> profitable_slot offset trades min_trades min_win_rate d x" for d x
      using slot [of x d] by (simp add: opt_or_def)
    then show ?thesis unfolding opt using True by (simp add: covers_def)
  next
    case False
    obtain ws where ws: "build_trading_windows_from_ranges (extract_contiguous_day_ranges ?slots) = Inr ws"
      and cover: "\<And>d s. 0 \<le> s \<Longrightarrow> s < 86399 \<Longrightarrow> covers ws d s \<longleftrightarrow>
        (\<exists>rs. (d, rs) \<in> set (extract_contiguous_day_ranges ?slots) \<and> hour_in rs \<lfloor>s / 3600\<rfloor>)"
      by (rule windows_from_ranges [OF ranges(2)]) blast+
    show ?thesis unfolding opt using False ws cover by (auto simp: ranges(1) slot)
  qed
qed


section \<open>Past and future\<close>

lemma split_chronologically:
  assumes "4 \<le> length trades" "split_trades_chronologically trades ratio = (past, future)"
  shows "mset (past @ future) = mset trades" "future \<noteq> []" "2 \<le> length past"
    "a \<in> set past \<Longrightarrow> b \<in> set future \<Longrightarrow> tr_exit_timestamp a \<le> tr_exit_timestamp b"
proof -
  let ?xs = "sort_key tr_exit_timestamp trades"
  obtain n where n: "past = take n ?xs" "future = drop n ?xs" "2 \<le> n" "n < length trades"
    using assms by (auto simp: split_trades_chronologically_def Let_def)
  have app: "past @ future = ?xs" by (simp add: n)
  then show "mset (past @ future) = mset trades" by simp
  show "future \<noteq> []" "2 \<le> length past" using n assms(1) by auto
  have "sorted (map tr_exit_timestamp (past @ future))" unfolding app by simp
  then show "a \<in> set past \<Longrightarrow> b \<in> set future \<Longrightarrow> tr_exit_timestamp a \<le> tr_exit_timestamp b"
    by (auto simp: sorted_append)
qed

lemma proposal_changes:
  assumes "generate_optimization_proposal h offset ticker cfg trades commit fallback ratio = Inr p"
  obtains strategies current suggested schedule where
    "strategies_of cfg = Inr strategies" "extract_current_weights h strategies = Inr current"
    "optimize_trading_windows offset (in_sample_trades trades ratio) 2 50 = Inr suggested"
    "build_schedule_changes offset ticker strategies suggested (in_sample_trades trades ratio) fallback = Inr schedule"
    "cp_changes p = build_weight_changes ticker
       (calibrate_strategy_weights h (in_sample_trades trades ratio) current (1/10) 2) @ schedule"
  using assms
  by (auto simp: generate_optimization_proposal_def evaluate_candidate_diagnostics_def Let_def
      elim!: res_bind_InrE split: prod.splits)

lemma adjusted_weight_bounds:
  assumes "calculate_adjusted_weight w score avg n mn mx \<noteq> w" "mn \<le> mx"
  shows "mn \<le> calculate_adjusted_weight w score avg n mn mx \<and> calculate_adjusted_weight w score avg n mn mx \<le> mx"
  using assms by (auto simp: calculate_adjusted_weight_def Let_def split: if_splits)

lemma weight_change_bounds:
  assumes "c \<in> set (build_weight_changes ticker (calibrate_strategy_weights h trades current mn mx))"
    "ch_new_value c = PNum w" "mn \<le> mx"
  shows "mn \<le> w \<and> w \<le> mx"
  using assms adjusted_weight_bounds
  by (fastforce simp: build_weight_changes_def calibrate_strategy_weights_def create_calibration_def Let_def
      split: if_splits prod.splits)

lemma schedule_change_windows:
  assumes "build_schedule_changes offset ticker strategies suggested trades fallback = Inr cs" "c \<in> set cs"
  shows "ch_new_value c \<in> range format_windows_payload"
proof -
  have mem: "\<exists>x \<in> set xs. f x = Inr y" if "res_map f xs = Inr ys" "y \<in> set ys" for f :: "config \<Rightarrow> config_change option result" and xs ys y
    using that by (induction xs arbitrary: ys) (auto elim!: res_bind_InrE)
  from assms obtain ys where "res_map (\<lambda>s. build_strategy_schedule_change offset ticker s suggested trades fallback) strategies = Inr ys"
    "Some c \<in> set ys"
    by (auto simp: build_schedule_changes_def map_filter_def elim!: res_bind_InrE)
  from mem [OF this] show ?thesis
    by (auto simp: build_strategy_schedule_change_def Let_def elim!: res_bind_InrE split: if_splits)
qed

lemma optimize_total: "\<exists>ws. optimize_trading_windows offset trades k r = Inr ws"
  using optimize_windows by blast

lemma optimize_strategy_total: "\<exists>ws. optimize_strategy_trading_windows offset trades name k r = Inr ws"
  using optimize_total by (simp add: optimize_strategy_trading_windows_def Let_def)

lemma res_map_returns:
  assumes "\<And>x. \<exists>y. f x = Inr y"
  shows "\<exists>ys. res_map f xs = Inr ys"
proof (induction xs)
  case (Cons x xs)
  obtain y ys where "f x = Inr y" "res_map f xs = Inr ys" using assms Cons by blast
  then show ?case by simp
qed simp

lemma foldl_returns:
  assumes "\<And>d x. \<exists>d'. f d x = Inr d'"
  shows "\<exists>d'. foldl (\<lambda>acc x. res_bind acc (\<lambda>d. f d x)) (Inr d) xs = Inr d'"
proof (induction xs arbitrary: d)
  case (Cons x xs)
  obtain d' where "f d x = Inr d'" using assms by blast
  then show ?case using Cons.IH [of d'] by simp
qed simp

lemma schedule_changes_total:
  "\<exists>cs. build_schedule_changes offset ticker strategies suggested trades fallback = Inr cs"
proof -
  have "\<exists>c. build_strategy_schedule_change offset ticker s suggested trades fallback = Inr c" for s
    using optimize_strategy_total [of offset trades "strat_name s" 2 50]
    by (auto simp: build_strategy_schedule_change_def Let_def)
  from res_map_returns [of "\<lambda>s. build_strategy_schedule_change offset ticker s suggested trades fallback" strategies, OF this]
  show ?thesis by (auto simp: build_schedule_changes_def)
qed

lemma candidate_windows_total:
  "\<exists>ws. extract_candidate_strategy_windows offset strategies suggested trades fallback = Inr ws"
proof -
  have "\<exists>d'. (if strat_name s = [] then Inr d
      else res_bind (optimize_strategy_trading_windows offset trades (strat_name s) 2 50) (\<lambda>strat_windows.
        let ws = effective_windows strat_windows suggested fallback
        in Inr (if ws = [] then d else dict_set (strat_name s) ws d))) = Inr d'" for s d
    using optimize_strategy_total [of offset trades "strat_name s" 2 50] by (auto simp: Let_def)
  from foldl_returns [of "\<lambda>d s. _ d s", OF this] show ?thesis
    unfolding extract_candidate_strategy_windows_def .
qed

lemma proposal_total:
  assumes "strategies_of cfg = Inr strategies" "extract_current_weights h strategies = Inr current"
  shows "\<exists>p. generate_optimization_proposal h offset ticker cfg trades commit fallback ratio = Inr p"
proof -
  let ?ins = "in_sample_trades trades ratio"
  obtain suggested where s: "optimize_trading_windows offset ?ins 2 50 = Inr suggested" using optimize_total by blast
  obtain ws where w: "extract_candidate_strategy_windows offset strategies suggested ?ins fallback = Inr ws"
    using candidate_windows_total by blast
  obtain cs where c: "build_schedule_changes offset ticker strategies suggested ?ins fallback = Inr cs"
    using schedule_changes_total by blast
  show ?thesis
    by (simp add: generate_optimization_proposal_def evaluate_candidate_diagnostics_def assms s w c Let_def split: prod.splits)
qed

text \<open>C37.  Calibration never looks ahead.  With at least four trades they are split into past and
  future by the time of exit, neither part is empty, every proposed change depends on the past
  trades only, whatever the future ones are, and every proposed weight lies between 0.1 and 2.\<close>

theorem calibration_uses_past_trades:
  assumes "4 \<le> length trades" "split_trades_chronologically trades ratio = (past, future)"
    and "generate_optimization_proposal h offset ticker cfg trades commit fallback ratio = Inr p"
  shows "mset (past @ future) = mset trades \<and> future \<noteq> [] \<and> 2 \<le> length past \<and>
    (\<forall>a \<in> set past. \<forall>b \<in> set future. tr_exit_timestamp a \<le> tr_exit_timestamp b) \<and>
    (\<forall>trades' p'. 4 \<le> length trades' \<and> fst (split_trades_chronologically trades' ratio) = past \<and>
       generate_optimization_proposal h offset ticker cfg trades' commit fallback ratio = Inr p' \<longrightarrow>
       cp_changes p' = cp_changes p) \<and>
    (\<forall>c \<in> set (cp_changes p). \<forall>w. ch_new_value c = PNum w \<longrightarrow> 1/10 \<le> w \<and> w \<le> 2)"
proof -
  have past: "in_sample_trades trades ratio = past" using assms(1,2) by (simp add: in_sample_trades_def)
  obtain strategies current suggested schedule where parts:
    "strategies_of cfg = Inr strategies" "extract_current_weights h strategies = Inr current"
    "optimize_trading_windows offset past 2 50 = Inr suggested"
    "build_schedule_changes offset ticker strategies suggested past fallback = Inr schedule"
    and changes: "cp_changes p = build_weight_changes ticker (calibrate_strategy_weights h past current (1/10) 2) @ schedule"
    by (rule proposal_changes [OF assms(3), unfolded past])
  have same: "cp_changes p' = cp_changes p"
    if "4 \<le> length trades'" "fst (split_trades_chronologically trades' ratio) = past"
      and p': "generate_optimization_proposal h offset ticker cfg trades' commit fallback ratio = Inr p'" for trades' p'
  proof -
    have "in_sample_trades trades' ratio = past" using that(1,2) by (simp add: in_sample_trades_def)
    note q = proposal_changes [OF p', unfolded this]
    show ?thesis by (rule q) (use parts changes in auto)
  qed
  have "1/10 \<le> w \<and> w \<le> 2" if "c \<in> set (cp_changes p)" "ch_new_value c = PNum w" for c w
  proof (cases "c \<in> set schedule")
    case True
    then show ?thesis using schedule_change_windows [OF parts(4)] that(2) by (fastforce simp: format_windows_payload_def)
  next
    case False
    with that changes have "c \<in> set (build_weight_changes ticker (calibrate_strategy_weights h past current (1/10) 2))" by auto
    from weight_change_bounds [OF this that(2)] show ?thesis by simp
  qed
  with split_chronologically [OF assms(1,2)] same show ?thesis by blast
qed

section \<open>Examples\<close>

definition sample_trade :: "rat \<Rightarrow> rat \<Rightarrow> trade" where
  "sample_trade entry net =
     \<lparr>tr_trade_id = ''t'', tr_ticker_symbol = ''BTC_USD'', tr_entry_order_uuid = ''a'', tr_exit_order_uuid = ''b'',
      tr_entry_price = 100, tr_exit_price = 110, tr_quantity = 1, tr_gross_pnl = net, tr_fees = 0, tr_net_pnl = net,
      tr_return_pct = net, tr_duration_seconds = 60, tr_entry_timestamp = entry, tr_exit_timestamp = entry + 60,
      tr_slippage = 0, tr_commit_hash = None, tr_winning_strategy = Some ''s'', tr_strategy_votes = None,
      tr_entry_strategy_attributions = None, tr_exit_strategy_attributions = None, tr_exit_winning_strategy = None,
      tr_exit_strategy_votes = None, tr_entry_regime = None, tr_exit_regime = None\<rparr>"

text \<open>Four trades: two on a Thursday in the hour from nine, one an hour later, one on the next day.\<close>

definition sample_trades :: "trade list" where
  "sample_trades = [sample_trade 32400 5, sample_trade 34000 5, sample_trade 36000 (-1), sample_trade 118800 2]"

definition sample_host :: host where
  "sample_host = \<lparr>h_float = (\<lambda>_. None), h_int = (\<lambda>_. None), h_str = (\<lambda>_. []), h_repr = (\<lambda>_. []),
                  h_sqrt = (\<lambda>x. x), h_log = (\<lambda>x. x)\<rparr>"

definition sample_config :: config where
  "sample_config = [(''strategies'', PList [PDict [(''name'', PStr ''s''), (''weight'', PNum 1)]])]"


lemma sample_result_ok:
  "\<exists>p. generate_optimization_proposal sample_host (\<lambda>_. 0) ''BTC_USD'' sample_config sample_trades None False (7/10) = Inr p"
  by (rule proposal_total [of _ "[[(''name'', PStr ''s''), (''weight'', PNum 1)]]" _ "[(''s'', 1)]"])
    (simp_all add: sample_config_def strategies_of_def get_or_def opt_or_def extract_current_weights_def strat_name_def)

theorem calibration_uses_past_trades_witness:
  "2 \<le> length (fst (split_trades_chronologically sample_trades (7/10))) \<and>
   snd (split_trades_chronologically sample_trades (7/10)) \<noteq> [] \<and>
   mset (fst (split_trades_chronologically sample_trades (7/10)) @ snd (split_trades_chronologically sample_trades (7/10))) =
     mset sample_trades"
proof -
  obtain p where p: "generate_optimization_proposal sample_host (\<lambda>_. 0) ''BTC_USD'' sample_config sample_trades None False (7/10) = Inr p"
    using sample_result_ok by blast
  have "4 \<le> length sample_trades" by (simp add: sample_trades_def)
  from calibration_uses_past_trades [OF this prod.collapse [symmetric] p] show ?thesis by blast
qed

text \<open>The comparison counts a trade at the end of a window, which the schedule excludes.\<close>

lemma window_end_counted:
  "is_trade_within_windows (\<lambda>_. 0) 36000 [\<lparr>tw_days = [3], tw_start_time = 32400, tw_end_time = 36000\<rparr>] \<and>
   \<not> is_window_active \<lparr>tw_days = [3], tw_start_time = 32400, tw_end_time = 36000\<rparr> 36000 None"
  by code_simp

end
