(* ===== verification/Diagnostics.thy ===== *)
theory Diagnostics
  imports Optimizer Proposals
begin

text \<open>
  Proposals of the strategy optimizer as evidence (\<open>src/src/proposals/optimizer_proposal_builder.py\<close>):
  a preliminary diagnostic that is never recommended for approval.  The rendered narrative is
  left out.
\<close>

definition empty_comparison :: "string \<Rightarrow> metric_comparison" where
  "empty_comparison name =
     \<lparr>mc_metric_name = name, mc_baseline_value = None, mc_candidate_value = None, mc_absolute_delta = None,
      mc_relative_delta_pct = None, mc_is_improvement = None\<rparr>"

definition empty_benefit :: expected_benefit where
  "empty_benefit =
     \<lparr>eb_net_pnl = None, eb_net_return_pct = empty_comparison ''net_return_pct'',
      eb_expectancy_per_trade = empty_comparison ''expectancy_per_trade'',
      eb_max_drawdown_pct = empty_comparison ''max_drawdown_pct'', eb_profit_factor = empty_comparison ''profit_factor'',
      eb_win_rate_pct = empty_comparison ''win_rate_pct'', eb_sharpe_ratio = empty_comparison ''sharpe_ratio'',
      eb_out_of_sample_return_pct = None, eb_walk_forward_efficiency = None,
      eb_trade_frequency_round_trips = empty_comparison ''trade_frequency_round_trips'',
      eb_exposure_time_pct = empty_comparison ''exposure_time_pct'', eb_regime_breakdown = []\<rparr>"

definition diagnostic_benefit :: "comparison_result option \<Rightarrow> expected_benefit" where
  "diagnostic_benefit baseline_eval =
     (case baseline_eval of
        None \<Rightarrow> empty_benefit
      | Some b \<Rightarrow>
          (let base = bc_baseline_metrics b; prop = bc_proposed_metrics b
           in empty_benefit\<lparr>
                eb_net_pnl := Some (compare_metric ''net_pnl'' (Some (bm_net_pnl base)) (Some (bm_net_pnl prop)) (Some True)),
                eb_profit_factor := compare_metric ''profit_factor'' (Some (bm_profit_factor base))
                  (Some (bm_profit_factor prop)) (Some True),
                eb_win_rate_pct := compare_metric ''win_rate_pct'' (Some (bm_win_rate_pct base))
                  (Some (bm_win_rate_pct prop)) (Some True),
                eb_trade_frequency_round_trips := compare_metric ''trade_frequency_round_trips''
                  (Some (of_nat (bm_trades_count base))) (Some (of_nat (bm_trades_count prop))) None\<rparr>))"

definition trade_days :: "trade list \<Rightarrow> int list" where
  "trade_days trades = remdups (map (\<lambda>t. dt_day (tr_entry_timestamp t)) trades)"

text \<open>The duration is \<open>None\<close> with fewer than two trades, which the summary's field refuses.\<close>

definition diagnostic_duration :: "trade list \<Rightarrow> rat option" where
  "diagnostic_duration trades =
     (if length trades \<ge> 2
      then Some (round_digits 2 (max 0 ((Max (tr_exit_timestamp ` set trades) - Min (tr_entry_timestamp ` set trades)) / 86400)))
      else None)"

definition diagnostic_sample_size :: "trade list \<Rightarrow> comparison_result option \<Rightarrow> sample_size result" where
  "diagnostic_sample_size trades baseline_eval =
     (let days = trade_days trades;
          oos_count = (case baseline_eval of Some b \<Rightarrow> bc_out_of_sample_trades_count b | None \<Rightarrow> 0);
          sufficient = (int (length trades) \<ge> MIN_TRADES_BASELINE_FLOOR \<and> length days \<ge> 3 \<and> oos_count \<ge> 5)
      in case diagnostic_duration trades of
           None \<Rightarrow> Inl ValueError
         | Some duration \<Rightarrow>
             Inr \<lparr>ss_baseline_trades = int (length trades), ss_candidate_trades = int oos_count,
                  ss_independent_oos_windows = (if oos_count > 0 then 1 else 0),
                  ss_profitable_oos_windows = (case baseline_eval of
                      Some b \<Rightarrow> if bm_net_pnl (bc_proposed_metrics b) > 0 then 1 else 0 | None \<Rightarrow> 0),
                  ss_evaluation_duration_days = duration, ss_calendar_days_observed = int (length days),
                  ss_regimes_covered = [],
                  ss_estimated_required_sample_size = Some MIN_TRADES_BASELINE_FLOOR, ss_statistical_unit = ''trades'',
                  ss_is_heuristic = True,
                  ss_sufficiency_rationale = (if sufficient
                    then ''Heuristic trade count and calendar span satisfied for preliminary attribution diagnostic.''
                    else ''Insufficient trade observations or calendar span for reliable attribution calibration.''),
                  ss_is_sample_sufficient = sufficient\<rparr>)"

definition calibration_interval :: "calibration \<Rightarrow> confidence_interval" where
  "calibration_interval c =
     \<lparr>ci_metric_name = cal_strategy_name c @ ''_win_rate_pct'', ci_point_estimate = cal_win_rate_pct c,
      ci_lower_bound = round_digits 2 (max 0 (cal_win_rate_pct c - cal_sample_margin_of_error_pct c)),
      ci_upper_bound = round_digits 2 (min 100 (cal_win_rate_pct c + cal_sample_margin_of_error_pct c)),
      ci_confidence_level = 95/100, ci_method = ''normal_binomial_win_rate_interval''\<rparr>"

definition diagnostic_uncertainty ::
  "calibration list \<Rightarrow> comparison_result option \<Rightarrow> sample_size \<Rightarrow> uncertainty_assessment" where
  "diagnostic_uncertainty calibrations baseline_eval ss =
     \<lparr>ua_intervals = map calibration_interval (filter (\<lambda>c. cal_total_trades c > 0) calibrations),
      ua_fold_return_std_pct = map_option (\<lambda>b. bm_return_volatility (bc_proposed_metrics b)) baseline_eval,
      ua_multiple_testing_candidates_count = max (int (length calibrations)) 1,
      ua_selection_bias_warning = (length calibrations > 1), ua_holdout_validated = False,
      ua_candidate_search_summary = None,
      ua_missing_evidence =
        [''Preliminary split-sample attribution rescaling does not simulate the full order, '' @
         ''consensus, and portfolio lifecycle; full walk-forward validation is required.'',
         ''Comparable multi-fold walk-forward out-of-sample runs are missing.''] @
        noted (baseline_eval = None) ''Out-of-sample split comparison unavailable (<4 historical trades).'',
      ua_can_distinguish_from_noise = ss_is_sample_sufficient ss\<rparr>"

definition no_risk_delta :: risk_delta where
  "no_risk_delta =
     \<lparr>rd_max_drawdown_pct_delta = None, rd_downside_deviation_pct_delta = None,
      rd_annualized_volatility_pct_delta = None, rd_peak_exposure_pct_delta = None, rd_avg_exposure_pct_delta = None,
      rd_concentration_hhi_delta = None, rd_largest_loss_delta = None, rd_max_consecutive_losses_delta = None,
      rd_risk_limit_breaches = [], rd_risk_increased = False, rd_downside_uncertainty_high = True\<rparr>"

definition diagnostic_risk :: "comparison_result option \<Rightarrow> risk_delta" where
  "diagnostic_risk baseline_eval =
     (case baseline_eval of
        None \<Rightarrow> no_risk_delta
      | Some b \<Rightarrow>
          (let base = bc_baseline_metrics b; prop = bc_proposed_metrics b
           in no_risk_delta\<lparr>
                rd_max_drawdown_pct_delta := Some (round_digits 4 (bm_max_drawdown prop - bm_max_drawdown base)),
                rd_annualized_volatility_pct_delta :=
                  Some (round_digits 4 (bm_return_volatility prop - bm_return_volatility base)),
                rd_largest_loss_delta := Some (round_digits 4 (bm_worst_trade_loss prop - bm_worst_trade_loss base)),
                rd_downside_uncertainty_high := (bc_out_of_sample_trades_count b < 10),
                rd_risk_increased := bc_risk_increased b\<rparr>))"

definition diagnostic_verdict :: "evidence_status \<times> proposal_recommendation" where
  "diagnostic_verdict = (INSUFFICIENT, INSUFFICIENT_EVIDENCE)"

definition diagnostic_limitations ::
  "calibration list \<Rightarrow> comparison_result option \<Rightarrow> sample_size \<Rightarrow> risk_delta \<Rightarrow> string list" where
  "diagnostic_limitations calibrations baseline_eval ss risk =
     [''Preliminary diagnostic only: weighted trade attribution rescaling does not execute full consensus, '' @
      ''sizing, order execution, or portfolio constraints.'',
      ''Not a validated proposal: Requires comparative multi-fold backtest or walk-forward experiment '' @
      ''to evaluate true edge.''] @
     noted (length (ss_regimes_covered ss) < 2)
       ''Trades originate from a single narrow calendar window; observations are likely correlated.'' @
     noted (list_ex (\<lambda>c. cal_evidence_status c = ''INSUFFICIENT'') calibrations)
       ''One or more strategy calibrations lack sufficient independent sample size.'' @
     (case baseline_eval of
        Some b \<Rightarrow> noted (rd_risk_increased risk)
          (''Candidate increased out-of-sample max drawdown by +'' @ fixed_str 2 (bc_drawdown_delta b) @ '' (candidate '' @
           fixed_str 2 (bm_max_drawdown (bc_proposed_metrics b)) @ '' vs baseline '' @
           fixed_str 2 (bm_max_drawdown (bc_baseline_metrics b)) @ '').'')
      | None \<Rightarrow> [])"

definition diagnostic_plan :: "risk_delta \<Rightarrow> string list" where
  "diagnostic_plan risk =
     [''Execute a full experiment with baseline and candidate configuration commits through '' @
      ''the backtest and multi-fold walk-forward runner.'',
      ''Collect simulated execution metrics across full order lifecycle, slippage, and portfolio limits.'',
      ''Evaluate candidate via the authoritative ProposalValidator before seeking configuration approval.''] @
     noted (rd_downside_uncertainty_high risk) ''Verify drawdown and exposure limits on multi-fold out-of-sample runs.'' @
     [''Require explicit human approval before live configuration activation.'']"

definition summarize_config_changes :: "host \<Rightarrow> config_change list \<Rightarrow> string" where
  "summarize_config_changes h changes =
     (if changes = [] then ''No configuration changes proposed.''
      else join_with ''; '' (map (\<lambda>c. ch_path c @ '': '' @ h_repr h (ch_old_value c) @ '' -> '' @ h_repr h (ch_new_value c))
             (take 5 changes)))"

definition extract_period :: "trade list \<Rightarrow> period_spec option" where
  "extract_period trades =
     (if trades = [] then None
      else Some \<lparr>pe_start_time = Some (Min (tr_entry_timestamp ` set trades)),
                 pe_end_time = Some (Max (tr_exit_timestamp ` set trades))\<rparr>)"

definition build_evidence_proposal ::
  "host \<Rightarrow> (rat \<Rightarrow> rat) \<Rightarrow> string \<Rightarrow> string \<Rightarrow> config \<Rightarrow> trade list \<Rightarrow> string option \<Rightarrow> bool \<Rightarrow> rat \<Rightarrow> string option
   \<Rightarrow> (configuration_proposal \<times> evidence_based_proposal) result" where
  "build_evidence_proposal h offset fresh_id ticker asset_config trades base_commit allow_fallback train_ratio proposal_id =
     res_bind (generate_optimization_proposal h offset ticker asset_config trades base_commit allow_fallback train_ratio)
       (\<lambda>config_proposal.
     res_bind (evaluate_candidate_diagnostics h offset asset_config trades allow_fallback train_ratio)
       (\<lambda>(calibrations, _, baseline_eval).
     res_bind (diagnostic_sample_size trades baseline_eval) (\<lambda>ss.
       let unc = diagnostic_uncertainty calibrations baseline_eval ss;
           risk = diagnostic_risk baseline_eval
       in Inr (config_proposal,
          \<lparr>pr_id = text_or proposal_id (''prop_diag_'' @ take 10 fresh_id),
           pr_title = ''Preliminary Diagnostic: Calibrate '' @ ticker @ '' strategy weights and trading windows'',
           pr_ticker_symbol = ticker, pr_hypothesis = cp_summary config_proposal,
           pr_proposed_changes_summary = summarize_config_changes h (cp_changes config_proposal),
           pr_baseline_commit = text_or base_commit ''HEAD'', pr_candidate_commit = None,
           pr_candidate_id = Some ''cand_optimizer_diagnostic'',
           pr_evidence_refs = \<lparr>er_experiment_id = None, er_baseline_backtest_id = None, er_candidate_backtest_id = None,
             er_baseline_walk_forward_id = None, er_candidate_walk_forward_id = None, er_dataset_id = None\<rparr>,
           pr_evaluation_period = extract_period trades,
           pr_market_data_provenance = Some ''historical_trade_attribution'',
           pr_execution_assumptions = [(''diagnostic_mode'', PStr ''split_sample_attribution_rescaling'')],
           pr_comparability = new_report\<lparr>cr_discrepancies :=
             [''Preliminary diagnostic only: Complete order execution, consensus, and portfolio constraints not simulated.'']\<rparr>,
           pr_expected_benefit = diagnostic_benefit baseline_eval, pr_sample_size = ss, pr_uncertainty = unc,
           pr_risk_changes = risk, pr_limitations = diagnostic_limitations calibrations baseline_eval ss risk,
           pr_evidence_status = fst diagnostic_verdict, pr_recommendation = snd diagnostic_verdict,
           pr_validation_plan = diagnostic_plan risk, pr_calculation_version = ''1.0.0'',
           pr_triggered_by = Some [(''source'', PStr ''strategy_optimizer''), (''diagnostic_mode'', PStr ''preliminary'')]\<rparr>))))"

text \<open>A diagnostic is built from at least two trades only, and never recommends an approval.\<close>

lemma diagnostic_needs_two_trades:
  assumes "length trades < 2"
  shows "build_evidence_proposal h offset i ticker cfg trades commit fallback ratio pid \<noteq> Inr r"
  using assms
  by (auto simp: build_evidence_proposal_def diagnostic_sample_size_def diagnostic_duration_def Let_def
      elim!: res_bind_InrE)

lemma diagnostic_not_promoted:
  assumes "build_evidence_proposal h offset i ticker cfg trades commit fallback ratio pid = Inr (c, p)"
  shows "pr_recommendation p = INSUFFICIENT_EVIDENCE \<and> \<not> cr_is_comparable (pr_comparability p)"
  using assms
  by (auto simp: build_evidence_proposal_def diagnostic_verdict_def new_report_def Let_def
      elim!: res_bind_InrE split: prod.splits)

end
