(* ===== verification/Retention.thy ===== *)
theory Retention
  imports Expressions Merge
begin

text \<open>
  Retention policies: durations (\<open>src/src/retention/durations.py\<close>), policies (\<open>models.py\<close>), the
  configuration (\<open>src/src/configuration/retention_config.py\<close>) and the resolver that combines it
  with overrides (\<open>policy_resolver.py\<close>).

  Durations are whole seconds, times are seconds since 1970.  The version of a set of policies is
  a digest of their documents; the digest and the text of a time are arguments.  Persisted
  overrides hold texts, as the resolver writes them.
\<close>

section \<open>Durations\<close>

definition MAX_TIMEDELTA :: int where "MAX_TIMEDELTA = 86399999999999"

definition timedelta :: "int \<Rightarrow> int result" where
  "timedelta seconds = (if seconds > MAX_TIMEDELTA then Inl OverflowError else Inr seconds)"

definition digit :: "char \<Rightarrow> int option" where
  "digit c = (let n = of_char c :: int in if 48 \<le> n \<and> n \<le> 57 then Some (n - 48) else None)"

fun digits_value :: "int \<Rightarrow> string \<Rightarrow> int option" where
  "digits_value acc [] = Some acc"
| "digits_value acc (c # cs) = (case digit c of None \<Rightarrow> None | Some d \<Rightarrow> digits_value (acc * 10 + d) cs)"

definition unit_seconds :: "char \<Rightarrow> int option" where
  "unit_seconds c =
     (if c \<in> {CHR ''d'', CHR ''D''} then Some 86400
      else if c \<in> {CHR ''h'', CHR ''H''} then Some 3600
      else if c \<in> {CHR ''m'', CHR ''M''} then Some 60
      else if c \<in> {CHR ''s'', CHR ''S''} then Some 1 else None)"

text \<open>The pattern: one or more digits and a unit.\<close>

definition match_duration :: "string \<Rightarrow> (int \<times> int) option" where
  "match_duration s =
     (if length s < 2 then None
      else case (digits_value 0 (butlast s), unit_seconds (last s)) of
             (Some v, Some u) \<Rightarrow> Some (v, u)
           | _ \<Rightarrow> None)"

definition parse_duration :: "string \<Rightarrow> int option result" where
  "parse_duration raw =
     (let s = strip raw
      in if s = [] then Inl ValueError
         else if upper s = ''KEEP'' then Inr None
         else case match_duration s of
                None \<Rightarrow> Inl ValueError
              | Some (v, u) \<Rightarrow> res_bind (timedelta (v * u)) (\<lambda>d. Inr (Some d)))"

definition signed_str :: "int \<Rightarrow> string" where
  "signed_str i = (if i < 0 then ''-'' @ nat_str (nat (- i)) else nat_str (nat i))"

definition format_duration :: "int option \<Rightarrow> string" where
  "format_duration delta =
     (case delta of
        None \<Rightarrow> ''KEEP''
      | Some n \<Rightarrow>
          if n mod 86400 = 0 \<and> n \<noteq> 0 then signed_str (n div 86400) @ ''d''
          else if n mod 3600 = 0 \<and> n \<noteq> 0 then signed_str (n div 3600) @ ''h''
          else if n mod 60 = 0 \<and> n \<noteq> 0 then signed_str (n div 60) @ ''m''
          else signed_str n @ ''s'')"

section \<open>Policies\<close>

datatype data_category =
    FINANCIAL | TRADING_DECISION | TRACE | METRICS | RUNTIME_ALERT | EXPERIMENT | EXPERIMENT_ARTIFACT | REPORT
  | CONFIG_HISTORY | MARKET_DATA | MARKET_DATA_BUFFER | APPLICATION_LOG | CACHE

definition category_names :: "(string \<times> data_category) list" where
  "category_names =
     [(''FINANCIAL'', FINANCIAL), (''TRADING_DECISION'', TRADING_DECISION), (''TRACE'', TRACE), (''METRICS'', METRICS),
      (''RUNTIME_ALERT'', RUNTIME_ALERT), (''EXPERIMENT'', EXPERIMENT), (''EXPERIMENT_ARTIFACT'', EXPERIMENT_ARTIFACT),
      (''REPORT'', REPORT), (''CONFIG_HISTORY'', CONFIG_HISTORY), (''MARKET_DATA'', MARKET_DATA),
      (''MARKET_DATA_BUFFER'', MARKET_DATA_BUFFER), (''APPLICATION_LOG'', APPLICATION_LOG), (''CACHE'', CACHE)]"

definition category_value :: "data_category \<Rightarrow> string" where
  "category_value c = fst (hd (filter (\<lambda>e. snd e = c) category_names))"

datatype retention_mode = DELETE | ARCHIVE | AGGREGATE_THEN_DELETE | KEEP

fun mode_value :: "retention_mode \<Rightarrow> string" where
  "mode_value DELETE = ''DELETE''"
| "mode_value ARCHIVE = ''ARCHIVE''"
| "mode_value AGGREGATE_THEN_DELETE = ''AGGREGATE_THEN_DELETE''"
| "mode_value KEEP = ''KEEP''"

definition parse_mode :: "string \<Rightarrow> retention_mode result" where
  "parse_mode s =
     (case filter (\<lambda>m. mode_value m = s) [DELETE, ARCHIVE, AGGREGATE_THEN_DELETE, KEEP] of
        [] \<Rightarrow> Inl ValueError
      | m # _ \<Rightarrow> Inr m)"

record retention_policy =
  rp_policy_id :: string
  rp_data_category :: data_category
  rp_retention_period :: string
  rp_retention_mode :: retention_mode
  rp_scope :: string
  rp_enabled :: bool
  rp_grace_period :: string
  rp_description :: string
  rp_updated_at :: "timestamp option"
  rp_updated_by :: "string option"

definition period_delta :: "retention_policy \<Rightarrow> int option result" where
  "period_delta p = parse_duration (rp_retention_period p)"

definition grace_delta :: "retention_policy \<Rightarrow> int result" where
  "grace_delta p = res_bind (parse_duration (rp_grace_period p)) (\<lambda>d. Inr (opt_or d 0))"

definition check_date :: "timestamp \<Rightarrow> timestamp result" where
  "check_date t = (if t < - 62135596800 then Inl OverflowError else Inr t)"

definition cutoff :: "retention_policy \<Rightarrow> timestamp \<Rightarrow> timestamp option result" where
  "cutoff p now =
     res_bind (period_delta p) (\<lambda>d.
       case d of
         None \<Rightarrow> Inr None
       | Some period \<Rightarrow>
           res_bind (check_date (now - of_int period)) (\<lambda>t.
           res_bind (grace_delta p) (\<lambda>grace.
           res_bind (check_date (t - of_int grace)) (\<lambda>c. Inr (Some c)))))"

definition policy_to_dict :: "(timestamp \<Rightarrow> string) \<Rightarrow> retention_policy \<Rightarrow> int option \<Rightarrow> int option \<Rightarrow> config" where
  "policy_to_dict isof p record_count storage_bytes =
     (let opt = (\<lambda>f x. case x of None \<Rightarrow> PNone | Some v \<Rightarrow> f v)
      in [(''policy_id'', PStr (rp_policy_id p)), (''data_category'', PStr (category_value (rp_data_category p))),
          (''retention_period'', PStr (rp_retention_period p)), (''retention_mode'', PStr (mode_value (rp_retention_mode p))),
          (''scope'', PStr (rp_scope p)), (''enabled'', PBool (rp_enabled p)), (''grace_period'', PStr (rp_grace_period p)),
          (''description'', PStr (rp_description p)), (''record_count'', opt PInt record_count),
          (''estimated_storage_bytes'', opt PInt storage_bytes),
          (''updated_at'', case rp_updated_at p of None \<Rightarrow> PNone | Some t \<Rightarrow> PStr (isof t)),
          (''updated_by'', case rp_updated_by p of None \<Rightarrow> PNone | Some s \<Rightarrow> PStr s)])"

section \<open>Configuration\<close>

record policy_settings =
  ps_data_category :: "data_category option"
  ps_retention_period :: string
  ps_retention_mode :: retention_mode
  ps_scope :: string
  ps_enabled :: bool
  ps_grace_period :: "string option"
  ps_description :: string

record retention_config =
  rc_enabled :: bool
  rc_schedule :: string
  rc_dry_run :: bool
  rc_batch_size :: int
  rc_grace_period :: string
  rc_policies :: "(string, policy_settings) dict"

text \<open>The validators of \<open>PolicySettings\<close>.\<close>

definition settings_valid :: "policy_settings \<Rightarrow> bool" where
  "settings_valid s \<longleftrightarrow>
     \<not> isl (parse_duration (ps_retention_period s)) \<and>
     (case ps_grace_period s of None \<Rightarrow> True | Some g \<Rightarrow> \<not> isl (parse_duration g))"

definition default_settings :: "data_category \<Rightarrow> string \<Rightarrow> retention_mode \<Rightarrow> string \<Rightarrow> policy_settings" where
  "default_settings c period mode description =
     \<lparr>ps_data_category = Some c, ps_retention_period = period, ps_retention_mode = mode, ps_scope = ''GLOBAL'',
      ps_enabled = True, ps_grace_period = None, ps_description = description\<rparr>"

definition get_defaults :: "(string, policy_settings) dict" where
  "get_defaults =
     [(''financial_records'', default_settings FINANCIAL ''KEEP'' KEEP ''Orders, fills and ledger entries. Never auto-deleted.''),
      (''trading_decisions'', default_settings TRADING_DECISION ''730d'' KEEP ''Decision snapshots and attribution retained for reproducibility.''),
      (''trace_events'', default_settings TRACE ''90d'' ARCHIVE ''Detailed lifecycle events for recent investigations.''),
      (''metric_samples'', default_settings METRICS ''30d'' DELETE ''Raw metric samples; aggregates are preserved by metric definitions.''),
      (''runtime_incidents'', default_settings RUNTIME_ALERT ''180d'' AGGREGATE_THEN_DELETE ''Drift alerts and runtime incident detail.''),
      (''experiment_metadata'', default_settings EXPERIMENT ''KEEP'' KEEP ''Experiment definitions, triggers and provenance.''),
      (''experiment_artifacts'', default_settings EXPERIMENT_ARTIFACT ''90d'' DELETE ''Bulky experiment report payloads; disabled until reviewed.''),
      (''backtest_reports'', default_settings REPORT ''365d'' DELETE ''Backtest and walk-forward sessions not referenced by experiments.''),
      (''market_datasets'', default_settings MARKET_DATA ''365d'' DELETE ''Downloaded OHLCV datasets not referenced by retained runs.''),
      (''application_logs'', default_settings APPLICATION_LOG ''30d'' DELETE ''Rotated application, trading, agent and audit log files.''),
      (''config_history'', default_settings CONFIG_HISTORY ''KEEP'' KEEP ''VCS commits and blobs referenced by retained records.''),
      (''market_data_buffer'', default_settings MARKET_DATA_BUFFER ''6h'' DELETE ''In-memory recorded market data used for backtests and recorded-data reads.''),
      (''cache_buffers'', default_settings CACHE ''1d'' KEEP ''Other rebuildable in-memory buffers.'')]"

section \<open>The resolver\<close>

definition CATEGORY_BY_KEY :: "(string, data_category) dict" where
  "CATEGORY_BY_KEY =
     [(''financial_records'', FINANCIAL), (''orders'', FINANCIAL), (''trades'', FINANCIAL),
      (''trading_decisions'', TRADING_DECISION), (''trace_events'', TRACE), (''timeline'', TRACE),
      (''metric_samples'', METRICS), (''metrics'', METRICS), (''runtime_incidents'', RUNTIME_ALERT),
      (''drift_alerts'', RUNTIME_ALERT), (''experiment_metadata'', EXPERIMENT), (''experiments'', EXPERIMENT),
      (''experiment_artifacts'', EXPERIMENT_ARTIFACT), (''backtest_reports'', REPORT), (''reports'', REPORT),
      (''market_datasets'', MARKET_DATA), (''market_data'', MARKET_DATA), (''market_data_buffer'', MARKET_DATA_BUFFER),
      (''application_logs'', APPLICATION_LOG), (''config_history'', CONFIG_HISTORY), (''cache_buffers'', CACHE)]"

definition DESTRUCTIVE_MODES :: "retention_mode set" where
  "DESTRUCTIVE_MODES = {DELETE, AGGREGATE_THEN_DELETE}"

record override =
  ov_retention_period :: "string option"
  ov_retention_mode :: "string option"
  ov_enabled :: "bool option"
  ov_updated_at :: "timestamp option option"
  ov_updated_by :: "string option option"

definition no_override :: override where
  "no_override = \<lparr>ov_retention_period = None, ov_retention_mode = None, ov_enabled = None, ov_updated_at = None,
                   ov_updated_by = None\<rparr>"

record policy_resolver =
  rz_config :: retention_config
  rz_overrides :: "(string, override) dict"
  rz_policies :: "(string, retention_policy) dict"
  rz_version :: string

definition resolve_category :: "string \<Rightarrow> data_category option \<Rightarrow> data_category result" where
  "resolve_category policy_id raw =
     (case raw of
        Some c \<Rightarrow> Inr c
      | None \<Rightarrow>
          (case map_of category_names (upper policy_id) of
             Some c \<Rightarrow> Inr c
           | None \<Rightarrow> (case dict_get CATEGORY_BY_KEY policy_id of Some c \<Rightarrow> Inr c | None \<Rightarrow> Inl ValueError)))"

definition build_policy :: "retention_config \<Rightarrow> string \<Rightarrow> policy_settings \<Rightarrow> override \<Rightarrow> retention_policy result" where
  "build_policy cfg policy_id s ov =
     (let period = opt_or (ov_retention_period ov) (ps_retention_period s);
          grace = (if truthy (ps_grace_period s) then the (ps_grace_period s) else rc_grace_period cfg)
      in res_bind (resolve_category policy_id (ps_data_category s)) (\<lambda>category.
         res_bind (parse_mode (opt_or (ov_retention_mode ov) (mode_value (ps_retention_mode s)))) (\<lambda>mode.
         res_bind (parse_duration period) (\<lambda>_.
         res_bind (parse_duration grace) (\<lambda>_.
           Inr \<lparr>rp_policy_id = policy_id, rp_data_category = category, rp_retention_period = period,
                rp_retention_mode = mode, rp_scope = ps_scope s, rp_enabled = opt_or (ov_enabled ov) (ps_enabled s),
                rp_grace_period = grace, rp_description = ps_description s,
                rp_updated_at = opt_or (ov_updated_at ov) None, rp_updated_by = opt_or (ov_updated_by ov) None\<rparr>)))))"

definition built_policies :: "retention_config \<Rightarrow> (string, override) dict \<Rightarrow> (string, retention_policy) dict result" where
  "built_policies cfg overrides =
     res_map (\<lambda>(policy_id, s). res_bind (build_policy cfg policy_id s (opt_or (dict_get overrides policy_id) no_override))
                (\<lambda>p. Inr (policy_id, p))) (rc_policies cfg)"

text \<open>\<open>digest\<close> is the digest of the sorted documents.\<close>

definition compute_version :: "(config list \<Rightarrow> string) \<Rightarrow> (timestamp \<Rightarrow> string) \<Rightarrow> (string, retention_policy) dict \<Rightarrow> string" where
  "compute_version digest isof policies =
     take 12 (digest (map (\<lambda>(k, p). policy_to_dict isof p None None) (sort_key fst policies)))"

record version_env =
  ve_digest :: "config list \<Rightarrow> string"
  ve_iso :: "timestamp \<Rightarrow> string"

definition rebuild :: "version_env \<Rightarrow> policy_resolver \<Rightarrow> policy_resolver \<times> unit result" where
  "rebuild env r =
     (case built_policies (rz_config r) (rz_overrides r) of
        Inl e \<Rightarrow> (r, Inl e)
      | Inr ps \<Rightarrow> (r\<lparr>rz_policies := ps, rz_version := compute_version (ve_digest env) (ve_iso env) ps\<rparr>, Inr ()))"

definition new_resolver :: "version_env \<Rightarrow> retention_config \<Rightarrow> policy_resolver result" where
  "new_resolver env cfg =
     (let (r, ok) = rebuild env \<lparr>rz_config = cfg, rz_overrides = [], rz_policies = [], rz_version = ''''\<rparr>
      in res_bind ok (\<lambda>_. Inr r))"

definition merge_override :: "override \<Rightarrow> override \<Rightarrow> override" where
  "merge_override entry data =
     \<lparr>ov_retention_period = (if ov_retention_period data \<noteq> None then ov_retention_period data else ov_retention_period entry),
      ov_retention_mode = (if ov_retention_mode data \<noteq> None then ov_retention_mode data else ov_retention_mode entry),
      ov_enabled = (if ov_enabled data \<noteq> None then ov_enabled data else ov_enabled entry),
      ov_updated_at = (if ov_updated_at data \<noteq> None then ov_updated_at data else ov_updated_at entry),
      ov_updated_by = (if ov_updated_by data \<noteq> None then ov_updated_by data else ov_updated_by entry)\<rparr>"

definition add_override :: "string \<Rightarrow> override \<Rightarrow> (string, override) dict \<Rightarrow> (string, override) dict" where
  "add_override policy_id data overrides =
     dict_set policy_id (merge_override (opt_or (dict_get overrides policy_id) no_override) data) overrides"

definition apply_overrides ::
  "version_env \<Rightarrow> (string, override) dict \<Rightarrow> policy_resolver \<Rightarrow> policy_resolver \<times> unit result" where
  "apply_overrides env overrides r =
     rebuild env (r\<lparr>rz_overrides := foldl (\<lambda>d (policy_id, data). add_override policy_id data d) (rz_overrides r) overrides\<rparr>)"

record policy_change =
  pc_retention_period :: "string option"
  pc_retention_mode :: "string option"
  pc_enabled :: "bool option"

definition resolver_update ::
  "version_env \<Rightarrow> timestamp \<Rightarrow> string \<Rightarrow> policy_change \<Rightarrow> string option \<Rightarrow> policy_resolver
   \<Rightarrow> policy_resolver \<times> (config \<times> config) result" where
  "resolver_update env now policy_id ch actor r =
     (case dict_get (rz_policies r) policy_id of
        None \<Rightarrow> (r, Inl KeyError)
      | Some policy \<Rightarrow>
          (case res_bind (case pc_retention_period ch of None \<Rightarrow> Inr () | Some s \<Rightarrow> res_bind (parse_duration s) (\<lambda>_. Inr ()))
             (\<lambda>_. case pc_retention_mode ch of None \<Rightarrow> Inr None | Some m \<Rightarrow> res_bind (parse_mode m) (\<lambda>v. Inr (Some (mode_value v)))) of
             Inl e \<Rightarrow> (r, Inl e)
           | Inr mode \<Rightarrow>
               (let old = policy_to_dict (ve_iso env) policy None None
                in if pc_retention_period ch = None \<and> mode = None \<and> pc_enabled ch = None then (r, Inr (old, old))
                   else let data = \<lparr>ov_retention_period = pc_retention_period ch, ov_retention_mode = mode,
                              ov_enabled = pc_enabled ch, ov_updated_at = Some (Some now), ov_updated_by = Some actor\<rparr>;
                            (r', ok) = rebuild env (r\<lparr>rz_overrides := add_override policy_id data (rz_overrides r)\<rparr>)
                        in (r', res_bind ok (\<lambda>_. case dict_get (rz_policies r') policy_id of
                                 None \<Rightarrow> Inl KeyError
                               | Some p \<Rightarrow> Inr (old, policy_to_dict (ve_iso env) p None None))))))"

record policy_view =
  pv_retention_mode :: string
  pv_retention_period :: string
  pv_enabled :: bool

definition view_of :: "retention_policy \<Rightarrow> policy_view" where
  "view_of p = \<lparr>pv_retention_mode = mode_value (rp_retention_mode p), pv_retention_period = rp_retention_period p,
                pv_enabled = rp_enabled p\<rparr>"

definition requires_confirmation :: "policy_view \<Rightarrow> policy_view \<Rightarrow> bool result" where
  "requires_confirmation old new =
     res_bind (parse_mode (pv_retention_mode old)) (\<lambda>old_mode.
     res_bind (parse_mode (pv_retention_mode new)) (\<lambda>new_mode.
       if new_mode \<in> DESTRUCTIVE_MODES \<and> new_mode \<noteq> old_mode then Inr True
       else if new_mode \<in> DESTRUCTIVE_MODES \<and> \<not> pv_enabled old \<and> pv_enabled new then Inr True
       else res_bind (parse_duration (pv_retention_period old)) (\<lambda>old_delta.
            res_bind (parse_duration (pv_retention_period new)) (\<lambda>new_delta.
              Inr (case (old_delta, new_delta) of (Some old_d, Some new_d) \<Rightarrow> new_d < old_d | _ \<Rightarrow> False)))))"

definition change_view :: "policy_view \<Rightarrow> policy_change \<Rightarrow> policy_view" where
  "change_view v ch =
     \<lparr>pv_retention_mode = opt_or (pc_retention_mode ch) (pv_retention_mode v),
      pv_retention_period = opt_or (pc_retention_period ch) (pv_retention_period v),
      pv_enabled = opt_or (pc_enabled ch) (pv_enabled v)\<rparr>"

section \<open>Durations survive being written\<close>

lemma digit_char: "d < 10 \<Longrightarrow> digit (char_of (48 + d)) = Some (int d)"
proof -
  assume "d < 10"
  then have "(48 + d) mod 256 = 48 + d" by simp
  then have "of_char (char_of (48 + d) :: char) = (48 + int d :: int)"
    by (metis of_nat_of_char of_char_of of_nat_add of_nat_numeral)
  then show ?thesis using \<open>d < 10\<close> by (simp add: digit_def Let_def)
qed

lemma digits_value_append: "digits_value acc (s @ t) = (case digits_value acc s of None \<Rightarrow> None | Some v \<Rightarrow> digits_value v t)"
  by (induction acc s rule: digits_value.induct) (auto split: option.splits)

lemma digits_value_nat_str: "digits_value 0 (nat_str n) = Some (int n)"
proof (induction n rule: nat_str.induct)
  case (1 n)
  show ?case
  proof (cases "n < 10")
    case True
    then show ?thesis by (simp add: nat_str.simps [of n] digit_char)
  next
    case False
    have "int (n div 10) * 10 + int (n mod 10) = int n" by presburger
    then show ?thesis using False "1.IH" [OF False]
      by (simp add: nat_str.simps [of n] digits_value_append digit_char)
  qed
qed

lemma digit_not_space: "digit c = Some d \<Longrightarrow> \<not> is_space c"
  by (auto simp: digit_def is_space_def Let_def split: if_splits)

lemma space_no_unit: "is_space c \<Longrightarrow> unit_seconds c = None"
  unfolding is_space_def by (elim insertE emptyE) (simp_all add: unit_seconds_def)

lemma digit_upper: "digit c = Some d \<Longrightarrow> upper_char c = c"
  using of_nat_of_char [of c, where 'a = int] by (auto simp: digit_def upper_char_def Let_def split: if_splits)

lemma strip_id: "s \<noteq> [] \<Longrightarrow> \<not> is_space (hd s) \<Longrightarrow> \<not> is_space (last s) \<Longrightarrow> strip s = s"
proof -
  have drop: "xs \<noteq> [] \<Longrightarrow> \<not> is_space (hd xs) \<Longrightarrow> dropWhile is_space xs = xs" for xs by (cases xs) simp_all
  assume "s \<noteq> []" "\<not> is_space (hd s)" "\<not> is_space (last s)"
  then show ?thesis using drop [of s] drop [of "rev s"] by (simp add: strip_def hd_rev)
qed

lemma nat_str_not_Nil [simp]: "nat_str n \<noteq> []"
  by (simp add: nat_str.simps [of n])

lemma nat_str_hd: "\<exists>d. digit (hd (nat_str n)) = Some d"
proof (induction n rule: nat_str.induct)
  case (1 n)
  then show ?case by (cases "n < 10") (simp_all add: nat_str.simps [of n] digit_char hd_append)
qed

lemma parse_counted:
  assumes "unit_seconds u = Some k" "n * k \<le> MAX_TIMEDELTA" "0 \<le> n"
  shows "parse_duration (signed_str n @ [u]) = Inr (Some (n * k))"
proof -
  let ?s = "nat_str (nat n) @ [u]"
  obtain d where d: "digit (hd (nat_str (nat n))) = Some d" using nat_str_hd by blast
  have u: "\<not> is_space u" using space_no_unit [of u] assms(1) by auto
  have strip: "strip ?s = ?s" by (rule strip_id) (use u digit_not_space [OF d] in \<open>simp_all add: hd_append\<close>)
  have "upper_char (hd (nat_str (nat n))) \<noteq> CHR ''K''"
    using digit_upper [OF d] d by (auto simp: digit_def Let_def)
  then have "upper ?s \<noteq> ''KEEP''" by (cases "nat_str (nat n)") (auto simp: upper_def)
  moreover have "match_duration ?s = Some (n, k)"
  proof -
    have "\<not> length ?s < 2" by (cases "nat_str (nat n)") auto
    then show ?thesis using assms digits_value_nat_str [of "nat n"] by (simp add: match_duration_def)
  qed
  ultimately show ?thesis using assms strip by (simp add: parse_duration_def signed_str_def Let_def timedelta_def)
qed

text \<open>Every duration that the program can hold survives being written and read reread: the text
  that \<open>format_duration\<close> gives for a period of whole seconds parses to that period, for every period
  that a time difference can represent, and the text for an unlimited period parses to it.\<close>

theorem duration_round_trip:
  assumes "case d of None \<Rightarrow> True | Some n \<Rightarrow> 0 \<le> n \<and> n \<le> MAX_TIMEDELTA"
  shows "parse_duration (format_duration d) = Inr d"
proof (cases d)
  case None
  have "parse_duration ''KEEP'' = Inr None" by code_simp
  with None show ?thesis by (simp add: format_duration_def)
next
  case (Some n)
  with assms have n: "0 \<le> n" "n \<le> MAX_TIMEDELTA" by simp_all
  have reread: "parse_duration (signed_str (n div k) @ [u]) = Inr (Some n)" if "unit_seconds u = Some k" "n mod k = 0" "0 < k" for u k
  proof -
    have "n div k * k = n" using that(2) by (simp add: mod_0_imp_dvd)
    with parse_counted [OF that(1), of "n div k"] that(3) n show ?thesis by (simp add: pos_imp_zdiv_nonneg_iff)
  qed
  from reread [of "CHR ''d''" 86400] reread [of "CHR ''h''" 3600] reread [of "CHR ''m''" 60] reread [of "CHR ''s''" 1] Some show ?thesis
    by (simp add: format_duration_def unit_seconds_def)
qed

theorem duration_round_trip_witness:
  "parse_duration (format_duration (Some 5400)) = Inr (Some 5400) \<and> format_duration (Some 5400) = ''90m''"
proof -
  have "format_duration (Some 5400) = ''90m''" by code_simp
  with duration_round_trip [of "Some 5400"] show ?thesis by (simp add: MAX_TIMEDELTA_def)
qed

lemma long_duration_overflows: "parse_duration ''1000000000d'' = Inl OverflowError"
  by code_simp

lemma keep_to_finite_unconfirmed:
  "requires_confirmation \<lparr>pv_retention_mode = ''DELETE'', pv_retention_period = ''KEEP'', pv_enabled = True\<rparr>
     \<lparr>pv_retention_mode = ''DELETE'', pv_retention_period = ''1s'', pv_enabled = True\<rparr> = Inr False"
  by code_simp

lemma artifact_cleanup_enabled_by_default:
  "map_option (\<lambda>s. (ps_enabled s, ps_retention_mode s)) (dict_get get_defaults ''experiment_artifacts'') = Some (True, DELETE)"
  by code_simp

end
