(* ===== verification/Cleanup.thy ===== *)
theory Cleanup
  imports Retention Domain
begin

text \<open>
  Retention runs: the handlers that remove expired data (\<open>src/src/retention/handlers.py\<close>), the
  manager that applies the policies (\<open>manager.py\<close>), the holds of its repository
  (\<open>src/src/database/repositories/providers/postgres_retention_repository.py\<close>) and the buffer of
  recorded market data (\<open>src/src/recorder/market_data_store.py\<close>).

  A table is the list of its rows, a directory the list of its files; \<open>deletable\<close> says which files
  the operating system lets go.  A failing statement of the database is not modelled, a document
  of the wrong shape is.  Batch sizes and the
  limit of observations are not negative.
\<close>

section \<open>Stored data\<close>

record db_row =
  row_id :: string
  row_time :: timestamp

record doc_row = db_row +
  row_doc :: pyval

record experiment_row =
  xr_id :: string
  xr_created_at :: timestamp
  xr_status :: string
  xr_report :: "config option"
  xr_run_bindings :: pyval
  xr_spec :: pyval

record disk_file =
  fl_name :: string
  fl_mtime :: timestamp
  fl_size :: nat

record market_store =
  mk_max_age :: "int option"
  mk_max_observations :: "int option"
  mk_observations :: "(string, (int, market_data) dict) dict"
  mk_latest_timestamp :: "int option"

record hold =
  ho_id :: string
  ho_category :: data_category
  ho_entity_id :: "string option"
  ho_active :: bool

datatype audit_event_type = POLICY_UPDATED | RUN_STARTED | RUN_COMPLETED | RUN_FAILED | HOLD_ADDED | HOLD_RELEASED

record audit_event =
  ae_event_type :: audit_event_type
  ae_policy_id :: "string option"
  ae_actor :: "string option"
  ae_old_value :: "config option"
  ae_new_value :: "config option"
  ae_run_id :: "string option"
  ae_created_at :: timestamp

record data_store =
  dw_orders :: "string list"
  dw_trades :: "string list"
  dw_decisions :: "string list"
  dw_commits :: "string list"
  dw_timeline :: "db_row list"
  dw_metrics :: "db_row list"
  dw_incidents :: "db_row list"
  dw_error_events :: "db_row list"
  dw_sessions :: "doc_row list"
  dw_runs :: "doc_row list"
  dw_experiments :: "experiment_row list"
  dw_holds :: "hold list"
  dw_audit :: "audit_event list"
  dw_datasets :: "disk_file list"
  dw_logs :: "disk_file list"
  dw_buffer :: "market_store option"

section \<open>The market data buffer\<close>

definition prune_before :: "rat \<Rightarrow> market_store \<Rightarrow> market_store \<times> nat" where
  "prune_before cutoff_epoch mk =
     (let kept = map (\<lambda>(ticker, obs). (ticker, filter (\<lambda>(t, _). \<not> of_int t < cutoff_epoch) obs)) (mk_observations mk)
      in (mk\<lparr>mk_observations := filter (\<lambda>(ticker, obs). obs \<noteq> []) kept\<rparr>,
          sum_list (map (\<lambda>(ticker, obs). length (filter (\<lambda>(t, _). of_int t < cutoff_epoch) obs)) (mk_observations mk))))"

definition store_count_before :: "rat \<Rightarrow> market_store \<Rightarrow> nat" where
  "store_count_before cutoff_epoch mk =
     sum_list (map (\<lambda>(ticker, obs). length (filter (\<lambda>(t, _). of_int t < cutoff_epoch) obs)) (mk_observations mk))"

definition store_size :: "market_store \<Rightarrow> nat" where
  "store_size mk = sum_list (map (\<lambda>(ticker, obs). length obs) (mk_observations mk))"

text \<open>The \<open>while\<close> loop that drops the oldest observation until the limit is kept.\<close>

function drop_oldest :: "int \<Rightarrow> (int, market_data) dict \<Rightarrow> (int, market_data) dict" where
  "drop_oldest limit obs =
     (if int (length obs) > limit \<and> obs \<noteq> []
      then drop_oldest limit (filter (\<lambda>e. fst e \<noteq> Min (fst ` set obs)) obs) else obs)"
  by auto
termination
proof (relation "measure (\<lambda>(limit, obs). length obs)")
  fix limit :: int and obs :: "(int, market_data) dict"
  assume "int (length obs) > limit \<and> obs \<noteq> []"
  then have "Min (fst ` set obs) \<in> fst ` set obs" by (intro Min_in) auto
  then obtain e where "e \<in> set obs" "fst e = Min (fst ` set obs)" by auto
  then show "((limit, filter (\<lambda>e. fst e \<noteq> Min (fst ` set obs)) obs), (limit, obs)) \<in> measure (\<lambda>(limit, obs). length obs)"
    by (auto intro: length_filter_less)
qed simp

declare drop_oldest.simps [simp del]

definition store_record :: "string \<Rightarrow> market_data \<Rightarrow> market_store \<Rightarrow> market_store" where
  "store_record ticker md mk =
     (let t = (if md_timestamp md < 0 then \<lceil>md_timestamp md\<rceil> else \<lfloor>md_timestamp md\<rfloor>);
          latest = (case mk_latest_timestamp mk of None \<Rightarrow> t | Some l \<Rightarrow> max l t);
          recorded = mk\<lparr>mk_observations := dict_set ticker (dict_set t md (opt_or (dict_get (mk_observations mk) ticker) []))
                          (mk_observations mk), mk_latest_timestamp := Some latest\<rparr>;
          fresh = (case mk_max_age mk of
                     None \<Rightarrow> recorded
                   | Some age \<Rightarrow> fst (prune_before (of_int (latest - age)) recorded))
      in case mk_max_observations mk of
           None \<Rightarrow> fresh
         | Some n \<Rightarrow> (case dict_get (mk_observations fresh) ticker of
                        None \<Rightarrow> fresh
                      | Some obs \<Rightarrow> fresh\<lparr>mk_observations := dict_set ticker (drop_oldest n obs) (mk_observations fresh)\<rparr>))"

definition recorded_tickers :: "market_store \<Rightarrow> string list" where
  "recorded_tickers mk = sort (map fst (mk_observations mk))"

definition ticker_observations :: "string \<Rightarrow> market_store \<Rightarrow> market_data list" where
  "ticker_observations ticker mk = map snd (sort_key fst (opt_or (dict_get (mk_observations mk) ticker) []))"

section \<open>Outcomes\<close>

record skip_reason =
  sk_reason :: string
  sk_count :: nat
  sk_detail :: "string option"

record category_outcome =
  co_data_category :: data_category
  co_policy_id :: string
  co_retention_mode :: retention_mode
  co_examined :: nat
  co_eligible :: nat
  co_deleted :: nat
  co_skipped :: nat
  co_skipped_reasons :: "skip_reason list"
  co_storage_bytes :: "nat option"

record retention_context =
  rx_policy :: retention_policy
  rx_cutoff :: "timestamp option"
  rx_batch_size :: int
  rx_held :: "string list"

definition base_outcome :: "data_category \<Rightarrow> retention_policy \<Rightarrow> category_outcome" where
  "base_outcome cat p =
     \<lparr>co_data_category = cat, co_policy_id = rp_policy_id p, co_retention_mode = rp_retention_mode p,
      co_examined = 0, co_eligible = 0, co_deleted = 0, co_skipped = 0, co_skipped_reasons = [], co_storage_bytes = None\<rparr>"

definition skip_if :: "string \<Rightarrow> nat \<Rightarrow> string option \<Rightarrow> category_outcome \<Rightarrow> category_outcome" where
  "skip_if reason n detail out =
     (if n = 0 then out
      else out\<lparr>co_skipped_reasons := co_skipped_reasons out @ [\<lparr>sk_reason = reason, sk_count = n, sk_detail = detail\<rparr>]\<rparr>)"

definition kept :: "data_category \<Rightarrow> retention_context \<Rightarrow> nat \<Rightarrow> category_outcome" where
  "kept cat ctx examined =
     skip_if ''KEEP'' examined None ((base_outcome cat (rx_policy ctx))\<lparr>co_examined := examined, co_skipped := examined\<rparr>)"

definition is_unsupported_mode :: "retention_mode \<Rightarrow> bool" where
  "is_unsupported_mode mode \<longleftrightarrow> mode \<in> {ARCHIVE, AGGREGATE_THEN_DELETE}"

definition unsupported_outcome :: "data_category \<Rightarrow> retention_context \<Rightarrow> nat \<Rightarrow> nat \<Rightarrow> category_outcome" where
  "unsupported_outcome cat ctx examined eligible =
     skip_if (mode_value (rp_retention_mode (rx_policy ctx)) @ ''_NOT_SUPPORTED'') eligible
       (Some ''Archive and aggregation pipelines not yet configured; records preserved safely without deletion'')
       ((base_outcome cat (rx_policy ctx))\<lparr>co_examined := examined, co_eligible := eligible, co_skipped := eligible\<rparr>)"

definition apply_mode :: "retention_mode \<Rightarrow> nat \<Rightarrow> category_outcome \<Rightarrow> category_outcome" where
  "apply_mode mode n out = (if mode = DELETE then out\<lparr>co_deleted := co_deleted out + n\<rparr> else out)"

definition keeps_all :: "retention_context \<Rightarrow> bool" where
  "keeps_all ctx \<longleftrightarrow> rp_retention_mode (rx_policy ctx) = KEEP \<or> rx_cutoff ctx = None"

section \<open>Handlers\<close>

text \<open>Rows are deleted by identifier, in batches, until a batch comes back short.\<close>

function bulk_delete_before :: "nat \<Rightarrow> (db_row \<Rightarrow> bool) \<Rightarrow> db_row list \<Rightarrow> nat \<Rightarrow> db_row list \<times> nat" where
  "bulk_delete_before batch sel rows done_n =
     (let ids = map row_id (take batch (filter sel rows));
          rows' = filter (\<lambda>r. row_id r \<notin> set ids) rows;
          deleted = length rows - length rows'
      in if ids = [] then (rows, done_n)
         else if deleted < batch then (rows', done_n + deleted)
         else bulk_delete_before batch sel rows' (done_n + deleted))"
  by auto
termination
proof (relation "measure (\<lambda>(batch, sel, rows, done_n). length rows)")
  fix batch done_n :: nat and sel :: "db_row \<Rightarrow> bool" and rows rows' :: "db_row list" and ids deleted
  assume ids: "ids = map row_id (take batch (filter sel rows))" "ids \<noteq> []"
    and rows': "rows' = filter (\<lambda>r. row_id r \<notin> set ids) rows"
  from ids have "hd (take batch (filter sel rows)) \<in> set (take batch (filter sel rows))" by (intro hd_in_set) auto
  then have "hd (take batch (filter sel rows)) \<in> set rows" "row_id (hd (take batch (filter sel rows))) \<in> set ids"
    using ids(1) by (auto dest: in_set_takeD)
  then show "((batch, sel, rows', done_n + deleted), (batch, sel, rows, done_n)) \<in> measure (\<lambda>(batch, sel, rows, done_n). length rows)"
    unfolding rows' by (auto intro: length_filter_less)
qed simp

declare bulk_delete_before.simps [simp del]

definition expired :: "timestamp \<Rightarrow> string list \<Rightarrow> 'a db_row_scheme \<Rightarrow> bool" where
  "expired cutoff_time held r \<longleftrightarrow> row_time r < cutoff_time \<and> row_id r \<notin> set held"

definition held_expired :: "timestamp \<Rightarrow> string list \<Rightarrow> 'a db_row_scheme \<Rightarrow> bool" where
  "held_expired cutoff_time held r \<longleftrightarrow> row_time r < cutoff_time \<and> row_id r \<in> set held"

definition with_held :: "nat \<Rightarrow> category_outcome \<Rightarrow> category_outcome" where
  "with_held n out = skip_if ''HOLD'' n None (out\<lparr>co_skipped := co_skipped out + n\<rparr>)"

definition table_act :: "data_category \<Rightarrow> retention_context \<Rightarrow> bool \<Rightarrow> db_row list \<Rightarrow> db_row list \<times> category_outcome" where
  "table_act cat ctx dry_run rows =
     (let mode = rp_retention_mode (rx_policy ctx); examined = length rows
      in if keeps_all ctx then (rows, kept cat ctx examined)
         else let c = the (rx_cutoff ctx); eligible = length (filter (expired c (rx_held ctx)) rows)
              in if is_unsupported_mode mode then (rows, unsupported_outcome cat ctx examined eligible)
                 else let out = with_held (length (filter (held_expired c (rx_held ctx)) rows))
                            ((base_outcome cat (rx_policy ctx))\<lparr>co_examined := examined, co_eligible := eligible\<rparr>)
                      in if dry_run then (rows, out)
                         else let (rows', n) = bulk_delete_before (nat (rx_batch_size ctx)) (expired c (rx_held ctx)) rows 0
                              in (rows', apply_mode mode n out))"

definition alert_act ::
  "retention_context \<Rightarrow> bool \<Rightarrow> db_row list \<Rightarrow> db_row list \<Rightarrow> db_row list \<times> db_row list \<times> category_outcome" where
  "alert_act ctx dry_run incidents events =
     (let mode = rp_retention_mode (rx_policy ctx); examined = length incidents + length events
      in if keeps_all ctx then (incidents, events, kept RUNTIME_ALERT ctx examined)
         else let c = the (rx_cutoff ctx); held = rx_held ctx;
                  eligible = length (filter (expired c held) events) + length (filter (expired c held) incidents)
              in if is_unsupported_mode mode then (incidents, events, unsupported_outcome RUNTIME_ALERT ctx examined eligible)
                 else let out = with_held (length (filter (held_expired c held) events) + length (filter (held_expired c held) incidents))
                            ((base_outcome RUNTIME_ALERT (rx_policy ctx))\<lparr>co_examined := examined, co_eligible := eligible\<rparr>)
                      in if dry_run then (incidents, events, out)
                         else let (events', n) = bulk_delete_before (nat (rx_batch_size ctx)) (expired c held) events 0;
                                  (incidents', m) = bulk_delete_before (nat (rx_batch_size ctx)) (expired c held) incidents 0
                              in (incidents', events', apply_mode mode (n + m) out))"

text \<open>References from experiments to their wf_runs: the values of a key in the bindings.\<close>

definition binding_refs :: "string \<Rightarrow> pyval \<Rightarrow> pyval list result" where
  "binding_refs key binding =
     (case binding of
        PDict d \<Rightarrow> if py_truthy (py_get d key) then res_bind (py_key (py_get d key)) (\<lambda>k. Inr [k]) else Inr []
      | _ \<Rightarrow> Inr [])"

definition report_refs :: "string \<Rightarrow> experiment_row list \<Rightarrow> pyval list result" where
  "report_refs key exps =
     res_bind (res_map (\<lambda>x. res_bind (py_iter (val_or (xr_run_bindings x) (PList []))) (res_map (binding_refs key))) exps)
       (\<lambda>rs. Inr (concat (concat rs)))"

fun chunks :: "nat \<Rightarrow> 'a list \<Rightarrow> 'a list list" where
  "chunks n [] = []"
| "chunks n (x # xs) = (x # take n xs) # chunks n (drop n xs)"

text \<open>\<open>chunks n\<close> cuts a list into pieces of \<open>n + 1\<close>.\<close>

definition delete_ids :: "nat \<Rightarrow> string list \<Rightarrow> doc_row list \<Rightarrow> doc_row list \<times> nat" where
  "delete_ids batch ids rows =
     foldl (\<lambda>(rows, n) chunk. let rows' = filter (\<lambda>r. row_id r \<notin> set chunk) rows in (rows', n + (length rows - length rows')))
       (rows, 0) (chunks (batch - 1) ids)"

definition partition_reports ::
  "timestamp \<Rightarrow> string list \<Rightarrow> pyval list \<Rightarrow> doc_row list \<Rightarrow> string list \<times> nat \<times> nat" where
  "partition_reports c held refs rows =
     (let old = map row_id (filter (\<lambda>r. row_time r < c) rows);
          held_ids = filter (\<lambda>i. i \<in> set held) old;
          eligible = filter (\<lambda>i. PStr i \<notin> set refs \<and> i \<notin> set held) old
      in (eligible, length old - length eligible - length held_ids, length held_ids))"

definition report_act ::
  "retention_context \<Rightarrow> bool \<Rightarrow> experiment_row list \<Rightarrow> doc_row list \<Rightarrow> doc_row list
   \<Rightarrow> (doc_row list \<times> doc_row list \<times> category_outcome) result" where
  "report_act ctx dry_run exps sessions wf_runs =
     (let mode = rp_retention_mode (rx_policy ctx); examined = length sessions + length wf_runs
      in if keeps_all ctx then Inr (sessions, wf_runs, kept REPORT ctx examined)
         else res_bind (report_refs ''backtest_session_id'' exps) (\<lambda>session_refs.
              res_bind (report_refs ''walk_forward_run_id'' exps) (\<lambda>run_refs.
                let c = the (rx_cutoff ctx); held = rx_held ctx;
                    (old_sessions, dep1, held1) = partition_reports c held session_refs sessions;
                    (old_runs, dep2, held2) = partition_reports c held run_refs wf_runs;
                    eligible = length old_sessions + length old_runs
                in if is_unsupported_mode mode then Inr (sessions, wf_runs, unsupported_outcome REPORT ctx examined eligible)
                   else let out = skip_if ''HOLD'' (held1 + held2) None (skip_if ''DEPENDENCY'' (dep1 + dep2) None
                              ((base_outcome REPORT (rx_policy ctx))\<lparr>co_examined := examined, co_eligible := eligible,
                                 co_skipped := dep1 + dep2 + (held1 + held2)\<rparr>))
                        in if dry_run then Inr (sessions, wf_runs, out)
                           else let batch = nat (max 1 (rx_batch_size ctx));
                                    (sessions', n) = delete_ids batch old_sessions sessions;
                                    (wf_runs', m) = delete_ids batch old_runs wf_runs
                                in Inr (sessions', wf_runs', apply_mode mode (n + m) out))))"

definition COMPACT_KEYS :: "string list" where
  "COMPACT_KEYS = [''summary'', ''verdict'', ''status'', ''completed_at'', ''error_message'']"

definition compact_report :: "config \<Rightarrow> config" where
  "compact_report report = List.map_filter (\<lambda>k. map_option (Pair k) (dict_get report k)) COMPACT_KEYS"

definition artifact_expired :: "timestamp \<Rightarrow> experiment_row \<Rightarrow> bool" where
  "artifact_expired c x \<longleftrightarrow> xr_report x \<noteq> None \<and> xr_created_at x < c \<and>
     xr_status x \<in> {''COMPLETED'', ''FAILED'', ''CANCELLED''}"

definition artifact_act ::
  "retention_context \<Rightarrow> bool \<Rightarrow> experiment_row list \<Rightarrow> experiment_row list \<times> category_outcome" where
  "artifact_act ctx dry_run exps =
     (let mode = rp_retention_mode (rx_policy ctx); cat = EXPERIMENT_ARTIFACT;
          examined = length (filter (\<lambda>x. xr_report x \<noteq> None) exps)
      in if keeps_all ctx then (exps, kept cat ctx examined)
         else let c = the (rx_cutoff ctx); held = set (rx_held ctx);
                  eligible = length (filter (\<lambda>x. artifact_expired c x \<and> xr_id x \<notin> held) exps)
              in if is_unsupported_mode mode then (exps, unsupported_outcome cat ctx examined eligible)
                 else let out = with_held (length (filter (\<lambda>x. artifact_expired c x \<and> xr_id x \<in> held) exps))
                            ((base_outcome cat (rx_policy ctx))\<lparr>co_examined := examined, co_eligible := eligible\<rparr>)
                      in if dry_run then (exps, out)
                         else (map (\<lambda>x. if artifact_expired c x \<and> xr_id x \<notin> held
                                       then x\<lparr>xr_report := map_option compact_report (xr_report x)\<rparr> else x) exps,
                               apply_mode mode eligible out))"

section \<open>Files\<close>

definition ends_with :: "string \<Rightarrow> string \<Rightarrow> bool" where
  "ends_with s suffix \<longleftrightarrow> length suffix \<le> length s \<and> drop (length s - length suffix) s = suffix"

fun remove_all :: "string \<Rightarrow> string \<Rightarrow> string" where
  "remove_all sub [] = []"
| "remove_all sub (c # cs) =
     (if sub \<noteq> [] \<and> take (length sub) (c # cs) = sub then remove_all sub (drop (length sub - 1) cs)
      else c # remove_all sub cs)"

definition meta_files :: "disk_file list \<Rightarrow> disk_file list" where
  "meta_files fs = filter (\<lambda>f. ends_with (fl_name f) ''.meta.json'') fs"

definition dataset_of :: "disk_file \<Rightarrow> string" where
  "dataset_of f = remove_all ''.meta'' (take (length (fl_name f) - length ''.json'') (fl_name f))"

definition dataset_files :: "string \<Rightarrow> string list" where
  "dataset_files dataset_id = [dataset_id @ ''.csv'', dataset_id @ ''.meta.json'']"

definition files_size :: "disk_file list \<Rightarrow> string list \<Rightarrow> nat" where
  "files_size fs names = sum_list (map fl_size (filter (\<lambda>f. fl_name f \<in> set names) fs))"

definition source_ids :: "config \<Rightarrow> string list" where
  "source_ids d =
     (case py_get d ''data_source'' of
        PDict s \<Rightarrow> List.map_filter (\<lambda>k. case py_get s k of PStr v \<Rightarrow> if v \<noteq> [] then Some v else None | _ \<Rightarrow> None)
                    [''source_id'', ''dataset_id'', ''path'']
      | _ \<Rightarrow> [])"

primrec extract_dataset_ids :: "pyval \<Rightarrow> string list" where
  "extract_dataset_ids PNone = []"
| "extract_dataset_ids (PBool b) = []"
| "extract_dataset_ids (PInt i) = []"
| "extract_dataset_ids (PNum r) = []"
| "extract_dataset_ids (PStr s) = []"
| "extract_dataset_ids (PList xs) = concat (map extract_dataset_ids xs)"
| "extract_dataset_ids (PDict d) = source_ids d @ concat (map snd (map (map_prod id extract_dataset_ids) d))"

definition collect_dataset_references :: "data_store \<Rightarrow> string list" where
  "collect_dataset_references st =
     concat (map (\<lambda>r. extract_dataset_ids (row_doc r)) (dw_sessions st)) @
     concat (map (\<lambda>x. extract_dataset_ids (xr_spec x)) (dw_experiments st)) @
     concat (map (\<lambda>r. extract_dataset_ids (row_doc r)) (dw_runs st))"

definition unlink :: "(string \<Rightarrow> bool) \<Rightarrow> string list \<Rightarrow> disk_file list \<Rightarrow> disk_file list" where
  "unlink deletable names fs = filter (\<lambda>f. \<not> (fl_name f \<in> set names \<and> deletable (fl_name f))) fs"

definition fully_deleted :: "string list \<Rightarrow> disk_file list \<Rightarrow> bool" where
  "fully_deleted names fs \<longleftrightarrow> list_all (\<lambda>f. fl_name f \<notin> set names) fs"

definition delete_dataset ::
  "(string \<Rightarrow> bool) \<Rightarrow> disk_file list \<times> nat \<times> nat \<times> category_outcome \<Rightarrow> string
   \<Rightarrow> disk_file list \<times> nat \<times> nat \<times> category_outcome" where
  "delete_dataset deletable st dataset_id =
     (case st of (fs, removed, reclaimed, out) \<Rightarrow>
        let names = dataset_files dataset_id; fs' = unlink deletable names fs;
            freed = files_size fs names - files_size fs' names
        in if fully_deleted names fs' then (fs', removed + 1, reclaimed + freed, out)
           else (fs', removed, reclaimed + freed,
                 skip_if ''PARTIAL_DELETE_FAILURE'' 1 (Some dataset_id) (out\<lparr>co_skipped := co_skipped out + 1\<rparr>)))"

definition market_data_act ::
  "(string \<Rightarrow> bool) \<Rightarrow> retention_context \<Rightarrow> bool \<Rightarrow> string list \<Rightarrow> disk_file list \<Rightarrow> disk_file list \<times> category_outcome" where
  "market_data_act deletable ctx dry_run refs fs =
     (let mode = rp_retention_mode (rx_policy ctx); metas = meta_files fs; examined = length metas
      in if keeps_all ctx then (fs, kept MARKET_DATA ctx examined)
         else let c = the (rx_cutoff ctx); held = set (rx_held ctx);
                  held_n = length (filter (\<lambda>f. dataset_of f \<in> held) metas);
                  dep_n = length (filter (\<lambda>f. dataset_of f \<notin> held \<and> dataset_of f \<in> set refs) metas);
                  eligible = map dataset_of (filter (\<lambda>f. dataset_of f \<notin> held \<and> dataset_of f \<notin> set refs \<and> fl_mtime f < c) metas)
              in if is_unsupported_mode mode then (fs, unsupported_outcome MARKET_DATA ctx examined (length eligible))
                 else let out = skip_if ''HOLD'' held_n None (skip_if ''DEPENDENCY'' dep_n None
                            ((base_outcome MARKET_DATA (rx_policy ctx))\<lparr>co_examined := examined, co_eligible := length eligible,
                               co_skipped := dep_n + held_n\<rparr>))
                      in if dry_run
                         then (fs, out\<lparr>co_storage_bytes := Some (sum_list (map (\<lambda>d. files_size fs (dataset_files d)) eligible))\<rparr>)
                         else let (fs', removed, reclaimed, out') = foldl (delete_dataset deletable) (fs, 0, 0, out) eligible
                              in (fs', (apply_mode mode removed out')\<lparr>co_storage_bytes := Some reclaimed\<rparr>))"

definition contains_sub :: "string \<Rightarrow> string \<Rightarrow> bool" where
  "contains_sub sub s \<longleftrightarrow> list_ex (\<lambda>i. take (length sub) (drop i s) = sub) [0..<Suc (length s)]"

definition rotated_log_files :: "disk_file list \<Rightarrow> disk_file list" where
  "rotated_log_files fs =
     filter (\<lambda>f. contains_sub ''.log'' (fl_name f) \<and>
                 list_ex (\<lambda>p. take (length p) (fl_name f) = p) [''application'', ''trading'', ''agent'', ''audit''] \<and>
                 \<not> ends_with (fl_name f) ''.log'') fs"

definition log_act ::
  "(string \<Rightarrow> bool) \<Rightarrow> retention_context \<Rightarrow> bool \<Rightarrow> disk_file list \<Rightarrow> disk_file list \<times> category_outcome" where
  "log_act deletable ctx dry_run fs =
     (let mode = rp_retention_mode (rx_policy ctx); files = rotated_log_files fs; examined = length files
      in if keeps_all ctx then (fs, kept APPLICATION_LOG ctx examined)
         else let eligible = filter (\<lambda>f. fl_mtime f < the (rx_cutoff ctx)) files
              in if is_unsupported_mode mode then (fs, unsupported_outcome APPLICATION_LOG ctx examined (length eligible))
                 else let out = (base_outcome APPLICATION_LOG (rx_policy ctx))\<lparr>co_examined := examined,
                            co_eligible := length eligible, co_storage_bytes := Some (sum_list (map fl_size eligible))\<rparr>;
                          gone = filter (\<lambda>f. deletable (fl_name f)) eligible;
                          stuck = filter (\<lambda>f. \<not> deletable (fl_name f)) eligible
                      in if dry_run then (fs, out)
                         else (filter (\<lambda>f. f \<notin> set gone) fs,
                               (apply_mode mode (length gone)
                                 (foldl (\<lambda>o' f. skip_if ''FILE_ERROR'' 1 (Some (fl_name f)) (o'\<lparr>co_skipped := co_skipped o' + 1\<rparr>)) out stuck))
                               \<lparr>co_storage_bytes := Some (sum_list (map fl_size gone))\<rparr>))"

definition buffer_act ::
  "retention_context \<Rightarrow> bool \<Rightarrow> market_store \<Rightarrow> market_store \<times> category_outcome" where
  "buffer_act ctx dry_run mk =
     (let mode = rp_retention_mode (rx_policy ctx); examined = store_size mk
      in if keeps_all ctx \<or> \<not> rp_enabled (rx_policy ctx) then (mk, kept MARKET_DATA_BUFFER ctx examined)
         else let c = the (rx_cutoff ctx); eligible = store_count_before c mk
              in if is_unsupported_mode mode then (mk, unsupported_outcome MARKET_DATA_BUFFER ctx examined eligible)
                 else let out = (base_outcome MARKET_DATA_BUFFER (rx_policy ctx))\<lparr>co_examined := examined, co_eligible := eligible\<rparr>
                      in if dry_run then (mk, out)
                         else let (mk', n) = prune_before c mk in (mk', apply_mode mode n out))"

text \<open>The default handler of each category.\<close>

definition handler_act ::
  "(string \<Rightarrow> bool) \<Rightarrow> data_category \<Rightarrow> retention_context \<Rightarrow> bool \<Rightarrow> data_store \<Rightarrow> (data_store \<times> category_outcome) result" where
  "handler_act deletable cat ctx dry_run st =
     (case cat of
        FINANCIAL \<Rightarrow> Inr (st, kept cat ctx (length (dw_orders st) + length (dw_trades st)))
      | TRADING_DECISION \<Rightarrow> Inr (st, kept cat ctx (length (dw_decisions st)))
      | TRACE \<Rightarrow> (let (rows, out) = table_act cat ctx dry_run (dw_timeline st) in Inr (st\<lparr>dw_timeline := rows\<rparr>, out))
      | METRICS \<Rightarrow> (let (rows, out) = table_act cat ctx dry_run (dw_metrics st) in Inr (st\<lparr>dw_metrics := rows\<rparr>, out))
      | RUNTIME_ALERT \<Rightarrow>
          (let (incidents, events, out) = alert_act ctx dry_run (dw_incidents st) (dw_error_events st)
           in Inr (st\<lparr>dw_incidents := incidents, dw_error_events := events\<rparr>, out))
      | EXPERIMENT \<Rightarrow> Inr (st, kept cat ctx (length (dw_experiments st)))
      | EXPERIMENT_ARTIFACT \<Rightarrow>
          (let (exps, out) = artifact_act ctx dry_run (dw_experiments st) in Inr (st\<lparr>dw_experiments := exps\<rparr>, out))
      | REPORT \<Rightarrow> res_bind (report_act ctx dry_run (dw_experiments st) (dw_sessions st) (dw_runs st))
          (\<lambda>(sessions, wf_runs, out). Inr (st\<lparr>dw_sessions := sessions, dw_runs := wf_runs\<rparr>, out))
      | CONFIG_HISTORY \<Rightarrow> Inr (st, kept cat ctx (length (dw_commits st)))
      | MARKET_DATA \<Rightarrow>
          (let (fs, out) = market_data_act deletable ctx dry_run (collect_dataset_references st) (dw_datasets st)
           in Inr (st\<lparr>dw_datasets := fs\<rparr>, out))
      | MARKET_DATA_BUFFER \<Rightarrow>
          (case dw_buffer st of
             None \<Rightarrow> Inr (st, kept cat ctx 0)
           | Some mk \<Rightarrow> (let (mk', out) = buffer_act ctx dry_run mk in Inr (st\<lparr>dw_buffer := Some mk'\<rparr>, out)))
      | APPLICATION_LOG \<Rightarrow> (let (fs, out) = log_act deletable ctx dry_run (dw_logs st) in Inr (st\<lparr>dw_logs := fs\<rparr>, out))
      | CACHE \<Rightarrow> Inr (st, kept cat ctx 0))"

section \<open>Holds\<close>

definition is_category_held :: "data_store \<Rightarrow> data_category \<Rightarrow> bool" where
  "is_category_held st cat = list_ex (\<lambda>h. ho_category h = cat \<and> ho_active h \<and> ho_entity_id h = None) (dw_holds st)"

definition get_held_entity_ids :: "data_store \<Rightarrow> data_category \<Rightarrow> string list" where
  "get_held_entity_ids st cat =
     map (\<lambda>h. the (ho_entity_id h))
       (filter (\<lambda>h. ho_category h = cat \<and> ho_active h \<and> truthy (ho_entity_id h)) (dw_holds st))"

definition is_entity_held :: "data_store \<Rightarrow> data_category \<Rightarrow> string \<Rightarrow> bool" where
  "is_entity_held st cat entity_id \<longleftrightarrow>
     is_category_held st cat \<or>
     list_ex (\<lambda>h. ho_category h = cat \<and> ho_active h \<and> ho_entity_id h = Some entity_id) (dw_holds st)"

definition add_hold :: "string \<Rightarrow> data_category \<Rightarrow> string option \<Rightarrow> data_store \<Rightarrow> data_store" where
  "add_hold hold_id cat entity_id st =
     st\<lparr>dw_holds := dw_holds st @ [\<lparr>ho_id = hold_id, ho_category = cat, ho_entity_id = entity_id, ho_active = True\<rparr>]\<rparr>"

definition release_hold :: "string \<Rightarrow> data_store \<Rightarrow> data_store \<times> bool" where
  "release_hold hold_id st =
     (st\<lparr>dw_holds := map (\<lambda>h. if ho_id h = hold_id then h\<lparr>ho_active := False\<rparr> else h) (dw_holds st)\<rparr>,
      list_ex (\<lambda>h. ho_id h = hold_id) (dw_holds st))"

definition add_audit_event :: "audit_event \<Rightarrow> data_store \<Rightarrow> data_store" where
  "add_audit_event ev st = st\<lparr>dw_audit := dw_audit st @ [ev]\<rparr>"

section \<open>The manager\<close>

datatype retention_error = ConfirmationRequired | RunAlreadyInProgress | Raised py_exc

datatype retention_trigger = SCHEDULED | MANUAL | PREVIEW

datatype run_status = RUN_PENDING | RUN_RUNNING | RUN_COMPLETED_OK | RUN_PARTIAL | RUN_FAILED_STATUS

record retention_run =
  rr_run_id :: string
  rr_status :: run_status
  rr_trigger :: retention_trigger
  rr_dry_run :: bool
  rr_policy_version :: string
  rr_started_at :: timestamp
  rr_categories :: "category_outcome list"
  rr_storage_reclaimed_bytes :: "nat option"

record retention_manager =
  rm_config :: retention_config
  rm_resolver :: policy_resolver
  rm_handlers :: "data_category list"
  rm_running :: bool

definition all_categories :: "data_category list" where
  "all_categories = map snd category_names"

definition sync_policy :: "retention_policy \<Rightarrow> data_store \<Rightarrow> data_store" where
  "sync_policy p st =
     (if rp_data_category p = MARKET_DATA_BUFFER
      then st\<lparr>dw_buffer := map_option (\<lambda>mk. mk\<lparr>mk_max_age :=
             (if rp_enabled p \<and> rp_retention_mode p = DELETE
              then (case period_delta p of Inr d \<Rightarrow> d | Inl _ \<Rightarrow> None) else None)\<rparr>) (dw_buffer st)\<rparr>
      else st)"

definition sync_handlers :: "retention_manager \<Rightarrow> data_store \<Rightarrow> data_store" where
  "sync_handlers m st =
     foldl (\<lambda>st p. if rp_data_category p \<in> set (rm_handlers m) then sync_policy p st else st) st
       (dict_values (rz_policies (rm_resolver m)))"

text \<open>The text fields of a stored policy document.\<close>

definition text_at :: "config \<Rightarrow> string \<Rightarrow> string option" where
  "text_at d k = (case py_get d k of PStr s \<Rightarrow> Some s | _ \<Rightarrow> None)"

definition load_persisted_policy_overrides :: "data_store \<Rightarrow> (string, override) dict" where
  "load_persisted_policy_overrides st =
     foldl (\<lambda>d ev. if truthy (ae_policy_id ev) \<and> ae_new_value ev \<noteq> None
              then dict_set (the (ae_policy_id ev))
                     \<lparr>ov_retention_period = text_at (the (ae_new_value ev)) ''retention_period'',
                      ov_retention_mode = text_at (the (ae_new_value ev)) ''retention_mode'',
                      ov_enabled = (case py_get (the (ae_new_value ev)) ''enabled'' of PBool b \<Rightarrow> Some b | _ \<Rightarrow> None),
                      ov_updated_at = Some (Some (ae_created_at ev)), ov_updated_by = Some (ae_actor ev)\<rparr> d
              else d)
       [] (sort_key ae_created_at (filter (\<lambda>ev. ae_event_type ev = POLICY_UPDATED) (dw_audit st)))"

text \<open>Starting the manager: overrides that do not fit are logged and the error is swallowed.\<close>

definition new_manager ::
  "version_env \<Rightarrow> retention_config \<Rightarrow> data_store \<Rightarrow> (retention_manager \<times> data_store) result" where
  "new_manager env cfg st =
     res_bind (new_resolver env cfg) (\<lambda>r.
       let overrides = load_persisted_policy_overrides st;
           r' = (if overrides = [] then r else fst (apply_overrides env overrides r));
           m = \<lparr>rm_config = cfg, rm_resolver = r', rm_handlers = all_categories, rm_running = False\<rparr>
       in Inr (m, sync_handlers m st))"

definition schedule_interval :: "retention_manager \<Rightarrow> int result" where
  "schedule_interval m =
     (let s = upper (rc_schedule (rm_config m))
      in if s = ''HOURLY'' then Inr 3600 else if s = ''DAILY'' then Inr 86400 else if s = ''WEEKLY'' then Inr 604800
         else res_bind (parse_duration (rc_schedule (rm_config m))) (\<lambda>d. Inr (opt_or d 86400)))"

definition run_event :: "audit_event_type \<Rightarrow> string option \<Rightarrow> string option \<Rightarrow> timestamp \<Rightarrow> audit_event" where
  "run_event kind run_id actor now =
     \<lparr>ae_event_type = kind, ae_policy_id = None, ae_actor = actor, ae_old_value = None, ae_new_value = None,
      ae_run_id = run_id, ae_created_at = now\<rparr>"

definition update_policy ::
  "version_env \<Rightarrow> timestamp \<Rightarrow> string \<Rightarrow> policy_change \<Rightarrow> string option \<Rightarrow> bool \<Rightarrow> retention_manager \<times> data_store
   \<Rightarrow> (retention_manager \<times> data_store) \<times> (retention_error + config)" where
  "update_policy env now policy_id ch actor confirm mst =
     (case mst of (m, st) \<Rightarrow>
        case dict_get (rz_policies (rm_resolver m)) policy_id of
          None \<Rightarrow> (mst, Inl (Raised KeyError))
        | Some policy \<Rightarrow>
            (case requires_confirmation (view_of policy) (change_view (view_of policy) ch) of
               Inl e \<Rightarrow> (mst, Inl (Raised e))
             | Inr needed \<Rightarrow>
                 if needed \<and> \<not> confirm then (mst, Inl ConfirmationRequired)
                 else (case resolver_update env now policy_id ch actor (rm_resolver m) of
                         (r', Inl e) \<Rightarrow> ((m\<lparr>rm_resolver := r'\<rparr>, st), Inl (Raised e))
                       | (r', Inr (old_value, new_value)) \<Rightarrow>
                           let st1 = (case dict_get (rz_policies r') policy_id of
                                  Some p \<Rightarrow> if rp_data_category p \<in> set (rm_handlers m) then sync_policy p st else st
                                | None \<Rightarrow> st);
                               ev = (run_event POLICY_UPDATED None actor now)
                                      \<lparr>ae_policy_id := Some policy_id, ae_old_value := Some old_value, ae_new_value := Some new_value\<rparr>
                           in ((m\<lparr>rm_resolver := r'\<rparr>, add_audit_event ev st1), Inr new_value))))"

definition determine_skip_reason :: "retention_manager \<Rightarrow> data_store \<Rightarrow> retention_policy \<Rightarrow> string option" where
  "determine_skip_reason m st p =
     (if rp_data_category p \<notin> set (rm_handlers m) then Some ''NO_HANDLER''
      else if \<not> rp_enabled p then Some ''DISABLED''
      else if is_category_held st (rp_data_category p) then Some ''LEGAL_HOLD''
      else None)"

definition skipped :: "retention_policy \<Rightarrow> string \<Rightarrow> string option \<Rightarrow> category_outcome" where
  "skipped p reason detail =
     (base_outcome (rp_data_category p) p)\<lparr>co_skipped_reasons := [\<lparr>sk_reason = reason, sk_count = 0, sk_detail = detail\<rparr>]\<rparr>"

definition evaluate_policy ::
  "(string \<Rightarrow> bool) \<Rightarrow> retention_manager \<Rightarrow> timestamp \<Rightarrow> bool \<Rightarrow> retention_policy \<Rightarrow> data_store \<Rightarrow> (data_store \<times> category_outcome) result" where
  "evaluate_policy deletable m now dry_run p st =
     (case determine_skip_reason m st p of
        Some reason \<Rightarrow> Inr (st, skipped p reason None)
      | None \<Rightarrow>
          res_bind (cutoff p now) (\<lambda>c.
            let ctx = \<lparr>rx_policy = p, rx_cutoff = c, rx_batch_size = rc_batch_size (rm_config m),
                       rx_held = get_held_entity_ids st (rp_data_category p)\<rparr>
            in case handler_act deletable (rp_data_category p) ctx dry_run st of
                 Inl e \<Rightarrow> Inr (st, skipped p ''ERROR'' (Some ''handler failed''))
               | Inr r \<Rightarrow> Inr r))"

fun evaluate_policies ::
  "(string \<Rightarrow> bool) \<Rightarrow> retention_manager \<Rightarrow> timestamp \<Rightarrow> bool \<Rightarrow> retention_policy list \<Rightarrow> data_store
   \<Rightarrow> data_store \<times> category_outcome list result" where
  "evaluate_policies deletable m now dry_run [] st = (st, Inr [])"
| "evaluate_policies deletable m now dry_run (p # ps) st =
     (case evaluate_policy deletable m now dry_run p st of
        Inl e \<Rightarrow> (st, Inl e)
      | Inr (st', out) \<Rightarrow>
          (let (st'', r) = evaluate_policies deletable m now dry_run ps st'
           in (st'', res_bind r (\<lambda>outs. Inr (out # outs)))))"

text \<open>A transaction that fails takes the tables back; files and the buffer keep what was done.\<close>

definition rollback_tables :: "data_store \<Rightarrow> data_store \<Rightarrow> data_store" where
  "rollback_tables st0 st = st0\<lparr>dw_datasets := dw_datasets st, dw_logs := dw_logs st, dw_buffer := dw_buffer st\<rparr>"

definition outcome_failed :: "category_outcome \<Rightarrow> bool" where
  "outcome_failed out = list_ex (\<lambda>k. sk_reason k = ''ERROR'') (co_skipped_reasons out)"

definition run_once ::
  "(string \<Rightarrow> bool) \<Rightarrow> timestamp \<Rightarrow> string \<Rightarrow> retention_trigger \<Rightarrow> bool \<Rightarrow> string option \<Rightarrow> retention_manager \<Rightarrow> data_store
   \<Rightarrow> data_store \<times> (retention_error + retention_run)" where
  "run_once deletable now run_id trigger dry_run actor m st =
     (if rm_running m then (st, Inl RunAlreadyInProgress)
      else let run = \<lparr>rr_run_id = run_id, rr_status = RUN_RUNNING, rr_trigger = trigger, rr_dry_run = dry_run,
                      rr_policy_version = rz_version (rm_resolver m), rr_started_at = now, rr_categories = [],
                      rr_storage_reclaimed_bytes = None\<rparr>;
               st1 = add_audit_event (run_event RUN_STARTED (Some run_id) actor now) st
           in if \<not> rc_enabled (rm_config m)
              then (add_audit_event (run_event RUN_COMPLETED (Some run_id) actor now) st1, Inr (run\<lparr>rr_status := RUN_COMPLETED_OK\<rparr>))
              else (case evaluate_policies deletable m now dry_run (dict_values (rz_policies (rm_resolver m))) st1 of
                      (st2, Inl e) \<Rightarrow>
                        (add_audit_event (run_event RUN_FAILED (Some run_id) actor now) (rollback_tables st st2), Inl (Raised e))
                    | (st2, Inr outs) \<Rightarrow>
                        let bytes = sum_list (map (\<lambda>out. opt_or (co_storage_bytes out) 0) outs)
                        in (add_audit_event (run_event RUN_COMPLETED (Some run_id) actor now) st2,
                            Inr (run\<lparr>rr_status := (if list_ex outcome_failed outs then RUN_PARTIAL else RUN_COMPLETED_OK),
                                     rr_categories := outs,
                                     rr_storage_reclaimed_bytes := (if bytes = 0 then None else Some bytes)\<rparr>))))"

definition preview :: "(string \<Rightarrow> bool) \<Rightarrow> timestamp \<Rightarrow> string \<Rightarrow> retention_manager \<Rightarrow> data_store \<Rightarrow> data_store \<times> (retention_error + retention_run)" where
  "preview deletable now run_id m st = run_once deletable now run_id PREVIEW True None m st"

definition execute_retention ::
  "(string \<Rightarrow> bool) \<Rightarrow> timestamp \<Rightarrow> string \<Rightarrow> string option \<Rightarrow> retention_manager \<Rightarrow> data_store \<Rightarrow> data_store \<times> (retention_error + retention_run)" where
  "execute_retention deletable now run_id actor m st = run_once deletable now run_id MANUAL (rc_dry_run (rm_config m)) actor m st"

definition scheduler_run_once ::
  "(string \<Rightarrow> bool) \<Rightarrow> timestamp \<Rightarrow> string \<Rightarrow> retention_manager \<Rightarrow> data_store \<Rightarrow> data_store \<times> (retention_error + retention_run) option" where
  "scheduler_run_once deletable now run_id m st =
     (if \<not> rc_enabled (rm_config m) then (st, None)
      else let (st', r) = execute_retention deletable now run_id (Some ''retention-scheduler'') m st in (st', Some r))"

section \<open>Reports on the stored data\<close>

definition handler_summary :: "data_category \<Rightarrow> data_store \<Rightarrow> nat option \<times> nat option" where
  "handler_summary cat st =
     (case cat of
        FINANCIAL \<Rightarrow> (Some (length (dw_orders st) + length (dw_trades st)), None)
      | TRADING_DECISION \<Rightarrow> (Some (length (dw_decisions st)), None)
      | TRACE \<Rightarrow> (Some (length (dw_timeline st)), None)
      | METRICS \<Rightarrow> (Some (length (dw_metrics st)), None)
      | RUNTIME_ALERT \<Rightarrow> (Some (length (dw_incidents st) + length (dw_error_events st)), None)
      | EXPERIMENT \<Rightarrow> (Some (length (dw_experiments st)), None)
      | EXPERIMENT_ARTIFACT \<Rightarrow> (Some (length (filter (\<lambda>x. xr_report x \<noteq> None) (dw_experiments st))), None)
      | REPORT \<Rightarrow> (Some (length (dw_sessions st) + length (dw_runs st)), None)
      | CONFIG_HISTORY \<Rightarrow> (Some (length (dw_commits st)), None)
      | MARKET_DATA \<Rightarrow>
          (let fs = dw_datasets st
           in (Some (length (meta_files fs)), Some (sum_list (map (\<lambda>f. files_size fs (dataset_files (dataset_of f))) (meta_files fs)))))
      | MARKET_DATA_BUFFER \<Rightarrow> (Some (case dw_buffer st of None \<Rightarrow> 0 | Some mk \<Rightarrow> store_size mk), None)
      | APPLICATION_LOG \<Rightarrow>
          (let fs = rotated_log_files (dw_logs st) in (Some (length fs), Some (sum_list (map fl_size fs))))
      | CACHE \<Rightarrow> (Some 0, None))"

definition list_policies :: "version_env \<Rightarrow> retention_manager \<Rightarrow> data_store \<Rightarrow> config list" where
  "list_policies env m st =
     map (\<lambda>p. let (n, size) = (if rp_data_category p \<in> set (rm_handlers m) then handler_summary (rp_data_category p) st else (None, None))
              in policy_to_dict (ve_iso env) p (map_option int n) (map_option int size))
       (dict_values (rz_policies (rm_resolver m)))"

definition total_storage :: "retention_manager \<Rightarrow> data_store \<Rightarrow> nat" where
  "total_storage m st = sum_list (map (\<lambda>cat. opt_or (snd (handler_summary cat st)) 0) (rm_handlers m))"

end
