(* ===== verification/Disposal.thy ===== *)
theory Disposal
  imports Cleanup
begin

text \<open>
  What retention guarantees: a run removes only data that an enabled policy licenses, cleaning a
  table is exact and predicted by its preview, and an update without confirmation never makes a
  policy delete more.  \<open>pruned L xs ys\<close> says that \<open>ys\<close> is \<open>xs\<close> less elements with \<open>L\<close>; \<open>cleaned\<close> puts the
  parts of the store together.
\<close>

section \<open>What a deletion leaves\<close>

definition pruned :: "('a \<Rightarrow> bool) \<Rightarrow> 'a list \<Rightarrow> 'a list \<Rightarrow> bool" where
  "pruned L xs ys \<longleftrightarrow> (\<exists>P. ys = filter P xs \<and> (\<forall>x \<in> set xs. P x \<or> L x))"

lemma pruned_refl [simp]: "pruned L xs xs"
  unfolding pruned_def by (intro exI [of _ "\<lambda>_. True"]) simp

lemma pruned_filter: "(\<And>x. x \<in> set xs \<Longrightarrow> \<not> P x \<Longrightarrow> L x) \<Longrightarrow> pruned L xs (filter P xs)"
  unfolding pruned_def by blast

lemma pruned_mono: "pruned L xs ys \<Longrightarrow> (\<And>x. x \<in> set xs \<Longrightarrow> L x \<Longrightarrow> L' x) \<Longrightarrow> pruned L' xs ys"
  unfolding pruned_def by blast

lemma pruned_trans:
  assumes "pruned L xs ys" "pruned L ys zs"
  shows "pruned L xs zs"
proof -
  obtain P Q where "ys = filter P xs" "\<forall>x \<in> set xs. P x \<or> L x" "zs = filter Q ys" "\<forall>x \<in> set ys. Q x \<or> L x"
    using assms unfolding pruned_def by blast
  then show ?thesis unfolding pruned_def by (intro exI [of _ "\<lambda>x. P x \<and> Q x"]) (auto simp: conj_commute)
qed

lemma pruned_set: "pruned L xs ys \<Longrightarrow> x \<in> set xs \<Longrightarrow> x \<notin> set ys \<Longrightarrow> L x"
  unfolding pruned_def by auto

lemma pruned_subset: "pruned L xs ys \<Longrightarrow> set ys \<subseteq> set xs"
  unfolding pruned_def by auto

lemma pruned_none: "pruned (\<lambda>_. False) xs ys \<longleftrightarrow> ys = xs"
  using pruned_refl [of "\<lambda>_. False"] unfolding pruned_def by (auto simp: filter_id_conv)

lemma pruned_distinct: "pruned L xs ys \<Longrightarrow> distinct (map f xs) \<Longrightarrow> distinct (map f ys)"
  unfolding pruned_def by (auto simp: distinct_map_filter)

lemma distinct_id:
  assumes "distinct (map f xs)" "x \<in> set xs" "y \<in> set xs" "f x = f y"
  shows "x = y"
  using assms by (auto simp: distinct_map dest: inj_onD)

lemma filter_take_distinct:
  assumes "distinct xs"
  shows "filter (\<lambda>x. x \<notin> set (take n xs)) xs = drop n xs"
proof -
  let ?P = "\<lambda>x. x \<notin> set (take n xs)"
  have "filter ?P xs = filter ?P (take n xs) @ filter ?P (drop n xs)" by (metis append_take_drop_id filter_append)
  also have "filter ?P (take n xs) = []" by (simp add: filter_empty_conv)
  also have "filter ?P (drop n xs) = drop n xs"
    using set_take_disj_set_drop_if_distinct [OF assms, of n n] by (auto simp: filter_id_conv)
  finally show ?thesis by simp
qed

lemma picked_batch:
  fixes rows :: "db_row list" and batch sel
  assumes "distinct (map row_id rows)"
  defines "picked \<equiv> take batch (filter sel rows)"
  defines "rest \<equiv> filter (\<lambda>r. row_id r \<notin> set (map row_id picked)) rows"
  shows "rest = filter (\<lambda>r. r \<notin> set picked) rows" "length rows - length rest = length picked"
    "filter sel rest = drop batch (filter sel rows)" "filter (\<lambda>r. \<not> sel r) rest = filter (\<lambda>r. \<not> sel r) rows"
    "distinct (map row_id rest)"
proof -
  have sub: "set picked \<subseteq> {r \<in> set rows. sel r}" unfolding picked_def by (auto dest: in_set_takeD)
  have dist: "distinct rows" using assms(1) by (simp add: distinct_map)
  have "row_id r \<in> set (map row_id picked) \<longleftrightarrow> r \<in> set picked" if "r \<in> set rows" for r
  proof
    assume "row_id r \<in> set (map row_id picked)"
    then obtain y where y: "y \<in> set picked" "row_id r = row_id y" by auto
    with sub have "y \<in> set rows" by blast
    from distinct_id [OF assms(1) that this y(2)] y(1) show "r \<in> set picked" by simp
  qed simp
  then show rest: "rest = filter (\<lambda>r. r \<notin> set picked) rows" unfolding rest_def by (intro filter_cong) simp_all
  have "length (filter (\<lambda>r. r \<in> set picked) rows) = length picked"
  proof -
    have "set (filter (\<lambda>r. r \<in> set picked) rows) = set picked" using sub by auto
    moreover have "distinct (filter (\<lambda>r. r \<in> set picked) rows)" "distinct picked" using dist by (simp_all add: picked_def)
    ultimately show ?thesis by (metis distinct_card)
  qed
  then show "length rows - length rest = length picked"
    unfolding rest using sum_length_filter_compl [of "\<lambda>r. r \<in> set picked" rows] by simp
  have "filter sel rest = filter (\<lambda>r. r \<notin> set picked) (filter sel rows)" unfolding rest filter_filter by (metis (lifting) conj_commute)
  then show "filter sel rest = drop batch (filter sel rows)"
    unfolding picked_def using filter_take_distinct [of "filter sel rows" batch] dist by simp
  show "filter (\<lambda>r. \<not> sel r) rest = filter (\<lambda>r. \<not> sel r) rows"
    unfolding rest filter_filter using sub by (intro filter_cong) auto
  show "distinct (map row_id rest)" unfolding rest_def using assms(1) by (rule distinct_map_filter)
qed

lemma bulk_delete_all:
  assumes "distinct (map row_id rows)" "0 < batch"
  shows "bulk_delete_before batch sel rows n = (filter (\<lambda>r. \<not> sel r) rows, n + length (filter sel rows))"
  using assms
proof (induction batch sel rows n rule: bulk_delete_before.induct)
  case (1 batch sel rows n)
  define picked where "picked = take batch (filter sel rows)"
  define rest where "rest = filter (\<lambda>r. row_id r \<notin> set (map row_id picked)) rows"
  note b = picked_batch [OF "1.prems"(1), where batch = batch and sel = sel, folded picked_def, folded rest_def]
  have len: "length rows - length rest = length picked" by (fact b(2))
  have unfold: "bulk_delete_before batch sel rows n =
      (if picked = [] then (rows, n) else if length picked < batch then (rest, n + length picked)
       else bulk_delete_before batch sel rest (n + length picked))"
    by (subst bulk_delete_before.simps) (simp only: Let_def map_is_Nil_conv len flip: picked_def rest_def)
  consider (none) "picked = []" | (short) "picked \<noteq> []" "length picked < batch" | (full) "picked \<noteq> []" "length picked = batch"
    using picked_def by fastforce
  then show ?case
  proof cases
    case none
    then have "filter sel rows = []" using "1.prems"(2) by (simp add: picked_def)
    then show ?thesis unfolding unfold using none by (simp add: filter_empty_conv filter_id_conv)
  next
    case short
    then have "picked = filter sel rows" by (simp add: picked_def)
    with b(3,4) have "filter sel rest = []" "length picked = length (filter sel rows)" using short(2) by simp_all
    with b(4) show ?thesis unfolding unfold using short by (auto simp: filter_empty_conv filter_id_conv)
  next
    case full
    have "bulk_delete_before batch sel rest (n + length picked) =
        (filter (\<lambda>r. \<not> sel r) rest, n + length picked + length (filter sel rest))"
      by (rule "1.IH" [OF refl refl refl, folded picked_def, folded rest_def, unfolded len]) (use full b "1.prems" in \<open>auto simp: rest_def\<close>)
    moreover have "length picked + length (filter sel rest) = length (filter sel rows)"
      unfolding b(3) picked_def by simp
    ultimately show ?thesis unfolding unfold b(4) using full by simp
  qed
qed

lemma bulk_delete_pruned:
  assumes "distinct (map row_id rows)"
  shows "pruned sel rows (fst (bulk_delete_before batch sel rows n))"
proof (cases "batch = 0")
  case True
  then show ?thesis by (subst bulk_delete_before.simps) simp
next
  case False
  then show ?thesis using bulk_delete_all [OF assms] by (auto intro: pruned_filter)
qed

section \<open>What a run may remove\<close>

text \<open>A category is cleaned up to \<open>c\<close> when an enabled policy with mode \<open>DELETE\<close> says so and the category is not on hold.\<close>

definition deletes :: "retention_manager \<Rightarrow> timestamp \<Rightarrow> data_store \<Rightarrow> data_category \<Rightarrow> timestamp \<Rightarrow> bool" where
  "deletes m now st cat c \<longleftrightarrow>
     list_ex (\<lambda>p. rp_data_category p = cat \<and> rp_enabled p \<and> rp_retention_mode p = DELETE \<and> cutoff p now = Inr (Some c))
       (dict_values (rz_policies (rm_resolver m))) \<and> \<not> is_category_held st cat"

definition row_licence :: "retention_manager \<Rightarrow> timestamp \<Rightarrow> data_store \<Rightarrow> data_category \<Rightarrow> 'a db_row_scheme \<Rightarrow> bool" where
  "row_licence m now st cat r \<longleftrightarrow> (\<exists>c. deletes m now st cat c \<and> expired c (get_held_entity_ids st cat) r)"

definition referenced :: "string \<Rightarrow> string \<Rightarrow> experiment_row list \<Rightarrow> bool" where
  "referenced key i exps \<longleftrightarrow>
     i \<noteq> [] \<and>
     list_ex (\<lambda>x. case xr_run_bindings x of
                    PList bs \<Rightarrow> list_ex (\<lambda>b. case b of PDict d \<Rightarrow> py_get d key = PStr i | _ \<Rightarrow> False) bs
                  | _ \<Rightarrow> False) exps"

definition report_licence ::
  "string \<Rightarrow> retention_manager \<Rightarrow> timestamp \<Rightarrow> data_store \<Rightarrow> 'a db_row_scheme \<Rightarrow> bool" where
  "report_licence key m now st r \<longleftrightarrow> row_licence m now st REPORT r \<and> \<not> referenced key (row_id r) (dw_experiments st)"

definition artifact_licence :: "retention_manager \<Rightarrow> timestamp \<Rightarrow> data_store \<Rightarrow> experiment_row \<Rightarrow> bool" where
  "artifact_licence m now st x \<longleftrightarrow>
     (\<exists>c. deletes m now st EXPERIMENT_ARTIFACT c \<and> artifact_expired c x \<and>
          xr_id x \<notin> set (get_held_entity_ids st EXPERIMENT_ARTIFACT))"

definition dataset_licence ::
  "retention_manager \<Rightarrow> timestamp \<Rightarrow> data_store \<Rightarrow> string list \<Rightarrow> disk_file \<Rightarrow> bool" where
  "dataset_licence m now st refs f \<longleftrightarrow>
     (\<exists>c meta. deletes m now st MARKET_DATA c \<and> meta \<in> set (meta_files (dw_datasets st)) \<and> fl_mtime meta < c \<and>
        fl_name f \<in> set (dataset_files (dataset_of meta)) \<and>
        dataset_of meta \<notin> set (get_held_entity_ids st MARKET_DATA) \<and> dataset_of meta \<notin> set refs)"

definition log_licence :: "retention_manager \<Rightarrow> timestamp \<Rightarrow> data_store \<Rightarrow> disk_file \<Rightarrow> bool" where
  "log_licence m now st f \<longleftrightarrow> (\<exists>c. deletes m now st APPLICATION_LOG c \<and> fl_mtime f < c) \<and> f \<in> set (rotated_log_files [f])"

definition observations :: "market_store option \<Rightarrow> (string \<times> int \<times> market_data) list" where
  "observations buffer =
     (case buffer of None \<Rightarrow> [] | Some mk \<Rightarrow> concat (map (\<lambda>(ticker, obs). map (Pair ticker) obs) (mk_observations mk)))"

definition observation_licence :: "retention_manager \<Rightarrow> timestamp \<Rightarrow> data_store \<Rightarrow> string \<times> int \<times> market_data \<Rightarrow> bool" where
  "observation_licence m now st e \<longleftrightarrow> (\<exists>c. deletes m now st MARKET_DATA_BUFFER c \<and> of_int (fst (snd e)) < c)"

text \<open>\<open>st'\<close> is \<open>st\<close> less licensed data, and no remaining record refers to a removed dataset.\<close>

definition protected_kept :: "data_store \<Rightarrow> data_store \<Rightarrow> bool" where
  "protected_kept st st' \<longleftrightarrow>
     dw_orders st' = dw_orders st \<and> dw_trades st' = dw_trades st \<and> dw_decisions st' = dw_decisions st \<and>
     dw_commits st' = dw_commits st \<and> dw_holds st' = dw_holds st"

definition rows_cleaned :: "retention_manager \<Rightarrow> timestamp \<Rightarrow> data_store \<Rightarrow> data_store \<Rightarrow> bool" where
  "rows_cleaned m now st st' \<longleftrightarrow>
     pruned (row_licence m now st TRACE) (dw_timeline st) (dw_timeline st') \<and>
     pruned (row_licence m now st METRICS) (dw_metrics st) (dw_metrics st') \<and>
     pruned (row_licence m now st RUNTIME_ALERT) (dw_incidents st) (dw_incidents st') \<and>
     pruned (row_licence m now st RUNTIME_ALERT) (dw_error_events st) (dw_error_events st')"

definition reports_cleaned :: "retention_manager \<Rightarrow> timestamp \<Rightarrow> data_store \<Rightarrow> data_store \<Rightarrow> bool" where
  "reports_cleaned m now st st' \<longleftrightarrow>
     pruned (report_licence ''backtest_session_id'' m now st) (dw_sessions st) (dw_sessions st') \<and>
     pruned (report_licence ''walk_forward_run_id'' m now st) (dw_runs st) (dw_runs st') \<and>
     list_all2 (\<lambda>x x'. x' = x \<or> artifact_licence m now st x \<and> x' = x\<lparr>xr_report := xr_report x'\<rparr>)
       (dw_experiments st) (dw_experiments st')"

definition files_cleaned :: "retention_manager \<Rightarrow> timestamp \<Rightarrow> data_store \<Rightarrow> data_store \<Rightarrow> bool" where
  "files_cleaned m now st st' \<longleftrightarrow>
     pruned (dataset_licence m now st (collect_dataset_references st')) (dw_datasets st) (dw_datasets st') \<and>
     pruned (log_licence m now st) (dw_logs st) (dw_logs st') \<and>
     pruned (observation_licence m now st) (observations (dw_buffer st)) (observations (dw_buffer st'))"

definition cleaned :: "retention_manager \<Rightarrow> timestamp \<Rightarrow> data_store \<Rightarrow> data_store \<Rightarrow> bool" where
  "cleaned m now st st' \<longleftrightarrow>
     protected_kept st st' \<and> rows_cleaned m now st st' \<and> reports_cleaned m now st st' \<and> files_cleaned m now st st'"

lemma cleaned_refl: "cleaned m now st st"
  by (simp add: cleaned_def protected_kept_def rows_cleaned_def reports_cleaned_def files_cleaned_def list_all2_same)

section \<open>The handlers one by one\<close>

definition acts :: "retention_context \<Rightarrow> timestamp \<Rightarrow> bool" where
  "acts ctx c \<longleftrightarrow> rp_retention_mode (rx_policy ctx) = DELETE \<and> rx_cutoff ctx = Some c"

lemma acts_iff: "\<not> keeps_all ctx \<Longrightarrow> \<not> is_unsupported_mode (rp_retention_mode (rx_policy ctx)) \<Longrightarrow> acts ctx (the (rx_cutoff ctx))"
  by (cases "rp_retention_mode (rx_policy ctx)") (auto simp: keeps_all_def is_unsupported_mode_def acts_def)

lemma table_act_pruned:
  assumes "distinct (map row_id rows)"
  shows "pruned (\<lambda>r. \<exists>c. acts ctx c \<and> expired c (rx_held ctx) r) rows (fst (table_act cat ctx dry_run rows))"
proof (cases "keeps_all ctx \<or> is_unsupported_mode (rp_retention_mode (rx_policy ctx)) \<or> dry_run")
  case True
  then show ?thesis by (auto simp: table_act_def Let_def)
next
  case False
  then have "acts ctx (the (rx_cutoff ctx))" using acts_iff by blast
  moreover have "fst (table_act cat ctx dry_run rows) =
      fst (bulk_delete_before (nat (rx_batch_size ctx)) (expired (the (rx_cutoff ctx)) (rx_held ctx)) rows 0)"
    using False by (simp add: table_act_def Let_def split: prod.split)
  ultimately show ?thesis by (auto intro!: pruned_mono [OF bulk_delete_pruned] assms)
qed

lemma alert_act_pruned:
  assumes "distinct (map row_id incidents)" "distinct (map row_id events)"
    "alert_act ctx dry_run incidents events = (incidents', events', out)"
  shows "pruned (\<lambda>r. \<exists>c. acts ctx c \<and> expired c (rx_held ctx) r) incidents incidents'"
    "pruned (\<lambda>r. \<exists>c. acts ctx c \<and> expired c (rx_held ctx) r) events events'"
proof -
  let ?L = "\<lambda>r. \<exists>c. acts ctx c \<and> expired c (rx_held ctx) r"
  have "pruned ?L incidents incidents' \<and> pruned ?L events events'"
  proof (cases "keeps_all ctx \<or> is_unsupported_mode (rp_retention_mode (rx_policy ctx)) \<or> dry_run")
    case True
    with assms(3) have "incidents' = incidents \<and> events' = events"
      unfolding alert_act_def Let_def by (auto split: if_splits)
    then show ?thesis by simp
  next
    case False
    then have a: "acts ctx (the (rx_cutoff ctx))" using acts_iff by blast
    let ?bulk = "bulk_delete_before (nat (rx_batch_size ctx)) (expired (the (rx_cutoff ctx)) (rx_held ctx))"
    from False assms(3) have "incidents' = fst (?bulk incidents 0)" "events' = fst (?bulk events 0)"
      by (simp_all add: alert_act_def Let_def split: prod.splits)
    then show ?thesis using a by (auto intro!: pruned_mono [OF bulk_delete_pruned] assms(1,2))
  qed
  then show "pruned ?L incidents incidents'" "pruned ?L events events'" by simp_all
qed

lemma res_map_mem: "res_map f xs = Inr ys \<Longrightarrow> x \<in> set xs \<Longrightarrow> \<exists>y \<in> set ys. f x = Inr y"
  by (induction xs arbitrary: ys) (auto elim!: res_bind_InrE)

lemma referenced_iff:
  "referenced key i exps \<longleftrightarrow>
     i \<noteq> [] \<and> (\<exists>x \<in> set exps. \<exists>bs. xr_run_bindings x = PList bs \<and> (\<exists>d. PDict d \<in> set bs \<and> py_get d key = PStr i))"
proof -
  have "(case b of PDict d \<Rightarrow> py_get d key = PStr i | _ \<Rightarrow> False) \<longleftrightarrow> (\<exists>d. b = PDict d \<and> py_get d key = PStr i)" for b
    by (cases b) simp_all
  moreover have "(case v of PList bs \<Rightarrow> P bs | _ \<Rightarrow> False) \<longleftrightarrow> (\<exists>bs. v = PList bs \<and> P bs)" for v and P :: "pyval list \<Rightarrow> bool"
    by (cases v) simp_all
  ultimately show ?thesis unfolding referenced_def list_ex_iff by simp blast
qed

lemma report_refs_complete:
  assumes "report_refs key exps = Inr refs" "referenced key i exps"
  shows "PStr i \<in> set refs"
proof -
  from assms(2) obtain x bs d where x: "x \<in> set exps" "xr_run_bindings x = PList bs" "PDict d \<in> set bs" "py_get d key = PStr i" "i \<noteq> []"
    unfolding referenced_iff by blast
  let ?f = "\<lambda>x. res_bind (py_iter (val_or (xr_run_bindings x) (PList []))) (res_map (binding_refs key))"
  from assms(1) obtain rs where rs: "res_map ?f exps = Inr rs" "refs = concat (concat rs)"
    unfolding report_refs_def by (auto elim!: res_bind_InrE)
  from res_map_mem [OF rs(1) x(1)] obtain ys where ys: "ys \<in> set rs" "?f x = Inr ys" by blast
  from x(3) have "bs \<noteq> []" by auto
  with ys(2) x(2) have "res_map (binding_refs key) bs = Inr ys" by (simp add: val_or_def)
  from res_map_mem [OF this x(3)] obtain y where "y \<in> set ys" "binding_refs key (PDict d) = Inr y" by blast
  with x(4,5) have "[PStr i] \<in> set ys" by (simp add: binding_refs_def)
  then have "PStr i \<in> set (concat ys)" by force
  with ys(1) show ?thesis unfolding rs(2) by auto
qed

lemma delete_ids_filter: "\<exists>S. fst (delete_ids n ids rows) = filter (\<lambda>r. row_id r \<notin> S) rows \<and> S \<subseteq> set ids"
proof -
  have "\<exists>S. fst (foldl (\<lambda>(rows, n) chunk. let rows' = filter (\<lambda>r. row_id r \<notin> set chunk) rows in (rows', n + (length rows - length rows')))
       (rows, k) css) = filter (\<lambda>r. row_id r \<notin> S) rows \<and> S \<subseteq> \<Union>(set ` set css)" for css k
  proof (induction css arbitrary: rows k)
    case Nil
    then show ?case by (intro exI [of _ "{}"]) simp
  next
    case (Cons c css)
    let ?rows = "filter (\<lambda>r. row_id r \<notin> set c) rows"
    from Cons.IH [of ?rows "k + (length rows - length ?rows)"] obtain S where
      S: "fst (foldl (\<lambda>(rows, n) chunk. let rows' = filter (\<lambda>r. row_id r \<notin> set chunk) rows in (rows', n + (length rows - length rows')))
       (?rows, k + (length rows - length ?rows)) css) = filter (\<lambda>r. row_id r \<notin> S) ?rows" "S \<subseteq> \<Union>(set ` set css)" by blast
    from S show ?case by (intro exI [of _ "set c \<union> S"]) (auto simp: Let_def intro!: filter_cong)
  qed
  moreover have "\<Union>(set ` set (chunks k ids)) \<subseteq> set ids" for k
    by (induction k ids rule: chunks.induct) (auto dest: in_set_takeD in_set_dropD)
  ultimately show ?thesis unfolding delete_ids_def by (meson subset_trans)
qed

lemma partition_licensed:
  assumes "i \<in> set (fst (partition_reports c held refs rows))" "distinct (map row_id rows)" "r \<in> set rows" "row_id r = i"
  shows "expired c held r" "PStr i \<notin> set refs"
proof -
  from assms(1) obtain r' where r': "r' \<in> set rows" "row_time r' < c" "row_id r' = i" "i \<notin> set held" "PStr i \<notin> set refs"
    unfolding partition_reports_def Let_def by auto
  from distinct_id [OF assms(2) r'(1) assms(3)] r'(3) assms(4) have "r' = r" by simp
  with r' show "expired c held r" "PStr i \<notin> set refs" by (simp_all add: expired_def)
qed

lemma delete_reports_pruned:
  assumes "report_refs key exps = Inr refs" "distinct (map row_id rows)"
  shows "pruned (\<lambda>r. expired c held r \<and> \<not> referenced key (row_id r) exps) rows
     (fst (delete_ids n (fst (partition_reports c held refs rows)) rows))"
proof -
  obtain S where S: "fst (delete_ids n (fst (partition_reports c held refs rows)) rows) = filter (\<lambda>r. row_id r \<notin> S) rows"
    "S \<subseteq> set (fst (partition_reports c held refs rows))" using delete_ids_filter by blast
  show ?thesis unfolding S(1)
  proof (rule pruned_filter)
    fix r assume r: "r \<in> set rows" "\<not> row_id r \<notin> S"
    with S(2) have i: "row_id r \<in> set (fst (partition_reports c held refs rows))" by blast
    from partition_licensed [OF i assms(2) r(1) refl] report_refs_complete [OF assms(1)]
    show "expired c held r \<and> \<not> referenced key (row_id r) exps" by blast
  qed
qed

lemma report_act_pruned:
  assumes "report_act ctx dry_run exps sessions wf_runs = Inr (sessions', wf_runs', out)"
    "distinct (map row_id sessions)" "distinct (map row_id wf_runs)"
  defines "L \<equiv> \<lambda>key r. \<exists>c. acts ctx c \<and> expired c (rx_held ctx) r \<and> \<not> referenced key (row_id r) exps"
  shows "pruned (L ''backtest_session_id'') sessions sessions' \<and> pruned (L ''walk_forward_run_id'') wf_runs wf_runs'"
proof (cases "keeps_all ctx")
  case True
  with assms(1) show ?thesis by (auto simp: report_act_def Let_def)
next
  case keeps: False
  from assms(1) keeps obtain r1 r2 where refs: "report_refs ''backtest_session_id'' exps = Inr r1" "report_refs ''walk_forward_run_id'' exps = Inr r2"
    unfolding report_act_def Let_def by (auto elim!: res_bind_InrE)
  show ?thesis
  proof (cases "is_unsupported_mode (rp_retention_mode (rx_policy ctx)) \<or> dry_run")
    case True
    with assms(1) keeps refs have "sessions' = sessions \<and> wf_runs' = wf_runs"
      unfolding report_act_def Let_def by (auto split: if_splits prod.splits)
    then show ?thesis by simp
  next
    case False
    then have a: "acts ctx (the (rx_cutoff ctx))" using acts_iff keeps by blast
    let ?gone = "\<lambda>refs rows. fst (delete_ids (nat (max 1 (rx_batch_size ctx)))
        (fst (partition_reports (the (rx_cutoff ctx)) (rx_held ctx) refs rows)) rows)"
    from assms(1) keeps refs False have "sessions' = ?gone r1 sessions" "wf_runs' = ?gone r2 wf_runs"
      by (simp_all add: report_act_def Let_def split: prod.splits)
    then show ?thesis using a unfolding L_def
      by (auto intro!: pruned_mono [OF delete_reports_pruned] refs assms(2,3))
  qed
qed

lemma artifact_act_kept:
  "list_all2 (\<lambda>x x'. x' = x \<or> (\<exists>c. acts ctx c \<and> artifact_expired c x \<and> xr_id x \<notin> set (rx_held ctx)) \<and> x' = x\<lparr>xr_report := xr_report x'\<rparr>)
     exps (fst (artifact_act ctx dry_run exps))"
proof (cases "keeps_all ctx \<or> is_unsupported_mode (rp_retention_mode (rx_policy ctx)) \<or> dry_run")
  case True
  then have "fst (artifact_act ctx dry_run exps) = exps" by (auto simp: artifact_act_def Let_def)
  then show ?thesis by (simp add: list_all2_same)
next
  case False
  then have "acts ctx (the (rx_cutoff ctx))" using acts_iff by blast
  with False show ?thesis by (auto simp: artifact_act_def Let_def list_all2_map2 intro!: list_all2_refl)
qed

lemma delete_datasets_pruned:
  "pruned (\<lambda>f. \<exists>d \<in> set ds. fl_name f \<in> set (dataset_files d)) fs (fst (foldl (delete_dataset deletable) (fs, n, k, out) ds))"
proof (induction ds arbitrary: fs n k out)
  case (Cons d ds)
  have "fst (delete_dataset deletable (fs, n, k, out) d) = unlink deletable (dataset_files d) fs"
    by (simp add: delete_dataset_def Let_def)
  then obtain n' k' out' where step: "delete_dataset deletable (fs, n, k, out) d = (unlink deletable (dataset_files d) fs, n', k', out')"
    by (metis prod.collapse)
  have "pruned (\<lambda>f. \<exists>d' \<in> set (d # ds). fl_name f \<in> set (dataset_files d')) fs (unlink deletable (dataset_files d) fs)"
    unfolding unlink_def by (rule pruned_filter) auto
  moreover have "pruned (\<lambda>f. \<exists>d' \<in> set (d # ds). fl_name f \<in> set (dataset_files d')) (unlink deletable (dataset_files d) fs)
      (fst (foldl (delete_dataset deletable) (fs, n, k, out) (d # ds)))"
    unfolding foldl_Cons step by (rule pruned_mono [OF Cons.IH]) auto
  ultimately show ?case by (rule pruned_trans)
qed simp

lemma market_data_act_pruned:
  "pruned (\<lambda>f. \<exists>c meta. acts ctx c \<and> meta \<in> set (meta_files fs) \<and> fl_mtime meta < c \<and>
       fl_name f \<in> set (dataset_files (dataset_of meta)) \<and> dataset_of meta \<notin> set (rx_held ctx) \<and> dataset_of meta \<notin> set refs)
     fs (fst (market_data_act deletable ctx dry_run refs fs))"
proof (cases "keeps_all ctx \<or> is_unsupported_mode (rp_retention_mode (rx_policy ctx)) \<or> dry_run")
  case True
  then show ?thesis by (auto simp: market_data_act_def Let_def)
next
  case False
  then have a: "acts ctx (the (rx_cutoff ctx))" using acts_iff by blast
  from False obtain n k out where "fst (market_data_act deletable ctx dry_run refs fs) =
      fst (foldl (delete_dataset deletable) (fs, n, k, out)
        (map dataset_of (filter (\<lambda>f. dataset_of f \<notin> set (rx_held ctx) \<and> dataset_of f \<notin> set refs \<and> fl_mtime f < the (rx_cutoff ctx)) (meta_files fs))))"
    unfolding market_data_act_def Let_def by (simp add: case_prod_beta)
  then show ?thesis using a by (auto intro!: pruned_mono [OF delete_datasets_pruned]) blast
qed

lemma log_act_pruned:
  "pruned (\<lambda>f. \<exists>c. acts ctx c \<and> fl_mtime f < c \<and> f \<in> set (rotated_log_files [f])) fs (fst (log_act deletable ctx dry_run fs))"
proof (cases "keeps_all ctx \<or> is_unsupported_mode (rp_retention_mode (rx_policy ctx)) \<or> dry_run")
  case True
  then show ?thesis by (auto simp: log_act_def Let_def)
next
  case False
  then have a: "acts ctx (the (rx_cutoff ctx))" using acts_iff by blast
  let ?gone = "filter (\<lambda>f. deletable (fl_name f)) (filter (\<lambda>f. fl_mtime f < the (rx_cutoff ctx)) (rotated_log_files fs))"
  have "fst (log_act deletable ctx dry_run fs) = filter (\<lambda>f. f \<notin> set ?gone) fs" using False by (simp add: log_act_def Let_def)
  then show ?thesis using a by (auto simp: rotated_log_files_def intro!: pruned_filter)
qed

lemma prune_before_observations:
  "observations (Some (fst (prune_before c mk))) = filter (\<lambda>e. \<not> of_int (fst (snd e)) < c) (observations (Some mk))"
proof -
  have "concat (map (\<lambda>(k, obs). map (Pair k) obs) (filter (\<lambda>(k, obs). obs \<noteq> []) (map (\<lambda>(k, obs). (k, filter (\<lambda>(t, _). \<not> of_int t < c) obs)) os))) =
      filter (\<lambda>e. \<not> of_int (fst (snd e)) < c) (concat (map (\<lambda>(k, obs). map (Pair k) obs) os))" for os :: "(string, (int, market_data) dict) dict"
    by (induction os) (auto simp: filter_map comp_def case_prod_beta split: prod.splits)
  then show ?thesis by (simp add: observations_def prune_before_def Let_def)
qed

lemma buffer_act_pruned:
  "pruned (\<lambda>e. \<exists>c. acts ctx c \<and> of_int (fst (snd e)) < c) (observations (Some mk)) (observations (Some (fst (buffer_act ctx dry_run mk))))"
proof (cases "keeps_all ctx \<or> \<not> rp_enabled (rx_policy ctx) \<or> is_unsupported_mode (rp_retention_mode (rx_policy ctx)) \<or> dry_run")
  case True
  then show ?thesis by (auto simp: buffer_act_def Let_def)
next
  case False
  then have a: "acts ctx (the (rx_cutoff ctx))" using acts_iff by blast
  have "fst (buffer_act ctx dry_run mk) = fst (prune_before (the (rx_cutoff ctx)) mk)"
    using False by (simp add: buffer_act_def Let_def split: prod.split)
  then show ?thesis using a by (auto simp: prune_before_observations intro!: pruned_filter)
qed

section \<open>A whole run\<close>

definition ids_distinct :: "data_store \<Rightarrow> bool" where
  "ids_distinct st \<longleftrightarrow>
     distinct (map row_id (dw_timeline st)) \<and> distinct (map row_id (dw_metrics st)) \<and> distinct (map row_id (dw_incidents st)) \<and>
     distinct (map row_id (dw_error_events st)) \<and> distinct (map row_id (dw_sessions st)) \<and> distinct (map row_id (dw_runs st))"

lemma cleaned_ids: "cleaned m now st0 st \<Longrightarrow> ids_distinct st0 \<Longrightarrow> ids_distinct st"
  unfolding cleaned_def rows_cleaned_def reports_cleaned_def ids_distinct_def by (auto dest: pruned_distinct)

lemma cleaned_holds:
  assumes "cleaned m now st0 st"
  shows "is_category_held st cat = is_category_held st0 cat" "get_held_entity_ids st cat = get_held_entity_ids st0 cat"
  using assms by (simp_all add: cleaned_def protected_kept_def is_category_held_def get_held_entity_ids_def)

lemma cleaned_bindings:
  assumes "cleaned m now st0 st"
  shows "referenced key i (dw_experiments st) = referenced key i (dw_experiments st0)"
proof -
  have same: "list_all2 (\<lambda>x x'. xr_run_bindings x' = xr_run_bindings x) (dw_experiments st0) (dw_experiments st)"
    using assms unfolding cleaned_def reports_cleaned_def by (auto elim!: list_all2_mono) (metis experiment_row.select_convs(5) experiment_row.surjective experiment_row.update_convs(4))
  have "map xr_run_bindings (dw_experiments st) = map xr_run_bindings (dw_experiments st0)"
    using same by (induction rule: list_all2_induct) simp_all
  then have "list_ex P (map xr_run_bindings (dw_experiments st)) = list_ex P (map xr_run_bindings (dw_experiments st0))" for P
    by (simp only:)
  then have "list_ex (\<lambda>x. P (xr_run_bindings x)) (dw_experiments st) = list_ex (\<lambda>x. P (xr_run_bindings x)) (dw_experiments st0)" for P
    by (simp add: list_ex_iff)
  then show ?thesis unfolding referenced_def by simp
qed

lemma same_rows: "rows_cleaned m now st0 st \<Longrightarrow> dw_timeline st' = dw_timeline st \<Longrightarrow> dw_metrics st' = dw_metrics st \<Longrightarrow>
    dw_incidents st' = dw_incidents st \<Longrightarrow> dw_error_events st' = dw_error_events st \<Longrightarrow> rows_cleaned m now st0 st'"
  by (simp add: rows_cleaned_def)

lemma same_reports: "reports_cleaned m now st0 st \<Longrightarrow> dw_sessions st' = dw_sessions st \<Longrightarrow> dw_runs st' = dw_runs st \<Longrightarrow>
    dw_experiments st' = dw_experiments st \<Longrightarrow> reports_cleaned m now st0 st'"
  by (simp add: reports_cleaned_def)

lemma fewer_references:
  assumes "files_cleaned m now st0 st" "set (collect_dataset_references st') \<subseteq> set (collect_dataset_references st)"
    "dw_datasets st' = dw_datasets st" "dw_logs st' = dw_logs st" "dw_buffer st' = dw_buffer st"
  shows "files_cleaned m now st0 st'"
proof -
  have "dataset_licence m now st0 (collect_dataset_references st) f \<Longrightarrow> dataset_licence m now st0 (collect_dataset_references st') f" for f
    using assms(2) unfolding dataset_licence_def by blast
  with assms(1) show ?thesis unfolding files_cleaned_def assms(3-5) by (auto intro: pruned_mono)
qed

lemma same_references:
  "dw_sessions st' = dw_sessions st \<Longrightarrow> dw_experiments st' = dw_experiments st \<Longrightarrow> dw_runs st' = dw_runs st \<Longrightarrow>
    collect_dataset_references st' = collect_dataset_references st"
  by (simp add: collect_dataset_references_def)

text \<open>The setting in which a handler acts.\<close>

definition acting :: "retention_manager \<Rightarrow> timestamp \<Rightarrow> data_store \<Rightarrow> retention_context \<Rightarrow> bool" where
  "acting m now st ctx \<longleftrightarrow>
     (let p = rx_policy ctx
      in p \<in> set (dict_values (rz_policies (rm_resolver m))) \<and> rp_enabled p \<and> \<not> is_category_held st (rp_data_category p) \<and>
         cutoff p now = Inr (rx_cutoff ctx) \<and> rx_held ctx = get_held_entity_ids st (rp_data_category p))"

lemma acting_deletes: "acting m now st ctx \<Longrightarrow> acts ctx c \<Longrightarrow> deletes m now st (rp_data_category (rx_policy ctx)) c"
  by (force simp: acting_def acts_def deletes_def list_ex_iff Let_def)

lemma acting_held: "acting m now st ctx \<Longrightarrow> rx_held ctx = get_held_entity_ids st (rp_data_category (rx_policy ctx))"
  by (simp add: acting_def Let_def)

lemma acting_rows:
  assumes "acting m now st0 ctx" "rp_data_category (rx_policy ctx) = cat"
    "pruned (\<lambda>r. \<exists>c. acts ctx c \<and> expired c (rx_held ctx) r) rows rows'"
  shows "pruned (row_licence m now st0 cat) rows rows'"
  by (rule pruned_mono [OF assms(3)])
    (use acting_deletes [OF assms(1)] acting_held [OF assms(1)] assms(2) in \<open>auto simp: row_licence_def\<close>)

lemma handler_trace:
  assumes "acting m now st0 ctx" "cleaned m now st0 st" "ids_distinct st0" "rp_data_category (rx_policy ctx) = TRACE"
  shows "cleaned m now st0 (st\<lparr>dw_timeline := fst (table_act TRACE ctx dry_run (dw_timeline st))\<rparr>)"
proof -
  have "distinct (map row_id (dw_timeline st))" using cleaned_ids [OF assms(2,3)] by (simp add: ids_distinct_def)
  from pruned_trans [OF _ acting_rows [OF assms(1,4) table_act_pruned [OF this, of ctx TRACE dry_run]]] assms(2) show ?thesis
    unfolding cleaned_def
    by (auto simp: protected_kept_def rows_cleaned_def collect_dataset_references_def elim: same_reports fewer_references)
qed

lemma handler_metrics:
  assumes "acting m now st0 ctx" "cleaned m now st0 st" "ids_distinct st0" "rp_data_category (rx_policy ctx) = METRICS"
  shows "cleaned m now st0 (st\<lparr>dw_metrics := fst (table_act METRICS ctx dry_run (dw_metrics st))\<rparr>)"
proof -
  have "distinct (map row_id (dw_metrics st))" using cleaned_ids [OF assms(2,3)] by (simp add: ids_distinct_def)
  from pruned_trans [OF _ acting_rows [OF assms(1,4) table_act_pruned [OF this, of ctx METRICS dry_run]]] assms(2) show ?thesis
    unfolding cleaned_def
    by (auto simp: protected_kept_def rows_cleaned_def collect_dataset_references_def elim: same_reports fewer_references)
qed

lemma handler_alerts:
  assumes "acting m now st0 ctx" "cleaned m now st0 st" "ids_distinct st0" "rp_data_category (rx_policy ctx) = RUNTIME_ALERT"
    "alert_act ctx dry_run (dw_incidents st) (dw_error_events st) = (incidents, events, out)"
  shows "cleaned m now st0 (st\<lparr>dw_incidents := incidents, dw_error_events := events\<rparr>)"
proof -
  have d: "distinct (map row_id (dw_incidents st))" "distinct (map row_id (dw_error_events st))"
    using cleaned_ids [OF assms(2,3)] by (simp_all add: ids_distinct_def)
  note a = alert_act_pruned [OF d assms(5), THEN acting_rows [OF assms(1,4)], THEN pruned_trans [rotated]]
  from a assms(2) show ?thesis
    unfolding cleaned_def
    by (auto simp: protected_kept_def rows_cleaned_def collect_dataset_references_def elim: same_reports fewer_references)
qed

lemma handler_reports:
  assumes "acting m now st0 ctx" "cleaned m now st0 st" "ids_distinct st0" "rp_data_category (rx_policy ctx) = REPORT"
    "report_act ctx dry_run (dw_experiments st) (dw_sessions st) (dw_runs st) = Inr (sessions, wf_runs, out)"
  shows "cleaned m now st0 (st\<lparr>dw_sessions := sessions, dw_runs := wf_runs\<rparr>)"
proof -
  have d: "distinct (map row_id (dw_sessions st))" "distinct (map row_id (dw_runs st))"
    using cleaned_ids [OF assms(2,3)] by (simp_all add: ids_distinct_def)
  note act = report_act_pruned [OF assms(5) d]
  have lic: "pruned (report_licence key m now st0) rows rows'"
    if "pruned (\<lambda>r. \<exists>c. acts ctx c \<and> expired c (rx_held ctx) r \<and> \<not> referenced key (row_id r) (dw_experiments st)) rows rows'" for key rows rows'
    by (rule pruned_mono [OF that]) (use acting_deletes [OF assms(1)] acting_held [OF assms(1)] assms(4) cleaned_bindings [OF assms(2)] in
      \<open>auto simp: report_licence_def row_licence_def\<close>)
  note a = act [THEN conjunct1, THEN lic, THEN pruned_trans [rotated]] act [THEN conjunct2, THEN lic, THEN pruned_trans [rotated]]
  have "set (collect_dataset_references (st\<lparr>dw_sessions := sessions, dw_runs := wf_runs\<rparr>)) \<subseteq> set (collect_dataset_references st)"
    using act [THEN conjunct1, THEN pruned_subset] act [THEN conjunct2, THEN pruned_subset] by (auto simp: collect_dataset_references_def)
  with a assms(2) show ?thesis
    unfolding cleaned_def by (auto simp: protected_kept_def reports_cleaned_def elim: same_rows fewer_references)
qed

lemma handler_artifacts:
  assumes "acting m now st0 ctx" "cleaned m now st0 st" "rp_data_category (rx_policy ctx) = EXPERIMENT_ARTIFACT"
  shows "cleaned m now st0 (st\<lparr>dw_experiments := fst (artifact_act ctx dry_run (dw_experiments st))\<rparr>)"
proof -
  let ?exps = "fst (artifact_act ctx dry_run (dw_experiments st))"
  let ?R = "\<lambda>x x'. x' = x \<or> artifact_licence m now st0 x \<and> x' = x\<lparr>xr_report := xr_report x'\<rparr>"
  have step: "list_all2 ?R (dw_experiments st) ?exps"
    by (rule list_all2_mono [OF artifact_act_kept])
      (use acting_deletes [OF assms(1)] acting_held [OF assms(1)] assms(3) in \<open>auto simp: artifact_licence_def\<close>)
  have trans: "?R x x' \<Longrightarrow> ?R x' x'' \<Longrightarrow> ?R x x''" for x x' x'' by (cases x; cases x'; cases x'') auto
  have "list_all2 ?R (dw_experiments st0) (dw_experiments st)" using assms(2) by (simp add: cleaned_def reports_cleaned_def)
  from list_all2_trans [OF trans this step] have exps: "list_all2 ?R (dw_experiments st0) ?exps" .
  have "list_all2 (\<lambda>x x'. xr_spec x' = xr_spec x) (dw_experiments st) ?exps"
    by (rule list_all2_mono [OF step]) (metis experiment_row.select_convs(6) experiment_row.surjective experiment_row.update_convs(4))
  then have "map xr_spec ?exps = map xr_spec (dw_experiments st)" by (induction rule: list_all2_induct) simp_all
  then have "map (\<lambda>x. extract_dataset_ids (xr_spec x)) ?exps = map (\<lambda>x. extract_dataset_ids (xr_spec x)) (dw_experiments st)"
    by (metis (no_types, lifting) list.map_comp comp_def map_eq_conv)
  then have "collect_dataset_references (st\<lparr>dw_experiments := ?exps\<rparr>) = collect_dataset_references st"
    by (simp add: collect_dataset_references_def)
  with exps assms(2) show ?thesis
    unfolding cleaned_def by (auto simp: protected_kept_def reports_cleaned_def elim: same_rows fewer_references)
qed

lemma handler_datasets:
  assumes "acting m now st0 ctx" "cleaned m now st0 st" "rp_data_category (rx_policy ctx) = MARKET_DATA"
  shows "cleaned m now st0 (st\<lparr>dw_datasets := fst (market_data_act deletable ctx dry_run (collect_dataset_references st) (dw_datasets st))\<rparr>)"
proof -
  let ?refs = "collect_dataset_references st"
  have "set (meta_files (dw_datasets st)) \<subseteq> set (meta_files (dw_datasets st0))"
    using assms(2) unfolding cleaned_def files_cleaned_def meta_files_def by (auto dest: pruned_subset)
  then have "pruned (dataset_licence m now st0 ?refs) (dw_datasets st)
      (fst (market_data_act deletable ctx dry_run ?refs (dw_datasets st)))"
    by (intro pruned_mono [OF market_data_act_pruned])
      (use acting_deletes [OF assms(1)] acting_held [OF assms(1)] assms(3) in \<open>auto simp: dataset_licence_def\<close>)
  from pruned_trans [OF _ this] assms(2) show ?thesis
    unfolding cleaned_def
    by (auto simp: protected_kept_def files_cleaned_def collect_dataset_references_def elim: same_rows same_reports)
qed

lemma handler_logs:
  assumes "acting m now st0 ctx" "cleaned m now st0 st" "rp_data_category (rx_policy ctx) = APPLICATION_LOG"
  shows "cleaned m now st0 (st\<lparr>dw_logs := fst (log_act deletable ctx dry_run (dw_logs st))\<rparr>)"
proof -
  have "pruned (log_licence m now st0) (dw_logs st) (fst (log_act deletable ctx dry_run (dw_logs st)))"
    by (rule pruned_mono [OF log_act_pruned]) (use acting_deletes [OF assms(1)] assms(3) in \<open>auto simp: log_licence_def\<close>)
  from pruned_trans [OF _ this] assms(2) show ?thesis
    unfolding cleaned_def
    by (auto simp: protected_kept_def files_cleaned_def collect_dataset_references_def elim: same_rows same_reports)
qed

lemma handler_buffer:
  assumes "acting m now st0 ctx" "cleaned m now st0 st" "rp_data_category (rx_policy ctx) = MARKET_DATA_BUFFER" "dw_buffer st = Some mk"
  shows "cleaned m now st0 (st\<lparr>dw_buffer := Some (fst (buffer_act ctx dry_run mk))\<rparr>)"
proof -
  have "pruned (observation_licence m now st0) (observations (dw_buffer st)) (observations (Some (fst (buffer_act ctx dry_run mk))))"
    unfolding assms(4) by (rule pruned_mono [OF buffer_act_pruned]) (use acting_deletes [OF assms(1)] assms(3) in \<open>auto simp: observation_licence_def\<close>)
  from pruned_trans [OF _ this] assms(2) show ?thesis
    unfolding cleaned_def
    by (auto simp: protected_kept_def files_cleaned_def collect_dataset_references_def elim: same_rows same_reports)
qed

lemma handler_cleaned:
  assumes "acting m now st0 ctx" "cleaned m now st0 st" "ids_distinct st0"
    "handler_act deletable (rp_data_category (rx_policy ctx)) ctx dry_run st = Inr (st', out)"
  shows "cleaned m now st0 st'"
proof (cases "rp_data_category (rx_policy ctx)")
  case TRACE
  with assms(4) handler_trace [OF assms(1-3) TRACE, of dry_run] show ?thesis by (auto simp: handler_act_def split: prod.splits)
next
  case METRICS
  with assms(4) handler_metrics [OF assms(1-3) METRICS, of dry_run] show ?thesis by (auto simp: handler_act_def split: prod.splits)
next
  case RUNTIME_ALERT
  with assms(4) handler_alerts [OF assms(1-3) RUNTIME_ALERT] show ?thesis by (auto simp: handler_act_def split: prod.splits)
next
  case REPORT
  with assms(4) handler_reports [OF assms(1-3) REPORT] show ?thesis by (auto simp: handler_act_def elim!: res_bind_InrE)
next
  case EXPERIMENT_ARTIFACT
  with assms(4) handler_artifacts [OF assms(1,2) EXPERIMENT_ARTIFACT, of dry_run] show ?thesis
    by (auto simp: handler_act_def split: prod.splits)
next
  case MARKET_DATA
  with assms(4) handler_datasets [OF assms(1,2) MARKET_DATA, of deletable dry_run] show ?thesis
    by (auto simp: handler_act_def split: prod.splits)
next
  case APPLICATION_LOG
  with assms(4) handler_logs [OF assms(1,2) APPLICATION_LOG, of deletable dry_run] show ?thesis
    by (auto simp: handler_act_def split: prod.splits)
next
  case MARKET_DATA_BUFFER
  with assms(2,4) handler_buffer [OF assms(1,2) MARKET_DATA_BUFFER, of _ dry_run] show ?thesis
    by (auto simp: handler_act_def split: prod.splits option.splits)
qed (use assms(2,4) in \<open>simp_all add: handler_act_def\<close>)

lemma evaluate_policy_cleaned:
  assumes "p \<in> set (dict_values (rz_policies (rm_resolver m)))" "cleaned m now st0 st" "ids_distinct st0"
    "evaluate_policy deletable m now dry_run p st = Inr (st', out)"
  shows "cleaned m now st0 st'"
proof (cases "determine_skip_reason m st p")
  case (Some r)
  with assms(2,4) show ?thesis by (simp add: evaluate_policy_def)
next
  case None
  then have ok: "rp_enabled p" "\<not> is_category_held st0 (rp_data_category p)"
    using cleaned_holds [OF assms(2)] by (auto simp: determine_skip_reason_def split: if_splits)
  from assms(4) None obtain c where c: "cutoff p now = Inr c" by (auto simp: evaluate_policy_def elim!: res_bind_InrE)
  let ?ctx = "\<lparr>rx_policy = p, rx_cutoff = c, rx_batch_size = rc_batch_size (rm_config m),
               rx_held = get_held_entity_ids st (rp_data_category p)\<rparr>"
  have a: "acting m now st0 ?ctx" using assms(1) ok c cleaned_holds [OF assms(2)] by (simp add: acting_def Let_def)
  show ?thesis
  proof (cases "handler_act deletable (rp_data_category p) ?ctx dry_run st")
    case (Inl e)
    with assms(2,4) None c show ?thesis by (simp add: evaluate_policy_def Let_def)
  next
    case (Inr r)
    with assms(4) None c have "handler_act deletable (rp_data_category (rx_policy ?ctx)) ?ctx dry_run st = Inr (st', out)"
      by (simp add: evaluate_policy_def Let_def)
    from handler_cleaned [OF a assms(2,3) this] show ?thesis .
  qed
qed

lemma evaluate_policies_cleaned:
  assumes "set ps \<subseteq> set (dict_values (rz_policies (rm_resolver m)))" "cleaned m now st0 st" "ids_distinct st0"
  shows "cleaned m now st0 (fst (evaluate_policies deletable m now dry_run ps st))"
  using assms
proof (induction ps arbitrary: st)
  case (Cons p ps)
  show ?case
  proof (cases "evaluate_policy deletable m now dry_run p st")
    case (Inl e)
    with Cons.prems(2) show ?thesis by simp
  next
    case (Inr r)
    obtain st' out where r: "r = (st', out)" by (cases r)
    with Inr have "cleaned m now st0 st'" using evaluate_policy_cleaned Cons.prems by (metis list.set_intros(1) subset_iff)
    from Cons.IH [OF _ this Cons.prems(3)] Cons.prems(1) show ?thesis
      using Inr r by (simp add: case_prod_beta Let_def)
  qed
qed simp

lemma cleaned_audit: "cleaned m now st (add_audit_event ev st') = cleaned m now st st'"
  by (simp add: cleaned_def protected_kept_def rows_cleaned_def reports_cleaned_def files_cleaned_def add_audit_event_def
      collect_dataset_references_def)

lemma dry_handlers:
  "fst (table_act cat ctx True rows) = rows"
  "\<exists>out. alert_act ctx True incidents events = (incidents, events, out)"
  "report_act ctx True exps sessions wf_runs = Inr (sessions', wf_runs', out) \<Longrightarrow> sessions' = sessions \<and> wf_runs' = wf_runs"
  "fst (artifact_act ctx True exps) = exps" "fst (market_data_act deletable ctx True refs fs) = fs"
  "fst (log_act deletable ctx True fs) = fs" "fst (buffer_act ctx True mk) = mk"
  by (auto simp: table_act_def alert_act_def report_act_def artifact_act_def market_data_act_def log_act_def buffer_act_def Let_def
      elim!: res_bind_InrE split: if_splits prod.splits)

lemma dry_handler_act:
  assumes "handler_act deletable cat ctx True st = Inr (st', out)"
  shows "st' = st"
proof (cases cat)
  case RUNTIME_ALERT
  obtain o' where "alert_act ctx True (dw_incidents st) (dw_error_events st) = (dw_incidents st, dw_error_events st, o')"
    using dry_handlers(2) by blast
  with assms RUNTIME_ALERT show ?thesis by (simp add: handler_act_def)
next
  case REPORT
  with assms dry_handlers(3) show ?thesis by (auto simp: handler_act_def elim!: res_bind_InrE)
qed (use assms dry_handlers(1,4-7) in \<open>auto simp: handler_act_def Let_def case_prod_beta split: option.splits\<close>)

lemma dry_policies: "fst (evaluate_policies deletable m now True ps st) = st"
proof (induction ps)
  case (Cons p ps)
  have "st' = st" if "evaluate_policy deletable m now True p st = Inr (st', out)" for st' out
    using that unfolding evaluate_policy_def Let_def
    by (auto elim!: res_bind_InrE dest: dry_handler_act split: option.splits sum.splits)
  with Cons.IH show ?case by (auto simp: case_prod_beta Let_def split: sum.splits prod.splits)
qed simp

definition tables_restored :: "data_store \<Rightarrow> data_store \<Rightarrow> bool" where
  "tables_restored st st' \<longleftrightarrow>
     st'\<lparr>dw_datasets := dw_datasets st, dw_logs := dw_logs st, dw_buffer := dw_buffer st, dw_audit := dw_audit st\<rparr> = st"

lemma run_once_cases:
  assumes "run_once deletable now run_id trigger dry_run actor m st = (st', r)"
  defines "st1 \<equiv> add_audit_event (run_event RUN_STARTED (Some run_id) actor now) st"
  defines "st2 \<equiv> fst (evaluate_policies deletable m now dry_run (dict_values (rz_policies (rm_resolver m))) st1)"
  obtains (refused) "st' = st" "isl r"
    | (disabled) ev where "st' = add_audit_event ev st1" "\<not> isl r"
    | (failed) ev where "st' = add_audit_event ev (rollback_tables st st2)" "isl r"
    | (completed) ev where "st' = add_audit_event ev st2" "\<not> isl r" "rc_enabled (rm_config m)"
  using assms(1) unfolding run_once_def Let_def st2_def st1_def
  by (auto split: if_splits prod.splits sum.splits)


section \<open>Exact cleaning of a table\<close>

text \<open>C39.  Cleaning a table is exact and its preview predicts it: with a positive batch size, the
  loop over batches leaves precisely the rows that are not expired or are on hold, it reports as
  deleted the number of rows the preview reports as eligible, and that is the number of rows gone.\<close>

theorem table_cleanup_exact:
  assumes "rp_retention_mode (rx_policy ctx) = DELETE" "rx_cutoff ctx = Some c" "0 < rx_batch_size ctx" "distinct (map row_id rows)"
    "table_act cat ctx False rows = (rows', out)" "table_act cat ctx True rows = (rows'', forecast)"
  shows "rows' = filter (\<lambda>r. \<not> (row_time r < c \<and> row_id r \<notin> set (rx_held ctx))) rows \<and> rows'' = rows \<and>
    co_deleted out = co_eligible forecast \<and> co_eligible forecast = length rows - length rows' \<and>
    co_examined out = co_skipped out + co_deleted out + length (filter (\<lambda>r. \<not> row_time r < c) rows)"
proof -
  let ?sel = "expired c (rx_held ctx)"
  have run: "bulk_delete_before (nat (rx_batch_size ctx)) ?sel rows 0 = (filter (\<lambda>r. \<not> ?sel r) rows, length (filter ?sel rows))"
    using bulk_delete_all [OF assms(4), of "nat (rx_batch_size ctx)" ?sel 0] assms(3) by simp
  have flags: "\<not> keeps_all ctx" "\<not> is_unsupported_mode (rp_retention_mode (rx_policy ctx))"
    using assms(1,2) by (simp_all add: keeps_all_def is_unsupported_mode_def)
  have f: "rows'' = rows" "co_eligible forecast = length (filter ?sel rows)"
    using assms(6) flags assms(2) by (auto simp: table_act_def Let_def with_held_def skip_if_def)
  have e: "rows' = filter (\<lambda>r. \<not> ?sel r) rows" "co_deleted out = length (filter ?sel rows)" "co_examined out = length rows"
    "co_skipped out = length (filter (held_expired c (rx_held ctx)) rows)"
    using assms(5) flags assms(1,2) run
    by (auto simp: table_act_def Let_def with_held_def skip_if_def apply_mode_def base_outcome_def split: if_splits)
  have "length (filter ?sel rows) + length rows' = length rows"
    unfolding e(1) by (rule sum_length_filter_compl)
  moreover have "length rows = length (filter (held_expired c (rx_held ctx)) rows) + length (filter ?sel rows) + length (filter (\<lambda>r. \<not> row_time r < c) rows)"
    by (induction rows) (auto simp: expired_def held_expired_def)
  ultimately show ?thesis using e f by (simp add: expired_def)
qed

section \<open>Policies and their overrides\<close>

definition resolver_ok :: "policy_resolver \<Rightarrow> bool" where
  "resolver_ok r \<longleftrightarrow> built_policies (rz_config r) (rz_overrides r) = Inr (rz_policies r)"

lemma parse_mode_value [simp]: "parse_mode (mode_value m) = Inr m"
  by (cases m) (simp_all add: parse_mode_def)

lemma parse_mode_Inr: "parse_mode s = Inr m \<Longrightarrow> s = mode_value m"
  by (auto simp: parse_mode_def split: if_splits)

lemma built_policies_get:
  assumes "built_policies cfg ovs = Inr ps"
  shows "dict_get ps k = (case dict_get (rc_policies cfg) k of None \<Rightarrow> None | Some s \<Rightarrow>
    (case build_policy cfg k s (opt_or (dict_get ovs k) no_override) of Inl _ \<Rightarrow> None | Inr p \<Rightarrow> Some p))"
proof -
  have "res_map (\<lambda>(policy_id, s). res_bind (build_policy cfg policy_id s (opt_or (dict_get ovs policy_id) no_override))
      (\<lambda>p. Inr (policy_id, p))) qs = Inr ps \<Longrightarrow> dict_get ps k = (case dict_get qs k of None \<Rightarrow> None | Some s \<Rightarrow>
    (case build_policy cfg k s (opt_or (dict_get ovs k) no_override) of Inl _ \<Rightarrow> None | Inr p \<Rightarrow> Some p))" for qs
    by (induction qs arbitrary: ps) (auto elim!: res_bind_InrE)
  from this [of "rc_policies cfg"] assms show ?thesis unfolding built_policies_def by blast
qed

lemma rebuild_ok: "rebuild env r = (r', Inr u) \<Longrightarrow> resolver_ok r'"
  by (auto simp: rebuild_def resolver_ok_def split: sum.splits)

lemma new_resolver_ok: "new_resolver env cfg = Inr r \<Longrightarrow> resolver_ok r"
  by (auto simp: new_resolver_def Let_def elim!: res_bind_InrE split: prod.splits dest: rebuild_ok)

lemma resolver_ok_same: "resolver_ok r \<Longrightarrow> rebuild env r = (r', u) \<Longrightarrow> rz_policies r' = rz_policies r"
  by (auto simp: rebuild_def resolver_ok_def)

text \<open>What an update makes of a policy: the changed fields, and nothing else but the author and time.\<close>

definition changed :: "timestamp \<Rightarrow> string option \<Rightarrow> policy_change \<Rightarrow> retention_mode \<Rightarrow> retention_policy \<Rightarrow> retention_policy" where
  "changed now actor ch mode p =
     p\<lparr>rp_retention_period := opt_or (pc_retention_period ch) (rp_retention_period p), rp_retention_mode := mode,
       rp_enabled := opt_or (pc_enabled ch) (rp_enabled p), rp_updated_at := Some now, rp_updated_by := actor\<rparr>"

lemma build_policy_changed:
  assumes "build_policy cfg k s ov = Inr p"
    "build_policy cfg k s (merge_override ov \<lparr>ov_retention_period = pc_retention_period ch, ov_retention_mode = map_option mode_value mode,
        ov_enabled = pc_enabled ch, ov_updated_at = Some (Some now), ov_updated_by = Some actor\<rparr>) = Inr p'"
  shows "p' = changed now actor ch (opt_or mode (rp_retention_mode p)) p"
  using assms unfolding build_policy_def Let_def
  by (cases mode; cases "pc_retention_period ch"; cases "pc_enabled ch")
    (auto elim!: res_bind_InrE simp: changed_def merge_override_def)

definition changes_nothing :: "policy_change \<Rightarrow> bool" where
  "changes_nothing ch \<longleftrightarrow> pc_retention_period ch = None \<and> pc_retention_mode ch = None \<and> pc_enabled ch = None"

lemma resolver_update_effect:
  assumes "resolver_ok r" "dict_get (rz_policies r) policy_id = Some p" "resolver_update env now policy_id ch actor r = (r', Inr v)"
  obtains (same) "r' = r" "changes_nothing ch"
    | (applied) mode where "resolver_ok r'" "pc_retention_mode ch = map_option mode_value mode"
        "dict_get (rz_policies r') policy_id = Some (changed now actor ch (opt_or mode (rp_retention_mode p)) p)"
        "\<And>k. k \<noteq> policy_id \<Longrightarrow> dict_get (rz_policies r') k = dict_get (rz_policies r) k"
proof -
  let ?checked = "res_bind (case pc_retention_period ch of None \<Rightarrow> Inr () | Some s \<Rightarrow> res_bind (parse_duration s) (\<lambda>_. Inr ()))
     (\<lambda>_. case pc_retention_mode ch of None \<Rightarrow> Inr None | Some m \<Rightarrow> res_bind (parse_mode m) (\<lambda>v. Inr (Some (mode_value v))))"
  from assms(2,3) obtain md where md: "?checked = Inr md" by (auto simp: resolver_update_def split: sum.splits)
  then obtain mode where mode: "pc_retention_mode ch = map_option mode_value mode" "md = map_option mode_value mode"
  proof (cases "pc_retention_mode ch")
    case None
    with md that [of None] show thesis by (auto elim!: res_bind_InrE)
  next
    case (Some a)
    with md obtain x where "parse_mode a = Inr x" "md = Some (mode_value x)" by (auto elim!: res_bind_InrE)
    with Some that [of "Some x"] parse_mode_Inr [of a x] show thesis by simp
  qed
  show thesis
  proof (cases "changes_nothing ch")
    case True
    with assms(2,3) md mode have "r' = r" by (auto simp: resolver_update_def changes_nothing_def Let_def)
    with True same show thesis by blast
  next
    case False
    let ?data = "\<lparr>ov_retention_period = pc_retention_period ch, ov_retention_mode = map_option mode_value mode,
        ov_enabled = pc_enabled ch, ov_updated_at = Some (Some now), ov_updated_by = Some actor\<rparr>"
    let ?ovs = "add_override policy_id ?data (rz_overrides r)"
    from False mode(1) have "\<not> (pc_retention_period ch = None \<and> md = None \<and> pc_enabled ch = None)"
      by (simp add: changes_nothing_def mode(2))
    with assms(2,3) md obtain u p' where rb: "rebuild env (r\<lparr>rz_overrides := ?ovs\<rparr>) = (r', Inr u)" "dict_get (rz_policies r') policy_id = Some p'"
      by (auto simp: resolver_update_def Let_def mode(2) elim!: res_bind_InrE split: prod.splits option.splits)
    then have b: "built_policies (rz_config r) ?ovs = Inr (rz_policies r')"
      by (auto simp: rebuild_def split: sum.splits)
    have b0: "built_policies (rz_config r) (rz_overrides r) = Inr (rz_policies r)" using assms(1) by (simp add: resolver_ok_def)
    note old = built_policies_get [OF b0] and new = built_policies_get [OF b]
    have "dict_get (rz_policies r') k = dict_get (rz_policies r) k" if "k \<noteq> policy_id" for k
    proof -
      have "dict_get ?ovs k = dict_get (rz_overrides r) k" using that by (simp add: add_override_def)
      then show ?thesis by (simp only: old new)
    qed
    moreover have "dict_get (rz_policies r') policy_id = Some (changed now actor ch (opt_or mode (rp_retention_mode p)) p)"
    proof -
      obtain s where s: "dict_get (rc_policies (rz_config r)) policy_id = Some s"
        "build_policy (rz_config r) policy_id s (opt_or (dict_get (rz_overrides r) policy_id) no_override) = Inr p"
        using assms(2) old [of policy_id] by (auto split: option.splits sum.splits)
      from rb(2) s(1) new [of policy_id]
      have "build_policy (rz_config r) policy_id s (opt_or (dict_get ?ovs policy_id) no_override) = Inr p'"
        by (auto split: sum.splits)
      then have "p' = changed now actor ch (opt_or mode (rp_retention_mode p)) p"
        by (intro build_policy_changed [OF s(2)]) (simp add: add_override_def)
      with rb(2) show ?thesis by simp
    qed
    ultimately show thesis using applied rebuild_ok [OF rb(1)] mode(1) by blast
  qed
qed

lemma cutoff_later:
  assumes "rp_grace_period p' = rp_grace_period p" "period_delta p = Inr (Some d)" "period_delta p' = Inr (Some d')" "d \<le> d'"
    "cutoff p' t = Inr (Some c')"
  shows "\<exists>c. cutoff p t = Inr (Some c) \<and> c' \<le> c"
proof -
  have g: "grace_delta p' = grace_delta p" using assms(1) by (simp add: grace_delta_def)
  from assms(3,5) g obtain grace where grace: "grace_delta p = Inr grace" "\<not> t - of_int d' < - 62135596800" "\<not> t - of_int d' - of_int grace < - 62135596800"
    "c' = t - of_int d' - of_int grace"
    by (auto simp: cutoff_def check_date_def elim!: res_bind_InrE split: if_splits)
  moreover have "(of_int d :: rat) \<le> of_int d'" using assms(4) by simp
  ultimately show ?thesis using assms(2) by (auto simp: cutoff_def check_date_def)
qed

lemma unconfirmed_change:
  assumes "requires_confirmation (view_of p) (change_view (view_of p) ch) = Inr False" "pc_retention_mode ch = map_option mode_value mode"
    "p' = changed now actor ch (opt_or mode (rp_retention_mode p)) p" "rp_enabled p'" "rp_retention_mode p' = DELETE"
  shows "rp_enabled p" "rp_retention_mode p = DELETE" "rp_grace_period p' = rp_grace_period p"
    "period_delta p' = Inr (Some d') \<Longrightarrow> period_delta p = Inr None \<or> (\<exists>d. period_delta p = Inr (Some d) \<and> d \<le> d')"
proof -
  let ?new = "change_view (view_of p) ch"
  have old: "parse_mode (pv_retention_mode (view_of p)) = Inr (rp_retention_mode p)" "pv_enabled (view_of p) = rp_enabled p"
    "parse_duration (pv_retention_period (view_of p)) = period_delta p" by (simp_all add: view_of_def period_delta_def)
  have "pv_retention_mode ?new = mode_value DELETE" "pv_enabled ?new" "pv_retention_period ?new = rp_retention_period p'"
    using assms(2-5) by (cases mode; simp add: changed_def change_view_def view_of_def)+
  then have new: "parse_mode (pv_retention_mode ?new) = Inr DELETE" "pv_enabled ?new" "parse_duration (pv_retention_period ?new) = period_delta p'"
    by (simp_all only: parse_mode_value period_delta_def)
  note r = assms(1) [unfolded requires_confirmation_def old new res_bind_simps]
  from r new(2) have c: "rp_retention_mode p = DELETE \<and> rp_enabled p" by (auto simp: DESTRUCTIVE_MODES_def split: if_splits)
  then show "rp_enabled p" "rp_retention_mode p = DELETE" by simp_all
  show "rp_grace_period p' = rp_grace_period p" using assms(3) by (simp add: changed_def)
  show "period_delta p = Inr None \<or> (\<exists>d. period_delta p = Inr (Some d) \<and> d \<le> d')" if "period_delta p' = Inr (Some d')"
    using r c that by (auto elim!: res_bind_InrE split: if_splits option.splits)
qed

lemma update_policy_steps:
  assumes "update_policy env now policy_id ch actor False (m, st) = ((m', st'), Inr v)"
    "dict_get (rz_policies (rm_resolver m)) policy_id = Some p"
  obtains w where "requires_confirmation (view_of p) (change_view (view_of p) ch) = Inr False"
    "resolver_update env now policy_id ch actor (rm_resolver m) = (rm_resolver m', Inr w)"
  using assms by (auto simp: update_policy_def Let_def split: sum.splits if_splits prod.splits)

text \<open>C40.  An update of a policy that is not confirmed never makes it delete more: if after the update
  the policy is enabled with mode \<open>DELETE\<close>, it was so before, and at every moment its cutoff is
  at most the old one, unless the old period was \<open>KEEP\<close>.  Policies with another name are as before.\<close>

theorem unconfirmed_update_deletes_no_more:
  assumes "update_policy env now policy_id ch actor False (m, st) = ((m', st'), Inr v)" "resolver_ok (rm_resolver m)"
    "dict_get (rz_policies (rm_resolver m)) policy_id = Some p" "dict_get (rz_policies (rm_resolver m')) k = Some p'"
  shows "if k \<noteq> policy_id then dict_get (rz_policies (rm_resolver m)) k = Some p'
    else rp_enabled p' \<and> rp_retention_mode p' = DELETE \<longrightarrow>
      rp_enabled p \<and> rp_retention_mode p = DELETE \<and>
      (\<forall>t c'. cutoff p' t = Inr (Some c') \<longrightarrow> period_delta p = Inr None \<or> (\<exists>c. cutoff p t = Inr (Some c) \<and> c' \<le> c))"
proof -
  obtain w where w: "requires_confirmation (view_of p) (change_view (view_of p) ch) = Inr False"
    "resolver_update env now policy_id ch actor (rm_resolver m) = (rm_resolver m', Inr w)"
    by (rule update_policy_steps [OF assms(1,3)])
  have bounded: "cutoff p' t = Inr (Some c') \<Longrightarrow> \<exists>d. period_delta p' = Inr (Some d)" for t c'
    by (auto simp: cutoff_def elim!: res_bind_InrE split: option.splits)
  from assms(2,3) w(2) show ?thesis
  proof (cases rule: resolver_update_effect)
    case same
    then show ?thesis using assms(3,4) by auto
  next
    case (applied mode)
    show ?thesis
    proof (cases "k = policy_id")
      case True
      with applied(3) assms(4) have p': "p' = changed now actor ch (opt_or mode (rp_retention_mode p)) p" by simp
      note u = unconfirmed_change [OF w(1) applied(2) p']
      have "period_delta p = Inr None \<or> (\<exists>c. cutoff p t = Inr (Some c) \<and> c' \<le> c)"
        if "rp_enabled p'" "rp_retention_mode p' = DELETE" "cutoff p' t = Inr (Some c')" for t c'
        using bounded [OF that(3)] u(4) [OF that(1,2)] cutoff_later [OF u(3) [OF that(1,2)] _ _ _ that(3)] by blast
      with True u(1,2) show ?thesis by auto
    next
      case False
      with applied(4) assms(4) show ?thesis by simp
    qed
  qed
qed

section \<open>A store with expired data\<close>

definition demo_policy_env :: version_env where
  "demo_policy_env = \<lparr>ve_digest = (\<lambda>ps. ''v1''), ve_iso = (\<lambda>t. ''then'')\<rparr>"

definition demo_retention_config :: "(string, policy_settings) dict \<Rightarrow> retention_config" where
  "demo_retention_config ps = \<lparr>rc_enabled = True, rc_schedule = ''daily'', rc_dry_run = False, rc_batch_size = 1, rc_grace_period = ''0d'', rc_policies = ps\<rparr>"

definition demo_retention :: "(string, policy_settings) dict \<Rightarrow> retention_manager" where
  "demo_retention ps =
     \<lparr>rm_config = demo_retention_config ps, rm_resolver = projr (new_resolver demo_policy_env (demo_retention_config ps)),
      rm_handlers = all_categories, rm_running = False\<rparr>"

definition demo_policies :: "(string, policy_settings) dict" where
  "demo_policies =
     [(''metric_samples'', default_settings METRICS ''30d'' DELETE []),
      (''backtest_reports'', default_settings REPORT ''365d'' DELETE []),
      (''market_datasets'', default_settings MARKET_DATA ''365d'' DELETE [])]"

definition demo_data :: data_store where
  "demo_data =
     \<lparr>dw_orders = [''o1''], dw_trades = [], dw_decisions = [], dw_commits = [], dw_timeline = [],
      dw_metrics = [\<lparr>row_id = ''m1'', row_time = 100\<rparr>, \<lparr>row_id = ''m2'', row_time = 200\<rparr>, \<lparr>row_id = ''m3'', row_time = 100000000\<rparr>,
                    \<lparr>row_id = ''m4'', row_time = 300\<rparr>],
      dw_incidents = [], dw_error_events = [],
      dw_sessions = [\<lparr>row_id = ''s1'', row_time = 100, row_doc = PDict [(''data_source'', PDict [(''source_id'', PStr ''btc'')])]\<rparr>],
      dw_runs = [], dw_experiments = [],
      dw_holds = [\<lparr>ho_id = ''h1'', ho_category = METRICS, ho_entity_id = Some ''m4'', ho_active = True\<rparr>],
      dw_audit = [], dw_datasets = [\<lparr>fl_name = ''btc.csv'', fl_mtime = 50, fl_size = 10\<rparr>, \<lparr>fl_name = ''btc.meta.json'', fl_mtime = 50, fl_size = 2\<rparr>],
      dw_logs = [], dw_buffer = None\<rparr>"

definition demo_retention_run :: "(string, policy_settings) dict \<Rightarrow> data_store \<times> (retention_error + retention_run)" where
  "demo_retention_run ps = run_once (\<lambda>_. True) 100000000 ''run-1'' MANUAL False None (demo_retention ps) demo_data"

lemma demo_retention_run_eval: "map row_id (dw_metrics (fst (demo_retention_run demo_policies))) = [''m3'', ''m4''] \<and>
    dw_sessions (fst (demo_retention_run demo_policies)) = [] \<and> dw_datasets (fst (demo_retention_run demo_policies)) = [] \<and> \<not> isl (snd (demo_retention_run demo_policies))"
  by code_simp


text \<open>A failing run takes the tables back but not the files: here the session is restored, and the
  dataset it refers to is gone.\<close>

definition demo_overflow :: "(string, policy_settings) dict" where
  "demo_overflow = demo_policies @ [(''trace_events'', default_settings TRACE ''3000000d'' DELETE [])]"

lemma failed_run_loses_dataset:
  "snd (demo_retention_run demo_overflow) = Inl (Raised OverflowError) \<and> dw_sessions (fst (demo_retention_run demo_overflow)) = dw_sessions demo_data \<and>
    ''btc'' \<in> set (collect_dataset_references (fst (demo_retention_run demo_overflow))) \<and> dw_datasets (fst (demo_retention_run demo_overflow)) = []"
  by code_simp

lemma log_holds_ignored: "log_act deletable ctx dry_run fs = log_act deletable (ctx\<lparr>rx_held := held\<rparr>) dry_run fs"
  by (cases ctx) (auto intro!: filter_cong simp: log_act_def kept_def unsupported_outcome_def keeps_all_def Let_def)

lemma buffer_holds_ignored: "buffer_act ctx dry_run mk = buffer_act (ctx\<lparr>rx_held := held\<rparr>) dry_run mk"
  by (cases ctx) (simp add: buffer_act_def kept_def unsupported_outcome_def keeps_all_def Let_def)

definition demo_context :: retention_context where
  "demo_context =
     \<lparr>rx_policy = snd (hd (rz_policies (rm_resolver (demo_retention demo_policies)))), rx_cutoff = Some 1000, rx_batch_size = 1,
      rx_held = [''m4'']\<rparr>"

theorem table_cleanup_exact_witness:
  "map row_id (fst (table_act METRICS demo_context False (dw_metrics demo_data))) = [''m3'', ''m4''] \<and>
    co_deleted (snd (table_act METRICS demo_context False (dw_metrics demo_data))) = 2 \<and>
    co_eligible (snd (table_act METRICS demo_context True (dw_metrics demo_data))) = 2"
proof -
  have h: "rp_retention_mode (rx_policy demo_context) = DELETE" "rx_cutoff demo_context = Some 1000" "0 < rx_batch_size demo_context"
    "distinct (map row_id (dw_metrics demo_data))" by code_simp+
  have f: "map row_id (filter (\<lambda>r. \<not> (row_time r < 1000 \<and> row_id r \<notin> set (rx_held demo_context))) (dw_metrics demo_data)) = [''m3'', ''m4'']"
    "length (dw_metrics demo_data) = 4" by code_simp+
  have len: "length (filter (\<lambda>r. \<not> (row_time r < 1000 \<and> row_id r \<notin> set (rx_held demo_context))) (dw_metrics demo_data)) = 2"
  proof -
    have "length (map row_id (filter (\<lambda>r. \<not> (row_time r < 1000 \<and> row_id r \<notin> set (rx_held demo_context))) (dw_metrics demo_data))) = 2"
      unfolding f(1) by simp
    then show ?thesis by (simp only: length_map)
  qed
  note t = table_cleanup_exact [OF h surjective_pairing surjective_pairing, of METRICS]
  note rows = t [THEN conjunct1] and n = t [THEN conjunct2, THEN conjunct2, THEN conjunct1]
    and gone = t [THEN conjunct2, THEN conjunct2, THEN conjunct2, THEN conjunct1]
  have "co_eligible (snd (table_act METRICS demo_context True (dw_metrics demo_data))) = 4 - 2"
    by (simp only: gone rows len f(2))
  with f(1) show ?thesis unfolding n rows by simp
qed

definition demo_change :: policy_change where
  "demo_change = \<lparr>pc_retention_period = Some ''60d'', pc_retention_mode = None, pc_enabled = None\<rparr>"

definition demo_update :: "(retention_manager \<times> data_store) \<times> (retention_error + config)" where
  "demo_update = update_policy demo_policy_env 0 ''metric_samples'' demo_change None False (demo_retention demo_policies, demo_data)"

definition demo_metric_policy :: "retention_manager \<Rightarrow> retention_policy" where
  "demo_metric_policy m = snd (hd (rz_policies (rm_resolver m)))"

theorem unconfirmed_update_deletes_no_more_witness:
  "rp_retention_period (demo_metric_policy (fst (fst demo_update))) = ''60d'' \<and>
    (period_delta (demo_metric_policy (demo_retention demo_policies)) = Inr None \<or>
     (\<exists>c. cutoff (demo_metric_policy (demo_retention demo_policies)) 100000000 = Inr (Some c) \<and> 94816000 \<le> c))"
proof -
  let ?m = "demo_retention demo_policies" and ?m' = "fst (fst demo_update)"
  have u: "update_policy demo_policy_env 0 ''metric_samples'' demo_change None False (?m, demo_data) =
      ((?m', snd (fst demo_update)), Inr (projr (snd demo_update)))"
  proof -
    have "\<not> isl (snd demo_update)" by code_simp
    then have "snd demo_update = Inr (projr (snd demo_update))" by (simp add: sum.collapse)
    then show ?thesis unfolding demo_update_def by (metis prod.collapse)
  qed
  have ok: "resolver_ok (rm_resolver ?m)" by (rule new_resolver_ok [of demo_policy_env "demo_retention_config demo_policies"]) code_simp
  have p: "dict_get (rz_policies (rm_resolver ?m)) ''metric_samples'' = Some (demo_metric_policy ?m)"
    "dict_get (rz_policies (rm_resolver ?m')) ''metric_samples'' = Some (demo_metric_policy ?m')" by code_simp+
  have e: "rp_enabled (demo_metric_policy ?m') \<and> rp_retention_mode (demo_metric_policy ?m') = DELETE" "rp_retention_period (demo_metric_policy ?m') = ''60d''"
    "cutoff (demo_metric_policy ?m') 100000000 = Inr (Some 94816000)" by code_simp+
  from unconfirmed_update_deletes_no_more [OF u ok p] e show ?thesis by simp
qed

end
