(* ===== verification/Spec2Isabelle.thy ===== *)
theory Spec2Isabelle
  imports Prelude Health Domain Session Strategies Consensus Orders Accounts Regimes Protection
    Guards Reconciliation EventBus Merge Versioning Expressions Indicators Markets Sizing Decisions Executor Pipeline Trading
    History Backtest Replay WalkForward Simulation Attribution Evidence Proposals Optimizer Diagnostics
    Retention Cleanup Disposal
begin

text \<open>
  \<^bold>\<open>A verification library for the trading engine.\<close>

  The program trades crypto assets from votes of configured strategies.  Market data arrives on an
  event bus; for each asset the engine detects the market regime, lets the eligible strategies
  vote (consensus), asks the portfolio guard and the per-asset guards for permission, submits an
  order, and polls the exchange until the order is filled.  A fill is written to the journal and
  the order table, matched first-in first-out against the open lots of the session, and changes
  balances and positions.  A reconciliation cycle compares local state with the exchange and may
  pause trading; a health monitor collects conditions and derives what the engine may do.

  \<^bold>\<open>Theories and sources\<close> (paths under \<open>src/\<close>).

  \<^item> \<open>Prelude\<close>: Python values, exceptions (\<open>py_exc\<close>, \<open>'a result\<close>), dictionaries with
    insertion order, and the locales \<open>dictionary\<close>, \<open>stepper\<close>, \<open>versioned\<close>,
    \<open>event_sourced\<close> and \<open>append_only\<close> that hold the inductions the components share.
  \<^item> \<open>Health\<close> (\<open>src/trading/health/*.py\<close>, \<open>src/core/severity.py\<close>): observations, the condition
    registry, recovery and transition policies, permissions, state machine and monitor.  The
    lemmas show when orders are permitted, that a critical global condition restricts every
    scope, when conditions clear, and that the published events determine the monitor's view.
  \<^item> \<open>Domain\<close> (\<open>api/interfaces/*.py\<close>): orders, lots, trades, contexts, sessions, market data.
  \<^item> \<open>Session\<close> (\<open>src/trading/session/fifo_trade_matcher.py\<close>, \<open>session_manager.py\<close>): FIFO
    matching is equal to a reference consumption from the front, conserves quantity and is
    independent of how a sale is split; the position equals the stock of the lots in every
    reachable session; a covered sale realises proceeds minus cost, fee and slippage.
  \<^item> \<open>Strategies\<close> (\<open>src/trading/strategies\<close>, \<open>src/trading/consensus/strategies\<close>): weekly
    schedules, effective weights, the votes of the rule-based strategies, and resolution of an
    asset's configured strategies.
  \<^item> \<open>Consensus\<close> (\<open>src/trading/consensus/consensus_manager.py\<close>, \<open>consensus_decision.py\<close>):
    registration, voting, and quorum as a weighted threshold backed by a vote.
  \<^item> \<open>Orders\<close> (\<open>src/trading/orders/order_manager.py\<close>, the in-memory journal, the order and trade
    repositories and mappers): stored orders only advance, each fill is journalled once,
    shutdown leaves no open order, rows and entities round-trip.
  \<^item> \<open>Accounts\<close> (\<open>src/trading/accounts/*.py\<close>): balance caching, reads with a maximal age, and
    balance events that determine the cached view.
  \<^item> \<open>Regimes\<close> (\<open>src/configuration/portfolio_config.py\<close>, \<open>src/trading/regimes/*.py\<close>).
  \<^item> \<open>Protection\<close> (\<open>src/trading/protection/*.py\<close>): the quote portfolio, policy resolution, the
    portfolio guard and the risk manager; reserved cash equals the open reservations, and a buy
    that passes the guard keeps the limits.
  \<^item> \<open>Guards\<close> (\<open>src/trading/protection/guards/*.py\<close>, \<open>src/trading/helpers/portfolio_helper.py\<close>,
    \<open>protection_manager.py\<close>): cooldown, drawdown and reconciliation guards, pausing.
  \<^item> \<open>Reconciliation\<close> (\<open>src/trading/reconciliation/**/*.py\<close>, \<open>src/trading/fees/fees_manager.py\<close>):
    five reconcilers and the engine with its pause policy.
  \<^item> \<open>EventBus\<close> (\<open>src/events/message_event_bus.py\<close>, \<open>message_subscription.py\<close>): an event reaches each
    subscriber once; a bounded subscription keeps the newest events in order and counts the rest.
  \<^item> \<open>Merge\<close> (\<open>src/vcs/application/semantic_merge.py\<close>): the three-way merge of configurations; a
    merge without conflicts loses no change of either side and every conflict is genuine.
  \<^item> \<open>Versioning\<close> (\<open>src/vcs/application/service.py\<close>, \<open>src/vcs/core\<close>, the blob, commit and
    reference repositories): the version store refines an append-only log whose history is
    well-founded; commit and checkout round-trip; the merge base is a nearest common ancestor; a
    merge fails when its target moved.

  \<^bold>\<open>Conventions.\<close>  An object is a \<open>record\<close> whose fields carry a short prefix of the class; a
  method is a function from the record to the updated record and the result.  Every method that
  takes a lock is one step.  Exceptions are \<open>Inl\<close> values of \<open>'a result\<close>.  \<open>Decimal\<close> and \<open>float\<close>
  values are exact rationals: the rounding of the 28-digit decimal context and of binary floating
  point is not modelled.  What the outside world decides is an argument: the clock, fresh
  identifiers, the exchange's answers, the health of the database, the offset of a time zone, the
  truth value of a strategy expression.  Where a component has public mutators, a step function
  runs one of them and \<open>foldl\<close> over a list of operations gives the reachable states; the locales of
  \<open>Prelude\<close> are interpreted on these step functions.

  \<^bold>\<open>Bounds.\<close>  No fuel is used.  The loop of the FIFO matcher terminates because each round either
  removes a lot or exhausts the sale; the breadth-first search for a merge base because it
  expands a stored commit at most once; every other loop runs over a list.

  \<^bold>\<open>Not modelled.\<close>  Threads, locks and logging; HTTP routes, server services and the language-model
  agent (request/response glue over external services); the exchange clients (network protocols);
  SQL text and migrations (the tables are modelled by the rows they hold); the expression
  language, which calls a third-party interpreter; metrics, retention, backtests and
  walk-forward analysis; the textual difference of two configurations.
\<close>

end
